(* ===== verification/Dcim_Prelude.thy ===== *)
theory Dcim_Prelude
  imports Main "HOL-Library.Char_ord" "HOL-Library.List_Lexorder" "HOL-Library.Product_Lexorder"
begin

text \<open>
  What every component shares: keys and times, the exceptions the source raises or catches,
  Python string operations, ordered selection from a queryset, and a database table as a
  list of rows with the laws of its operations (the locale \<open>keyed_table\<close>).
\<close>

named_theorems row_simps \<open>how a component's operations change the fields of its rows\<close>
named_theorems frame_simps \<open>tables and fields an operation leaves alone\<close>

subsection \<open>Keys, times, exceptions\<close>

text \<open>
  A primary key is a \<open>uuid4\<close> value. The code only compares keys and prints them, so a key is
  a natural number here, and \<open>str(pk)\<close> is its numeral: injective and without a colon, as the
  hexadecimal form is. A time is a \<open>datetime\<close> in microseconds since the epoch (its
  resolution in Python), so \<open>(a - b).total_seconds() >= n\<close> is \<open>a - b \<ge> n * 10 ^ 6\<close>.
\<close>

type_synonym uuid = nat
type_synonym time = int

definition seconds :: "int \<Rightarrow> time" where
  "seconds n = n * 1000000"

definition minutes :: "int \<Rightarrow> time" where
  "minutes n = n * 60000000"

datatype exn =
    ValueError string
  | TypeError
  | AttributeError
  | KeyError
  | IndexError
  | DoesNotExist
  | IntegrityError
  | DataError
  | OperationalError
  | DatabaseError
  | TransactionManagementError
  | ValidationError "(string \<times> string list) list"
  | SNMPConfigurationError string
  | SNMPCredentialError string
  | SNMPResponseError string
  | SNMPTimeoutError string
  | ModbusConfigurationError string
  | ModbusResponseError string
  | DecimalInvalidOperation
  | CacheError
  | DeliveryError string
  | SoftTimeLimitExceeded

text \<open>\<open>str(exc)\<close>; the text of an exception of Python or Django itself is left empty.\<close>

definition exn_text :: "exn \<Rightarrow> string" where
  "exn_text x = (case x of
      ValueError m \<Rightarrow> m
    | DeliveryError m \<Rightarrow> m
    | SNMPConfigurationError m \<Rightarrow> m
    | SNMPCredentialError m \<Rightarrow> m
    | SNMPResponseError m \<Rightarrow> m
    | SNMPTimeoutError m \<Rightarrow> m
    | ModbusConfigurationError m \<Rightarrow> m
    | ModbusResponseError m \<Rightarrow> m
    | _ \<Rightarrow> [])"

text \<open>Following a foreign key or calling \<open>.get\<close>: a missing row raises.\<close>

definition deref :: "'r option \<Rightarrow> exn + 'r" where
  "deref r = (case r of None \<Rightarrow> Inl DoesNotExist | Some x \<Rightarrow> Inr x)"

lemma deref_simps [simp]:
  "deref None = Inl DoesNotExist"
  "deref (Some x) = Inr x"
  by (simp_all add: deref_def)

lemma deref_eq_Inr [simp]: "deref r = Inr x \<longleftrightarrow> r = Some x"
  by (cases r) auto

subsection \<open>Python strings\<close>

text \<open>
  A \<open>str\<close> is a list of characters; the case mapping is the ASCII one, which is what the code's
  own literals need.
\<close>

definition lower_char :: "char \<Rightarrow> char" where
  "lower_char c = (let n = (of_char c :: nat) in if 65 \<le> n \<and> n \<le> 90 then char_of (n + 32) else c)"

definition upper_char :: "char \<Rightarrow> char" where
  "upper_char c = (let n = (of_char c :: nat) in if 97 \<le> n \<and> n \<le> 122 then char_of (n - 32) else c)"

definition lower :: "string \<Rightarrow> string" where
  "lower = map lower_char"

definition upper :: "string \<Rightarrow> string" where
  "upper = map upper_char"

definition is_space :: "char \<Rightarrow> bool" where
  "is_space c = (let n = (of_char c :: nat) in n = 32 \<or> (9 \<le> n \<and> n \<le> 13) \<or> (28 \<le> n \<and> n \<le> 31))"

definition is_digit :: "char \<Rightarrow> bool" where
  "is_digit c = (let n = (of_char c :: nat) in 48 \<le> n \<and> n \<le> 57)"

definition strip :: "string \<Rightarrow> string" where
  "strip s = rev (dropWhile is_space (rev (dropWhile is_space s)))"

fun startswith :: "string \<Rightarrow> string \<Rightarrow> bool" where
  "startswith s [] = True"
| "startswith [] (p # ps) = False"
| "startswith (c # cs) (p # ps) = (c = p \<and> startswith cs ps)"

definition removeprefix :: "string \<Rightarrow> string \<Rightarrow> string" where
  "removeprefix s p = (if startswith s p then drop (length p) s else s)"

fun contains :: "string \<Rightarrow> string \<Rightarrow> bool" where
  "contains [] p = (p = [])"
| "contains (c # cs) p = (startswith (c # cs) p \<or> contains cs p)"

definition icontains :: "string \<Rightarrow> string \<Rightarrow> bool" where
  "icontains s p = contains (lower s) (lower p)"

fun join :: "string \<Rightarrow> string list \<Rightarrow> string" where
  "join sep [] = []"
| "join sep [x] = x"
| "join sep (x # y # ys) = x @ sep @ join sep (y # ys)"

definition digit_char :: "nat \<Rightarrow> char" where
  "digit_char d = char_of (48 + d)"

fun str_nat :: "nat \<Rightarrow> string" where
  "str_nat n = (if n < 10 then [digit_char n] else str_nat (n div 10) @ [digit_char (n mod 10)])"

declare str_nat.simps [simp del]

definition str_int :: "int \<Rightarrow> string" where
  "str_int i = (if i < 0 then ''-'' @ str_nat (nat (- i)) else str_nat (nat i))"

definition nat_of_digits :: "string \<Rightarrow> nat" where
  "nat_of_digits = foldl (\<lambda>acc c. 10 * acc + (of_char c - 48)) 0"

lemma startswith_append: "startswith s p \<longleftrightarrow> (\<exists>t. s = p @ t)"
  by (induction s p rule: startswith.induct) auto

lemma contains_sublist: "contains s p \<longleftrightarrow> (\<exists>u v. s = u @ p @ v)"
proof (induction s)
  case Nil
  then show ?case by auto
next
  case (Cons c cs)
  show ?case
  proof
    assume "contains (c # cs) p"
    then consider "startswith (c # cs) p" | "contains cs p" by auto
    then show "\<exists>u v. c # cs = u @ p @ v"
    proof cases
      case 1
      then obtain t where "c # cs = p @ t" unfolding startswith_append by blast
      then have "c # cs = [] @ p @ t" by simp
      then show ?thesis by blast
    next
      case 2
      with Cons.IH obtain u v where "cs = u @ p @ v" by blast
      then have "c # cs = (c # u) @ p @ v" by simp
      then show ?thesis by blast
    qed
  next
    assume "\<exists>u v. c # cs = u @ p @ v"
    then obtain u v where uv: "c # cs = u @ p @ v" by blast
    show "contains (c # cs) p"
    proof (cases u)
      case Nil
      with uv show ?thesis unfolding contains.simps startswith_append by auto
    next
      case (Cons a u')
      with uv have "cs = u' @ p @ v" by simp
      with Cons.IH show ?thesis by auto
    qed
  qed
qed

lemma of_digit_char: "d < 10 \<Longrightarrow> (of_char (digit_char d) :: nat) = 48 + d"
  by (simp add: digit_char_def)

lemma nat_of_digits_snoc [simp]:
  "nat_of_digits (s @ [c]) = 10 * nat_of_digits s + (of_char c - 48)"
  by (simp add: nat_of_digits_def)

lemma nat_of_digits_str_nat [simp]: "nat_of_digits (str_nat n) = n"
proof (induction n rule: str_nat.induct)
  case (1 n)
  show ?case
  proof (cases "n < 10")
    case True
    then show ?thesis
      by (simp add: str_nat.simps [of n] of_digit_char nat_of_digits_def)
  next
    case False
    with 1 show ?thesis
      by (simp add: str_nat.simps [of n] of_digit_char)
  qed
qed

lemma str_nat_inject [simp]: "str_nat m = str_nat n \<longleftrightarrow> m = n"
  by (metis nat_of_digits_str_nat)

lemma digit_char_is_digit: "d < 10 \<Longrightarrow> is_digit (digit_char d)"
  by (simp add: is_digit_def of_digit_char)

lemma str_nat_digits: "c \<in> set (str_nat n) \<Longrightarrow> is_digit c"
proof (induction n rule: str_nat.induct)
  case (1 n)
  show ?case
  proof (cases "n < 10")
    case True
    with 1 show ?thesis by (simp add: str_nat.simps [of n] digit_char_is_digit)
  next
    case False
    with 1 show ?thesis by (auto simp add: str_nat.simps [of n] digit_char_is_digit)
  qed
qed

lemma str_nat_not_Nil [simp]: "str_nat n \<noteq> []"
  by (subst str_nat.simps) simp

lemma colon_not_digit: "\<not> is_digit CHR '':''"
  by (simp add: is_digit_def)

lemma colon_notin_str_nat [simp]: "CHR '':'' \<notin> set (str_nat n)"
  using str_nat_digits colon_not_digit by blast

text \<open>Two texts cut at their first colon agree iff the parts do.\<close>

lemma colon_split:
  assumes "CHR '':'' \<notin> set a" and "CHR '':'' \<notin> set b"
  shows "a @ CHR '':'' # x = b @ CHR '':'' # y \<longleftrightarrow> a = b \<and> x = y"
  using assms
proof (induction a arbitrary: b)
  case Nil
  then show ?case by (cases b) auto
next
  case (Cons c cs)
  then show ?case by (cases b) auto
qed

subsection \<open>Querysets\<close>

text \<open>
  \<open>order_by\<close> is a stable sort by a key (descending fields are negated in the key), \<open>.first()\<close>
  the head of the ordered rows, if any. Rows that tie on the whole key keep the table's order;
  PostgreSQL leaves their order open.
\<close>

definition order_by :: "('a \<Rightarrow> 'k::linorder) \<Rightarrow> 'a list \<Rightarrow> 'a list" where
  "order_by k = sort_key k"

definition first_row :: "'a list \<Rightarrow> 'a option" where
  "first_row xs = (case xs of [] \<Rightarrow> None | x # _ \<Rightarrow> Some x)"

lemma set_order_by [simp]: "set (order_by k xs) = set xs"
  by (simp add: order_by_def)

lemma length_order_by [simp]: "length (order_by k xs) = length xs"
  by (simp add: order_by_def)

lemma order_by_Nil [simp]: "order_by k [] = []"
  by (simp add: order_by_def)

lemma order_by_single [simp]: "order_by k [x] = [x]"
  by (simp add: order_by_def)

lemma sorted_order_by [simp]: "sorted (map k (order_by k xs))"
  by (simp add: order_by_def)

lemma distinct_order_by [simp]: "distinct (order_by k xs) = distinct xs"
  by (simp add: order_by_def distinct_sort)

lemma first_row_simps [simp]:
  "first_row [] = None"
  "first_row (x # xs) = Some x"
  by (simp_all add: first_row_def)

lemma first_row_None [simp]: "first_row xs = None \<longleftrightarrow> xs = []"
  by (cases xs) auto

lemma first_row_Some_in: "first_row xs = Some x \<Longrightarrow> x \<in> set xs"
  by (cases xs) auto

lemma first_order_by_None: "first_row (order_by k xs) = None \<longleftrightarrow> xs = []"
  by (metis first_row_None length_0_conv length_order_by)

lemma first_order_by_min:
  assumes "first_row (order_by k xs) = Some x" and "y \<in> set xs"
  shows "k x \<le> k y"
proof -
  from assms(1) obtain zs where zs: "order_by k xs = x # zs"
    by (cases "order_by k xs") auto
  have "sorted (map k (x # zs))" using sorted_order_by [of k xs] zs by simp
  moreover have "y \<in> set (x # zs)" using assms(2) set_order_by [of k xs] zs by simp
  ultimately show ?thesis by auto
qed

subsection \<open>Tables\<close>

text \<open>
  A table is the list of its rows in insertion order. \<open>tbl_update pk k f\<close> is
  \<open>UPDATE ... WHERE pk = k\<close> (nothing when the row is gone), \<open>tbl_get\<close> is
  \<open>.filter(pk=k).first()\<close>, \<open>tbl_delete\<close> is \<open>.filter(...).delete()\<close>.
\<close>

definition tbl_get :: "('r \<Rightarrow> uuid) \<Rightarrow> uuid \<Rightarrow> 'r list \<Rightarrow> 'r option" where
  "tbl_get pk k rows = find (\<lambda>r. pk r = k) rows"

definition tbl_update :: "('r \<Rightarrow> uuid) \<Rightarrow> uuid \<Rightarrow> ('r \<Rightarrow> 'r) \<Rightarrow> 'r list \<Rightarrow> 'r list" where
  "tbl_update pk k f rows = map (\<lambda>r. if pk r = k then f r else r) rows"

definition tbl_insert :: "'r \<Rightarrow> 'r list \<Rightarrow> 'r list" where
  "tbl_insert r rows = rows @ [r]"

definition tbl_delete :: "('r \<Rightarrow> bool) \<Rightarrow> 'r list \<Rightarrow> 'r list" where
  "tbl_delete P rows = filter (\<lambda>r. \<not> P r) rows"

definition keys_unique :: "('r \<Rightarrow> uuid) \<Rightarrow> 'r list \<Rightarrow> bool" where
  "keys_unique pk rows = distinct (map pk rows)"

lemma tbl_get_Some: "tbl_get pk k rows = Some r \<Longrightarrow> r \<in> set rows \<and> pk r = k"
  by (auto simp: tbl_get_def find_Some_iff)

lemma tbl_get_None: "tbl_get pk k rows = None \<longleftrightarrow> k \<notin> pk ` set rows"
  by (auto simp: tbl_get_def find_None_iff)

lemma set_tbl_insert [simp]: "set (tbl_insert r rows) = insert r (set rows)"
  by (simp add: tbl_insert_def)

lemma set_tbl_delete [simp]: "set (tbl_delete P rows) = {r \<in> set rows. \<not> P r}"
  by (simp add: tbl_delete_def)

lemma set_tbl_update:
  "set (tbl_update pk k f rows) = (\<lambda>r. if pk r = k then f r else r) ` set rows"
  by (simp add: tbl_update_def)

lemma length_tbl_update [simp]: "length (tbl_update pk k f rows) = length rows"
  by (simp add: tbl_update_def)

lemma tbl_update_absent: "k \<notin> pk ` set rows \<Longrightarrow> tbl_update pk k f rows = rows"
  unfolding tbl_update_def by (rule map_idI) auto

lemma map_tbl_update:
  "(\<And>r. g (f r) = g r) \<Longrightarrow> map g (tbl_update pk k f rows) = map g rows"
  by (simp add: tbl_update_def)

text \<open>
  The contract the components rely on: a table whose rows keep their key. The laws are those
  of a keyed map, stated over \<open>get\<close>.
\<close>

locale keyed_table =
  fixes pk :: "'r \<Rightarrow> uuid"
    and upd :: "uuid \<Rightarrow> ('r \<Rightarrow> 'r) \<Rightarrow> 'r list \<Rightarrow> 'r list"
    and get :: "uuid \<Rightarrow> 'r list \<Rightarrow> 'r option"
  assumes get_upd: "(\<And>r. pk (f r) = pk r) \<Longrightarrow>
      get j (upd k f rows) = (if j = k then map_option f (get k rows) else get j rows)"
    and get_key: "get k rows = Some r \<Longrightarrow> pk r = k \<and> r \<in> set rows"
    and get_in: "distinct (map pk rows) \<Longrightarrow> r \<in> set rows \<Longrightarrow> get (pk r) rows = Some r"
    and upd_keys: "(\<And>r. pk (f r) = pk r) \<Longrightarrow> map pk (upd k f rows) = map pk rows"
begin

lemma get_same: "(\<And>r. pk (f r) = pk r) \<Longrightarrow> get k rows = Some r \<Longrightarrow> get k (upd k f rows) = Some (f r)"
  by (simp add: get_upd)

lemma get_other: "(\<And>r. pk (f r) = pk r) \<Longrightarrow> j \<noteq> k \<Longrightarrow> get j (upd k f rows) = get j rows"
  by (simp add: get_upd)

lemma upd_distinct: "(\<And>r. pk (f r) = pk r) \<Longrightarrow> distinct (map pk rows) \<Longrightarrow> distinct (map pk (upd k f rows))"
  by (simp add: upd_keys)

lemma in_upd:
  assumes "\<And>r. pk (f r) = pk r" and "distinct (map pk rows)" and "x \<in> set (upd k f rows)"
  shows "(pk x = k \<and> (\<exists>r. get k rows = Some r \<and> x = f r)) \<or> (pk x \<noteq> k \<and> x \<in> set rows)"
proof -
  have d: "distinct (map pk (upd k f rows))" using assms(1,2) by (rule upd_distinct)
  have g: "get (pk x) (upd k f rows) = Some x" using d assms(3) by (rule get_in)
  show ?thesis
  proof (cases "pk x = k")
    case True
    with g get_upd [of f k k rows] assms(1) show ?thesis by auto
  next
    case False
    with g get_upd [of f "pk x" k rows] assms(1) have "get (pk x) rows = Some x" by simp
    with get_key False show ?thesis by blast
  qed
qed

end

lemma keyed_table_lists: "keyed_table pk (tbl_update pk) (tbl_get pk)"
proof
  fix f :: "'a \<Rightarrow> 'a" and j k rows
  assume f: "\<And>r. pk (f r) = pk r"
  show "tbl_get pk j (tbl_update pk k f rows) =
      (if j = k then map_option f (tbl_get pk k rows) else tbl_get pk j rows)"
    by (induction rows) (auto simp: tbl_get_def tbl_update_def f)
next
  fix k rows r
  assume "tbl_get pk k rows = Some r"
  then show "pk r = k \<and> r \<in> set rows" by (auto dest: tbl_get_Some)
next
  fix rows r
  assume d: "distinct (map pk rows)" and r: "r \<in> set rows"
  then show "tbl_get pk (pk r) rows = Some r"
    by (induction rows) (auto simp: tbl_get_def)
next
  fix f :: "'a \<Rightarrow> 'a" and k rows
  assume f: "\<And>r. pk (f r) = pk r"
  show "map pk (tbl_update pk k f rows) = map pk rows"
    using f by (rule map_tbl_update)
qed

text \<open>A key the table does not hold: what \<open>uuid4\<close> promises of a new row's key.\<close>

definition fresh_key :: "('r \<Rightarrow> uuid) \<Rightarrow> 'r list \<Rightarrow> uuid" where
  "fresh_key pk rows = foldr max (map (\<lambda>r. Suc (pk r)) rows) 0"

lemma fresh_key_gt: "r \<in> set rows \<Longrightarrow> pk r < fresh_key pk rows"
  by (induction rows) (auto simp: fresh_key_def)

lemma fresh_key_notin: "fresh_key pk rows \<notin> pk ` set rows"
  using fresh_key_gt [of _ rows pk] by fastforce

lemma tbl_get_insert_fresh:
  assumes "pk r \<notin> pk ` set rows"
  shows "tbl_get pk j (tbl_insert r rows) = (if j = pk r then Some r else tbl_get pk j rows)"
proof -
  show ?thesis using assms by (induction rows) (auto simp: tbl_get_def tbl_insert_def)
qed

lemma keys_unique_insert:
  "keys_unique pk rows \<Longrightarrow> pk r \<notin> pk ` set rows \<Longrightarrow> keys_unique pk (tbl_insert r rows)"
  by (simp add: keys_unique_def tbl_insert_def)

lemma keys_unique_update:
  "(\<And>r. pk (f r) = pk r) \<Longrightarrow> keys_unique pk rows \<Longrightarrow> keys_unique pk (tbl_update pk k f rows)"
  by (simp add: keys_unique_def map_tbl_update)

lemma keys_unique_delete: "keys_unique pk rows \<Longrightarrow> keys_unique pk (tbl_delete P rows)"
  by (auto simp: keys_unique_def tbl_delete_def distinct_map intro: inj_on_subset)

text \<open>Saving a model object: an update where the table holds its key, an insert where not.\<close>

definition tbl_put :: "('r \<Rightarrow> uuid) \<Rightarrow> 'r \<Rightarrow> 'r list \<Rightarrow> 'r list" where
  "tbl_put pk r rows =
     (if tbl_get pk (pk r) rows = None then tbl_insert r rows else tbl_update pk (pk r) (\<lambda>_. r) rows)"

lemma in_tbl_put: "x \<in> set (tbl_put pk r rows) \<Longrightarrow> x = r \<or> x \<in> set rows \<and> pk x \<noteq> pk r"
  by (auto simp: tbl_put_def tbl_update_def tbl_get_None image_iff split: if_splits)

lemma tbl_put_has: "r \<in> set (tbl_put pk r rows)"
  by (auto simp: tbl_put_def tbl_update_def tbl_get_def find_None_iff)

lemma keys_unique_put: "keys_unique pk rows \<Longrightarrow> keys_unique pk (tbl_put pk r rows)"
proof (cases "tbl_get pk (pk r) rows = None")
  case True
  assume "keys_unique pk rows"
  with True show ?thesis by (simp add: tbl_put_def keys_unique_insert tbl_get_None)
next
  case False
  assume u: "keys_unique pk rows"
  have "map pk (tbl_update pk (pk r) (\<lambda>_. r) rows) = map pk rows"
    by (simp add: tbl_update_def)
  with u have "keys_unique pk (tbl_update pk (pk r) (\<lambda>_. r) rows)" by (simp add: keys_unique_def)
  with False show ?thesis by (auto simp: tbl_put_def)
qed

text \<open>
  The contract of a validated save: a table whose rows are each well-formed and pairwise free of
  conflict stays so when a row is written that is well-formed and conflicts with no other row.
\<close>

definition table_ok :: "('r \<Rightarrow> uuid) \<Rightarrow> ('r \<Rightarrow> bool) \<Rightarrow> ('r \<Rightarrow> 'r \<Rightarrow> bool) \<Rightarrow> 'r list \<Rightarrow> bool" where
  "table_ok pk good conflict rows = (keys_unique pk rows \<and> (\<forall>r \<in> set rows. good r)
     \<and> (\<forall>x \<in> set rows. \<forall>y \<in> set rows. pk x \<noteq> pk y \<longrightarrow> \<not> conflict x y))"

locale validated_table =
  fixes pk :: "'r \<Rightarrow> uuid"
    and good :: "'r \<Rightarrow> bool"
    and conflict :: "'r \<Rightarrow> 'r \<Rightarrow> bool"
  assumes conflict_sym: "conflict x y \<Longrightarrow> conflict y x"
begin

lemma put_ok:
  assumes "table_ok pk good conflict rows" and "good r" and "\<And>x. x \<in> set rows \<Longrightarrow> pk x \<noteq> pk r \<Longrightarrow> \<not> conflict r x"
  shows "table_ok pk good conflict (tbl_put pk r rows)"
proof -
  have "keys_unique pk (tbl_put pk r rows)"
    using assms(1) by (simp add: table_ok_def keys_unique_put)
  moreover have "\<forall>x \<in> set (tbl_put pk r rows). good x"
    using assms(1,2) by (auto simp: table_ok_def dest: in_tbl_put)
  moreover have "\<not> conflict x y"
    if x: "x \<in> set (tbl_put pk r rows)" and y: "y \<in> set (tbl_put pk r rows)" and xy: "pk x \<noteq> pk y" for x y
  proof -
    from in_tbl_put [OF x] in_tbl_put [OF y] xy
    consider "x = r" "y \<in> set rows" "pk y \<noteq> pk r" | "y = r" "x \<in> set rows" "pk x \<noteq> pk r"
      | "x \<in> set rows" "y \<in> set rows" by auto
    then show ?thesis
    proof cases
      case 1
      then show ?thesis using assms(3) by blast
    next
      case 2
      then show ?thesis using assms(3) conflict_sym by blast
    next
      case 3
      then show ?thesis using assms(1) xy by (simp add: table_ok_def)
    qed
  qed
  ultimately show ?thesis by (simp add: table_ok_def)
qed

lemma empty_ok: "table_ok pk good conflict []"
  by (simp add: table_ok_def keys_unique_def)

end

text \<open>
  The contract of \<open>update_or_create\<close>: at most one row per lookup key, and a write is seen under its
  own key and under no other. What a sequence of writes leaves is the last row written per key.
\<close>

definition last_write :: "('r \<Rightarrow> 'k) \<Rightarrow> 'k \<Rightarrow> 'r list \<Rightarrow> 'r option" where
  "last_write key k rs = find (\<lambda>r. key r = k) (rev rs)"

lemma last_write_Nil [simp]: "last_write key k [] = None"
  by (simp add: last_write_def)

lemma last_write_snoc [simp]: "last_write key k (rs @ [r]) = (if key r = k then Some r else last_write key k rs)"
  by (simp add: last_write_def)

lemma last_write_Cons:
  "last_write key k (r # rs) = (case last_write key k rs of Some x \<Rightarrow> Some x | None \<Rightarrow> if key r = k then Some r else None)"
  by (induction rs rule: rev_induct) (simp_all add: last_write_def)

lemma last_write_Some: "last_write key k rs = Some r \<Longrightarrow> r \<in> set rs \<and> key r = k"
  by (induction rs rule: rev_induct) (auto split: if_splits)

lemma last_write_None: "last_write key k rs = None \<longleftrightarrow> k \<notin> key ` set rs"
  by (auto simp: last_write_def find_None_iff)

locale upsert_table =
  fixes key :: "'r \<Rightarrow> 'k"
    and shown :: "'r \<Rightarrow> 'v"
    and lookup :: "'k \<Rightarrow> 's \<Rightarrow> 'v option"
    and put :: "'r \<Rightarrow> 's \<Rightarrow> 's"
    and ok :: "'s \<Rightarrow> bool"
  assumes lookup_put: "ok s \<Longrightarrow> lookup k (put r s) = (if k = key r then Some (shown r) else lookup k s)"
    and put_keeps: "ok s \<Longrightarrow> ok (put r s)"
begin

lemma puts_keep: "ok s \<Longrightarrow> ok (fold put rs s)"
  by (induction rs arbitrary: s) (simp_all add: put_keeps)

lemma lookup_puts:
  "ok s \<Longrightarrow> lookup k (fold put rs s) = (case last_write key k rs of Some r \<Rightarrow> Some (shown r) | None \<Rightarrow> lookup k s)"
proof (induction rs rule: rev_induct)
  case Nil
  then show ?case by simp
next
  case (snoc r rs)
  then show ?case by (simp add: lookup_put puts_keep)
qed

end

end
