(* ===== verification/Py_Value.thy ===== *)
theory Py_Value
  imports Complex_Main Dcim_Prelude
begin

text \<open>
  Python values the code handles dynamically: the content of a JSON column, the value of a
  telemetry row, a threshold. A float is finite and modelled by the rational it denotes, so
  that Python's exact comparison of an int with a float is the comparison of rationals; a
  Decimal is the rational it denotes. NaN and the infinities are left out.
\<close>

datatype py =
    PNone
  | PBool bool
  | PInt int
  | PFloat rat
  | PDec rat
  | PStr string
  | PList "py list"
  | PDict "(string \<times> py) list"

text \<open>
  What a handler reads from its surroundings: one reading of the clock per call; the text of
  values whose rendering the model leaves open (\<open>str()\<close> of floats, Decimals and containers,
  \<open>isoformat()\<close> of datetimes); whether the cache server answers; the text of the next
  \<open>uuid4().hex\<close>; the rounding of a rational to the nearest double and to the 28 significant
  digits of the Decimal context; and whether the database connection accepts a query after a statement of the
  same \<open>atomic\<close> block failed (Django's does not: it raises \<open>TransactionManagementError\<close>).
\<close>

record env =
  now :: time
  fmt_py :: "py \<Rightarrow> string"
  isoformat :: "time \<Rightarrow> string"
  cache_up :: bool
  fresh_hex :: string
  round_float :: "rat \<Rightarrow> rat"
  round_decimal :: "rat \<Rightarrow> rat"
  query_after_error :: bool

fun truthy :: "py \<Rightarrow> bool" where
  "truthy PNone = False"
| "truthy (PBool b) = b"
| "truthy (PInt i) = (i \<noteq> 0)"
| "truthy (PFloat r) = (r \<noteq> 0)"
| "truthy (PDec r) = (r \<noteq> 0)"
| "truthy (PStr s) = (s \<noteq> [])"
| "truthy (PList xs) = (xs \<noteq> [])"
| "truthy (PDict kvs) = (kvs \<noteq> [])"

text \<open>\<open>bool\<close> is a subclass of \<open>int\<close>: \<open>True\<close> counts as 1 in comparisons and arithmetic.\<close>

fun numeric :: "py \<Rightarrow> rat option" where
  "numeric (PBool b) = Some (if b then 1 else 0)"
| "numeric (PInt i) = Some (of_int i)"
| "numeric (PFloat r) = Some r"
| "numeric (PDec r) = Some r"
| "numeric _ = None"

definition py_eq :: "py \<Rightarrow> py \<Rightarrow> bool" where
  "py_eq a b = (case (numeric a, numeric b) of
      (Some x, Some y) \<Rightarrow> x = y
    | _ \<Rightarrow> a = b)"

text \<open>
  Ordering raises \<open>TypeError\<close> unless both sides are numbers or both are strings. (Python also
  orders lists; no column value or threshold is one.)
\<close>

fun py_less :: "py \<Rightarrow> py \<Rightarrow> exn + bool" where
  "py_less (PStr a) (PStr b) = Inr (a < b)"
| "py_less a b = (case (numeric a, numeric b) of
      (Some x, Some y) \<Rightarrow> Inr (x < y)
    | _ \<Rightarrow> Inl TypeError)"

fun py_le :: "py \<Rightarrow> py \<Rightarrow> exn + bool" where
  "py_le (PStr a) (PStr b) = Inr (a \<le> b)"
| "py_le a b = (case (numeric a, numeric b) of
      (Some x, Some y) \<Rightarrow> Inr (x \<le> y)
    | _ \<Rightarrow> Inl TypeError)"

definition py_str :: "env \<Rightarrow> py \<Rightarrow> string" where
  "py_str e v = (case v of
      PNone \<Rightarrow> ''None''
    | PBool b \<Rightarrow> (if b then ''True'' else ''False'')
    | PInt i \<Rightarrow> str_int i
    | PStr s \<Rightarrow> s
    | _ \<Rightarrow> fmt_py e v)"

text \<open>A JSON or Python dict: insertion order is kept, an assignment to a present key stays in place.\<close>

type_synonym dict = "(string \<times> py) list"

definition dict_get :: "('k \<times> 'v) list \<Rightarrow> 'k \<Rightarrow> 'v option" where
  "dict_get d k = map_of d k"

fun dict_set :: "('k \<times> 'v) list \<Rightarrow> 'k \<Rightarrow> 'v \<Rightarrow> ('k \<times> 'v) list" where
  "dict_set [] k v = [(k, v)]"
| "dict_set ((k', v') # d) k v = (if k' = k then (k, v) # d else (k', v') # dict_set d k v)"

fun dict_merge :: "('k \<times> 'v) list \<Rightarrow> ('k \<times> 'v) list \<Rightarrow> ('k \<times> 'v) list" where
  "dict_merge d [] = d"
| "dict_merge d ((k, v) # u) = dict_merge (dict_set d k v) u"

definition is_str :: "py \<Rightarrow> bool" where
  "is_str v = (case v of PStr _ \<Rightarrow> True | _ \<Rightarrow> False)"

definition opt_py :: "('a \<Rightarrow> py) \<Rightarrow> 'a option \<Rightarrow> py" where
  "opt_py f x = (case x of None \<Rightarrow> PNone | Some y \<Rightarrow> f y)"

text \<open>Python's \<open>a or b\<close> on optional strings: the empty string is falsy too.\<close>

definition str_or :: "string option \<Rightarrow> string \<Rightarrow> string" where
  "str_or s d = (case s of None \<Rightarrow> d | Some t \<Rightarrow> if t = [] then d else t)"

lemma opt_py_simps [simp]: "opt_py f None = PNone" "opt_py f (Some x) = f x"
  by (simp_all add: opt_py_def)

lemma str_or_simps [simp]:
  "str_or None d = d"
  "str_or (Some []) d = d"
  "str_or (Some (c # cs)) d = c # cs"
  by (simp_all add: str_or_def)

lemma dict_get_set [simp]: "dict_get (dict_set d k v) j = (if j = k then Some v else dict_get d j)"
  unfolding dict_get_def by (induction d k v rule: dict_set.induct) auto

lemma dict_get_Nil [simp]: "dict_get [] k = None"
  by (simp add: dict_get_def)

lemma dict_get_Cons [simp]: "dict_get ((k, v) # d) j = (if j = k then Some v else dict_get d j)"
  by (simp add: dict_get_def)

text \<open>In \<open>{**d, **u}\<close> the right operand wins on a key of both (\<open>u\<close> has each key once).\<close>

lemma dict_get_merge:
  "distinct (map fst u) \<Longrightarrow>
    dict_get (dict_merge d u) j = (case dict_get u j of Some v \<Rightarrow> Some v | None \<Rightarrow> dict_get d j)"
proof (induction d u rule: dict_merge.induct)
  case (1 d)
  then show ?case by simp
next
  case (2 d k v u)
  then have IH: "dict_get (dict_merge (dict_set d k v) u) j =
      (case dict_get u j of Some w \<Rightarrow> Some w | None \<Rightarrow> dict_get (dict_set d k v) j)" by simp
  show ?case
  proof (cases "j = k")
    case True
    with "2.prems" have "dict_get u j = None"
      by (auto simp: dict_get_def map_of_eq_None_iff)
    with IH True show ?thesis by simp
  next
    case False
    with IH show ?thesis by (simp split: option.splits)
  qed
qed

lemma dict_set_not_Nil [simp]: "dict_set d k v \<noteq> []"
  by (cases "(d, k, v)" rule: dict_set.cases) auto

lemma py_eq_refl [simp]: "py_eq v v"
  by (auto simp: py_eq_def split: option.splits)

lemma py_eq_sym: "py_eq a b = py_eq b a"
  by (auto simp: py_eq_def split: option.splits)

text \<open>Where two values are comparable the order is total; where not, both orders raise.\<close>

lemma py_less_le_raise: "(py_less a b = Inl e) = (py_le a b = Inl e)"
  by (cases a; cases b) auto

lemma py_less_le:
  assumes "py_less a b = Inr x" and "py_le b a = Inr y"
  shows "x = (\<not> y)"
  using assms by (cases a; cases b) (auto simp: not_less not_le)

subsection \<open>Number literals\<close>

text \<open>
  The text \<open>float()\<close> and \<open>Decimal()\<close> read: a sign, digits with at most one point, an exponent.
  The value is the rational the text denotes; \<open>float\<close>'s rounding to 53 bits, the texts of the
  infinities and of NaN, and underscores between digits are left out.
\<close>

definition take_sign :: "string \<Rightarrow> bool \<times> string" where
  "take_sign s = (case s of
      [] \<Rightarrow> (False, [])
    | c # cs \<Rightarrow> if c = CHR ''-'' then (True, cs) else if c = CHR ''+'' then (False, cs) else (False, c # cs))"

definition ten_to :: "int \<Rightarrow> rat" where
  "ten_to x = (if x \<ge> 0 then 10 ^ nat x else 1 / 10 ^ nat (- x))"

definition parse_exponent :: "string \<Rightarrow> int option" where
  "parse_exponent s = (case s of
      [] \<Rightarrow> Some 0
    | c # cs \<Rightarrow>
        if c = CHR ''e'' \<or> c = CHR ''E''
        then (let (neg, ds) = take_sign cs in
          if ds \<noteq> [] \<and> list_all is_digit ds
          then Some (if neg then - int (nat_of_digits ds) else int (nat_of_digits ds)) else None)
        else None)"

definition parse_number :: "string \<Rightarrow> rat option" where
  "parse_number s =
     (let (neg, s1) = take_sign s;
          ip = takeWhile is_digit s1;
          s2 = dropWhile is_digit s1;
          point = (s2 \<noteq> [] \<and> hd s2 = CHR ''.'');
          fp = (if point then takeWhile is_digit (tl s2) else []);
          s3 = (if point then dropWhile is_digit (tl s2) else s2)
      in if ip @ fp = [] then None
         else (case parse_exponent s3 of
             None \<Rightarrow> None
           | Some x \<Rightarrow> Some ((if neg then - 1 else 1) * of_nat (nat_of_digits (ip @ fp)) * ten_to (x - int (length fp)))))"

definition py_float :: "py \<Rightarrow> exn + rat" where
  "py_float v = (case v of
      PStr s \<Rightarrow> (case parse_number (strip s) of
          None \<Rightarrow> Inl (ValueError ''could not convert string to float'')
        | Some r \<Rightarrow> Inr r)
    | _ \<Rightarrow> (case numeric v of None \<Rightarrow> Inl TypeError | Some r \<Rightarrow> Inr r))"

definition py_or :: "py option \<Rightarrow> py \<Rightarrow> py" where
  "py_or v d = (case v of None \<Rightarrow> d | Some w \<Rightarrow> if truthy w then w else d)"

lemma str_nat_number: "parse_number (str_nat n) = Some (of_nat n)"
proof -
  have dig: "\<forall>c \<in> set (str_nat n). is_digit c" using str_nat_digits by blast
  have nosign: "take_sign (str_nat n) = (False, str_nat n)"
  proof (cases "str_nat n")
    case Nil
    then show ?thesis by simp
  next
    case (Cons c cs)
    with dig have "is_digit c" by simp
    then have "c \<noteq> CHR ''-''" "c \<noteq> CHR ''+''" by (auto simp: is_digit_def)
    with Cons show ?thesis by (simp add: take_sign_def)
  qed
  have tw: "takeWhile is_digit (str_nat n) = str_nat n" "dropWhile is_digit (str_nat n) = []"
    using dig by (simp_all add: takeWhile_eq_all_conv)
  show ?thesis
    unfolding parse_number_def nosign Let_def prod.case tw
    by (simp add: parse_exponent_def ten_to_def)
qed

end
