(* ===== verification/Dcim_Models.thy ===== *)
theory Dcim_Models
  imports Py_Value
begin

text \<open>
  The data of the program: one record per Django model, with the model's columns, one datatype
  per \<open>TextChoices\<close> enumeration, and the database as a record of tables. A nullable column is
  an option, a foreign key is the key of the row it names. The four value columns that
  telemetry rows, thresholds, alert events and condition states share are one record.
\<close>

subsection \<open>Enumerations\<close>

datatype alert_severity = INFO | WARNING | CRITICAL | EMERGENCY

datatype alert_operator = GT | GTE | LT | LTE | EQ | NEQ

datatype alert_status = OPEN | ACKNOWLEDGED | RESOLVED | SUPPRESSED

datatype resolution = RES_AUTO | RES_MANUAL | RES_SUPPRESSED | RES_EXPIRED

datatype log_action =
    LOG_OPENED | LOG_UPDATED | LOG_ACKNOWLEDGED | LOG_RESOLVED | LOG_SUPPRESSED | LOG_ESCALATED
  | LOG_COMMENTED | LOG_NOTIFICATION_CREATED | LOG_NOTIFICATION_SENT | LOG_NOTIFICATION_FAILED

datatype notification_channel = EMAIL | SMS | WEB | WEBHOOK

datatype notification_status = PENDING | DELIVERING | SENT | FAILED

datatype role_scope =
    SCOPE_GLOBAL | SCOPE_ORGANIZATION | SCOPE_DATA_CENTER | SCOPE_ROOM | SCOPE_RACK | SCOPE_DEVICE

datatype device_status = ONLINE | OFFLINE | DEGRADED | MAINTENANCE | UNKNOWN

datatype metric_data_type = FLOAT | INTEGER | BOOLEAN | TEXT

datatype telemetry_quality = GOOD | BAD | STALE | UNKNOWN_QUALITY

datatype trap_severity = TRAP_INFO | TRAP_WARNING | TRAP_CRITICAL

datatype protocol_type = SNMP | MODBUS_TCP | MODBUS_RTU_GATEWAY | MQTT | HTTP_API | PING | MANUAL

datatype snmp_version = V1 | V2C | V3

datatype polling_priority = HIGH | NORMAL | LOW

datatype event_severity = EV_INFO | EV_WARNING | EV_CRITICAL

fun severity_value :: "alert_severity \<Rightarrow> string" where
  "severity_value INFO = ''INFO''"
| "severity_value WARNING = ''WARNING''"
| "severity_value CRITICAL = ''CRITICAL''"
| "severity_value EMERGENCY = ''EMERGENCY''"

fun operator_value :: "alert_operator \<Rightarrow> string" where
  "operator_value GT = ''GT''"
| "operator_value GTE = ''GTE''"
| "operator_value LT = ''LT''"
| "operator_value LTE = ''LTE''"
| "operator_value EQ = ''EQ''"
| "operator_value NEQ = ''NEQ''"

fun status_value :: "alert_status \<Rightarrow> string" where
  "status_value OPEN = ''OPEN''"
| "status_value ACKNOWLEDGED = ''ACKNOWLEDGED''"
| "status_value RESOLVED = ''RESOLVED''"
| "status_value SUPPRESSED = ''SUPPRESSED''"

fun resolution_value :: "resolution \<Rightarrow> string" where
  "resolution_value RES_AUTO = ''AUTO''"
| "resolution_value RES_MANUAL = ''MANUAL''"
| "resolution_value RES_SUPPRESSED = ''SUPPRESSED''"
| "resolution_value RES_EXPIRED = ''EXPIRED''"

fun channel_value :: "notification_channel \<Rightarrow> string" where
  "channel_value EMAIL = ''EMAIL''"
| "channel_value SMS = ''SMS''"
| "channel_value WEB = ''WEB''"
| "channel_value WEBHOOK = ''WEBHOOK''"

fun notification_status_value :: "notification_status \<Rightarrow> string" where
  "notification_status_value PENDING = ''PENDING''"
| "notification_status_value DELIVERING = ''DELIVERING''"
| "notification_status_value SENT = ''SENT''"
| "notification_status_value FAILED = ''FAILED''"

fun metric_type_value :: "metric_data_type \<Rightarrow> string" where
  "metric_type_value FLOAT = ''FLOAT''"
| "metric_type_value INTEGER = ''INTEGER''"
| "metric_type_value BOOLEAN = ''BOOLEAN''"
| "metric_type_value TEXT = ''TEXT''"

text \<open>A trap mapping's severity is stored in an alert by its text, which is an alert severity.\<close>

fun trap_alert_severity :: "trap_severity \<Rightarrow> alert_severity" where
  "trap_alert_severity TRAP_INFO = INFO"
| "trap_alert_severity TRAP_WARNING = WARNING"
| "trap_alert_severity TRAP_CRITICAL = CRITICAL"

lemma channel_value_inject [simp]: "channel_value a = channel_value b \<longleftrightarrow> a = b"
  by (cases a; cases b) auto

lemma channel_value_no_colon [simp]: "CHR '':'' \<notin> set (channel_value c)"
  by (cases c) auto

subsection \<open>Value columns\<close>

record value_cols =
  value_float :: "rat option"
  value_integer :: "int option"
  value_boolean :: "bool option"
  value_text :: "string option"

definition no_value :: value_cols where
  "no_value = \<lparr>value_float = None, value_integer = None, value_boolean = None, value_text = None\<rparr>"

definition set_columns :: "value_cols \<Rightarrow> nat" where
  "set_columns v = (if value_float v \<noteq> None then 1 else 0) + (if value_integer v \<noteq> None then 1 else 0)
     + (if value_boolean v \<noteq> None then 1 else 0) + (if value_text v \<noteq> None then 1 else 0)"

subsection \<open>Sites, devices, users, access\<close>

record organization =
  org_id :: uuid
  org_created_at :: time
  org_name :: string
  org_code :: string
  org_status :: string

record data_center =
  dc_id :: uuid
  dc_organization :: uuid
  dc_name :: string
  dc_code :: string
  dc_timezone :: string

record room =
  rm_id :: uuid
  rm_data_center :: uuid
  rm_name :: string
  rm_code :: string

record rack =
  rk_id :: uuid
  rk_data_center :: uuid
  rk_room :: "uuid option"
  rk_row :: "uuid option"
  rk_name :: string
  rk_code :: string

record device_type =
  dt_id :: uuid
  dt_name :: string
  dt_code :: string

record device =
  dev_id :: uuid
  dev_organization :: uuid
  dev_data_center :: uuid
  dev_room :: "uuid option"
  dev_rack :: "uuid option"
  dev_device_type :: uuid
  dev_device_model :: "uuid option"
  dev_name :: string
  dev_code :: string
  dev_ip_address :: "string option"
  dev_status :: device_status
  dev_is_active :: bool
  dev_last_seen_at :: "time option"

record user =
  usr_id :: uuid
  usr_username :: string
  usr_email :: string
  usr_phone :: "string option"
  usr_is_active :: bool
  usr_is_staff :: bool
  usr_is_superuser :: bool
  usr_date_joined :: time

record role =
  ro_id :: uuid
  ro_name :: string
  ro_code :: string
  ro_scope :: role_scope

record permission =
  pm_id :: uuid
  pm_module :: string
  pm_code :: string

record role_permission =
  rp_id :: uuid
  rp_role :: uuid
  rp_permission :: uuid

record resource_access =
  ra_id :: uuid
  ra_user :: uuid
  ra_organization :: "uuid option"
  ra_data_center :: "uuid option"
  ra_room :: "uuid option"
  ra_rack :: "uuid option"
  ra_device :: "uuid option"
  ra_role :: uuid
  ra_assigned_by :: "uuid option"
  ra_is_active :: bool

subsection \<open>Polling\<close>

record protocol_config =
  pc_id :: uuid
  pc_created_at :: time
  pc_device :: uuid
  pc_protocol :: protocol_type
  pc_host :: string
  pc_port :: "nat option"
  pc_timeout_seconds :: nat
  pc_retry_count :: nat
  pc_is_primary :: bool
  pc_is_enabled :: bool

record credential =
  cr_id :: uuid
  cr_updated_at :: time
  cr_device :: uuid
  cr_protocol :: protocol_type
  cr_username :: "string option"
  cr_snmp_version :: "snmp_version option"
  cr_snmp_community :: "string option"
  cr_v3_auth_protocol :: "string option"
  cr_v3_auth_key :: "string option"
  cr_v3_priv_protocol :: "string option"
  cr_v3_priv_key :: "string option"
  cr_is_active :: bool

record polling_profile =
  pp_id :: uuid
  pp_name :: string
  pp_protocol :: protocol_type
  pp_priority :: polling_priority
  pp_interval_seconds :: nat
  pp_timeout_seconds :: nat
  pp_retry_count :: nat
  pp_stale_after_seconds :: nat
  pp_is_active :: bool

record polling_config =
  pg_id :: uuid
  pg_device :: uuid
  pg_polling_profile :: uuid
  pg_is_enabled :: bool
  pg_last_polled_at :: "time option"
  pg_next_poll_at :: "time option"
  pg_consecutive_failures :: nat
  pg_last_error_message :: "string option"

record oid_mapping =
  om_id :: uuid
  om_device_type :: uuid
  om_device_model :: "uuid option"
  om_metric :: uuid
  om_oid :: string
  om_data_type :: string
  om_scale_factor :: rat
  om_offset_value :: rat
  om_is_active :: bool

text \<open>A register count is that of the mapping; \<open>function_code\<close> is stored as the number.\<close>

record register_mapping =
  rg_id :: uuid
  rg_device_type :: uuid
  rg_device_model :: "uuid option"
  rg_metric :: uuid
  rg_slave_id :: nat
  rg_function_code :: nat
  rg_register_address :: nat
  rg_register_count :: nat
  rg_data_type :: string
  rg_byte_order :: string
  rg_word_order :: string
  rg_scale_factor :: rat
  rg_offset_value :: rat
  rg_is_active :: bool

subsection \<open>Traps\<close>

record trap_source =
  ts_id :: uuid
  ts_organization :: uuid
  ts_data_center :: uuid
  ts_device :: "uuid option"
  ts_source_ip :: string
  ts_is_enabled :: bool

record trap_mapping =
  tm_id :: uuid
  tm_device_type :: uuid
  tm_device_model :: "uuid option"
  tm_trap_oid :: string
  tm_event_code :: string
  tm_event_name :: string
  tm_severity :: trap_severity
  tm_message_template :: "string option"
  tm_create_alert :: bool
  tm_is_active :: bool

record trap_event =
  te_id :: uuid
  te_organization :: "uuid option"
  te_data_center :: "uuid option"
  te_device :: "uuid option"
  te_source_ip :: string
  te_trap_oid :: string
  te_event_code :: "string option"
  te_event_name :: "string option"
  te_severity :: trap_severity
  te_raw_varbinds :: dict
  te_message :: "string option"
  te_received_at :: time
  te_is_mapped :: bool
  te_is_processed :: bool

subsection \<open>Telemetry\<close>

record metric =
  me_id :: uuid
  me_code :: string
  me_name :: string
  me_data_type :: metric_data_type
  me_is_active :: bool

record telemetry_point =
  tp_time :: time
  tp_organization :: uuid
  tp_data_center :: uuid
  tp_device :: uuid
  tp_metric :: uuid
  tp_values :: value_cols
  tp_raw_value_text :: "string option"
  tp_quality :: telemetry_quality
  tp_source :: "string option"
  tp_ingest_id :: "uuid option"

record latest_telemetry =
  lt_id :: uuid
  lt_organization :: uuid
  lt_data_center :: uuid
  lt_device :: uuid
  lt_metric :: uuid
  lt_values :: value_cols
  lt_raw_value_text :: "string option"
  lt_quality :: telemetry_quality
  lt_last_seen_at :: time
  lt_source :: "string option"

record device_event =
  de_organization :: uuid
  de_data_center :: uuid
  de_device :: uuid
  de_event_code :: string
  de_event_name :: string
  de_severity :: event_severity
  de_message :: string
  de_occurred_at :: time
  de_raw_payload :: dict

record ingest_log =
  il_ingest_id :: uuid
  il_device :: "uuid option"
  il_protocol :: string
  il_status :: string
  il_raw_payload :: dict
  il_error_message :: "string option"
  il_started_at :: time
  il_finished_at :: "time option"
  il_duration_ms :: "int option"

subsection \<open>Alerts\<close>

record alert_rule =
  ar_id :: uuid
  ar_created_at :: time
  ar_organization :: uuid
  ar_data_center :: "uuid option"
  ar_device_type :: "uuid option"
  ar_device :: "uuid option"
  ar_metric :: uuid
  ar_name :: string
  ar_operator :: alert_operator
  ar_threshold :: value_cols
  ar_severity :: alert_severity
  ar_duration_seconds :: nat
  ar_is_active :: bool
  ar_message_template :: "string option"

record alert_event =
  ae_id :: uuid
  ae_created_at :: time
  ae_organization :: uuid
  ae_data_center :: uuid
  ae_device :: uuid
  ae_metric :: "uuid option"
  ae_alert_rule :: "uuid option"
  ae_severity :: alert_severity
  ae_status :: alert_status
  ae_values :: value_cols
  ae_message :: string
  ae_triggered_at :: time
  ae_last_seen_at :: "time option"
  ae_acknowledged_by :: "uuid option"
  ae_acknowledged_at :: "time option"
  ae_resolved_by :: "uuid option"
  ae_resolved_at :: "time option"
  ae_resolution_type :: "resolution option"
  ae_acknowledge_comment :: "string option"
  ae_resolve_comment :: "string option"
  ae_occurrence_count :: nat
  ae_metadata :: dict

record condition_state =
  cs_organization :: uuid
  cs_data_center :: uuid
  cs_device :: uuid
  cs_metric :: uuid
  cs_alert_rule :: uuid
  cs_first_seen_at :: time
  cs_last_seen_at :: time
  cs_last_values :: value_cols
  cs_condition_is_active :: bool

record alert_log =
  al_alert_event :: uuid
  al_action :: log_action
  al_old_status :: "alert_status option"
  al_new_status :: "alert_status option"
  al_actor :: "uuid option"
  al_message :: "string option"
  al_value_snapshot :: dict
  al_metadata :: dict

record alert_comment =
  ac_alert_event :: uuid
  ac_user :: "uuid option"
  ac_comment :: string

record escalation_policy =
  ep_id :: uuid
  ep_organization :: "uuid option"
  ep_data_center :: "uuid option"
  ep_severity :: alert_severity
  ep_if_not_acknowledged_minutes :: "int option"
  ep_if_not_resolved_minutes :: "int option"
  ep_target_role :: "uuid option"
  ep_target_users :: "uuid list"
  ep_channel :: notification_channel
  ep_is_active :: bool

record suppression_window =
  sw_id :: uuid
  sw_organization :: "uuid option"
  sw_data_center :: "uuid option"
  sw_device :: "uuid option"
  sw_metric :: "uuid option"
  sw_starts_at :: "time option"
  sw_ends_at :: "time option"
  sw_reason :: "string option"
  sw_created_by :: "uuid option"
  sw_is_active :: bool

subsection \<open>Notifications\<close>

record notification =
  nt_id :: uuid
  nt_created_at :: time
  nt_updated_at :: time
  nt_organization :: uuid
  nt_recipient :: "uuid option"
  nt_channel :: notification_channel
  nt_dedupe_key :: "string option"
  nt_subject :: "string option"
  nt_message :: string
  nt_status :: notification_status
  nt_sent_at :: "time option"
  nt_read_at :: "time option"
  nt_error_message :: "string option"
  nt_metadata :: dict

subsection \<open>Reports and the audit trail\<close>

text \<open>\<open>config\<close>, \<open>parameters\<close> and the recipients are JSON fields: any value can stand there.\<close>

record report_template =
  rt_id :: uuid
  rt_organization :: uuid
  rt_name :: string
  rt_code :: string
  rt_config :: py
  rt_is_active :: bool

datatype job_status = JOB_PENDING | JOB_PROCESSING | JOB_COMPLETED | JOB_FAILED | JOB_CANCELLED

record report_job =
  rj_id :: uuid
  rj_created_at :: time
  rj_organization :: uuid
  rj_data_center :: "uuid option"
  rj_template :: "uuid option"
  rj_requested_by :: "uuid option"
  rj_status :: job_status
  rj_parameters :: py
  rj_file :: "(string \<times> string) option"
  rj_started_at :: "time option"
  rj_completed_at :: "time option"
  rj_error_message :: "string option"

record report_schedule =
  rs_id :: uuid
  rs_created_at :: time
  rs_organization :: uuid
  rs_data_center :: "uuid option"
  rs_name :: string
  rs_report_type :: string
  rs_frequency :: string
  rs_delivery_time :: time
  rs_output_format :: string
  rs_parameters :: py
  rs_recipients :: py
  rs_send_sms :: bool
  rs_sms_recipients :: py
  rs_attach_raw_data :: bool
  rs_is_active :: bool
  rs_next_run_at :: "time option"
  rs_last_run_at :: "time option"
  rs_last_sent_at :: "time option"
  rs_last_delivery_status :: "string option"
  rs_last_error_message :: "string option"
  rs_last_job :: "uuid option"
  rs_created_by :: "uuid option"

record audit_log =
  au_created_at :: time
  au_organization :: "uuid option"
  au_actor :: "uuid option"
  au_action :: string
  au_resource_type :: "string option"
  au_resource_id :: "string option"
  au_old_value :: py
  au_new_value :: py
  au_ip_address :: "string option"
  au_user_agent :: "string option"
  au_message :: "string option"

subsection \<open>Cache, task queue, database\<close>

datatype cache_value = CStr string | CIds "uuid list"

text \<open>A cache entry and the time at which it expires (\<open>timeout=None\<close>: never).\<close>

type_synonym cache = "string \<rightharpoonup> cache_value \<times> time option"

datatype task =
    SendNotification uuid
  | DeliverPendingNotifications
  | ConfirmPacTrap uuid uuid string
  | PollSnmpDevice uuid string
  | PollModbusDevice uuid string
  | ProcessSnmpTrap string string dict
  | GenerateReport uuid
  | DeliverReportSchedule uuid time time

record db =
  organizations :: "organization list"
  data_centers :: "data_center list"
  rooms :: "room list"
  racks :: "rack list"
  device_types :: "device_type list"
  devices :: "device list"
  users :: "user list"
  roles :: "role list"
  permissions :: "permission list"
  role_permissions :: "role_permission list"
  accesses :: "resource_access list"
  protocol_configs :: "protocol_config list"
  credentials :: "credential list"
  polling_profiles :: "polling_profile list"
  polling_configs :: "polling_config list"
  oid_mappings :: "oid_mapping list"
  register_mappings :: "register_mapping list"
  trap_sources :: "trap_source list"
  trap_mappings :: "trap_mapping list"
  trap_events :: "trap_event list"
  metrics :: "metric list"
  points :: "telemetry_point list"
  latest_rows :: "latest_telemetry list"
  device_events :: "device_event list"
  ingest_logs :: "ingest_log list"
  alert_rules :: "alert_rule list"
  alert_events :: "alert_event list"
  condition_states :: "condition_state list"
  alert_logs :: "alert_log list"
  alert_comments :: "alert_comment list"
  escalation_policies :: "escalation_policy list"
  suppression_windows :: "suppression_window list"
  notifications :: "notification list"
  report_templates :: "report_template list"
  report_jobs :: "report_job list"
  report_schedules :: "report_schedule list"
  audit_logs :: "audit_log list"
  shared_cache :: cache
  outbox :: "task list"

definition device_of :: "db \<Rightarrow> uuid \<Rightarrow> device option" where
  "device_of d k = tbl_get dev_id k (devices d)"

definition device_type_of :: "db \<Rightarrow> uuid \<Rightarrow> device_type option" where
  "device_type_of d k = tbl_get dt_id k (device_types d)"

definition metric_of :: "db \<Rightarrow> uuid \<Rightarrow> metric option" where
  "metric_of d k = tbl_get me_id k (metrics d)"

definition rule_of :: "db \<Rightarrow> uuid \<Rightarrow> alert_rule option" where
  "rule_of d k = tbl_get ar_id k (alert_rules d)"

definition alert_of :: "db \<Rightarrow> uuid \<Rightarrow> alert_event option" where
  "alert_of d k = tbl_get ae_id k (alert_events d)"

definition notification_of :: "db \<Rightarrow> uuid \<Rightarrow> notification option" where
  "notification_of d k = tbl_get nt_id k (notifications d)"

definition role_of :: "db \<Rightarrow> uuid \<Rightarrow> role option" where
  "role_of d k = tbl_get ro_id k (roles d)"

definition data_center_of :: "db \<Rightarrow> uuid \<Rightarrow> data_center option" where
  "data_center_of d k = tbl_get dc_id k (data_centers d)"

definition room_of :: "db \<Rightarrow> uuid \<Rightarrow> room option" where
  "room_of d k = tbl_get rm_id k (rooms d)"

definition rack_of :: "db \<Rightarrow> uuid \<Rightarrow> rack option" where
  "rack_of d k = tbl_get rk_id k (racks d)"

definition profile_of :: "db \<Rightarrow> uuid \<Rightarrow> polling_profile option" where
  "profile_of d k = tbl_get pp_id k (polling_profiles d)"

text \<open>The tables with updates in place are keyed tables.\<close>

interpretation alert_tbl: keyed_table ae_id "tbl_update ae_id" "tbl_get ae_id"
  by (rule keyed_table_lists)

interpretation notification_tbl: keyed_table nt_id "tbl_update nt_id" "tbl_get nt_id"
  by (rule keyed_table_lists)

interpretation rule_tbl: keyed_table ar_id "tbl_update ar_id" "tbl_get ar_id"
  by (rule keyed_table_lists)

interpretation device_tbl: keyed_table dev_id "tbl_update dev_id" "tbl_get dev_id"
  by (rule keyed_table_lists)

interpretation latest_tbl: keyed_table lt_id "tbl_update lt_id" "tbl_get lt_id"
  by (rule keyed_table_lists)

interpretation polling_tbl: keyed_table pg_id "tbl_update pg_id" "tbl_get pg_id"
  by (rule keyed_table_lists)

subsection \<open>Transactions\<close>

text \<open>\<open>transaction.atomic\<close>: an exception that leaves the block takes its writes back.\<close>

definition atomic :: "(db \<Rightarrow> (exn + 'a) \<times> db) \<Rightarrow> db \<Rightarrow> (exn + 'a) \<times> db" where
  "atomic f d = (case f d of (Inl x, _) \<Rightarrow> (Inl x, d) | (Inr r, d') \<Rightarrow> (Inr r, d'))"

lemma atomic_Inl: "atomic f d = (Inl x, d') \<Longrightarrow> d' = d"
  by (auto simp: atomic_def split: prod.splits sum.splits)

lemma atomic_Inr: "atomic f d = (Inr r, d') \<longleftrightarrow> f d = (Inr r, d')"
  by (auto simp: atomic_def split: prod.splits sum.splits)

subsection \<open>An empty database and blank rows\<close>

definition empty_db :: db where
  "empty_db = \<lparr>organizations = [], data_centers = [], rooms = [], racks = [], device_types = [],
     devices = [], users = [], roles = [], permissions = [], role_permissions = [], accesses = [],
     protocol_configs = [], credentials = [], polling_profiles = [], polling_configs = [], oid_mappings = [],
     register_mappings = [], trap_sources = [], trap_mappings = [], trap_events = [],
     metrics = [], points = [], latest_rows = [], device_events = [], ingest_logs = [],
     alert_rules = [], alert_events = [], condition_states = [], alert_logs = [],
     alert_comments = [], escalation_policies = [], suppression_windows = [], notifications = [],
     report_templates = [], report_jobs = [], report_schedules = [], audit_logs = [],
     shared_cache = Map.empty, outbox = []\<rparr>"

definition blank_device :: device where
  "blank_device = \<lparr>dev_id = 0, dev_organization = 0, dev_data_center = 0, dev_room = None,
     dev_rack = None, dev_device_type = 0, dev_device_model = None, dev_name = [], dev_code = [],
     dev_ip_address = None, dev_status = UNKNOWN, dev_is_active = True, dev_last_seen_at = None\<rparr>"

definition blank_user :: user where
  "blank_user = \<lparr>usr_id = 0, usr_username = [], usr_email = [], usr_phone = None,
     usr_is_active = True, usr_is_staff = False, usr_is_superuser = False, usr_date_joined = 0\<rparr>"

definition blank_access :: resource_access where
  "blank_access = \<lparr>ra_id = 0, ra_user = 0, ra_organization = None, ra_data_center = None,
     ra_room = None, ra_rack = None, ra_device = None, ra_role = 0, ra_assigned_by = None,
     ra_is_active = True\<rparr>"

definition blank_metric :: metric where
  "blank_metric = \<lparr>me_id = 0, me_code = [], me_name = [], me_data_type = FLOAT, me_is_active = True\<rparr>"

definition blank_latest :: latest_telemetry where
  "blank_latest = \<lparr>lt_id = 0, lt_organization = 0, lt_data_center = 0, lt_device = 0, lt_metric = 0,
     lt_values = no_value, lt_raw_value_text = None, lt_quality = GOOD, lt_last_seen_at = 0,
     lt_source = None\<rparr>"

definition blank_rule :: alert_rule where
  "blank_rule = \<lparr>ar_id = 0, ar_created_at = 0, ar_organization = 0, ar_data_center = None,
     ar_device_type = None, ar_device = None, ar_metric = 0, ar_name = [], ar_operator = GT,
     ar_threshold = no_value, ar_severity = WARNING, ar_duration_seconds = 0, ar_is_active = True,
     ar_message_template = None\<rparr>"

definition blank_event :: alert_event where
  "blank_event = \<lparr>ae_id = 0, ae_created_at = 0, ae_organization = 0, ae_data_center = 0,
     ae_device = 0, ae_metric = None, ae_alert_rule = None, ae_severity = WARNING, ae_status = OPEN,
     ae_values = no_value, ae_message = [], ae_triggered_at = 0, ae_last_seen_at = None,
     ae_acknowledged_by = None, ae_acknowledged_at = None, ae_resolved_by = None,
     ae_resolved_at = None, ae_resolution_type = None, ae_acknowledge_comment = None,
     ae_resolve_comment = None, ae_occurrence_count = 1, ae_metadata = []\<rparr>"

definition blank_notification :: notification where
  "blank_notification = \<lparr>nt_id = 0, nt_created_at = 0, nt_updated_at = 0, nt_organization = 0,
     nt_recipient = None, nt_channel = WEB, nt_dedupe_key = None, nt_subject = None, nt_message = [],
     nt_status = PENDING, nt_sent_at = None, nt_read_at = None, nt_error_message = None,
     nt_metadata = []\<rparr>"

text \<open>A plain environment for closed examples.\<close>

definition plain_env :: "time \<Rightarrow> env" where
  "plain_env t = \<lparr>now = t, fmt_py = (\<lambda>_. ''?''), isoformat = (\<lambda>_. ''T''), cache_up = True,
     fresh_hex = ''v1'', round_float = (\<lambda>r. r), round_decimal = (\<lambda>r. r), query_after_error = False\<rparr>"

lemmas blank_defs = empty_db_def blank_device_def blank_user_def blank_access_def blank_metric_def
  blank_latest_def blank_rule_def blank_event_def blank_notification_def no_value_def plain_env_def

end
