(* ===== verification/Access_Scope.thy ===== *)
theory Access_Scope
  imports Dcim_Models
begin

text \<open>
  \<open>apps/common/access.py\<close> and \<open>apps/common/permissions.py\<close>: the resource tree a user can reach,
  computed from the user's access rows; the filters the viewsets apply with it; the permission
  codes and the permission class. Foreign keys are enforced by the database, so following one
  finds its row; the model skips a key without a row.
\<close>

subsection \<open>The scope of a user\<close>

record scope =
  global_access :: bool
  organization_ids :: "uuid set"
  data_center_ids :: "uuid set"
  room_ids :: "uuid set"
  rack_ids :: "uuid set"
  device_ids :: "uuid set"

definition blank_scope :: scope where
  "blank_scope = \<lparr>global_access = False, organization_ids = {}, data_center_ids = {},
     room_ids = {}, rack_ids = {}, device_ids = {}\<rparr>"

text \<open>Anonymous requests carry no user (\<open>None\<close>).\<close>

definition get_user_resource_access_rows :: "db \<Rightarrow> user option \<Rightarrow> resource_access list" where
  "get_user_resource_access_rows d u = (case u of
      None \<Rightarrow> []
    | Some x \<Rightarrow> filter (\<lambda>r. ra_user r = usr_id x \<and> ra_is_active r) (accesses d))"

definition add_organization :: "scope \<Rightarrow> uuid \<Rightarrow> scope" where
  "add_organization s k = s\<lparr>organization_ids := insert k (organization_ids s)\<rparr>"

definition add_data_center :: "scope \<Rightarrow> data_center \<Rightarrow> scope" where
  "add_data_center s dc =
     add_organization (s\<lparr>data_center_ids := insert (dc_id dc) (data_center_ids s)\<rparr>) (dc_organization dc)"

definition add_data_center_key :: "db \<Rightarrow> scope \<Rightarrow> uuid \<Rightarrow> scope" where
  "add_data_center_key d s k = (case data_center_of d k of None \<Rightarrow> s | Some dc \<Rightarrow> add_data_center s dc)"

definition add_room :: "db \<Rightarrow> scope \<Rightarrow> room \<Rightarrow> scope" where
  "add_room d s rm =
     add_data_center_key d (s\<lparr>room_ids := insert (rm_id rm) (room_ids s)\<rparr>) (rm_data_center rm)"

definition add_room_key :: "db \<Rightarrow> scope \<Rightarrow> uuid option \<Rightarrow> scope" where
  "add_room_key d s k = (case k of None \<Rightarrow> s
    | Some j \<Rightarrow> (case room_of d j of None \<Rightarrow> s | Some rm \<Rightarrow> add_room d s rm))"

text \<open>A rack's data center is never null, so the branch through the room's is not taken.\<close>

definition add_rack :: "db \<Rightarrow> scope \<Rightarrow> rack \<Rightarrow> scope" where
  "add_rack d s rk =
     (let s1 = s\<lparr>rack_ids := insert (rk_id rk) (rack_ids s)\<rparr>;
          s2 = add_room_key d s1 (rk_room rk)
      in add_data_center_key d s2 (rk_data_center rk))"

definition add_rack_key :: "db \<Rightarrow> scope \<Rightarrow> uuid option \<Rightarrow> scope" where
  "add_rack_key d s k = (case k of None \<Rightarrow> s
    | Some j \<Rightarrow> (case rack_of d j of None \<Rightarrow> s | Some rk \<Rightarrow> add_rack d s rk))"

definition add_device :: "db \<Rightarrow> scope \<Rightarrow> device \<Rightarrow> scope" where
  "add_device d s dev =
     (let s1 = s\<lparr>device_ids := insert (dev_id dev) (device_ids s)\<rparr>;
          s2 = add_rack_key d s1 (dev_rack dev);
          s3 = add_room_key d s2 (dev_room dev);
          s4 = add_data_center_key d s3 (dev_data_center dev)
      in add_organization s4 (dev_organization dev))"

definition add_devices :: "db \<Rightarrow> scope \<Rightarrow> device list \<Rightarrow> scope" where
  "add_devices d s devs = foldl (add_device d) s devs"

definition add_rooms :: "db \<Rightarrow> scope \<Rightarrow> room list \<Rightarrow> scope" where
  "add_rooms d s rms = foldl (add_room d) s rms"

definition add_racks :: "db \<Rightarrow> scope \<Rightarrow> rack list \<Rightarrow> scope" where
  "add_racks d s rks = foldl (add_rack d) s rks"

text \<open>The body of the loop over the data centers of an organization row.\<close>

definition add_data_center_tree :: "db \<Rightarrow> scope \<Rightarrow> data_center \<Rightarrow> scope" where
  "add_data_center_tree d s dc =
     (let s1 = add_data_center s dc;
          s2 = add_rooms d s1 (filter (\<lambda>rm. rm_data_center rm = dc_id dc) (rooms d))
      in add_racks d s2 (filter (\<lambda>rk. rk_data_center rk = dc_id dc) (racks d)))"

definition expand_organization :: "db \<Rightarrow> scope \<Rightarrow> uuid \<Rightarrow> scope" where
  "expand_organization d s k =
     (let s1 = add_organization s k;
          s2 = add_devices d s1 (filter (\<lambda>dev. dev_organization dev = k) (devices d))
      in foldl (add_data_center_tree d) s2 (filter (\<lambda>dc. dc_organization dc = k) (data_centers d)))"

definition expand_data_center :: "db \<Rightarrow> scope \<Rightarrow> uuid \<Rightarrow> scope" where
  "expand_data_center d s k =
     (let s1 = add_data_center_key d s k;
          s2 = add_rooms d s1 (filter (\<lambda>rm. rm_data_center rm = k) (rooms d));
          s3 = add_racks d s2 (filter (\<lambda>rk. rk_data_center rk = k) (racks d))
      in add_devices d s3 (filter (\<lambda>dev. dev_data_center dev = k) (devices d)))"

definition expand_room :: "db \<Rightarrow> scope \<Rightarrow> uuid \<Rightarrow> scope" where
  "expand_room d s k =
     (let s1 = add_room_key d s (Some k);
          s2 = add_racks d s1 (filter (\<lambda>rk. rk_room rk = Some k) (racks d))
      in add_devices d s2 (filter (\<lambda>dev. dev_room dev = Some k) (devices d)))"

definition expand_rack :: "db \<Rightarrow> scope \<Rightarrow> uuid \<Rightarrow> scope" where
  "expand_rack d s k =
     add_devices d (add_rack_key d s (Some k)) (filter (\<lambda>dev. dev_rack dev = Some k) (devices d))"

definition expand_device :: "db \<Rightarrow> scope \<Rightarrow> uuid \<Rightarrow> scope" where
  "expand_device d s k = (case device_of d k of None \<Rightarrow> s | Some dev \<Rightarrow> add_device d s dev)"

definition row_is_global :: "db \<Rightarrow> resource_access \<Rightarrow> bool" where
  "row_is_global d r = (case role_of d (ra_role r) of None \<Rightarrow> False | Some ro \<Rightarrow> ro_scope ro = SCOPE_GLOBAL)"

text \<open>The cascade of early returns: the first key of the row that is set decides.\<close>

definition expand_row_scope :: "db \<Rightarrow> scope \<Rightarrow> resource_access \<Rightarrow> scope" where
  "expand_row_scope d s r =
     (if row_is_global d r then s\<lparr>global_access := True\<rparr>
      else case ra_organization r of Some k \<Rightarrow> expand_organization d s k
      | None \<Rightarrow> (case ra_data_center r of Some k \<Rightarrow> expand_data_center d s k
      | None \<Rightarrow> (case ra_room r of Some k \<Rightarrow> expand_room d s k
      | None \<Rightarrow> (case ra_rack r of Some k \<Rightarrow> expand_rack d s k
      | None \<Rightarrow> (case ra_device r of Some k \<Rightarrow> expand_device d s k
      | None \<Rightarrow> s)))))"

text \<open>The loop over the rows stops at the first row that grants global access.\<close>

fun expand_rows :: "db \<Rightarrow> scope \<Rightarrow> resource_access list \<Rightarrow> scope" where
  "expand_rows d s [] = s"
| "expand_rows d s (r # rs) =
     (let s' = expand_row_scope d s r in if global_access s' then s' else expand_rows d s' rs)"

definition get_access_scope :: "db \<Rightarrow> user option \<Rightarrow> scope" where
  "get_access_scope d u = (case u of
      None \<Rightarrow> blank_scope
    | Some x \<Rightarrow>
        if usr_is_superuser x then blank_scope\<lparr>global_access := True\<rparr>
        else expand_rows d blank_scope (get_user_resource_access_rows d u))"

subsection \<open>Permission codes\<close>

definition role_code_list :: "db \<Rightarrow> uuid \<Rightarrow> string list" where
  "role_code_list d k = concat (map (\<lambda>rp. if rp_role rp = k
      then map pm_code (filter (\<lambda>p. pm_id p = rp_permission rp) (permissions d)) else [])
    (role_permissions d))"

definition get_effective_permission_codes :: "db \<Rightarrow> user option \<Rightarrow> string set" where
  "get_effective_permission_codes d u = (case u of
      None \<Rightarrow> {}
    | Some x \<Rightarrow>
        if usr_is_superuser x then set (map pm_code (permissions d))
        else set (concat (map (\<lambda>r. role_code_list d (ra_role r)) (get_user_resource_access_rows d u))))"

definition user_has_permission :: "db \<Rightarrow> user option \<Rightarrow> string \<Rightarrow> bool" where
  "user_has_permission d u code = (case u of
      None \<Rightarrow> False
    | Some x \<Rightarrow> if usr_is_superuser x then True else code \<in> get_effective_permission_codes d u)"

text \<open>\<open>None\<close> stands for "all data centers", as in the code.\<close>

definition allowed_data_center_ids :: "db \<Rightarrow> user option \<Rightarrow> uuid set option" where
  "allowed_data_center_ids d u = (case u of
      None \<Rightarrow> Some {}
    | Some x \<Rightarrow>
        if usr_is_superuser x then None
        else (let s = get_access_scope d u in
          if global_access s then None else Some (data_center_ids s)))"

definition ACTION_PERMISSION_MAP :: "(string \<times> string) list" where
  "ACTION_PERMISSION_MAP =
    [(''list'', ''view''), (''retrieve'', ''view''), (''create'', ''create''),
     (''update'', ''update''), (''partial_update'', ''update''), (''destroy'', ''delete''),
     (''generate'', ''generate''), (''retry'', ''generate''), (''download'', ''download''),
     (''cancel'', ''update''), (''acknowledge'', ''acknowledge''), (''resolve'', ''resolve''),
     (''mark_read'', ''view''), (''mark_all_read'', ''view''), (''ingest'', ''create''),
     (''latest_summary'', ''view''), (''history'', ''view''), (''summary'', ''view'')]"

record view_request =
  req_user :: "user option"
  req_safe_method :: bool
  view_action :: "string option"
  view_permission_module :: "string option"

definition permission_verb :: "view_request \<Rightarrow> string \<Rightarrow> string" where
  "permission_verb q pmod =
     (let act = str_or (view_action q) (if req_safe_method q then ''view'' else ''update'') in
      if pmod = ''access'' then (if act \<in> {''list'', ''retrieve''} then ''view'' else ''manage'')
      else case dict_get ACTION_PERMISSION_MAP act of
        Some v \<Rightarrow> v
      | None \<Rightarrow> (if req_safe_method q then ''view'' else ''update''))"

definition has_permission :: "db \<Rightarrow> view_request \<Rightarrow> bool" where
  "has_permission d q = (case req_user q of
      None \<Rightarrow> False
    | Some x \<Rightarrow>
        if usr_is_superuser x then True
        else if str_or (view_permission_module q) [] = [] then True
        else (let pmod = str_or (view_permission_module q) [] in
          user_has_permission d (req_user q) (pmod @ ''.'' @ permission_verb q pmod)))"

subsection \<open>Querysets restricted to a scope\<close>

datatype level = L_ORGANIZATION | L_DATA_CENTER | L_ROOM | L_RACK | L_DEVICE

fun level_ids :: "scope \<Rightarrow> level \<Rightarrow> uuid set" where
  "level_ids s L_ORGANIZATION = organization_ids s"
| "level_ids s L_DATA_CENTER = data_center_ids s"
| "level_ids s L_ROOM = room_ids s"
| "level_ids s L_RACK = rack_ids s"
| "level_ids s L_DEVICE = device_ids s"

definition all_levels :: "level list" where
  "all_levels = [L_ORGANIZATION, L_DATA_CENTER, L_ROOM, L_RACK, L_DEVICE]"

text \<open>
  The fields of the filtered model, by level: \<open>None\<close> where the model has no such lookup path
  (\<open>_lookup_exists\<close> is false), otherwise the key a row holds there, if any.
\<close>

type_synonym 'r fields = "level \<Rightarrow> ('r \<Rightarrow> uuid option) option"

definition in_ids :: "('r \<Rightarrow> uuid option) \<Rightarrow> uuid set \<Rightarrow> 'r \<Rightarrow> bool" where
  "in_ids f ids r = (case f r of None \<Rightarrow> False | Some k \<Rightarrow> k \<in> ids)"

definition apply_scope_filter :: "'r fields \<Rightarrow> level \<Rightarrow> uuid set \<Rightarrow> 'r list \<Rightarrow> 'r list" where
  "apply_scope_filter fs l ids qs =
     (if ids = {} then []
      else case fs l of None \<Rightarrow> [] | Some f \<Rightarrow> filter (in_ids f ids) qs)"

definition level_matches :: "'r fields \<Rightarrow> scope \<Rightarrow> 'r \<Rightarrow> level \<Rightarrow> bool" where
  "level_matches fs s r l = (case fs l of None \<Rightarrow> False
     | Some f \<Rightarrow> level_ids s l \<noteq> {} \<and> in_ids f (level_ids s l) r)"

definition level_added :: "'r fields \<Rightarrow> scope \<Rightarrow> level \<Rightarrow> bool" where
  "level_added fs s l = (fs l \<noteq> None \<and> level_ids s l \<noteq> {})"

text \<open>\<open>None\<close> is the access scope \<open>"mixed"\<close>.\<close>

definition filter_by_scope :: "scope \<Rightarrow> level option \<Rightarrow> 'r fields \<Rightarrow> 'r list \<Rightarrow> 'r list" where
  "filter_by_scope s acc fs qs =
     (if global_access s then qs
      else if \<forall>l \<in> set all_levels. level_ids s l = {} then []
      else case acc of
        Some l \<Rightarrow> apply_scope_filter fs l (level_ids s l) qs
      | None \<Rightarrow>
          if \<exists>l \<in> set all_levels. level_added fs s l
          then filter (\<lambda>r. \<exists>l \<in> set all_levels. level_matches fs s r l) qs
          else [])"

definition filter_queryset_for_user :: "db \<Rightarrow> user option \<Rightarrow> level option \<Rightarrow> 'r fields \<Rightarrow> 'r list \<Rightarrow> 'r list" where
  "filter_queryset_for_user d u acc fs qs = (case u of
      None \<Rightarrow> []
    | Some _ \<Rightarrow> filter_by_scope (get_access_scope d u) acc fs qs)"

definition get_accessible_queryset :: "scope \<Rightarrow> level \<Rightarrow> ('r \<Rightarrow> uuid) \<Rightarrow> 'r list \<Rightarrow> 'r list" where
  "get_accessible_queryset s l pk rows =
     (if global_access s then rows
      else if level_ids s l = {} then []
      else filter (\<lambda>r. pk r \<in> level_ids s l) rows)"

definition get_accessible_devices_for_user :: "db \<Rightarrow> user option \<Rightarrow> device list" where
  "get_accessible_devices_for_user d u =
     get_accessible_queryset (get_access_scope d u) L_DEVICE dev_id (devices d)"

definition get_accessible_racks_for_user :: "db \<Rightarrow> user option \<Rightarrow> rack list" where
  "get_accessible_racks_for_user d u =
     get_accessible_queryset (get_access_scope d u) L_RACK rk_id (racks d)"

definition get_accessible_rooms_for_user :: "db \<Rightarrow> user option \<Rightarrow> room list" where
  "get_accessible_rooms_for_user d u =
     get_accessible_queryset (get_access_scope d u) L_ROOM rm_id (rooms d)"

definition get_accessible_data_centers_for_user :: "db \<Rightarrow> user option \<Rightarrow> data_center list" where
  "get_accessible_data_centers_for_user d u =
     get_accessible_queryset (get_access_scope d u) L_DATA_CENTER dc_id (data_centers d)"

definition get_accessible_organizations_for_user :: "db \<Rightarrow> user option \<Rightarrow> organization list" where
  "get_accessible_organizations_for_user d u =
     get_accessible_queryset (get_access_scope d u) L_ORGANIZATION org_id (organizations d)"

subsection \<open>Adding to a scope is joining to it\<close>

definition scope_join :: "scope \<Rightarrow> scope \<Rightarrow> scope" where
  "scope_join s t = \<lparr>global_access = (global_access s \<or> global_access t),
     organization_ids = organization_ids s \<union> organization_ids t,
     data_center_ids = data_center_ids s \<union> data_center_ids t,
     room_ids = room_ids s \<union> room_ids t,
     rack_ids = rack_ids s \<union> rack_ids t,
     device_ids = device_ids s \<union> device_ids t\<rparr>"

lemma scope_join_sel [simp]:
  "global_access (scope_join s t) = (global_access s \<or> global_access t)"
  "organization_ids (scope_join s t) = organization_ids s \<union> organization_ids t"
  "data_center_ids (scope_join s t) = data_center_ids s \<union> data_center_ids t"
  "room_ids (scope_join s t) = room_ids s \<union> room_ids t"
  "rack_ids (scope_join s t) = rack_ids s \<union> rack_ids t"
  "device_ids (scope_join s t) = device_ids s \<union> device_ids t"
  by (simp_all add: scope_join_def)

lemma scope_join_blank [simp]: "scope_join s blank_scope = s"
  by (simp add: scope_join_def blank_scope_def)

lemma scope_join_blank_left [simp]: "scope_join blank_scope s = s"
  by (simp add: scope_join_def blank_scope_def)

lemma blank_scope_sel [simp]:
  "\<not> global_access blank_scope" "organization_ids blank_scope = {}" "data_center_ids blank_scope = {}"
  "room_ids blank_scope = {}" "rack_ids blank_scope = {}" "device_ids blank_scope = {}"
  by (simp_all add: blank_scope_def)

lemma join_add_organization: "add_organization (scope_join s t) k = scope_join s (add_organization t k)"
  by (simp add: add_organization_def scope_join_def)

lemma join_add_data_center: "add_data_center (scope_join s t) dc = scope_join s (add_data_center t dc)"
  by (simp add: add_data_center_def add_organization_def scope_join_def)

lemma join_add_data_center_key:
  "add_data_center_key d (scope_join s t) k = scope_join s (add_data_center_key d t k)"
  by (simp add: add_data_center_key_def join_add_data_center split: option.split)

lemma join_add_room: "add_room d (scope_join s t) rm = scope_join s (add_room d t rm)"
  unfolding add_room_def join_add_data_center_key [symmetric] by (simp add: scope_join_def)

lemma join_add_room_key: "add_room_key d (scope_join s t) k = scope_join s (add_room_key d t k)"
  by (simp add: add_room_key_def join_add_room split: option.split)

lemma join_add_rack: "add_rack d (scope_join s t) rk = scope_join s (add_rack d t rk)"
  unfolding add_rack_def Let_def join_add_data_center_key [symmetric] join_add_room_key [symmetric]
  by (simp add: scope_join_def)

lemma join_add_rack_key: "add_rack_key d (scope_join s t) k = scope_join s (add_rack_key d t k)"
  by (simp add: add_rack_key_def join_add_rack split: option.split)

lemma join_add_device: "add_device d (scope_join s t) dev = scope_join s (add_device d t dev)"
  unfolding add_device_def Let_def join_add_organization [symmetric] join_add_data_center_key [symmetric]
    join_add_room_key [symmetric] join_add_rack_key [symmetric]
  by (simp add: scope_join_def)

lemma join_foldl:
  "(\<And>s t x. f (scope_join s t) x = scope_join s (f t x)) \<Longrightarrow>
    foldl f (scope_join s t) xs = scope_join s (foldl f t xs)"
  by (induction xs arbitrary: t) auto

lemmas join_adds = join_add_organization join_add_data_center join_add_data_center_key join_add_room
  join_add_room_key join_add_rack join_add_rack_key join_add_device

lemma join_add_devices: "add_devices d (scope_join s t) xs = scope_join s (add_devices d t xs)"
  unfolding add_devices_def by (rule join_foldl) (rule join_adds)

lemma join_add_rooms: "add_rooms d (scope_join s t) xs = scope_join s (add_rooms d t xs)"
  unfolding add_rooms_def by (rule join_foldl) (rule join_adds)

lemma join_add_racks: "add_racks d (scope_join s t) xs = scope_join s (add_racks d t xs)"
  unfolding add_racks_def by (rule join_foldl) (rule join_adds)

lemma join_add_tree: "add_data_center_tree d (scope_join s t) dc = scope_join s (add_data_center_tree d t dc)"
  by (simp add: add_data_center_tree_def join_adds join_add_rooms join_add_racks Let_def)

lemma join_expand_row_scope:
  "expand_row_scope d (scope_join s t) r = scope_join s (expand_row_scope d t r)"
proof -
  have g: "(scope_join s t)\<lparr>global_access := True\<rparr> = scope_join s (t\<lparr>global_access := True\<rparr>)"
    by (simp add: scope_join_def)
  have o: "expand_organization d (scope_join s t) k = scope_join s (expand_organization d t k)" for k
    by (simp add: expand_organization_def join_adds join_add_devices join_foldl join_add_tree Let_def)
  show ?thesis
    by (simp add: expand_row_scope_def g o expand_data_center_def expand_room_def expand_rack_def
        expand_device_def join_adds join_add_devices join_add_rooms join_add_racks Let_def
        split: option.split)
qed

lemma expand_row_scope_blank:
  "expand_row_scope d s r = scope_join s (expand_row_scope d blank_scope r)"
  using join_expand_row_scope [of d s blank_scope r] by simp

subsection \<open>What a row adds\<close>

lemma add_sel [simp]:
  "global_access (add_organization s k) = global_access s"
  "device_ids (add_organization s k) = device_ids s"
  "global_access (add_data_center s dc) = global_access s"
  "device_ids (add_data_center s dc) = device_ids s"
  "global_access (add_data_center_key d s k) = global_access s"
  "device_ids (add_data_center_key d s k) = device_ids s"
  by (simp_all add: add_organization_def add_data_center_def add_data_center_key_def split: option.split)

lemma add_room_sel [simp]:
  "global_access (add_room d s rm) = global_access s"
  "device_ids (add_room d s rm) = device_ids s"
  "global_access (add_room_key d s k) = global_access s"
  "device_ids (add_room_key d s k) = device_ids s"
  by (simp_all add: add_room_def add_room_key_def split: option.split)

lemma add_rack_sel [simp]:
  "global_access (add_rack d s rk) = global_access s"
  "device_ids (add_rack d s rk) = device_ids s"
  "global_access (add_rack_key d s j) = global_access s"
  "device_ids (add_rack_key d s j) = device_ids s"
  by (simp_all add: add_rack_def add_rack_key_def Let_def split: option.split)

lemma add_device_sel [simp]:
  "global_access (add_device d s dev) = global_access s"
  "device_ids (add_device d s dev) = insert (dev_id dev) (device_ids s)"
  by (simp_all add: add_device_def Let_def)

lemma add_many_sel [simp]:
  "global_access (add_devices d s devs) = global_access s"
  "device_ids (add_devices d s devs) = dev_id ` set devs \<union> device_ids s"
  "global_access (add_rooms d s rms) = global_access s"
  "device_ids (add_rooms d s rms) = device_ids s"
  "global_access (add_racks d s rks) = global_access s"
  "device_ids (add_racks d s rks) = device_ids s"
proof -
  show "global_access (add_devices d s devs) = global_access s"
    and "device_ids (add_devices d s devs) = dev_id ` set devs \<union> device_ids s"
    by (induction devs arbitrary: s) (simp_all add: add_devices_def)
  show "global_access (add_rooms d s rms) = global_access s" "device_ids (add_rooms d s rms) = device_ids s"
    by (induction rms arbitrary: s) (simp_all add: add_rooms_def)
  show "global_access (add_racks d s rks) = global_access s" "device_ids (add_racks d s rks) = device_ids s"
    by (induction rks arbitrary: s) (simp_all add: add_racks_def)
qed

lemma add_trees_sel [simp]:
  "global_access (foldl (add_data_center_tree d) s dcs) = global_access s"
  "device_ids (foldl (add_data_center_tree d) s dcs) = device_ids s"
  by (induction dcs arbitrary: s) (simp_all add: add_data_center_tree_def Let_def)

text \<open>The devices a row is about: those of the widest key it sets.\<close>

definition row_covers :: "resource_access \<Rightarrow> device \<Rightarrow> bool" where
  "row_covers r dev =
     (case ra_organization r of Some k \<Rightarrow> dev_organization dev = k
      | None \<Rightarrow> (case ra_data_center r of Some k \<Rightarrow> dev_data_center dev = k
      | None \<Rightarrow> (case ra_room r of Some k \<Rightarrow> dev_room dev = Some k
      | None \<Rightarrow> (case ra_rack r of Some k \<Rightarrow> dev_rack dev = Some k
      | None \<Rightarrow> (case ra_device r of Some k \<Rightarrow> dev_id dev = k
      | None \<Rightarrow> False)))))"

lemma device_of_iff:
  "keys_unique dev_id (devices d) \<Longrightarrow> device_of d k = Some dev \<longleftrightarrow> dev \<in> set (devices d) \<and> dev_id dev = k"
  unfolding device_of_def keys_unique_def using device_tbl.get_key device_tbl.get_in by blast

lemma device_of_None: "device_of d k = None \<longleftrightarrow> k \<notin> dev_id ` set (devices d)"
  by (simp add: device_of_def tbl_get_None)

lemma expand_device_devices:
  assumes "keys_unique dev_id (devices d)"
  shows "device_ids (expand_device d s k) = dev_id ` {dev \<in> set (devices d). dev_id dev = k} \<union> device_ids s"
proof (cases "device_of d k")
  case None
  then have "k \<notin> dev_id ` set (devices d)" by (simp only: device_of_None not_False_eq_True)
  with None show ?thesis by (auto simp: expand_device_def)
next
  case (Some dev)
  with assms have dev: "dev \<in> set (devices d)" "dev_id dev = k" by (simp_all add: device_of_iff)
  have "expand_device d s k = add_device d s dev" using Some by (simp add: expand_device_def)
  with dev show ?thesis by auto
qed

lemma expand_row_devices:
  assumes "keys_unique dev_id (devices d)" and "\<not> row_is_global d r"
  shows "device_ids (expand_row_scope d s r) =
    dev_id ` {dev \<in> set (devices d). row_covers r dev} \<union> device_ids s"
  using assms
  by (auto simp: expand_row_scope_def row_covers_def expand_organization_def expand_data_center_def
      expand_room_def expand_rack_def expand_device_devices Let_def
      split: option.splits)

lemma expand_row_global: "global_access (expand_row_scope d s r) = (global_access s \<or> row_is_global d r)"
  by (simp add: expand_row_scope_def expand_organization_def expand_data_center_def expand_room_def
      expand_rack_def expand_device_def Let_def split: option.split)

lemma expand_rows_global: "global_access (expand_rows d s rs) = (global_access s \<or> (\<exists>r \<in> set rs. row_is_global d r))"
  by (induction rs arbitrary: s) (auto simp: Let_def expand_row_global)

lemma expand_rows_devices:
  assumes "keys_unique dev_id (devices d)" and "\<forall>r \<in> set rs. \<not> row_is_global d r" and "\<not> global_access s"
  shows "device_ids (expand_rows d s rs) =
    dev_id ` {dev \<in> set (devices d). \<exists>r \<in> set rs. row_covers r dev} \<union> device_ids s"
  using assms(2,3)
proof (induction rs arbitrary: s)
  case Nil
  then show ?case by simp
next
  case (Cons r rs)
  then have "\<not> global_access (expand_row_scope d s r)" by (simp add: expand_row_global)
  with Cons assms(1) show ?case
    by (auto simp: Let_def expand_row_devices expand_row_global)
qed

subsection \<open>The scope is closed under parents\<close>

text \<open>What the database's constraints say of the site tables.\<close>

definition sites_ok :: "db \<Rightarrow> bool" where
  "sites_ok d \<longleftrightarrow>
     keys_unique dc_id (data_centers d) \<and> keys_unique rm_id (rooms d) \<and>
     keys_unique rk_id (racks d) \<and> keys_unique dev_id (devices d) \<and>
     (\<forall>rm \<in> set (rooms d). data_center_of d (rm_data_center rm) \<noteq> None) \<and>
     (\<forall>rk \<in> set (racks d). data_center_of d (rk_data_center rk) \<noteq> None \<and>
        (\<forall>k. rk_room rk = Some k \<longrightarrow> room_of d k \<noteq> None)) \<and>
     (\<forall>dev \<in> set (devices d). data_center_of d (dev_data_center dev) \<noteq> None \<and>
        (\<forall>k. dev_room dev = Some k \<longrightarrow> room_of d k \<noteq> None) \<and>
        (\<forall>k. dev_rack dev = Some k \<longrightarrow> rack_of d k \<noteq> None))"

definition scope_closed :: "db \<Rightarrow> scope \<Rightarrow> bool" where
  "scope_closed d s \<longleftrightarrow>
     (\<forall>dc \<in> set (data_centers d). dc_id dc \<in> data_center_ids s \<longrightarrow> dc_organization dc \<in> organization_ids s) \<and>
     (\<forall>rm \<in> set (rooms d). rm_id rm \<in> room_ids s \<longrightarrow> rm_data_center rm \<in> data_center_ids s) \<and>
     (\<forall>rk \<in> set (racks d). rk_id rk \<in> rack_ids s \<longrightarrow>
        rk_data_center rk \<in> data_center_ids s \<and> (\<forall>k. rk_room rk = Some k \<longrightarrow> k \<in> room_ids s)) \<and>
     (\<forall>dev \<in> set (devices d). dev_id dev \<in> device_ids s \<longrightarrow>
        dev_organization dev \<in> organization_ids s \<and> dev_data_center dev \<in> data_center_ids s \<and>
        (\<forall>k. dev_room dev = Some k \<longrightarrow> k \<in> room_ids s) \<and>
        (\<forall>k. dev_rack dev = Some k \<longrightarrow> k \<in> rack_ids s))"

lemma scope_closed_blank [simp]: "scope_closed d blank_scope"
  by (simp add: scope_closed_def)

lemma scope_closed_join: "scope_closed d s \<Longrightarrow> scope_closed d t \<Longrightarrow> scope_closed d (scope_join s t)"
  unfolding scope_closed_def by auto

lemma scope_closed_global: "scope_closed d s \<Longrightarrow> scope_closed d (s\<lparr>global_access := b\<rparr>)"
  by (simp add: scope_closed_def)

lemma key_eqD: "keys_unique pk rows \<Longrightarrow> x \<in> set rows \<Longrightarrow> y \<in> set rows \<Longrightarrow> pk x = pk y \<Longrightarrow> x = y"
  by (auto simp: keys_unique_def distinct_map inj_on_def)

lemma closed_add_organization: "scope_closed d s \<Longrightarrow> scope_closed d (add_organization s k)"
  by (auto simp: scope_closed_def add_organization_def)

lemma closed_add_data_center:
  assumes "sites_ok d" and "scope_closed d s" and "dc \<in> set (data_centers d)"
  shows "scope_closed d (add_data_center s dc)"
proof -
  have "x = dc" if "x \<in> set (data_centers d)" "dc_id x = dc_id dc" for x
    using assms(1,3) that key_eqD unfolding sites_ok_def by metis
  with assms(2) show ?thesis
    by (auto simp: scope_closed_def add_data_center_def add_organization_def)
qed

lemma data_center_of_in: "data_center_of d k = Some dc \<Longrightarrow> dc \<in> set (data_centers d) \<and> dc_id dc = k"
  unfolding data_center_of_def by (rule tbl_get_Some)

lemma room_of_in: "room_of d k = Some rm \<Longrightarrow> rm \<in> set (rooms d) \<and> rm_id rm = k"
  unfolding room_of_def by (rule tbl_get_Some)

lemma rack_of_in: "rack_of d k = Some rk \<Longrightarrow> rk \<in> set (racks d) \<and> rk_id rk = k"
  unfolding rack_of_def by (rule tbl_get_Some)

lemma closed_add_data_center_key:
  assumes "sites_ok d" and "scope_closed d s"
  shows "scope_closed d (add_data_center_key d s k)"
  using assms by (auto simp: add_data_center_key_def closed_add_data_center dest: data_center_of_in
      split: option.split)

lemma add_data_center_key_has:
  "data_center_of d k \<noteq> None \<Longrightarrow> k \<in> data_center_ids (add_data_center_key d s k)"
  by (auto simp: add_data_center_key_def add_data_center_def add_organization_def dest: data_center_of_in)

lemma closed_add_room:
  assumes "sites_ok d" and "scope_closed d s" and "rm \<in> set (rooms d)"
  shows "scope_closed d (add_room d s rm)"
proof -
  define t where "t = add_data_center_key d s (rm_data_center rm)"
  have u: "x = rm" if "x \<in> set (rooms d)" "rm_id x = rm_id rm" for x
    using assms(1,3) that key_eqD unfolding sites_ok_def by metis
  have cl: "scope_closed d t" unfolding t_def using assms(1,2) by (rule closed_add_data_center_key)
  have m: "rm_data_center rm \<in> data_center_ids t"
    unfolding t_def using assms(1,3) by (auto simp: sites_ok_def intro: add_data_center_key_has)
  have e: "add_room d s rm = t\<lparr>room_ids := insert (rm_id rm) (room_ids t)\<rparr>"
    unfolding t_def by (simp add: add_room_def add_data_center_key_def add_data_center_def add_organization_def split: option.split)
  show ?thesis unfolding e using cl m u unfolding scope_closed_def by auto
qed

lemma closed_add_room_key:
  assumes "sites_ok d" and "scope_closed d s"
  shows "scope_closed d (add_room_key d s k)"
  using assms by (auto simp: add_room_key_def closed_add_room dest: room_of_in split: option.split)

lemma add_room_key_has:
  assumes "room_of d k \<noteq> None"
  shows "k \<in> room_ids (add_room_key d s (Some k))"
proof -
  from assms obtain rm where rm: "room_of d k = Some rm" by blast
  then have "rm_id rm = k" by (auto dest: room_of_in)
  with rm show ?thesis
    by (simp add: add_room_key_def add_room_def add_data_center_key_def add_data_center_def
        add_organization_def split: option.split)
qed

lemma add_keys_keep [simp]:
  "room_ids (add_data_center_key d s k) = room_ids s"
  "rack_ids (add_data_center_key d s k) = rack_ids s"
  "rack_ids (add_room_key d s j) = rack_ids s"
  by (simp_all add: add_room_key_def add_room_def add_data_center_key_def add_data_center_def
      add_organization_def split: option.split)

lemma add_keys_rack_update:
  "add_data_center_key d (s\<lparr>rack_ids := X\<rparr>) k = (add_data_center_key d s k)\<lparr>rack_ids := X\<rparr>"
  "add_room_key d (s\<lparr>rack_ids := X\<rparr>) j = (add_room_key d s j)\<lparr>rack_ids := X\<rparr>"
  "add_data_center_key d (s\<lparr>device_ids := Y\<rparr>) k = (add_data_center_key d s k)\<lparr>device_ids := Y\<rparr>"
  "add_room_key d (s\<lparr>device_ids := Y\<rparr>) j = (add_room_key d s j)\<lparr>device_ids := Y\<rparr>"
  "add_organization (s\<lparr>device_ids := Y\<rparr>) i = (add_organization s i)\<lparr>device_ids := Y\<rparr>"
  by (simp_all add: add_room_key_def add_room_def add_data_center_key_def add_data_center_def
      add_organization_def split: option.split)

lemma add_rack_device_update:
  "add_rack_key d (s\<lparr>device_ids := Y\<rparr>) k = (add_rack_key d s k)\<lparr>device_ids := Y\<rparr>"
proof -
  have "(s\<lparr>device_ids := Y\<rparr>)\<lparr>rack_ids := X\<rparr> = (s\<lparr>rack_ids := X\<rparr>)\<lparr>device_ids := Y\<rparr>" for X by simp
  then have "add_rack d (s\<lparr>device_ids := Y\<rparr>) rk = (add_rack d s rk)\<lparr>device_ids := Y\<rparr>" for rk
    unfolding add_rack_def Let_def by (simp only: add_keys_rack_update) simp
  then show ?thesis by (simp add: add_rack_key_def split: option.split)
qed

lemma add_keys_mono:
  "data_center_ids s \<subseteq> data_center_ids (add_data_center_key d s k)"
  "data_center_ids s \<subseteq> data_center_ids (add_room_key d s j)"
  "room_ids s \<subseteq> room_ids (add_room_key d s j)"
  "organization_ids s \<subseteq> organization_ids (add_organization s i)"
  by (auto simp: add_room_key_def add_room_def add_data_center_key_def add_data_center_def
      add_organization_def split: option.split)

lemma closed_add_rack:
  assumes "sites_ok d" and "scope_closed d s" and "rk \<in> set (racks d)"
  shows "scope_closed d (add_rack d s rk)"
proof -
  let ?r = "add_room_key d s (rk_room rk)"
  define t where "t = add_data_center_key d ?r (rk_data_center rk)"
  have u: "x = rk" if "x \<in> set (racks d)" "rk_id x = rk_id rk" for x
    using assms(1,3) that key_eqD unfolding sites_ok_def by metis
  have c: "scope_closed d t"
    unfolding t_def using assms(1,2) by (intro closed_add_data_center_key closed_add_room_key)
  have m: "rk_data_center rk \<in> data_center_ids t"
    unfolding t_def using assms(1,3) by (auto simp: sites_ok_def intro: add_data_center_key_has)
  have r: "k \<in> room_ids t" if "rk_room rk = Some k" for k
    unfolding t_def using assms(1,3) that add_room_key_has by (auto simp: sites_ok_def)
  have e: "add_rack d s rk = t\<lparr>rack_ids := insert (rk_id rk) (rack_ids t)\<rparr>"
    unfolding add_rack_def Let_def t_def by (simp add: add_keys_rack_update)
  show ?thesis unfolding e using c m r u unfolding scope_closed_def by auto
qed

lemma closed_add_rack_key:
  assumes "sites_ok d" and "scope_closed d s"
  shows "scope_closed d (add_rack_key d s k)"
  using assms by (auto simp: add_rack_key_def closed_add_rack dest: rack_of_in split: option.split)

lemma add_rack_key_has:
  assumes "rack_of d k \<noteq> None"
  shows "k \<in> rack_ids (add_rack_key d s (Some k))"
proof -
  from assms obtain rk where rk: "rack_of d k = Some rk" by blast
  then have "rk_id rk = k" by (auto dest: rack_of_in)
  with rk show ?thesis by (simp add: add_rack_key_def add_rack_def Let_def)
qed

lemma closed_add_device:
  assumes "sites_ok d" and "scope_closed d s" and "dev \<in> set (devices d)"
  shows "scope_closed d (add_device d s dev)"
proof -
  let ?a = "add_rack_key d s (dev_rack dev)"
  let ?b = "add_room_key d ?a (dev_room dev)"
  let ?c = "add_data_center_key d ?b (dev_data_center dev)"
  define t where "t = add_organization ?c (dev_organization dev)"
  have u: "x = dev" if "x \<in> set (devices d)" "dev_id x = dev_id dev" for x
    using assms(1,3) that key_eqD unfolding sites_ok_def by metis
  have cl: "scope_closed d t"
    unfolding t_def using assms(1,2) by (intro closed_add_organization closed_add_data_center_key closed_add_room_key closed_add_rack_key)
  have o: "dev_organization dev \<in> organization_ids t" unfolding t_def by (simp add: add_organization_def)
  have m: "dev_data_center dev \<in> data_center_ids t"
    unfolding t_def using assms(1,3) by (auto simp: sites_ok_def add_organization_def intro: add_data_center_key_has)
  have r: "k \<in> room_ids t" if "dev_room dev = Some k" for k
    unfolding t_def using assms(1,3) that add_room_key_has by (auto simp: sites_ok_def add_organization_def)
  have q: "k \<in> rack_ids t" if "dev_rack dev = Some k" for k
    unfolding t_def using assms(1,3) that add_rack_key_has by (auto simp: sites_ok_def add_organization_def)
  have e: "add_device d s dev = t\<lparr>device_ids := insert (dev_id dev) (device_ids t)\<rparr>"
    unfolding add_device_def Let_def t_def by (simp add: add_keys_rack_update add_rack_device_update)
  show ?thesis unfolding e using cl o m r q u unfolding scope_closed_def by auto
qed

lemma closed_foldl:
  assumes "\<And>s x. x \<in> set xs \<Longrightarrow> scope_closed d s \<Longrightarrow> scope_closed d (f s x)" and "scope_closed d s"
  shows "scope_closed d (foldl f s xs)"
  using assms by (induction xs arbitrary: s) auto

lemma closed_add_many:
  assumes "sites_ok d" and "scope_closed d s"
  shows "set devs \<subseteq> set (devices d) \<Longrightarrow> scope_closed d (add_devices d s devs)"
    and "set rms \<subseteq> set (rooms d) \<Longrightarrow> scope_closed d (add_rooms d s rms)"
    and "set rks \<subseteq> set (racks d) \<Longrightarrow> scope_closed d (add_racks d s rks)"
  unfolding add_devices_def add_rooms_def add_racks_def
  by (rule closed_foldl; use assms closed_add_device closed_add_room closed_add_rack in blast)+

lemma closed_add_trees:
  assumes "sites_ok d" and "scope_closed d s" and "set dcs \<subseteq> set (data_centers d)"
  shows "scope_closed d (foldl (add_data_center_tree d) s dcs)"
proof (rule closed_foldl)
  fix s dc
  assume "dc \<in> set dcs" and "scope_closed d s"
  then show "scope_closed d (add_data_center_tree d s dc)"
    unfolding add_data_center_tree_def Let_def using assms
    by (intro closed_add_many closed_add_data_center) auto
qed (rule assms(2))

lemma closed_expand_row:
  assumes "sites_ok d" and "scope_closed d s"
  shows "scope_closed d (expand_row_scope d s r)"
proof -
  have "scope_closed d (expand_organization d s k)" for k
    unfolding expand_organization_def Let_def using assms
    by (intro closed_add_trees closed_add_many closed_add_organization) auto
  moreover have "scope_closed d (expand_data_center d s k)" for k
    unfolding expand_data_center_def Let_def using assms
    by (intro closed_add_many closed_add_data_center_key) auto
  moreover have "scope_closed d (expand_room d s k)" for k
    unfolding expand_room_def Let_def using assms by (intro closed_add_many closed_add_room_key) auto
  moreover have "scope_closed d (expand_rack d s k)" for k
    unfolding expand_rack_def using assms by (intro closed_add_many closed_add_rack_key) auto
  moreover have "scope_closed d (expand_device d s k)" for k
    using assms by (auto simp: expand_device_def device_of_def closed_add_device dest: tbl_get_Some
        split: option.split)
  ultimately show ?thesis
    using assms(2) by (simp add: expand_row_scope_def scope_closed_global split: option.split)
qed

lemma closed_expand_rows:
  "sites_ok d \<Longrightarrow> scope_closed d s \<Longrightarrow> scope_closed d (expand_rows d s rs)"
  by (induction rs arbitrary: s) (auto simp: Let_def closed_expand_row)

subsection \<open>The contract of a scope provider\<close>

text \<open>
  What the viewsets, the alert recipients and the bootstrap endpoint rely on: anonymous users
  get nothing, superusers everything, a user without active rows nothing, and the key sets are
  closed under parents.
\<close>

lemma blank_sees_nothing [simp]: "filter_by_scope blank_scope acc fs qs = []"
proof -
  have "level_ids blank_scope l = {}" for l by (cases l) simp_all
  then show ?thesis by (simp add: filter_by_scope_def)
qed

locale scope_provider =
  fixes scope_of :: "db \<Rightarrow> user option \<Rightarrow> scope"
  assumes anonymous: "scope_of d None = blank_scope"
    and superuser: "usr_is_superuser u \<Longrightarrow> global_access (scope_of d (Some u))"
    and no_rows: "\<not> usr_is_superuser u \<Longrightarrow> get_user_resource_access_rows d (Some u) = [] \<Longrightarrow>
      scope_of d (Some u) = blank_scope"
    and closed: "sites_ok d \<Longrightarrow> scope_closed d (scope_of d w)"
begin

lemma anonymous_sees_nothing: "filter_by_scope (scope_of d None) acc fs qs = []"
  by (simp add: anonymous)

lemma rowless_sees_nothing:
  "\<not> usr_is_superuser u \<Longrightarrow> get_user_resource_access_rows d (Some u) = [] \<Longrightarrow>
    filter_by_scope (scope_of d (Some u)) acc fs qs = []"
  by (simp add: no_rows)

lemma superuser_sees_all: "usr_is_superuser u \<Longrightarrow> filter_by_scope (scope_of d (Some u)) acc fs qs = qs"
  by (simp add: filter_by_scope_def superuser)

lemma device_brings_organization:
  assumes "sites_ok d" and "dev \<in> set (devices d)" and "dev_id dev \<in> device_ids (scope_of d u)"
  shows "dev_organization dev \<in> organization_ids (scope_of d u)"
  using closed [OF assms(1), of u] assms(2,3) by (auto simp: scope_closed_def)

text \<open>In mixed mode one reachable device opens every row of its organization.\<close>

lemma mixed_opens_organization:
  assumes "sites_ok d" and "dev \<in> set (devices d)" and "dev_id dev \<in> device_ids (scope_of d u)"
    and "fs L_ORGANIZATION = Some f" and "r \<in> set qs" and "f r = Some (dev_organization dev)"
  shows "r \<in> set (filter_by_scope (scope_of d u) None fs qs)"
proof -
  have o: "dev_organization dev \<in> organization_ids (scope_of d u)"
    using assms(1-3) by (rule device_brings_organization)
  then have m: "level_matches fs (scope_of d u) r L_ORGANIZATION" "level_added fs (scope_of d u) L_ORGANIZATION"
    using assms(4,6) by (auto simp: level_matches_def level_added_def in_ids_def)
  have n: "level_ids (scope_of d u) L_ORGANIZATION \<noteq> {}" using o by auto
  have l: "L_ORGANIZATION \<in> set all_levels" by (simp add: all_levels_def)
  from n l have "\<not> (\<forall>l \<in> set all_levels. level_ids (scope_of d u) l = {})" by blast
  moreover from m(2) l have "\<exists>l \<in> set all_levels. level_added fs (scope_of d u) l" by blast
  moreover from m(1) l have "\<exists>l \<in> set all_levels. level_matches fs (scope_of d u) r l" by blast
  ultimately show ?thesis using assms(5) unfolding filter_by_scope_def by auto
qed

end

interpretation access: scope_provider get_access_scope
proof
  fix d u
  show "get_access_scope d None = blank_scope" by (simp add: get_access_scope_def)
  show "global_access (get_access_scope d (Some u))" if "usr_is_superuser u"
    using that by (simp add: get_access_scope_def)
  show "get_access_scope d (Some u) = blank_scope"
    if "\<not> usr_is_superuser u" "get_user_resource_access_rows d (Some u) = []"
    using that by (simp add: get_access_scope_def)
next
  fix d u
  assume "sites_ok d"
  then show "scope_closed d (get_access_scope d u)"
    by (auto simp: get_access_scope_def closed_expand_rows scope_closed_global split: option.split)
qed

subsection \<open>Properties\<close>

lemma no_ids_empty:
  "level_ids s l = {} \<Longrightarrow> get_accessible_queryset s l pk rows = (if global_access s then rows else [])"
  by (simp add: get_accessible_queryset_def)

lemma set_accessible:
  "\<not> global_access s \<Longrightarrow> set (get_accessible_queryset s l pk rows) = {r \<in> set rows. pk r \<in> level_ids s l}"
  by (auto simp: get_accessible_queryset_def)

lemma accessible_devices_raw:
  assumes "keys_unique dev_id (devices d)" and "\<not> usr_is_superuser u"
    and "\<forall>r \<in> set (get_user_resource_access_rows d (Some u)). \<not> row_is_global d r"
  shows "set (get_accessible_devices_for_user d (Some u)) =
    {dev \<in> set (devices d). \<exists>r \<in> set (get_user_resource_access_rows d (Some u)). row_covers r dev}"
proof -
  let ?rows = "get_user_resource_access_rows d (Some u)"
  let ?s = "get_access_scope d (Some u)"
  have s: "?s = expand_rows d blank_scope ?rows" using assms(2) by (simp add: get_access_scope_def)
  have g: "\<not> global_access ?s" unfolding s expand_rows_global using assms(3) by simp
  have i: "device_ids ?s = dev_id ` {dev \<in> set (devices d). \<exists>r \<in> set ?rows. row_covers r dev}"
    unfolding s using expand_rows_devices [OF assms(1,3)] by simp
  have "x = y" if "x \<in> set (devices d)" "y \<in> set (devices d)" "dev_id x = dev_id y" for x y
    using assms(1) that by (rule key_eqD)
  then show ?thesis
    unfolding get_accessible_devices_for_user_def set_accessible [OF g] by (auto simp: i)
qed

lemma accessible_devices_global:
  assumes "usr_is_superuser u \<or> (\<exists>r \<in> set (get_user_resource_access_rows d (Some u)). row_is_global d r)"
  shows "get_accessible_devices_for_user d (Some u) = devices d"
proof -
  have "global_access (get_access_scope d (Some u))"
    using assms by (auto simp: get_access_scope_def expand_rows_global)
  then show ?thesis by (simp add: get_accessible_devices_for_user_def get_accessible_queryset_def)
qed


definition site_example :: db where
  "site_example = empty_db
     \<lparr>data_centers := [\<lparr>dc_id = 10, dc_organization = 1, dc_name = ''PDC'', dc_code = ''PDC'', dc_timezone = ''Asia/Dhaka''\<rparr>,
                      \<lparr>dc_id = 11, dc_organization = 1, dc_name = ''BDC'', dc_code = ''BDC'', dc_timezone = ''Asia/Dhaka''\<rparr>],
      rooms := [\<lparr>rm_id = 20, rm_data_center = 10, rm_name = ''R1'', rm_code = ''R1''\<rparr>],
      racks := [\<lparr>rk_id = 30, rk_data_center = 10, rk_room = Some 20, rk_row = None, rk_name = ''K1'', rk_code = ''K1''\<rparr>],
      devices := [blank_device\<lparr>dev_id := 40, dev_organization := 1, dev_data_center := 10,
                    dev_room := Some 20, dev_rack := Some 30, dev_name := ''UPS-01''\<rparr>,
                  blank_device\<lparr>dev_id := 41, dev_organization := 1, dev_data_center := 11, dev_name := ''ATS-01''\<rparr>],
      roles := [\<lparr>ro_id = 5, ro_name = ''Device Admin'', ro_code = ''DEVICE_ADMIN'', ro_scope = SCOPE_DEVICE\<rparr>],
      permissions := [\<lparr>pm_id = 6, pm_module = ''device'', pm_code = ''device.view''\<rparr>],
      role_permissions := [\<lparr>rp_id = 7, rp_role = 5, rp_permission = 6\<rparr>],
      accesses := [blank_access\<lparr>ra_id := 50, ra_user := 9, ra_device := Some 40, ra_role := 5\<rparr>]\<rparr>"

definition user_nine :: user where
  "user_nine = blank_user\<lparr>usr_id := 9, usr_username := ''device_user''\<rparr>"

lemmas site_example_defs = site_example_def user_nine_def blank_defs

lemma site_example_rows:
  "get_user_resource_access_rows site_example (Some user_nine) = accesses site_example"
  by (simp add: get_user_resource_access_rows_def site_example_defs)

lemma site_example_ok: "sites_ok site_example"
  by (simp add: sites_ok_def keys_unique_def data_center_of_def room_of_def rack_of_def tbl_get_def
      site_example_defs)


text \<open>
  Closure: with the database's constraints in force, the keys of a user's scope are closed
  under parents, so a reachable device brings its rack, room, data center and organization.
\<close>

theorem access_scope_closed: "sites_ok d \<Longrightarrow> scope_closed d (get_access_scope d u)"
  by (rule access.closed)

theorem access_scope_closed_witness:
  "scope_closed site_example (get_access_scope site_example (Some user_nine)) \<and>
    sites_ok site_example"
  using access_scope_closed [OF site_example_ok] site_example_ok by blast

text \<open>
  No access by default: an ordinary user without an active access row gets an empty
  queryset from every filter, no accessible device and no permission code.
\<close>

theorem rowless_user_has_nothing:
  assumes "\<not> usr_is_superuser u" and "get_user_resource_access_rows d (Some u) = []"
  shows "filter_queryset_for_user d (Some u) acc fs qs = [] \<and>
    get_accessible_devices_for_user d (Some u) = [] \<and>
    get_effective_permission_codes d (Some u) = {} \<and> \<not> user_has_permission d (Some u) code"
  using assms
  by (simp_all add: filter_queryset_for_user_def access.rowless_sees_nothing access.no_rows
      get_accessible_devices_for_user_def no_ids_empty get_effective_permission_codes_def
      user_has_permission_def)

theorem rowless_user_has_nothing_witness:
  "filter_queryset_for_user site_example (Some (user_nine\<lparr>usr_id := 8\<rparr>)) None (\<lambda>_. Some ra_device) (accesses site_example) = []
   \<and> get_effective_permission_codes site_example (Some (user_nine\<lparr>usr_id := 8\<rparr>)) = {}"
proof -
  have n: "\<not> usr_is_superuser (user_nine\<lparr>usr_id := 8\<rparr>)" by (simp add: site_example_defs)
  have r: "get_user_resource_access_rows site_example (Some (user_nine\<lparr>usr_id := 8\<rparr>)) = []"
    by (simp add: get_user_resource_access_rows_def site_example_defs)
  show ?thesis
    using rowless_user_has_nothing [OF n r, of None "\<lambda>_. Some ra_device" "accesses site_example"] by blast
qed

text \<open>
  The mixed filter widens: when any device is in a user's scope, a queryset filtered in
  mixed mode over a model with an organization field returns every row of that device's
  organization, whatever device, rack or room the row belongs to.
\<close>

theorem mixed_filter_opens_organization:
  assumes "sites_ok d" and "dev \<in> set (devices d)"
    and "dev_id dev \<in> device_ids (get_access_scope d (Some u))"
    and "fs L_ORGANIZATION = Some f" and "r \<in> set qs" and "f r = Some (dev_organization dev)"
  shows "r \<in> set (filter_queryset_for_user d (Some u) None fs qs)"
  unfolding filter_queryset_for_user_def option.case
  by (rule access.mixed_opens_organization [where dev = dev and f = f]) (use assms in simp_all)

theorem mixed_filter_opens_organization_witness:
  "devices site_example ! 1 \<in> set (filter_queryset_for_user site_example (Some user_nine) None
      (\<lambda>l. if l = L_ORGANIZATION then Some (\<lambda>x. Some (dev_organization x))
           else if l = L_DEVICE then Some (\<lambda>x. Some (dev_id x)) else None) (devices site_example))"
proof (rule mixed_filter_opens_organization [where dev = "devices site_example ! 0" and
      f = "\<lambda>x. Some (dev_organization x)"])
  show "sites_ok site_example" by (rule site_example_ok)
  show "devices site_example ! 0 \<in> set (devices site_example)" by (simp add: site_example_defs)
  show "devices site_example ! 1 \<in> set (devices site_example)" by (simp add: site_example_defs)
  have "get_access_scope site_example (Some user_nine) = expand_rows site_example blank_scope (accesses site_example)"
    by (simp add: get_access_scope_def site_example_rows) (simp add: site_example_defs)
  then show "dev_id (devices site_example ! 0) \<in> device_ids (get_access_scope site_example (Some user_nine))"
    by (simp add: expand_row_scope_def row_is_global_def role_of_def tbl_get_def expand_device_def
        device_of_def site_example_defs)
qed (simp_all add: site_example_defs)

lemma role_code_list_iff:
  "x \<in> set (role_code_list d k) \<longleftrightarrow>
    (\<exists>rp \<in> set (role_permissions d). \<exists>p \<in> set (permissions d).
       rp_role rp = k \<and> rp_permission rp = pm_id p \<and> pm_code p = x)" (is "?l = ?r")
proof
  assume ?l
  then obtain rp where rp: "rp \<in> set (role_permissions d)"
    and x: "x \<in> set (if rp_role rp = k then map pm_code (filter (\<lambda>p. pm_id p = rp_permission rp) (permissions d)) else [])"
    unfolding role_code_list_def set_concat set_map by blast
  from x have "rp_role rp = k" by (simp split: if_splits)
  with x obtain p where "p \<in> set (permissions d)" "pm_id p = rp_permission rp" "pm_code p = x" by auto
  with rp \<open>rp_role rp = k\<close> show ?r by force
next
  assume ?r
  then obtain rp p where h: "rp \<in> set (role_permissions d)" "p \<in> set (permissions d)" "rp_role rp = k"
    "rp_permission rp = pm_id p" "pm_code p = x" by blast
  then have "x \<in> set (if rp_role rp = k then map pm_code (filter (\<lambda>p. pm_id p = rp_permission rp) (permissions d)) else [])"
    by auto
  with h(1) show ?l unfolding role_code_list_def set_concat set_map by blast
qed

text \<open>
  The permission check: for an ordinary user and a view with a permission module, access is
  granted iff a role of one of the user's active rows holds the code \<open>module.verb\<close>.
\<close>

theorem has_permission_iff:
  assumes "req_user q = Some u" and "\<not> usr_is_superuser u" and "view_permission_module q = Some (c # cs)"
  shows "has_permission d q \<longleftrightarrow>
    (\<exists>r \<in> set (get_user_resource_access_rows d (Some u)). \<exists>rp \<in> set (role_permissions d). \<exists>p \<in> set (permissions d).
       rp_role rp = ra_role r \<and> rp_permission rp = pm_id p \<and>
       pm_code p = (c # cs) @ ''.'' @ permission_verb q (c # cs))"
proof -
  have "has_permission d q \<longleftrightarrow> (\<exists>r \<in> set (get_user_resource_access_rows d (Some u)).
      (c # cs) @ ''.'' @ permission_verb q (c # cs) \<in> set (role_code_list d (ra_role r)))"
    using assms by (simp add: has_permission_def user_has_permission_def get_effective_permission_codes_def)
  then show ?thesis unfolding role_code_list_iff by blast
qed

theorem has_permission_iff_witness:
  "has_permission site_example \<lparr>req_user = Some user_nine, req_safe_method = True, view_action = Some ''list'',
     view_permission_module = Some ''device''\<rparr>"
  by (subst has_permission_iff [where u = user_nine and c = "CHR ''d''" and cs = "''evice''"])
    (simp_all add: site_example_rows, simp_all add: site_example_defs permission_verb_def ACTION_PERMISSION_MAP_def)

end
