(* ===== verification/Access_Rows.thy ===== *)
theory Access_Rows
  imports Access_Scope
begin

text \<open>
  \<open>UserResourceAccess.clean\<close> and \<open>save\<close> of \<open>apps/access_control/models.py\<close>: the validation of an
  access row against its role's scope and the hierarchy of its sites, with the back-filling of
  a device row, and what a row that was saved opens.
\<close>

type_synonym errors = "(string \<times> string) list"

definition err_validation :: "errors \<Rightarrow> exn" where
  "err_validation es = ValidationError (map (\<lambda>(k, m). (k, [m])) es)"

definition ensure_blank :: "string \<Rightarrow> uuid option \<Rightarrow> errors \<Rightarrow> errors" where
  "ensure_blank f v es = (if v \<noteq> None then dict_set es f ''Must be blank for this role scope.'' else es)"

definition ensure_required :: "string \<Rightarrow> uuid option \<Rightarrow> errors \<Rightarrow> errors" where
  "ensure_required f v es =
     (if v = None then dict_set es f ''This field is required for this role scope.'' else es)"

definition scope_errors :: "role_scope option \<Rightarrow> resource_access \<Rightarrow> errors" where
  "scope_errors sc r =
     (let og = ra_organization r; dc = ra_data_center r; rm = ra_room r; rk = ra_rack r; dv = ra_device r in
      case sc of
        Some SCOPE_GLOBAL \<Rightarrow>
          (if og \<noteq> None \<or> dc \<noteq> None \<or> rm \<noteq> None \<or> rk \<noteq> None \<or> dv \<noteq> None
           then [(''non_field_errors'', ''Global access must not include organization, data center, room, rack, or device.'')]
           else [])
      | Some SCOPE_ORGANIZATION \<Rightarrow>
          ensure_blank ''device'' dv (ensure_blank ''rack'' rk (ensure_blank ''room'' rm
            (ensure_blank ''data_center'' dc (ensure_required ''organization'' og []))))
      | Some SCOPE_DATA_CENTER \<Rightarrow>
          ensure_blank ''device'' dv (ensure_blank ''rack'' rk (ensure_blank ''room'' rm
            (ensure_required ''data_center'' dc (ensure_required ''organization'' og []))))
      | Some SCOPE_ROOM \<Rightarrow>
          ensure_blank ''device'' dv (ensure_blank ''rack'' rk (ensure_required ''room'' rm
            (ensure_required ''data_center'' dc (ensure_required ''organization'' og []))))
      | Some SCOPE_RACK \<Rightarrow>
          ensure_blank ''device'' dv (ensure_required ''rack'' rk (ensure_required ''room'' rm
            (ensure_required ''data_center'' dc (ensure_required ''organization'' og []))))
      | Some SCOPE_DEVICE \<Rightarrow> ensure_required ''device'' dv []
      | None \<Rightarrow> [(''role'', ''Role scope is not supported.'')])"

text \<open>
  One level of the device check: an empty field is filled from the device, a set one must agree
  with it. A level the device does not have is left alone.
\<close>

definition fill_level :: "string \<Rightarrow> uuid option \<Rightarrow> uuid option \<Rightarrow> errors \<Rightarrow> uuid option \<times> errors" where
  "fill_level f own dev es =
     (if own = None \<and> dev \<noteq> None then (dev, es)
      else if dev \<noteq> None \<and> own \<noteq> dev then (own, dict_set es f ''Must match the selected device.'')
      else (own, es))"

definition fill_from_device :: "device \<Rightarrow> resource_access \<Rightarrow> errors \<Rightarrow> resource_access \<times> errors" where
  "fill_from_device dev r es =
     (let (og, es1) = fill_level ''organization'' (ra_organization r) (Some (dev_organization dev)) es;
          (dc, es2) = fill_level ''data_center'' (ra_data_center r) (Some (dev_data_center dev)) es1;
          (rm, es3) = fill_level ''room'' (ra_room r) (dev_room dev) es2;
          (rk, es4) = fill_level ''rack'' (ra_rack r) (dev_rack dev) es3
      in (r\<lparr>ra_organization := og, ra_data_center := dc, ra_room := rm, ra_rack := rk\<rparr>, es4))"

definition hierarchy_errors :: "db \<Rightarrow> resource_access \<Rightarrow> errors \<Rightarrow> errors" where
  "hierarchy_errors d r es =
     (let dc = ra_data_center r;
          rm = Option.bind (ra_room r) (room_of d);
          rk = Option.bind (ra_rack r) (rack_of d);
          dcr = Option.bind dc (data_center_of d);
          es1 = (case rm of Some x \<Rightarrow>
              (if dc \<noteq> None \<and> Some (rm_data_center x) \<noteq> dc
               then dict_set es ''room'' ''Room must belong to the selected data center.'' else es) | None \<Rightarrow> es);
          es2 = (case rk of Some x \<Rightarrow>
              (if ra_room r \<noteq> None \<and> rk_room x \<noteq> ra_room r
               then dict_set es1 ''rack'' ''Rack must belong to the selected room.'' else es1) | None \<Rightarrow> es1);
          es3 = (case rk of Some x \<Rightarrow>
              (if dc \<noteq> None \<and> Some (rk_data_center x) \<noteq> dc
               then dict_set es2 ''rack'' ''Rack must belong to the selected data center.'' else es2) | None \<Rightarrow> es2)
      in case dcr of Some x \<Rightarrow>
              (if ra_organization r \<noteq> None \<and> Some (dc_organization x) \<noteq> ra_organization r
               then dict_set es3 ''data_center'' ''Data center must belong to the selected organization.'' else es3)
         | None \<Rightarrow> es3)"

definition final_errors :: "role_scope option \<Rightarrow> resource_access \<Rightarrow> errors \<Rightarrow> errors" where
  "final_errors sc r es =
     (let es1 = (if sc = Some SCOPE_DEVICE \<and> ra_device r = None
                 then dict_set es ''device'' ''This field is required for device scope.'' else es)
      in if sc \<in> {Some SCOPE_ORGANIZATION, Some SCOPE_DATA_CENTER, Some SCOPE_ROOM, Some SCOPE_RACK, Some SCOPE_DEVICE}
            \<and> ra_organization r = None \<and> sc \<noteq> Some SCOPE_DEVICE
         then dict_set es1 ''organization'' ''This field is required for the selected role scope.'' else es1)"

definition clean_access :: "db \<Rightarrow> resource_access \<Rightarrow> exn + resource_access" where
  "clean_access d r =
     (let sc = map_option ro_scope (role_of d (ra_role r));
          es0 = scope_errors sc r;
          (r1, es1) = (case Option.bind (ra_device r) (device_of d) of
              Some dev \<Rightarrow> fill_from_device dev r es0
            | None \<Rightarrow> (r, es0));
          es2 = hierarchy_errors d r1 es1;
          es3 = final_errors sc r1 es2
      in if es3 \<noteq> [] then Inl (err_validation es3) else Inr r1)"

text \<open>
  The table's unique constraint, which \<open>full_clean\<close> checks last: another row with the same user,
  sites and role, all of them set (a null is distinct from a null).
\<close>

definition uq_user_resource_access :: "db \<Rightarrow> resource_access \<Rightarrow> bool" where
  "uq_user_resource_access d r =
     (ra_organization r \<noteq> None \<and> ra_data_center r \<noteq> None \<and> ra_room r \<noteq> None \<and> ra_rack r \<noteq> None \<and> ra_device r \<noteq> None
      \<and> (\<exists>x \<in> set (accesses d). ra_id x \<noteq> ra_id r \<and> ra_user x = ra_user r \<and> ra_organization x = ra_organization r
           \<and> ra_data_center x = ra_data_center r \<and> ra_room x = ra_room r \<and> ra_rack x = ra_rack r
           \<and> ra_device x = ra_device r \<and> ra_role x = ra_role r))"

text \<open>\<open>save\<close>: validate, then write the (possibly back-filled) row.\<close>

definition save_access :: "db \<Rightarrow> resource_access \<Rightarrow> exn + db" where
  "save_access d r = (case clean_access d r of
      Inl e \<Rightarrow> Inl e
    | Inr r' \<Rightarrow>
        if uq_user_resource_access d r'
        then Inl (ValidationError [(''__all__'', [''Constraint uq_user_resource_access is violated.''])])
        else if tbl_get ra_id (ra_id r') (accesses d) = None
        then Inr (d\<lparr>accesses := tbl_insert r' (accesses d)\<rparr>)
        else Inr (d\<lparr>accesses := tbl_update ra_id (ra_id r') (\<lambda>_. r') (accesses d)\<rparr>))"

subsection \<open>Errors only accumulate\<close>

lemma hierarchy_errors_Nil: "hierarchy_errors d r es = [] \<Longrightarrow> es = []"
  by (auto simp: hierarchy_errors_def Let_def split: option.splits if_splits)

lemma final_errors_Nil: "final_errors sc r es = [] \<Longrightarrow> es = []"
  by (auto simp: final_errors_def Let_def split: if_splits)

lemma fill_level_Nil: "fill_level f own dev es = (v, []) \<Longrightarrow> es = []"
  by (auto simp: fill_level_def split: if_splits)

lemma fill_from_device_Nil: "fill_from_device dev r es = (r', []) \<Longrightarrow> es = []"
  by (auto simp: fill_from_device_def Let_def split: prod.splits dest!: fill_level_Nil)

lemma clean_access_cases:
  assumes "clean_access d r = Inr r'"
  shows "scope_errors (map_option ro_scope (role_of d (ra_role r))) r = []"
    and "final_errors (map_option ro_scope (role_of d (ra_role r))) r' [] = []"
    and "hierarchy_errors d r' [] = []"
    and "case Option.bind (ra_device r) (device_of d) of Some dev \<Rightarrow> fill_from_device dev r [] = (r', [])
         | None \<Rightarrow> r' = r"
proof -
  let ?sc = "map_option ro_scope (role_of d (ra_role r))"
  obtain r1 es1 where f: "(case Option.bind (ra_device r) (device_of d) of
      Some dev \<Rightarrow> fill_from_device dev r (scope_errors ?sc r) | None \<Rightarrow> (r, scope_errors ?sc r)) = (r1, es1)"
    by (metis surj_pair)
  with assms have e: "final_errors ?sc r1 (hierarchy_errors d r1 es1) = []" and r': "r' = r1"
    by (auto simp: clean_access_def Let_def split: if_splits)
  from final_errors_Nil [OF e] have h: "hierarchy_errors d r1 es1 = []" .
  from hierarchy_errors_Nil [OF h] have "es1 = []" .
  with f have s: "scope_errors ?sc r = []"
    by (auto split: option.splits dest: fill_from_device_Nil)
  show "scope_errors ?sc r = []" by (rule s)
  show "final_errors ?sc r' [] = []" using e h r' by simp
  show "hierarchy_errors d r' [] = []" using h r' \<open>es1 = []\<close> by simp
  show "case Option.bind (ra_device r) (device_of d) of Some dev \<Rightarrow> fill_from_device dev r [] = (r', [])
         | None \<Rightarrow> r' = r"
    using f s r' \<open>es1 = []\<close> by (auto split: option.splits)
qed

lemma fill_from_device_keeps:
  assumes "fill_from_device dev r es = (r', es')"
  shows "ra_role r' = ra_role r" "ra_device r' = ra_device r" "ra_user r' = ra_user r"
    "ra_is_active r' = ra_is_active r" "ra_id r' = ra_id r"
  using assms by (auto simp: fill_from_device_def Let_def split: prod.splits)

lemma clean_access_keeps:
  assumes "clean_access d r = Inr r'"
  shows "ra_role r' = ra_role r" "ra_device r' = ra_device r" "ra_user r' = ra_user r"
    "ra_is_active r' = ra_is_active r" "ra_id r' = ra_id r"
  using clean_access_cases(4) [OF assms] by (auto split: option.splits dest: fill_from_device_keeps)

lemma fill_sets_organization:
  "fill_from_device dev r [] = (r', []) \<Longrightarrow> ra_organization r' = Some (dev_organization dev)"
  by (auto simp: fill_from_device_def fill_level_def Let_def split: prod.splits if_splits)

text \<open>Every row that validates under a role that is not global carries an organization.\<close>

lemma clean_access_organization:
  assumes "clean_access d r = Inr r'" and "role_of d (ra_role r) = Some ro" and "ro_scope ro \<noteq> SCOPE_GLOBAL"
    and "\<forall>k. ra_device r = Some k \<longrightarrow> device_of d k \<noteq> None"
  shows "ra_organization r' \<noteq> None"
proof (cases "Option.bind (ra_device r) (device_of d)")
  case (Some dev)
  with clean_access_cases(4) [OF assms(1)] show ?thesis
    by (auto dest: fill_sets_organization)
next
  case None
  with clean_access_cases(4) [OF assms(1)] have eq: "r' = r" by simp
  from None assms(4) have nd: "ra_device r = None" by (cases "ra_device r") auto
  from clean_access_cases(1) [OF assms(1)] assms(2,3) nd eq show ?thesis
    by (cases "ro_scope ro") (auto simp: scope_errors_def Let_def ensure_blank_def ensure_required_def
        split: if_splits)
qed

subsection \<open>Properties\<close>

text \<open>
  Validation gives a consistent chain of sites: in a row that validates, the room and the
  rack belong to the row's data center, the rack to the row's room, and the data center to the
  row's organization.
\<close>

theorem clean_access_consistent:
  assumes "clean_access d r = Inr r'"
  shows "(\<forall>k rm c. ra_room r' = Some k \<and> room_of d k = Some rm \<and> ra_data_center r' = Some c \<longrightarrow> rm_data_center rm = c) \<and>
    (\<forall>j rk c. ra_rack r' = Some j \<and> rack_of d j = Some rk \<and> ra_data_center r' = Some c \<longrightarrow> rk_data_center rk = c) \<and>
    (\<forall>j rk k. ra_rack r' = Some j \<and> rack_of d j = Some rk \<and> ra_room r' = Some k \<longrightarrow> rk_room rk = Some k) \<and>
    (\<forall>c dc og. ra_data_center r' = Some c \<and> data_center_of d c = Some dc \<and> ra_organization r' = Some og \<longrightarrow>
       dc_organization dc = og)"
  using clean_access_cases(3) [OF assms]
  by (auto simp: hierarchy_errors_def Let_def split: if_splits option.splits)

definition device_row :: resource_access where
  "device_row = blank_access\<lparr>ra_id := 60, ra_user := 9, ra_device := Some 40, ra_role := 5\<rparr>"

definition device_row_clean :: resource_access where
  "device_row_clean = device_row\<lparr>ra_organization := Some 1, ra_data_center := Some 10,
     ra_room := Some 20, ra_rack := Some 30\<rparr>"

lemma device_row_cleaned: "clean_access site_example device_row = Inr device_row_clean"
  by (simp add: clean_access_def scope_errors_def ensure_required_def fill_from_device_def fill_level_def
      hierarchy_errors_def final_errors_def role_of_def device_of_def room_of_def rack_of_def
      data_center_of_def tbl_get_def Let_def device_row_def device_row_clean_def site_example_defs)

theorem clean_access_consistent_witness:
  "ra_room device_row_clean = Some 20 \<and> rm_data_center (rooms site_example ! 0) = 10"
proof -
  have "rm_data_center (rooms site_example ! 0) = 10"
    using clean_access_consistent [OF device_row_cleaned]
    by (simp add: device_row_clean_def device_row_def room_of_def tbl_get_def site_example_defs)
  then show ?thesis by (simp add: device_row_clean_def)
qed

text \<open>
  Every stored row opens a whole organization: a row that validated under any role but a
  global one carries an organization (required by its scope, or back-filled from its device), and
  the expansion of a row looks at the organization first, so the row's user reaches every device
  of that organization, also when the role's scope is one data center, room, rack or device.
\<close>

theorem validated_row_opens_organization:
  assumes "keys_unique dev_id (devices d)" and "clean_access d r = Inr r'"
    and "role_of d (ra_role r) = Some ro" and "ro_scope ro \<noteq> SCOPE_GLOBAL"
    and "\<forall>k. ra_device r = Some k \<longrightarrow> device_of d k \<noteq> None"
    and "r' \<in> set (accesses d)" and "ra_is_active r'" and "ra_user r' = usr_id u"
  shows "\<exists>k. ra_organization r' = Some k \<and>
    (\<forall>dev \<in> set (devices d). dev_organization dev = k \<longrightarrow> dev \<in> set (get_accessible_devices_for_user d (Some u)))"
proof -
  from clean_access_organization [OF assms(2-5)] obtain k where k: "ra_organization r' = Some k" by blast
  have r': "r' \<in> set (get_user_resource_access_rows d (Some u))"
    using assms(6-8) by (simp add: get_user_resource_access_rows_def)
  have "dev \<in> set (get_accessible_devices_for_user d (Some u))"
    if dev: "dev \<in> set (devices d)" "dev_organization dev = k" for dev
  proof (cases "usr_is_superuser u \<or> (\<exists>x \<in> set (get_user_resource_access_rows d (Some u)). row_is_global d x)")
    case True
    with dev(1) show ?thesis by (simp add: accessible_devices_global)
  next
    case False
    have "row_covers r' dev" using k dev(2) by (simp add: row_covers_def)
    with False dev(1) r' show ?thesis
      using accessible_devices_raw [OF assms(1), of u] by blast
  qed
  with k show ?thesis by blast
qed

text \<open>The stored device row of the example opens the second device of the organization.\<close>

theorem validated_row_opens_organization_witness:
  "devices site_example ! 1 \<in> set (get_accessible_devices_for_user
     (site_example\<lparr>accesses := [device_row_clean]\<rparr>) (Some user_nine))"
proof -
  let ?d = "site_example\<lparr>accesses := [device_row_clean]\<rparr>"
  have u: "keys_unique dev_id (devices ?d)" by (simp add: keys_unique_def site_example_defs)
  have c: "clean_access ?d device_row = Inr device_row_clean"
    by (simp add: clean_access_def scope_errors_def ensure_required_def fill_from_device_def fill_level_def
        hierarchy_errors_def final_errors_def role_of_def device_of_def room_of_def rack_of_def
        data_center_of_def tbl_get_def Let_def device_row_def device_row_clean_def site_example_defs)
  have "\<exists>k. ra_organization device_row_clean = Some k \<and>
    (\<forall>dev \<in> set (devices ?d). dev_organization dev = k \<longrightarrow> dev \<in> set (get_accessible_devices_for_user ?d (Some user_nine)))"
    by (rule validated_row_opens_organization [OF u c, of "roles site_example ! 0"])
      (simp_all add: role_of_def device_of_def tbl_get_def device_row_def device_row_clean_def site_example_defs)
  moreover have "devices site_example ! 1 \<in> set (devices ?d)" "dev_organization (devices site_example ! 1) = 1"
    by (simp_all add: site_example_defs)
  moreover have "ra_organization device_row_clean = Some 1" by (simp add: device_row_clean_def)
  ultimately show ?thesis by auto
qed

end
