(* ===== verification/Alert_Rules.thy ===== *)
theory Alert_Rules
  imports Dcim_Models
begin

text \<open>
  The validation and the writes of alert rules, escalation policies and suppression windows
  (\<open>apps/alerts/models.py\<close>), and the cache namespace of the rule matching
  (\<open>apps/alerts/services/cache.py\<close>), with the invariants the validation keeps: no two active
  rules alike, no two active policies alike, no overlapping active windows of one scope.
\<close>

subsection \<open>Validation errors\<close>

type_synonym error_lists = "(string \<times> string list) list"

text \<open>\<open>errors.setdefault(field, []).append(message)\<close>\<close>

definition err_append :: "error_lists \<Rightarrow> string \<Rightarrow> string \<Rightarrow> error_lists" where
  "err_append es f m = dict_set es f ((case dict_get es f of None \<Rightarrow> [] | Some ms \<Rightarrow> ms) @ [m])"

lemma err_append_not_Nil [simp]: "err_append es f m \<noteq> []"
  by (simp add: err_append_def)

definition raise_errors :: "error_lists \<Rightarrow> exn + unit" where
  "raise_errors es = (if es \<noteq> [] then Inl (ValidationError es) else Inr ())"

lemma raise_errors_ok [simp]: "raise_errors es = Inr u \<longleftrightarrow> es = []"
  by (simp add: raise_errors_def)

text \<open>Following a nullable foreign key: nothing to follow is no error, a dangling key raises.\<close>

definition follow :: "(uuid \<Rightarrow> 'r option) \<Rightarrow> uuid option \<Rightarrow> exn + 'r option" where
  "follow get k = (case k of
      None \<Rightarrow> Inr None
    | Some x \<Rightarrow> (case get x of None \<Rightarrow> Inl DoesNotExist | Some r \<Rightarrow> Inr (Some r)))"

subsection \<open>Alert rules\<close>

definition threshold_fields :: "alert_rule \<Rightarrow> (string \<times> bool) list" where
  "threshold_fields r =
    [(''threshold_float'', value_float (ar_threshold r) \<noteq> None),
     (''threshold_integer'', value_integer (ar_threshold r) \<noteq> None),
     (''threshold_boolean'', value_boolean (ar_threshold r) \<noteq> None),
     (''threshold_text'', value_text (ar_threshold r) \<noteq> None)]"

definition set_threshold_fields :: "alert_rule \<Rightarrow> string list" where
  "set_threshold_fields r = map fst (filter snd (threshold_fields r))"

definition threshold_errors :: "alert_rule \<Rightarrow> error_lists \<Rightarrow> error_lists" where
  "threshold_errors r es =
     (if length (set_threshold_fields r) \<noteq> 1
      then foldl (\<lambda>acc f. err_append acc (fst f) ''Exactly one threshold field must be set.'') es (threshold_fields r)
      else es)"

definition rule_device_errors :: "alert_rule \<Rightarrow> device \<Rightarrow> error_lists \<Rightarrow> error_lists" where
  "rule_device_errors r dev es =
     (let es1 = (if dev_organization dev \<noteq> ar_organization r
                 then err_append es ''organization'' ''Must match the selected device organization.'' else es);
          es2 = (if ar_data_center r \<noteq> None \<and> Some (dev_data_center dev) \<noteq> ar_data_center r
                 then err_append es1 ''data_center'' ''Must match the selected device data center.'' else es1)
      in if ar_device_type r \<noteq> None \<and> Some (dev_device_type dev) \<noteq> ar_device_type r
         then err_append es2 ''device_type'' ''Must match the selected device type.'' else es2)"

text \<open>
  The rows the duplicate query finds. A filter on a null value is \<open>IS NULL\<close>; the one threshold
  column that is set must be equal and the others null.
\<close>

definition same_rule_target :: "alert_rule \<Rightarrow> alert_rule \<Rightarrow> bool" where
  "same_rule_target r x =
     (ar_is_active x \<and> ar_organization x = ar_organization r \<and> ar_data_center x = ar_data_center r
      \<and> ar_device_type x = ar_device_type r \<and> ar_device x = ar_device r \<and> ar_metric x = ar_metric r
      \<and> ar_operator x = ar_operator r)"

definition column_filter :: "bool \<Rightarrow> 'a option \<Rightarrow> 'a option \<Rightarrow> bool" where
  "column_filter chosen v x = (if chosen then x = v else x = None)"

definition same_threshold :: "string \<Rightarrow> alert_rule \<Rightarrow> alert_rule \<Rightarrow> bool" where
  "same_threshold f r x =
     (column_filter (f = ''threshold_float'') (value_float (ar_threshold r)) (value_float (ar_threshold x))
      \<and> column_filter (f = ''threshold_integer'') (value_integer (ar_threshold r)) (value_integer (ar_threshold x))
      \<and> column_filter (f = ''threshold_boolean'') (value_boolean (ar_threshold r)) (value_boolean (ar_threshold x))
      \<and> column_filter (f = ''threshold_text'') (value_text (ar_threshold r)) (value_text (ar_threshold x)))"

definition duplicate_rules :: "db \<Rightarrow> alert_rule \<Rightarrow> alert_rule list" where
  "duplicate_rules d r =
     filter (\<lambda>x. same_rule_target r x \<and> same_threshold (hd (set_threshold_fields r)) r x \<and> ar_id x \<noteq> ar_id r)
       (alert_rules d)"

definition clean_rule :: "db \<Rightarrow> alert_rule \<Rightarrow> exn + unit" where
  "clean_rule d r =
     (let es0 = threshold_errors r [] in
      case follow (device_of d) (ar_device r) of
        Inl e \<Rightarrow> Inl e
      | Inr dev \<Rightarrow>
        (let es1 = (case dev of None \<Rightarrow> es0 | Some x \<Rightarrow> rule_device_errors r x es0) in
         case follow (data_center_of d) (ar_data_center r) of
           Inl e \<Rightarrow> Inl e
         | Inr dc \<Rightarrow>
           (let es2 = (case dc of None \<Rightarrow> es1 | Some x \<Rightarrow>
                        if dc_organization x \<noteq> ar_organization r
                        then err_append es1 ''data_center'' ''Data center must belong to the selected organization.''
                        else es1);
                es3 = (if es2 = [] \<and> ar_is_active r \<and> duplicate_rules d r \<noteq> []
                       then err_append es2 ''__all__''
                         ''An active alert rule with the same scope, operator, metric, and threshold already exists.''
                       else es2)
            in raise_errors es3)))"

subsection \<open>The cache and the namespace of the rule matching\<close>

definition cache_get :: "env \<Rightarrow> cache \<Rightarrow> string \<Rightarrow> exn + cache_value option" where
  "cache_get e c k =
     (if \<not> cache_up e then Inl CacheError
      else Inr (case c k of
          None \<Rightarrow> None
        | Some (v, ex) \<Rightarrow> (case ex of None \<Rightarrow> Some v | Some t \<Rightarrow> if now e < t then Some v else None)))"

definition cache_set :: "env \<Rightarrow> cache \<Rightarrow> string \<Rightarrow> cache_value \<Rightarrow> int option \<Rightarrow> exn + cache" where
  "cache_set e c k v timeout =
     (if \<not> cache_up e then Inl CacheError
      else Inr (c(k \<mapsto> (v, map_option (\<lambda>s. now e + seconds s) timeout))))"

definition ALERT_RULE_MATCH_CACHE_VERSION_KEY :: string where
  "ALERT_RULE_MATCH_CACHE_VERSION_KEY = ''alert:matching-rules:version''"

definition ALERT_RULE_MATCH_CACHE_TIMEOUT_SECONDS :: int where
  "ALERT_RULE_MATCH_CACHE_TIMEOUT_SECONDS = 60"

definition cached_version :: "env \<Rightarrow> cache_value \<Rightarrow> string option" where
  "cached_version e v = (case v of
      CStr s \<Rightarrow> if s = [] then None else Some s
    | CIds ids \<Rightarrow> if ids = [] then None else Some (fmt_py e (PList (map (\<lambda>i. PStr (str_nat i)) ids))))"

definition get_alert_rule_match_cache_version :: "env \<Rightarrow> cache \<Rightarrow> string \<times> cache" where
  "get_alert_rule_match_cache_version e c =
     (case cache_get e c ALERT_RULE_MATCH_CACHE_VERSION_KEY of
        Inl _ \<Rightarrow> (''cache-unavailable'', c)
      | Inr version \<Rightarrow>
          (case Option.bind version (cached_version e) of
             Some s \<Rightarrow> (s, c)
           | None \<Rightarrow>
               (case cache_set e c ALERT_RULE_MATCH_CACHE_VERSION_KEY (CStr (fresh_hex e)) None of
                  Inl _ \<Rightarrow> (''cache-unavailable'', c)
                | Inr c' \<Rightarrow> (fresh_hex e, c'))))"

definition invalidate_alert_rule_match_cache :: "env \<Rightarrow> cache \<Rightarrow> string option \<times> cache" where
  "invalidate_alert_rule_match_cache e c =
     (case cache_set e c ALERT_RULE_MATCH_CACHE_VERSION_KEY (CStr (fresh_hex e)) None of
        Inl _ \<Rightarrow> (None, c)
      | Inr c' \<Rightarrow> (Some (fresh_hex e), c'))"

subsection \<open>Writing and deleting a rule\<close>

definition after_commit :: "env \<Rightarrow> db \<Rightarrow> db" where
  "after_commit e d = d\<lparr>shared_cache := snd (invalidate_alert_rule_match_cache e (shared_cache d))\<rparr>"

definition put_rule :: "alert_rule \<Rightarrow> db \<Rightarrow> db" where
  "put_rule r d = d\<lparr>alert_rules := tbl_put ar_id r (alert_rules d)\<rparr>"

definition save_rule :: "env \<Rightarrow> db \<Rightarrow> alert_rule \<Rightarrow> exn + db" where
  "save_rule e d r = (case clean_rule d r of
      Inl x \<Rightarrow> Inl x
    | Inr _ \<Rightarrow> Inr (after_commit e (put_rule r d)))"

text \<open>Deleting a rule cascades to its condition states and detaches its alert events.\<close>

definition delete_rule :: "env \<Rightarrow> db \<Rightarrow> alert_rule \<Rightarrow> db" where
  "delete_rule e d r = after_commit e (d
     \<lparr>alert_rules := tbl_delete (\<lambda>x. ar_id x = ar_id r) (alert_rules d),
      condition_states := tbl_delete (\<lambda>s. cs_alert_rule s = ar_id r) (condition_states d),
      alert_events := map (\<lambda>a. if ae_alert_rule a = Some (ar_id r) then a\<lparr>ae_alert_rule := None\<rparr> else a) (alert_events d)\<rparr>)"

subsection \<open>Escalation policies\<close>

definition minutes_errors :: "string \<Rightarrow> int option \<Rightarrow> error_lists \<Rightarrow> error_lists" where
  "minutes_errors f v es = (case v of
      None \<Rightarrow> es
    | Some m \<Rightarrow> if m \<le> 0 then err_append es f ''Must be a positive integer.'' else es)"

definition same_policy :: "escalation_policy \<Rightarrow> escalation_policy \<Rightarrow> bool" where
  "same_policy p x =
     (ep_is_active x \<and> ep_organization x = ep_organization p \<and> ep_data_center x = ep_data_center p
      \<and> ep_severity x = ep_severity p \<and> ep_if_not_acknowledged_minutes x = ep_if_not_acknowledged_minutes p
      \<and> ep_if_not_resolved_minutes x = ep_if_not_resolved_minutes p \<and> ep_target_role x = ep_target_role p
      \<and> ep_channel x = ep_channel p)"

definition clean_policy :: "db \<Rightarrow> escalation_policy \<Rightarrow> exn + unit" where
  "clean_policy d p =
     (let es0 = (if ep_if_not_acknowledged_minutes p = None \<and> ep_if_not_resolved_minutes p = None
                 then err_append (err_append [] ''if_not_acknowledged_minutes'' ''At least one escalation trigger must be configured.'')
                        ''if_not_resolved_minutes'' ''At least one escalation trigger must be configured.''
                 else []);
          es1 = minutes_errors ''if_not_resolved_minutes'' (ep_if_not_resolved_minutes p)
                  (minutes_errors ''if_not_acknowledged_minutes'' (ep_if_not_acknowledged_minutes p) es0)
      in case (if ep_organization p = None then Inr None else follow (data_center_of d) (ep_data_center p)) of
        Inl e \<Rightarrow> Inl e
      | Inr dc \<Rightarrow>
        (let es2 = (case dc of None \<Rightarrow> es1 | Some x \<Rightarrow>
                      if Some (dc_organization x) \<noteq> ep_organization p
                      then err_append es1 ''data_center'' ''Data center must belong to the selected organization.''
                      else es1);
             es3 = (if ep_is_active p \<and> filter (\<lambda>x. same_policy p x \<and> ep_id x \<noteq> ep_id p) (escalation_policies d) \<noteq> []
                    then err_append es2 ''__all__''
                      ''An active escalation policy with the same scope and trigger already exists.''
                    else es2)
         in raise_errors es3))"

definition save_policy :: "db \<Rightarrow> escalation_policy \<Rightarrow> exn + db" where
  "save_policy d p = (case clean_policy d p of
      Inl x \<Rightarrow> Inl x
    | Inr _ \<Rightarrow> Inr (d\<lparr>escalation_policies := tbl_put ep_id p (escalation_policies d)\<rparr>))"

subsection \<open>Suppression windows\<close>

definition window_time_errors :: "suppression_window \<Rightarrow> error_lists \<Rightarrow> error_lists" where
  "window_time_errors w es =
     (let es1 = (if sw_starts_at w = None then err_append es ''starts_at'' ''Start time is required.'' else es);
          es2 = (if sw_ends_at w = None then err_append es1 ''ends_at'' ''End time is required.'' else es1)
      in case (sw_starts_at w, sw_ends_at w) of
        (Some s, Some t) \<Rightarrow>
          if s \<ge> t
          then err_append (err_append es2 ''starts_at'' ''Start time must be earlier than end time.'')
                 ''ends_at'' ''End time must be later than start time.''
          else es2
      | _ \<Rightarrow> es2)"

definition window_device_errors :: "suppression_window \<Rightarrow> device \<Rightarrow> error_lists \<Rightarrow> error_lists" where
  "window_device_errors w dev es =
     (let es1 = (if sw_organization w \<noteq> None \<and> Some (dev_organization dev) \<noteq> sw_organization w
                 then err_append es ''organization'' ''Must match the selected device organization.'' else es)
      in if sw_data_center w \<noteq> None \<and> Some (dev_data_center dev) \<noteq> sw_data_center w
         then err_append es1 ''data_center'' ''Must match the selected device data center.'' else es1)"

definition same_window_scope :: "suppression_window \<Rightarrow> suppression_window \<Rightarrow> bool" where
  "same_window_scope w x =
     (sw_is_active x \<and> sw_organization x = sw_organization w \<and> sw_data_center x = sw_data_center w
      \<and> sw_device x = sw_device w \<and> sw_metric x = sw_metric w)"

definition overlaps :: "suppression_window \<Rightarrow> suppression_window \<Rightarrow> bool" where
  "overlaps w x = (case (sw_starts_at x, sw_ends_at w, sw_ends_at x, sw_starts_at w) of
      (Some sx, Some tw, Some tx, Some sw) \<Rightarrow> sx < tw \<and> tx > sw
    | _ \<Rightarrow> False)"

definition clean_window :: "db \<Rightarrow> suppression_window \<Rightarrow> exn + unit" where
  "clean_window d w =
     (let es0 = (if sw_organization w = None then err_append [] ''organization'' ''Organization is required.'' else []);
          es1 = window_time_errors w es0;
          es2 = (if sw_organization w = None \<and> sw_data_center w = None \<and> sw_device w = None \<and> sw_metric w = None
                 then err_append es1 ''__all__'' ''At least one scope field must be selected for a suppression window.''
                 else es1)
      in case (if sw_organization w = None then Inr None else follow (data_center_of d) (sw_data_center w)) of
        Inl e \<Rightarrow> Inl e
      | Inr dc \<Rightarrow>
        (let es3 = (case dc of None \<Rightarrow> es2 | Some x \<Rightarrow>
                      if Some (dc_organization x) \<noteq> sw_organization w
                      then err_append es2 ''data_center'' ''Data center must belong to the selected organization.''
                      else es2)
         in case follow (device_of d) (sw_device w) of
           Inl e \<Rightarrow> Inl e
         | Inr dev \<Rightarrow>
           (let es4 = (case dev of None \<Rightarrow> es3 | Some x \<Rightarrow> window_device_errors w x es3);
                es5 = (if sw_is_active w \<and> sw_starts_at w \<noteq> None \<and> sw_ends_at w \<noteq> None \<and> sw_organization w \<noteq> None
                          \<and> filter (\<lambda>x. same_window_scope w x \<and> overlaps w x \<and> sw_id x \<noteq> sw_id w) (suppression_windows d) \<noteq> []
                       then err_append es4 ''__all__''
                         ''An active suppression window with the same scope overlaps the selected time range.''
                       else es4)
            in raise_errors es5)))"

definition save_window :: "db \<Rightarrow> suppression_window \<Rightarrow> exn + db" where
  "save_window d w = (case clean_window d w of
      Inl x \<Rightarrow> Inl x
    | Inr _ \<Rightarrow> Inr (d\<lparr>suppression_windows := tbl_put sw_id w (suppression_windows d)\<rparr>))"

subsection \<open>What the validations keep\<close>

definition rule_good :: "alert_rule \<Rightarrow> bool" where
  "rule_good r = (set_columns (ar_threshold r) = 1)"

definition rules_alike :: "alert_rule \<Rightarrow> alert_rule \<Rightarrow> bool" where
  "rules_alike r x = (ar_is_active r \<and> same_rule_target r x \<and> ar_threshold x = ar_threshold r)"

definition rules_ok :: "alert_rule list \<Rightarrow> bool" where
  "rules_ok = table_ok ar_id rule_good rules_alike"

interpretation rule_check: validated_table ar_id rule_good rules_alike
  by unfold_locales (auto simp: rules_alike_def same_rule_target_def)

definition policy_good :: "escalation_policy \<Rightarrow> bool" where
  "policy_good p =
     ((ep_if_not_acknowledged_minutes p \<noteq> None \<or> ep_if_not_resolved_minutes p \<noteq> None)
      \<and> (\<forall>m \<in> set_option (ep_if_not_acknowledged_minutes p). m > 0)
      \<and> (\<forall>m \<in> set_option (ep_if_not_resolved_minutes p). m > 0))"

definition policies_alike :: "escalation_policy \<Rightarrow> escalation_policy \<Rightarrow> bool" where
  "policies_alike p x = (ep_is_active p \<and> same_policy p x)"

definition policies_ok :: "escalation_policy list \<Rightarrow> bool" where
  "policies_ok = table_ok ep_id policy_good policies_alike"

interpretation policy_check: validated_table ep_id policy_good policies_alike
  by unfold_locales (auto simp: policies_alike_def same_policy_def)

definition window_good :: "suppression_window \<Rightarrow> bool" where
  "window_good w = (sw_organization w \<noteq> None \<and>
     (\<exists>s t. sw_starts_at w = Some s \<and> sw_ends_at w = Some t \<and> s < t))"

definition windows_clash :: "suppression_window \<Rightarrow> suppression_window \<Rightarrow> bool" where
  "windows_clash w x = (sw_is_active w \<and> same_window_scope w x \<and> overlaps w x)"

definition windows_ok :: "suppression_window list \<Rightarrow> bool" where
  "windows_ok = table_ok sw_id window_good windows_clash"

interpretation window_check: validated_table sw_id window_good windows_clash
  by unfold_locales (auto simp: windows_clash_def same_window_scope_def overlaps_def split: option.splits)

lemma set_threshold_fields_length: "length (set_threshold_fields r) = set_columns (ar_threshold r)"
  by (simp add: set_threshold_fields_def threshold_fields_def set_columns_def)

lemma threshold_errors_Nil: "threshold_errors r [] = [] \<longleftrightarrow> rule_good r"
  unfolding threshold_errors_def set_threshold_fields_length rule_good_def
  by (simp add: threshold_fields_def)

lemma threshold_errors_mono: "threshold_errors r es = [] \<Longrightarrow> es = []"
  by (auto simp: threshold_errors_def threshold_fields_def split: if_splits)

lemma rule_device_errors_mono: "rule_device_errors r dev es = [] \<Longrightarrow> es = []"
  by (auto simp: rule_device_errors_def Let_def split: if_splits)

text \<open>With exactly one threshold set, the duplicate query compares the thresholds.\<close>

lemma same_threshold_eq:
  assumes "rule_good r"
  shows "same_threshold (hd (set_threshold_fields r)) r x \<longleftrightarrow> ar_threshold x = ar_threshold r"
proof -
  have eq: "ar_threshold x = ar_threshold r \<longleftrightarrow>
      value_float (ar_threshold x) = value_float (ar_threshold r) \<and> value_integer (ar_threshold x) = value_integer (ar_threshold r)
      \<and> value_boolean (ar_threshold x) = value_boolean (ar_threshold r) \<and> value_text (ar_threshold x) = value_text (ar_threshold r)"
    by (cases "ar_threshold x"; cases "ar_threshold r") auto
  show ?thesis
    using assms unfolding eq
    by (auto simp: rule_good_def set_columns_def same_threshold_def column_filter_def
        set_threshold_fields_def threshold_fields_def split: if_splits)
qed

lemma clean_rule_ok:
  assumes "clean_rule d r = Inr u"
  shows "rule_good r" and "x \<in> set (alert_rules d) \<Longrightarrow> ar_id x \<noteq> ar_id r \<Longrightarrow> \<not> rules_alike r x"
proof -
  have ok: "threshold_errors r [] = [] \<and> (ar_is_active r \<longrightarrow> duplicate_rules d r = [])"
    using assms
    by (auto simp: clean_rule_def Let_def split: sum.splits option.splits if_splits dest: rule_device_errors_mono)
  then show good: "rule_good r" by (simp add: threshold_errors_Nil)
  assume x: "x \<in> set (alert_rules d)" "ar_id x \<noteq> ar_id r"
  show "\<not> rules_alike r x"
  proof
    assume a: "rules_alike r x"
    then have "x \<in> set (duplicate_rules d r)"
      using x by (simp add: rules_alike_def duplicate_rules_def same_threshold_eq [OF good])
    with ok a show False by (auto simp: rules_alike_def)
  qed
qed

lemma minutes_errors_Nil: "minutes_errors f v es = [] \<longleftrightarrow> es = [] \<and> (\<forall>m \<in> set_option v. m > 0)"
  by (auto simp: minutes_errors_def split: option.splits)

lemma clean_policy_ok:
  assumes "clean_policy d p = Inr u"
  shows "policy_good p" and "x \<in> set (escalation_policies d) \<Longrightarrow> ep_id x \<noteq> ep_id p \<Longrightarrow> \<not> policies_alike p x"
proof -
  from assms have ok: "policy_good p \<and> (ep_is_active p \<longrightarrow>
      filter (\<lambda>x. same_policy p x \<and> ep_id x \<noteq> ep_id p) (escalation_policies d) = [])"
    by (auto simp: clean_policy_def Let_def minutes_errors_Nil policy_good_def split: sum.splits option.splits if_splits)
  then show "policy_good p" by simp
  assume "x \<in> set (escalation_policies d)" "ep_id x \<noteq> ep_id p"
  with ok show "\<not> policies_alike p x" by (auto simp: policies_alike_def filter_empty_conv)
qed

lemma window_time_errors_Nil:
  "window_time_errors w es = [] \<longleftrightarrow>
     es = [] \<and> (\<exists>s t. sw_starts_at w = Some s \<and> sw_ends_at w = Some t \<and> s < t)"
  by (auto simp: window_time_errors_def Let_def split: option.splits)

lemma window_device_errors_mono: "window_device_errors w dev es = [] \<Longrightarrow> es = []"
  by (auto simp: window_device_errors_def Let_def split: if_splits)

lemma clean_window_ok:
  assumes "clean_window d w = Inr u"
  shows "window_good w" and "x \<in> set (suppression_windows d) \<Longrightarrow> sw_id x \<noteq> sw_id w \<Longrightarrow> \<not> windows_clash w x"
proof -
  define es0 where "es0 = (if sw_organization w = None then err_append [] ''organization'' ''Organization is required.'' else [])"
  have ok: "window_time_errors w es0 = [] \<and> (sw_is_active w \<and> sw_starts_at w \<noteq> None \<and> sw_ends_at w \<noteq> None \<and> sw_organization w \<noteq> None \<longrightarrow>
      filter (\<lambda>x. same_window_scope w x \<and> overlaps w x \<and> sw_id x \<noteq> sw_id w) (suppression_windows d) = [])"
    using assms unfolding clean_window_def es0_def [symmetric] Let_def
    by (auto split: sum.splits option.splits if_splits dest: window_device_errors_mono)
  then show good: "window_good w"
    by (auto simp: window_time_errors_Nil window_good_def es0_def split: if_splits)
  assume "x \<in> set (suppression_windows d)" "sw_id x \<noteq> sw_id w"
  with ok good show "\<not> windows_clash w x" by (auto simp: windows_clash_def window_good_def filter_empty_conv)
qed

lemma after_commit_tables [frame_simps]:
  "alert_rules (after_commit e d) = alert_rules d"
  "escalation_policies (after_commit e d) = escalation_policies d"
  "suppression_windows (after_commit e d) = suppression_windows d"
  "alert_events (after_commit e d) = alert_events d"
  "notifications (after_commit e d) = notifications d"
  "devices (after_commit e d) = devices d"
  by (simp_all add: after_commit_def)

text \<open>
  The configuration tables stay consistent: a rule save that succeeds leaves every rule with
  exactly one threshold and no two active rules with the same scope, operator, metric and
  threshold; a policy save leaves every policy with a trigger and positive minutes and no two
  active policies alike; a window save leaves every window non-empty in time and no two active
  windows of the same scope overlapping.
\<close>

theorem saves_keep_configuration:
  "(rules_ok (alert_rules d) \<and> save_rule e d r = Inr d1 \<longrightarrow> rules_ok (alert_rules d1))
   \<and> (policies_ok (escalation_policies d) \<and> save_policy d p = Inr d2
        \<longrightarrow> policies_ok (escalation_policies d2))
   \<and> (windows_ok (suppression_windows d) \<and> save_window d w = Inr d3
        \<longrightarrow> windows_ok (suppression_windows d3))"
proof (intro conjI impI)
  assume "rules_ok (alert_rules d) \<and> save_rule e d r = Inr d1"
  then show "rules_ok (alert_rules d1)"
    using clean_rule_ok by (auto simp: rules_ok_def save_rule_def put_rule_def frame_simps intro!: rule_check.put_ok split: sum.splits)
next
  assume "policies_ok (escalation_policies d) \<and> save_policy d p = Inr d2"
  then show "policies_ok (escalation_policies d2)"
    using clean_policy_ok by (auto simp: policies_ok_def save_policy_def intro!: policy_check.put_ok split: sum.splits)
next
  assume "windows_ok (suppression_windows d) \<and> save_window d w = Inr d3"
  then show "windows_ok (suppression_windows d3)"
    using clean_window_ok by (auto simp: windows_ok_def save_window_def intro!: window_check.put_ok split: sum.splits)
qed

definition temp_rule :: alert_rule where
  "temp_rule = blank_rule\<lparr>ar_id := 60, ar_organization := 1, ar_metric := 70, ar_name := ''High temperature'',
     ar_threshold := no_value\<lparr>value_float := Some 30\<rparr>, ar_severity := CRITICAL\<rparr>"

definition blank_window :: suppression_window where
  "blank_window = \<lparr>sw_id = 80, sw_organization = Some 1, sw_data_center = None, sw_device = None, sw_metric = None,
     sw_starts_at = Some 0, sw_ends_at = Some 100, sw_reason = None, sw_created_by = None, sw_is_active = True\<rparr>"

theorem saves_keep_configuration_witness:
  "(\<exists>d1. save_rule (plain_env 5) empty_db temp_rule = Inr d1 \<and> rules_ok (alert_rules d1))
   \<and> (\<exists>d3. save_window empty_db blank_window = Inr d3 \<and> windows_ok (suppression_windows d3))"
proof -
  have r: "save_rule (plain_env 5) empty_db temp_rule = Inr (after_commit (plain_env 5) (put_rule temp_rule empty_db))"
    by (simp add: save_rule_def clean_rule_def threshold_errors_def set_threshold_fields_def threshold_fields_def
        follow_def duplicate_rules_def raise_errors_def temp_rule_def blank_defs)
  have w: "save_window empty_db blank_window = Inr (empty_db\<lparr>suppression_windows := tbl_put sw_id blank_window []\<rparr>)"
    by (simp add: save_window_def clean_window_def window_time_errors_def follow_def raise_errors_def
        blank_window_def empty_db_def)
  have e: "rules_ok (alert_rules empty_db)" "windows_ok (suppression_windows empty_db)"
    by (simp_all add: rules_ok_def windows_ok_def empty_db_def rule_check.empty_ok window_check.empty_ok)
  note all = saves_keep_configuration [of empty_db "plain_env 5" temp_rule _ undefined undefined blank_window]
  show ?thesis using all r w e by blast
qed

end
