(* ===== verification/Rule_Match.thy ===== *)
theory Rule_Match
  imports Alert_Rules
begin

text \<open>
  The selection of the rules a telemetry row is evaluated against (\<open>apps/alerts/services/engine.py\<close>):
  the queryset, the specificity order, the cache of the matching keys, and the coherence of that
  cache with the rules table.
\<close>

subsection \<open>Specificity\<close>

definition rule_rank :: "alert_rule \<Rightarrow> nat" where
  "rule_rank r =
     (if ar_device r \<noteq> None then 4
      else if ar_data_center r \<noteq> None \<and> ar_device_type r \<noteq> None then 3
      else if ar_data_center r \<noteq> None then 2
      else if ar_device_type r \<noteq> None then 1
      else 0)"

definition rule_specificity :: "alert_rule \<Rightarrow> nat \<times> time \<times> string" where
  "rule_specificity r = (rule_rank r, ar_created_at r, str_nat (ar_id r))"

text \<open>\<open>list.sort(reverse=True)\<close> is stable too: equal keys keep their order.\<close>

definition sort_reverse :: "('a \<Rightarrow> 'k::linorder) \<Rightarrow> 'a list \<Rightarrow> 'a list" where
  "sort_reverse k xs = rev (sort_key k (rev xs))"

subsection \<open>The queryset\<close>

text \<open>A device always has a type and a telemetry row a data center, so their tests are left out.\<close>

definition rule_conditions :: "device \<Rightarrow> latest_telemetry \<Rightarrow> alert_rule \<Rightarrow> bool" where
  "rule_conditions dev l r =
     (ar_device r = Some (lt_device l)
      \<or> (ar_device r = None \<and> ar_data_center r = Some (lt_data_center l) \<and> ar_device_type r = Some (dev_device_type dev))
      \<or> (ar_device r = None \<and> ar_data_center r = Some (lt_data_center l) \<and> ar_device_type r = None)
      \<or> (ar_device r = None \<and> ar_data_center r = None \<and> ar_device_type r = Some (dev_device_type dev))
      \<or> (ar_device r = None \<and> ar_data_center r = None \<and> ar_device_type r = None))"

definition rule_matches :: "device \<Rightarrow> latest_telemetry \<Rightarrow> alert_rule \<Rightarrow> bool" where
  "rule_matches dev l r =
     (ar_is_active r \<and> ar_organization r = lt_organization l \<and> ar_metric r = lt_metric l \<and> rule_conditions dev l r)"

definition matching_rule_queryset :: "db \<Rightarrow> device \<Rightarrow> latest_telemetry \<Rightarrow> alert_rule list" where
  "matching_rule_queryset d dev l = filter (rule_matches dev l) (alert_rules d)"

subsection \<open>The cached selection\<close>

definition rule_key :: "string \<Rightarrow> device \<Rightarrow> latest_telemetry \<Rightarrow> string" where
  "rule_key version dev l =
     join '':'' [''alert'', ''matching-rules'', version, str_nat (lt_organization l), str_nat (lt_data_center l),
       str_nat (lt_device l), str_nat (dev_device_type dev), str_nat (lt_metric l)]"

definition matching_rule_cache_key :: "env \<Rightarrow> cache \<Rightarrow> device \<Rightarrow> latest_telemetry \<Rightarrow> string \<times> cache" where
  "matching_rule_cache_key e c dev l =
     (let (version, c') = get_alert_rule_match_cache_version e c in (rule_key version dev l, c'))"

definition sorted_matching_rules :: "db \<Rightarrow> device \<Rightarrow> latest_telemetry \<Rightarrow> alert_rule list" where
  "sorted_matching_rules d dev l = sort_reverse rule_specificity (matching_rule_queryset d dev l)"

text \<open>
  \<open>[rule_map[rule_id] for rule_id in cached_ids if rule_id in rule_map]\<close>, with the map built from
  the queryset restricted to the cached keys.
\<close>

definition rules_by_ids :: "db \<Rightarrow> device \<Rightarrow> latest_telemetry \<Rightarrow> uuid list \<Rightarrow> alert_rule list" where
  "rules_by_ids d dev l ids =
     (let found = filter (\<lambda>r. ar_id r \<in> set ids) (matching_rule_queryset d dev l)
      in List.map_filter (\<lambda>k. tbl_get ar_id k found) ids)"

definition get_matching_rules :: "env \<Rightarrow> db \<Rightarrow> latest_telemetry \<Rightarrow> exn + alert_rule list \<times> db" where
  "get_matching_rules e d l = (case device_of d (lt_device l) of
      None \<Rightarrow> Inl DoesNotExist
    | Some dev \<Rightarrow>
        (let (key, c1) = matching_rule_cache_key e (shared_cache d) dev l; d1 = d\<lparr>shared_cache := c1\<rparr> in
         case cache_get e c1 key of
           Inl x \<Rightarrow> Inl x
         | Inr (Some (CIds ids)) \<Rightarrow> Inr (rules_by_ids d1 dev l ids, d1)
         | Inr (Some (CStr s)) \<Rightarrow> if s = [] then Inr ([], d1) else Inl (ValidationError [])
         | Inr None \<Rightarrow>
             (let matching = sorted_matching_rules d1 dev l in
              case cache_set e c1 key (CIds (map ar_id matching)) (Some ALERT_RULE_MATCH_CACHE_TIMEOUT_SECONDS) of
                Inl x \<Rightarrow> Inl x
              | Inr c2 \<Rightarrow> Inr (matching, d1\<lparr>shared_cache := c2\<rparr>))))"

subsection \<open>The order\<close>

lemma set_sort_reverse [simp]: "set (sort_reverse k xs) = set xs"
  by (simp add: sort_reverse_def)

lemma distinct_sort_reverse [simp]: "distinct (sort_reverse k xs) = distinct xs"
  by (simp add: sort_reverse_def distinct_sort)

lemma sort_reverse_descending: "sorted_wrt (\<lambda>x y. k y \<le> k x) (sort_reverse k xs)"
proof -
  have "sorted (map k (sort_key k (rev xs)))" by simp
  then have "sorted_wrt (\<lambda>x y. k x \<le> k y) (sort_key k (rev xs))" by (simp add: sorted_map)
  then show ?thesis unfolding sort_reverse_def by (simp add: sorted_wrt_rev)
qed

text \<open>Distinct keys order strictly: the specificity ends with the rule's own key.\<close>

lemma rule_specificity_inject: "rule_specificity r = rule_specificity x \<Longrightarrow> ar_id r = ar_id x"
  by (simp add: rule_specificity_def)

subsection \<open>Coherence of the cache\<close>

lemma join_colon: "join '':'' (x # y # ys) = x @ CHR '':'' # join '':'' (y # ys)"
  by simp

text \<open>The key determines what the selection depends on: the four keys of the row and the device type.\<close>

lemma rule_key_inject:
  assumes "rule_key v dev l = rule_key v dev' l'"
  shows "lt_organization l = lt_organization l' \<and> lt_data_center l = lt_data_center l' \<and>
    lt_device l = lt_device l' \<and> dev_device_type dev = dev_device_type dev' \<and> lt_metric l = lt_metric l'"
  using assms unfolding rule_key_def join_colon by (simp add: colon_split)

lemma matching_depends:
  assumes "rule_key v dev l = rule_key v dev' l'"
  shows "sorted_matching_rules d dev l = sorted_matching_rules d dev' l'"
proof -
  have "rule_matches dev l = rule_matches dev' l'"
    using rule_key_inject [OF assms] by (auto simp: rule_matches_def rule_conditions_def fun_eq_iff)
  then show ?thesis by (simp add: sorted_matching_rules_def matching_rule_queryset_def)
qed

definition current_version :: "db \<Rightarrow> string option" where
  "current_version d = (case shared_cache d ALERT_RULE_MATCH_CACHE_VERSION_KEY of
      Some (CStr v, None) \<Rightarrow> if v = [] then None else Some v
    | _ \<Rightarrow> None)"

text \<open>
  The cache agrees with the table: a version entry is a non-empty text without an expiry, and an
  entry of the current namespace is the list of keys that the query would find now.
\<close>

definition cache_coherent :: "db \<Rightarrow> bool" where
  "cache_coherent d =
     ((\<forall>x. shared_cache d ALERT_RULE_MATCH_CACHE_VERSION_KEY = Some x \<longrightarrow> (\<exists>v. x = (CStr v, None) \<and> v \<noteq> []))
      \<and> (\<forall>v dev l x. current_version d = Some v \<longrightarrow> shared_cache d (rule_key v dev l) = Some x \<longrightarrow>
            fst x = CIds (map ar_id (sorted_matching_rules d dev l))))"

text \<open>What \<open>uuid4\<close> promises of a new namespace: no entry of the cache is in it.\<close>

definition fresh_namespace :: "env \<Rightarrow> db \<Rightarrow> bool" where
  "fresh_namespace e d = (fresh_hex e \<noteq> [] \<and> (\<forall>dev l. shared_cache d (rule_key (fresh_hex e) dev l) = None))"

lemma version_key_not_rule_key [simp]: "rule_key v dev l \<noteq> ALERT_RULE_MATCH_CACHE_VERSION_KEY"
proof
  assume k: "rule_key v dev l = ALERT_RULE_MATCH_CACHE_VERSION_KEY"
  have "length (filter (\<lambda>c. c = CHR '':'') (rule_key v dev l)) \<ge> 7"
    unfolding rule_key_def join_colon by simp
  then show False unfolding k ALERT_RULE_MATCH_CACHE_VERSION_KEY_def by simp
qed

lemma map_filter_map_get:
  assumes "keys_unique ar_id rows" and "set xs \<subseteq> set rows"
  shows "List.map_filter (\<lambda>k. tbl_get ar_id k rows) (map ar_id xs) = xs"
  using assms
proof (induction xs)
  case Nil
  then show ?case by (simp add: List.map_filter_simps)
next
  case (Cons x xs)
  then have "tbl_get ar_id (ar_id x) rows = Some x"
    by (intro rule_tbl.get_in) (auto simp: keys_unique_def)
  with Cons show ?case by (simp add: List.map_filter_simps)
qed

lemma keys_unique_filter: "keys_unique pk rows \<Longrightarrow> keys_unique pk (filter P rows)"
  by (auto simp: keys_unique_def distinct_map intro: inj_on_subset)

text \<open>The keys of the current selection give back the selection.\<close>

lemma rules_by_current_ids:
  assumes "keys_unique ar_id (alert_rules d)"
  shows "rules_by_ids d dev l (map ar_id (sorted_matching_rules d dev l)) = sorted_matching_rules d dev l"
proof -
  have "filter (\<lambda>r. ar_id r \<in> set (map ar_id (sorted_matching_rules d dev l))) (matching_rule_queryset d dev l)
      = matching_rule_queryset d dev l"
    by (rule filter_True) (auto simp: sorted_matching_rules_def)
  moreover have "keys_unique ar_id (matching_rule_queryset d dev l)"
    unfolding matching_rule_queryset_def using assms by (rule keys_unique_filter)
  ultimately show ?thesis
    unfolding rules_by_ids_def Let_def
    by (simp add: map_filter_map_get sorted_matching_rules_def)
qed

lemma sorted_matching_cache [simp]: "sorted_matching_rules (d\<lparr>shared_cache := c\<rparr>) dev l = sorted_matching_rules d dev l"
  by (simp add: sorted_matching_rules_def matching_rule_queryset_def)

lemma rules_by_ids_cache [simp]: "rules_by_ids (d\<lparr>shared_cache := c\<rparr>) dev l ids = rules_by_ids d dev l ids"
  by (simp add: rules_by_ids_def matching_rule_queryset_def)

text \<open>Reading the version starts a namespace where there is none and changes nothing otherwise.\<close>

lemma version_cases:
  assumes "cache_up e" and "cache_coherent d" and "fresh_namespace e d"
    and "get_alert_rule_match_cache_version e (shared_cache d) = (v, c)"
  shows "cache_coherent (d\<lparr>shared_cache := c\<rparr>) \<and> current_version (d\<lparr>shared_cache := c\<rparr>) = Some v"
proof (cases "shared_cache d ALERT_RULE_MATCH_CACHE_VERSION_KEY")
  case None
  with assms have "v = fresh_hex e" "c = (shared_cache d)(ALERT_RULE_MATCH_CACHE_VERSION_KEY \<mapsto> (CStr (fresh_hex e), None))"
    by (auto simp: get_alert_rule_match_cache_version_def cache_get_def cache_set_def)
  with assms(3) show ?thesis
    by (auto simp: cache_coherent_def current_version_def fresh_namespace_def)
next
  case (Some x)
  with assms(2) obtain w where x: "x = (CStr w, None)" "w \<noteq> []" by (auto simp: cache_coherent_def)
  with Some assms(1,4) have "v = w" "c = shared_cache d"
    by (simp_all add: get_alert_rule_match_cache_version_def cache_get_def cached_version_def)
  with Some x assms(2) show ?thesis by (simp add: current_version_def)
qed

lemma cache_coherentI:
  assumes "cache_coherent d"
    and same: "shared_cache d' ALERT_RULE_MATCH_CACHE_VERSION_KEY = shared_cache d ALERT_RULE_MATCH_CACHE_VERSION_KEY"
    and v: "current_version d' = Some v"
    and entries: "\<And>dev l x. shared_cache d' (rule_key v dev l) = Some x \<Longrightarrow>
      fst x = CIds (map ar_id (sorted_matching_rules d' dev l))"
  shows "cache_coherent d'"
proof -
  have 1: "\<forall>x. shared_cache d' ALERT_RULE_MATCH_CACHE_VERSION_KEY = Some x \<longrightarrow> (\<exists>v. x = (CStr v, None) \<and> v \<noteq> [])"
    using assms(1) unfolding cache_coherent_def same by (rule conjunct1)
  have 2: "fst x = CIds (map ar_id (sorted_matching_rules d' dev l))"
    if w: "current_version d' = Some w" and x: "shared_cache d' (rule_key w dev l) = Some x" for w dev l x
  proof -
    have "w = v" using w v by simp
    with x entries show ?thesis by blast
  qed
  from 1 2 show ?thesis unfolding cache_coherent_def by blast
qed

lemma cache_coherentD:
  "cache_coherent d \<Longrightarrow> current_version d = Some v \<Longrightarrow> shared_cache d (rule_key v dev l) = Some x \<Longrightarrow>
    fst x = CIds (map ar_id (sorted_matching_rules d dev l))"
  unfolding cache_coherent_def by blast

lemma coherent_set_entry:
  assumes "cache_coherent d" and "current_version d = Some v"
  shows "cache_coherent (d\<lparr>shared_cache := (shared_cache d)(rule_key v dev l \<mapsto>
      (CIds (map ar_id (sorted_matching_rules d dev l)), t))\<rparr>)"
proof (rule cache_coherentI [OF assms(1), where v = v])
  let ?c = "(shared_cache d)(rule_key v dev l \<mapsto> (CIds (map ar_id (sorted_matching_rules d dev l)), t))"
  have same: "?c ALERT_RULE_MATCH_CACHE_VERSION_KEY = shared_cache d ALERT_RULE_MATCH_CACHE_VERSION_KEY"
    using version_key_not_rule_key [of v dev l, symmetric] by (rule fun_upd_other)
  then show "shared_cache (d\<lparr>shared_cache := ?c\<rparr>) ALERT_RULE_MATCH_CACHE_VERSION_KEY
      = shared_cache d ALERT_RULE_MATCH_CACHE_VERSION_KEY" by simp
  show "current_version (d\<lparr>shared_cache := ?c\<rparr>) = Some v"
    using assms(2) unfolding current_version_def by (simp del: fun_upd_apply add: same)
  fix dev' l' x
  assume x: "shared_cache (d\<lparr>shared_cache := ?c\<rparr>) (rule_key v dev' l') = Some x"
  have "fst x = CIds (map ar_id (sorted_matching_rules d dev' l'))"
  proof (cases "rule_key v dev' l' = rule_key v dev l")
    case True
    with x matching_depends [OF True, of d] show ?thesis by auto
  next
    case False
    with x have "shared_cache d (rule_key v dev' l') = Some x" by simp
    with assms show ?thesis by (rule cache_coherentD)
  qed
  then show "fst x = CIds (map ar_id (sorted_matching_rules (d\<lparr>shared_cache := ?c\<rparr>) dev' l'))" by simp
qed

lemma coherent_after_commit:
  assumes "cache_up e" and "fresh_namespace e d"
  shows "cache_coherent (after_commit e d)"
  using assms
  by (simp add: after_commit_def invalidate_alert_rule_match_cache_def cache_set_def cache_coherent_def
      current_version_def fresh_namespace_def)

lemma get_matching_rules_coherent:
  assumes "keys_unique ar_id (alert_rules d)" and "cache_up e" and "cache_coherent d" and "fresh_namespace e d"
    and "device_of d (lt_device l) = Some dev"
  shows "\<exists>c. get_matching_rules e d l = Inr (sorted_matching_rules d dev l, d\<lparr>shared_cache := c\<rparr>)
    \<and> cache_coherent (d\<lparr>shared_cache := c\<rparr>)"
proof -
  obtain v c1 where v: "get_alert_rule_match_cache_version e (shared_cache d) = (v, c1)" by (metis surj_pair)
  define d1 where "d1 = d\<lparr>shared_cache := c1\<rparr>"
  from version_cases [OF assms(2-4) v] have co: "cache_coherent d1" "current_version d1 = Some v"
    by (simp_all add: d1_def)
  have c1: "shared_cache d1 = c1" by (simp add: d1_def)
  have u1: "keys_unique ar_id (alert_rules d1)" using assms(1) by (simp add: d1_def)
  have m1: "sorted_matching_rules d1 dev l = sorted_matching_rules d dev l" by (simp add: d1_def)
  have get: "get_matching_rules e d l =
      (case cache_get e c1 (rule_key v dev l) of
           Inl x \<Rightarrow> Inl x
         | Inr (Some (CIds ids)) \<Rightarrow> Inr (rules_by_ids d1 dev l ids, d1)
         | Inr (Some (CStr s)) \<Rightarrow> if s = [] then Inr ([], d1) else Inl (ValidationError [])
         | Inr None \<Rightarrow>
             (let matching = sorted_matching_rules d1 dev l in
              case cache_set e c1 (rule_key v dev l) (CIds (map ar_id matching)) (Some ALERT_RULE_MATCH_CACHE_TIMEOUT_SECONDS) of
                Inl x \<Rightarrow> Inl x
              | Inr c2 \<Rightarrow> Inr (matching, d1\<lparr>shared_cache := c2\<rparr>)))"
    unfolding get_matching_rules_def matching_rule_cache_key_def assms(5) v d1_def Let_def by simp
  show ?thesis
  proof (cases "cache_get e c1 (rule_key v dev l)")
    case (Inl x)
    with assms(2) show ?thesis by (simp add: cache_get_def)
  next
    case (Inr found)
    show ?thesis
    proof (cases found)
      case None
      define c2 where "c2 = (shared_cache d1)(rule_key v dev l \<mapsto>
          (CIds (map ar_id (sorted_matching_rules d1 dev l)), Some (now e + seconds 60)))"
      have co2: "cache_coherent (d1\<lparr>shared_cache := c2\<rparr>)"
        unfolding c2_def using co by (rule coherent_set_entry)
      have "cache_set e c1 (rule_key v dev l) (CIds (map ar_id (sorted_matching_rules d1 dev l)))
          (Some ALERT_RULE_MATCH_CACHE_TIMEOUT_SECONDS) = Inr c2"
        using assms(2) by (simp add: cache_set_def ALERT_RULE_MATCH_CACHE_TIMEOUT_SECONDS_def c2_def c1)
      then have "get_matching_rules e d l = Inr (sorted_matching_rules d dev l, d1\<lparr>shared_cache := c2\<rparr>)"
        unfolding get Inr None Let_def m1 by simp
      moreover have "d1\<lparr>shared_cache := c2\<rparr> = d\<lparr>shared_cache := c2\<rparr>" by (simp add: d1_def)
      ultimately show ?thesis using co2 by metis
    next
      case (Some x)
      with Inr assms(2) obtain t where "shared_cache d1 (rule_key v dev l) = Some (x, t)"
        by (auto simp: cache_get_def c1 split: option.splits if_splits)
      with co cache_coherentD have "x = CIds (map ar_id (sorted_matching_rules d1 dev l))" by fastforce
      with Some Inr get rules_by_current_ids [OF u1, of dev l] m1
      have "get_matching_rules e d l = Inr (sorted_matching_rules d dev l, d1)" by simp
      with co show ?thesis unfolding d1_def by blast
    qed
  qed
qed

text \<open>
  C24. The cached selection is exact: with a cache that is up and agrees with the rules table,
  the rules a row is evaluated against are exactly the active rules of its organization and
  metric whose scope takes in its device, each once, most specific first (a device rule before a
  data center rule with a device type, before a data center rule, before a device type rule,
  before a rule of the whole organization), and the cache still agrees afterwards.
\<close>

theorem matching_rules_exact:
  assumes "keys_unique ar_id (alert_rules d)" and "cache_up e" and "cache_coherent d" and "fresh_namespace e d"
    and "device_of d (lt_device l) = Some dev"
  shows "\<exists>rs d'. get_matching_rules e d l = Inr (rs, d') \<and> set rs = {r \<in> set (alert_rules d). rule_matches dev l r}
    \<and> distinct rs \<and> sorted_wrt (\<lambda>x y. rule_specificity y < rule_specificity x) rs
    \<and> alert_rules d' = alert_rules d \<and> cache_coherent d'"
proof -
  obtain c where c: "get_matching_rules e d l = Inr (sorted_matching_rules d dev l, d\<lparr>shared_cache := c\<rparr>)"
    "cache_coherent (d\<lparr>shared_cache := c\<rparr>)"
    using get_matching_rules_coherent [OF assms] by blast
  let ?rs = "sorted_matching_rules d dev l"
  have set: "set ?rs = {r \<in> set (alert_rules d). rule_matches dev l r}"
    by (auto simp: sorted_matching_rules_def matching_rule_queryset_def)
  have dist: "distinct ?rs"
    using assms(1) by (simp add: sorted_matching_rules_def matching_rule_queryset_def keys_unique_def distinct_map)
  have desc: "sorted_wrt (\<lambda>x y. rule_specificity y \<le> rule_specificity x) ?rs"
    unfolding sorted_matching_rules_def by (rule sort_reverse_descending)
  have "sorted_wrt (\<lambda>x y. rule_specificity y < rule_specificity x) ?rs"
    unfolding sorted_wrt_iff_nth_less
  proof (intro allI impI)
    fix i j assume ij: "i < j" "j < length ?rs"
    with desc have le: "rule_specificity (?rs ! j) \<le> rule_specificity (?rs ! i)"
      by (simp add: sorted_wrt_iff_nth_less)
    have "?rs ! i \<noteq> ?rs ! j" using dist ij by (simp add: nth_eq_iff_index_eq)
    moreover have "?rs ! i \<in> set (alert_rules d)" "?rs ! j \<in> set (alert_rules d)"
      using set ij nth_mem [of i ?rs] nth_mem [of j ?rs] by auto
    ultimately have "ar_id (?rs ! i) \<noteq> ar_id (?rs ! j)"
      using assms(1) by (auto simp: keys_unique_def distinct_map dest: inj_onD)
    with le rule_specificity_inject show "rule_specificity (?rs ! j) < rule_specificity (?rs ! i)"
      by (metis order_le_less)
  qed
  with c set dist show ?thesis by force
qed

definition temp_device :: device where
  "temp_device = blank_device\<lparr>dev_id := 40, dev_organization := 1, dev_data_center := 10, dev_device_type := 3, dev_name := ''UPS-01''\<rparr>"

definition temp_row :: latest_telemetry where
  "temp_row = blank_latest\<lparr>lt_id := 90, lt_organization := 1, lt_data_center := 10, lt_device := 40, lt_metric := 70,
     lt_values := no_value\<lparr>value_float := Some 35\<rparr>\<rparr>"

definition rule_example :: db where
  "rule_example = empty_db\<lparr>devices := [temp_device],
     device_types := [\<lparr>dt_id = 3, dt_name = ''UPS'', dt_code = ''UPS''\<rparr>],
     metrics := [blank_metric\<lparr>me_id := 70, me_code := ''temperature''\<rparr>],
     alert_rules := [temp_rule, temp_rule\<lparr>ar_id := 61, ar_device := Some 40\<rparr>]\<rparr>"

lemmas rule_example_defs = rule_example_def temp_row_def temp_device_def temp_rule_def blank_defs

lemma rule_example_ok:
  "keys_unique ar_id (alert_rules rule_example)" "cache_up (plain_env 5)" "cache_coherent rule_example"
  "fresh_namespace (plain_env 5) rule_example" "device_of rule_example (lt_device temp_row) = Some temp_device"
  by (simp_all add: rule_example_defs keys_unique_def cache_coherent_def current_version_def fresh_namespace_def
      device_of_def tbl_get_def)

theorem matching_rules_exact_witness:
  "\<exists>rs d'. get_matching_rules (plain_env 5) rule_example temp_row = Inr (rs, d') \<and> set rs = set (alert_rules rule_example)
    \<and> sorted_wrt (\<lambda>x y. rule_specificity y < rule_specificity x) rs"
proof -
  have all: "{r \<in> set (alert_rules rule_example). rule_matches temp_device temp_row r} = set (alert_rules rule_example)"
    by (auto simp: rule_example_defs rule_matches_def rule_conditions_def)
  show ?thesis using matching_rules_exact [OF rule_example_ok] unfolding all by blast
qed

text \<open>
  Rule writes invalidate: whatever the cache held, after a rule is saved or deleted with the
  cache up, the cache agrees with the new rules table.
\<close>

theorem rule_writes_keep_coherence:
  assumes "cache_up e" and "fresh_namespace e d"
  shows "(save_rule e d r = Inr d' \<longrightarrow> cache_coherent d') \<and> cache_coherent (delete_rule e d r)"
proof -
  have "fresh_namespace e (put_rule r d)" using assms(2) by (simp add: fresh_namespace_def put_rule_def)
  with assms(1) have "cache_coherent (after_commit e (put_rule r d))" by (rule coherent_after_commit)
  moreover have "cache_coherent (delete_rule e d r)"
    unfolding delete_rule_def using assms by (intro coherent_after_commit) (simp_all add: fresh_namespace_def)
  ultimately show ?thesis by (auto simp: save_rule_def split: sum.splits)
qed

theorem rule_writes_keep_coherence_witness:
  "cache_coherent (delete_rule (plain_env 5) rule_example temp_rule) \<and>
    alert_rules (delete_rule (plain_env 5) rule_example temp_rule) = [temp_rule\<lparr>ar_id := 61, ar_device := Some 40\<rparr>]"
  using rule_writes_keep_coherence [OF rule_example_ok(2,4)]
  by (simp add: delete_rule_def frame_simps) (simp add: rule_example_defs tbl_delete_def)

text \<open>
  A cache outage stops the evaluation: the namespace lookup does fall back to a local
  namespace, as its documentation says, but the lookup of the rules that follows is not
  guarded, so the selection raises instead of going on with the query.
\<close>

theorem cache_outage_raises:
  assumes "\<not> cache_up e" and "device_of d (lt_device l) = Some dev"
  shows "get_matching_rules e d l = Inl CacheError
    \<and> get_alert_rule_match_cache_version e (shared_cache d) = (''cache-unavailable'', shared_cache d)"
  using assms
  by (simp add: get_matching_rules_def matching_rule_cache_key_def get_alert_rule_match_cache_version_def cache_get_def)

theorem cache_outage_raises_witness:
  "get_matching_rules ((plain_env 5)\<lparr>cache_up := False\<rparr>) rule_example temp_row = Inl CacheError"
  using cache_outage_raises [of "(plain_env 5)\<lparr>cache_up := False\<rparr>", OF _ rule_example_ok(5)] by simp

end
