(* ===== verification/Sms.thy ===== *)
theory Sms
  imports Py_Value
begin

text \<open>
  The SMS channel (\<open>apps/notifications/services/sms.py\<close>): the recipient's number, its
  normalisation, the SOAP envelope and the gateway's answer, and the choice of the backend. The
  HTTP client and the XML parser are parameters (\<open>http_post\<close>, \<open>parse_xml\<close>); an XML document is a
  tree of elements.
\<close>

subsection \<open>XML elements, HTTP, settings\<close>

datatype xml = Element (xml_tag: string) (xml_text: "string option") (xml_children: "xml list")

text \<open>\<open>root.iter()\<close>: document order.\<close>

fun xml_iter :: "xml \<Rightarrow> xml list" where
  "xml_iter (Element t x cs) = Element t x cs # concat (map xml_iter cs)"

record http_response =
  status_code :: int
  content :: string

datatype http_body = Json dict | Soap xml

record sms_settings =
  SMS_BACKEND :: string
  SMS_API_URL :: string
  SMS_API_KEY :: string
  SMS_DEFAULT_SENDER :: string
  SMS_TIMEOUT_SECONDS :: int
  SMS_SOAP_SERVICE_URL :: string
  SMS_SOAP_USER_ID :: string
  SMS_SOAP_PASSWORD :: string
  SMS_SOAP_SMS_TYPE :: string

text \<open>
  What delivery relies on outside the code: the mail backend (recipient, subject, message), an
  HTTP post (URL, headers, body, timeout), the XML parser.
\<close>

record transports =
  send_mail :: "string \<Rightarrow> string \<Rightarrow> string \<Rightarrow> exn + unit"
  http_post :: "py \<Rightarrow> (string \<times> string) list \<Rightarrow> http_body \<Rightarrow> rat \<Rightarrow> exn + http_response"
  parse_xml :: "string \<Rightarrow> xml option"
  sms :: sms_settings

text \<open>\<open>raise_for_status\<close> raises on a 4xx or 5xx answer.\<close>

definition raise_for_status :: "http_response \<Rightarrow> exn + http_response" where
  "raise_for_status r =
     (if 400 \<le> status_code r \<and> status_code r < 600 then Inl (DeliveryError (''HTTP '' @ str_int (status_code r))) else Inr r)"

subsection \<open>The number\<close>

definition normalize_bangladesh_mobile :: "string \<Rightarrow> exn + string" where
  "normalize_bangladesh_mobile phone =
     (let digits = filter is_digit phone in
      if length digits = 11 \<and> startswith digits ''01'' then Inr digits
      else if length digits = 13 \<and> startswith digits ''880'' \<and> digits ! 3 = CHR ''1'' then Inr (drop 2 digits)
      else if length digits = 12 \<and> startswith digits ''88'' \<and> digits ! 2 = CHR ''0'' \<and> digits ! 3 = CHR ''1''
      then Inr (drop 2 digits)
      else Inl (ValueError ''Recipient phone/mobile must be a valid 11-digit Bangladeshi mobile number.''))"

subsection \<open>The SOAP call\<close>

text \<open>\<open>tag.rsplit("}", 1)[1]\<close> is what follows the last brace.\<close>

definition soap_local_name :: "xml \<Rightarrow> string" where
  "soap_local_name x = rev (takeWhile (\<lambda>c. c \<noteq> CHR ''}'') (rev (xml_tag x)))"

definition find_soap_text :: "xml \<Rightarrow> string \<Rightarrow> string" where
  "find_soap_text tree name = (case find (\<lambda>x. soap_local_name x = name) (xml_iter tree) of
      None \<Rightarrow> []
    | Some x \<Rightarrow> strip (str_or (xml_text x) []))"

definition parse_soap_delivery_response :: "transports \<Rightarrow> string \<Rightarrow> exn + (string \<times> string) list" where
  "parse_soap_delivery_response tr cont = (case parse_xml tr cont of
      None \<Rightarrow> Inl (ValueError ''Invalid SMS gateway response.'')
    | Some tree \<Rightarrow> Inr
        [(''status_id'', find_soap_text tree ''StatusId''), (''status'', find_soap_text tree ''Status''),
         (''sms_csms_id'', find_soap_text tree ''SmsCsmsId''), (''sms_ref_no'', find_soap_text tree ''SmsRefNo'')])"

definition build_sms_soap_envelope :: "string \<Rightarrow> string \<Rightarrow> string \<Rightarrow> string \<Rightarrow> string \<Rightarrow> xml" where
  "build_sms_soap_envelope phone message sms_type user_id password =
     Element ''{http://schemas.xmlsoap.org/soap/envelope/}Envelope'' None
       [Element ''{http://schemas.xmlsoap.org/soap/envelope/}Body'' None
         [Element ''{http://dhakabank.com.bd/}DoSendSms'' None
           [Element ''{http://dhakabank.com.bd/}mobileNumber'' (Some phone) [],
            Element ''{http://dhakabank.com.bd/}smsText'' (Some message) [],
            Element ''{http://dhakabank.com.bd/}smsType'' (Some sms_type) [],
            Element ''{http://dhakabank.com.bd/}userId'' (Some user_id) [],
            Element ''{http://dhakabank.com.bd/}password'' (Some password) []]]]"

definition soap_gateway_ok :: "string \<Rightarrow> string \<Rightarrow> bool" where
  "soap_gateway_ok status_id status = (status_id = ''1'' \<or> upper status \<in> {''SUCCESSFULL'', ''SUCCESSFUL''})"

definition send_soap_sms :: "transports \<Rightarrow> string \<Rightarrow> string \<Rightarrow> exn + dict" where
  "send_soap_sms tr phone message =
     (let cfg = sms tr;
          service_url = (if SMS_SOAP_SERVICE_URL cfg = [] then SMS_API_URL cfg else SMS_SOAP_SERVICE_URL cfg);
          sms_type = upper (strip (if SMS_SOAP_SMS_TYPE cfg = [] then ''E'' else SMS_SOAP_SMS_TYPE cfg))
      in
      if service_url = [] then Inl (ValueError ''SMS_SOAP_SERVICE_URL is not configured'')
      else if SMS_SOAP_USER_ID cfg = [] then Inl (ValueError ''SMS_SOAP_USER_ID is not configured'')
      else if SMS_SOAP_PASSWORD cfg = [] then Inl (ValueError ''SMS_SOAP_PASSWORD is not configured'')
      else if sms_type \<notin> {''E'', ''B''} then Inl (ValueError (''SMS_SOAP_SMS_TYPE must be either '' @ [CHR 0x27, CHR ''E'', CHR 0x27] @ '' or '' @ [CHR 0x27, CHR ''B'', CHR 0x27]))
      else case normalize_bangladesh_mobile phone of
        Inl x \<Rightarrow> Inl x
      | Inr number \<Rightarrow>
        (case http_post tr (PStr service_url)
            [(''Content-Type'', ''text/xml; charset=utf-8''), (''SOAPAction'', ''\"http://dhakabank.com.bd/DoSendSms\"'')]
            (Soap (build_sms_soap_envelope number message sms_type (SMS_SOAP_USER_ID cfg) (SMS_SOAP_PASSWORD cfg)))
            (of_int (SMS_TIMEOUT_SECONDS cfg)) of
          Inl x \<Rightarrow> Inl x
        | Inr resp \<Rightarrow>
          (case raise_for_status resp of
            Inl x \<Rightarrow> Inl x
          | Inr _ \<Rightarrow>
            (case parse_soap_delivery_response tr (content resp) of
              Inl x \<Rightarrow> Inl x
            | Inr g \<Rightarrow>
              (let status_id = the (dict_get g ''status_id''); status = the (dict_get g ''status'') in
               if \<not> soap_gateway_ok status_id status
               then Inl (ValueError (''SMS gateway rejected the message: '' @
                 (if status \<noteq> [] then status else if status_id \<noteq> [] then status_id else ''FAILED'')))
               else Inr ([(''backend'', PStr ''soap''), (''phone'', PStr number), (''service_url'', PStr service_url)]
                         @ map (\<lambda>(k, v). (k, PStr v)) g))))))"

subsection \<open>The other backends and the choice\<close>

definition send_http_sms :: "transports \<Rightarrow> string \<Rightarrow> string \<Rightarrow> exn + http_response" where
  "send_http_sms tr phone message =
     (let cfg = sms tr in
      if SMS_API_URL cfg = [] then Inl (ValueError ''SMS_API_URL is not configured'')
      else case http_post tr (PStr (SMS_API_URL cfg))
          (if SMS_API_KEY cfg = [] then []
           else [(''Authorization'', ''Bearer '' @ SMS_API_KEY cfg), (''X-API-Key'', SMS_API_KEY cfg)])
          (Json [(''sender'', PStr (SMS_DEFAULT_SENDER cfg)), (''to'', PStr phone), (''message'', PStr message)])
          (of_int (SMS_TIMEOUT_SECONDS cfg)) of
        Inl x \<Rightarrow> Inl x
      | Inr resp \<Rightarrow> raise_for_status resp)"

definition send_sms_message :: "transports \<Rightarrow> string \<Rightarrow> string \<Rightarrow> exn + dict" where
  "send_sms_message tr phone message =
     (let backend = lower (strip (SMS_BACKEND (sms tr))) in
      if backend = ''console'' then Inr [(''backend'', PStr ''console''), (''phone'', PStr phone)]
      else if backend = ''http'' then
        (case send_http_sms tr phone message of
           Inl x \<Rightarrow> Inl x
         | Inr resp \<Rightarrow> Inr [(''backend'', PStr ''http''), (''phone'', PStr phone), (''status_code'', PInt (status_code resp))])
      else if backend = ''soap'' then send_soap_sms tr phone message
      else Inl (ValueError (''Unsupported SMS_BACKEND: '' @ backend)))"

subsection \<open>What the normalisation gives\<close>

lemma startswith_nth: "startswith s p \<Longrightarrow> i < length p \<Longrightarrow> s ! i = p ! i"
  by (auto simp: startswith_append nth_append)

lemma normalized_prefix:
  assumes "normalize_bangladesh_mobile p = Inr s"
  shows "startswith s ''01'' \<and> (\<forall>c \<in> set s. is_digit c)"
proof -
  define ds where "ds = filter is_digit p"
  have dig: "\<forall>c \<in> set ds. is_digit c" by (simp add: ds_def)
  have d01: "is_digit CHR ''0''" "is_digit CHR ''1''" by (simp_all add: is_digit_def)
  consider "s = ds" "startswith ds ''01''"
    | "s = drop 2 ds" "length ds = 13" "startswith ds ''880''" "ds ! 3 = CHR ''1''"
    | "s = drop 2 ds" "length ds = 12" "ds ! 2 = CHR ''0''" "ds ! 3 = CHR ''1''"
    using assms unfolding normalize_bangladesh_mobile_def ds_def [symmetric] Let_def
    by (auto split: if_splits)
  then show ?thesis
  proof cases
    case 1
    with dig show ?thesis by simp
  next
    case 2
    from startswith_nth [OF 2(3), of 2] have "ds ! 2 = CHR ''0''" by simp
    moreover have "drop 2 ds = ds ! 2 # ds ! 3 # drop 4 ds"
      using 2(2) by (simp add: Cons_nth_drop_Suc numeral_2_eq_2 eval_nat_numeral)
    ultimately show ?thesis using 2 dig d01 by (auto dest: in_set_dropD)
  next
    case 3
    have "drop 2 ds = ds ! 2 # ds ! 3 # drop 4 ds"
      using 3(2) by (simp add: Cons_nth_drop_Suc numeral_2_eq_2 eval_nat_numeral)
    with 3 dig d01 show ?thesis by (auto dest: in_set_dropD)
  qed
qed

text \<open>
  The number an SMS is sent to: what the normalisation accepts starts with 01 and has digits
  only, and normalising it again changes nothing; but it has the promised eleven digits exactly
  when the input did not have twelve, because the branch for twelve digits cuts two off.
\<close>

theorem normalized_mobile:
  assumes "normalize_bangladesh_mobile p = Inr s"
  shows "startswith s ''01'' \<and> (\<forall>c \<in> set s. is_digit c)
    \<and> (length s = 11 \<longleftrightarrow> length (filter is_digit p) \<noteq> 12)
    \<and> (length (filter is_digit p) \<noteq> 12 \<longrightarrow> normalize_bangladesh_mobile s = Inr s)"
proof -
  have pre: "startswith s ''01''" "\<forall>c \<in> set s. is_digit c" using normalized_prefix [OF assms] by auto
  have len: "length s = 11 \<longleftrightarrow> length (filter is_digit p) \<noteq> 12"
    using assms by (auto simp: normalize_bangladesh_mobile_def Let_def split: if_splits)
  have "filter is_digit s = s" using pre(2) by simp
  with pre len show ?thesis by (auto simp: normalize_bangladesh_mobile_def)
qed

theorem normalized_mobile_witness:
  "normalize_bangladesh_mobile ''+880 1712-345678'' = Inr ''01712345678''
   \<and> normalize_bangladesh_mobile ''880171234567'' = Inr ''0171234567'' \<and> length ''0171234567'' \<noteq> 11"
proof -
  have a: "normalize_bangladesh_mobile ''+880 1712-345678'' = Inr ''01712345678''"
    by (simp add: normalize_bangladesh_mobile_def is_digit_def Let_def)
  have b: "normalize_bangladesh_mobile ''880171234567'' = Inr ''0171234567''"
    by (simp add: normalize_bangladesh_mobile_def is_digit_def Let_def)
  have "length (filter is_digit ''880171234567'') = 12" by (simp add: is_digit_def)
  with normalized_mobile [OF b] have "length ''0171234567'' \<noteq> 11" by blast
  with a b show ?thesis by blast
qed

end
