(* ===== verification/Delivery.thy ===== *)
theory Delivery
  imports Sms Access_Scope
begin

text \<open>
  The delivery of notifications: \<open>apps/notifications/services/delivery.py\<close>, \<open>email.py\<close>, the Celery
  tasks of \<open>apps/notifications/tasks.py\<close> and the views of \<open>apps/notifications/views.py\<close>. Each
  function is a state passing function on the database; the workers that run them concurrently
  are a step relation whose steps are the code's transactions and external sends.
\<close>

subsection \<open>Queueing and claiming\<close>

definition claimed_statuses :: "notification_status set" where
  "claimed_statuses = {SENT, DELIVERING}"

definition queue_notification_delivery :: "db \<Rightarrow> notification \<Rightarrow> db" where
  "queue_notification_delivery d n =
     (if nt_status n \<in> claimed_statuses then d else d\<lparr>outbox := outbox d @ [SendNotification (nt_id n)]\<rparr>)"

definition save_notification :: "db \<Rightarrow> uuid \<Rightarrow> (notification \<Rightarrow> notification) \<Rightarrow> db" where
  "save_notification d k f = d\<lparr>notifications := tbl_update nt_id k f (notifications d)\<rparr>"

definition claim_notification_for_delivery :: "env \<Rightarrow> db \<Rightarrow> uuid \<Rightarrow> notification option \<times> db" where
  "claim_notification_for_delivery e d k = (case notification_of d k of
      None \<Rightarrow> (None, d)
    | Some n \<Rightarrow>
        if nt_status n \<in> claimed_statuses then (None, d)
        else (let claim = (\<lambda>r. r\<lparr>nt_status := DELIVERING, nt_error_message := Some [], nt_updated_at := now e\<rparr>)
              in (Some (claim n), save_notification d k claim)))"

subsection \<open>Requeueing\<close>

text \<open>An empty list of channels or keys stands for no filter, as \<open>None\<close> and \<open>[]\<close> do in the code.\<close>

definition channel_filter :: "notification_channel list \<Rightarrow> notification \<Rightarrow> bool" where
  "channel_filter chs n = (chs = [] \<or> nt_channel n \<in> set chs)"

definition stale_delivering_queryset :: "env \<Rightarrow> db \<Rightarrow> int \<Rightarrow> notification_channel list \<Rightarrow> notification list" where
  "stale_delivering_queryset e d older chs =
     filter (\<lambda>n. nt_status n = DELIVERING \<and> nt_updated_at n \<le> now e - minutes older \<and> channel_filter chs n) (notifications d)"

definition still_stale :: "env \<Rightarrow> int \<Rightarrow> uuid list \<Rightarrow> notification \<Rightarrow> bool" where
  "still_stale e older ks n =
     (nt_id n \<in> set ks \<and> nt_status n = DELIVERING \<and> \<not> nt_updated_at n > now e - minutes older)"

text \<open>The transaction: the rows are read again under a lock and checked again.\<close>

definition requeue_matched :: "env \<Rightarrow> int \<Rightarrow> uuid list \<Rightarrow> db \<Rightarrow> notification list \<times> db" where
  "requeue_matched e older ks d =
     (let back = (\<lambda>n. n\<lparr>nt_status := PENDING, nt_error_message := Some ''Requeued after stale DELIVERING timeout'',
                        nt_updated_at := now e\<rparr>)
      in (map back (filter (still_stale e older ks) (notifications d)),
          d\<lparr>notifications := map (\<lambda>n. if still_stale e older ks n then back n else n) (notifications d)\<rparr>))"

definition requeue_stale_delivering_notifications ::
    "env \<Rightarrow> db \<Rightarrow> int \<Rightarrow> nat \<Rightarrow> notification_channel list \<Rightarrow> bool \<Rightarrow> notification list \<times> notification list \<times> db" where
  "requeue_stale_delivering_notifications e d older limit chs dry_run =
     (let matched = take limit (order_by (\<lambda>n. (nt_updated_at n, nt_id n)) (stale_delivering_queryset e d older chs)) in
      if dry_run then (matched, [], d)
      else (let (requeued, d') = requeue_matched e older (map nt_id matched) d in (matched, requeued, d')))"

definition notification_requeue_queryset ::
    "env \<Rightarrow> db \<Rightarrow> nat \<Rightarrow> int option \<Rightarrow> notification_channel list \<Rightarrow> uuid list \<Rightarrow> bool \<Rightarrow> notification list" where
  "notification_requeue_queryset e d limit older chs ids include_failed =
     take limit (order_by (\<lambda>n. (nt_created_at n, nt_id n))
       (filter (\<lambda>n. (nt_status n = PENDING \<or> include_failed \<and> nt_status n = FAILED)
                  \<and> (case older of None \<Rightarrow> True | Some m \<Rightarrow> nt_created_at n \<le> now e - minutes m)
                  \<and> channel_filter chs n \<and> (ids = [] \<or> nt_id n \<in> set ids)) (notifications d)))"

definition queue_pending_notifications ::
    "env \<Rightarrow> db \<Rightarrow> nat \<Rightarrow> int option \<Rightarrow> notification_channel list \<Rightarrow> uuid list \<Rightarrow> bool \<Rightarrow> notification list \<times> db" where
  "queue_pending_notifications e d limit older chs ids include_failed =
     (let matched = notification_requeue_queryset e d limit older chs ids include_failed
      in (matched, foldl queue_notification_delivery d matched))"

definition enqueue_delivery :: "db \<Rightarrow> db" where
  "enqueue_delivery d = d\<lparr>outbox := outbox d @ [DeliverPendingNotifications]\<rparr>"

subsection \<open>Sending\<close>

definition recipient_of :: "db \<Rightarrow> notification \<Rightarrow> user option" where
  "recipient_of d n = Option.bind (nt_recipient n) (\<lambda>k. tbl_get usr_id k (users d))"

text \<open>Of the four fields the code tries, the user model has \<open>phone\<close>.\<close>

definition recipient_phone :: "user \<Rightarrow> string option" where
  "recipient_phone u = (case usr_phone u of None \<Rightarrow> None | Some p \<Rightarrow> if p = [] then None else Some (strip p))"

definition send_email_notification :: "transports \<Rightarrow> db \<Rightarrow> notification \<Rightarrow> exn + unit" where
  "send_email_notification tr d n =
     (let email = (case recipient_of d n of None \<Rightarrow> [] | Some u \<Rightarrow> usr_email u) in
      if email = [] then Inl (ValueError ''Recipient email is missing for EMAIL notification'')
      else send_mail tr email (str_or (nt_subject n) ''DCIM Notification'') (nt_message n))"

definition send_sms_notification :: "transports \<Rightarrow> db \<Rightarrow> notification \<Rightarrow> exn + dict" where
  "send_sms_notification tr d n =
     (let phone = str_or (Option.bind (recipient_of d n) recipient_phone) [] in
      if phone = [] then Inl (ValueError ''Recipient phone/mobile is missing for SMS notification'')
      else send_sms_message tr phone (nt_message n))"

definition send_webhook :: "transports \<Rightarrow> notification \<Rightarrow> exn + dict" where
  "send_webhook tr n =
     (let md = nt_metadata n;
          webhook_url = py_or (dict_get md ''webhook_url'') (py_or (dict_get md ''url'') PNone)
      in if \<not> truthy webhook_url then Inl (ValueError ''Webhook URL is missing for webhook notification'')
      else case py_float (py_or (dict_get md ''timeout_seconds'') (PInt 10)) of
        Inl x \<Rightarrow> Inl x
      | Inr timeout \<Rightarrow>
        (case http_post tr webhook_url []
            (Json [(''notification_id'', PStr (str_nat (nt_id n))), (''subject'', opt_py PStr (nt_subject n)),
                   (''message'', PStr (nt_message n)), (''status'', PStr (notification_status_value (nt_status n))),
                   (''metadata'', PDict md)]) timeout of
          Inl x \<Rightarrow> Inl x
        | Inr resp \<Rightarrow>
          (case raise_for_status resp of
            Inl x \<Rightarrow> Inl x
          | Inr _ \<Rightarrow> Inr [(''backend'', PStr ''webhook''), (''status_code'', PInt (status_code resp)), (''url'', webhook_url)])))"

text \<open>
  The result is the dictionary of the backend, or \<open>None\<close> where the code returns the notification
  itself. The final \<open>else\<close> is for a channel outside the enumeration.
\<close>

definition deliver_notification :: "transports \<Rightarrow> db \<Rightarrow> notification \<Rightarrow> exn + dict option" where
  "deliver_notification tr d n = (case nt_channel n of
      WEB \<Rightarrow> Inr None
    | EMAIL \<Rightarrow> (case send_email_notification tr d n of Inl x \<Rightarrow> Inl x | Inr _ \<Rightarrow> Inr None)
    | SMS \<Rightarrow> (case send_sms_notification tr d n of Inl x \<Rightarrow> Inl x | Inr r \<Rightarrow> Inr (Some r))
    | WEBHOOK \<Rightarrow> (case send_webhook tr n of Inl x \<Rightarrow> Inl x | Inr r \<Rightarrow> Inr (Some r)))"

subsection \<open>The task\<close>

definition merge_delivery_result :: "notification \<Rightarrow> dict option \<Rightarrow> dict" where
  "merge_delivery_result n res = (case res of
      None \<Rightarrow> nt_metadata n
    | Some r \<Rightarrow> dict_set (nt_metadata n) ''delivery_result'' (PDict r))"

text \<open>\<open>save(update_fields)\<close> raises when the row is gone.\<close>

definition finish_sent :: "env \<Rightarrow> db \<Rightarrow> notification \<Rightarrow> dict option \<Rightarrow> exn + db" where
  "finish_sent e d n res =
     (if notification_of d (nt_id n) = None then Inl (DeliveryError ''Save with update_fields did not affect any rows.'')
      else Inr (save_notification d (nt_id n) (\<lambda>r. r\<lparr>nt_status := SENT, nt_sent_at := Some (now e),
        nt_error_message := Some [], nt_metadata := merge_delivery_result n res, nt_updated_at := now e\<rparr>)))"

definition finish_failed :: "env \<Rightarrow> db \<Rightarrow> uuid \<Rightarrow> exn \<Rightarrow> db" where
  "finish_failed e d k x =
     save_notification d k (\<lambda>r. r\<lparr>nt_status := FAILED, nt_error_message := Some (exn_text x), nt_updated_at := now e\<rparr>)"

datatype task_outcome = TaskReturned dict | TaskRaised exn | TaskRetry exn int

definition max_retries :: nat where
  "max_retries = 3"

definition not_claimed_result :: "db \<Rightarrow> uuid \<Rightarrow> dict" where
  "not_claimed_result d k = (case notification_of d k of
      None \<Rightarrow> [(''status'', PStr ''missing''), (''notification_id'', PStr (str_nat k))]
    | Some n \<Rightarrow> [(''status'', PStr (lower (notification_status_value (nt_status n)))), (''notification_id'', PStr (str_nat k))])"

definition send_notification_task :: "env \<Rightarrow> transports \<Rightarrow> db \<Rightarrow> uuid \<Rightarrow> nat \<Rightarrow> task_outcome \<times> db" where
  "send_notification_task e tr d k retries =
     (case claim_notification_for_delivery e d k of
        (None, d1) \<Rightarrow> (TaskReturned (not_claimed_result d1 k), d1)
      | (Some n, d1) \<Rightarrow>
          (case (case deliver_notification tr d1 n of Inl x \<Rightarrow> Inl x | Inr res \<Rightarrow> finish_sent e d1 n res) of
             Inr d2 \<Rightarrow> (TaskReturned [(''status'', PStr ''sent''), (''notification_id'', PStr (str_nat (nt_id n)))], d2)
           | Inl x \<Rightarrow>
               (let d2 = finish_failed e d1 k x in
                if retries \<ge> max_retries then (TaskRaised x, d2)
                else (TaskRetry x (10 * (int retries + 1)), d2))))"

text \<open>The loop of \<open>deliver_pending_notifications\<close> over the keys it read first.\<close>

definition deliver_one :: "env \<Rightarrow> transports \<Rightarrow> notification list \<times> db \<Rightarrow> uuid \<Rightarrow> notification list \<times> db" where
  "deliver_one e tr s k = (case s of (delivered, d) \<Rightarrow>
     (case claim_notification_for_delivery e d k of
        (None, d1) \<Rightarrow> (delivered, d1)
      | (Some n, d1) \<Rightarrow>
          (let done = (case deliver_notification tr d1 n of
              Inr _ \<Rightarrow> (\<lambda>r. r\<lparr>nt_status := SENT, nt_sent_at := Some (now e), nt_error_message := Some [], nt_updated_at := now e\<rparr>)
            | Inl x \<Rightarrow> (\<lambda>r. r\<lparr>nt_status := FAILED, nt_error_message := Some (exn_text x), nt_updated_at := now e\<rparr>))
           in (delivered @ [done n], save_notification d1 k done))))"

definition deliver_pending_notifications :: "env \<Rightarrow> transports \<Rightarrow> db \<Rightarrow> nat \<Rightarrow> notification list \<times> db" where
  "deliver_pending_notifications e tr d limit =
     (let pending_ids = map nt_id (take limit (order_by (\<lambda>n. (nt_created_at n, nt_id n))
            (filter (\<lambda>n. nt_status n = PENDING) (notifications d))))
      in foldl (deliver_one e tr) ([], d) pending_ids)"

subsection \<open>Reading\<close>

definition notification_fields :: "notification fields" where
  "notification_fields l = (if l = L_ORGANIZATION then Some (\<lambda>n. Some (nt_organization n)) else None)"

definition notification_queryset :: "db \<Rightarrow> user option \<Rightarrow> notification list" where
  "notification_queryset d u = (case u of
      None \<Rightarrow> []
    | Some x \<Rightarrow>
        (let qs = filter_queryset_for_user d u (Some L_ORGANIZATION) notification_fields (notifications d) in
         if usr_is_superuser x \<or> usr_is_staff x then qs else filter (\<lambda>n. nt_recipient n = Some (usr_id x)) qs))"

definition unread_count :: "db \<Rightarrow> user \<Rightarrow> nat" where
  "unread_count d u = length (filter (\<lambda>n. nt_recipient n = Some (usr_id u) \<and> nt_read_at n = None) (notifications d))"

text \<open>\<open>None\<close> is the 404 answer: not in the queryset, or another user's notification.\<close>

definition mark_read :: "env \<Rightarrow> db \<Rightarrow> user \<Rightarrow> uuid \<Rightarrow> notification option \<times> db" where
  "mark_read e d u k = (case find (\<lambda>n. nt_id n = k) (notification_queryset d (Some u)) of
      None \<Rightarrow> (None, d)
    | Some n \<Rightarrow>
        if nt_recipient n \<noteq> Some (usr_id u) then (None, d)
        else if nt_read_at n = None
        then (let f = (\<lambda>r. r\<lparr>nt_read_at := Some (now e), nt_updated_at := now e\<rparr>) in (Some (f n), save_notification d k f))
        else (Some n, d))"

definition mark_all_read :: "env \<Rightarrow> db \<Rightarrow> user \<Rightarrow> nat \<times> db" where
  "mark_all_read e d u =
     (unread_count d u,
      d\<lparr>notifications := map (\<lambda>n. if nt_recipient n = Some (usr_id u) \<and> nt_read_at n = None
         then n\<lparr>nt_read_at := Some (now e)\<rparr> else n) (notifications d)\<rparr>)"

end
