(* ===== verification/Alert_Notify.thy ===== *)
theory Alert_Notify
  imports Delivery
begin

text \<open>
  The notifications of alerts (\<open>apps/alerts/services/notifications.py\<close>): who is told, on which
  channels, with which text and under which deduplication key; the creation of a notification
  with its checks against duplicates; and the notifications of an escalation. A function that
  can raise after it wrote returns the error beside the database, since the caller goes on.
\<close>

subsection \<open>Recipients\<close>

definition ALERT_PERMISSION_CODES :: "string set" where
  "ALERT_PERMISSION_CODES = {''alert.view'', ''alert.acknowledge''}"

text \<open>An access row that names the alert's organization, data center, room, rack or device.\<close>

definition row_names_alert :: "alert_event \<Rightarrow> device \<Rightarrow> resource_access \<Rightarrow> bool" where
  "row_names_alert a dev r =
     (ra_organization r = Some (ae_organization a) \<or> ra_data_center r = Some (ae_data_center a)
      \<or> (dev_room dev \<noteq> None \<and> ra_room r = dev_room dev) \<or> (dev_rack dev \<noteq> None \<and> ra_rack r = dev_rack dev)
      \<or> ra_device r = Some (ae_device a))"

definition alert_scope_condition :: "db \<Rightarrow> alert_event \<Rightarrow> device \<Rightarrow> user \<Rightarrow> bool" where
  "alert_scope_condition d a dev u =
     (usr_is_superuser u \<or> (\<exists>r \<in> set (accesses d). ra_user r = usr_id u \<and> row_names_alert a dev r))"

definition row_permits_alerts :: "db \<Rightarrow> resource_access \<Rightarrow> bool" where
  "row_permits_alerts d r =
     (\<exists>c \<in> set (role_code_list d (ra_role r)). c \<in> ALERT_PERMISSION_CODES)"

text \<open>
  Each \<open>.filter()\<close> over the access rows is a join of its own: the row that brings the alert into
  scope, the active row of the second condition and its permission are tied together only
  within one call.
\<close>

definition recipient_queryset :: "db \<Rightarrow> alert_event \<Rightarrow> device \<Rightarrow> user list" where
  "recipient_queryset d a dev =
     filter (\<lambda>u. usr_is_active u \<and> alert_scope_condition d a dev u
        \<and> (usr_is_superuser u
           \<or> (\<exists>r \<in> set (accesses d). ra_user r = usr_id u \<and> (usr_is_staff u \<and> ra_is_active r \<or> row_permits_alerts d r \<and> ra_is_active r))))
       (users d)"

definition by_username :: "user list \<Rightarrow> user list" where
  "by_username = order_by (\<lambda>u. (usr_username u, usr_id u))"

definition get_alert_recipients :: "db \<Rightarrow> alert_event \<Rightarrow> device \<Rightarrow> user list" where
  "get_alert_recipients d a dev = by_username (recipient_queryset d a dev)"

definition has_alert_scope :: "db \<Rightarrow> user \<Rightarrow> alert_event \<Rightarrow> device \<Rightarrow> bool" where
  "has_alert_scope d u a dev =
     (if \<not> usr_is_active u then False
      else if usr_is_superuser u then True
      else (let s = get_access_scope d (Some u) in
        if global_access s then True
        else if ae_organization a \<in> organization_ids s then True
        else if ae_data_center a \<in> data_center_ids s then True
        else if (case dev_room dev of None \<Rightarrow> False | Some k \<Rightarrow> k \<in> room_ids s) then True
        else if (case dev_rack dev of None \<Rightarrow> False | Some k \<Rightarrow> k \<in> rack_ids s) then True
        else ae_device a \<in> device_ids s))"

subsection \<open>Channels and texts\<close>

fun channels_for_open :: "alert_severity \<Rightarrow> notification_channel list" where
  "channels_for_open INFO = [WEB]"
| "channels_for_open WARNING = [WEB, EMAIL]"
| "channels_for_open CRITICAL = [WEB, EMAIL, SMS]"
| "channels_for_open EMERGENCY = [WEB, EMAIL, SMS]"

fun channels_for_resolved :: "alert_severity \<Rightarrow> notification_channel list" where
  "channels_for_resolved CRITICAL = [WEB, EMAIL]"
| "channels_for_resolved EMERGENCY = [WEB, EMAIL]"
| "channels_for_resolved _ = [WEB]"

text \<open>The value the code formats first does not reach the text.\<close>

definition alert_message :: "db \<Rightarrow> alert_event \<Rightarrow> device \<Rightarrow> exn + string" where
  "alert_message d a dev =
     (case (case ae_metric a of None \<Rightarrow> Inr [] | Some k \<Rightarrow>
              (case metric_of d k of None \<Rightarrow> Inl DoesNotExist | Some m \<Rightarrow> Inr (me_code m))) of
        Inl x \<Rightarrow> Inl x
      | Inr code \<Rightarrow> Inr (strip (dev_name dev @ '' '' @ code @ '' '' @ status_value (ae_status a) @ '': '' @ ae_message a)))"

definition dedupe_key :: "alert_event \<Rightarrow> user \<Rightarrow> notification_channel \<Rightarrow> string \<Rightarrow> string" where
  "dedupe_key a u ch act =
     ''alert:'' @ str_nat (ae_id a) @ '':'' @ act @ '':'' @ channel_value ch @ '':'' @ str_nat (usr_id u)"

definition unreachable :: "user \<Rightarrow> notification_channel \<Rightarrow> bool" where
  "unreachable u ch =
     (ch = EMAIL \<and> usr_email u = [] \<or> ch = SMS \<and> str_or (recipient_phone u) [] = [])"

subsection \<open>Creating a notification\<close>

definition notification_by_key :: "db \<Rightarrow> string \<Rightarrow> notification option" where
  "notification_by_key d key = find (\<lambda>n. nt_dedupe_key n = Some key) (notifications d)"

definition alert_metadata :: "alert_event \<Rightarrow> string \<Rightarrow> dict" where
  "alert_metadata a act =
     [(''alert_event_id'', PStr (str_nat (ae_id a))), (''alert_status'', PStr (status_value (ae_status a))),
      (''severity'', PStr (severity_value (ae_severity a))), (''device_id'', PStr (str_nat (ae_device a))),
      (''metric_id'', opt_py (\<lambda>k. PStr (str_nat k)) (ae_metric a)), (''action'', PStr act)]"

definition new_notification ::
    "env \<Rightarrow> db \<Rightarrow> alert_event \<Rightarrow> user \<Rightarrow> notification_channel \<Rightarrow> string \<Rightarrow> string \<Rightarrow> string \<Rightarrow> dict \<Rightarrow> notification" where
  "new_notification e d a u ch subject message key md =
     \<lparr>nt_id = fresh_key nt_id (notifications d), nt_created_at = now e, nt_updated_at = now e,
      nt_organization = ae_organization a, nt_recipient = Some (usr_id u), nt_channel = ch,
      nt_dedupe_key = Some key, nt_subject = Some subject, nt_message = message, nt_status = PENDING,
      nt_sent_at = None, nt_read_at = None, nt_error_message = None, nt_metadata = md\<rparr>"

definition insert_notification :: "db \<Rightarrow> notification \<Rightarrow> db" where
  "insert_notification d n = d\<lparr>notifications := tbl_insert n (notifications d)\<rparr>"

definition legacy_notification :: "db \<Rightarrow> alert_event \<Rightarrow> user \<Rightarrow> notification_channel \<Rightarrow> string \<Rightarrow> notification option" where
  "legacy_notification d a u ch act =
     first_row (order_by (\<lambda>n. (- nt_created_at n, - nt_updated_at n))
       (filter (\<lambda>n. nt_recipient n = Some (usr_id u) \<and> nt_channel n = ch
                 \<and> dict_get (nt_metadata n) ''alert_event_id'' = Some (PStr (str_nat (ae_id a)))
                 \<and> dict_get (nt_metadata n) ''action'' = Some (PStr act)) (notifications d)))"

text \<open>
  \<open>raced key\<close> says that another transaction inserts a row with that key between the check and the
  insert, so that the insert (or the update of the legacy row) fails with an \<open>IntegrityError\<close>. The
  handler of the failed insert then queries inside the same \<open>atomic\<close> block.
\<close>

definition create_notification ::
    "env \<Rightarrow> (string \<Rightarrow> bool) \<Rightarrow> db \<Rightarrow> alert_event \<Rightarrow> user \<Rightarrow> notification_channel \<Rightarrow> string \<Rightarrow> string \<Rightarrow> string
      \<Rightarrow> exn + notification option \<times> db" where
  "create_notification e raced d a u ch subject message act =
     (if unreachable u ch then Inr (None, d)
      else (let key = dedupe_key a u ch act in
        if notification_by_key d key \<noteq> None then Inr (None, d)
        else case legacy_notification d a u ch act of
          Some legacy \<Rightarrow>
            if str_or (nt_dedupe_key legacy) [] = [] \<and> \<not> raced key
            then Inr (None, save_notification d (nt_id legacy)
                   (\<lambda>r. r\<lparr>nt_dedupe_key := Some key, nt_updated_at := now e\<rparr>))
            else Inr (None, d)
        | None \<Rightarrow>
            if raced key
            then (if query_after_error e then Inr (None, d) else Inl TransactionManagementError)
            else (let n = new_notification e d a u ch subject message key (alert_metadata a act)
                  in Inr (Some n, insert_notification d n))))"

definition queue_delivery :: "db \<Rightarrow> notification option \<Rightarrow> db" where
  "queue_delivery d n = (case n of None \<Rightarrow> d | Some x \<Rightarrow> queue_notification_delivery d x)"

text \<open>The body of the two loops, over pairs of a recipient and a channel, up to the first error.\<close>

fun create_all ::
    "env \<Rightarrow> (string \<Rightarrow> bool) \<Rightarrow> alert_event \<Rightarrow> string \<Rightarrow> string \<Rightarrow> string \<Rightarrow> (user \<times> notification_channel) list
      \<Rightarrow> notification list \<Rightarrow> db \<Rightarrow> (exn + notification list) \<times> db" where
  "create_all e raced a subject message act [] created d = (Inr created, d)"
| "create_all e raced a subject message act ((u, ch) # rest) created d =
     (case create_notification e raced d a u ch subject message act of
        Inl x \<Rightarrow> (Inl x, d)
      | Inr (None, d1) \<Rightarrow> create_all e raced a subject message act rest created d1
      | Inr (Some n, d1) \<Rightarrow> create_all e raced a subject message act rest (created @ [n]) (queue_delivery d1 (Some n)))"

definition pairs :: "user list \<Rightarrow> notification_channel list \<Rightarrow> (user \<times> notification_channel) list" where
  "pairs us chs = concat (map (\<lambda>u. map (\<lambda>c. (u, c)) chs) us)"

definition create_notifications_for ::
    "env \<Rightarrow> (string \<Rightarrow> bool) \<Rightarrow> string \<Rightarrow> (alert_severity \<Rightarrow> notification_channel list) \<Rightarrow> string \<Rightarrow> alert_event \<Rightarrow> db
      \<Rightarrow> (exn + notification list) \<times> db" where
  "create_notifications_for e raced subject chans act a d =
     (case device_of d (ae_device a) of
        None \<Rightarrow> (Inl DoesNotExist, d)
      | Some dev \<Rightarrow>
          (case alert_message d a dev of
             Inl x \<Rightarrow> (Inl x, d)
           | Inr message \<Rightarrow>
               create_all e raced a (subject @ dev_name dev) message act
                 (pairs (get_alert_recipients d a dev) (chans (ae_severity a))) [] d))"

definition create_notifications_for_alert_opened ::
    "env \<Rightarrow> (string \<Rightarrow> bool) \<Rightarrow> alert_event \<Rightarrow> db \<Rightarrow> (exn + notification list) \<times> db" where
  "create_notifications_for_alert_opened e raced =
     create_notifications_for e raced ''Alert Opened: '' channels_for_open ''OPENED''"

definition create_notifications_for_alert_resolved ::
    "env \<Rightarrow> (string \<Rightarrow> bool) \<Rightarrow> alert_event \<Rightarrow> db \<Rightarrow> (exn + notification list) \<times> db" where
  "create_notifications_for_alert_resolved e raced =
     create_notifications_for e raced ''Alert Resolved: '' channels_for_resolved ''RESOLVED''"

subsection \<open>Escalation\<close>

text \<open>\<open>_append\<close> over a list of candidates: active, in scope, each once.\<close>

fun append_recipients :: "db \<Rightarrow> alert_event \<Rightarrow> device \<Rightarrow> user list \<Rightarrow> user list \<Rightarrow> user list" where
  "append_recipients d a dev [] acc = acc"
| "append_recipients d a dev (u # us) acc =
     append_recipients d a dev us
       (if \<not> usr_is_active u \<or> usr_id u \<in> usr_id ` set acc \<or> \<not> has_alert_scope d u a dev then acc else acc @ [u])"

definition target_user_rows :: "db \<Rightarrow> alert_event \<Rightarrow> device \<Rightarrow> escalation_policy \<Rightarrow> user list" where
  "target_user_rows d a dev p =
     by_username (filter (\<lambda>u. usr_id u \<in> set (ep_target_users p) \<and> usr_is_active u \<and> alert_scope_condition d a dev u) (users d))"

definition target_role_rows :: "db \<Rightarrow> alert_event \<Rightarrow> device \<Rightarrow> escalation_policy \<Rightarrow> user list" where
  "target_role_rows d a dev p = (case ep_target_role p of
      None \<Rightarrow> []
    | Some ro \<Rightarrow> by_username (filter (\<lambda>u. usr_is_active u
        \<and> (\<exists>r \<in> set (accesses d). ra_user r = usr_id u \<and> ra_is_active r \<and> ra_role r = ro)
        \<and> alert_scope_condition d a dev u) (users d)))"

definition get_escalation_recipients :: "db \<Rightarrow> alert_event \<Rightarrow> device \<Rightarrow> escalation_policy \<Rightarrow> user list" where
  "get_escalation_recipients d a dev p =
     (let r1 = append_recipients d a dev (target_user_rows d a dev p) [];
          r2 = append_recipients d a dev (target_role_rows d a dev p) r1
      in if r2 = []
         then append_recipients d a dev (by_username (filter (\<lambda>u. usr_is_superuser u \<and> usr_is_active u) (users d))) r2
         else r2)"

definition escalation_text :: "alert_event \<Rightarrow> device \<Rightarrow> escalation_policy \<Rightarrow> string" where
  "escalation_text a dev p =
     (let head = ''ESCALATION: '' @ severity_value (ae_severity a) @ '' alert '' @ ae_message a @ '' on '' @ dev_name dev in
      case (ae_status a, ep_if_not_acknowledged_minutes p, ep_if_not_resolved_minutes p) of
        (OPEN, Some m, _) \<Rightarrow> head @ '' has not been acknowledged for '' @ str_int m @ '' minutes.''
      | (_, _, Some m) \<Rightarrow> head @ '' has not been resolved for '' @ str_int m @ '' minutes.''
      | _ \<Rightarrow> head @ '' requires attention.'')"

definition escalation_key :: "alert_event \<Rightarrow> escalation_policy \<Rightarrow> user \<Rightarrow> notification_channel \<Rightarrow> string" where
  "escalation_key a p u ch =
     ''alert:'' @ str_nat (ae_id a) @ '':ESCALATED:'' @ str_nat (ep_id p) @ '':'' @ channel_value ch @ '':'' @ str_nat (usr_id u)"

definition create_escalation_notification ::
    "env \<Rightarrow> (string \<Rightarrow> bool) \<Rightarrow> db \<Rightarrow> alert_event \<Rightarrow> escalation_policy \<Rightarrow> user \<Rightarrow> notification_channel \<Rightarrow> string \<Rightarrow> string
      \<Rightarrow> notification option \<times> db" where
  "create_escalation_notification e raced d a p u ch subject message =
     (if unreachable u ch then (None, d)
      else (let key = escalation_key a p u ch in
        if notification_by_key d key \<noteq> None then (None, d)
        else if raced key then (None, d)
        else (let n = new_notification e d a u ch subject message key
                  (alert_metadata a ''ESCALATED'' @ [(''policy_id'', PStr (str_nat (ep_id p)))])
              in (Some n, insert_notification d n))))"

fun escalate_all ::
    "env \<Rightarrow> (string \<Rightarrow> bool) \<Rightarrow> alert_event \<Rightarrow> escalation_policy \<Rightarrow> string \<Rightarrow> string \<Rightarrow> (user \<times> notification_channel) list
      \<Rightarrow> notification list \<Rightarrow> db \<Rightarrow> notification list \<times> db" where
  "escalate_all e raced a p subject message [] created d = (created, d)"
| "escalate_all e raced a p subject message ((u, ch) # rest) created d =
     (case create_escalation_notification e raced d a p u ch subject message of
        (None, d1) \<Rightarrow> escalate_all e raced a p subject message rest created d1
      | (Some n, d1) \<Rightarrow> escalate_all e raced a p subject message rest (created @ [n]) (queue_delivery d1 (Some n)))"

definition create_notifications_for_alert_escalated ::
    "env \<Rightarrow> (string \<Rightarrow> bool) \<Rightarrow> alert_event \<Rightarrow> escalation_policy \<Rightarrow> db \<Rightarrow> (exn + notification list) \<times> db" where
  "create_notifications_for_alert_escalated e raced a p d =
     (case device_of d (ae_device a) of
        None \<Rightarrow> (Inl DoesNotExist, d)
      | Some dev \<Rightarrow>
          (let chans = WEB # (if ep_channel p \<noteq> WEB then [ep_channel p] else []);
               (created, d') = escalate_all e raced a p (''ALERT ESCALATED: '' @ dev_name dev) (escalation_text a dev p)
                 (pairs (get_escalation_recipients d a dev p) chans) [] d
           in (Inr created, d')))"

end
