(* ===== verification/Alert_Engine.thy ===== *)
theory Alert_Engine
  imports Rule_Match Alert_Notify
begin

text \<open>
  The alert engine (\<open>apps/alerts/services/engine.py\<close>) after the selection of the rules: the
  evaluation of a condition, the life cycle of an alert, suppression, the duration of a
  condition, trap alerts, and the evaluation of a telemetry row. A function that may raise
  after it wrote returns its result beside the database; \<open>atomic\<close> undoes the writes of a block
  that raises. A function gets the alert object its caller holds and writes the fields that
  the code's \<open>update_fields\<close> name, with the values of that object.
\<close>

subsection \<open>Values and conditions\<close>

definition value_of_columns :: "value_cols \<Rightarrow> py" where
  "value_of_columns v =
     (case value_float v of Some x \<Rightarrow> PFloat x
      | None \<Rightarrow> (case value_integer v of Some x \<Rightarrow> PInt x
      | None \<Rightarrow> (case value_boolean v of Some x \<Rightarrow> PBool x
      | None \<Rightarrow> opt_py PStr (value_text v))))"

definition value_from_latest :: "latest_telemetry \<Rightarrow> py" where
  "value_from_latest l = value_of_columns (lt_values l)"

definition threshold_from_rule :: "alert_rule \<Rightarrow> py" where
  "threshold_from_rule r = value_of_columns (ar_threshold r)"

definition value_snapshot :: "env \<Rightarrow> (latest_telemetry \<times> metric) option \<Rightarrow> py \<Rightarrow> py \<Rightarrow> dict" where
  "value_snapshot e latest val threshold =
     (case latest of
        None \<Rightarrow> []
      | Some (l, me) \<Rightarrow>
        [(''organization_id'', PStr (str_nat (lt_organization l))), (''data_center_id'', PStr (str_nat (lt_data_center l))),
         (''device_id'', PStr (str_nat (lt_device l))), (''metric_id'', PStr (str_nat (lt_metric l))),
         (''metric_code'', PStr (me_code me)), (''value_float'', opt_py PFloat (value_float (lt_values l))),
         (''value_integer'', opt_py PInt (value_integer (lt_values l))), (''value_boolean'', opt_py PBool (value_boolean (lt_values l))),
         (''value_text'', opt_py PStr (value_text (lt_values l))), (''last_seen_at'', PStr (isoformat e (lt_last_seen_at l))),
         (''source'', opt_py PStr (lt_source l))])
     @ (if val = PNone then [] else [(''value'', val)])
     @ (if threshold = PNone then [] else [(''threshold'', threshold)])"

fun severity_rank :: "alert_severity \<Rightarrow> nat" where
  "severity_rank INFO = 0"
| "severity_rank WARNING = 1"
| "severity_rank CRITICAL = 2"
| "severity_rank EMERGENCY = 3"

fun compare_values :: "alert_operator \<Rightarrow> py \<Rightarrow> py \<Rightarrow> exn + bool" where
  "compare_values GT v t = py_less t v"
| "compare_values GTE v t = py_le t v"
| "compare_values LT v t = py_less v t"
| "compare_values LTE v t = py_le v t"
| "compare_values EQ v t = Inr (py_eq v t)"
| "compare_values NEQ v t = Inr (\<not> py_eq v t)"

text \<open>A comparison that raises counts as false.\<close>

definition evaluate_rule_condition :: "alert_rule \<Rightarrow> latest_telemetry \<Rightarrow> bool \<times> py \<times> py" where
  "evaluate_rule_condition r l =
     (let val = value_from_latest l; threshold = threshold_from_rule r in
      if threshold = PNone then (False, val, threshold)
      else (case compare_values (ar_operator r) val threshold of
          Inr b \<Rightarrow> (b, val, threshold)
        | Inl _ \<Rightarrow> (False, val, threshold)))"

subsection \<open>Rows the engine looks for and writes\<close>

definition ACTIVE_ALERT_STATUSES :: "alert_status set" where
  "ACTIVE_ALERT_STATUSES = {OPEN, ACKNOWLEDGED}"

definition alert_scope_q :: "latest_telemetry \<Rightarrow> alert_rule \<Rightarrow> alert_event \<Rightarrow> bool" where
  "alert_scope_q l r a =
     (ae_organization a = lt_organization l \<and> ae_data_center a = lt_data_center l \<and> ae_device a = lt_device l
      \<and> ae_metric a = Some (lt_metric l) \<and> ae_alert_rule a = Some (ar_id r) \<and> ae_status a \<in> ACTIVE_ALERT_STATUSES)"

definition condition_state_key :: "latest_telemetry \<Rightarrow> alert_rule \<Rightarrow> condition_state \<Rightarrow> bool" where
  "condition_state_key l r s =
     (cs_organization s = lt_organization l \<and> cs_data_center s = lt_data_center l \<and> cs_device s = lt_device l
      \<and> cs_metric s = lt_metric l \<and> cs_alert_rule s = ar_id r)"

definition null_or :: "uuid option \<Rightarrow> uuid \<Rightarrow> bool" where
  "null_or v k = (v = None \<or> v = Some k)"

definition has_suppression :: "env \<Rightarrow> db \<Rightarrow> latest_telemetry \<Rightarrow> bool" where
  "has_suppression e d l =
     (\<exists>w \<in> set (suppression_windows d).
        sw_organization w = Some (lt_organization l) \<and> sw_is_active w
        \<and> (case sw_starts_at w of None \<Rightarrow> False | Some s \<Rightarrow> s \<le> now e)
        \<and> (case sw_ends_at w of None \<Rightarrow> False | Some t \<Rightarrow> t \<ge> now e)
        \<and> null_or (sw_data_center w) (lt_data_center l) \<and> null_or (sw_device w) (lt_device l)
        \<and> null_or (sw_metric w) (lt_metric l))"

definition create_alert_log ::
    "alert_event \<Rightarrow> log_action \<Rightarrow> alert_status option \<Rightarrow> alert_status option \<Rightarrow> uuid option \<Rightarrow> string \<Rightarrow> dict \<Rightarrow> dict \<Rightarrow> db \<Rightarrow> db" where
  "create_alert_log a act old_status new_status actor message snapshot md d =
     d\<lparr>alert_logs := alert_logs d @ [\<lparr>al_alert_event = ae_id a, al_action = act, al_old_status = old_status,
        al_new_status = new_status, al_actor = actor, al_message = Some message, al_value_snapshot = snapshot, al_metadata = md\<rparr>]\<rparr>"

definition save_alert :: "uuid \<Rightarrow> (alert_event \<Rightarrow> alert_event) \<Rightarrow> db \<Rightarrow> db" where
  "save_alert k f d = d\<lparr>alert_events := tbl_update ae_id k f (alert_events d)\<rparr>"

definition insert_alert :: "alert_event \<Rightarrow> db \<Rightarrow> db" where
  "insert_alert a d = d\<lparr>alert_events := tbl_insert a (alert_events d)\<rparr>"

definition alert_payload :: "env \<Rightarrow> device \<Rightarrow> metric \<Rightarrow> alert_rule \<Rightarrow> py \<Rightarrow> py \<Rightarrow> string" where
  "alert_payload e dev me r val threshold =
     (let base_message = str_or (ar_message_template r) (dev_name dev @ '' '' @ me_code me @ '' alert'') in
      if threshold \<noteq> PNone
      then base_message @ '' ('' @ py_str e val @ '' '' @ operator_value (ar_operator r) @ '' '' @ py_str e threshold @ '')''
      else base_message)"

definition new_state :: "env \<Rightarrow> latest_telemetry \<Rightarrow> alert_rule \<Rightarrow> condition_state" where
  "new_state e l r =
     \<lparr>cs_organization = lt_organization l, cs_data_center = lt_data_center l, cs_device = lt_device l, cs_metric = lt_metric l,
      cs_alert_rule = ar_id r, cs_first_seen_at = now e, cs_last_seen_at = now e, cs_last_values = lt_values l,
      cs_condition_is_active = True\<rparr>"

definition upsert_condition_state :: "env \<Rightarrow> db \<Rightarrow> latest_telemetry \<Rightarrow> alert_rule \<Rightarrow> condition_state \<times> db" where
  "upsert_condition_state e d l r = (case find (condition_state_key l r) (condition_states d) of
      None \<Rightarrow> (new_state e l r, d\<lparr>condition_states := condition_states d @ [new_state e l r]\<rparr>)
    | Some s \<Rightarrow>
        (let touch = (\<lambda>s. s\<lparr>cs_last_seen_at := now e, cs_last_values := lt_values l, cs_condition_is_active := True\<rparr>)
         in (touch s, d\<lparr>condition_states := map (\<lambda>x. if condition_state_key l r x then touch x else x) (condition_states d)\<rparr>)))"

definition clear_condition_state :: "db \<Rightarrow> latest_telemetry \<Rightarrow> alert_rule \<Rightarrow> db" where
  "clear_condition_state d l r = d\<lparr>condition_states := tbl_delete (condition_state_key l r) (condition_states d)\<rparr>"

subsection \<open>The life cycle\<close>

definition opened_alert :: "env \<Rightarrow> db \<Rightarrow> alert_rule \<Rightarrow> latest_telemetry \<Rightarrow> device \<Rightarrow> metric \<Rightarrow> py \<Rightarrow> py \<Rightarrow> alert_event" where
  "opened_alert e d r l dev me val threshold =
     \<lparr>ae_id = fresh_key ae_id (alert_events d), ae_created_at = now e, ae_organization = lt_organization l,
      ae_data_center = lt_data_center l, ae_device = lt_device l, ae_metric = Some (lt_metric l),
      ae_alert_rule = Some (ar_id r), ae_severity = ar_severity r, ae_status = OPEN, ae_values = lt_values l,
      ae_message = alert_payload e dev me r val threshold, ae_triggered_at = now e, ae_last_seen_at = Some (now e),
      ae_acknowledged_by = None, ae_acknowledged_at = None, ae_resolved_by = None, ae_resolved_at = None,
      ae_resolution_type = None, ae_acknowledge_comment = None, ae_resolve_comment = None, ae_occurrence_count = 1,
      ae_metadata = [(''first_value'', PDict (value_snapshot e (Some (l, me)) val threshold)), (''engine'', PStr ''central'')]\<rparr>"

text \<open>An error of the notification service is logged and forgotten; what it wrote stays.\<close>

definition open_alert ::
    "env \<Rightarrow> (string \<Rightarrow> bool) \<Rightarrow> db \<Rightarrow> alert_rule \<Rightarrow> latest_telemetry \<Rightarrow> device \<Rightarrow> metric \<Rightarrow> py \<Rightarrow> py \<Rightarrow> alert_event \<times> db" where
  "open_alert e raced d r l dev me val threshold =
     (let a = opened_alert e d r l dev me val threshold;
          d1 = create_alert_log a LOG_OPENED None (Some OPEN) None (ae_message a)
                 (value_snapshot e (Some (l, me)) val threshold) [(''rule_id'', PStr (str_nat (ar_id r)))] (insert_alert a d)
      in (a, snd (create_notifications_for_alert_opened e raced a d1)))"

definition updated_alert :: "env \<Rightarrow> alert_rule \<Rightarrow> alert_event \<Rightarrow> latest_telemetry \<Rightarrow> device \<Rightarrow> metric \<Rightarrow> py \<Rightarrow> py \<Rightarrow> alert_event" where
  "updated_alert e r a l dev me val threshold =
     a\<lparr>ae_last_seen_at := Some (now e), ae_message := alert_payload e dev me r val threshold, ae_values := lt_values l,
       ae_occurrence_count := (if ae_occurrence_count a = 0 then 1 else ae_occurrence_count a) + 1,
       ae_metadata := dict_set (ae_metadata a) ''last_snapshot'' (PDict (value_snapshot e (Some (l, me)) val threshold))\<rparr>"

definition update_active_alert ::
    "env \<Rightarrow> db \<Rightarrow> alert_event \<Rightarrow> latest_telemetry \<Rightarrow> device \<Rightarrow> metric \<Rightarrow> py \<Rightarrow> py \<Rightarrow> (exn + alert_event) \<times> db" where
  "update_active_alert e d a l dev me val threshold =
     (case Option.bind (ae_alert_rule a) (rule_of d) of
        None \<Rightarrow> (Inl AttributeError, d)
      | Some r \<Rightarrow>
        (let a' = updated_alert e r a l dev me val threshold;
             d1 = save_alert (ae_id a) (\<lambda>row. row\<lparr>ae_last_seen_at := ae_last_seen_at a', ae_message := ae_message a',
                    ae_values := ae_values a', ae_occurrence_count := ae_occurrence_count a', ae_metadata := ae_metadata a'\<rparr>) d
         in (Inr a', create_alert_log a' LOG_UPDATED (Some (ae_status a)) (Some (ae_status a')) None (ae_message a')
                (value_snapshot e (Some (l, me)) val threshold) [] d1)))"

text \<open>\<open>comment or alert.resolve_comment\<close>\<close>

definition or_else :: "string option \<Rightarrow> string option \<Rightarrow> string option" where
  "or_else c old = (if str_or c [] = [] then old else c)"

definition resolved_alert :: "env \<Rightarrow> alert_event \<Rightarrow> resolution \<Rightarrow> uuid option \<Rightarrow> string option \<Rightarrow> alert_event" where
  "resolved_alert e a rtype actor comment =
     a\<lparr>ae_status := RESOLVED, ae_resolved_at := Some (now e), ae_resolved_by := actor, ae_resolution_type := Some rtype,
       ae_resolve_comment := or_else comment (ae_resolve_comment a), ae_last_seen_at := Some (now e)\<rparr>"

definition resolve_alert ::
    "env \<Rightarrow> (string \<Rightarrow> bool) \<Rightarrow> db \<Rightarrow> alert_event \<Rightarrow> (latest_telemetry \<times> metric) option \<Rightarrow> resolution \<Rightarrow> uuid option \<Rightarrow> string option
      \<Rightarrow> (exn + alert_event) \<times> db" where
  "resolve_alert e raced d a latest rtype actor comment =
     (let a' = resolved_alert e a rtype actor comment;
          d1 = save_alert (ae_id a) (\<lambda>row. row\<lparr>ae_status := ae_status a', ae_resolved_at := ae_resolved_at a',
                 ae_resolved_by := ae_resolved_by a', ae_resolution_type := ae_resolution_type a',
                 ae_resolve_comment := ae_resolve_comment a', ae_last_seen_at := ae_last_seen_at a'\<rparr>) d
      in case (case ae_alert_rule a of None \<Rightarrow> Inr PNone
               | Some k \<Rightarrow> (case rule_of d k of None \<Rightarrow> Inl DoesNotExist | Some r \<Rightarrow> Inr (threshold_from_rule r))) of
        Inl x \<Rightarrow> (Inl x, d1)
      | Inr threshold \<Rightarrow>
        (let d2 = create_alert_log a' LOG_RESOLVED (Some (ae_status a)) (Some RESOLVED) actor (str_or comment ''Alert resolved'')
               (value_snapshot e latest (case latest of None \<Rightarrow> PNone | Some (l, _) \<Rightarrow> value_from_latest l) threshold)
               [(''resolution_type'', PStr (resolution_value rtype))] d1
         in (Inr a', snd (create_notifications_for_alert_resolved e raced a' d2))))"

definition add_comment :: "alert_event \<Rightarrow> uuid \<Rightarrow> string \<Rightarrow> db \<Rightarrow> db" where
  "add_comment a actor comment d =
     d\<lparr>alert_comments := alert_comments d @ [\<lparr>ac_alert_event = ae_id a, ac_user = Some actor, ac_comment = comment\<rparr>]\<rparr>"

definition acknowledge_alert :: "env \<Rightarrow> db \<Rightarrow> alert_event \<Rightarrow> uuid \<Rightarrow> string option \<Rightarrow> alert_event \<times> db" where
  "acknowledge_alert e d a actor comment =
     (if ae_status a \<noteq> OPEN then (a, d)
      else
        (let a' = a\<lparr>ae_status := ACKNOWLEDGED, ae_acknowledged_by := Some actor, ae_acknowledged_at := Some (now e),
                    ae_acknowledge_comment := or_else comment (ae_acknowledge_comment a)\<rparr>;
             d1 = save_alert (ae_id a) (\<lambda>row. row\<lparr>ae_status := ae_status a', ae_acknowledged_by := ae_acknowledged_by a',
                    ae_acknowledged_at := ae_acknowledged_at a', ae_acknowledge_comment := ae_acknowledge_comment a'\<rparr>) d;
             c = str_or comment [];
             d2 = (if c = [] then d1
                   else create_alert_log a' LOG_COMMENTED (Some ACKNOWLEDGED) (Some ACKNOWLEDGED) (Some actor) c [] []
                          (add_comment a' actor c d1))
         in (a', create_alert_log a' LOG_ACKNOWLEDGED (Some OPEN) (Some ACKNOWLEDGED) (Some actor)
                  (str_or comment ''Alert acknowledged'') [] [] d2)))"

definition manually_resolve_alert ::
    "env \<Rightarrow> (string \<Rightarrow> bool) \<Rightarrow> db \<Rightarrow> alert_event \<Rightarrow> uuid \<Rightarrow> string option \<Rightarrow> (exn + alert_event) \<times> db" where
  "manually_resolve_alert e raced d a actor comment =
     (case resolve_alert e raced d a None RES_MANUAL (Some actor) comment of
        (Inl x, d1) \<Rightarrow> (Inl x, d1)
      | (Inr a', d1) \<Rightarrow>
          (let c = str_or comment [] in
           (Inr a', if c = [] then d1
                    else create_alert_log a' LOG_COMMENTED (Some RESOLVED) (Some RESOLVED) (Some actor) c [] []
                           (add_comment a' actor c d1))))"

definition suppress_alert :: "env \<Rightarrow> db \<Rightarrow> alert_event \<Rightarrow> uuid option \<Rightarrow> string option \<Rightarrow> alert_event \<times> db" where
  "suppress_alert e d a actor reason =
     (let a' = a\<lparr>ae_status := SUPPRESSED, ae_resolved_at := Some (now e), ae_resolved_by := actor,
                 ae_resolution_type := Some RES_SUPPRESSED, ae_resolve_comment := or_else reason (ae_resolve_comment a)\<rparr>;
          d1 = save_alert (ae_id a) (\<lambda>row. row\<lparr>ae_status := ae_status a', ae_resolved_at := ae_resolved_at a',
                 ae_resolved_by := ae_resolved_by a', ae_resolution_type := ae_resolution_type a',
                 ae_resolve_comment := ae_resolve_comment a'\<rparr>) d
      in (a', create_alert_log a' LOG_SUPPRESSED (Some (ae_status a)) (Some SUPPRESSED) actor (str_or reason ''Alert suppressed'') [] [] d1))"

end
