(* ===== verification/Alert_Evaluate.thy ===== *)
theory Alert_Evaluate
  imports Alert_Engine
begin

text \<open>
  The decisions of the alert engine (\<open>apps/alerts/services/engine.py\<close>): what a true and a false
  condition do, trap alerts and their clearing by telemetry, and the evaluation of a row, rule by
  rule, each in a transaction of its own.
\<close>

subsection \<open>True conditions\<close>

definition newest_first :: "alert_event list \<Rightarrow> alert_event list" where
  "newest_first = order_by (\<lambda>a. (- ae_triggered_at a, - ae_created_at a))"

definition maybe_create_duration_alert :: "env \<Rightarrow> db \<Rightarrow> latest_telemetry \<Rightarrow> alert_rule \<Rightarrow> bool \<times> db" where
  "maybe_create_duration_alert e d l r =
     (let (s, d') = upsert_condition_state e d l r; duration = int (ar_duration_seconds r)
      in (duration \<le> 0 \<or> now e - cs_first_seen_at s \<ge> seconds duration, d'))"

definition active_alert_for_rule :: "db \<Rightarrow> latest_telemetry \<Rightarrow> alert_rule \<Rightarrow> alert_event option" where
  "active_alert_for_rule d l r = first_row (newest_first (filter (alert_scope_q l r) (alert_events d)))"

definition suppressed_alert :: "env \<Rightarrow> db \<Rightarrow> alert_rule \<Rightarrow> latest_telemetry \<Rightarrow> device \<Rightarrow> metric \<Rightarrow> py \<Rightarrow> py \<Rightarrow> alert_event" where
  "suppressed_alert e d r l dev me val threshold =
     (opened_alert e d r l dev me val threshold)\<lparr>ae_status := SUPPRESSED, ae_resolution_type := Some RES_SUPPRESSED,
        ae_resolve_comment := Some ''Suppression window active'', ae_metadata := []\<rparr>"

definition ensure_alert_for_true_condition ::
    "env \<Rightarrow> (string \<Rightarrow> bool) \<Rightarrow> latest_telemetry \<Rightarrow> device \<Rightarrow> metric \<Rightarrow> alert_rule \<Rightarrow> py \<Rightarrow> py \<Rightarrow> db
      \<Rightarrow> (exn + alert_event option) \<times> db" where
  "ensure_alert_for_true_condition e raced l dev me r val threshold d =
     (let alert = active_alert_for_rule d l r in
      if has_suppression e d l then
        (case alert of
           Some a \<Rightarrow>
             if ae_status a \<noteq> SUPPRESSED
             then (let (a', d') = suppress_alert e d a None (Some ''Suppression window active'') in (Inr (Some a'), d'))
             else (Inr (Some a), d)
         | None \<Rightarrow>
             (let a = suppressed_alert e d r l dev me val threshold in
              (Inr (Some a), create_alert_log a LOG_SUPPRESSED None (Some SUPPRESSED) None
                 ''Suppressed by maintenance window'' [] [] (insert_alert a d))))
      else case alert of
        Some a \<Rightarrow>
          if ae_status a \<in> ACTIVE_ALERT_STATUSES
          then (case update_active_alert e d a l dev me val threshold of
              (Inl x, d') \<Rightarrow> (Inl x, d')
            | (Inr a', d') \<Rightarrow> (Inr (Some a'), d'))
          else (Inr (Some a), d)
      | None \<Rightarrow>
          (let (due, d1) = maybe_create_duration_alert e d l r in
           if \<not> due then (Inr None, d1)
           else (let (a, d2) = open_alert e raced d1 r l dev me val threshold in (Inr (Some a), d2))))"

subsection \<open>False conditions\<close>

definition resolve_if_needed ::
    "env \<Rightarrow> (string \<Rightarrow> bool) \<Rightarrow> latest_telemetry \<Rightarrow> metric \<Rightarrow> alert_rule \<Rightarrow> db \<Rightarrow> (exn + alert_event option) \<times> db" where
  "resolve_if_needed e raced l me r d =
     (case active_alert_for_rule d l r of
        None \<Rightarrow> (Inr None, clear_condition_state d l r)
      | Some a \<Rightarrow>
          if ae_status a = SUPPRESSED then (Inr (Some a), clear_condition_state d l r)
          else if ae_status a \<in> ACTIVE_ALERT_STATUSES
          then (case resolve_alert e raced d a (Some (l, me)) RES_AUTO None None of
              (Inl x, d') \<Rightarrow> (Inl x, d')
            | (Inr a', d') \<Rightarrow> (Inr (Some a'), d'))
          else (Inr (Some a), d))"

subsection \<open>Trap alerts\<close>

definition trap_metadata :: "string \<Rightarrow> string option \<Rightarrow> string option \<Rightarrow> dict \<Rightarrow> dict" where
  "trap_metadata trap_oid event_code event_name raw =
     [(''trap_oid'', PStr trap_oid), (''trap_event_code'', opt_py PStr event_code), (''trap_event_name'', opt_py PStr event_name),
      (''source'', PStr ''SNMP_TRAP''), (''raw_payload'', PDict raw)]"

definition trap_alert_q :: "device \<Rightarrow> string \<Rightarrow> alert_event \<Rightarrow> bool" where
  "trap_alert_q dev trap_oid a =
     (ae_organization a = dev_organization dev \<and> ae_data_center a = dev_data_center dev \<and> ae_device a = dev_id dev
      \<and> ae_metric a = None \<and> ae_alert_rule a = None \<and> ae_status a \<in> ACTIVE_ALERT_STATUSES
      \<and> dict_get (ae_metadata a) ''trap_oid'' = Some (PStr trap_oid))"

definition find_trap_alert :: "db \<Rightarrow> device \<Rightarrow> string \<Rightarrow> alert_event option" where
  "find_trap_alert d dev trap_oid = first_row (newest_first (filter (trap_alert_q dev trap_oid) (alert_events d)))"

definition new_trap_alert :: "env \<Rightarrow> db \<Rightarrow> device \<Rightarrow> alert_severity \<Rightarrow> string \<Rightarrow> time \<Rightarrow> dict \<Rightarrow> alert_event" where
  "new_trap_alert e d dev severity message triggered_at md =
     \<lparr>ae_id = fresh_key ae_id (alert_events d), ae_created_at = now e, ae_organization = dev_organization dev,
      ae_data_center = dev_data_center dev, ae_device = dev_id dev, ae_metric = None, ae_alert_rule = None,
      ae_severity = severity, ae_status = OPEN, ae_values = no_value, ae_message = message, ae_triggered_at = triggered_at,
      ae_last_seen_at = Some triggered_at, ae_acknowledged_by = None, ae_acknowledged_at = None, ae_resolved_by = None,
      ae_resolved_at = None, ae_resolution_type = None, ae_acknowledge_comment = None, ae_resolve_comment = None,
      ae_occurrence_count = 1, ae_metadata = md\<rparr>"

definition create_or_update_trap_alert ::
    "env \<Rightarrow> (string \<Rightarrow> bool) \<Rightarrow> device \<Rightarrow> string option \<Rightarrow> string option \<Rightarrow> alert_severity \<Rightarrow> string \<Rightarrow> time \<Rightarrow> string \<Rightarrow> dict
      \<Rightarrow> db \<Rightarrow> alert_event \<times> db" where
  "create_or_update_trap_alert e raced dev event_code event_name severity message triggered_at trap_oid raw d =
     (let md = trap_metadata trap_oid event_code event_name raw;
          fresh = (let a = new_trap_alert e d dev severity message triggered_at md;
                       d1 = create_alert_log a LOG_OPENED None (Some OPEN) None message [] md (insert_alert a d)
                   in (a, snd (create_notifications_for_alert_opened e raced a d1)))
      in case find_trap_alert d dev trap_oid of
        None \<Rightarrow> fresh
      | Some x \<Rightarrow>
          if event_code = None \<or> dict_get (ae_metadata x) ''trap_event_code'' = Some (opt_py PStr event_code)
          then (let x' = x\<lparr>ae_last_seen_at := Some triggered_at, ae_message := message, ae_severity := severity,
                           ae_occurrence_count := (if ae_occurrence_count x = 0 then 1 else ae_occurrence_count x) + 1,
                           ae_metadata := dict_merge (ae_metadata x) md\<rparr>;
                    d1 = save_alert (ae_id x) (\<lambda>row. row\<lparr>ae_last_seen_at := ae_last_seen_at x', ae_message := ae_message x',
                           ae_severity := ae_severity x', ae_occurrence_count := ae_occurrence_count x', ae_metadata := ae_metadata x'\<rparr>) d
                in (x', create_alert_log x' LOG_UPDATED (Some (ae_status x)) (Some (ae_status x)) None message [] md d1))
          else fresh)"

text \<open>\<open>int()\<close> of a value: truncation of a number, the digits of a text.\<close>

definition py_int :: "py \<Rightarrow> exn + int" where
  "py_int v = (case v of
      PBool b \<Rightarrow> Inr (if b then 1 else 0)
    | PInt i \<Rightarrow> Inr i
    | PFloat r \<Rightarrow> Inr (if r \<ge> 0 then \<lfloor>r\<rfloor> else \<lceil>r\<rceil>)
    | PDec r \<Rightarrow> Inr (if r \<ge> 0 then \<lfloor>r\<rfloor> else \<lceil>r\<rceil>)
    | PStr s \<Rightarrow>
        (let (neg, ds) = take_sign (strip s) in
         if ds \<noteq> [] \<and> list_all is_digit ds
         then Inr (if neg then - int (nat_of_digits ds) else int (nat_of_digits ds))
         else Inl (ValueError ''invalid literal for int()''))
    | _ \<Rightarrow> Inl TypeError)"

definition UPS_OUTPUT_STATUS_NORMAL_CODES :: "int set" where
  "UPS_OUTPUT_STATUS_NORMAL_CODES = {2, 4, 12, 13, 18, 19, 20, 23, 25, 26, 27}"

definition is_ups_abnormal_condition_cleared :: "env \<Rightarrow> latest_telemetry \<Rightarrow> metric \<Rightarrow> bool" where
  "is_ups_abnormal_condition_cleared e l me =
     (if me_code me = ''ups_abnormal_conditions'' then
        (let val = value_from_latest l in
         if val = PNone then False
         else (let normalized = lower (strip (py_str e val)) in
           if normalized \<in> {''0'', ''false'', ''normal'', ''restored'', ''clear'', ''cleared''} then True
           else normalized \<noteq> [] \<and> set normalized \<subseteq> {CHR ''0''}))
      else if me_code me = ''ups_output_status'' then
        (case py_int (value_from_latest l) of Inl _ \<Rightarrow> False | Inr i \<Rightarrow> i \<in> UPS_OUTPUT_STATUS_NORMAL_CODES)
      else False)"

definition ups_trap_q :: "latest_telemetry \<Rightarrow> alert_event \<Rightarrow> bool" where
  "ups_trap_q l a =
     (ae_organization a = lt_organization l \<and> ae_data_center a = lt_data_center l \<and> ae_device a = lt_device l
      \<and> ae_metric a = None \<and> ae_alert_rule a = None \<and> ae_status a \<in> ACTIVE_ALERT_STATUSES
      \<and> (dict_get (ae_metadata a) ''trap_event_code'' = Some (PStr ''ups_abnormal_condition'')
         \<or> dict_get (ae_metadata a) ''trap_oid'' = Some (PStr ''1.3.6.1.4.1.318.0.77'')
         \<or> icontains (ae_message a) ''UPS abnormal condition''))"

definition resolve_ups_trap_alert_if_needed ::
    "env \<Rightarrow> (string \<Rightarrow> bool) \<Rightarrow> latest_telemetry \<Rightarrow> metric \<Rightarrow> db \<Rightarrow> (exn + alert_event option) \<times> db" where
  "resolve_ups_trap_alert_if_needed e raced l me d =
     (if \<not> is_ups_abnormal_condition_cleared e l me then (Inr None, d)
      else case first_row (newest_first (filter (ups_trap_q l) (alert_events d))) of
        None \<Rightarrow> (Inr None, d)
      | Some a \<Rightarrow>
          (case resolve_alert e raced d a (Some (l, me)) RES_AUTO None None of
             (Inl x, d') \<Rightarrow> (Inl x, d')
           | (Inr a', d') \<Rightarrow> (Inr (Some a'), d')))"

subsection \<open>A row\<close>

definition add_alert :: "alert_event option \<Rightarrow> alert_event list \<Rightarrow> alert_event list" where
  "add_alert a acc = (case a of None \<Rightarrow> acc | Some x \<Rightarrow> acc @ [x])"

definition evaluate_rule_once ::
    "env \<Rightarrow> (string \<Rightarrow> bool) \<Rightarrow> latest_telemetry \<Rightarrow> device \<Rightarrow> metric \<Rightarrow> alert_rule \<Rightarrow> db \<Rightarrow> (exn + alert_event option) \<times> db" where
  "evaluate_rule_once e raced l dev me r d =
     (case evaluate_rule_condition r l of (condition_is_true, val, threshold) \<Rightarrow>
        if condition_is_true then atomic (ensure_alert_for_true_condition e raced l dev me r val threshold) d
        else atomic (resolve_if_needed e raced l me r) d)"

fun evaluate_rules ::
    "env \<Rightarrow> (string \<Rightarrow> bool) \<Rightarrow> latest_telemetry \<Rightarrow> device \<Rightarrow> metric \<Rightarrow> alert_rule list \<Rightarrow> alert_event list \<Rightarrow> db
      \<Rightarrow> (exn + alert_event list) \<times> db" where
  "evaluate_rules e raced l dev me [] acc d = (Inr acc, d)"
| "evaluate_rules e raced l dev me (r # rs) acc d =
     (case evaluate_rule_once e raced l dev me r d of
        (Inl x, d') \<Rightarrow> (Inl x, d')
      | (Inr a, d') \<Rightarrow> evaluate_rules e raced l dev me rs (add_alert a acc) d')"

text \<open>The foreign keys of a row exist; a dangling one raises.\<close>

definition evaluate_latest :: "env \<Rightarrow> (string \<Rightarrow> bool) \<Rightarrow> db \<Rightarrow> latest_telemetry \<Rightarrow> (exn + alert_event list) \<times> db" where
  "evaluate_latest e raced d l =
     (case (device_of d (lt_device l), metric_of d (lt_metric l)) of
        (Some dev, Some me) \<Rightarrow>
          (case get_matching_rules e d l of
             Inl x \<Rightarrow> (Inl x, d)
           | Inr (rules, d0) \<Rightarrow>
             (case evaluate_rules e raced l dev me rules [] d0 of
                (Inl x, d1) \<Rightarrow> (Inl x, d1)
              | (Inr acc, d1) \<Rightarrow>
                (case atomic (resolve_ups_trap_alert_if_needed e raced l me) d1 of
                   (Inl x, d2) \<Rightarrow> (Inl x, d2)
                 | (Inr a, d2) \<Rightarrow> (Inr (add_alert a acc), d2))))
      | _ \<Rightarrow> (Inl DoesNotExist, d))"

fun evaluate_many :: "env \<Rightarrow> (string \<Rightarrow> bool) \<Rightarrow> db \<Rightarrow> latest_telemetry list \<Rightarrow> alert_event list \<Rightarrow> (exn + alert_event list) \<times> db" where
  "evaluate_many e raced d [] acc = (Inr acc, d)"
| "evaluate_many e raced d (l # ls) acc =
     (case evaluate_latest e raced d l of
        (Inl x, d') \<Rightarrow> (Inl x, d')
      | (Inr as, d') \<Rightarrow> evaluate_many e raced d' ls (acc @ as))"

subsection \<open>The older evaluator\<close>

text \<open>
  \<open>apps/alerts/services/evaluator.py\<close>: the threshold is chosen with \<open>or\<close>, so a zero, \<open>False\<close> or
  empty threshold is passed over for the next column; a comparison that raises is not caught.
\<close>

definition py_or_opt :: "py \<Rightarrow> py \<Rightarrow> py" where
  "py_or_opt a b = (if truthy a then a else b)"

definition threshold_by_or :: "alert_rule \<Rightarrow> py" where
  "threshold_by_or r =
     py_or_opt (py_or_opt (py_or_opt (opt_py PFloat (value_float (ar_threshold r))) (opt_py PInt (value_integer (ar_threshold r))))
       (opt_py PBool (value_boolean (ar_threshold r)))) (opt_py PStr (value_text (ar_threshold r)))"

definition evaluate_rule :: "env \<Rightarrow> db \<Rightarrow> alert_rule \<Rightarrow> device \<Rightarrow> metric \<Rightarrow> py \<Rightarrow> time \<Rightarrow> exn + alert_event option \<times> db" where
  "evaluate_rule e d r dev me val ts =
     (case compare_values (ar_operator r) val (threshold_by_or r) of
        Inl x \<Rightarrow> Inl x
      | Inr matched \<Rightarrow>
          if \<not> matched then Inr (None, d)
          else (let a = \<lparr>ae_id = fresh_key ae_id (alert_events d), ae_created_at = now e, ae_organization = dev_organization dev,
                  ae_data_center = dev_data_center dev, ae_device = dev_id dev, ae_metric = Some (me_id me),
                  ae_alert_rule = Some (ar_id r), ae_severity = ar_severity r, ae_status = OPEN, ae_values = no_value,
                  ae_message = str_or (ar_message_template r) (me_code me @ '' alert triggered''), ae_triggered_at = ts,
                  ae_last_seen_at = None, ae_acknowledged_by = None, ae_acknowledged_at = None, ae_resolved_by = None,
                  ae_resolved_at = None, ae_resolution_type = None, ae_acknowledge_comment = None, ae_resolve_comment = None,
                  ae_occurrence_count = 1, ae_metadata = []\<rparr>
                in Inr (Some a, insert_alert a d)))"

end
