(* ===== verification/Alert_Notify_Props.thy ===== *)
theory Alert_Notify_Props
  imports Alert_Notify Delivery_Props
begin

text \<open>
  What the notification service of alerts guarantees: it writes notifications and the queue only,
  it keeps the deduplication keys unique, a second call for the same alert and action creates
  nothing, the recipients of an escalation are in scope; and where it falls short: a race stops
  the remaining recipients, and the recipients' query and the access scope disagree.
\<close>

subsection \<open>What the service writes\<close>

definition only_notifications :: "db \<Rightarrow> db \<Rightarrow> bool" where
  "only_notifications d d' = (\<exists>ns ob. d' = d\<lparr>notifications := ns, outbox := ob\<rparr>)"

lemma only_notificationsI: "d' = d\<lparr>notifications := ns, outbox := ob\<rparr> \<Longrightarrow> only_notifications d d'"
  unfolding only_notifications_def by blast

lemma only_notifications_refl [simp]: "only_notifications d d"
  by (rule only_notificationsI [where ns = "notifications d" and ob = "outbox d"]) simp

lemma only_notifications_trans [trans]:
  assumes "only_notifications d d1" and "only_notifications d1 d2"
  shows "only_notifications d d2"
proof -
  from assms obtain ns ob ns' ob' where "d1 = d\<lparr>notifications := ns, outbox := ob\<rparr>"
    "d2 = d1\<lparr>notifications := ns', outbox := ob'\<rparr>" unfolding only_notifications_def by blast
  then show ?thesis by (intro only_notificationsI [where ns = ns' and ob = ob']) simp
qed

lemma only_save: "only_notifications d (save_notification d k f)"
  by (rule only_notificationsI [where ns = "tbl_update nt_id k f (notifications d)" and ob = "outbox d"]) (simp add: save_notification_def)

lemma only_insert: "only_notifications d (insert_notification d n)"
  by (rule only_notificationsI [where ns = "tbl_insert n (notifications d)" and ob = "outbox d"]) (simp add: insert_notification_def)

lemma only_queue: "only_notifications d (queue_notification_delivery d n)"
proof (cases "nt_status n \<in> claimed_statuses")
  case False
  then show ?thesis
    by (intro only_notificationsI [where ns = "notifications d" and ob = "outbox d @ [SendNotification (nt_id n)]"])
      (simp add: queue_notification_delivery_def)
qed (simp add: queue_notification_delivery_def)

lemma only_create:
  "create_notification e raced d a u ch subject message act = Inr (r, d') \<Longrightarrow> only_notifications d d'"
  by (auto simp: create_notification_def Let_def only_save only_insert split: option.splits if_splits)

lemma only_create_all:
  "create_all e raced a subject message act ps created d = (r, d') \<Longrightarrow> only_notifications d d'"
proof (induction e raced a subject message act ps created d arbitrary: r d' rule: create_all.induct)
  case (2 e raced a subject message act u ch rest created d)
  show ?case
  proof (cases "create_notification e raced d a u ch subject message act")
    case (Inl x)
    with "2.prems" show ?thesis by simp
  next
    case (Inr p)
    obtain n d1 where p: "p = (n, d1)" by (cases p)
    have one: "only_notifications d d1" using only_create Inr p by blast
    have q: "only_notifications d1 (queue_delivery d1 n)"
      by (cases n) (simp_all add: queue_delivery_def only_queue)
    show ?thesis
    proof (cases n)
      case None
      with "2.IH"(1) [OF Inr p [symmetric]] "2.prems" Inr p one show ?thesis
        by (auto intro: only_notifications_trans)
    next
      case (Some m)
      with "2.IH"(2) [OF Inr p [symmetric]] "2.prems" Inr p one q show ?thesis
        by (auto intro: only_notifications_trans)
    qed
  qed
qed simp

lemma only_create_for:
  "create_notifications_for e raced subject chans act a d = (r, d') \<Longrightarrow> only_notifications d d'"
  by (auto simp: create_notifications_for_def split: option.splits sum.splits dest: only_create_all)

lemma only_escalate_all:
  "escalate_all e raced a p subject message ps created d = (r, d') \<Longrightarrow> only_notifications d d'"
proof (induction e raced a p subject message ps created d arbitrary: r d' rule: escalate_all.induct)
  case (2 e raced a p subject message u ch rest created d)
  obtain n d1 where c: "create_escalation_notification e raced d a p u ch subject message = (n, d1)" by (metis surj_pair)
  then have one: "only_notifications d d1"
    by (auto simp: create_escalation_notification_def Let_def only_insert split: if_splits)
  have q: "only_notifications d1 (queue_delivery d1 n)"
    by (cases n) (simp_all add: queue_delivery_def only_queue)
  show ?case
  proof (cases n)
    case None
    with "2.IH"(1) [OF c [symmetric]] "2.prems" c one show ?thesis by (auto intro: only_notifications_trans)
  next
    case (Some m)
    with "2.IH"(2) [OF c [symmetric]] "2.prems" c one q show ?thesis by (auto intro: only_notifications_trans)
  qed
qed simp

lemma only_escalated:
  "create_notifications_for_alert_escalated e raced a p d = (r, d') \<Longrightarrow> only_notifications d d'"
  by (auto simp: create_notifications_for_alert_escalated_def Let_def split: option.splits prod.splits dest: only_escalate_all)

lemma only_notifications_sel:
  assumes "only_notifications d d'"
  shows "users d' = users d" "accesses d' = accesses d" "devices d' = devices d" "metrics d' = metrics d"
    "alert_events d' = alert_events d" "alert_logs d' = alert_logs d" "alert_rules d' = alert_rules d"
    "condition_states d' = condition_states d" "role_permissions d' = role_permissions d"
    "permissions d' = permissions d" "suppression_windows d' = suppression_windows d"
    "alert_comments d' = alert_comments d" "shared_cache d' = shared_cache d" "roles d' = roles d"
  using assms by (auto simp: only_notifications_def)

subsection \<open>A second call creates nothing\<close>

definition no_race :: "string \<Rightarrow> bool" where
  "no_race key = False"

text \<open>The state in which a pair of recipient and channel needs nothing more.\<close>

definition settled :: "db \<Rightarrow> alert_event \<Rightarrow> string \<Rightarrow> user \<times> notification_channel \<Rightarrow> bool" where
  "settled d a act p = (case p of (u, ch) \<Rightarrow>
     unreachable u ch \<or> notification_by_key d (dedupe_key a u ch act) \<noteq> None
     \<or> (\<exists>l. legacy_notification d a u ch act = Some l \<and> str_or (nt_dedupe_key l) [] \<noteq> []))"

lemma settled_creates_nothing:
  "settled d a act (u, ch) \<Longrightarrow> create_notification e no_race d a u ch subject message act = Inr (None, d)"
  by (auto simp: settled_def create_notification_def Let_def split: option.splits)

lemma dedupe_key_not_Nil [simp]: "dedupe_key a u ch act \<noteq> []"
  by (simp add: dedupe_key_def)

lemma by_key_in: "notification_by_key d key \<noteq> None \<longleftrightarrow> (\<exists>n \<in> set (notifications d). nt_dedupe_key n = Some key)"
  by (auto simp: notification_by_key_def find_None_iff)

lemma legacy_in:
  "legacy_notification d a u ch act = Some l \<Longrightarrow>
    l \<in> set (notifications d) \<and> nt_recipient l = Some (usr_id u) \<and> nt_channel l = ch"
  by (auto simp: legacy_notification_def dest: first_row_Some_in)

lemma create_settles:
  assumes "create_notification e no_race d a u ch subject message act = Inr (r, d')"
  shows "settled d' a act (u, ch)"
proof (cases "settled d a act (u, ch)")
  case True
  with settled_creates_nothing [OF True] assms show ?thesis by simp
next
  case False
  let ?key = "dedupe_key a u ch act"
  from False have n: "\<not> unreachable u ch" "notification_by_key d ?key = None" by (auto simp: settled_def)
  have "\<exists>m \<in> set (notifications d'). nt_dedupe_key m = Some ?key"
  proof (cases "legacy_notification d a u ch act")
    case None
    with n assms have "d' = insert_notification d (new_notification e d a u ch subject message ?key (alert_metadata a act))"
      by (simp add: create_notification_def no_race_def Let_def)
    then show ?thesis by (auto simp: insert_notification_def new_notification_def)
  next
    case (Some l)
    with False have "str_or (nt_dedupe_key l) [] = []" by (auto simp: settled_def)
    with Some n assms have d': "d' = save_notification d (nt_id l) (\<lambda>r. r\<lparr>nt_dedupe_key := Some ?key, nt_updated_at := now e\<rparr>)"
      by (simp add: create_notification_def no_race_def Let_def)
    have "l\<lparr>nt_dedupe_key := Some ?key, nt_updated_at := now e\<rparr> \<in> set (notifications d')"
      using legacy_in [OF Some] by (auto simp: d' save_notification_def set_tbl_update image_iff)
    then show ?thesis by force
  qed
  then have "notification_by_key d' ?key \<noteq> None" unfolding by_key_in .
  then show ?thesis by (simp add: settled_def)
qed

lemma legacy_insert_other:
  "(nt_recipient n, nt_channel n) \<noteq> (Some (usr_id u), ch) \<Longrightarrow>
    legacy_notification (insert_notification d n) a u ch act = legacy_notification d a u ch act"
  by (auto simp: legacy_notification_def insert_notification_def tbl_insert_def)

lemma legacy_save_other:
  assumes "keys_unique nt_id (notifications d)" and l: "l \<in> set (notifications d)"
    and other: "(nt_recipient l, nt_channel l) \<noteq> (Some (usr_id u), ch)"
    and f: "\<And>r. nt_recipient (f r) = nt_recipient r" "\<And>r. nt_channel (f r) = nt_channel r"
  shows "legacy_notification (save_notification d (nt_id l) f) a u ch act = legacy_notification d a u ch act"
proof -
  have same: "x = l" if "x \<in> set (notifications d)" "nt_id x = nt_id l" for x
    using assms(1) l that by (auto simp: keys_unique_def distinct_map dest: inj_onD)
  have flt: "filter Q (tbl_update nt_id (nt_id l) f (notifications d)) = filter Q (notifications d)"
    if "\<And>x. Q x \<Longrightarrow> (nt_recipient x, nt_channel x) = (Some (usr_id u), ch)" for Q
    unfolding tbl_update_def
  proof (rule filter_map_outside)
    fix x assume "x \<in> set (notifications d)" "nt_id x = nt_id l"
    then have "x = l" by (rule same)
    with that [of x] that [of "f x"] other f show "\<not> Q x" "\<not> Q (f x)" by auto
  qed
  have ns: "notifications (save_notification d (nt_id l) f) = tbl_update nt_id (nt_id l) f (notifications d)"
    by (simp add: save_notification_def)
  show ?thesis unfolding legacy_notification_def ns by (subst flt) auto
qed

lemma create_keeps_settled:
  assumes "keys_unique nt_id (notifications d)"
    and c: "create_notification e no_race d a u ch subject message act = Inr (r, d')"
    and s: "settled d a act (v, ch')" and other: "(usr_id v, ch') \<noteq> (usr_id u, ch)"
  shows "settled d' a act (v, ch')"
proof (cases "settled d a act (u, ch)")
  case True
  with settled_creates_nothing [OF True] c s show ?thesis by simp
next
  case False
  let ?key = "dedupe_key a u ch act"
  from False have n: "\<not> unreachable u ch" "notification_by_key d ?key = None" by (auto simp: settled_def)
  show ?thesis
  proof (cases "legacy_notification d a u ch act")
    case None
    with n c have d': "d' = insert_notification d (new_notification e d a u ch subject message ?key (alert_metadata a act))"
      by (simp add: create_notification_def no_race_def Let_def)
    have "legacy_notification d' a v ch' act = legacy_notification d a v ch' act"
      unfolding d' by (rule legacy_insert_other) (use other in \<open>auto simp: new_notification_def\<close>)
    moreover have "notification_by_key d x \<noteq> None \<Longrightarrow> notification_by_key d' x \<noteq> None" for x
      unfolding by_key_in d' by (auto simp: insert_notification_def)
    ultimately show ?thesis using s by (auto simp: settled_def)
  next
    case (Some l)
    with False have e: "str_or (nt_dedupe_key l) [] = []" by (auto simp: settled_def)
    with Some n c have d': "d' = save_notification d (nt_id l) (\<lambda>r. r\<lparr>nt_dedupe_key := Some ?key, nt_updated_at := now e\<rparr>)"
      by (simp add: create_notification_def no_race_def Let_def)
    note l = legacy_in [OF Some]
    have "legacy_notification d' a v ch' act = legacy_notification d a v ch' act"
      unfolding d' by (rule legacy_save_other [OF assms(1)]) (use l other in auto)
    moreover have "notification_by_key d' x \<noteq> None" if k: "notification_by_key d x \<noteq> None" and "x \<noteq> []" for x
    proof -
      from k obtain m where m: "m \<in> set (notifications d)" "nt_dedupe_key m = Some x" unfolding by_key_in by blast
      with e that(2) have "m \<noteq> l" by (auto simp: str_or_def split: option.splits if_splits)
      with m(1) l assms(1) have "nt_id m \<noteq> nt_id l" by (auto simp: keys_unique_def distinct_map dest: inj_onD)
      with m have "m \<in> set (notifications d')"
        by (auto simp: d' save_notification_def set_tbl_update image_iff)
      with m show ?thesis unfolding by_key_in by blast
    qed
    ultimately show ?thesis using s dedupe_key_not_Nil by (auto simp: settled_def)
  qed
qed

lemma settled_outbox: "settled (d\<lparr>outbox := ob\<rparr>) a act p = settled d a act p"
  by (simp add: settled_def notification_by_key_def legacy_notification_def split: prod.splits)

lemma settled_queue [simp]: "settled (queue_delivery d n) a act p = settled d a act p"
  by (cases n) (simp_all add: queue_delivery_def queue_notification_delivery_def settled_outbox)

lemma queue_notifications [simp]: "notifications (queue_delivery d n) = notifications d"
  by (cases n) (simp_all add: queue_delivery_def queue_notification_delivery_def)

lemma create_keys_unique:
  assumes "keys_unique nt_id (notifications d)" and "create_notification e raced d a u ch subject message act = Inr (r, d')"
  shows "keys_unique nt_id (notifications d')"
  using assms fresh_key_notin [of nt_id "notifications d"]
  by (auto simp: create_notification_def Let_def insert_notification_def save_notification_def new_notification_def
      intro!: keys_unique_insert keys_unique_update split: option.splits if_splits)

lemma create_all_settles:
  assumes "create_all e no_race a subject message act ps created d = (Inr out, d')"
    and "keys_unique nt_id (notifications d)" and "distinct (map (\<lambda>(u, ch). (usr_id u, ch)) ps)"
  shows "(\<forall>p \<in> set ps. settled d' a act p)
    \<and> (\<forall>v ch. settled d a act (v, ch) \<and> (usr_id v, ch) \<notin> (\<lambda>(u, ch). (usr_id u, ch)) ` set ps \<longrightarrow> settled d' a act (v, ch))"
  using assms
proof (induction ps arbitrary: created d)
  case Nil
  then show ?case by simp
next
  case (Cons p ps)
  obtain u ch where p: "p = (u, ch)" by (cases p)
  from Cons.prems(1) p obtain n d1 where c: "create_notification e no_race d a u ch subject message act = Inr (n, d1)"
    by (cases "create_notification e no_race d a u ch subject message act") auto
  obtain created1 where rest: "create_all e no_race a subject message act ps created1 (queue_delivery d1 n) = (Inr out, d')"
    using Cons.prems(1) p c by (cases n) (auto simp: queue_delivery_def)
  have uniq: "keys_unique nt_id (notifications (queue_delivery d1 n))" using create_keys_unique [OF Cons.prems(2) c] by simp
  have dist: "distinct (map (\<lambda>(u, ch). (usr_id u, ch)) ps)" "(usr_id u, ch) \<notin> (\<lambda>(u, ch). (usr_id u, ch)) ` set ps"
    using Cons.prems(3) p by auto
  note IH = Cons.IH [OF rest uniq dist(1)]
  have mine: "settled d' a act (u, ch)"
    using IH create_settles [OF c] dist(2) by simp
  have keep: "settled d' a act (v, ch')"
    if "settled d a act (v, ch')" "(usr_id v, ch') \<notin> (\<lambda>(u, ch). (usr_id u, ch)) ` set (p # ps)" for v ch'
    using IH create_keeps_settled [OF Cons.prems(2) c that(1)] that(2) p by simp
  from IH mine keep p show ?case by simp
qed

lemma create_all_settled:
  "\<forall>p \<in> set ps. settled d a act p \<Longrightarrow> create_all e no_race a subject message act ps created d = (Inr created, d)"
  by (induction ps) (auto simp: settled_creates_nothing)

lemma distinct_pairs:
  "distinct (map usr_id us) \<Longrightarrow> distinct chs \<Longrightarrow> distinct (map (\<lambda>(u, ch). (usr_id u, ch)) (pairs us chs))"
  by (induction us) (auto simp: pairs_def distinct_map inj_on_def o_def)

lemma channels_distinct [simp]: "distinct (channels_for_open s)" "distinct (channels_for_resolved s)"
  by (cases s; simp)+

lemma recipients_depend:
  assumes "only_notifications d d'"
  shows "get_alert_recipients d' a dev = get_alert_recipients d a dev" "alert_message d' a dev = alert_message d a dev"
    "device_of d' k = device_of d k"
proof -
  note same = only_notifications_sel [OF assms]
  show "get_alert_recipients d' a dev = get_alert_recipients d a dev"
    by (simp add: get_alert_recipients_def recipient_queryset_def alert_scope_condition_def row_permits_alerts_def
        role_code_list_def same)
  have "metric_of d' = metric_of d" by (simp add: fun_eq_iff metric_of_def same)
  then show "alert_message d' a dev = alert_message d a dev" by (simp only: alert_message_def)
  show "device_of d' k = device_of d k" by (simp add: device_of_def same)
qed

lemma create_for_twice:
  assumes "keys_unique usr_id (users d)" and "keys_unique nt_id (notifications d)"
    and "\<And>s. distinct (chans s)"
    and "create_notifications_for e no_race subject chans act a d = (Inr created, d1)"
  shows "create_notifications_for e' no_race subject chans act a d1 = (Inr [], d1)"
proof -
  note only = only_create_for [OF assms(4)]
  from assms(4) obtain dev message where dev: "device_of d (ae_device a) = Some dev" "alert_message d a dev = Inr message"
    and all: "create_all e no_race a (subject @ dev_name dev) message act
      (pairs (get_alert_recipients d a dev) (chans (ae_severity a))) [] d = (Inr created, d1)"
    by (auto simp: create_notifications_for_def split: option.splits sum.splits)
  have "distinct (map usr_id (get_alert_recipients d a dev))"
  proof -
    have "distinct (map usr_id (recipient_queryset d a dev))"
      using assms(1) by (auto simp: recipient_queryset_def keys_unique_def distinct_map intro: inj_on_subset)
    then show ?thesis by (simp add: get_alert_recipients_def by_username_def distinct_map)
  qed
  from create_all_settles [OF all assms(2) distinct_pairs [OF this assms(3)]]
  have settled: "\<forall>p \<in> set (pairs (get_alert_recipients d a dev) (chans (ae_severity a))). settled d1 a act p" by blast
  show ?thesis
    using dev create_all_settled [OF settled] by (simp add: create_notifications_for_def recipients_depend [OF only])
qed

text \<open>
  C31. No duplicates: without a concurrent rival, telling the recipients of an opened (or
  resolved) alert a second time, at any later time, creates no notification, queues nothing and
  leaves the database as it is.
\<close>

theorem alert_told_once:
  assumes "keys_unique usr_id (users d)" and "keys_unique nt_id (notifications d)"
  shows "(create_notifications_for_alert_opened e no_race a d = (Inr created, d1) \<longrightarrow>
        create_notifications_for_alert_opened e' no_race a d1 = (Inr [], d1))
    \<and> (create_notifications_for_alert_resolved e no_race a d = (Inr created2, d2) \<longrightarrow>
        create_notifications_for_alert_resolved e' no_race a d2 = (Inr [], d2))"
  unfolding create_notifications_for_alert_opened_def create_notifications_for_alert_resolved_def
  using create_for_twice [OF assms, of channels_for_open] create_for_twice [OF assms, of channels_for_resolved]
  by simp

definition told_db :: db where
  "told_db = empty_db
    \<lparr>devices := [blank_device\<lparr>dev_id := 40, dev_organization := 1, dev_data_center := 10, dev_name := ''UPS-01''\<rparr>],
     users := [blank_user\<lparr>usr_id := 9, usr_username := ''root'', usr_email := ''root@bank'', usr_is_superuser := True\<rparr>]\<rparr>"

definition told_alert :: alert_event where
  "told_alert = blank_event\<lparr>ae_id := 100, ae_organization := 1, ae_data_center := 10, ae_device := 40,
     ae_severity := WARNING, ae_message := ''hot''\<rparr>"

lemmas told_defs = told_db_def told_alert_def blank_defs

lemma told_run:
  "\<exists>created d1. create_notifications_for_alert_opened (plain_env 5) no_race told_alert told_db = (Inr created, d1)
    \<and> length created = 2 \<and> length (outbox d1) = 2"
proof -
  define dev where "dev = blank_device\<lparr>dev_id := 40, dev_organization := 1, dev_data_center := 10, dev_name := ''UPS-01''\<rparr>"
  define u where "u = blank_user\<lparr>usr_id := 9, usr_username := ''root'', usr_email := ''root@bank'', usr_is_superuser := True\<rparr>"
  have dev: "device_of told_db (ae_device told_alert) = Some dev"
    by (simp add: device_of_def tbl_get_def told_defs dev_def)
  have rec: "get_alert_recipients told_db told_alert dev = [u]"
    by (simp add: get_alert_recipients_def by_username_def recipient_queryset_def alert_scope_condition_def told_defs u_def)
  have msg: "alert_message told_db told_alert dev = Inr (strip (dev_name dev @ '' '' @ [] @ '' '' @ ''OPEN'' @ '': '' @ ''hot''))"
    by (simp add: alert_message_def told_defs)
  have ch: "channels_for_open (ae_severity told_alert) = [WEB, EMAIL]" by (simp add: told_alert_def)
  have mail: "\<not> unreachable u WEB" "\<not> unreachable u EMAIL" by (simp_all add: unreachable_def u_def)
  show ?thesis
    unfolding create_notifications_for_alert_opened_def create_notifications_for_def dev option.case msg sum.case rec ch
    by (simp add: pairs_def create_notification_def mail no_race_def notification_by_key_def legacy_notification_def
        insert_notification_def tbl_insert_def new_notification_def queue_delivery_def queue_notification_delivery_def
        claimed_statuses_def Let_def told_db_def empty_db_def dedupe_key_def)
qed

theorem alert_told_once_witness:
  "\<exists>created d1. length created = 2 \<and> create_notifications_for_alert_opened (plain_env 5) no_race told_alert told_db = (Inr created, d1)
    \<and> create_notifications_for_alert_opened (plain_env 9) no_race told_alert d1 = (Inr [], d1)"
proof -
  have u: "keys_unique usr_id (users told_db)" "keys_unique nt_id (notifications told_db)"
    by (simp_all add: keys_unique_def told_defs)
  from told_run obtain created d1 where r: "length created = 2"
    "create_notifications_for_alert_opened (plain_env 5) no_race told_alert told_db = (Inr created, d1)" by blast
  moreover have "create_notifications_for_alert_opened (plain_env 9) no_race told_alert d1 = (Inr [], d1)"
    using alert_told_once [OF u, of "plain_env 5" told_alert created d1 "plain_env 9" undefined undefined] r(2) by blast
  ultimately show ?thesis by blast
qed

subsection \<open>A race stops the others\<close>

lemma create_all_append:
  assumes "create_all e raced a subject message act ps created d = (Inr c, d1)"
  shows "create_all e raced a subject message act (ps @ qs) created d = create_all e raced a subject message act qs c d1"
  using assms
proof (induction ps arbitrary: created d)
  case Nil
  then show ?case by simp
next
  case (Cons p ps)
  obtain u ch where p: "p = (u, ch)" by (cases p)
  from Cons.prems p obtain n d2 where c: "create_notification e raced d a u ch subject message act = Inr (n, d2)"
    by (cases "create_notification e raced d a u ch subject message act") auto
  with Cons p show ?case by (cases n) auto
qed

text \<open>
  A lost race silences the rest: when another transaction wins the insert of one
  notification, the handler of the \<open>IntegrityError\<close> queries inside the broken transaction, which
  Django refuses, so the error leaves the loop: the notifications made so far stay, and no
  later channel and no later recipient is served.
\<close>

theorem race_silences_the_rest:
  assumes "\<not> query_after_error e"
    and "create_all e raced a subject message act ps [] d = (Inr made, d1)"
    and "\<not> unreachable u ch" and "notification_by_key d1 (dedupe_key a u ch act) = None"
    and "legacy_notification d1 a u ch act = None" and "raced (dedupe_key a u ch act)"
  shows "create_all e raced a subject message act (ps @ (u, ch) # rest) [] d = (Inl TransactionManagementError, d1)"
  unfolding create_all_append [OF assms(2)]
  using assms(1,3-6) by (simp add: create_notification_def)

theorem race_silences_the_rest_witness:
  "create_all (plain_env 5) (\<lambda>_. True) told_alert ''s'' ''m'' ''OPENED''
     [(users told_db ! 0, WEB), (users told_db ! 0, EMAIL)] [] told_db = (Inl TransactionManagementError, told_db)"
  using race_silences_the_rest [of "plain_env 5" "\<lambda>_. True" told_alert "''s''" "''m''" "''OPENED''" "[]" told_db "[]" told_db
      "users told_db ! 0" WEB "[(users told_db ! 0, EMAIL)]"]
  by (simp add: unreachable_def notification_by_key_def legacy_notification_def told_defs)

subsection \<open>The recipients of an escalation\<close>

lemma append_recipients_inv:
  assumes "\<forall>x \<in> set acc. usr_is_active x \<and> has_alert_scope d x a dev" and "distinct (map usr_id acc)"
  shows "(\<forall>x \<in> set (append_recipients d a dev us acc). (x \<in> set acc \<or> x \<in> set us) \<and> usr_is_active x \<and> has_alert_scope d x a dev)
    \<and> distinct (map usr_id (append_recipients d a dev us acc)) \<and> set acc \<subseteq> set (append_recipients d a dev us acc)
    \<and> (\<forall>u \<in> set us. usr_is_active u \<and> has_alert_scope d u a dev \<longrightarrow> usr_id u \<in> usr_id ` set (append_recipients d a dev us acc))"
  using assms
proof (induction us arbitrary: acc)
  case Nil
  then show ?case by simp
next
  case (Cons u us)
  define acc' where "acc' = (if \<not> usr_is_active u \<or> usr_id u \<in> usr_id ` set acc \<or> \<not> has_alert_scope d u a dev then acc else acc @ [u])"
  have inv: "\<forall>x \<in> set acc'. usr_is_active x \<and> has_alert_scope d x a dev" "distinct (map usr_id acc')"
    using Cons.prems by (auto simp: acc'_def)
  have sub: "set acc \<subseteq> set acc'" "set acc' \<subseteq> set acc \<union> {u}" by (auto simp: acc'_def)
  have u: "usr_is_active u \<and> has_alert_scope d u a dev \<longrightarrow> usr_id u \<in> usr_id ` set acc'" by (auto simp: acc'_def)
  have step: "append_recipients d a dev (u # us) acc = append_recipients d a dev us acc'" by (simp add: acc'_def)
  from Cons.IH [OF inv] have IH:
    "\<forall>x \<in> set (append_recipients d a dev us acc'). (x \<in> set acc' \<or> x \<in> set us) \<and> usr_is_active x \<and> has_alert_scope d x a dev"
    "distinct (map usr_id (append_recipients d a dev us acc'))" "set acc' \<subseteq> set (append_recipients d a dev us acc')"
    "\<forall>v \<in> set us. usr_is_active v \<and> has_alert_scope d v a dev \<longrightarrow> usr_id v \<in> usr_id ` set (append_recipients d a dev us acc')"
    by blast+
  show ?case unfolding step
  proof (intro conjI ballI)
    fix x assume x: "x \<in> set (append_recipients d a dev us acc')"
    with IH(1) sub(2) show "x \<in> set acc \<or> x \<in> set (u # us)" by auto
    from x IH(1) show "usr_is_active x" "has_alert_scope d x a dev" by auto
  next
    show "distinct (map usr_id (append_recipients d a dev us acc'))" by (rule IH(2))
    show "set acc \<subseteq> set (append_recipients d a dev us acc')" using sub(1) IH(3) by blast
  next
    fix v assume "v \<in> set (u # us)"
    then show "usr_is_active v \<and> has_alert_scope d v a dev \<longrightarrow> usr_id v \<in> usr_id ` set (append_recipients d a dev us acc')"
      using IH(3,4) u by auto
  qed
qed

text \<open>
  Escalation reaches someone: every recipient of an escalation is an active user whose access
  scope takes in the alert, no user is listed twice, and there is a recipient whenever an
  active superuser exists.
\<close>

theorem escalation_recipients_sound:
  "(\<forall>u \<in> set (get_escalation_recipients d a dev p). usr_is_active u \<and> has_alert_scope d u a dev \<and> u \<in> set (users d))
   \<and> distinct (map usr_id (get_escalation_recipients d a dev p))
   \<and> ((\<exists>u \<in> set (users d). usr_is_active u \<and> usr_is_superuser u) \<longrightarrow> get_escalation_recipients d a dev p \<noteq> [])"
proof -
  define r1 where "r1 = append_recipients d a dev (target_user_rows d a dev p) []"
  define r2 where "r2 = append_recipients d a dev (target_role_rows d a dev p) r1"
  define supers where "supers = by_username (filter (\<lambda>u. usr_is_superuser u \<and> usr_is_active u) (users d))"
  have get: "get_escalation_recipients d a dev p = (if r2 = [] then append_recipients d a dev supers [] else r2)"
    by (simp add: get_escalation_recipients_def r1_def r2_def supers_def)
  have src: "set (target_user_rows d a dev p) \<subseteq> set (users d)" "set (target_role_rows d a dev p) \<subseteq> set (users d)"
    "set supers \<subseteq> set (users d)"
    by (auto simp: target_user_rows_def target_role_rows_def supers_def by_username_def split: option.splits)
  have e: "\<forall>x \<in> set []. usr_is_active x \<and> has_alert_scope d x a dev" "distinct (map usr_id [])" by simp_all
  note i1 = append_recipients_inv [OF e, of "target_user_rows d a dev p", folded r1_def]
  have p1: "\<forall>x \<in> set r1. usr_is_active x \<and> has_alert_scope d x a dev" "distinct (map usr_id r1)" "set r1 \<subseteq> set (users d)"
    using i1 src(1) by auto
  note i2 = append_recipients_inv [OF p1(1,2), of "target_role_rows d a dev p", folded r2_def]
  have p2: "\<forall>x \<in> set r2. usr_is_active x \<and> has_alert_scope d x a dev" "distinct (map usr_id r2)" "set r2 \<subseteq> set (users d)"
    using i2 p1(3) src(2) by blast+
  note i3 = append_recipients_inv [OF e, of supers]
  have p3: "\<forall>x \<in> set (append_recipients d a dev supers []). usr_is_active x \<and> has_alert_scope d x a dev \<and> x \<in> set (users d)"
    "distinct (map usr_id (append_recipients d a dev supers []))"
    using i3 src(3) by auto
  have super: "append_recipients d a dev supers [] \<noteq> []" if "\<exists>u \<in> set (users d). usr_is_active u \<and> usr_is_superuser u"
  proof -
    from that obtain u where u: "u \<in> set supers" "usr_is_active u" "usr_is_superuser u"
      by (auto simp: supers_def by_username_def)
    then have "has_alert_scope d u a dev" by (simp add: has_alert_scope_def)
    with i3 u have "usr_id u \<in> usr_id ` set (append_recipients d a dev supers [])" by blast
    then show ?thesis by auto
  qed
  show ?thesis
  proof (cases "r2 = []")
    case True
    with get p3 super show ?thesis by auto
  next
    case False
    with get p2 show ?thesis by auto
  qed
qed

theorem escalation_recipients_sound_witness:
  "get_escalation_recipients told_db told_alert (devices told_db ! 0) undefined \<noteq> []"
proof -
  have "\<exists>u \<in> set (users told_db). usr_is_active u \<and> usr_is_superuser u" by (simp add: told_defs)
  with escalation_recipients_sound [of told_db told_alert "devices told_db ! 0" undefined] show ?thesis by blast
qed

subsection \<open>Recipients and access scope disagree\<close>

definition split_roles_db :: db where
  "split_roles_db = told_db
    \<lparr>users := [blank_user\<lparr>usr_id := 7, usr_username := ''moved''\<rparr>, blank_user\<lparr>usr_id := 8, usr_username := ''global''\<rparr>],
     roles := [\<lparr>ro_id = 5, ro_name = ''Viewer'', ro_code = ''VIEWER'', ro_scope = SCOPE_ORGANIZATION\<rparr>,
               \<lparr>ro_id = 6, ro_name = ''All'', ro_code = ''ALL'', ro_scope = SCOPE_GLOBAL\<rparr>],
     permissions := [\<lparr>pm_id = 1, pm_module = ''alert'', pm_code = ''alert.view''\<rparr>],
     role_permissions := [\<lparr>rp_id = 1, rp_role = 5, rp_permission = 1\<rparr>, \<lparr>rp_id = 2, rp_role = 6, rp_permission = 1\<rparr>],
     accesses := [blank_access\<lparr>ra_id := 1, ra_user := 7, ra_organization := Some 1, ra_role := 5, ra_is_active := False\<rparr>,
                  blank_access\<lparr>ra_id := 2, ra_user := 7, ra_organization := Some 2, ra_role := 5\<rparr>,
                  blank_access\<lparr>ra_id := 3, ra_user := 8, ra_role := 6\<rparr>]\<rparr>"

text \<open>
  The recipients' query and the access scope disagree both ways: a user whose access row for
  the alert's organization was deactivated is still told of its alerts as long as an active row
  for another organization holds the permission, and a user with an active global role that
  holds the permission is never told.
\<close>

theorem recipients_disagree_with_scope:
  "\<exists>d a dev u v. device_of d (ae_device a) = Some dev
    \<and> u \<in> set (get_alert_recipients d a dev) \<and> \<not> has_alert_scope d u a dev
    \<and> v \<in> set (users d) \<and> usr_is_active v \<and> has_alert_scope d v a dev \<and> user_has_permission d (Some v) ''alert.view''
    \<and> v \<notin> set (get_alert_recipients d a dev)"
proof -
  let ?d = split_roles_db
  let ?dev = "devices ?d ! 0" and ?u = "users ?d ! 0" and ?v = "users ?d ! 1"
  note defs = split_roles_db_def told_defs
  have dev: "device_of ?d (ae_device told_alert) = Some ?dev" by (simp add: device_of_def tbl_get_def defs)
  have rec: "set (get_alert_recipients ?d told_alert ?dev) = {?u}"
    by (auto simp: get_alert_recipients_def by_username_def recipient_queryset_def alert_scope_condition_def row_names_alert_def
        row_permits_alerts_def role_code_list_def ALERT_PERMISSION_CODES_def defs)
  have scope_u: "get_access_scope ?d (Some ?u) = add_organization blank_scope 2"
    by (simp add: get_access_scope_def get_user_resource_access_rows_def expand_row_scope_def row_is_global_def role_of_def
        tbl_get_def expand_organization_def add_devices_def add_organization_def defs)
  have u: "\<not> has_alert_scope ?d ?u told_alert ?dev"
    unfolding has_alert_scope_def scope_u by (simp add: defs add_organization_def blank_scope_def)
  have v: "has_alert_scope ?d ?v told_alert ?dev" "usr_is_active ?v" "?v \<in> set (users ?d)" "?v \<noteq> ?u"
    by (simp_all add: has_alert_scope_def get_access_scope_def get_user_resource_access_rows_def expand_row_scope_def
        row_is_global_def role_of_def tbl_get_def defs)
  have pv: "user_has_permission ?d (Some ?v) ''alert.view''"
    by (simp add: user_has_permission_def get_effective_permission_codes_def get_user_resource_access_rows_def role_code_list_def defs)
  have "?u \<in> set (get_alert_recipients ?d told_alert ?dev)" "?v \<notin> set (get_alert_recipients ?d told_alert ?dev)"
    unfolding rec using v(4) by auto
  with dev u v pv show ?thesis by blast
qed

end
