(* ===== verification/Alert_Invariants.thy ===== *)
theory Alert_Invariants
  imports Alert_Evaluate Alert_Notify_Props
begin

text \<open>
  The invariants of the alert engine: what every evaluation leaves of the alerts that exist, the
  log it keeps of their status, and that no rule has two active alerts for one device. The
  notification service enters through its contract, the locale \<open>notifier\<close>.
\<close>

subsection \<open>The contract of the notification service\<close>

locale notifier =
  fixes notify :: "alert_event \<Rightarrow> db \<Rightarrow> (exn + notification list) \<times> db"
  assumes writes_only_notifications: "only_notifications d (snd (notify a d))"
begin

lemma after_notify:
  "alert_events (snd (notify a d)) = alert_events d"
  "alert_logs (snd (notify a d)) = alert_logs d"
  "alert_rules (snd (notify a d)) = alert_rules d"
  "condition_states (snd (notify a d)) = condition_states d"
  "suppression_windows (snd (notify a d)) = suppression_windows d"
  "devices (snd (notify a d)) = devices d"
  "metrics (snd (notify a d)) = metrics d"
  "alert_comments (snd (notify a d)) = alert_comments d"
  by (rule only_notifications_sel [OF writes_only_notifications])+

end

interpretation opened: notifier "create_notifications_for_alert_opened e raced"
  by unfold_locales (metis create_notifications_for_alert_opened_def only_create_for surjective_pairing)

interpretation resolved: notifier "create_notifications_for_alert_resolved e raced"
  by unfold_locales (metis create_notifications_for_alert_resolved_def only_create_for surjective_pairing)

interpretation escalated: notifier "\<lambda>a. create_notifications_for_alert_escalated e raced a p"
  by unfold_locales (metis only_escalated surjective_pairing)

lemmas after_notify [frame_simps] = opened.after_notify resolved.after_notify escalated.after_notify

subsection \<open>The tables after the engine's writes\<close>

lemma log_frame [frame_simps]:
  "alert_events (create_alert_log a act os ns actor m snap md d) = alert_events d"
  "alert_rules (create_alert_log a act os ns actor m snap md d) = alert_rules d"
  "condition_states (create_alert_log a act os ns actor m snap md d) = condition_states d"
  "suppression_windows (create_alert_log a act os ns actor m snap md d) = suppression_windows d"
  by (simp_all add: create_alert_log_def)

lemma save_alert_frame [frame_simps]:
  "alert_logs (save_alert k f d) = alert_logs d"
  "alert_rules (save_alert k f d) = alert_rules d"
  "condition_states (save_alert k f d) = condition_states d"
  "suppression_windows (save_alert k f d) = suppression_windows d"
  by (simp_all add: save_alert_def)

lemma insert_alert_frame [frame_simps]:
  "alert_logs (insert_alert a d) = alert_logs d"
  "condition_states (insert_alert a d) = condition_states d"
  "alert_rules (insert_alert a d) = alert_rules d"
  by (simp_all add: insert_alert_def)

lemma alert_of_same: "alert_events d' = alert_events d \<Longrightarrow> alert_of d' k = alert_of d k"
  by (simp add: alert_of_def)

lemma alert_of_save:
  assumes "\<And>r. ae_id (f r) = ae_id r"
  shows "alert_of (save_alert k f d) j = (if j = k then map_option f (alert_of d k) else alert_of d j)"
  unfolding alert_of_def save_alert_def by (simp add: alert_tbl.get_upd [OF assms])

lemma alert_of_insert:
  "ae_id a \<notin> ae_id ` set (alert_events d) \<Longrightarrow>
    alert_of (insert_alert a d) j = (if j = ae_id a then Some a else alert_of d j)"
  unfolding alert_of_def insert_alert_def by (simp add: tbl_get_insert_fresh)

lemma alert_of_in:
  "keys_unique ae_id (alert_events d) \<Longrightarrow> a \<in> set (alert_events d) \<Longrightarrow> alert_of d (ae_id a) = Some a"
  unfolding alert_of_def keys_unique_def by (rule alert_tbl.get_in)

lemma alert_of_key: "alert_of d k = Some a \<Longrightarrow> ae_id a = k \<and> a \<in> set (alert_events d)"
  unfolding alert_of_def by (rule alert_tbl.get_key)

subsection \<open>How alerts evolve\<close>

definition same_subject :: "alert_event \<Rightarrow> alert_event \<Rightarrow> bool" where
  "same_subject a b =
     (ae_id b = ae_id a \<and> ae_created_at b = ae_created_at a \<and> ae_organization b = ae_organization a
      \<and> ae_data_center b = ae_data_center a \<and> ae_device b = ae_device a \<and> ae_metric b = ae_metric a
      \<and> ae_alert_rule b = ae_alert_rule a \<and> ae_triggered_at b = ae_triggered_at a)"

definition logged_change :: "alert_log list \<Rightarrow> alert_event \<Rightarrow> alert_event \<Rightarrow> bool" where
  "logged_change ls a b = (\<exists>x \<in> set ls. al_alert_event x = ae_id a \<and> al_old_status x = Some (ae_status a)
     \<and> al_new_status x = Some (ae_status b))"

definition alert_evolves :: "alert_log list \<Rightarrow> alert_event \<Rightarrow> alert_event \<Rightarrow> bool" where
  "alert_evolves ls a b =
     (same_subject a b \<and> (ae_status a \<notin> ACTIVE_ALERT_STATUSES \<longrightarrow> b = a)
      \<and> (ae_status b \<noteq> ae_status a \<longrightarrow> ae_status b \<in> {RESOLVED, SUPPRESSED} \<and> logged_change ls a b))"

text \<open>
  From one database to a later one: the log has grown, keys stay unique, and every alert is still
  there, evolved as the new part of the log says.
\<close>

definition evolves :: "db \<Rightarrow> db \<Rightarrow> bool" where
  "evolves d d' = (\<exists>ls. alert_logs d' = alert_logs d @ ls
     \<and> (keys_unique ae_id (alert_events d) \<longrightarrow> keys_unique ae_id (alert_events d'))
     \<and> (\<forall>k a. alert_of d k = Some a \<longrightarrow> (\<exists>b. alert_of d' k = Some b \<and> alert_evolves ls a b)))"

lemma same_subject_refl [simp]: "same_subject a a"
  by (simp add: same_subject_def)

lemma alert_evolves_refl [simp]: "alert_evolves ls a a"
  by (simp add: alert_evolves_def)

lemma alert_evolves_trans:
  assumes "alert_evolves ls a b" and "alert_evolves ms b c"
  shows "alert_evolves (ls @ ms) a c"
proof (cases "ae_status a \<in> ACTIVE_ALERT_STATUSES")
  case False
  with assms have "b = a" "c = a" by (auto simp: alert_evolves_def)
  then show ?thesis by simp
next
  case True
  show ?thesis
  proof (cases "ae_status b = ae_status a")
    case True
    with assms \<open>ae_status a \<in> ACTIVE_ALERT_STATUSES\<close> show ?thesis
      by (auto simp: alert_evolves_def same_subject_def logged_change_def)
  next
    case False
    with assms(1) have "ae_status b \<in> {RESOLVED, SUPPRESSED}" by (auto simp: alert_evolves_def)
    then have "ae_status b \<notin> ACTIVE_ALERT_STATUSES" by (auto simp: ACTIVE_ALERT_STATUSES_def)
    with assms(2) have "c = b" by (auto simp: alert_evolves_def)
    with assms(1) True show ?thesis by (auto simp: alert_evolves_def logged_change_def)
  qed
qed

lemma evolves_trans [trans]:
  assumes "evolves d d1" and "evolves d1 d2"
  shows "evolves d d2"
proof -
  from assms(1) obtain ls where 1: "alert_logs d1 = alert_logs d @ ls"
    "keys_unique ae_id (alert_events d) \<longrightarrow> keys_unique ae_id (alert_events d1)"
    "\<forall>k a. alert_of d k = Some a \<longrightarrow> (\<exists>b. alert_of d1 k = Some b \<and> alert_evolves ls a b)"
    unfolding evolves_def by blast
  from assms(2) obtain ms where 2: "alert_logs d2 = alert_logs d1 @ ms"
    "keys_unique ae_id (alert_events d1) \<longrightarrow> keys_unique ae_id (alert_events d2)"
    "\<forall>k a. alert_of d1 k = Some a \<longrightarrow> (\<exists>b. alert_of d2 k = Some b \<and> alert_evolves ms a b)"
    unfolding evolves_def by blast
  have "\<exists>c. alert_of d2 k = Some c \<and> alert_evolves (ls @ ms) a c" if "alert_of d k = Some a" for k a
    using that 1(3) 2(3) alert_evolves_trans by blast
  with 1 2 show ?thesis unfolding evolves_def by (intro exI [of _ "ls @ ms"]) simp
qed

lemma evolves_same:
  assumes "alert_events d' = alert_events d" and "alert_logs d' = alert_logs d @ ls"
  shows "evolves d d'"
  unfolding evolves_def using assms by (intro exI [of _ ls]) (simp add: alert_of_def)

lemma evolves_refl [simp]: "evolves d d"
  by (rule evolves_same [where ls = "[]"]) simp_all

lemma evolves_insert:
  assumes "ae_id a \<notin> ae_id ` set (alert_events d)" and "alert_events d' = alert_events (insert_alert a d)"
    and "alert_logs d' = alert_logs d @ ls"
  shows "evolves d d'"
proof -
  have "alert_of d' k = Some b" if "alert_of d k = Some b" for k b
  proof -
    from alert_of_key [OF that] assms(1) have "k \<noteq> ae_id a" by (metis imageI)
    with that alert_of_insert [OF assms(1)] assms(2) show ?thesis by (simp add: alert_of_def)
  qed
  moreover have "keys_unique ae_id (alert_events d) \<longrightarrow> keys_unique ae_id (alert_events d')"
    using assms(1,2) by (simp add: insert_alert_def keys_unique_insert)
  ultimately show ?thesis unfolding evolves_def using assms(3) by (intro exI [of _ ls]) auto
qed

text \<open>One row changes, in a way its log entry records.\<close>

lemma evolves_save:
  assumes f: "\<And>r. ae_id (f r) = ae_id r" and "alert_events d' = alert_events (save_alert k f d)"
    and "alert_logs d' = alert_logs d @ ls" and "\<And>a. alert_of d k = Some a \<Longrightarrow> alert_evolves ls a (f a)"
  shows "evolves d d'"
proof -
  have "\<exists>b. alert_of d' j = Some b \<and> alert_evolves ls a b" if "alert_of d j = Some a" for j a
    using that assms(2,4) alert_of_save [OF f, of k d j] by (auto simp: alert_of_def)
  moreover have "keys_unique ae_id (alert_events d) \<longrightarrow> keys_unique ae_id (alert_events d')"
    using assms(2) keys_unique_update [of ae_id f, OF f] by (simp add: save_alert_def)
  ultimately show ?thesis unfolding evolves_def using assms(3) by (intro exI [of _ ls]) auto
qed

subsection \<open>One active alert per rule and device\<close>

definition same_condition :: "alert_event \<Rightarrow> alert_event \<Rightarrow> bool" where
  "same_condition a b =
     (ae_organization a = ae_organization b \<and> ae_data_center a = ae_data_center b \<and> ae_device a = ae_device b
      \<and> ae_metric a = ae_metric b \<and> ae_alert_rule a = ae_alert_rule b)"

definition single_active :: "db \<Rightarrow> bool" where
  "single_active d =
     (\<forall>k j a b. alert_of d k = Some a \<and> alert_of d j = Some b \<and> ae_alert_rule a \<noteq> None
        \<and> ae_status a \<in> ACTIVE_ALERT_STATUSES \<and> ae_status b \<in> ACTIVE_ALERT_STATUSES \<and> same_condition a b \<longrightarrow> k = j)"

lemma single_activeI:
  assumes "\<And>k j a b. alert_of d k = Some a \<Longrightarrow> alert_of d j = Some b \<Longrightarrow> ae_alert_rule a \<noteq> None \<Longrightarrow>
     ae_status a \<in> ACTIVE_ALERT_STATUSES \<Longrightarrow> ae_status b \<in> ACTIVE_ALERT_STATUSES \<Longrightarrow> same_condition a b \<Longrightarrow> k = j"
  shows "single_active d"
  unfolding single_active_def using assms by blast

lemma single_activeD:
  "single_active d \<Longrightarrow> alert_of d k = Some a \<Longrightarrow> alert_of d j = Some b \<Longrightarrow> ae_alert_rule a \<noteq> None \<Longrightarrow>
     ae_status a \<in> ACTIVE_ALERT_STATUSES \<Longrightarrow> ae_status b \<in> ACTIVE_ALERT_STATUSES \<Longrightarrow> same_condition a b \<Longrightarrow> k = j"
  unfolding single_active_def by blast

lemma single_same: "alert_events d' = alert_events d \<Longrightarrow> single_active d' = single_active d"
  by (simp add: single_active_def alert_of_def)

lemma single_insert:
  assumes "single_active d" and fresh: "ae_id a \<notin> ae_id ` set (alert_events d)"
    and d': "alert_events d' = alert_events (insert_alert a d)"
    and ok: "ae_status a \<notin> ACTIVE_ALERT_STATUSES \<or> ae_alert_rule a = None
      \<or> (\<forall>b \<in> set (alert_events d). ae_status b \<in> ACTIVE_ALERT_STATUSES \<longrightarrow> \<not> same_condition a b)"
  shows "single_active d'"
proof (rule single_activeI)
  fix k j x y
  assume x: "alert_of d' k = Some x" and y: "alert_of d' j = Some y" and r: "ae_alert_rule x \<noteq> None"
    and sx: "ae_status x \<in> ACTIVE_ALERT_STATUSES" and sy: "ae_status y \<in> ACTIVE_ALERT_STATUSES" and s: "same_condition x y"
  have get: "alert_of d' i = (if i = ae_id a then Some a else alert_of d i)" for i
    using alert_of_insert [OF fresh] d' by (simp add: alert_of_def)
  have no: "\<not> (alert_of d i = Some z \<and> ae_status z \<in> ACTIVE_ALERT_STATUSES \<and> same_condition a z)"
    if "ae_status a \<in> ACTIVE_ALERT_STATUSES" "ae_alert_rule a \<noteq> None" for i z
    using ok that alert_of_key by blast
  have sym: "same_condition y x" using s by (auto simp: same_condition_def)
  have ry: "ae_alert_rule y \<noteq> None" using r s by (simp add: same_condition_def)
  show "k = j"
  proof (cases "k = ae_id a"; cases "j = ae_id a")
    assume "k = ae_id a" "j \<noteq> ae_id a"
    with x y get no [of j y] sx sy r s show ?thesis by auto
  next
    assume "k \<noteq> ae_id a" "j = ae_id a"
    with x y get no [of k x] sx sy ry sym show ?thesis by auto
  next
    assume "k \<noteq> ae_id a" "j \<noteq> ae_id a"
    with x y get have "alert_of d k = Some x" "alert_of d j = Some y" by auto
    from single_activeD [OF assms(1) this r sx sy s] show ?thesis .
  qed simp
qed

lemma single_evolves_save:
  assumes "single_active d" and f: "\<And>r. ae_id (f r) = ae_id r" and d': "alert_events d' = alert_events (save_alert k f d)"
    and ev: "\<And>a. alert_of d k = Some a \<Longrightarrow> alert_evolves ls a (f a)"
  shows "single_active d'"
proof (rule single_activeI)
  fix i j x y
  assume x: "alert_of d' i = Some x" and y: "alert_of d' j = Some y" and r: "ae_alert_rule x \<noteq> None"
    and sx: "ae_status x \<in> ACTIVE_ALERT_STATUSES" and sy: "ae_status y \<in> ACTIVE_ALERT_STATUSES" and s: "same_condition x y"
  have origin: "\<exists>z. alert_of d n = Some z \<and> same_condition z w \<and> ae_alert_rule z = ae_alert_rule w \<and> ae_status z \<in> ACTIVE_ALERT_STATUSES"
    if "alert_of d' n = Some w" "ae_status w \<in> ACTIVE_ALERT_STATUSES" for n w
  proof (cases "n = k")
    case True
    with that(1) d' alert_of_save [OF f, of k d n] have "map_option f (alert_of d k) = Some w" by (simp add: alert_of_def)
    then obtain z where z: "alert_of d k = Some z" "w = f z" by (auto simp: map_option_eq_Some)
    from ev [OF z(1)] z(2) that(2) have "same_subject z w" "ae_status z \<in> ACTIVE_ALERT_STATUSES"
      by (auto simp: alert_evolves_def)
    with z True show ?thesis by (auto simp: same_subject_def same_condition_def)
  next
    case False
    with that(1) d' alert_of_save [OF f, of k d n] have "alert_of d n = Some w" by (simp add: alert_of_def)
    with that(2) show ?thesis by (auto simp: same_condition_def)
  qed
  from origin [OF x sx] origin [OF y sy] obtain z w where z: "alert_of d i = Some z" "same_condition z x" "ae_alert_rule z = ae_alert_rule x"
    "ae_status z \<in> ACTIVE_ALERT_STATUSES" and w: "alert_of d j = Some w" "same_condition w y" "ae_status w \<in> ACTIVE_ALERT_STATUSES" by blast
  have "same_condition z w" using z(2) w(2) s by (simp add: same_condition_def)
  with single_activeD [OF assms(1) z(1) w(1)] z r w show "i = j" by simp
qed

subsection \<open>The engine's operations\<close>

definition engine_step :: "db \<Rightarrow> db \<Rightarrow> bool" where
  "engine_step d d' = (evolves d d' \<and> (single_active d \<longrightarrow> single_active d'))"

lemma engine_step_refl [simp]: "engine_step d d"
  by (simp add: engine_step_def)

lemma engine_step_trans [trans]: "engine_step d d1 \<Longrightarrow> engine_step d1 d2 \<Longrightarrow> engine_step d d2"
  unfolding engine_step_def using evolves_trans by blast

lemma engine_step_same:
  "alert_events d' = alert_events d \<Longrightarrow> alert_logs d' = alert_logs d @ ls \<Longrightarrow> engine_step d d'"
  unfolding engine_step_def using evolves_same [of d' d ls] single_same [of d' d] by blast

lemma engine_step_save:
  assumes "\<And>r. ae_id (f r) = ae_id r" and "alert_events d' = alert_events (save_alert k f d)"
    and "alert_logs d' = alert_logs d @ ls" and "\<And>a. alert_of d k = Some a \<Longrightarrow> alert_evolves ls a (f a)"
  shows "engine_step d d'"
  unfolding engine_step_def using evolves_save [OF assms] single_evolves_save [OF _ assms(1,2,4)] by blast

lemma engine_step_insert:
  assumes "ae_id a \<notin> ae_id ` set (alert_events d)" and "alert_events d' = alert_events (insert_alert a d)"
    and "alert_logs d' = alert_logs d @ ls"
    and "ae_status a \<notin> ACTIVE_ALERT_STATUSES \<or> ae_alert_rule a = None
      \<or> (\<forall>b \<in> set (alert_events d). ae_status b \<in> ACTIVE_ALERT_STATUSES \<longrightarrow> \<not> same_condition a b)"
  shows "engine_step d d'"
  unfolding engine_step_def using evolves_insert [OF assms(1-3)] single_insert [OF _ assms(1,2,4)] by blast

lemma resolve_step:
  assumes "resolve_alert e raced d a latest rtype actor comment = (res, d')"
    and "alert_of d (ae_id a) = Some a" and "ae_status a \<in> ACTIVE_ALERT_STATUSES" and "res = Inr a'"
  shows "engine_step d d'"
proof -
  define md where "md = [(''resolution_type'', PStr (resolution_value rtype))]"
  from assms(1,4) obtain snap where d': "alert_events d' = alert_events (save_alert (ae_id a) (\<lambda>row. row\<lparr>ae_status := RESOLVED,
        ae_resolved_at := Some (now e), ae_resolved_by := actor, ae_resolution_type := Some rtype,
        ae_resolve_comment := or_else comment (ae_resolve_comment a), ae_last_seen_at := Some (now e)\<rparr>) d)"
    and logs: "alert_logs d' = alert_logs d @ [\<lparr>al_alert_event = ae_id a, al_action = LOG_RESOLVED, al_old_status = Some (ae_status a),
        al_new_status = Some RESOLVED, al_actor = actor, al_message = Some (str_or comment ''Alert resolved''),
        al_value_snapshot = snap, al_metadata = md\<rparr>]"
    by (auto simp: resolve_alert_def Let_def frame_simps resolved_alert_def create_alert_log_def md_def split: sum.splits)
  show ?thesis
    by (rule engine_step_save [OF _ d' logs])
      (use assms(2,3) in \<open>auto simp: alert_evolves_def same_subject_def logged_change_def ACTIVE_ALERT_STATUSES_def\<close>)
qed

lemma resolve_error_only_save:
  "resolve_alert e raced d a latest rtype actor comment = (Inl x, d') \<Longrightarrow> ae_alert_rule a \<noteq> None \<and> x = DoesNotExist"
  by (auto simp: resolve_alert_def Let_def split: sum.splits option.splits)

lemma suppress_step:
  assumes "suppress_alert e d a actor reason = (a', d')"
    and "alert_of d (ae_id a) = Some a" and "ae_status a \<in> ACTIVE_ALERT_STATUSES"
  shows "engine_step d d'"
proof -
  from assms(1) have d': "alert_events d' = alert_events (save_alert (ae_id a) (\<lambda>row. row\<lparr>ae_status := SUPPRESSED,
        ae_resolved_at := Some (now e), ae_resolved_by := actor, ae_resolution_type := Some RES_SUPPRESSED,
        ae_resolve_comment := or_else reason (ae_resolve_comment a)\<rparr>) d)"
    and logs: "alert_logs d' = alert_logs d @ [\<lparr>al_alert_event = ae_id a, al_action = LOG_SUPPRESSED, al_old_status = Some (ae_status a),
        al_new_status = Some SUPPRESSED, al_actor = actor, al_message = Some (str_or reason ''Alert suppressed''),
        al_value_snapshot = [], al_metadata = []\<rparr>]"
    by (auto simp: suppress_alert_def Let_def frame_simps create_alert_log_def)
  show ?thesis
    by (rule engine_step_save [OF _ d' logs])
      (use assms(2,3) in \<open>auto simp: alert_evolves_def same_subject_def logged_change_def ACTIVE_ALERT_STATUSES_def\<close>)
qed

lemma update_step:
  assumes "update_active_alert e d a l dev me val threshold = (res, d')"
    and "alert_of d (ae_id a) = Some a" and "ae_status a \<in> ACTIVE_ALERT_STATUSES"
  shows "engine_step d d'"
proof (cases "Option.bind (ae_alert_rule a) (rule_of d)")
  case None
  with assms(1) show ?thesis by (simp add: update_active_alert_def)
next
  case (Some r)
  define b where "b = updated_alert e r a l dev me val threshold"
  from Some assms(1) have d': "alert_events d' = alert_events (save_alert (ae_id a) (\<lambda>row. row\<lparr>ae_last_seen_at := ae_last_seen_at b,
       ae_message := ae_message b, ae_values := ae_values b, ae_occurrence_count := ae_occurrence_count b, ae_metadata := ae_metadata b\<rparr>) d)"
    by (auto simp: update_active_alert_def Let_def frame_simps b_def)
  from Some assms(1) obtain x where logs: "alert_logs d' = alert_logs d @ [x]"
    by (auto simp: update_active_alert_def Let_def create_alert_log_def frame_simps)
  show ?thesis
    by (rule engine_step_save [OF _ d' logs])
      (use assms(2,3) in \<open>auto simp: alert_evolves_def same_subject_def\<close>)
qed

lemma opened_alert_sel [simp]:
  "ae_id (opened_alert e d r l dev me val threshold) = fresh_key ae_id (alert_events d)"
  "ae_status (opened_alert e d r l dev me val threshold) = OPEN"
  "ae_organization (opened_alert e d r l dev me val threshold) = lt_organization l"
  "ae_data_center (opened_alert e d r l dev me val threshold) = lt_data_center l"
  "ae_device (opened_alert e d r l dev me val threshold) = lt_device l"
  "ae_metric (opened_alert e d r l dev me val threshold) = Some (lt_metric l)"
  "ae_alert_rule (opened_alert e d r l dev me val threshold) = Some (ar_id r)"
  "ae_values (opened_alert e d r l dev me val threshold) = lt_values l"
  "ae_severity (opened_alert e d r l dev me val threshold) = ar_severity r"
  by (simp_all add: opened_alert_def)

lemma fresh_alert [simp]: "fresh_key ae_id (alert_events d) \<notin> ae_id ` set (alert_events d)"
  by (rule fresh_key_notin)

lemma active_alert_None:
  assumes "active_alert_for_rule d l r = None"
  shows "\<forall>b \<in> set (alert_events d). ae_status b \<in> ACTIVE_ALERT_STATUSES \<longrightarrow>
    \<not> same_condition (opened_alert e d' r l dev me val threshold) b"
proof -
  have "filter (alert_scope_q l r) (alert_events d) = []"
    using assms unfolding active_alert_for_rule_def newest_first_def by (simp only: first_order_by_None)
  then show ?thesis by (auto simp: filter_empty_conv alert_scope_q_def same_condition_def)
qed

lemma active_alert_Some:
  assumes "active_alert_for_rule d l r = Some a" and "keys_unique ae_id (alert_events d)"
  shows "alert_scope_q l r a \<and> ae_status a \<in> ACTIVE_ALERT_STATUSES \<and> ae_alert_rule a = Some (ar_id r)
    \<and> alert_of d (ae_id a) = Some a"
proof -
  from assms(1) have "a \<in> set (alert_events d)" "alert_scope_q l r a"
    unfolding active_alert_for_rule_def newest_first_def by (auto dest: first_row_Some_in)
  with alert_of_in [OF assms(2)] show ?thesis by (auto simp: alert_scope_q_def)
qed

lemma open_step:
  assumes "open_alert e raced d r l dev me val threshold = (a, d')"
    and "\<forall>b \<in> set (alert_events d). ae_status b \<in> ACTIVE_ALERT_STATUSES \<longrightarrow>
      \<not> same_condition (opened_alert e d r l dev me val threshold) b"
  shows "engine_step d d'"
proof -
  have d': "alert_events d' = alert_events (insert_alert (opened_alert e d r l dev me val threshold) d)"
    using assms(1) by (auto simp: open_alert_def Let_def frame_simps)
  obtain x where logs: "alert_logs d' = alert_logs d @ [x]"
    using assms(1) by (auto simp: open_alert_def Let_def frame_simps create_alert_log_def)
  show ?thesis by (rule engine_step_insert [OF _ d' logs]) (use assms(2) in simp_all)
qed

lemma upsert_frame:
  "upsert_condition_state e d l r = (s, d') \<Longrightarrow> alert_events d' = alert_events d \<and> alert_logs d' = alert_logs d
    \<and> alert_rules d' = alert_rules d \<and> suppression_windows d' = suppression_windows d"
  by (auto simp: upsert_condition_state_def Let_def split: option.splits)

lemma duration_frame:
  "maybe_create_duration_alert e d l r = (b, d') \<Longrightarrow> alert_events d' = alert_events d \<and> alert_logs d' = alert_logs d
    \<and> alert_rules d' = alert_rules d \<and> suppression_windows d' = suppression_windows d"
  by (auto simp: maybe_create_duration_alert_def Let_def split: prod.splits dest: upsert_frame)

end
