(* ===== verification/Alert_Engine_Props.thy ===== *)
theory Alert_Engine_Props
  imports Alert_Invariants
begin

text \<open>
  What the alert engine guarantees of an evaluation, and where it departs from what its comments
  promise: the invariants of every row and every list of rows, the decision on a true and on a
  false condition, durations, suppression, trap alerts, and acknowledging and resolving by hand.
\<close>

subsection \<open>The decisions are engine steps\<close>

lemma ensure_step:
  assumes "ensure_alert_for_true_condition e raced l dev me r val threshold d = (Inr res, d')"
    and "keys_unique ae_id (alert_events d)"
  shows "engine_step d d'"
proof (cases "active_alert_for_rule d l r")
  case None
  show ?thesis
  proof (cases "has_suppression e d l")
    case True
    define a where "a = suppressed_alert e d r l dev me val threshold"
    from True None assms(1) have d': "d' = create_alert_log a LOG_SUPPRESSED None (Some SUPPRESSED) None
        ''Suppressed by maintenance window'' [] [] (insert_alert a d)"
      by (simp add: ensure_alert_for_true_condition_def Let_def a_def)
    have logs: "alert_logs d' = alert_logs d @ [\<lparr>al_alert_event = ae_id a, al_action = LOG_SUPPRESSED, al_old_status = None,
        al_new_status = Some SUPPRESSED, al_actor = None, al_message = Some ''Suppressed by maintenance window'',
        al_value_snapshot = [], al_metadata = []\<rparr>]"
      by (simp add: d' create_alert_log_def insert_alert_def)
    show ?thesis
      by (rule engine_step_insert [where a = a, OF _ _ logs])
        (simp_all add: d' frame_simps a_def suppressed_alert_def ACTIVE_ALERT_STATUSES_def)
  next
    case False
    obtain due d1 where due: "maybe_create_duration_alert e d l r = (due, d1)" by (metis surj_pair)
    note f = duration_frame [OF due]
    have one: "engine_step d d1" by (rule engine_step_same [where ls = "[]"]) (use f in simp_all)
    show ?thesis
    proof (cases due)
      case True
      with None False due assms(1) obtain a where o: "open_alert e raced d1 r l dev me val threshold = (a, d')"
        by (auto simp: ensure_alert_for_true_condition_def Let_def split: prod.splits)
      have "engine_step d1 d'"
        by (rule open_step [OF o]) (use active_alert_None [OF None] f in simp)
      with one show ?thesis by (rule engine_step_trans)
    next
      case nd: False
      with None False due assms(1) one show ?thesis by (auto simp: ensure_alert_for_true_condition_def Let_def)
    qed
  qed
next
  case (Some a)
  from active_alert_Some [OF Some assms(2)] have a: "ae_status a \<in> ACTIVE_ALERT_STATUSES" "alert_of d (ae_id a) = Some a" by auto
  then have ns: "ae_status a \<noteq> SUPPRESSED" by (auto simp: ACTIVE_ALERT_STATUSES_def)
  show ?thesis
  proof (cases "has_suppression e d l")
    case True
    with Some assms(1) ns obtain a' where "suppress_alert e d a None (Some ''Suppression window active'') = (a', d')"
      by (auto simp: ensure_alert_for_true_condition_def Let_def split: prod.splits)
    with a show ?thesis by (intro suppress_step)
  next
    case False
    with Some assms(1) a obtain res' where "update_active_alert e d a l dev me val threshold = (res', d')"
      by (auto simp: ensure_alert_for_true_condition_def Let_def split: prod.splits sum.splits)
    with a show ?thesis by (intro update_step)
  qed
qed

lemma resolve_if_needed_step:
  assumes "resolve_if_needed e raced l me r d = (Inr res, d')" and "keys_unique ae_id (alert_events d)"
  shows "engine_step d d'"
proof (cases "active_alert_for_rule d l r")
  case None
  with assms(1) have "d' = clear_condition_state d l r" by (simp add: resolve_if_needed_def)
  then show ?thesis by (intro engine_step_same [where ls = "[]"]) (simp_all add: clear_condition_state_def)
next
  case (Some a)
  from active_alert_Some [OF Some assms(2)] have a: "ae_status a \<in> ACTIVE_ALERT_STATUSES" "alert_of d (ae_id a) = Some a" by auto
  then have ns: "ae_status a \<noteq> SUPPRESSED" by (auto simp: ACTIVE_ALERT_STATUSES_def)
  from Some assms(1) a ns obtain a' where "resolve_alert e raced d a (Some (l, me)) RES_AUTO None None = (Inr a', d')"
    by (auto simp: resolve_if_needed_def split: prod.splits sum.splits)
  from resolve_step [OF this a(2,1)] show ?thesis by blast
qed

lemma ups_step:
  assumes "resolve_ups_trap_alert_if_needed e raced l me d = (Inr res, d')" and "keys_unique ae_id (alert_events d)"
  shows "engine_step d d'"
proof (cases "first_row (newest_first (filter (ups_trap_q l) (alert_events d)))")
  case None
  with assms(1) show ?thesis by (auto simp: resolve_ups_trap_alert_if_needed_def split: if_splits)
next
  case (Some a)
  then have "a \<in> set (alert_events d)" "ups_trap_q l a"
    unfolding newest_first_def by (auto dest: first_row_Some_in)
  with alert_of_in [OF assms(2)] have a: "ae_status a \<in> ACTIVE_ALERT_STATUSES" "alert_of d (ae_id a) = Some a"
    by (auto simp: ups_trap_q_def)
  show ?thesis
  proof (cases "is_ups_abnormal_condition_cleared e l me")
    case True
    with Some assms(1) obtain a' where "resolve_alert e raced d a (Some (l, me)) RES_AUTO None None = (Inr a', d')"
      by (auto simp: resolve_ups_trap_alert_if_needed_def split: prod.splits sum.splits)
    from resolve_step [OF this a(2,1)] show ?thesis by blast
  next
    case False
    with assms(1) show ?thesis by (simp add: resolve_ups_trap_alert_if_needed_def)
  qed
qed

lemma evolves_keys: "evolves d d' \<Longrightarrow> keys_unique ae_id (alert_events d) \<Longrightarrow> keys_unique ae_id (alert_events d')"
  by (auto simp: evolves_def)

lemma rule_once_step:
  assumes "evaluate_rule_once e raced l dev me r d = (res, d')" and "keys_unique ae_id (alert_events d)"
  shows "engine_step d d'"
proof -
  obtain c val threshold where c: "evaluate_rule_condition r l = (c, val, threshold)" by (metis surj_pair)
  show ?thesis
  proof (cases res)
    case (Inl x)
    with assms(1) c have "d' = d" by (auto simp: evaluate_rule_once_def split: if_splits dest: atomic_Inl)
    then show ?thesis by simp
  next
    case (Inr a)
    with assms(1) c show ?thesis
      using ensure_step [OF _ assms(2)] resolve_if_needed_step [OF _ assms(2)]
      by (auto simp: evaluate_rule_once_def atomic_Inr split: if_splits)
  qed
qed

lemma evaluate_rules_step:
  "evaluate_rules e raced l dev me rs acc d = (res, d') \<Longrightarrow> keys_unique ae_id (alert_events d) \<Longrightarrow> engine_step d d'"
proof (induction rs arbitrary: acc d)
  case Nil
  then show ?case by simp
next
  case (Cons r rs)
  obtain one d1 where o: "evaluate_rule_once e raced l dev me r d = (one, d1)" by (metis surj_pair)
  note s = rule_once_step [OF o Cons.prems(2)]
  show ?case
  proof (cases one)
    case (Inl x)
    with Cons.prems(1) o s show ?thesis by simp
  next
    case (Inr a)
    with Cons.prems(1) o have rest: "evaluate_rules e raced l dev me rs (add_alert a acc) d1 = (res, d')" by simp
    from s evolves_keys [OF _ Cons.prems(2)] have "keys_unique ae_id (alert_events d1)" by (auto simp: engine_step_def)
    from s Cons.IH [OF rest this] show ?thesis by (rule engine_step_trans)
  qed
qed

lemma get_matching_frame:
  assumes "get_matching_rules e d l = Inr (rs, d0)"
  shows "\<exists>c. d0 = d\<lparr>shared_cache := c\<rparr>"
proof -
  have "\<exists>c. d1\<lparr>shared_cache := x\<rparr> = d\<lparr>shared_cache := c\<rparr>" if "d1 = d\<lparr>shared_cache := y\<rparr>" for d1 x y
    using that by auto
  with assms show ?thesis
    by (auto simp: get_matching_rules_def Let_def split: option.splits prod.splits sum.splits cache_value.splits if_splits)
qed

lemma evaluate_latest_step:
  assumes "evaluate_latest e raced d l = (res, d')" and "keys_unique ae_id (alert_events d)"
  shows "engine_step d d'"
proof (cases "device_of d (lt_device l)")
  case None
  with assms(1) show ?thesis by (simp add: evaluate_latest_def)
next
  case dev: (Some dev)
  show ?thesis
  proof (cases "metric_of d (lt_metric l)")
    case None
    with dev assms(1) show ?thesis by (simp add: evaluate_latest_def)
  next
    case me: (Some me)
    show ?thesis
    proof (cases "get_matching_rules e d l")
      case (Inl x)
      with dev me assms(1) show ?thesis by (simp add: evaluate_latest_def)
    next
      case (Inr p)
      obtain rs d0 where p: "p = (rs, d0)" by (cases p)
      from get_matching_frame [OF Inr [unfolded p]] have zero: "alert_events d0 = alert_events d" "alert_logs d0 = alert_logs d"
        by auto
      have s0: "engine_step d d0" by (rule engine_step_same [where ls = "[]"]) (simp_all add: zero)
      obtain r1 d1 where r1: "evaluate_rules e raced l dev me rs [] d0 = (r1, d1)" by (metis surj_pair)
      have k0: "keys_unique ae_id (alert_events d0)" using assms(2) zero by simp
      note s1 = evaluate_rules_step [OF r1 k0]
      have k1: "keys_unique ae_id (alert_events d1)" using s1 evolves_keys [OF _ k0] by (auto simp: engine_step_def)
      show ?thesis
      proof (cases r1)
        case (Inl x)
        with dev me Inr p r1 assms(1) have "d' = d1" by (simp add: evaluate_latest_def)
        with s0 s1 show ?thesis by (blast intro: engine_step_trans)
      next
        case ok: (Inr acc)
        obtain r2 d2 where r2: "atomic (resolve_ups_trap_alert_if_needed e raced l me) d1 = (r2, d2)" by (metis surj_pair)
        have "d' = d2" using dev me Inr p r1 ok r2 assms(1) by (cases r2) (simp_all add: evaluate_latest_def)
        moreover have "engine_step d1 d2"
        proof (cases r2)
          case (Inl x)
          with r2 atomic_Inl show ?thesis by fastforce
        next
          case (Inr y)
          with r2 ups_step [OF _ k1] show ?thesis by (auto simp: atomic_Inr)
        qed
        ultimately show ?thesis using s0 s1 by (blast intro: engine_step_trans)
      qed
    qed
  qed
qed

lemma evaluate_many_step:
  "evaluate_many e raced d ls acc = (res, d') \<Longrightarrow> keys_unique ae_id (alert_events d) \<Longrightarrow> engine_step d d'"
proof (induction ls arbitrary: d acc)
  case Nil
  then show ?case by simp
next
  case (Cons l ls)
  obtain one d1 where o: "evaluate_latest e raced d l = (one, d1)" by (metis surj_pair)
  note s = evaluate_latest_step [OF o Cons.prems(2)]
  show ?case
  proof (cases one)
    case (Inl x)
    with Cons.prems(1) o s show ?thesis by simp
  next
    case (Inr as)
    with Cons.prems(1) o have rest: "evaluate_many e raced d1 ls (acc @ as) = (res, d')" by simp
    from s evolves_keys [OF _ Cons.prems(2)] have "keys_unique ae_id (alert_events d1)" by (auto simp: engine_step_def)
    from s Cons.IH [OF rest this] show ?thesis by (rule engine_step_trans)
  qed
qed



text \<open>
  C2. History is kept: an evaluation removes no alert and changes neither what an alert is about
  nor when it was triggered; a resolved or suppressed alert is never touched again; an active
  alert can only become resolved or suppressed, and then the log has gained an entry with its
  key, its old and its new status. The log itself only grows.
\<close>

theorem evaluation_keeps_history:
  assumes "keys_unique ae_id (alert_events d)" and "evaluate_many e raced d rows [] = (res, d')"
    and "alert_of d k = Some a"
  shows "\<exists>ls b. alert_logs d' = alert_logs d @ ls \<and> alert_of d' k = Some b \<and> same_subject a b
    \<and> (ae_status a \<in> {RESOLVED, SUPPRESSED} \<longrightarrow> b = a)
    \<and> (ae_status b \<noteq> ae_status a \<longrightarrow> ae_status b \<in> {RESOLVED, SUPPRESSED} \<and>
         (\<exists>x \<in> set ls. al_alert_event x = k \<and> al_old_status x = Some (ae_status a) \<and> al_new_status x = Some (ae_status b)))"
proof -
  from evaluate_many_step [OF assms(2,1)] obtain ls where ls: "alert_logs d' = alert_logs d @ ls"
    "\<forall>k a. alert_of d k = Some a \<longrightarrow> (\<exists>b. alert_of d' k = Some b \<and> alert_evolves ls a b)"
    unfolding engine_step_def evolves_def by blast
  with assms(3) obtain b where b: "alert_of d' k = Some b" "alert_evolves ls a b" by blast
  have "ae_id a = k" using alert_of_key [OF assms(3)] by simp
  with ls(1) b show ?thesis
    by (intro exI [of _ ls] exI [of _ b]) (auto simp: alert_evolves_def logged_change_def ACTIVE_ALERT_STATUSES_def)
qed

theorem evaluation_keeps_history_witness:
  "alert_of (snd (evaluate_many (plain_env 5) no_race (rule_example\<lparr>alert_events := [blank_event\<lparr>ae_id := 100, ae_status := RESOLVED\<rparr>]\<rparr>)
      [temp_row] [])) 100 = Some (blank_event\<lparr>ae_id := 100, ae_status := RESOLVED\<rparr>)"
proof -
  let ?d = "rule_example\<lparr>alert_events := [blank_event\<lparr>ae_id := 100, ae_status := RESOLVED\<rparr>]\<rparr>"
  have k: "keys_unique ae_id (alert_events ?d)" by (simp add: keys_unique_def)
  have a: "alert_of ?d 100 = Some (blank_event\<lparr>ae_id := 100, ae_status := RESOLVED\<rparr>)"
    by (simp add: alert_of_def tbl_get_def)
  obtain res d' where r: "evaluate_many (plain_env 5) no_race ?d [temp_row] [] = (res, d')" by (metis surj_pair)
  from evaluation_keeps_history [OF k r a] r show ?thesis by auto
qed

subsection \<open>Conditions\<close>

fun compare_rat :: "alert_operator \<Rightarrow> rat \<Rightarrow> rat \<Rightarrow> bool" where
  "compare_rat GT x y = (x > y)"
| "compare_rat GTE x y = (x \<ge> y)"
| "compare_rat LT x y = (x < y)"
| "compare_rat LTE x y = (x \<le> y)"
| "compare_rat EQ x y = (x = y)"
| "compare_rat NEQ x y = (x \<noteq> y)"

text \<open>
  Conditions are exact: on numbers (integers, floats, booleans as 0 and 1) the outcome is the
  comparison of their exact values; a number against a text, or a missing value, is never over
  or under a threshold, is unequal to it and does not raise; a rule without a threshold is never
  true.
\<close>

theorem condition_exact:
  "fst (evaluate_rule_condition r l) =
    (case (numeric (value_from_latest l), numeric (threshold_from_rule r)) of
       (Some x, Some y) \<Rightarrow> compare_rat (ar_operator r) x y
     | _ \<Rightarrow>
       if threshold_from_rule r = PNone then False
       else (case (value_from_latest l, threshold_from_rule r) of
           (PStr s, PStr t) \<Rightarrow> (case ar_operator r of GT \<Rightarrow> t < s | GTE \<Rightarrow> t \<le> s | LT \<Rightarrow> s < t | LTE \<Rightarrow> s \<le> t
              | EQ \<Rightarrow> s = t | NEQ \<Rightarrow> s \<noteq> t)
         | _ \<Rightarrow> ar_operator r = NEQ))"
proof -
  have vals: "(\<exists>x. value_of_columns v = PFloat x) \<or> (\<exists>x. value_of_columns v = PInt x) \<or> (\<exists>x. value_of_columns v = PBool x)
      \<or> (\<exists>x. value_of_columns v = PStr x) \<or> value_of_columns v = PNone" for v
    by (auto simp: value_of_columns_def opt_py_def split: option.splits)
  show ?thesis
    using vals [of "lt_values l"] vals [of "ar_threshold r"]
    unfolding evaluate_rule_condition_def value_from_latest_def threshold_from_rule_def Let_def
    by (cases "ar_operator r"; elim disjE exE; simp add: py_eq_def)
qed

text \<open>
  The older evaluator loses a zero threshold: for the rule "greater than 0" and the value 5
  the engine's condition is true, while \<open>evaluate_rule\<close>, which picks the threshold with \<open>or\<close>, is
  left without one and raises.
\<close>

theorem evaluator_loses_zero:
  "\<exists>r l e d dev me. fst (evaluate_rule_condition r l) \<and> evaluate_rule e d r dev me (value_from_latest l) 0 = Inl TypeError"
proof -
  define r where "r = blank_rule\<lparr>ar_threshold := no_value\<lparr>value_integer := Some 0\<rparr>\<rparr>"
  define l where "l = blank_latest\<lparr>lt_values := no_value\<lparr>value_integer := Some 5\<rparr>\<rparr>"
  have v: "value_from_latest l = PInt 5" by (simp add: l_def value_from_latest_def value_of_columns_def blank_defs)
  have t: "threshold_from_rule r = PInt 0" by (simp add: r_def threshold_from_rule_def value_of_columns_def blank_defs)
  have o: "threshold_by_or r = PNone" by (simp add: r_def threshold_by_or_def py_or_opt_def blank_defs)
  have op: "ar_operator r = GT" by (simp add: r_def blank_defs)
  have "fst (evaluate_rule_condition r l)" by (simp add: evaluate_rule_condition_def v t op)
  moreover have "evaluate_rule (plain_env 0) empty_db r blank_device blank_metric (value_from_latest l) 0 = Inl TypeError"
    by (simp add: evaluate_rule_def v o op)
  ultimately show ?thesis by blast
qed

subsection \<open>Durations\<close>

definition due :: "env \<Rightarrow> db \<Rightarrow> latest_telemetry \<Rightarrow> alert_rule \<Rightarrow> bool" where
  "due e d l r = (ar_duration_seconds r = 0
     \<or> (\<exists>s. find (condition_state_key l r) (condition_states d) = Some s
            \<and> now e - cs_first_seen_at s \<ge> seconds (int (ar_duration_seconds r))))"

lemma maybe_due: "fst (maybe_create_duration_alert e d l r) = due e d l r"
  by (cases "find (condition_state_key l r) (condition_states d)")
    (auto simp: maybe_create_duration_alert_def upsert_condition_state_def due_def new_state_def seconds_def Let_def)

lemma ensure_new:
  assumes "active_alert_for_rule d l r = None" and "\<not> has_suppression e d l"
    and "ensure_alert_for_true_condition e raced l dev me r val threshold d = (Inr res, d')"
  shows "(due e d l r \<longrightarrow> (\<exists>a. res = Some a \<and> ae_status a = OPEN \<and> alert_events d' = alert_events d @ [a]))
    \<and> (\<not> due e d l r \<longrightarrow> res = None \<and> alert_events d' = alert_events d)"
proof -
  obtain b d1 where m: "maybe_create_duration_alert e d l r = (b, d1)" by (metis surj_pair)
  note f = duration_frame [OF m]
  have b: "b = due e d l r" using maybe_due [of e d l r] m by simp
  have o: "alert_events (snd (open_alert e raced d1 r l dev me val threshold)) = alert_events d @ [opened_alert e d1 r l dev me val threshold]"
    "fst (open_alert e raced d1 r l dev me val threshold) = opened_alert e d1 r l dev me val threshold"
    using f by (simp_all add: open_alert_def Let_def frame_simps insert_alert_def tbl_insert_def)
  show ?thesis
    using assms m b f o
    by (cases "open_alert e raced d1 r l dev me val threshold") (auto simp: ensure_alert_for_true_condition_def Let_def)
qed

text \<open>
  Durations are respected: with no active alert and no suppression, a true condition opens
  exactly one alert if the rule has no duration or the condition has been recorded for at least
  that long, and otherwise opens none and only records the condition.
\<close>

theorem opened_only_when_due:
  assumes "active_alert_for_rule d l r = None" and "\<not> has_suppression e d l"
    and "ensure_alert_for_true_condition e raced l dev me r val threshold d = (Inr res, d')"
  shows "(due e d l r \<longrightarrow> (\<exists>a. res = Some a \<and> ae_status a = OPEN \<and> alert_events d' = alert_events d @ [a]))
    \<and> (\<not> due e d l r \<longrightarrow> res = None \<and> alert_events d' = alert_events d)"
  using assms by (rule ensure_new)

definition slow_rule :: alert_rule where
  "slow_rule = temp_rule\<lparr>ar_duration_seconds := 60\<rparr>"

lemma no_window_example [simp]: "\<not> has_suppression e rule_example l"
  by (simp add: has_suppression_def rule_example_defs)

lemma no_active_example [simp]: "active_alert_for_rule rule_example l r = None"
  by (simp add: active_alert_for_rule_def newest_first_def rule_example_defs)

theorem opened_only_when_due_witness:
  "alert_events (snd (ensure_alert_for_true_condition (plain_env 5) no_race temp_row temp_device blank_metric slow_rule
      (PFloat 35) (PFloat 30) rule_example)) = []"
proof -
  obtain res d' where r: "ensure_alert_for_true_condition (plain_env 5) no_race temp_row temp_device blank_metric slow_rule
      (PFloat 35) (PFloat 30) rule_example = (res, d')" by (metis surj_pair)
  have "\<exists>x. res = Inr x"
    using r by (auto simp: ensure_alert_for_true_condition_def Let_def split: prod.splits if_splits)
  then obtain x where x: "res = Inr x" by blast
  have "\<not> due (plain_env 5) rule_example temp_row slow_rule"
    by (simp add: due_def slow_rule_def rule_example_defs)
  with opened_only_when_due [OF no_active_example no_window_example r [unfolded x]] r show ?thesis
    by (simp add: rule_example_defs)
qed

text \<open>
  A resolved condition is not forgotten: resolving the active alert of a rule leaves its
  condition state in place, so the next true evaluation, however soon after, counts the time
  from before the resolution and opens a new alert at once where the rule asks for a duration.
\<close>

theorem resolution_keeps_condition_state:
  assumes "active_alert_for_rule d l r = Some a" and "keys_unique ae_id (alert_events d)"
    and "resolve_if_needed e raced l me r d = (Inr res, d1)"
    and "find (condition_state_key l r) (condition_states d) = Some s"
    and "now e2 - cs_first_seen_at s \<ge> seconds (int (ar_duration_seconds r))"
    and "active_alert_for_rule d1 l r = None" and "\<not> has_suppression e2 d1 l"
    and "ensure_alert_for_true_condition e2 raced l dev me r val threshold d1 = (Inr res2, d2)"
  shows "condition_states d1 = condition_states d \<and>
    (\<exists>b. res2 = Some b \<and> ae_status b = OPEN \<and> alert_events d2 = alert_events d1 @ [b])"
proof -
  have act: "ae_status a \<in> ACTIVE_ALERT_STATUSES" using active_alert_Some [OF assms(1,2)] by simp
  then have "ae_status a \<noteq> SUPPRESSED" by (auto simp: ACTIVE_ALERT_STATUSES_def)
  with assms(1,3) act obtain a' where "resolve_alert e raced d a (Some (l, me)) RES_AUTO None None = (Inr a', d1)"
    by (auto simp: resolve_if_needed_def split: prod.splits sum.splits)
  then have cs: "condition_states d1 = condition_states d"
    by (auto simp: resolve_alert_def Let_def frame_simps split: sum.splits)
  then have "due e2 d1 l r" using assms(4,5) by (simp add: due_def)
  with ensure_new [OF assms(6-8)] cs show ?thesis by simp
qed

definition flap_alert :: alert_event where
  "flap_alert = blank_event\<lparr>ae_id := 100, ae_organization := 1, ae_data_center := 10, ae_device := 40, ae_metric := Some 70,
     ae_alert_rule := Some 60\<rparr>"

definition flap_state :: condition_state where
  "flap_state = \<lparr>cs_organization = 1, cs_data_center = 10, cs_device = 40, cs_metric = 70, cs_alert_rule = 60,
     cs_first_seen_at = 0, cs_last_seen_at = 0, cs_last_values = no_value, cs_condition_is_active = True\<rparr>"

definition flap_db :: db where
  "flap_db = rule_example\<lparr>alert_rules := [slow_rule], alert_events := [flap_alert], condition_states := [flap_state]\<rparr>"

lemmas flap_defs = flap_db_def flap_alert_def flap_state_def slow_rule_def rule_example_defs

lemma resolve_alert_tables:
  assumes "resolve_alert e raced d a latest rtype actor comment = (Inr a', d')"
  shows "a' = resolved_alert e a rtype actor comment"
    and "alert_events d' = alert_events (save_alert (ae_id a) (\<lambda>row. row\<lparr>ae_status := RESOLVED, ae_resolved_at := Some (now e),
          ae_resolved_by := actor, ae_resolution_type := Some rtype, ae_resolve_comment := or_else comment (ae_resolve_comment a),
          ae_last_seen_at := Some (now e)\<rparr>) d)"
    and "suppression_windows d' = suppression_windows d"
    and "condition_states d' = condition_states d"
  using assms by (auto simp: resolve_alert_def Let_def frame_simps resolved_alert_def split: sum.splits)

lemma flap_resolved:
  "\<exists>a' d1. resolve_if_needed (plain_env (seconds 200)) no_race temp_row blank_metric slow_rule flap_db = (Inr (Some a'), d1)
    \<and> alert_events d1 = [resolved_alert (plain_env (seconds 200)) flap_alert RES_AUTO None None]
    \<and> suppression_windows d1 = []"
proof -
  have act: "active_alert_for_rule flap_db temp_row slow_rule = Some flap_alert"
    by (simp add: active_alert_for_rule_def newest_first_def alert_scope_q_def ACTIVE_ALERT_STATUSES_def flap_defs)
  have st: "ae_status flap_alert = OPEN" by (simp add: flap_defs)
  have rule: "ae_alert_rule flap_alert = Some 60" "rule_of flap_db 60 = Some slow_rule"
    by (simp_all add: rule_of_def tbl_get_def flap_defs)
  obtain a' d1 where r: "resolve_alert (plain_env (seconds 200)) no_race flap_db flap_alert (Some (temp_row, blank_metric)) RES_AUTO None None
      = (Inr a', d1)"
    by (simp add: resolve_alert_def Let_def rule)
  note t = resolve_alert_tables [OF r]
  have one: "alert_events flap_db = [flap_alert]" "suppression_windows flap_db = []"
    by (simp_all add: flap_db_def rule_example_def empty_db_def)
  have "alert_events d1 = [resolved_alert (plain_env (seconds 200)) flap_alert RES_AUTO None None]"
    unfolding t(2) by (simp add: save_alert_def tbl_update_def one resolved_alert_def)
  with act st r t(3) one(2) show ?thesis
    by (simp add: resolve_if_needed_def ACTIVE_ALERT_STATUSES_def)
qed

theorem resolution_keeps_condition_state_witness:
  "\<exists>d1 d2 b. alert_events d2 = alert_events d1 @ [b] \<and> ae_status b = OPEN
    \<and> snd (resolve_if_needed (plain_env (seconds 200)) no_race temp_row blank_metric slow_rule flap_db) = d1
    \<and> snd (ensure_alert_for_true_condition (plain_env (seconds 201)) no_race temp_row temp_device blank_metric slow_rule
        (PFloat 35) (PFloat 30) d1) = d2"
proof -
  obtain a' d1 where r: "resolve_if_needed (plain_env (seconds 200)) no_race temp_row blank_metric slow_rule flap_db = (Inr (Some a'), d1)"
    "alert_events d1 = [resolved_alert (plain_env (seconds 200)) flap_alert RES_AUTO None None]" "suppression_windows d1 = []"
    using flap_resolved by blast
  have act: "active_alert_for_rule flap_db temp_row slow_rule = Some flap_alert"
    by (simp add: active_alert_for_rule_def newest_first_def alert_scope_q_def ACTIVE_ALERT_STATUSES_def flap_defs)
  have k: "keys_unique ae_id (alert_events flap_db)" by (simp add: keys_unique_def flap_db_def)
  have s: "find (condition_state_key temp_row slow_rule) (condition_states flap_db) = Some flap_state"
    by (simp add: condition_state_key_def flap_defs)
  have t: "now (plain_env (seconds 201)) - cs_first_seen_at flap_state \<ge> seconds (int (ar_duration_seconds slow_rule))"
    by (simp add: seconds_def flap_defs)
  have none: "active_alert_for_rule d1 temp_row slow_rule = None"
    by (simp add: active_alert_for_rule_def newest_first_def r(2) alert_scope_q_def resolved_alert_def ACTIVE_ALERT_STATUSES_def)
  have sup: "\<not> has_suppression (plain_env (seconds 201)) d1 temp_row" by (simp add: has_suppression_def r(3))
  obtain res2 d2 where r2: "ensure_alert_for_true_condition (plain_env (seconds 201)) no_race temp_row temp_device blank_metric slow_rule
      (PFloat 35) (PFloat 30) d1 = (res2, d2)" by (metis surj_pair)
  then obtain x where x: "res2 = Inr x"
    by (auto simp: ensure_alert_for_true_condition_def none sup Let_def split: prod.splits if_splits)
  from resolution_keeps_condition_state [OF act k r(1) s t none sup r2 [unfolded x]] r(1) r2 show ?thesis by auto
qed

subsection \<open>Suppression\<close>

text \<open>
  Suppression is counted once per evaluation: while a window is in force and no alert of the
  rule is active, every true evaluation stores a new suppressed alert, because the search for an
  existing one looks at open and acknowledged alerts only; n evaluations store n of them.
\<close>

theorem suppression_repeats:
  assumes "has_suppression e d l" and "active_alert_for_rule d l r = None"
  shows "\<exists>new. alert_events (((\<lambda>d. snd (ensure_alert_for_true_condition e raced l dev me r val threshold d)) ^^ n) d) = alert_events d @ new
    \<and> length new = n \<and> (\<forall>a \<in> set new. ae_status a = SUPPRESSED \<and> ae_alert_rule a = Some (ar_id r) \<and> ae_device a = lt_device l)"
proof -
  define f where "f = (\<lambda>d. snd (ensure_alert_for_true_condition e raced l dev me r val threshold d))"
  have step: "\<exists>a. alert_events (f x) = alert_events x @ [a] \<and> suppression_windows (f x) = suppression_windows x
      \<and> ae_status a = SUPPRESSED \<and> ae_alert_rule a = Some (ar_id r) \<and> ae_device a = lt_device l"
    if "has_suppression e x l" "active_alert_for_rule x l r = None" for x
    using that by (simp add: f_def ensure_alert_for_true_condition_def frame_simps insert_alert_def tbl_insert_def suppressed_alert_def Let_def)
  have none: "active_alert_for_rule y l r = None"
    if "alert_events y = alert_events x @ [a]" "ae_status a = SUPPRESSED" "active_alert_for_rule x l r = None" for x y a
    using that by (simp add: active_alert_for_rule_def newest_first_def first_order_by_None alert_scope_q_def ACTIVE_ALERT_STATUSES_def del: first_row_None)
  have "\<exists>new. alert_events ((f ^^ n) d) = alert_events d @ new \<and> length new = n
      \<and> (\<forall>a \<in> set new. ae_status a = SUPPRESSED \<and> ae_alert_rule a = Some (ar_id r) \<and> ae_device a = lt_device l)
      \<and> has_suppression e ((f ^^ n) d) l \<and> active_alert_for_rule ((f ^^ n) d) l r = None"
  proof (induction n)
    case 0
    with assms show ?case by simp
  next
    case (Suc n)
    then obtain new where new: "alert_events ((f ^^ n) d) = alert_events d @ new" "length new = n"
      "\<forall>a \<in> set new. ae_status a = SUPPRESSED \<and> ae_alert_rule a = Some (ar_id r) \<and> ae_device a = lt_device l"
      "has_suppression e ((f ^^ n) d) l" "active_alert_for_rule ((f ^^ n) d) l r = None" by blast
    from step [OF new(4,5)] obtain a where a: "alert_events (f ((f ^^ n) d)) = alert_events ((f ^^ n) d) @ [a]"
      "suppression_windows (f ((f ^^ n) d)) = suppression_windows ((f ^^ n) d)"
      "ae_status a = SUPPRESSED" "ae_alert_rule a = Some (ar_id r)" "ae_device a = lt_device l" by blast
    have "has_suppression e (f ((f ^^ n) d)) l" using new(4) a(2) by (simp add: has_suppression_def)
    with new a none [OF a(1,3) new(5)] show ?case by (intro exI [of _ "new @ [a]"]) auto
  qed
  then show ?thesis unfolding f_def by blast
qed

theorem suppression_repeats_witness:
  "length (alert_events (((\<lambda>d. snd (ensure_alert_for_true_condition (plain_env 5) no_race temp_row temp_device blank_metric temp_rule
     (PFloat 35) (PFloat 30) d)) ^^ 3) (rule_example\<lparr>suppression_windows := [blank_window]\<rparr>))) = 3"
proof -
  let ?d = "rule_example\<lparr>suppression_windows := [blank_window]\<rparr>"
  have s: "has_suppression (plain_env 5) ?d temp_row"
    by (simp add: has_suppression_def null_or_def blank_window_def rule_example_defs)
  have a: "active_alert_for_rule ?d temp_row temp_rule = None"
    by (simp add: active_alert_for_rule_def newest_first_def rule_example_defs)
  from suppression_repeats [OF s a, of 3 no_race temp_device blank_metric "PFloat 35" "PFloat 30"]
  show ?thesis by (auto simp: rule_example_defs)
qed

subsection \<open>Trap alerts\<close>

text \<open>
  Trap alerts: a trap updates an existing alert, counting it once more and keeping the
  number of alerts, exactly when the newest active trap alert of its device and OID carries the
  same event code (or the trap has none); in every other case it opens a new alert, even if an
  older active alert carries its code. So the duplicate check is per OID, not per event.
\<close>

theorem trap_alert_outcome:
  assumes "create_or_update_trap_alert e raced dev code name severity message seen oid raw d = (a, d')"
    and "keys_unique ae_id (alert_events d)"
  shows "case find_trap_alert d dev oid of
      Some x \<Rightarrow>
        (if code = None \<or> dict_get (ae_metadata x) ''trap_event_code'' = Some (opt_py PStr code)
         then alert_of d' (ae_id x) = Some a \<and> same_subject x a \<and> ae_status a = ae_status x \<and> ae_message a = message
            \<and> ae_severity a = severity \<and> ae_occurrence_count a = max 1 (ae_occurrence_count x) + 1
            \<and> length (alert_events d') = length (alert_events d)
         else alert_events d' = alert_events d @ [a] \<and> ae_status a = OPEN)
    | None \<Rightarrow> alert_events d' = alert_events d @ [a] \<and> ae_status a = OPEN"
proof (cases "find_trap_alert d dev oid")
  case None
  with assms(1) show ?thesis
    by (auto simp: create_or_update_trap_alert_def Let_def frame_simps insert_alert_def tbl_insert_def new_trap_alert_def)
next
  case (Some x)
  then have "x \<in> set (alert_events d)" unfolding find_trap_alert_def newest_first_def by (auto dest: first_row_Some_in)
  with assms(2) have x: "alert_of d (ae_id x) = Some x" by (rule alert_of_in)
  show ?thesis
  proof (cases "code = None \<or> dict_get (ae_metadata x) ''trap_event_code'' = Some (opt_py PStr code)")
    case False
    with Some assms(1) show ?thesis
      by (auto simp: create_or_update_trap_alert_def Let_def frame_simps insert_alert_def tbl_insert_def new_trap_alert_def)
  next
    case True
    define y where "y = x\<lparr>ae_last_seen_at := Some seen, ae_message := message, ae_severity := severity,
        ae_occurrence_count := (if ae_occurrence_count x = 0 then 1 else ae_occurrence_count x) + 1,
        ae_metadata := dict_merge (ae_metadata x) (trap_metadata oid code name raw)\<rparr>"
    from Some True assms(1) have a: "a = y" and d': "alert_events d' = alert_events (save_alert (ae_id x)
        (\<lambda>row. row\<lparr>ae_last_seen_at := ae_last_seen_at y, ae_message := ae_message y, ae_severity := ae_severity y,
           ae_occurrence_count := ae_occurrence_count y, ae_metadata := ae_metadata y\<rparr>) d)"
      by (auto simp: create_or_update_trap_alert_def Let_def frame_simps y_def)
    have "alert_of d' (ae_id x) = alert_of (save_alert (ae_id x)
        (\<lambda>row. row\<lparr>ae_last_seen_at := ae_last_seen_at y, ae_message := ae_message y, ae_severity := ae_severity y,
           ae_occurrence_count := ae_occurrence_count y, ae_metadata := ae_metadata y\<rparr>) d) (ae_id x)"
      unfolding alert_of_def d' ..
    also have "\<dots> = Some y" using x by (subst alert_of_save) (simp_all add: y_def)
    finally have row: "alert_of d' (ae_id x) = Some a" unfolding a .
    have "length (alert_events d') = length (alert_events d)" unfolding d' by (simp add: save_alert_def)
    with row Some True show ?thesis by (auto simp: a y_def same_subject_def)
  qed
qed

theorem trap_alert_outcome_witness:
  "let r1 = create_or_update_trap_alert (plain_env 5) no_race temp_device (Some ''a'') None CRITICAL ''m'' 5 ''1.3.6'' [] rule_example;
       r2 = create_or_update_trap_alert (plain_env 6) no_race temp_device (Some ''b'') None CRITICAL ''m'' 6 ''1.3.6'' [] (snd r1)
   in length (alert_events (snd r1)) = 1 \<and> length (alert_events (snd r2)) = 2"
proof -
  let ?run = "create_or_update_trap_alert"
  obtain a d1 where 1: "?run (plain_env 5) no_race temp_device (Some ''a'') None CRITICAL ''m'' 5 ''1.3.6'' [] rule_example = (a, d1)"
    by (metis surj_pair)
  obtain b d2 where 2: "?run (plain_env 6) no_race temp_device (Some ''b'') None CRITICAL ''m'' 6 ''1.3.6'' [] d1 = (b, d2)"
    by (metis surj_pair)
  have ev0: "alert_events rule_example = []" by (simp add: rule_example_defs)
  have k0: "keys_unique ae_id (alert_events rule_example)" by (simp add: ev0 keys_unique_def)
  have f0: "find_trap_alert rule_example temp_device ''1.3.6'' = None" by (simp add: find_trap_alert_def newest_first_def ev0)
  from trap_alert_outcome [OF 1 k0] f0 have e1: "alert_events d1 = [a]" by (simp add: ev0)
  from 1 f0 have a: "a = new_trap_alert (plain_env 5) rule_example temp_device CRITICAL ''m'' 5 (trap_metadata ''1.3.6'' (Some ''a'') None [])"
    by (auto simp: create_or_update_trap_alert_def Let_def)
  have f1: "find_trap_alert d1 temp_device ''1.3.6'' = Some a"
    by (simp add: find_trap_alert_def newest_first_def e1 a new_trap_alert_def trap_alert_q_def ACTIVE_ALERT_STATUSES_def trap_metadata_def)
  have k1: "keys_unique ae_id (alert_events d1)" by (simp add: e1 keys_unique_def)
  from trap_alert_outcome [OF 2 k1] f1 have "alert_events d2 = [a, b]"
    by (simp add: e1 a new_trap_alert_def trap_metadata_def)
  with 1 2 e1 show ?thesis by (simp add: Let_def)
qed

subsection \<open>By hand\<close>

text \<open>
  Acknowledging trusts the object it is given: an object that is not OPEN changes nothing,
  but one that was read as OPEN makes its row ACKNOWLEDGED whatever the row's status is by
  then, so an alert that was resolved in between becomes active again with its resolution time
  still set. Resolving by hand has no guard at all: it succeeds from every status.
\<close>

theorem manual_actions_ignore_the_row:
  assumes "alert_of d (ae_id a) = Some row"
  shows "(ae_status a \<noteq> OPEN \<longrightarrow> acknowledge_alert e d a actor comment = (a, d))
    \<and> (ae_status a = OPEN \<longrightarrow>
        (\<exists>b. alert_of (snd (acknowledge_alert e d a actor comment)) (ae_id a) = Some b \<and> ae_status b = ACKNOWLEDGED
           \<and> ae_acknowledged_by b = Some actor \<and> ae_resolved_at b = ae_resolved_at row \<and> same_subject row b))
    \<and> (manually_resolve_alert e raced d a actor comment = (Inr a', d') \<longrightarrow>
        (\<exists>b. alert_of d' (ae_id a) = Some b \<and> ae_status b = RESOLVED \<and> ae_resolution_type b = Some RES_MANUAL
           \<and> ae_resolved_by b = Some actor \<and> same_subject row b))"
proof (intro conjI impI)
  assume "ae_status a \<noteq> OPEN"
  then show "acknowledge_alert e d a actor comment = (a, d)" by (simp add: acknowledge_alert_def)
next
  assume "ae_status a = OPEN"
  then have ev: "alert_events (snd (acknowledge_alert e d a actor comment)) = alert_events (save_alert (ae_id a)
      (\<lambda>row. row\<lparr>ae_status := ACKNOWLEDGED, ae_acknowledged_by := Some actor, ae_acknowledged_at := Some (now e),
         ae_acknowledge_comment := or_else comment (ae_acknowledge_comment a)\<rparr>) d)"
    by (simp add: acknowledge_alert_def Let_def frame_simps add_comment_def)
  have "alert_of (snd (acknowledge_alert e d a actor comment)) (ae_id a) = Some (row\<lparr>ae_status := ACKNOWLEDGED,
      ae_acknowledged_by := Some actor, ae_acknowledged_at := Some (now e), ae_acknowledge_comment := or_else comment (ae_acknowledge_comment a)\<rparr>)"
    using assms unfolding alert_of_same [OF ev] by (simp add: alert_of_save)
  then show "\<exists>b. alert_of (snd (acknowledge_alert e d a actor comment)) (ae_id a) = Some b \<and> ae_status b = ACKNOWLEDGED
      \<and> ae_acknowledged_by b = Some actor \<and> ae_resolved_at b = ae_resolved_at row \<and> same_subject row b"
    by (auto simp: same_subject_def)
next
  assume "manually_resolve_alert e raced d a actor comment = (Inr a', d')"
  then obtain d1 where r: "resolve_alert e raced d a None RES_MANUAL (Some actor) comment = (Inr a', d1)"
    and d': "alert_events d' = alert_events d1"
    by (auto simp: manually_resolve_alert_def Let_def frame_simps add_comment_def split: prod.splits sum.splits if_splits)
  have "alert_of d' (ae_id a) = Some (row\<lparr>ae_status := RESOLVED, ae_resolved_at := Some (now e), ae_resolved_by := Some actor,
      ae_resolution_type := Some RES_MANUAL, ae_resolve_comment := or_else comment (ae_resolve_comment a), ae_last_seen_at := Some (now e)\<rparr>)"
    using assms unfolding alert_of_same [OF d'] alert_of_same [OF resolve_alert_tables(2) [OF r]] by (simp add: alert_of_save)
  then show "\<exists>b. alert_of d' (ae_id a) = Some b \<and> ae_status b = RESOLVED \<and> ae_resolution_type b = Some RES_MANUAL
      \<and> ae_resolved_by b = Some actor \<and> same_subject row b"
    by (auto simp: same_subject_def)
qed

theorem manual_actions_ignore_the_row_witness:
  "\<exists>b. alert_of (snd (acknowledge_alert (plain_env 9) (rule_example\<lparr>alert_events := [blank_event\<lparr>ae_id := 100, ae_status := RESOLVED,
      ae_resolved_at := Some 7\<rparr>]\<rparr>) (blank_event\<lparr>ae_id := 100\<rparr>) 9 None)) 100 = Some b
    \<and> ae_status b = ACKNOWLEDGED \<and> ae_resolved_at b = Some 7"
proof -
  let ?row = "blank_event\<lparr>ae_id := 100, ae_status := RESOLVED, ae_resolved_at := Some 7\<rparr>"
  let ?d = "rule_example\<lparr>alert_events := [?row]\<rparr>" and ?a = "blank_event\<lparr>ae_id := 100\<rparr>"
  have row: "alert_of ?d (ae_id ?a) = Some ?row" by (simp add: alert_of_def tbl_get_def)
  have "ae_status ?a = OPEN" by (simp add: blank_event_def)
  then obtain b where b: "alert_of (snd (acknowledge_alert (plain_env 9) ?d ?a 9 None)) (ae_id ?a) = Some b"
    "ae_status b = ACKNOWLEDGED" "ae_resolved_at b = ae_resolved_at ?row"
    using manual_actions_ignore_the_row [OF row, of "plain_env 9" 9 None] by blast
  then show ?thesis by (intro exI [of _ b]) simp
qed

end
