(* ===== verification/Escalation.thy ===== *)
theory Escalation
  imports Alert_Invariants
begin

text \<open>
  The periodic escalation of active alerts (\<open>apps/alerts/services/escalation.py\<close>): the policies
  that apply to an alert, their triggers, the escalation of one alert under one policy and the
  check over all alerts. Elapsed minutes are compared exactly; the code divides seconds by
  sixty in floating point first.
\<close>

subsection \<open>Policies and triggers\<close>

definition policy_matches :: "alert_event \<Rightarrow> escalation_policy \<Rightarrow> bool" where
  "policy_matches a p =
     (if \<not> ep_is_active p \<or> ep_severity p \<noteq> ae_severity a then False
      else if ep_organization p \<noteq> None \<and> ep_organization p \<noteq> Some (ae_organization a) then False
      else if ep_data_center p \<noteq> None \<and> ep_data_center p \<noteq> Some (ae_data_center a) then False
      else True)"

definition escalation_reason :: "alert_event \<Rightarrow> device \<Rightarrow> escalation_policy \<Rightarrow> string" where
  "escalation_reason a dev p =
     (let head = ''ESCALATION: '' @ severity_value (ae_severity a) @ '' alert '' @ ae_message a @ '' on '' @ dev_name dev in
      if ae_status a = OPEN \<and> ep_if_not_acknowledged_minutes p \<noteq> None
      then head @ '' has not been acknowledged for '' @ str_int (the (ep_if_not_acknowledged_minutes p)) @ '' minutes.''
      else case ep_if_not_resolved_minutes p of
        Some m \<Rightarrow> head @ '' has not been resolved for '' @ str_int m @ '' minutes.''
      | None \<Rightarrow> head @ '' requires attention.'')"

definition policy_trigger_met :: "alert_event \<Rightarrow> escalation_policy \<Rightarrow> time \<Rightarrow> bool" where
  "policy_trigger_met a p t =
     (let open_elapsed = t - ae_triggered_at a;
          resolved_elapsed = t - (case ae_acknowledged_at a of None \<Rightarrow> ae_triggered_at a | Some x \<Rightarrow> x)
      in if ae_status a = OPEN \<and> (case ep_if_not_acknowledged_minutes p of None \<Rightarrow> False | Some m \<Rightarrow> open_elapsed \<ge> minutes m)
         then True
         else (case ep_if_not_resolved_minutes p of None \<Rightarrow> False | Some m \<Rightarrow> resolved_elapsed \<ge> minutes m))"

subsection \<open>One escalation\<close>

text \<open>
  The list of the policies an alert was escalated under, kept in its metadata. The code that
  writes it writes a list of texts; \<open>append\<close> on any other value raises.
\<close>

definition escalated_policies :: "dict \<Rightarrow> exn + py list" where
  "escalated_policies md = (case dict_get md ''escalated_policy_ids'' of
      None \<Rightarrow> Inr []
    | Some (PList xs) \<Rightarrow> Inr xs
    | Some _ \<Rightarrow> Inl AttributeError)"

definition escalation_metadata :: "env \<Rightarrow> dict \<Rightarrow> py list \<Rightarrow> uuid \<Rightarrow> dict" where
  "escalation_metadata e md xs p =
     dict_set (dict_set (dict_set md ''last_escalated_at'' (PStr (isoformat e (now e))))
        ''last_escalation_policy_id'' (PStr (str_nat p))) ''escalated_policy_ids'' (PList (xs @ [PStr (str_nat p)]))"

definition escalate_alert ::
    "env \<Rightarrow> (string \<Rightarrow> bool) \<Rightarrow> db \<Rightarrow> alert_event \<Rightarrow> escalation_policy \<Rightarrow> (exn + alert_event option) \<times> db" where
  "escalate_alert e raced d a p =
     (case escalated_policies (ae_metadata a) of
        Inl x \<Rightarrow> (Inl x, d)
      | Inr xs \<Rightarrow>
          if PStr (str_nat (ep_id p)) \<in> set xs then (Inr None, d)
          else (case device_of d (ae_device a) of
              None \<Rightarrow> (Inl DoesNotExist, d)
            | Some dev \<Rightarrow>
              (let a' = a\<lparr>ae_metadata := escalation_metadata e (ae_metadata a) xs (ep_id p)\<rparr>;
                   d1 = save_alert (ae_id a) (\<lambda>row. row\<lparr>ae_metadata := ae_metadata a'\<rparr>) d;
                   d2 = create_alert_log a' LOG_ESCALATED (Some (ae_status a)) (Some (ae_status a)) None
                          (escalation_reason a' dev p) [] [(''policy_id'', PStr (str_nat (ep_id p)))] d1
               in case create_notifications_for_alert_escalated e raced a' p d2 of
                    (Inl x, d3) \<Rightarrow> (Inl x, d3)
                  | (Inr _, d3) \<Rightarrow> (Inr (Some a'), d3))))"

subsection \<open>The check\<close>

text \<open>The inner loop ends at the first policy whose trigger is met, escalated or not.\<close>

fun escalate_under :: "env \<Rightarrow> (string \<Rightarrow> bool) \<Rightarrow> alert_event \<Rightarrow> escalation_policy list \<Rightarrow> db \<Rightarrow> (exn + alert_event option) \<times> db" where
  "escalate_under e raced a [] d = (Inr None, d)"
| "escalate_under e raced a (p # ps) d =
     (if \<not> policy_matches a p then escalate_under e raced a ps d
      else if policy_trigger_met a p (now e) then escalate_alert e raced d a p
      else escalate_under e raced a ps d)"

fun escalate_each :: "env \<Rightarrow> (string \<Rightarrow> bool) \<Rightarrow> escalation_policy list \<Rightarrow> alert_event list \<Rightarrow> alert_event list \<Rightarrow> db
    \<Rightarrow> (exn + alert_event list) \<times> db" where
  "escalate_each e raced ps [] acc d = (Inr acc, d)"
| "escalate_each e raced ps (a # as) acc d =
     (case escalate_under e raced a ps d of
        (Inl x, d') \<Rightarrow> (Inl x, d')
      | (Inr None, d') \<Rightarrow> escalate_each e raced ps as acc d'
      | (Inr (Some b), d') \<Rightarrow> escalate_each e raced ps as (acc @ [b]) d')"

definition run_alert_escalation_check :: "env \<Rightarrow> (string \<Rightarrow> bool) \<Rightarrow> db \<Rightarrow> (exn + alert_event list) \<times> db" where
  "run_alert_escalation_check e raced d =
     escalate_each e raced (filter ep_is_active (escalation_policies d))
       (filter (\<lambda>a. ae_status a \<in> {OPEN, ACKNOWLEDGED}) (alert_events d)) [] d"

subsection \<open>What an escalation does\<close>

lemma escalated_policies_metadata [simp]:
  "escalated_policies (escalation_metadata e md xs p) = Inr (xs @ [PStr (str_nat p)])"
  by (simp add: escalated_policies_def escalation_metadata_def)

lemma escalate_tables:
  assumes "escalate_alert e raced d a p = (Inr (Some b), d')"
  shows "\<exists>xs. escalated_policies (ae_metadata a) = Inr xs \<and> PStr (str_nat (ep_id p)) \<notin> set xs
    \<and> b = a\<lparr>ae_metadata := escalation_metadata e (ae_metadata a) xs (ep_id p)\<rparr>
    \<and> alert_events d' = alert_events (save_alert (ae_id a) (\<lambda>row. row\<lparr>ae_metadata := ae_metadata b\<rparr>) d)
    \<and> (\<exists>x. alert_logs d' = alert_logs d @ [x] \<and> al_alert_event x = ae_id a \<and> al_action x = LOG_ESCALATED)"
proof -
  from assms obtain xs dev where xs: "escalated_policies (ae_metadata a) = Inr xs" "PStr (str_nat (ep_id p)) \<notin> set xs"
    and dev: "device_of d (ae_device a) = Some dev"
    by (auto simp: escalate_alert_def split: sum.splits option.splits if_splits)
  define c where "c = a\<lparr>ae_metadata := escalation_metadata e (ae_metadata a) xs (ep_id p)\<rparr>"
  define d2 where "d2 = create_alert_log c LOG_ESCALATED (Some (ae_status a)) (Some (ae_status a)) None
      (escalation_reason c dev p) [] [(''policy_id'', PStr (str_nat (ep_id p)))]
      (save_alert (ae_id a) (\<lambda>row. row\<lparr>ae_metadata := ae_metadata c\<rparr>) d)"
  obtain r d3 where n: "create_notifications_for_alert_escalated e raced c p d2 = (r, d3)" by (metis surj_pair)
  from assms xs dev n have b: "b = c" "d' = d3"
    by (auto simp: escalate_alert_def c_def d2_def Let_def split: sum.splits)
  note only = only_notifications_sel [OF only_escalated [OF n]]
  have ev: "alert_events d' = alert_events (save_alert (ae_id a) (\<lambda>row. row\<lparr>ae_metadata := ae_metadata b\<rparr>) d)"
    unfolding b only by (simp add: d2_def frame_simps)
  define x where "x = \<lparr>al_alert_event = ae_id c, al_action = LOG_ESCALATED,
      al_old_status = Some (ae_status a), al_new_status = Some (ae_status a), al_actor = None,
      al_message = Some (escalation_reason c dev p), al_value_snapshot = [], al_metadata = [(''policy_id'', PStr (str_nat (ep_id p)))]\<rparr>"
  have logs: "alert_logs d' = alert_logs d @ [x]"
    unfolding b only by (simp add: d2_def create_alert_log_def save_alert_def x_def)
  have "al_alert_event x = ae_id a" "al_action x = LOG_ESCALATED" by (simp_all add: x_def c_def)
  with logs have "\<exists>x. alert_logs d' = alert_logs d @ [x] \<and> al_alert_event x = ae_id a \<and> al_action x = LOG_ESCALATED"
    by blast
  with xs b(1) ev c_def show ?thesis by blast
qed

text \<open>
  Once per policy: an escalation that succeeds records its policy in the alert's row, changes
  nothing else of the row, logs it, and escalating the alert under the same policy again, at any
  time and from any database, does nothing.
\<close>

theorem escalated_once:
  assumes "escalate_alert e raced d a p = (Inr (Some b), d')" and "alert_of d (ae_id a) = Some a"
  shows "alert_of d' (ae_id a) = Some b \<and> ae_status b = ae_status a \<and> same_subject a b
    \<and> (\<exists>x. alert_logs d' = alert_logs d @ [x] \<and> al_alert_event x = ae_id a \<and> al_action x = LOG_ESCALATED)
    \<and> escalate_alert e2 raced2 d2 b p = (Inr None, d2)"
proof -
  from escalate_tables [OF assms(1)] obtain xs where
    b: "b = a\<lparr>ae_metadata := escalation_metadata e (ae_metadata a) xs (ep_id p)\<rparr>" and
    ev: "alert_events d' = alert_events (save_alert (ae_id a) (\<lambda>row. row\<lparr>ae_metadata := ae_metadata b\<rparr>) d)" and
    logs: "\<exists>x. alert_logs d' = alert_logs d @ [x] \<and> al_alert_event x = ae_id a \<and> al_action x = LOG_ESCALATED"
    by blast
  have "alert_of d' (ae_id a) = Some b"
    unfolding alert_of_same [OF ev] using assms(2) by (simp add: alert_of_save b)
  moreover have "escalate_alert e2 raced2 d2 b p = (Inr None, d2)" by (simp add: escalate_alert_def b)
  moreover have "ae_status b = ae_status a" "same_subject a b" by (simp_all add: b same_subject_def)
  ultimately show ?thesis using logs by blast
qed

definition five_minutes :: escalation_policy where
  "five_minutes = \<lparr>ep_id = 20, ep_organization = Some 1, ep_data_center = None, ep_severity = WARNING,
     ep_if_not_acknowledged_minutes = Some 5, ep_if_not_resolved_minutes = None, ep_target_role = None,
     ep_target_users = [], ep_channel = WEB, ep_is_active = True\<rparr>"

definition thirty_minutes :: escalation_policy where
  "thirty_minutes = five_minutes\<lparr>ep_id := 21, ep_if_not_acknowledged_minutes := Some 30, ep_channel := SMS\<rparr>"

definition escalation_db :: db where
  "escalation_db = told_db\<lparr>users := [], alert_events := [told_alert], escalation_policies := [five_minutes, thirty_minutes]\<rparr>"

lemma escalation_run:
  "\<exists>b d'. escalate_alert (plain_env (minutes 5)) no_race escalation_db told_alert five_minutes = (Inr (Some b), d')"
proof -
  have "escalated_policies (ae_metadata told_alert) = Inr []" by (simp add: escalated_policies_def told_alert_def blank_event_def)
  moreover have dev: "device_of x (ae_device told_alert) \<noteq> None" if "devices x = devices told_db" for x
    using that by (simp add: device_of_def tbl_get_def told_defs)
  ultimately show ?thesis
    by (auto simp: escalate_alert_def create_notifications_for_alert_escalated_def Let_def escalation_db_def
        device_of_def create_alert_log_def save_alert_def split: prod.splits option.splits)
qed

theorem escalated_once_witness:
  "\<exists>b d'. escalate_alert (plain_env (minutes 5)) no_race escalation_db told_alert five_minutes = (Inr (Some b), d')
    \<and> escalate_alert (plain_env (minutes 9)) no_race d' b five_minutes = (Inr None, d')"
proof -
  obtain b d' where r: "escalate_alert (plain_env (minutes 5)) no_race escalation_db told_alert five_minutes = (Inr (Some b), d')"
    using escalation_run by blast
  have row: "alert_of escalation_db (ae_id told_alert) = Some told_alert" by (simp add: alert_of_def tbl_get_def escalation_db_def)
  from escalated_once [OF r row] r show ?thesis by blast
qed

text \<open>
  An escalated policy hides the later ones: the check stops at the first policy whose trigger
  is met even when the alert was escalated under it before, so as long as that trigger stays
  met no policy after it ever escalates the alert, however long it waits.
\<close>

theorem first_policy_hides_the_rest:
  assumes "escalated_policies (ae_metadata a) = Inr xs" and "PStr (str_nat (ep_id p)) \<in> set xs"
    and "policy_matches a p" and "policy_trigger_met a p (now e)"
    and "\<forall>q \<in> set before. \<not> (policy_matches a q \<and> policy_trigger_met a q (now e))"
  shows "escalate_under e raced a (before @ p # later) d = (Inr None, d)"
  using assms(5)
proof (induction before)
  case Nil
  with assms(1-4) show ?case by (simp add: escalate_alert_def)
next
  case (Cons q qs)
  then show ?case by auto
qed

theorem first_policy_hides_the_rest_witness:
  "\<exists>b d'. escalate_alert (plain_env (minutes 5)) no_race escalation_db told_alert five_minutes = (Inr (Some b), d')
    \<and> policy_matches b thirty_minutes \<and> policy_trigger_met b thirty_minutes (minutes 45)
    \<and> escalate_under (plain_env (minutes 45)) no_race b (escalation_policies escalation_db) d' = (Inr None, d')"
proof -
  obtain b d' where r: "escalate_alert (plain_env (minutes 5)) no_race escalation_db told_alert five_minutes = (Inr (Some b), d')"
    using escalation_run by blast
  from escalate_tables [OF r] obtain xs where
    b: "b = told_alert\<lparr>ae_metadata := escalation_metadata (plain_env (minutes 5)) (ae_metadata told_alert) xs (ep_id five_minutes)\<rparr>"
    by blast
  note defs = five_minutes_def thirty_minutes_def told_defs minutes_def
  have m: "policy_matches b five_minutes" "policy_trigger_met b five_minutes (now (plain_env (minutes 45)))"
    "policy_matches b thirty_minutes" "policy_trigger_met b thirty_minutes (minutes 45)"
    by (simp_all add: b policy_matches_def policy_trigger_met_def defs)
  have e: "escalated_policies (ae_metadata b) = Inr (xs @ [PStr (str_nat (ep_id five_minutes))])" by (simp add: b)
  have i: "PStr (str_nat (ep_id five_minutes)) \<in> set (xs @ [PStr (str_nat (ep_id five_minutes))])" by simp
  have none: "\<forall>q \<in> set []. \<not> (policy_matches b q \<and> policy_trigger_met b q (now (plain_env (minutes 45))))" by simp
  from first_policy_hides_the_rest [OF e i m(1,2) none, of no_race "[thirty_minutes]" d'] r m(3,4)
  show ?thesis by (simp add: escalation_db_def)
qed

end
