(* ===== verification/Delivery_Workers.thy ===== *)
theory Delivery_Workers
  imports Delivery_Props
begin

text \<open>
  Concurrent delivery workers. Each step is one transaction or one external send of
  \<open>send_notification_task\<close>, or the requeueing of stale claims; workers interleave freely. The
  state is the database, what each worker holds in memory, and the log of external sends.
\<close>

datatype phase = Claimed notification | Delivered notification "dict option" | Failing notification exn

fun held :: "phase \<Rightarrow> notification" where
  "held (Claimed n) = n"
| "held (Delivered n res) = n"
| "held (Failing n x) = n"

record delivery_state =
  st_db :: db
  st_holds :: "nat \<Rightarrow> phase option"
  st_log :: "uuid list"

text \<open>The first parameter says whether stale claims are requeued.\<close>

inductive wstep :: "bool \<Rightarrow> transports \<Rightarrow> delivery_state \<Rightarrow> delivery_state \<Rightarrow> bool" for requeues tr where
  claim: "st_holds s w = None \<Longrightarrow> claim_notification_for_delivery e (st_db s) k = (Some n, d') \<Longrightarrow>
    wstep requeues tr s (s\<lparr>st_db := d', st_holds := (st_holds s)(w \<mapsto> Claimed n)\<rparr>)"
| deliver: "st_holds s w = Some (Claimed n) \<Longrightarrow> deliver_notification tr (st_db s) n = Inr res \<Longrightarrow>
    wstep requeues tr s (s\<lparr>st_holds := (st_holds s)(w \<mapsto> Delivered n res), st_log := nt_id n # st_log s\<rparr>)"
| raise: "st_holds s w = Some (Claimed n) \<Longrightarrow> deliver_notification tr (st_db s) n = Inl x \<Longrightarrow>
    wstep requeues tr s (s\<lparr>st_holds := (st_holds s)(w \<mapsto> Failing n x)\<rparr>)"
| finish: "st_holds s w = Some (Delivered n res) \<Longrightarrow> finish_sent e (st_db s) n res = Inr d' \<Longrightarrow>
    wstep requeues tr s (s\<lparr>st_db := d', st_holds := (st_holds s)(w := None)\<rparr>)"
| fail: "st_holds s w = Some (Failing n x) \<Longrightarrow>
    wstep requeues tr s (s\<lparr>st_db := finish_failed e (st_db s) (nt_id n) x, st_holds := (st_holds s)(w := None)\<rparr>)"
| create: "nt_status n = PENDING \<Longrightarrow> nt_id n \<notin> nt_id ` set (notifications (st_db s)) \<Longrightarrow>
    wstep requeues tr s (s\<lparr>st_db := (st_db s)\<lparr>notifications := tbl_insert n (notifications (st_db s))\<rparr>\<rparr>)"
| requeue: "requeues \<Longrightarrow>
    wstep requeues tr s (s\<lparr>st_db := snd (requeue_matched e older ks (st_db s))\<rparr>)"

inductive reaches :: "bool \<Rightarrow> transports \<Rightarrow> delivery_state \<Rightarrow> delivery_state \<Rightarrow> bool" for requeues tr where
  reach_refl: "reaches requeues tr s s"
| reach_step: "reaches requeues tr s t \<Longrightarrow> wstep requeues tr t u \<Longrightarrow> reaches requeues tr s u"

text \<open>
  The exclusion: a held row is DELIVERING, no two workers hold one row, and a row that was sent is
  SENT or still in the hands of the worker that sent it; no row was sent twice.
\<close>

definition exclusive :: "delivery_state \<Rightarrow> bool" where
  "exclusive s =
     ((\<forall>w p. st_holds s w = Some p \<longrightarrow> map_option nt_status (notification_of (st_db s) (nt_id (held p))) = Some DELIVERING)
      \<and> (\<forall>v w p q. st_holds s v = Some p \<and> st_holds s w = Some q \<and> nt_id (held p) = nt_id (held q) \<longrightarrow> v = w)
      \<and> (\<forall>k \<in> set (st_log s). map_option nt_status (notification_of (st_db s) k) = Some SENT
            \<or> (\<exists>w n res. st_holds s w = Some (Delivered n res) \<and> nt_id n = k))
      \<and> distinct (st_log s))"

lemma exclusiveI:
  assumes "\<And>w p. st_holds s w = Some p \<Longrightarrow> map_option nt_status (notification_of (st_db s) (nt_id (held p))) = Some DELIVERING"
    and "\<And>v w p q. st_holds s v = Some p \<Longrightarrow> st_holds s w = Some q \<Longrightarrow> nt_id (held p) = nt_id (held q) \<Longrightarrow> v = w"
    and "\<And>k. k \<in> set (st_log s) \<Longrightarrow> map_option nt_status (notification_of (st_db s) k) = Some SENT
            \<or> (\<exists>w n res. st_holds s w = Some (Delivered n res) \<and> nt_id n = k)"
    and "distinct (st_log s)"
  shows "exclusive s"
  unfolding exclusive_def using assms by blast

lemma exclusiveD:
  assumes "exclusive s"
  shows "st_holds s w = Some p \<Longrightarrow> map_option nt_status (notification_of (st_db s) (nt_id (held p))) = Some DELIVERING"
    and "st_holds s v = Some p \<Longrightarrow> st_holds s w = Some q \<Longrightarrow> nt_id (held p) = nt_id (held q) \<Longrightarrow> v = w"
    and "k \<in> set (st_log s) \<Longrightarrow> map_option nt_status (notification_of (st_db s) k) = Some SENT
            \<or> (\<exists>w n res. st_holds s w = Some (Delivered n res) \<and> nt_id n = k)"
    and "distinct (st_log s)"
  using assms unfolding exclusive_def by blast+

text \<open>A worker that holds a row without having sent it knows it is not in the log.\<close>

lemma held_not_logged:
  assumes "exclusive s" and "st_holds s w = Some p" and "\<And>n res. p \<noteq> Delivered n res"
  shows "nt_id (held p) \<notin> set (st_log s)"
proof
  assume "nt_id (held p) \<in> set (st_log s)"
  from exclusiveD(3) [OF assms(1) this] exclusiveD(1) [OF assms(1,2)]
  obtain v n res where v: "st_holds s v = Some (Delivered n res)" "nt_id n = nt_id (held p)" by auto
  then have "v = w" using exclusiveD(2) [OF assms(1), of v "Delivered n res" w p] assms(2) by simp
  with v assms(2,3) show False by auto
qed

lemma exclusive_claim:
  assumes "exclusive s" and idle: "st_holds s w = None"
    and "claim_notification_for_delivery e (st_db s) k = (Some n, d')"
  shows "exclusive (s\<lparr>st_db := d', st_holds := (st_holds s)(w \<mapsto> Claimed n)\<rparr>)"
proof -
  let ?f = "\<lambda>r :: notification. r\<lparr>nt_status := DELIVERING, nt_error_message := Some [], nt_updated_at := now e\<rparr>"
  from claim_Some [OF assms(3)] obtain r where r: "notification_of (st_db s) k = Some r"
    "nt_status r \<notin> {SENT, DELIVERING}" "nt_id n = k" and d': "d' = save_notification (st_db s) k ?f"
    unfolding claimed_statuses_def by blast
  have free: "nt_id (held p) \<noteq> k" if "st_holds s v = Some p" for v p
    using exclusiveD(1) [OF assms(1) that] r by auto
  have unlogged: "k \<notin> set (st_log s)"
  proof
    assume "k \<in> set (st_log s)"
    from exclusiveD(3) [OF assms(1) this] r free show False by fastforce
  qed
  show ?thesis
  proof (rule exclusiveI)
    fix v p
    assume "st_holds (s\<lparr>st_db := d', st_holds := (st_holds s)(w \<mapsto> Claimed n)\<rparr>) v = Some p"
    then show "map_option nt_status (notification_of (st_db (s\<lparr>st_db := d', st_holds := (st_holds s)(w \<mapsto> Claimed n)\<rparr>)) (nt_id (held p))) = Some DELIVERING"
      using r d' free exclusiveD(1) [OF assms(1), of v p] by (auto split: if_splits)
  next
    fix v u p q
    assume "st_holds (s\<lparr>st_db := d', st_holds := (st_holds s)(w \<mapsto> Claimed n)\<rparr>) v = Some p"
      and "st_holds (s\<lparr>st_db := d', st_holds := (st_holds s)(w \<mapsto> Claimed n)\<rparr>) u = Some q"
      and "nt_id (held p) = nt_id (held q)"
    then show "v = u"
      using r(3) free [of v p] free [of u q] exclusiveD(2) [OF assms(1), of v p u q] by (auto split: if_splits)
  next
    fix j
    assume "j \<in> set (st_log (s\<lparr>st_db := d', st_holds := (st_holds s)(w \<mapsto> Claimed n)\<rparr>))"
    then have j: "j \<in> set (st_log s)" "j \<noteq> k" using unlogged by auto
    from exclusiveD(3) [OF assms(1) j(1)]
    show "map_option nt_status (notification_of (st_db (s\<lparr>st_db := d', st_holds := (st_holds s)(w \<mapsto> Claimed n)\<rparr>)) j) = Some SENT
      \<or> (\<exists>v n' res. st_holds (s\<lparr>st_db := d', st_holds := (st_holds s)(w \<mapsto> Claimed n)\<rparr>) v = Some (Delivered n' res) \<and> nt_id n' = j)"
    proof
      assume "map_option nt_status (notification_of (st_db s) j) = Some SENT"
      with j(2) d' show ?thesis by simp
    next
      assume "\<exists>v n' res. st_holds s v = Some (Delivered n' res) \<and> nt_id n' = j"
      then obtain v n' res where v: "st_holds s v = Some (Delivered n' res)" "nt_id n' = j" by blast
      with idle have "v \<noteq> w" by auto
      with v show ?thesis by auto
    qed
  next
    show "distinct (st_log (s\<lparr>st_db := d', st_holds := (st_holds s)(w \<mapsto> Claimed n)\<rparr>))"
      using exclusiveD(4) [OF assms(1)] by simp
  qed
qed

text \<open>A worker changes its phase and keeps its row.\<close>

lemma exclusive_phase:
  assumes "exclusive s" and w: "st_holds s w = Some p" and h: "nt_id (held q) = nt_id (held p)"
    and log: "L = st_log s \<and> (\<forall>n res. p \<noteq> Delivered n res)
      \<or> L = nt_id (held p) # st_log s \<and> nt_id (held p) \<notin> set (st_log s) \<and> (\<exists>n res. q = Delivered n res)"
    and p: "\<And>n res. p \<noteq> Delivered n res"
  shows "exclusive (s\<lparr>st_holds := (st_holds s)(w \<mapsto> q), st_log := L\<rparr>)" (is "exclusive ?t")
proof (rule exclusiveI)
  fix v r
  assume "st_holds ?t v = Some r"
  then show "map_option nt_status (notification_of (st_db ?t) (nt_id (held r))) = Some DELIVERING"
  proof (cases "v = w")
    case True
    with \<open>st_holds ?t v = Some r\<close> have "r = q" by simp
    with exclusiveD(1) [OF assms(1) w] h show ?thesis by simp
  next
    case False
    with \<open>st_holds ?t v = Some r\<close> have "st_holds s v = Some r" by simp
    from exclusiveD(1) [OF assms(1) this] show ?thesis by simp
  qed
next
  fix v u r x
  assume "st_holds ?t v = Some r" "st_holds ?t u = Some x" "nt_id (held r) = nt_id (held x)"
  moreover have "\<exists>y. st_holds s a = Some y \<and> nt_id (held y) = nt_id (held z)" if "st_holds ?t a = Some z" for a z
    using that w h by (cases "a = w") auto
  ultimately show "v = u" using exclusiveD(2) [OF assms(1)] by metis
next
  fix k
  assume k: "k \<in> set (st_log ?t)"
  show "map_option nt_status (notification_of (st_db ?t) k) = Some SENT
    \<or> (\<exists>v n res. st_holds ?t v = Some (Delivered n res) \<and> nt_id n = k)"
  proof (cases "k \<in> set (st_log s)")
    case True
    from exclusiveD(3) [OF assms(1) True] show ?thesis
    proof
      assume "\<exists>v n res. st_holds s v = Some (Delivered n res) \<and> nt_id n = k"
      then obtain v n res where v: "st_holds s v = Some (Delivered n res)" "nt_id n = k" by blast
      with w p [of n res] have "v \<noteq> w" by auto
      with v show ?thesis by auto
    qed simp
  next
    case False
    with k log have "k = nt_id (held p)" "\<exists>n res. q = Delivered n res" by auto
    with h show ?thesis by auto
  qed
next
  show "distinct (st_log ?t)" using log exclusiveD(4) [OF assms(1)] by auto
qed

lemma exclusive_deliver:
  assumes "exclusive s" and w: "st_holds s w = Some (Claimed n)"
  shows "exclusive (s\<lparr>st_holds := (st_holds s)(w \<mapsto> Delivered n res), st_log := nt_id n # st_log s\<rparr>)"
proof -
  have new: "nt_id n \<notin> set (st_log s)" using held_not_logged [OF assms] by simp
  show ?thesis
  proof (rule exclusive_phase [OF assms, where q = "Delivered n res" and L = "nt_id n # st_log s"])
    show "nt_id (held (Delivered n res)) = nt_id (held (Claimed n))" by simp
    show "nt_id n # st_log s = st_log s \<and> (\<forall>m r. Claimed n \<noteq> Delivered m r)
      \<or> nt_id n # st_log s = nt_id (held (Claimed n)) # st_log s \<and> nt_id (held (Claimed n)) \<notin> set (st_log s)
        \<and> (\<exists>m r. Delivered n res = Delivered m r)"
      using new by simp
    show "\<And>m r. Claimed n \<noteq> Delivered m r" by simp
  qed
qed

lemma exclusive_raise:
  assumes "exclusive s" and w: "st_holds s w = Some (Claimed n)"
  shows "exclusive (s\<lparr>st_holds := (st_holds s)(w \<mapsto> Failing n x)\<rparr>)"
  using exclusive_phase [OF assms, of "Failing n x" "st_log s"] by simp

text \<open>A worker writes the outcome of its row and lets go of it.\<close>

lemma exclusive_release:
  assumes "exclusive s" and w: "st_holds s w = Some p" and f: "\<And>r. nt_id (f r) = nt_id r"
    and out: "(\<forall>r. nt_status (f r) = SENT) \<or> nt_id (held p) \<notin> set (st_log s)"
  shows "exclusive (s\<lparr>st_db := save_notification (st_db s) (nt_id (held p)) f, st_holds := (st_holds s)(w := None)\<rparr>)"
    (is "exclusive ?t")
proof -
  have other: "nt_id (held q) \<noteq> nt_id (held p)" if "st_holds s v = Some q" "v \<noteq> w" for v q
    using exclusiveD(2) [OF assms(1) that(1) w] that(2) by blast
  show ?thesis
  proof (rule exclusiveI)
    fix v q
    assume "st_holds ?t v = Some q"
    then have "st_holds s v = Some q" "v \<noteq> w" by (auto split: if_splits)
    with other exclusiveD(1) [OF assms(1), of v q] f
    show "map_option nt_status (notification_of (st_db ?t) (nt_id (held q))) = Some DELIVERING" by simp
  next
    fix v u q r
    assume "st_holds ?t v = Some q" "st_holds ?t u = Some r" "nt_id (held q) = nt_id (held r)"
    then show "v = u" using exclusiveD(2) [OF assms(1), of v q u r] by (auto split: if_splits)
  next
    fix j
    assume "j \<in> set (st_log ?t)"
    then have j: "j \<in> set (st_log s)" by simp
    show "map_option nt_status (notification_of (st_db ?t) j) = Some SENT
      \<or> (\<exists>v n res. st_holds ?t v = Some (Delivered n res) \<and> nt_id n = j)"
    proof (cases "j = nt_id (held p)")
      case True
      with out j have sent: "\<forall>r. nt_status (f r) = SENT" by blast
      from exclusiveD(1) [OF assms(1) w] obtain r where "notification_of (st_db s) (nt_id (held p)) = Some r" by auto
      with True sent f show ?thesis by simp
    next
      case False
      from exclusiveD(3) [OF assms(1) j] show ?thesis
      proof
        assume "map_option nt_status (notification_of (st_db s) j) = Some SENT"
        with False f show ?thesis by simp
      next
        assume "\<exists>v n res. st_holds s v = Some (Delivered n res) \<and> nt_id n = j"
        then obtain v n res where v: "st_holds s v = Some (Delivered n res)" "nt_id n = j" by blast
        with False w have "v \<noteq> w" by auto
        with v show ?thesis by auto
      qed
    qed
  next
    show "distinct (st_log ?t)" using exclusiveD(4) [OF assms(1)] by simp
  qed
qed

lemma exclusive_create:
  assumes "exclusive s" and "nt_id n \<notin> nt_id ` set (notifications (st_db s))"
  shows "exclusive (s\<lparr>st_db := (st_db s)\<lparr>notifications := tbl_insert n (notifications (st_db s))\<rparr>\<rparr>)"
proof -
  have "notification_of ((st_db s)\<lparr>notifications := tbl_insert n (notifications (st_db s))\<rparr>) j =
      (if j = nt_id n then Some n else notification_of (st_db s) j)" for j
    unfolding notification_of_def using tbl_get_insert_fresh [OF assms(2)] by simp
  moreover have "notification_of (st_db s) (nt_id n) = None"
    using assms(2) by (simp add: notification_of_def tbl_get_None)
  ultimately have keep: "map_option nt_status (notification_of (st_db s) j) = Some x \<Longrightarrow>
      map_option nt_status (notification_of ((st_db s)\<lparr>notifications := tbl_insert n (notifications (st_db s))\<rparr>) j) = Some x" for j x
    by auto
  show ?thesis
  proof (rule exclusiveI)
    fix k
    assume "k \<in> set (st_log (s\<lparr>st_db := (st_db s)\<lparr>notifications := tbl_insert n (notifications (st_db s))\<rparr>\<rparr>))"
    then have "k \<in> set (st_log s)" by simp
    from exclusiveD(3) [OF assms(1) this] keep [of k SENT]
    show "map_option nt_status (notification_of (st_db (s\<lparr>st_db := (st_db s)\<lparr>notifications := tbl_insert n (notifications (st_db s))\<rparr>\<rparr>)) k) = Some SENT
      \<or> (\<exists>w m res. st_holds (s\<lparr>st_db := (st_db s)\<lparr>notifications := tbl_insert n (notifications (st_db s))\<rparr>\<rparr>) w = Some (Delivered m res) \<and> nt_id m = k)"
      by auto
  next
    fix w p
    assume "st_holds (s\<lparr>st_db := (st_db s)\<lparr>notifications := tbl_insert n (notifications (st_db s))\<rparr>\<rparr>) w = Some p"
    then have "st_holds s w = Some p" by simp
    from keep [OF exclusiveD(1) [OF assms(1) this]]
    show "map_option nt_status (notification_of (st_db (s\<lparr>st_db := (st_db s)\<lparr>notifications := tbl_insert n (notifications (st_db s))\<rparr>\<rparr>)) (nt_id (held p))) = Some DELIVERING"
      by simp
  qed (use exclusiveD(2,4) [OF assms(1)] in auto)
qed

lemma wstep_exclusive:
  assumes "wstep False tr s t" and "exclusive s"
  shows "exclusive t"
  using assms(1)
proof (cases rule: wstep.cases)
  case (claim w e k n d')
  with assms(2) exclusive_claim show ?thesis by blast
next
  case (deliver w n res)
  with assms(2) exclusive_deliver show ?thesis by blast
next
  case (raise w n x)
  with assms(2) exclusive_raise show ?thesis by blast
next
  case (finish w n res e d')
  then show ?thesis
    using exclusive_release [OF assms(2) finish(2), of "\<lambda>r. r\<lparr>nt_status := SENT, nt_sent_at := Some (now e),
        nt_error_message := Some [], nt_metadata := merge_delivery_result n res, nt_updated_at := now e\<rparr>"]
    by (auto simp: finish_sent_def split: if_splits)
next
  case (fail w n x e)
  then show ?thesis
    using exclusive_release [OF assms(2) fail(2), of "\<lambda>r. r\<lparr>nt_status := FAILED, nt_error_message := Some (exn_text x), nt_updated_at := now e\<rparr>"]
      held_not_logged [OF assms(2) fail(2)]
    by (simp add: finish_failed_def)
next
  case (create n)
  with assms(2) exclusive_create show ?thesis by blast
next
  case (requeue e older ks)
  then show ?thesis by simp
qed

lemma reaches_exclusive: "reaches False tr s t \<Longrightarrow> exclusive s \<Longrightarrow> exclusive t"
  by (induction rule: reaches.induct) (auto intro: wstep_exclusive)

subsection \<open>Delivery at most once, and not beyond\<close>

definition idle_state :: "db \<Rightarrow> delivery_state" where
  "idle_state d = \<lparr>st_db = d, st_holds = (\<lambda>_. None), st_log = []\<rparr>"

lemma exclusive_idle: "exclusive (idle_state d)"
  by (simp add: exclusive_def idle_state_def)


definition mail_note :: notification where
  "mail_note = blank_notification\<lparr>nt_id := 1, nt_channel := EMAIL, nt_recipient := Some 9, nt_message := ''hot''\<rparr>"

definition mail_db :: db where
  "mail_db = empty_db\<lparr>users := [blank_user\<lparr>usr_id := 9, usr_email := ''op@bank''\<rparr>], notifications := [mail_note]\<rparr>"

definition claimed_note :: "time \<Rightarrow> notification" where
  "claimed_note t = mail_note\<lparr>nt_status := DELIVERING, nt_error_message := Some [], nt_updated_at := t\<rparr>"

definition claimed_db :: "time \<Rightarrow> db" where
  "claimed_db t = mail_db\<lparr>notifications := [claimed_note t]\<rparr>"

lemma mail_claim:
  assumes "notifications d = [n]" and "nt_id n = 1" and "nt_status n = PENDING"
  shows "claim_notification_for_delivery (plain_env t) d 1 =
    (Some (n\<lparr>nt_status := DELIVERING, nt_error_message := Some [], nt_updated_at := t\<rparr>),
     d\<lparr>notifications := [n\<lparr>nt_status := DELIVERING, nt_error_message := Some [], nt_updated_at := t\<rparr>]\<rparr>)"
  using assms
  by (simp add: claim_notification_for_delivery_def notification_of_def tbl_get_def claimed_statuses_def
      save_notification_def tbl_update_def plain_env_def Let_def)

lemma mail_claimed:
  "claim_notification_for_delivery (plain_env t) mail_db 1 = (Some (claimed_note t), claimed_db t)"
  using mail_claim [of mail_db mail_note t]
  by (simp add: mail_db_def mail_note_def claimed_note_def claimed_db_def blank_notification_def)

definition mail_transports :: transports where
  "mail_transports = console_transports\<lparr>send_mail := (\<lambda>_ _ _. Inr ())\<rparr>"

lemma mail_delivers: "deliver_notification mail_transports (mail_db\<lparr>notifications := ns\<rparr>) (claimed_note t) = Inr None"
  by (simp add: deliver_notification_def send_email_notification_def recipient_of_def tbl_get_def mail_transports_def
      claimed_note_def mail_db_def mail_note_def blank_defs)

definition after_claim :: delivery_state where
  "after_claim = \<lparr>st_db = claimed_db 0, st_holds = [0 \<mapsto> Claimed (claimed_note 0)], st_log = []\<rparr>"

lemma first_claim: "reaches r tr (idle_state mail_db) after_claim"
proof (rule reach_step [OF reach_refl])
  have "wstep r tr (idle_state mail_db)
      ((idle_state mail_db)\<lparr>st_db := claimed_db 0, st_holds := (st_holds (idle_state mail_db))(0 \<mapsto> Claimed (claimed_note 0))\<rparr>)"
    by (rule wstep.claim [where e = "plain_env 0" and k = 1]) (simp_all add: idle_state_def mail_claimed [simplified])
  then show "wstep r tr (idle_state mail_db) after_claim"
    by (simp add: idle_state_def after_claim_def)
qed


subsection \<open>A requeued claim is sent twice\<close>

definition requeued_note :: notification where
  "requeued_note = (claimed_note 0)\<lparr>nt_status := PENDING, nt_error_message := Some ''Requeued after stale DELIVERING timeout'',
     nt_updated_at := minutes 11\<rparr>"

definition after_send :: delivery_state where
  "after_send = \<lparr>st_db = claimed_db 0, st_holds = [0 \<mapsto> Delivered (claimed_note 0) None], st_log = [1]\<rparr>"

definition after_requeue :: delivery_state where
  "after_requeue = after_send\<lparr>st_db := mail_db\<lparr>notifications := [requeued_note]\<rparr>\<rparr>"

definition second_note :: notification where
  "second_note = claimed_note (minutes 12)"

definition after_second_claim :: delivery_state where
  "after_second_claim = after_requeue\<lparr>st_db := mail_db\<lparr>notifications := [second_note]\<rparr>,
     st_holds := [0 \<mapsto> Delivered (claimed_note 0) None, 1 \<mapsto> Claimed second_note]\<rparr>"

definition after_second_send :: delivery_state where
  "after_second_send = after_second_claim\<lparr>
     st_holds := [0 \<mapsto> Delivered (claimed_note 0) None, 1 \<mapsto> Delivered second_note None], st_log := [1, 1]\<rparr>"

lemma step_send: "wstep r mail_transports after_claim after_send"
proof -
  have "wstep r mail_transports after_claim (after_claim\<lparr>st_holds := (st_holds after_claim)(0 \<mapsto> Delivered (claimed_note 0) None),
      st_log := nt_id (claimed_note 0) # st_log after_claim\<rparr>)"
    by (rule wstep.deliver) (simp_all add: after_claim_def claimed_db_def mail_delivers)
  then show ?thesis by (simp add: after_claim_def after_send_def claimed_note_def mail_note_def)
qed

lemma requeue_note:
  "requeue_matched (plain_env (minutes 11)) 10 [1] (claimed_db 0) = ([requeued_note], mail_db\<lparr>notifications := [requeued_note]\<rparr>)"
  by (simp add: requeue_matched_def still_stale_def claimed_db_def claimed_note_def mail_note_def requeued_note_def
      blank_notification_def plain_env_def minutes_def)

lemma step_requeue: "wstep True tr after_send after_requeue"
proof -
  have "wstep True tr after_send
      (after_send\<lparr>st_db := snd (requeue_matched (plain_env (minutes 11)) 10 [1] (st_db after_send))\<rparr>)"
    by (rule wstep.requeue) simp
  then show ?thesis by (simp add: after_send_def after_requeue_def requeue_note [simplified])
qed

lemma requeued_claim:
  "claim_notification_for_delivery (plain_env (minutes 12)) (mail_db\<lparr>notifications := [requeued_note]\<rparr>) 1 =
    (Some second_note, mail_db\<lparr>notifications := [second_note]\<rparr>)"
  using mail_claim [of "mail_db\<lparr>notifications := [requeued_note]\<rparr>" requeued_note "minutes 12"]
  by (simp add: requeued_note_def second_note_def claimed_note_def mail_note_def blank_notification_def)

lemma step_second_claim: "wstep r tr after_requeue after_second_claim"
proof -
  have "wstep r tr after_requeue (after_requeue\<lparr>st_db := mail_db\<lparr>notifications := [second_note]\<rparr>,
      st_holds := (st_holds after_requeue)(1 \<mapsto> Claimed second_note)\<rparr>)"
    by (rule wstep.claim [where e = "plain_env (minutes 12)" and k = 1])
      (simp_all add: after_requeue_def after_send_def requeued_claim [simplified])
  then show ?thesis by (simp add: after_requeue_def after_send_def after_second_claim_def)
qed

lemma step_second_send: "wstep r mail_transports after_second_claim after_second_send"
proof -
  have "wstep r mail_transports after_second_claim
      (after_second_claim\<lparr>st_holds := (st_holds after_second_claim)(1 \<mapsto> Delivered second_note None),
        st_log := nt_id second_note # st_log after_second_claim\<rparr>)"
    by (rule wstep.deliver) (simp_all add: after_second_claim_def second_note_def mail_delivers)
  then show ?thesis
    by (simp add: after_second_claim_def after_second_send_def after_requeue_def after_send_def second_note_def
        claimed_note_def mail_note_def)
qed

text \<open>
  The stale requeue gives up exclusion: a worker that sends an e-mail and is slow to record
  it has its claim requeued after ten minutes, and a second worker then sends the same e-mail
  again. The run is one claim, one send, one requeue, one claim and one send.
\<close>

theorem requeue_sends_twice:
  "\<exists>s. reaches True mail_transports (idle_state mail_db) s \<and> st_log s = [1, 1]
    \<and> (\<exists>v w p q. v \<noteq> w \<and> st_holds s v = Some p \<and> st_holds s w = Some q \<and> nt_id (held p) = nt_id (held q))"
proof -
  have "reaches True mail_transports (idle_state mail_db) after_second_send"
    by (rule reach_step [OF reach_step [OF reach_step [OF reach_step [OF first_claim step_send] step_requeue]
        step_second_claim] step_second_send])
  moreover have "st_log after_second_send = [1, 1]" by (simp add: after_second_send_def)
  moreover have "st_holds after_second_send 0 = Some (Delivered (claimed_note 0) None)"
    "st_holds after_second_send 1 = Some (Delivered second_note None)"
    by (simp_all add: after_second_send_def)
  moreover have "nt_id (held (Delivered (claimed_note 0) None)) = nt_id (held (Delivered second_note None))"
    by (simp add: second_note_def claimed_note_def)
  moreover have "(0 :: nat) \<noteq> 1" by simp
  ultimately have "reaches True mail_transports (idle_state mail_db) after_second_send \<and> st_log after_second_send = [1, 1]
    \<and> (\<exists>v w p q. v \<noteq> w \<and> st_holds after_second_send v = Some p \<and> st_holds after_second_send w = Some q
         \<and> nt_id (held p) = nt_id (held q))" by blast
  then show ?thesis by (rule exI)
qed

end
