(* ===== verification/Normalization.thy ===== *)
theory Normalization
  imports Dcim_Models
begin

text \<open>
  From a raw reading to the value columns of a telemetry row:
  \<open>collectors/common/snmp_normalization.py\<close> (the SNMP chain: parse by the mapping's data type,
  scale, store by the metric's data type) and \<open>collectors/common/value_converter.py\<close> (the Modbus
  chain). A Decimal is the rational it denotes; \<open>round_decimal\<close> of the environment is the rounding
  of the Decimal context, \<open>round_float\<close> that of a double. A Decimal or double that is infinite or
  NaN is left out, as in \<open>Py_Value\<close>.
\<close>

subsection \<open>Labels and numbers\<close>

definition TRUE_VALUES :: "string set" where
  "TRUE_VALUES = {''1'', ''true'', ''yes'', ''on'', ''online'', ''ok'', ''active''}"

definition FALSE_VALUES :: "string set" where
  "FALSE_VALUES = {''0'', ''false'', ''no'', ''off'', ''offline'', ''inactive''}"

definition INTEGER_MAPPING_TYPES :: "string set" where
  "INTEGER_MAPPING_TYPES = {''INTEGER'', ''INT'', ''COUNTER'', ''GAUGE'', ''UINT16'', ''UINT32'', ''INT16'', ''INT32'', ''UINT64'', ''INT64''}"

definition NUMERIC_MAPPING_TYPES :: "string set" where
  "NUMERIC_MAPPING_TYPES = {''FLOAT'', ''FLOAT32'', ''FLOAT64''} \<union> INTEGER_MAPPING_TYPES"

definition TEXT_MAPPING_TYPES :: "string set" where
  "TEXT_MAPPING_TYPES = {''TEXT'', ''STRING'', ''STR''}"

definition BOOL_MAPPING_TYPES :: "string set" where
  "BOOL_MAPPING_TYPES = {''BOOLEAN'', ''BOOL''}"

definition normalize_type_label :: "env \<Rightarrow> py \<Rightarrow> string" where
  "normalize_type_label e v = upper (strip (py_str e (if truthy v then v else PStr [])))"

text \<open>A raw value is a Python value or an object of the SNMP library, known by its \<open>prettyPrint\<close>.\<close>

datatype raw = Plain py | Pretty string

definition raw_text :: "env \<Rightarrow> raw \<Rightarrow> string" where
  "raw_text e v = (case v of Plain PNone \<Rightarrow> [] | Pretty s \<Rightarrow> s | Plain p \<Rightarrow> py_str e p)"

definition decimal_of_str :: "string \<Rightarrow> exn + rat" where
  "decimal_of_str s = (case parse_number (strip s) of None \<Rightarrow> Inl DecimalInvalidOperation | Some r \<Rightarrow> Inr r)"

definition to_decimal :: "env \<Rightarrow> py \<Rightarrow> exn + rat" where
  "to_decimal e v = (case v of
      PDec r \<Rightarrow> Inr r
    | PBool b \<Rightarrow> Inr (if b then 1 else 0)
    | _ \<Rightarrow> decimal_of_str (py_str e v))"

definition coerce_bool :: "env \<Rightarrow> py \<Rightarrow> bool" where
  "coerce_bool e v = (case v of
      PBool b \<Rightarrow> b
    | PInt i \<Rightarrow> i \<noteq> 0
    | PFloat r \<Rightarrow> r \<noteq> 0
    | PDec r \<Rightarrow> r \<noteq> 0
    | _ \<Rightarrow> (let text = lower (strip (raw_text e (Plain v))) in
        if text \<in> TRUE_VALUES then True
        else if text \<in> FALSE_VALUES then False
        else text \<noteq> []))"

definition is_integral :: "rat \<Rightarrow> bool" where
  "is_integral r = (of_int \<lfloor>r\<rfloor> = r)"

definition float_of :: "env \<Rightarrow> py \<Rightarrow> exn + rat" where
  "float_of e v = (case v of
      PFloat r \<Rightarrow> Inr r
    | _ \<Rightarrow> (case py_float v of Inl x \<Rightarrow> Inl x | Inr r \<Rightarrow> Inr (round_float e r)))"

text \<open>\<open>int(value)\<close> of an integral Decimal, \<open>float(value)\<close> of any other.\<close>

definition int_or_float :: "env \<Rightarrow> rat \<Rightarrow> py" where
  "int_or_float e r = (if is_integral r then PInt \<lfloor>r\<rfloor> else PFloat (round_float e r))"

text \<open>\<open>int\<close> cuts toward zero; \<open>ROUND_HALF_UP\<close> rounds to the nearest, ties away from zero.\<close>

definition truncate :: "rat \<Rightarrow> int" where
  "truncate r = (if 0 \<le> r then \<lfloor>r\<rfloor> else - \<lfloor>- r\<rfloor>)"

definition round_half_up :: "rat \<Rightarrow> int" where
  "round_half_up r = (if 0 \<le> r then \<lfloor>r + 1 / 2\<rfloor> else - \<lfloor>- r + 1 / 2\<rfloor>)"

text \<open>\<open>quantize\<close> raises where the result has more digits than the context's 28.\<close>

definition quantize_half_up :: "rat \<Rightarrow> exn + int" where
  "quantize_half_up r =
     (let i = round_half_up r in if 10 ^ 28 \<le> \<bar>i\<bar> then Inl DecimalInvalidOperation else Inr i)"

subsection \<open>Parsing and scaling\<close>

definition parse_snmp_raw_value :: "env \<Rightarrow> raw \<Rightarrow> py \<Rightarrow> py" where
  "parse_snmp_raw_value e v mapping_data_type =
     (let data_type = normalize_type_label e mapping_data_type; text = raw_text e v in
      if data_type = [] \<or> data_type \<in> TEXT_MAPPING_TYPES then PStr text
      else if data_type \<in> BOOL_MAPPING_TYPES then PBool (coerce_bool e (PStr text))
      else if data_type \<in> NUMERIC_MAPPING_TYPES then
        (case to_decimal e (PStr text) of
           Inl _ \<Rightarrow> PStr text
         | Inr n \<Rightarrow> if data_type \<in> INTEGER_MAPPING_TYPES then int_or_float e n else PFloat (round_float e n))
      else PStr text)"

definition scaled :: "env \<Rightarrow> rat \<Rightarrow> rat \<Rightarrow> rat \<Rightarrow> rat" where
  "scaled e v scale off = round_decimal e (round_decimal e (v * scale) + off)"

definition scale_number :: "env \<Rightarrow> py \<Rightarrow> py \<Rightarrow> py \<Rightarrow> exn + rat" where
  "scale_number e v scale off =
     (case to_decimal e v of Inl x \<Rightarrow> Inl x | Inr a \<Rightarrow>
      case to_decimal e scale of Inl x \<Rightarrow> Inl x | Inr b \<Rightarrow>
      case to_decimal e off of Inl x \<Rightarrow> Inl x | Inr c \<Rightarrow> Inr (scaled e a b c))"

definition apply_scale_offset :: "env \<Rightarrow> py \<Rightarrow> py \<Rightarrow> py \<Rightarrow> exn + py" where
  "apply_scale_offset e parsed scale_factor offset_value =
     (case parsed of
        PBool b \<Rightarrow>
          (case to_decimal e scale_factor of Inl x \<Rightarrow> Inl x | Inr scale \<Rightarrow>
           case to_decimal e offset_value of Inl x \<Rightarrow> Inl x | Inr off \<Rightarrow>
           if scale = 1 \<and> off = 0 then Inr parsed
           else Inr (int_or_float e (scaled e (if b then 1 else 0) scale off)))
      | PInt _ \<Rightarrow> (case scale_number e parsed scale_factor offset_value of Inl _ \<Rightarrow> Inr parsed | Inr v \<Rightarrow> Inr (int_or_float e v))
      | PFloat _ \<Rightarrow> (case scale_number e parsed scale_factor offset_value of Inl _ \<Rightarrow> Inr parsed | Inr v \<Rightarrow> Inr (int_or_float e v))
      | PDec _ \<Rightarrow> (case scale_number e parsed scale_factor offset_value of Inl _ \<Rightarrow> Inr parsed | Inr v \<Rightarrow> Inr (int_or_float e v))
      | _ \<Rightarrow> Inr parsed)"

subsection \<open>Storing\<close>

definition text_column :: "env \<Rightarrow> py \<Rightarrow> value_cols" where
  "text_column e v = no_value\<lparr>value_text := Some (py_str e v)\<rparr>"

definition integer_column :: "env \<Rightarrow> py \<Rightarrow> exn + int" where
  "integer_column e v = (case to_decimal e v of Inl x \<Rightarrow> Inl x | Inr n \<Rightarrow> quantize_half_up n)"

definition store_value_by_metric_type :: "env \<Rightarrow> py \<Rightarrow> py \<Rightarrow> value_cols" where
  "store_value_by_metric_type e metric_data_type final =
     (let metric_type = normalize_type_label e metric_data_type in
      if final = PNone then no_value
      else if metric_type = metric_type_value FLOAT then
        (case float_of e final of Inl _ \<Rightarrow> text_column e final | Inr r \<Rightarrow> no_value\<lparr>value_float := Some r\<rparr>)
      else if metric_type = metric_type_value INTEGER then
        (case integer_column e final of Inl _ \<Rightarrow> text_column e final | Inr i \<Rightarrow> no_value\<lparr>value_integer := Some i\<rparr>)
      else if metric_type = metric_type_value BOOLEAN then no_value\<lparr>value_boolean := Some (coerce_bool e final)\<rparr>
      else text_column e final)"

text \<open>The collector's composition of the steps (\<open>_apply_scale\<close>, \<open>_value_payload\<close>).\<close>

definition apply_scale :: "env \<Rightarrow> raw \<Rightarrow> oid_mapping \<Rightarrow> exn + py" where
  "apply_scale e v m = apply_scale_offset e (parse_snmp_raw_value e v (PStr (om_data_type m)))
     (PDec (om_scale_factor m)) (PDec (om_offset_value m))"

definition value_payload :: "env \<Rightarrow> metric_data_type \<Rightarrow> py \<Rightarrow> value_cols" where
  "value_payload e t v = store_value_by_metric_type e (PStr (metric_type_value t)) v"

text \<open>
  The quality of a stored reading: BAD where the column of the metric's type stayed empty, for a
  text also where it is the empty text. The bulk writer falls back on the reading's own quality,
  the SNMP collector on GOOD.
\<close>

definition quality_for_metric :: "env \<Rightarrow> py \<Rightarrow> value_cols \<Rightarrow> telemetry_quality \<Rightarrow> telemetry_quality" where
  "quality_for_metric e metric_data_type payload fallback_quality =
     (let metric_type = normalize_type_label e metric_data_type in
      if metric_type = ''FLOAT'' \<and> value_float payload = None then BAD
      else if metric_type = ''INTEGER'' \<and> value_integer payload = None then BAD
      else if metric_type = ''BOOLEAN'' \<and> value_boolean payload = None then BAD
      else if metric_type \<in> TEXT_MAPPING_TYPES \<and> value_text payload \<in> {None, Some []} then BAD
      else fallback_quality)"

definition snmp_quality_for_metric :: "env \<Rightarrow> py \<Rightarrow> value_cols \<Rightarrow> telemetry_quality" where
  "snmp_quality_for_metric e metric_data_type payload =
     (let metric_type = normalize_type_label e metric_data_type in
      if metric_type = ''FLOAT'' \<and> value_float payload = None then BAD
      else if metric_type = ''INTEGER'' \<and> value_integer payload = None then BAD
      else if metric_type = ''BOOLEAN'' \<and> value_boolean payload = None then BAD
      else if metric_type \<in> TEXT_MAPPING_TYPES \<and> value_text payload \<in> {None, Some []} then BAD
      else GOOD)"

text \<open>The Modbus chain: \<open>Decimal(str(raw_value))\<close>, so a bool is no number, and \<open>int\<close> of the result.\<close>

definition normalize_value :: "env \<Rightarrow> py \<Rightarrow> string \<Rightarrow> py \<Rightarrow> py \<Rightarrow> py" where
  "normalize_value e v data_type scale_factor offset_value =
     (let dt = lower (if data_type = [] then ''float'' else data_type) in
      if v = PNone then PNone
      else if dt \<in> {''float'', ''float32'', ''float64'', ''integer'', ''int'', ''uint16'', ''int16'', ''uint32'', ''int32'', ''counter'', ''gauge''} then
        (case decimal_of_str (py_str e v) of Inl _ \<Rightarrow> PNone | Inr a \<Rightarrow>
         case decimal_of_str (py_str e scale_factor) of Inl _ \<Rightarrow> PNone | Inr b \<Rightarrow>
         case decimal_of_str (py_str e offset_value) of Inl _ \<Rightarrow> PNone | Inr c \<Rightarrow>
         if dt \<in> {''integer'', ''int'', ''uint16'', ''int16'', ''uint32'', ''int32'', ''counter'', ''gauge''}
         then PInt (truncate (scaled e a b c)) else PFloat (round_float e (scaled e a b c)))
      else if dt \<in> {''bool'', ''boolean''} then
        (case v of PStr s \<Rightarrow> PBool (lower (strip s) \<in> TRUE_VALUES) | _ \<Rightarrow> PBool (truthy v))
      else PStr (py_str e v))"

end
