(* ===== verification/Telemetry_Writer.thy ===== *)
theory Telemetry_Writer
  imports Normalization
begin

text \<open>
  The three ways a reading becomes rows: the collectors' bulk write
  (\<open>collectors/common/telemetry_writer.py\<close>), the single point (\<open>apps/telemetry/services/ingestion.py\<close>)
  and the ingestion of API payloads (\<open>apps/telemetry/services/__init__.py\<close>). Each appends to the
  history and writes the latest row of a device and metric by \<open>update_or_create\<close>. The database
  refuses an integer outside 64 bits (\<open>BigIntegerField\<close>) with \<open>DataError\<close>.
\<close>

subsection \<open>The latest rows\<close>

definition bigint_ok :: "value_cols \<Rightarrow> bool" where
  "bigint_ok p = (case value_integer p of None \<Rightarrow> True | Some i \<Rightarrow> - (2 ^ 63) \<le> i \<and> i < 2 ^ 63)"

definition latest_key :: "latest_telemetry \<Rightarrow> uuid \<times> uuid" where
  "latest_key l = (lt_device l, lt_metric l)"

definition find_latest :: "uuid \<times> uuid \<Rightarrow> db \<Rightarrow> latest_telemetry option" where
  "find_latest k d = find (\<lambda>l. latest_key l = k) (latest_rows d)"

text \<open>\<open>update_or_create(device=..., metric=..., defaults=...)\<close>: the row's key is kept or new.\<close>

definition put_latest :: "latest_telemetry \<Rightarrow> db \<Rightarrow> db" where
  "put_latest r d = (case find_latest (latest_key r) d of
      Some l \<Rightarrow> d\<lparr>latest_rows := tbl_update lt_id (lt_id l) (\<lambda>_. r\<lparr>lt_id := lt_id l\<rparr>) (latest_rows d)\<rparr>
    | None \<Rightarrow> d\<lparr>latest_rows := tbl_insert (r\<lparr>lt_id := fresh_key lt_id (latest_rows d)\<rparr>) (latest_rows d)\<rparr>)"

definition insert_point :: "telemetry_point \<Rightarrow> db \<Rightarrow> db" where
  "insert_point p d = d\<lparr>points := tbl_insert p (points d)\<rparr>"

text \<open>The latest row that goes with a point.\<close>

definition latest_of_point :: "telemetry_point \<Rightarrow> latest_telemetry" where
  "latest_of_point p = \<lparr>lt_id = 0, lt_organization = tp_organization p, lt_data_center = tp_data_center p,
     lt_device = tp_device p, lt_metric = tp_metric p, lt_values = tp_values p,
     lt_raw_value_text = tp_raw_value_text p, lt_quality = tp_quality p, lt_last_seen_at = tp_time p,
     lt_source = tp_source p\<rparr>"

subsection \<open>The bulk write of a poll\<close>

record reading =
  rd_metric :: metric
  rd_value :: py
  rd_quality :: "telemetry_quality option"
  rd_raw_value_text :: "string option"

definition payload_for :: "env \<Rightarrow> reading \<Rightarrow> value_cols" where
  "payload_for e r = store_value_by_metric_type e (PStr (metric_type_value (me_data_type (rd_metric r)))) (rd_value r)"

definition point_of_reading ::
    "env \<Rightarrow> uuid \<Rightarrow> uuid \<Rightarrow> device \<Rightarrow> string option \<Rightarrow> uuid option \<Rightarrow> time \<Rightarrow> reading \<Rightarrow> telemetry_point" where
  "point_of_reading e org dc dev source ingest ts r =
     (let payload = payload_for e r in
      \<lparr>tp_time = ts, tp_organization = org, tp_data_center = dc, tp_device = dev_id dev,
       tp_metric = me_id (rd_metric r), tp_values = payload, tp_raw_value_text = rd_raw_value_text r,
       tp_quality = quality_for_metric e (PStr (metric_type_value (me_data_type (rd_metric r)))) payload
         (case rd_quality r of None \<Rightarrow> GOOD | Some q \<Rightarrow> q),
       tp_source = source, tp_ingest_id = ingest\<rparr>)"

fun upsert_points :: "telemetry_point list \<Rightarrow> db \<Rightarrow> (exn + unit) \<times> db" where
  "upsert_points [] d = (Inr (), d)"
| "upsert_points (p # ps) d =
     (if bigint_ok (tp_values p) then upsert_points ps (put_latest (latest_of_point p) d) else (Inl DataError, d))"

definition bulk_create_points :: "telemetry_point list \<Rightarrow> db \<Rightarrow> (exn + unit) \<times> db" where
  "bulk_create_points ps d =
     (if list_all (\<lambda>p. bigint_ok (tp_values p)) ps then (Inr (), d\<lparr>points := points d @ ps\<rparr>) else (Inl DataError, d))"

definition write_device_telemetry_bulk ::
    "env \<Rightarrow> uuid \<Rightarrow> uuid \<Rightarrow> device \<Rightarrow> reading list \<Rightarrow> string option \<Rightarrow> uuid option \<Rightarrow> time option \<Rightarrow> db
      \<Rightarrow> (exn + nat) \<times> db" where
  "write_device_telemetry_bulk e org dc dev readings source ingest timestamp =
     atomic (\<lambda>d.
       let ts = (case timestamp of None \<Rightarrow> now e | Some t \<Rightarrow> t);
           ps = map (point_of_reading e org dc dev source ingest ts) readings
       in case bulk_create_points ps d of
            (Inl x, d1) \<Rightarrow> (Inl x, d1)
          | (Inr _, d1) \<Rightarrow> (case upsert_points ps d1 of
              (Inl x, d2) \<Rightarrow> (Inl x, d2)
            | (Inr _, d2) \<Rightarrow> (Inr (length ps), d2)))"

subsection \<open>A single point\<close>

text \<open>Here the column follows the Python type of the value, not the metric.\<close>

definition typed_columns :: "env \<Rightarrow> py \<Rightarrow> value_cols" where
  "typed_columns e v = (case v of
      PBool b \<Rightarrow> no_value\<lparr>value_boolean := Some b\<rparr>
    | PInt i \<Rightarrow> no_value\<lparr>value_integer := Some i\<rparr>
    | PFloat r \<Rightarrow> no_value\<lparr>value_float := Some r\<rparr>
    | PDec r \<Rightarrow> if is_integral r then no_value\<lparr>value_integer := Some \<lfloor>r\<rfloor>\<rparr>
        else no_value\<lparr>value_float := Some (round_float e r)\<rparr>
    | _ \<Rightarrow> no_value\<lparr>value_text := Some (py_str e v)\<rparr>)"

definition store_telemetry_point ::
    "env \<Rightarrow> device \<Rightarrow> metric \<Rightarrow> py \<Rightarrow> string option \<Rightarrow> telemetry_quality \<Rightarrow> uuid option \<Rightarrow> time option \<Rightarrow> db
      \<Rightarrow> (exn + telemetry_point) \<times> db" where
  "store_telemetry_point e dev me v source quality ingest ts d =
     (let p = \<lparr>tp_time = (case ts of None \<Rightarrow> now e | Some t \<Rightarrow> t), tp_organization = dev_organization dev,
            tp_data_center = dev_data_center dev, tp_device = dev_id dev, tp_metric = me_id me,
            tp_values = typed_columns e v, tp_raw_value_text = Some (py_str e v), tp_quality = quality,
            tp_source = source, tp_ingest_id = ingest\<rparr>
      in if bigint_ok (tp_values p)
         then (Inr p, put_latest (latest_of_point p) (insert_point p d))
         else (Inl DataError, d))"

subsection \<open>Ingestion from the API\<close>

record ingest_item =
  it_device :: uuid
  it_metric_code :: string
  it_time :: "time option"
  it_values :: value_cols
  it_raw_value_text :: "string option"
  it_quality :: "telemetry_quality option"
  it_source :: "string option"

definition point_of_item :: "env \<Rightarrow> string \<Rightarrow> uuid \<Rightarrow> device \<Rightarrow> metric \<Rightarrow> ingest_item \<Rightarrow> telemetry_point" where
  "point_of_item e source ingest dev me it =
     \<lparr>tp_time = (case it_time it of None \<Rightarrow> now e | Some t \<Rightarrow> t), tp_organization = dev_organization dev,
      tp_data_center = dev_data_center dev, tp_device = dev_id dev, tp_metric = me_id me,
      tp_values = it_values it, tp_raw_value_text = it_raw_value_text it,
      tp_quality = (case it_quality it of None \<Rightarrow> GOOD | Some q \<Rightarrow> q),
      tp_source = Some (str_or (it_source it) source), tp_ingest_id = Some ingest\<rparr>"

definition device_seen :: "uuid \<Rightarrow> time \<Rightarrow> db \<Rightarrow> db" where
  "device_seen k t d =
     d\<lparr>devices := tbl_update dev_id k (\<lambda>r. r\<lparr>dev_last_seen_at := Some t, dev_status := ONLINE\<rparr>) (devices d)\<rparr>"

definition metric_by_code :: "db \<Rightarrow> string \<Rightarrow> metric option" where
  "metric_by_code d code = find (\<lambda>m. me_code m = code) (metrics d)"

fun ingest_items :: "env \<Rightarrow> string \<Rightarrow> uuid \<Rightarrow> ingest_item list \<Rightarrow> db \<Rightarrow> (exn + telemetry_point list) \<times> db" where
  "ingest_items e source ingest [] d = (Inr [], d)"
| "ingest_items e source ingest (it # rest) d =
     (case deref (device_of d (it_device it)) of Inl x \<Rightarrow> (Inl x, d) | Inr dev \<Rightarrow>
      case deref (metric_by_code d (it_metric_code it)) of Inl x \<Rightarrow> (Inl x, d) | Inr me \<Rightarrow>
      (let p = point_of_item e source ingest dev me it in
       if \<not> bigint_ok (tp_values p) then (Inl DataError, d)
       else (case ingest_items e source ingest rest
               (device_seen (dev_id dev) (tp_time p) (put_latest (latest_of_point p) (insert_point p d))) of
           (Inl x, d') \<Rightarrow> (Inl x, d')
         | (Inr ps, d') \<Rightarrow> (Inr (p # ps), d'))))"

definition ingest_log_row :: "env \<Rightarrow> string \<Rightarrow> uuid \<Rightarrow> telemetry_point list \<Rightarrow> ingest_log" where
  "ingest_log_row e source ingest created =
     \<lparr>il_ingest_id = ingest, il_device = map_option tp_device (first_row created), il_protocol = source,
      il_status = ''SUCCESS'', il_raw_payload = [(''point_count'', PInt (int (length created)))],
      il_error_message = None, il_started_at = now e, il_finished_at = Some (now e), il_duration_ms = Some 0\<rparr>"

definition ingest_points ::
    "env \<Rightarrow> uuid \<Rightarrow> ingest_item list \<Rightarrow> string \<Rightarrow> db \<Rightarrow> (exn + uuid \<times> telemetry_point list) \<times> db" where
  "ingest_points e ingest items source =
     atomic (\<lambda>d. case ingest_items e source ingest items d of
         (Inl x, d') \<Rightarrow> (Inl x, d')
       | (Inr created, d') \<Rightarrow>
           (Inr (ingest, created), d'\<lparr>ingest_logs := ingest_logs d' @ [ingest_log_row e source ingest created]\<rparr>))"

end
