(* ===== verification/Normalization_Props.thy ===== *)
theory Normalization_Props
  imports Normalization
begin

text \<open>
  What the two normalisation chains store: the column and quality a value ends in, the exact
  number of an integer reading on both chains, and what becomes of a reading that is no number.
\<close>

subsection \<open>Numbers and their text\<close>

lemma strip_id: "(\<forall>c \<in> set s. \<not> is_space c) \<Longrightarrow> strip s = s"
proof -
  assume a: "\<forall>c \<in> set s. \<not> is_space c"
  then have "dropWhile is_space s = s" by (cases s) auto
  moreover from a have "dropWhile is_space (rev s) = rev s" by (cases "rev s") auto
  ultimately show ?thesis by (simp add: strip_def)
qed

lemma digit_not_space: "is_digit c \<Longrightarrow> \<not> is_space c"
  by (auto simp: is_digit_def is_space_def Let_def)

lemma minus_not_space: "\<not> is_space CHR ''-''"
  by (simp add: is_space_def)

lemma strip_str_int [simp]: "strip (str_int i) = str_int i"
  using str_nat_digits digit_not_space minus_not_space
  by (intro strip_id) (auto simp: str_int_def split: if_splits)

lemma parse_number_minus: "take_sign s = (False, s) \<Longrightarrow> parse_number (CHR ''-'' # s) = map_option uminus (parse_number s)"
  by (simp add: parse_number_def take_sign_def Let_def split: option.splits)

lemma str_nat_nosign: "take_sign (str_nat n) = (False, str_nat n)"
proof (cases "str_nat n")
  case Nil
  then show ?thesis by simp
next
  case (Cons c cs)
  with str_nat_digits [of c n] have "is_digit c" by simp
  then have "c \<noteq> CHR ''-''" "c \<noteq> CHR ''+''" by (auto simp: is_digit_def)
  with Cons show ?thesis by (simp add: take_sign_def)
qed

lemma str_int_number [simp]: "parse_number (str_int i) = Some (of_int i)"
  by (simp add: str_int_def parse_number_minus str_nat_nosign str_nat_number)

lemma to_decimal_simps [simp]:
  "to_decimal e (PDec r) = Inr r"
  "to_decimal e (PBool b) = Inr (if b then 1 else 0)"
  "to_decimal e (PInt i) = Inr (of_int i)"
  "to_decimal e (PStr s) = decimal_of_str s"
  by (simp_all add: to_decimal_def decimal_of_str_def py_str_def)

lemma is_integral_iff: "is_integral r \<longleftrightarrow> (\<exists>i. r = of_int i)"
  by (auto simp: is_integral_def intro: exI [of _ "\<lfloor>r\<rfloor>"])

lemma int_or_float_int [simp]: "int_or_float e (of_int i) = PInt i"
  by (simp add: int_or_float_def is_integral_def)

lemma truncate_of_int [simp]: "truncate (of_int i) = i"
  by (simp add: truncate_def flip: of_int_minus)

lemma round_half_up_of_int [simp]: "round_half_up (of_int i) = i"
  by (simp add: round_half_up_def floor_eq_iff)

subsection \<open>Rounding\<close>

lemma floor_facts: "of_int \<lfloor>x::rat\<rfloor> \<le> x" "x < of_int \<lfloor>x\<rfloor> + 1"
  by (rule of_int_floor_le) linarith

lemma of_int_truncate:
  "0 \<le> r \<Longrightarrow> of_int (truncate r) = of_int \<lfloor>r\<rfloor>"
  "\<not> 0 \<le> r \<Longrightarrow> of_int (truncate r) = - of_int \<lfloor>- r\<rfloor>"
  by (simp_all add: truncate_def)

lemma truncate_bounds: "\<bar>of_int (truncate r)\<bar> \<le> \<bar>r\<bar>" "\<bar>r - of_int (truncate r)\<bar> < 1"
proof -
  have "\<bar>of_int (truncate r)\<bar> \<le> \<bar>r\<bar> \<and> \<bar>r - of_int (truncate r)\<bar> < 1"
  proof (cases "0 \<le> r")
    case True
    then have "(0::rat) \<le> of_int \<lfloor>r\<rfloor>" by simp
    with floor_facts [of r] show ?thesis unfolding of_int_truncate(1) [OF True] by (intro conjI; linarith)
  next
    case False
    then have "(0::rat) \<le> of_int \<lfloor>- r\<rfloor>" by simp
    with False floor_facts [of "- r"] show ?thesis unfolding of_int_truncate(2) [OF False] by (intro conjI; linarith)
  qed
  then show "\<bar>of_int (truncate r)\<bar> \<le> \<bar>r\<bar>" "\<bar>r - of_int (truncate r)\<bar> < 1" by blast+
qed

lemma round_half_up_nearest: "\<bar>r - of_int (round_half_up r)\<bar> \<le> 1 / 2"
proof (cases "0 \<le> r")
  case True
  then have "rat_of_int (round_half_up r) = of_int \<lfloor>r + 1 / 2\<rfloor>" by (simp add: round_half_up_def)
  with floor_facts [of "r + 1 / 2"] show ?thesis by linarith
next
  case False
  then have "rat_of_int (round_half_up r) = - of_int \<lfloor>- r + 1 / 2\<rfloor>" by (simp add: round_half_up_def)
  with floor_facts [of "- r + 1 / 2"] show ?thesis by linarith
qed

text \<open>The two roundings agree exactly on the values less than a half away from the cut.\<close>

lemma floor_half: "\<lfloor>x\<rfloor> = \<lfloor>x + 1 / 2\<rfloor> \<longleftrightarrow> x - of_int \<lfloor>x\<rfloor> < 1 / 2" for x :: rat
proof -
  have "\<lfloor>x + 1 / 2\<rfloor> = \<lfloor>x\<rfloor> \<longleftrightarrow> of_int \<lfloor>x\<rfloor> \<le> x + 1 / 2 \<and> x + 1 / 2 < of_int \<lfloor>x\<rfloor> + 1"
    by (rule floor_eq_iff)
  with floor_facts [of x] show ?thesis by linarith
qed

lemma truncate_round: "truncate r = round_half_up r \<longleftrightarrow> \<bar>r - of_int (truncate r)\<bar> < 1 / 2"
proof (cases "0 \<le> r")
  case True
  with floor_facts [of r] floor_half [of r] show ?thesis by (simp add: truncate_def round_half_up_def)
next
  case False
  have "\<bar>r - of_int (truncate r)\<bar> = - r - of_int \<lfloor>- r\<rfloor>"
    using floor_facts [of "- r"] unfolding of_int_truncate(2) [OF False] by linarith
  then show ?thesis
    using False floor_half [of "- r"] by (simp add: truncate_def round_half_up_def)
qed

subsection \<open>Storing\<close>

lemma label_metric_type [simp]: "normalize_type_label e (PStr (metric_type_value t)) = metric_type_value t"
  by (cases t) (simp_all add: normalize_type_label_def py_str_def strip_def upper_def upper_char_def is_space_def Let_def)

lemma metric_type_value_eq [simp]: "metric_type_value a = metric_type_value b \<longleftrightarrow> a = b"
  by (cases a; cases b) simp_all

lemma value_payload_simps [simp]:
  "value_payload e t PNone = no_value"
  "v \<noteq> PNone \<Longrightarrow> value_payload e FLOAT v =
     (case float_of e v of Inl _ \<Rightarrow> text_column e v | Inr r \<Rightarrow> no_value\<lparr>value_float := Some r\<rparr>)"
  "v \<noteq> PNone \<Longrightarrow> value_payload e INTEGER v =
     (case integer_column e v of Inl _ \<Rightarrow> text_column e v | Inr i \<Rightarrow> no_value\<lparr>value_integer := Some i\<rparr>)"
  "v \<noteq> PNone \<Longrightarrow> value_payload e BOOLEAN v = no_value\<lparr>value_boolean := Some (coerce_bool e v)\<rparr>"
  "v \<noteq> PNone \<Longrightarrow> value_payload e TEXT v = text_column e v"
  by (simp_all add: value_payload_def store_value_by_metric_type_def Let_def del: metric_type_value.simps)

lemma set_columns_simps [simp]:
  "set_columns no_value = 0"
  "set_columns (no_value\<lparr>value_float := Some r\<rparr>) = 1"
  "set_columns (no_value\<lparr>value_integer := Some i\<rparr>) = 1"
  "set_columns (no_value\<lparr>value_boolean := Some b\<rparr>) = 1"
  "set_columns (text_column e v) = 1"
  by (simp_all add: set_columns_def no_value_def text_column_def)

lemma payload_one_column: "set_columns (value_payload e t v) = (if v = PNone then 0 else 1)"
  by (cases "v = PNone"; cases t) (simp_all split: sum.splits)

text \<open>
  What a metric of each type can hold, read off the value alone: a number for a numeric metric (for
  an integer one of at most 28 digits), any value for a boolean one, any text but the empty one.
\<close>

definition number_in :: "env \<Rightarrow> py \<Rightarrow> rat option" where
  "number_in e v = (case v of
      PNone \<Rightarrow> None
    | PStr s \<Rightarrow> parse_number (strip s)
    | PFloat r \<Rightarrow> parse_number (strip (fmt_py e v))
    | PList _ \<Rightarrow> parse_number (strip (fmt_py e v))
    | PDict _ \<Rightarrow> parse_number (strip (fmt_py e v))
    | _ \<Rightarrow> numeric v)"

fun readable :: "env \<Rightarrow> metric_data_type \<Rightarrow> py \<Rightarrow> bool" where
  "readable e FLOAT v = (case v of PStr s \<Rightarrow> parse_number (strip s) \<noteq> None | _ \<Rightarrow> numeric v \<noteq> None)"
| "readable e INTEGER v = (case number_in e v of None \<Rightarrow> False | Some n \<Rightarrow> \<bar>round_half_up n\<bar> < 10 ^ 28)"
| "readable e BOOLEAN v = (v \<noteq> PNone)"
| "readable e TEXT v = (v \<noteq> PNone \<and> py_str e v \<noteq> [])"

lemma to_decimal_number_in: "v \<noteq> PNone \<Longrightarrow> to_decimal e v = (case number_in e v of None \<Rightarrow> Inl DecimalInvalidOperation | Some n \<Rightarrow> Inr n)"
  by (cases v) (simp_all add: number_in_def to_decimal_def decimal_of_str_def py_str_def)

lemma integer_column_readable: "v \<noteq> PNone \<Longrightarrow>
    integer_column e v = (if readable e INTEGER v then Inr (round_half_up (the (number_in e v))) else Inl DecimalInvalidOperation)"
  by (auto simp: integer_column_def to_decimal_number_in quantize_half_up_def Let_def split: option.splits)

lemma float_of_readable: "readable e FLOAT v \<longleftrightarrow> (\<exists>r. float_of e v = Inr r)"
  by (cases v) (auto simp: float_of_def py_float_def split: option.splits)

lemma readable_None [simp]: "\<not> readable e t PNone"
  by (cases t) (simp_all add: number_in_def)

definition column_empty :: "metric_data_type \<Rightarrow> value_cols \<Rightarrow> bool" where
  "column_empty t p = (case t of
      FLOAT \<Rightarrow> value_float p = None
    | INTEGER \<Rightarrow> value_integer p = None
    | BOOLEAN \<Rightarrow> value_boolean p = None
    | TEXT \<Rightarrow> value_text p \<in> {None, Some []})"

lemma quality_by_type:
  "quality_for_metric e (PStr (metric_type_value t)) p q = (if column_empty t p then BAD else q)"
  unfolding quality_for_metric_def label_metric_type Let_def
  by (cases t) (simp_all add: column_empty_def TEXT_MAPPING_TYPES_def)

lemma column_empty_simps [simp]:
  "column_empty t no_value"
  "column_empty FLOAT (text_column e v)" "column_empty INTEGER (text_column e v)"
  "column_empty TEXT (text_column e v) \<longleftrightarrow> py_str e v = []"
  "\<not> column_empty FLOAT (no_value\<lparr>value_float := Some r\<rparr>)"
  "\<not> column_empty INTEGER (no_value\<lparr>value_integer := Some i\<rparr>)"
  "\<not> column_empty BOOLEAN (no_value\<lparr>value_boolean := Some b\<rparr>)"
  by (cases t; simp add: column_empty_def no_value_def text_column_def)
    (simp_all add: column_empty_def no_value_def text_column_def)

lemma quality_exact:
  "quality_for_metric e (PStr (metric_type_value t)) (value_payload e t v) q = (if readable e t v then q else BAD)"
proof (cases "v = PNone")
  case True
  then show ?thesis by (simp add: quality_by_type)
next
  case False
  note s = value_payload_simps(2-5) [OF False]
  have "column_empty t (value_payload e t v) = (\<not> readable e t v)"
  proof (cases t)
    case FLOAT
    with False float_of_readable [of e v] show ?thesis
      by (auto simp: s simp del: readable.simps split: sum.splits)
  next
    case INTEGER
    with integer_column_readable [OF False, of e] show ?thesis
      by (auto simp: s simp del: readable.simps)
  qed (use False in \<open>simp_all add: s\<close>)
  then show ?thesis by (simp add: quality_by_type)
qed

lemma snmp_quality_fallback: "snmp_quality_for_metric e t p = quality_for_metric e t p GOOD"
  by (simp add: snmp_quality_for_metric_def quality_for_metric_def)

lemma payload_columns:
  assumes "v \<noteq> PNone"
  shows "\<not> readable e t v \<Longrightarrow> value_payload e t v = text_column e v"
    and "readable e INTEGER v \<Longrightarrow> value_payload e INTEGER v = no_value\<lparr>value_integer := Some (round_half_up (the (number_in e v)))\<rparr>"
  using assms float_of_readable [of e v] integer_column_readable [OF assms, of e]
  by (cases t; auto simp del: readable.simps(1,2) split: sum.splits)+

subsection \<open>The SNMP chain\<close>

lemma scale_number_decimals:
  "scale_number e v (PDec s) (PDec q) = (case to_decimal e v of Inl x \<Rightarrow> Inl x | Inr n \<Rightarrow> Inr (scaled e n s q))"
  by (simp add: scale_number_def split: sum.splits)

lemma apply_scale_total: "\<exists>p. apply_scale e v m = Inr p"
  by (auto simp: apply_scale_def apply_scale_offset_def split: py.splits sum.splits)

lemma apply_scale_text: "parse_snmp_raw_value e v (PStr (om_data_type m)) = PStr s \<Longrightarrow> apply_scale e v m = Inr (PStr s)"
  by (simp add: apply_scale_def apply_scale_offset_def)

text \<open>A reading in a numeric mapping that is no number.\<close>

definition not_a_number :: "env \<Rightarrow> raw \<Rightarrow> oid_mapping \<Rightarrow> bool" where
  "not_a_number e v m = (normalize_type_label e (PStr (om_data_type m)) \<in> NUMERIC_MAPPING_TYPES
     \<and> parse_number (strip (raw_text e v)) = None)"

lemma numeric_labels: "t \<in> NUMERIC_MAPPING_TYPES \<Longrightarrow> t \<noteq> [] \<and> t \<notin> TEXT_MAPPING_TYPES \<and> t \<notin> BOOL_MAPPING_TYPES"
  by (auto simp: NUMERIC_MAPPING_TYPES_def INTEGER_MAPPING_TYPES_def TEXT_MAPPING_TYPES_def BOOL_MAPPING_TYPES_def)

lemma not_a_number_text: "not_a_number e v m \<Longrightarrow> apply_scale e v m = Inr (PStr (raw_text e v))"
  by (rule apply_scale_text)
    (simp add: not_a_number_def parse_snmp_raw_value_def Let_def numeric_labels decimal_of_str_def)


definition reading_env :: env where
  "reading_env = (plain_env 5)\<lparr>fmt_py := (\<lambda>v. if v = PDec (1 / 10) then ''0.1'' else if v = PFloat (27 / 10) then ''2.7'' else ''0'')\<rparr>"

definition tenths :: oid_mapping where
  "tenths = \<lparr>om_id = 1, om_device_type = 1, om_device_model = None, om_metric = 1, om_oid = ''1.3.6.1'', om_data_type = ''int'',
     om_scale_factor = 1 / 10, om_offset_value = 0, om_is_active = True\<rparr>"

lemma tenths_label: "normalize_type_label e (PStr (om_data_type tenths)) = ''INT''"
  by (simp add: tenths_def normalize_type_label_def py_str_def strip_def upper_def upper_char_def is_space_def Let_def char_of_def bit_0)

lemma reading_texts:
  "parse_number (strip ''0.1'') = Some (1 / 10)" "parse_number (strip ''2.7'') = Some (27 / 10)"
  "parse_number (strip ''0'') = Some 0" "parse_number (strip ''27'') = Some 27" "parse_number (strip ''n/a'') = None"
  by (simp_all add: strip_def is_space_def parse_number_def take_sign_def is_digit_def nat_of_digits_def parse_exponent_def ten_to_def Let_def)


subsection \<open>The two chains\<close>

definition reads_back :: "env \<Rightarrow> py \<Rightarrow> rat \<Rightarrow> bool" where
  "reads_back e p r = (decimal_of_str (py_str e p) = Inr r)"

text \<open>The names both chains take for an integer.\<close>

definition shared_integer_types :: "string set" where
  "shared_integer_types = {''integer'', ''int'', ''uint16'', ''int16'', ''uint32'', ''int32'', ''counter'', ''gauge''}"

lemma shared_labels:
  assumes "t \<in> shared_integer_types"
  shows "normalize_type_label e (PStr t) \<in> INTEGER_MAPPING_TYPES" and "lower t = t" and "t \<noteq> []"
  using assms
  by (auto simp: shared_integer_types_def INTEGER_MAPPING_TYPES_def normalize_type_label_def py_str_def strip_def
      upper_def upper_char_def lower_def lower_char_def is_space_def Let_def char_of_def bit_0)

lemma integer_labels: "t \<in> INTEGER_MAPPING_TYPES \<Longrightarrow>
    t \<noteq> [] \<and> t \<notin> TEXT_MAPPING_TYPES \<and> t \<notin> BOOL_MAPPING_TYPES \<and> t \<in> NUMERIC_MAPPING_TYPES"
  using numeric_labels by (auto simp: NUMERIC_MAPPING_TYPES_def)

lemma snmp_integer:
  assumes "om_data_type m \<in> shared_integer_types" and "parse_number (strip (raw_text e v)) = Some (of_int i)"
  shows "apply_scale e v m = Inr (int_or_float e (scaled e (of_int i) (om_scale_factor m) (om_offset_value m)))"
proof -
  note l = shared_labels(1) [OF assms(1), of e]
  have "parse_snmp_raw_value e v (PStr (om_data_type m)) = PInt i"
    using l integer_labels [OF l] assms(2) by (simp add: parse_snmp_raw_value_def Let_def decimal_of_str_def)
  then show ?thesis by (simp add: apply_scale_def apply_scale_offset_def scale_number_decimals)
qed

lemma modbus_integer:
  assumes "t \<in> shared_integer_types" and "reads_back e (PDec s) s" and "reads_back e (PDec q) q"
  shows "normalize_value e (PInt i) t (PDec s) (PDec q) = PInt (truncate (scaled e (of_int i) s q))"
proof -
  have t: "t \<in> {''float'', ''float32'', ''float64'', ''integer'', ''int'', ''uint16'', ''int16'', ''uint32'', ''int32'', ''counter'', ''gauge''}"
    "t \<in> {''integer'', ''int'', ''uint16'', ''int16'', ''uint32'', ''int32'', ''counter'', ''gauge''}"
    using assms(1) by (auto simp: shared_integer_types_def)
  have i: "decimal_of_str (py_str e (PInt i)) = Inr (of_int i)"
    by (simp add: decimal_of_str_def py_str_def)
  have "PInt i \<noteq> PNone" by simp
  with shared_labels(2,3) [OF assms(1)] t assms(2,3) i show ?thesis
    unfolding normalize_value_def Let_def reads_back_def
    by (simp only: if_True if_False sum.case simp_thms)
qed

lemma integer_of_number:
  assumes "is_integral v \<or> reads_back e (PFloat (round_float e v)) v" and "\<bar>round_half_up v\<bar> < 10 ^ 28"
  shows "value_integer (value_payload e INTEGER (int_or_float e v)) = Some (round_half_up v)"
proof -
  have "to_decimal e (int_or_float e v) = Inr v"
    using assms(1)
    by (auto simp: int_or_float_def reads_back_def is_integral_iff to_decimal_def [of e "PFloat _"])
  then have "integer_column e (int_or_float e v) = Inr (round_half_up v)"
    using assms(2) by (simp add: integer_column_def quantize_half_up_def Let_def)
  moreover have "int_or_float e v \<noteq> PNone" by (simp add: int_or_float_def)
  ultimately show ?thesis by (simp add: no_value_def)
qed

text \<open>One integer reading under one mapping, on the two collectors, into an integer metric: SNMP
  stores the scaled value rounded half up, Modbus the scaled value cut toward zero, so the stored
  integers agree exactly when the cut loses less than a half. (The texts of the Decimals and of the
  scaled double must read back, as Python's do for values of that size.)\<close>

theorem collectors_round_differently:
  assumes "om_data_type m \<in> shared_integer_types" and "parse_number (strip (raw_text e v)) = Some (of_int i)"
    and "reads_back e (PDec (om_scale_factor m)) (om_scale_factor m)" and "reads_back e (PDec (om_offset_value m)) (om_offset_value m)"
    and "r = scaled e (of_int i) (om_scale_factor m) (om_offset_value m)"
    and "is_integral r \<or> reads_back e (PFloat (round_float e r)) r" and "\<bar>r\<bar> < 10 ^ 27"
  shows "\<exists>p q. apply_scale e v m = Inr p
    \<and> normalize_value e (PInt i) (om_data_type m) (PDec (om_scale_factor m)) (PDec (om_offset_value m)) = q
    \<and> value_integer (value_payload e INTEGER p) = Some (round_half_up r)
    \<and> value_integer (value_payload e INTEGER q) = Some (truncate r)
    \<and> (round_half_up r = truncate r \<longleftrightarrow> \<bar>r - of_int (truncate r)\<bar> < 1 / 2)"
proof -
  have "\<bar>of_int (round_half_up r)\<bar> < \<bar>r\<bar> + 1" using round_half_up_nearest [of r] by linarith
  then have "\<bar>of_int (round_half_up r)\<bar> < (10 ^ 28 :: rat)" using assms(7) by simp
  then have b: "\<bar>round_half_up r\<bar> < 10 ^ 28" by (simp flip: of_int_abs)
  have "\<bar>of_int (truncate r)\<bar> < (10 ^ 28 :: rat)"
    using truncate_bounds(1) [of r] assms(7) by simp
  then have c: "\<bar>truncate r\<bar> < 10 ^ 28" by (simp flip: of_int_abs)
  have q: "value_integer (value_payload e INTEGER (PInt (truncate r))) = Some (truncate r)"
    using integer_of_number [of "of_int (truncate r)" e] c by (auto simp: is_integral_iff)
  show ?thesis
    using snmp_integer [OF assms(1,2)] modbus_integer [OF assms(1,3,4), of i] integer_of_number [OF assms(6) b]
      q truncate_round [of r] assms(5) by auto
qed

lemma collectors_round_differently_witness:
  "\<exists>p q. apply_scale reading_env (Plain (PStr ''27'')) tenths = Inr p
    \<and> normalize_value reading_env (PInt 27) ''int'' (PDec (1 / 10)) (PDec 0) = q
    \<and> value_integer (value_payload reading_env INTEGER p) = Some 3
    \<and> value_integer (value_payload reading_env INTEGER q) = Some 2"
proof -
  have r: "round_half_up (27 / 10) = 3" "truncate (27 / 10) = 2"
    by (simp_all add: round_half_up_def truncate_def floor_eq_iff)
  have b: "reads_back reading_env (PDec (1 / 10)) (1 / 10)" "reads_back reading_env (PDec 0) 0"
    "reads_back reading_env (PFloat (27 / 10)) (27 / 10)"
    by (simp_all add: reads_back_def decimal_of_str_def py_str_def reading_env_def reading_texts)
  show ?thesis
    using collectors_round_differently [of tenths reading_env "Plain (PStr ''27'')" 27 "27 / 10"] b r
    by (simp add: tenths_def shared_integer_types_def raw_text_def py_str_def reading_texts scaled_def
        reading_env_def plain_env_def)
qed

end
