(* ===== verification/Telemetry_Props.thy ===== *)
theory Telemetry_Props
  imports Telemetry_Writer Normalization_Props
begin

text \<open>
  What the three writers leave: a batch is stored whole or not at all, the history grows by exactly
  its points, and the latest rows stay one per device and metric, each showing the last reading
  written, whatever its time.
\<close>

subsection \<open>One latest row per device and metric\<close>

definition latest_unique :: "db \<Rightarrow> bool" where
  "latest_unique d = (keys_unique lt_id (latest_rows d) \<and> distinct (map latest_key (latest_rows d)))"

definition shown_latest :: "uuid \<times> uuid \<Rightarrow> db \<Rightarrow> latest_telemetry option" where
  "shown_latest k d = map_option (\<lambda>l. l\<lparr>lt_id := 0\<rparr>) (find_latest k d)"

definition point_key :: "telemetry_point \<Rightarrow> uuid \<times> uuid" where
  "point_key p = (tp_device p, tp_metric p)"

definition put_point_latest :: "telemetry_point \<Rightarrow> db \<Rightarrow> db" where
  "put_point_latest p = put_latest (latest_of_point p)"

lemma latest_of_point_simps [simp]:
  "lt_id (latest_of_point p) = 0" "latest_key (latest_of_point p) = point_key p"
  "latest_key (l\<lparr>lt_id := i\<rparr>) = latest_key l" "(latest_of_point p)\<lparr>lt_id := 0\<rparr> = latest_of_point p"
  by (simp_all add: latest_of_point_def latest_key_def point_key_def)

lemma find_latest_Some: "find_latest k d = Some l \<Longrightarrow> l \<in> set (latest_rows d) \<and> latest_key l = k"
  by (auto simp: find_latest_def find_Some_iff)

lemma find_latest_in:
  assumes "latest_unique d" and "l \<in> set (latest_rows d)"
  shows "find_latest (latest_key l) d = Some l"
proof (cases "find_latest (latest_key l) d")
  case None
  with assms(2) show ?thesis by (auto simp: find_latest_def find_None_iff)
next
  case (Some l')
  with find_latest_Some [OF Some] assms have "l' = l"
    by (auto simp: latest_unique_def distinct_map dest: inj_onD)
  with Some show ?thesis by simp
qed

lemma put_latest_rows:
  "latest_rows (put_latest r d) = (case find_latest (latest_key r) d of
      Some l \<Rightarrow> tbl_update lt_id (lt_id l) (\<lambda>_. r\<lparr>lt_id := lt_id l\<rparr>) (latest_rows d)
    | None \<Rightarrow> latest_rows d @ [r\<lparr>lt_id := fresh_key lt_id (latest_rows d)\<rparr>])"
  by (simp add: put_latest_def tbl_insert_def split: option.splits)

lemma find_snoc: "find P (xs @ [x]) = (case find P xs of None \<Rightarrow> if P x then Some x else None | Some y \<Rightarrow> Some y)"
  by (induction xs) auto

lemma find_update_other:
  "(\<And>x. x \<in> set rows \<Longrightarrow> pk x = k \<Longrightarrow> \<not> P x) \<Longrightarrow> \<not> P y \<Longrightarrow> find P (tbl_update pk k (\<lambda>_. y) rows) = find P rows"
  by (induction rows) (auto simp: tbl_update_def)

lemma put_latest_keys:
  assumes "latest_unique d" and "find_latest (latest_key r) d = Some l"
  shows "map latest_key (latest_rows (put_latest r d)) = map latest_key (latest_rows d)"
    and "map lt_id (latest_rows (put_latest r d)) = map lt_id (latest_rows d)"
proof -
  note l = find_latest_Some [OF assms(2)]
  have one: "x \<in> set (latest_rows d) \<Longrightarrow> lt_id x = lt_id l \<Longrightarrow> x = l" for x
    using assms(1) l by (auto simp: latest_unique_def keys_unique_def distinct_map dest: inj_onD)
  have "latest_key r = latest_key x" if "x \<in> set (latest_rows d)" and "lt_id x = lt_id l" for x
    using one [OF that] l by simp
  then show "map latest_key (latest_rows (put_latest r d)) = map latest_key (latest_rows d)"
    by (auto simp: put_latest_rows assms(2) tbl_update_def)
  show "map lt_id (latest_rows (put_latest r d)) = map lt_id (latest_rows d)"
    by (auto simp: put_latest_rows assms(2) tbl_update_def)
qed

lemma put_latest_unique: "latest_unique d \<Longrightarrow> latest_unique (put_latest r d)"
proof (cases "find_latest (latest_key r) d")
  case None
  assume u: "latest_unique d"
  from None have "latest_key r \<notin> latest_key ` set (latest_rows d)"
    by (auto simp: find_latest_def find_None_iff)
  with u None fresh_key_notin [of lt_id "latest_rows d"] show ?thesis
    by (simp add: latest_unique_def keys_unique_def put_latest_rows)
next
  case (Some l)
  assume u: "latest_unique d"
  with put_latest_keys [OF u Some] show ?thesis by (simp add: latest_unique_def keys_unique_def)
qed

lemma shown_put_latest:
  assumes "latest_unique d"
  shows "shown_latest k (put_latest r d) = (if k = latest_key r then Some (r\<lparr>lt_id := 0\<rparr>) else shown_latest k d)"
proof -
  have same: "find_latest (latest_key r) (put_latest r d) = Some (r\<lparr>lt_id := i\<rparr>)" if "r\<lparr>lt_id := i\<rparr> \<in> set (latest_rows (put_latest r d))" for i
    using find_latest_in [OF put_latest_unique [OF assms] that] by simp
  show ?thesis
  proof (cases "find_latest (latest_key r) d")
    case None
    then have "find_latest k (put_latest r d) = (if k = latest_key r then Some (r\<lparr>lt_id := fresh_key lt_id (latest_rows d)\<rparr>) else find_latest k d)"
      using same [of "fresh_key lt_id (latest_rows d)"]
      by (auto simp: put_latest_rows find_latest_def find_snoc split: option.splits)
    then show ?thesis by (simp add: shown_latest_def)
  next
    case (Some l)
    note l = find_latest_Some [OF Some]
    have one: "x \<in> set (latest_rows d) \<Longrightarrow> lt_id x = lt_id l \<Longrightarrow> x = l" for x
      using assms l by (auto simp: latest_unique_def keys_unique_def distinct_map dest: inj_onD)
    have "r\<lparr>lt_id := lt_id l\<rparr> \<in> set (latest_rows (put_latest r d))"
      using l by (auto simp: put_latest_rows Some set_tbl_update)
    note s = same [OF this]
    have rows: "latest_rows (put_latest r d) = tbl_update lt_id (lt_id l) (\<lambda>_. r\<lparr>lt_id := lt_id l\<rparr>) (latest_rows d)"
      by (simp add: put_latest_rows Some)
    have o: "k \<noteq> latest_key r \<Longrightarrow> find_latest k (put_latest r d) = find_latest k d"
      unfolding find_latest_def rows
      using l by (intro find_update_other) (auto dest!: one)
    from s o show ?thesis by (simp add: shown_latest_def)
  qed
qed

interpretation latest: upsert_table point_key latest_of_point shown_latest put_point_latest latest_unique
  by unfold_locales (simp_all add: put_point_latest_def shown_put_latest put_latest_unique)

lemma find_latest_frame: "latest_rows d' = latest_rows d \<Longrightarrow> shown_latest k d' = shown_latest k d"
  by (simp add: shown_latest_def find_latest_def)

lemma latest_unique_frame: "latest_rows d' = latest_rows d \<Longrightarrow> latest_unique d' = latest_unique d"
  by (simp add: latest_unique_def)

lemma put_point_latest_only: "put_point_latest p d = d\<lparr>latest_rows := latest_rows (put_point_latest p d)\<rparr>"
  by (simp add: put_point_latest_def put_latest_def split: option.splits)

lemma puts_only_latest: "fold put_point_latest ps d = d\<lparr>latest_rows := latest_rows (fold put_point_latest ps d)\<rparr>"
proof (induction ps rule: rev_induct)
  case Nil
  show ?case by simp
next
  case (snoc p ps)
  define d1 where "d1 = fold put_point_latest ps d"
  obtain y where y: "d1 = d\<lparr>latest_rows := y\<rparr>" using snoc.IH d1_def by blast
  have "put_point_latest p d1 = d1\<lparr>latest_rows := latest_rows (put_point_latest p d1)\<rparr>"
    by (rule put_point_latest_only)
  also have "\<dots> = d\<lparr>latest_rows := latest_rows (put_point_latest p d1)\<rparr>" by (simp add: y)
  finally show ?case by (simp add: d1_def)
qed

lemma upsert_points_all:
  "list_all (\<lambda>p. bigint_ok (tp_values p)) ps \<Longrightarrow> upsert_points ps d = (Inr (), fold put_point_latest ps d)"
  by (induction ps arbitrary: d) (simp_all add: put_point_latest_def)

subsection \<open>The bulk write\<close>

lemma bulk_write_ok:
  assumes "latest_unique d"
    and "ps = map (point_of_reading e org dc dev source ingest (case timestamp of None \<Rightarrow> now e | Some t \<Rightarrow> t)) readings"
    and "write_device_telemetry_bulk e org dc dev readings source ingest timestamp d = (res, d')"
  shows "if \<exists>p \<in> set ps. \<not> bigint_ok (tp_values p) then res = Inl DataError \<and> d' = d
    else res = Inr (length readings) \<and> (\<exists>rows. d' = d\<lparr>points := points d @ ps, latest_rows := rows\<rparr>) \<and> latest_unique d'
      \<and> (\<forall>k. shown_latest k d' = (case last_write point_key k ps of
            Some p \<Rightarrow> Some (latest_of_point p) | None \<Rightarrow> shown_latest k d))"
proof (cases "list_all (\<lambda>p. bigint_ok (tp_values p)) ps")
  case False
  then have bad: "\<exists>p \<in> set ps. \<not> bigint_ok (tp_values p)" by (simp add: list_all_iff)
  have "res = Inl DataError \<and> d' = d"
    using assms(3) False
    unfolding write_device_telemetry_bulk_def Let_def assms(2) [symmetric] atomic_def bulk_create_points_def by simp
  with bad show ?thesis by simp
next
  case True
  then have good: "\<not> (\<exists>p \<in> set ps. \<not> bigint_ok (tp_values p))" by (simp add: list_all_iff)
  define d1 where "d1 = d\<lparr>points := points d @ ps\<rparr>"
  have u: "latest_unique d1" using assms(1) latest_unique_frame [of d1 d] by (simp add: d1_def)
  have len: "length ps = length readings" using assms(2) by simp
  have r: "res = Inr (length readings)" "d' = fold put_point_latest ps d1"
    using assms(3) True upsert_points_all [OF True, of d1] len
    unfolding write_device_telemetry_bulk_def Let_def assms(2) [symmetric] atomic_def bulk_create_points_def d1_def
    by auto
  have o: "\<exists>rows. d' = d\<lparr>points := points d @ ps, latest_rows := rows\<rparr>"
  proof
    have "d' = d1\<lparr>latest_rows := latest_rows d'\<rparr>" unfolding r(2) by (rule puts_only_latest)
    then show "d' = d\<lparr>points := points d @ ps, latest_rows := latest_rows d'\<rparr>" unfolding d1_def .
  qed
  have l: "shown_latest k d' = (case last_write point_key k ps of Some p \<Rightarrow> Some (latest_of_point p) | None \<Rightarrow> shown_latest k d)" for k
    using latest.lookup_puts [OF u, of k ps] find_latest_frame [of d1 d k] r(2) by (simp add: d1_def split: option.splits)
  from r o l latest.puts_keep [OF u, of ps] show ?thesis unfolding if_not_P [OF good] by blast
qed

text \<open>C5. A bulk write either stores nothing (\<open>DataError\<close>, exactly when some integer exceeds 64 bits) or
  everything: the points of the readings in order, and for every device and metric the latest row
  shows the last reading of the batch, those the batch does not mention being left alone. The time
  of the row replaced is not looked at: an older batch overwrites a newer row.\<close>

theorem bulk_write_exact:
  assumes "latest_unique d"
    and "ps = map (point_of_reading e org dc dev source ingest (case timestamp of None \<Rightarrow> now e | Some t \<Rightarrow> t)) readings"
    and "write_device_telemetry_bulk e org dc dev readings source ingest timestamp d = (res, d')"
  shows "if \<exists>p \<in> set ps. \<not> bigint_ok (tp_values p) then res = Inl DataError \<and> d' = d
    else res = Inr (length readings) \<and> (\<exists>rows. d' = d\<lparr>points := points d @ ps, latest_rows := rows\<rparr>) \<and> latest_unique d'
      \<and> (\<forall>k. shown_latest k d' = (case last_write point_key k ps of
            Some p \<Rightarrow> Some (latest_of_point p) | None \<Rightarrow> shown_latest k d))"
  by (rule bulk_write_ok [OF assms])

text \<open>A batch of time 50 over a row of time 100.\<close>

definition load_row :: latest_telemetry where
  "load_row = blank_latest\<lparr>lt_id := 1, lt_device := 40, lt_metric := 7, lt_last_seen_at := 100, lt_values := no_value\<lparr>value_integer := Some 80\<rparr>\<rparr>"

definition load_metric :: metric where
  "load_metric = blank_metric\<lparr>me_id := 7, me_data_type := INTEGER\<rparr>"

definition load_db :: db where
  "load_db = empty_db\<lparr>latest_rows := [load_row], metrics := [load_metric], devices := [blank_device\<lparr>dev_id := 40\<rparr>]\<rparr>"

definition load_reading :: "int \<Rightarrow> reading" where
  "load_reading i = \<lparr>rd_metric = load_metric, rd_value = PInt i, rd_quality = None, rd_raw_value_text = None\<rparr>"

lemma load_payload: "\<bar>i\<bar> < 10 ^ 28 \<Longrightarrow> tp_values (point_of_reading e org dc dev source ingest ts (load_reading i)) = no_value\<lparr>value_integer := Some i\<rparr>"
  using value_payload_simps(3) [of "PInt i" e]
  by (simp add: point_of_reading_def payload_for_def load_reading_def load_metric_def value_payload_def
      integer_column_def quantize_half_up_def Let_def del: metric_type_value.simps)

lemma load_db_unique: "latest_unique load_db"
  by (simp add: latest_unique_def load_db_def keys_unique_def)

lemma bulk_write_exact_witness:
  "\<exists>res d'. write_device_telemetry_bulk (plain_env 9) 3 2 (blank_device\<lparr>dev_id := 40\<rparr>) [load_reading 30] (Some ''modbus_worker'') None (Some 50) load_db = (res, d')
     \<and> res = Inr 1 \<and> map_option lt_last_seen_at (shown_latest (40, 7) load_db) = Some 100
     \<and> map_option lt_last_seen_at (shown_latest (40, 7) d') = Some 50
     \<and> map_option lt_values (shown_latest (40, 7) d') = Some (no_value\<lparr>value_integer := Some 30\<rparr>)"
proof -
  let ?dev = "blank_device\<lparr>dev_id := 40\<rparr>"
  let ?p = "point_of_reading (plain_env 9) 3 2 ?dev (Some ''modbus_worker'') None 50 (load_reading 30)"
  obtain res d' where w: "write_device_telemetry_bulk (plain_env 9) 3 2 ?dev [load_reading 30] (Some ''modbus_worker'') None (Some 50) load_db = (res, d')"
    by (metis surj_pair)
  have v: "tp_values ?p = no_value\<lparr>value_integer := Some 30\<rparr>" by (rule load_payload) simp
  have k: "point_key ?p = (40, 7)" "tp_time ?p = 50"
    by (simp_all add: point_key_def point_of_reading_def load_reading_def load_metric_def Let_def)
  have "shown_latest (40, 7) load_db = Some (load_row\<lparr>lt_id := 0\<rparr>)"
    by (simp add: shown_latest_def find_latest_def load_db_def load_row_def latest_key_def)
  moreover have ok: "\<not> (\<exists>p \<in> set [?p]. \<not> bigint_ok (tp_values p))" by (simp add: v bigint_ok_def)
  have last: "last_write point_key (40, 7) [?p] = Some ?p" by (simp add: last_write_def k)
  have "[?p] = map (point_of_reading (plain_env 9) 3 2 ?dev (Some ''modbus_worker'') None (case Some 50 of None \<Rightarrow> now (plain_env 9) | Some t \<Rightarrow> t)) [load_reading 30]"
    by simp
  note b = bulk_write_exact [OF load_db_unique this w, unfolded if_not_P [OF ok]]
  have "res = Inr 1" using b by simp
  moreover have "shown_latest (40, 7) d' = Some (latest_of_point ?p)"
    using b last by (metis option.simps(5))
  ultimately show ?thesis
    using w v k by (intro exI [of _ res] exI [of _ d']) (simp add: latest_of_point_def load_row_def)
qed

subsection \<open>Ingestion\<close>

definition item_ok :: "db \<Rightarrow> ingest_item \<Rightarrow> bool" where
  "item_ok d it = (device_of d (it_device it) \<noteq> None \<and> metric_by_code d (it_metric_code it) \<noteq> None \<and> bigint_ok (it_values it))"

definition item_point :: "env \<Rightarrow> string \<Rightarrow> uuid \<Rightarrow> db \<Rightarrow> ingest_item \<Rightarrow> telemetry_point" where
  "item_point e source ingest d it =
     point_of_item e source ingest (the (device_of d (it_device it))) (the (metric_by_code d (it_metric_code it))) it"

definition ingest_step :: "telemetry_point \<Rightarrow> db \<Rightarrow> db" where
  "ingest_step p d = device_seen (tp_device p) (tp_time p) (put_latest (latest_of_point p) (insert_point p d))"

definition seen_at :: "time \<Rightarrow> device \<Rightarrow> device" where
  "seen_at t r = r\<lparr>dev_last_seen_at := Some t, dev_status := ONLINE\<rparr>"

lemma ingest_step_frames [simp]:
  "metrics (ingest_step p d) = metrics d" "points (ingest_step p d) = points d @ [p]"
  "ingest_logs (ingest_step p d) = ingest_logs d"
  "devices (ingest_step p d) = tbl_update dev_id (tp_device p) (seen_at (tp_time p)) (devices d)"
  by (simp_all add: ingest_step_def seen_at_def [abs_def] device_seen_def put_latest_def insert_point_def tbl_insert_def split: option.splits)

lemma seen_at_simps [simp]:
  "dev_id (seen_at t r) = dev_id r" "dev_organization (seen_at t r) = dev_organization r"
  "dev_data_center (seen_at t r) = dev_data_center r" "seen_at t (seen_at u r) = seen_at t r"
  by (simp_all add: seen_at_def)

lemma device_of_step: "device_of (ingest_step p d) k = (if k = tp_device p then map_option (seen_at (tp_time p)) (device_of d k) else device_of d k)"
  using device_tbl.get_upd [of "seen_at (tp_time p)" k "tp_device p" "devices d"]
  by (simp add: device_of_def)

lemma metric_by_code_step [simp]: "metric_by_code (ingest_step p d) c = metric_by_code d c"
  by (simp add: metric_by_code_def)

lemma item_ok_step [simp]: "item_ok (ingest_step p d) it = item_ok d it"
  by (simp add: item_ok_def device_of_step)

lemma item_point_step: "item_ok d it \<Longrightarrow> item_point e source ingest (ingest_step p d) it = item_point e source ingest d it"
  by (auto simp: item_point_def item_ok_def device_of_step point_of_item_def)

lemma item_point_device: "item_ok d it \<Longrightarrow> tp_device (item_point e source ingest d it) = it_device it"
  by (auto simp: item_ok_def item_point_def point_of_item_def device_of_def dest: tbl_get_Some)

interpretation ingest: upsert_table point_key latest_of_point shown_latest ingest_step latest_unique
proof
  fix s :: db and k p
  assume u: "latest_unique s"
  let ?s = "put_latest (latest_of_point p) (insert_point p s)"
  have s1: "latest_rows (ingest_step p s) = latest_rows ?s" "latest_rows (insert_point p s) = latest_rows s"
    by (simp_all add: ingest_step_def device_seen_def insert_point_def)
  have u1: "latest_unique (insert_point p s)" using u latest_unique_frame [OF s1(2)] by simp
  show "shown_latest k (ingest_step p s) = (if k = point_key p then Some (latest_of_point p) else shown_latest k s)"
    using shown_put_latest [OF u1, of k "latest_of_point p"] find_latest_frame [OF s1(1), of k] find_latest_frame [OF s1(2), of k]
    by simp
  show "latest_unique (ingest_step p s)"
    using put_latest_unique [OF u1] latest_unique_frame [OF s1(1)] by simp
qed

lemma ingest_items_ok:
  "\<forall>it \<in> set items. item_ok d it \<Longrightarrow>
    ingest_items e source ingest items d = (Inr (map (item_point e source ingest d) items), fold ingest_step (map (item_point e source ingest d) items) d)"
proof (induction items arbitrary: d)
  case Nil
  then show ?case by simp
next
  case (Cons it items)
  then have ok: "item_ok d it" and rest: "\<forall>it \<in> set items. item_ok d it" by simp_all
  then obtain dev me where dm: "device_of d (it_device it) = Some dev" "metric_by_code d (it_metric_code it) = Some me" "bigint_ok (it_values it)"
    by (auto simp: item_ok_def)
  define p where "p = item_point e source ingest d it"
  have p: "p = point_of_item e source ingest dev me it" by (simp add: p_def item_point_def dm)
  have same: "map (item_point e source ingest (ingest_step p d)) items = map (item_point e source ingest d) items"
    using rest item_point_step by simp
  have "ingest_items e source ingest items (ingest_step p d) =
      (Inr (map (item_point e source ingest d) items), fold ingest_step (map (item_point e source ingest d) items) (ingest_step p d))"
    using Cons.IH [of "ingest_step p d"] rest same by simp
  moreover have "tp_values p = it_values it" "tp_device p = dev_id dev" by (simp_all add: p point_of_item_def)
  moreover from this have "device_seen (dev_id dev) (tp_time p) (put_latest (latest_of_point p) (insert_point p d)) = ingest_step p d"
    by (simp add: ingest_step_def)
  ultimately show ?case using dm by (simp flip: p p_def)
qed

lemma ingest_items_bad:
  "\<exists>it \<in> set items. \<not> item_ok d it \<Longrightarrow> \<exists>x d'. ingest_items e source ingest items d = (Inl x, d') \<and> x \<in> {DoesNotExist, DataError}"
proof (induction items arbitrary: d)
  case Nil
  then show ?case by simp
next
  case (Cons it items)
  show ?case
  proof (cases "item_ok d it")
    case False
    then show ?thesis by (cases "device_of d (it_device it)"; cases "metric_by_code d (it_metric_code it)")
        (auto simp: item_ok_def point_of_item_def)
  next
    case True
    then obtain dev me where dm: "device_of d (it_device it) = Some dev" "metric_by_code d (it_metric_code it) = Some me" "bigint_ok (it_values it)"
      by (auto simp: item_ok_def)
    define p where "p = point_of_item e source ingest dev me it"
    have pv: "tp_values p = it_values it" "tp_device p = dev_id dev" by (simp_all add: p_def point_of_item_def)
    from Cons.prems True have "\<exists>it \<in> set items. \<not> item_ok (ingest_step p d) it" by auto
    from Cons.IH [OF this] obtain x d' where "ingest_items e source ingest items (ingest_step p d) = (Inl x, d')" "x \<in> {DoesNotExist, DataError}"
      by blast
    moreover have "device_seen (dev_id dev) (tp_time p) (put_latest (latest_of_point p) (insert_point p d)) = ingest_step p d"
      by (simp add: ingest_step_def pv)
    ultimately show ?thesis using dm pv by (simp flip: p_def)
  qed
qed

lemma fold_ingest_frames:
  "points (fold ingest_step ps d) = points d @ ps" "ingest_logs (fold ingest_step ps d) = ingest_logs d"
  by (induction ps arbitrary: d) simp_all

lemma fold_ingest_device:
  "device_of (fold ingest_step ps d) k = (case last_write tp_device k ps of
      None \<Rightarrow> device_of d k | Some p \<Rightarrow> map_option (seen_at (tp_time p)) (device_of d k))"
proof (induction ps rule: rev_induct)
  case Nil
  then show ?case by simp
next
  case (snoc p ps)
  then show ?case by (auto simp: device_of_step option.map_comp comp_def split: option.splits)
qed


definition load_item :: "time \<Rightarrow> ingest_item" where
  "load_item t = \<lparr>it_device = 40, it_metric_code = [], it_time = Some t, it_values = no_value\<lparr>value_integer := Some 30\<rparr>,
     it_raw_value_text = None, it_quality = None, it_source = None\<rparr>"

lemma load_item_ok: "item_ok load_db (load_item t)"
  by (simp add: item_ok_def load_db_def load_item_def device_of_def tbl_get_def metric_by_code_def load_metric_def
      blank_metric_def bigint_ok_def no_value_def)


end
