(* ===== verification/Polling.thy ===== *)
theory Polling
  imports Telemetry_Writer
begin

text \<open>
  What the pollers of both protocols share: which devices are due, the scheduler that enqueues them
  (\<open>collectors/scheduler/tasks.py\<close>), the configuration a poll loads, and the marks it leaves on the
  device and its polling row (\<open>collectors/snmp_collector/services.py\<close>,
  \<open>collectors/modbus_collector/services.py\<close>).
\<close>

subsection \<open>Due devices\<close>

definition config_due :: "time \<Rightarrow> db \<Rightarrow> polling_config \<Rightarrow> bool" where
  "config_due t d c = (pg_is_enabled c
     \<and> (case profile_of d (pg_polling_profile c) of None \<Rightarrow> False | Some p \<Rightarrow> pp_is_active p)
     \<and> (case device_of d (pg_device c) of None \<Rightarrow> False | Some v \<Rightarrow> dev_is_active v)
     \<and> (case pg_next_poll_at c of None \<Rightarrow> False | Some n \<Rightarrow> n \<le> t))"

definition config_protocol :: "db \<Rightarrow> polling_config \<Rightarrow> protocol_type option" where
  "config_protocol d c = map_option pp_protocol (profile_of d (pg_polling_profile c))"

definition poll_order :: "polling_config \<Rightarrow> time" where
  "poll_order c = (case pg_next_poll_at c of None \<Rightarrow> 0 | Some t \<Rightarrow> t)"

definition get_enabled_snmp_devices_due :: "env \<Rightarrow> db \<Rightarrow> nat \<Rightarrow> uuid list" where
  "get_enabled_snmp_devices_due e d limit = map pg_device (take limit (order_by poll_order
     (filter (\<lambda>c. config_due (now e) d c \<and> config_protocol d c = Some SNMP) (polling_configs d))))"

definition get_enabled_modbus_devices_due :: "env \<Rightarrow> db \<Rightarrow> nat \<Rightarrow> uuid list" where
  "get_enabled_modbus_devices_due e d limit = map pg_device (take limit (order_by poll_order
     (filter (\<lambda>c. config_due (now e) d c \<and> config_protocol d c = Some MODBUS_TCP) (polling_configs d))))"

subsection \<open>The scheduler\<close>

text \<open>The draw of \<open>random.randint\<close> is an argument.\<close>

definition jitter_bound :: "nat \<Rightarrow> nat" where
  "jitter_bound interval = max 1 (min 10 (interval div 5))"

definition calculate_next_poll :: "env \<Rightarrow> (nat \<Rightarrow> nat \<Rightarrow> nat) \<Rightarrow> nat \<Rightarrow> time" where
  "calculate_next_poll e randint interval_seconds =
     (let interval = (if interval_seconds = 0 then 60 else interval_seconds);
          jitter = randint 0 (jitter_bound interval)
      in now e + seconds (int (interval + jitter)))"

definition get_queue :: "protocol_type \<Rightarrow> string option \<Rightarrow> string" where
  "get_queue protocol priority =
     (let p = lower (str_or priority ''NORMAL'') in
      case protocol of
        SNMP \<Rightarrow> if p = ''high'' then ''snmp_high'' else if p = ''low'' then ''snmp_low'' else ''snmp_normal''
      | MODBUS_TCP \<Rightarrow> if p = ''high'' then ''modbus_high'' else if p = ''low'' then ''modbus_low'' else ''modbus_normal''
      | _ \<Rightarrow> ''default'')"

fun priority_value :: "polling_priority \<Rightarrow> string" where
  "priority_value HIGH = ''HIGH''"
| "priority_value NORMAL = ''NORMAL''"
| "priority_value LOW = ''LOW''"

definition due_configs :: "time \<Rightarrow> db \<Rightarrow> polling_config list" where
  "due_configs t d = order_by poll_order (filter (config_due t d) (polling_configs d))"

definition poll_task :: "polling_profile \<Rightarrow> uuid \<Rightarrow> task option" where
  "poll_task p dev =
     (let queue = get_queue (pp_protocol p) (Some (priority_value (pp_priority p))) in
      case pp_protocol p of
        SNMP \<Rightarrow> Some (PollSnmpDevice dev queue)
      | MODBUS_TCP \<Rightarrow> Some (PollModbusDevice dev queue)
      | _ \<Rightarrow> None)"

definition set_next_poll :: "uuid \<Rightarrow> time \<Rightarrow> db \<Rightarrow> db" where
  "set_next_poll k t d = d\<lparr>polling_configs := tbl_update pg_id k (\<lambda>c. c\<lparr>pg_next_poll_at := Some t\<rparr>) (polling_configs d)\<rparr>"

text \<open>One pass of the loop; an unsupported protocol is \<open>continue\<close>.\<close>

definition enqueue_one :: "env \<Rightarrow> (nat \<Rightarrow> nat \<Rightarrow> nat) \<Rightarrow> polling_config \<Rightarrow> nat \<times> db \<Rightarrow> nat \<times> db" where
  "enqueue_one e randint c s = (case s of (n, d) \<Rightarrow>
     (case profile_of d (pg_polling_profile c) of
        None \<Rightarrow> (n, d)
      | Some p \<Rightarrow> (case poll_task p (pg_device c) of
          None \<Rightarrow> (n, d)
        | Some t \<Rightarrow> (n + 1, set_next_poll (pg_id c) (calculate_next_poll e randint (pp_interval_seconds p))
            (d\<lparr>outbox := outbox d @ [t]\<rparr>)))))"

text \<open>With the schema missing (\<open>ProgrammingError\<close>, \<open>OperationalError\<close>) the run is skipped.\<close>

datatype schedule_result = Enqueued nat | Skipped

definition enqueue_due_polls :: "env \<Rightarrow> bool \<Rightarrow> (nat \<Rightarrow> nat \<Rightarrow> nat) \<Rightarrow> nat \<Rightarrow> db \<Rightarrow> schedule_result \<times> db" where
  "enqueue_due_polls e schema_ready randint limit d =
     (if \<not> schema_ready then (Skipped, d)
      else (let (n, d') = fold (enqueue_one e randint) (take limit (due_configs (now e) d)) (0, d) in (Enqueued n, d')))"

definition enqueue_due_snmp_polls :: "env \<Rightarrow> bool \<Rightarrow> string \<Rightarrow> nat \<Rightarrow> db \<Rightarrow> schedule_result \<times> db" where
  "enqueue_due_snmp_polls e schema_ready queue limit d =
     (if \<not> schema_ready then (Skipped, d)
      else (let ids = get_enabled_snmp_devices_due e d limit in
        (Enqueued (length ids), d\<lparr>outbox := outbox d @ map (\<lambda>k. PollSnmpDevice k queue) ids\<rparr>)))"

definition enqueue_due_modbus_polls :: "env \<Rightarrow> bool \<Rightarrow> string \<Rightarrow> nat \<Rightarrow> db \<Rightarrow> schedule_result \<times> db" where
  "enqueue_due_modbus_polls e schema_ready queue limit d =
     (if \<not> schema_ready then (Skipped, d)
      else (let ids = get_enabled_modbus_devices_due e d limit in
        (Enqueued (length ids), d\<lparr>outbox := outbox d @ map (\<lambda>k. PollModbusDevice k queue) ids\<rparr>)))"

subsection \<open>What a poll loads\<close>

text \<open>A device has at most one polling row (\<open>OneToOneField\<close>); it is read once, with its profile.\<close>

definition polling_config_of :: "db \<Rightarrow> uuid \<Rightarrow> (polling_config \<times> polling_profile) option" where
  "polling_config_of d dev = (case find (\<lambda>c. pg_device c = dev) (polling_configs d) of
      None \<Rightarrow> None
    | Some c \<Rightarrow> map_option (Pair c) (profile_of d (pg_polling_profile c)))"

definition protocol_config_for :: "db \<Rightarrow> device \<Rightarrow> protocol_type \<Rightarrow> protocol_config option" where
  "protocol_config_for d dev protocol = first_row (order_by (\<lambda>c. (if pc_is_primary c then 0 else 1 :: nat, pc_created_at c))
     (filter (\<lambda>c. pc_device c = dev_id dev \<and> pc_protocol c = protocol \<and> pc_is_enabled c) (protocol_configs d)))"

definition active_credential :: "db \<Rightarrow> device \<Rightarrow> credential option" where
  "active_credential d dev = first_row (order_by (\<lambda>c. - cr_updated_at c)
     (filter (\<lambda>c. cr_device c = dev_id dev \<and> cr_protocol c = SNMP \<and> cr_is_active c) (credentials d)))"

text \<open>
  One mapping per metric: the first seen, replaced by any later one that names a device model. A dict
  keeps the place of a key that is assigned again.
\<close>

definition dedupe_step :: "('m \<Rightarrow> uuid) \<Rightarrow> ('m \<Rightarrow> uuid option) \<Rightarrow> (uuid \<times> 'm) list \<Rightarrow> 'm \<Rightarrow> (uuid \<times> 'm) list" where
  "dedupe_step metric model deduped m =
     (if dict_get deduped (metric m) = None \<or> model m \<noteq> None then dict_set deduped (metric m) m else deduped)"

definition dedupe :: "('m \<Rightarrow> uuid) \<Rightarrow> ('m \<Rightarrow> uuid option) \<Rightarrow> 'm list \<Rightarrow> 'm list" where
  "dedupe metric model ms = map snd (foldl (dedupe_step metric model) [] ms)"

text \<open>\<open>filter(device_model=device.device_model)\<close> is \<open>IS NULL\<close> for a device without a model.\<close>

definition snmp_mapping_q :: "device \<Rightarrow> oid_mapping \<Rightarrow> bool" where
  "snmp_mapping_q dev m =
     ((om_device_type m = dev_device_type dev \<and> om_is_active m \<and> om_device_model m = None)
      \<or> (om_device_model m = dev_device_model dev \<and> om_is_active m))"

definition get_device_snmp_runtime :: "db \<Rightarrow> device \<Rightarrow> exn + protocol_config \<times> credential \<times> oid_mapping list" where
  "get_device_snmp_runtime d dev =
     (case protocol_config_for d dev SNMP of
        None \<Rightarrow> Inl (SNMPConfigurationError ''SNMP protocol config is missing or disabled'')
      | Some pc \<Rightarrow> (case active_credential d dev of
          None \<Rightarrow> Inl (SNMPCredentialError ''Active SNMP credential is missing'')
        | Some cr \<Rightarrow>
            (let ms = dedupe om_metric om_device_model (filter (snmp_mapping_q dev) (oid_mappings d)) in
             if ms = [] then Inl (SNMPConfigurationError ''No active SNMP OID mappings found for this device type/model'')
             else Inr (pc, cr, ms))))"

definition modbus_mapping_q :: "device \<Rightarrow> register_mapping \<Rightarrow> bool" where
  "modbus_mapping_q dev m = (rg_device_type m = dev_device_type dev \<and> rg_is_active m
     \<and> (rg_device_model m = dev_device_model dev \<or> rg_device_model m = None))"

definition get_modbus_runtime :: "db \<Rightarrow> device \<Rightarrow> exn + protocol_config \<times> register_mapping list" where
  "get_modbus_runtime d dev =
     (case protocol_config_for d dev MODBUS_TCP of
        None \<Rightarrow> Inl (ModbusConfigurationError ''Modbus TCP protocol config is missing or disabled'')
      | Some pc \<Rightarrow>
          (let ms = dedupe rg_metric rg_device_model (filter (modbus_mapping_q dev) (register_mappings d)) in
           if ms = [] then Inl (ModbusConfigurationError ''No active Modbus register mappings found for this device type/model'')
           else Inr (pc, ms)))"

subsection \<open>The marks of a poll\<close>

definition update_device_status :: "uuid \<Rightarrow> device_status \<Rightarrow> db \<Rightarrow> db" where
  "update_device_status k s d = d\<lparr>devices := tbl_update dev_id k (\<lambda>r. r\<lparr>dev_status := s\<rparr>) (devices d)\<rparr>"

definition update_polling :: "uuid \<Rightarrow> time \<Rightarrow> time \<Rightarrow> nat \<Rightarrow> string \<Rightarrow> db \<Rightarrow> db" where
  "update_polling k polled next failures message d =
     d\<lparr>polling_configs := tbl_update pg_id k (\<lambda>c. c\<lparr>pg_last_polled_at := Some polled, pg_next_poll_at := Some next,
        pg_consecutive_failures := failures, pg_last_error_message := Some message\<rparr>) (polling_configs d)\<rparr>"

definition mark_success :: "db \<Rightarrow> device \<Rightarrow> (polling_config \<times> polling_profile) option \<Rightarrow> time \<Rightarrow> db" where
  "mark_success d dev pcfg at_time =
     (let d1 = device_seen (dev_id dev) at_time d in
      case pcfg of None \<Rightarrow> d1
      | Some (c, p) \<Rightarrow> update_polling (pg_id c) at_time (at_time + seconds (int (pp_interval_seconds p))) 0 [] d1)"

definition snmp_failure_status :: "device \<Rightarrow> nat \<Rightarrow> nat \<Rightarrow> time \<Rightarrow> device_status" where
  "snmp_failure_status dev stale_after failures at_time =
     (if (case dev_last_seen_at dev of None \<Rightarrow> True | Some t \<Rightarrow> at_time - t \<ge> seconds (int stale_after)) \<or> failures \<ge> 3
      then OFFLINE else DEGRADED)"

definition snmp_mark_failure :: "db \<Rightarrow> device \<Rightarrow> (polling_config \<times> polling_profile) option \<Rightarrow> string \<Rightarrow> time \<Rightarrow> db" where
  "snmp_mark_failure d dev pcfg message at_time =
     (let failures = (case pcfg of None \<Rightarrow> 1 | Some (c, p) \<Rightarrow> pg_consecutive_failures c + 1);
          stale_after = (case pcfg of None \<Rightarrow> 180 | Some (c, p) \<Rightarrow> pp_stale_after_seconds p);
          d1 = update_device_status (dev_id dev) (snmp_failure_status dev stale_after failures at_time) d
      in case pcfg of None \<Rightarrow> d1
         | Some (c, p) \<Rightarrow> update_polling (pg_id c) at_time (at_time + seconds (int (min (pp_interval_seconds p) 300)))
             failures (take 2000 message) d1)"

definition modbus_mark_failure :: "db \<Rightarrow> device \<Rightarrow> (polling_config \<times> polling_profile) option \<Rightarrow> string \<Rightarrow> time \<Rightarrow> db" where
  "modbus_mark_failure d dev pcfg message at_time =
     (let failures = (case pcfg of None \<Rightarrow> 1 | Some (c, p) \<Rightarrow> pg_consecutive_failures c + 1);
          d1 = update_device_status (dev_id dev) (if failures < 3 then DEGRADED else OFFLINE) d
      in case pcfg of None \<Rightarrow> d1
         | Some (c, p) \<Rightarrow> update_polling (pg_id c) at_time (at_time + seconds (int (min (pp_interval_seconds p) 300)))
             failures (take 2000 message) d1)"

end
