(* ===== verification/Polling_Props.thy ===== *)
theory Polling_Props
  imports Polling
begin

text \<open>
  The scheduler serves exactly the first due devices and postpones them; a device of an unsupported
  protocol is never postponed and keeps its place. The mappings a poll loads are one per metric, the
  model's own before the generic ones.
\<close>

subsection \<open>The scheduler\<close>

definition supported :: "db \<Rightarrow> polling_config \<Rightarrow> bool" where
  "supported d c = (case profile_of d (pg_polling_profile c) of None \<Rightarrow> False
     | Some p \<Rightarrow> pp_protocol p = SNMP \<or> pp_protocol p = MODBUS_TCP)"

definition next_poll_of :: "env \<Rightarrow> (nat \<Rightarrow> nat \<Rightarrow> nat) \<Rightarrow> db \<Rightarrow> polling_config \<Rightarrow> time" where
  "next_poll_of e randint d c =
     calculate_next_poll e randint (case profile_of d (pg_polling_profile c) of None \<Rightarrow> 0 | Some p \<Rightarrow> pp_interval_seconds p)"

definition task_of :: "db \<Rightarrow> polling_config \<Rightarrow> task option" where
  "task_of d c = (case profile_of d (pg_polling_profile c) of None \<Rightarrow> None | Some p \<Rightarrow> poll_task p (pg_device c))"

definition polling_of :: "db \<Rightarrow> uuid \<Rightarrow> polling_config option" where
  "polling_of d k = tbl_get pg_id k (polling_configs d)"

lemma supported_task: "supported d c \<longleftrightarrow> (\<exists>t. task_of d c = Some t)"
  by (auto simp: supported_def task_of_def poll_task_def Let_def split: option.splits protocol_type.splits)

lemma set_next_poll_sel [simp]:
  "polling_profiles (set_next_poll k t d) = polling_profiles d" "outbox (set_next_poll k t d) = outbox d"
  "profile_of (set_next_poll k t d) i = profile_of d i"
  by (simp_all add: set_next_poll_def profile_of_def)

lemma profile_of_outbox [simp]: "profile_of (d\<lparr>outbox := q\<rparr>) i = profile_of d i"
  by (simp add: profile_of_def)

lemma polling_of_set: "polling_of (set_next_poll k t d) j =
    (if j = k then map_option (\<lambda>c. c\<lparr>pg_next_poll_at := Some t\<rparr>) (polling_of d j) else polling_of d j)"
  using polling_tbl.get_upd [of "\<lambda>c. c\<lparr>pg_next_poll_at := Some t\<rparr>" j k "polling_configs d"]
  by (simp add: polling_of_def set_next_poll_def)

lemma polling_of_outbox [simp]: "polling_of (d\<lparr>outbox := q\<rparr>) j = polling_of d j"
  by (simp add: polling_of_def)

text \<open>One pass: nothing for an unsupported device, else a task and a new poll time.\<close>

lemma enqueue_one_cases:
  "enqueue_one e randint c (n, d) =
     (case task_of d c of None \<Rightarrow> (n, d)
      | Some t \<Rightarrow> (n + 1, set_next_poll (pg_id c) (next_poll_of e randint d c) (d\<lparr>outbox := outbox d @ [t]\<rparr>)))"
  by (simp add: enqueue_one_def task_of_def next_poll_of_def split: option.splits)

definition same_profiles :: "db \<Rightarrow> db \<Rightarrow> bool" where
  "same_profiles d d' = (polling_profiles d' = polling_profiles d)"

lemma same_profiles_eq:
  assumes "same_profiles d d'"
  shows "task_of d' c = task_of d c" "next_poll_of e randint d' c = next_poll_of e randint d c" "supported d' c = supported d c"
  using assms by (simp_all add: same_profiles_def task_of_def next_poll_of_def supported_def profile_of_def)

lemma enqueue_fold:
  assumes "fold (enqueue_one e randint) cs (n, d) = (n', d')" and "distinct (map pg_id cs)"
  shows "n' = n + length (filter (supported d) cs)
    \<and> outbox d' = outbox d @ map (the \<circ> task_of d) (filter (supported d) cs)
    \<and> same_profiles d d'
    \<and> (\<forall>k. polling_of d' k = (case find (\<lambda>c. pg_id c = k) (filter (supported d) cs) of
          None \<Rightarrow> polling_of d k
        | Some c \<Rightarrow> map_option (\<lambda>r. r\<lparr>pg_next_poll_at := Some (next_poll_of e randint d c)\<rparr>) (polling_of d k)))"
  using assms
proof (induction cs arbitrary: n d)
  case Nil
  then show ?case by (simp add: same_profiles_def)
next
  case (Cons c cs)
  then have dist: "distinct (map pg_id cs)" by simp
  show ?case
  proof (cases "task_of d c")
    case None
    then have "\<not> supported d c" by (simp add: supported_task)
    with Cons.IH [OF _ dist, of n d] Cons.prems(1) None show ?thesis by (simp add: enqueue_one_cases)
  next
    case (Some t)
    then have s: "supported d c" by (simp add: supported_task)
    define d1 where "d1 = set_next_poll (pg_id c) (next_poll_of e randint d c) (d\<lparr>outbox := outbox d @ [t]\<rparr>)"
    have same: "same_profiles d d1" by (simp add: same_profiles_def d1_def)
    note eq = same_profiles_eq [OF same]
    have sup: "supported d1 = supported d" "task_of d1 = task_of d" by (rule ext, simp add: eq)+
    from Cons.prems(1) Some have "fold (enqueue_one e randint) cs (n + 1, d1) = (n', d')"
      by (simp add: enqueue_one_cases d1_def)
    note IH = Cons.IH [OF this dist, unfolded sup eq(2)]
    have own: "\<forall>x \<in> set cs. pg_id x \<noteq> pg_id c" using Cons.prems(2) by (simp add: image_iff) metis
    have o: "outbox d1 = outbox d @ [t]" by (simp add: d1_def)
    have "polling_of d' k = (case find (\<lambda>c. pg_id c = k) (filter (supported d) (c # cs)) of
          None \<Rightarrow> polling_of d k
        | Some c \<Rightarrow> map_option (\<lambda>r. r\<lparr>pg_next_poll_at := Some (next_poll_of e randint d c)\<rparr>) (polling_of d k))" for k
    proof (cases "k = pg_id c")
      case True
      then have "find (\<lambda>c. pg_id c = k) (filter (supported d) cs) = None"
        using own by (auto simp: find_None_iff)
      with IH True s show ?thesis by (simp add: d1_def polling_of_set)
    next
      case False
      then have "polling_of d1 k = polling_of d k" by (simp add: d1_def polling_of_set)
      with IH False s show ?thesis by (simp split: option.splits)
    qed
    moreover have "same_profiles d d'" using IH by (simp add: same_profiles_def d1_def)
    ultimately show ?thesis using IH s o Some by simp
  qed
qed

lemma calculate_next_poll_bounds:
  assumes "\<And>a b. a \<le> b \<Longrightarrow> a \<le> randint a b \<and> randint a b \<le> b"
  shows "now e + seconds (int (if interval = 0 then 60 else interval)) \<le> calculate_next_poll e randint interval"
    and "calculate_next_poll e randint interval \<le> now e + seconds (int (if interval = 0 then 60 else interval) + 10)"
proof -
  let ?i = "if interval = 0 then 60 else interval"
  have b: "jitter_bound ?i \<le> 10" by (simp add: jitter_bound_def)
  with assms [of 0 "jitter_bound ?i"] have "randint 0 (jitter_bound ?i) \<le> 10" by linarith
  then show "now e + seconds (int ?i) \<le> calculate_next_poll e randint interval"
    "calculate_next_poll e randint interval \<le> now e + seconds (int ?i + 10)"
    by (simp_all add: calculate_next_poll_def Let_def seconds_def)
qed

lemma find_unique_key:
  "distinct (map pk xs) \<Longrightarrow> x \<in> set xs \<Longrightarrow> find (\<lambda>y. pk y = pk x) xs = Some x"
  by (induction xs) auto

lemma due_configs_distinct: "keys_unique pg_id (polling_configs d) \<Longrightarrow> distinct (map pg_id (take n (due_configs t d)))"
proof -
  assume "keys_unique pg_id (polling_configs d)"
  then have "distinct (map pg_id (due_configs t d))"
    by (auto simp: keys_unique_def due_configs_def distinct_map order_by_def distinct_sort intro: inj_on_subset)
  then have "distinct (take n (map pg_id (due_configs t d)))" by (rule distinct_take)
  then show ?thesis by (simp add: take_map)
qed

text \<open>C7. A run of the scheduler over an existing schema serves exactly the supported devices among the first
  \<open>limit\<close> due ones, in the order of their poll times, one task each; a served device is due again no earlier
  than its interval and at most ten seconds later than that, every other polling row is left alone.\<close>

theorem scheduler_outcome:
  assumes "keys_unique pg_id (polling_configs d)" and "\<And>a b. a \<le> b \<Longrightarrow> a \<le> randint a b \<and> randint a b \<le> b"
    and "enqueue_due_polls e True randint limit d = (res, d')"
    and "served = filter (supported d) (take limit (due_configs (now e) d))"
  shows "res = Enqueued (length served) \<and> outbox d' = outbox d @ map (the \<circ> task_of d) served
    \<and> (\<forall>c \<in> set served. \<exists>t i. polling_of d' (pg_id c) = Some (c\<lparr>pg_next_poll_at := Some t\<rparr>)
         \<and> 0 < i \<and> now e + seconds i \<le> t \<and> t \<le> now e + seconds (i + 10))
    \<and> (\<forall>k. k \<notin> pg_id ` set served \<longrightarrow> polling_of d' k = polling_of d k)"
proof -
  let ?cs = "take limit (due_configs (now e) d)"
  obtain n where f: "fold (enqueue_one e randint) ?cs (0, d) = (n, d')" and n: "res = Enqueued n"
    using assms(3) by (auto simp: enqueue_due_polls_def split: prod.splits)
  have dist: "distinct (map pg_id ?cs)" by (rule due_configs_distinct [OF assms(1)])
  note F = enqueue_fold [OF f dist, folded assms(4)]
  have ds: "distinct (map pg_id served)"
    using dist by (auto simp: assms(4) distinct_map intro: inj_on_subset)
  have "\<exists>t i. polling_of d' (pg_id c) = Some (c\<lparr>pg_next_poll_at := Some t\<rparr>)
      \<and> 0 < i \<and> now e + seconds i \<le> t \<and> t \<le> now e + seconds (i + 10)" if "c \<in> set served" for c
  proof -
    have "c \<in> set (polling_configs d)"
      using that by (auto simp: assms(4) due_configs_def dest: in_set_takeD)
    with polling_tbl.get_in [of "polling_configs d" c] assms(1) have "polling_of d (pg_id c) = Some c"
      by (simp add: polling_of_def keys_unique_def)
    moreover have "find (\<lambda>x. pg_id x = pg_id c) served = Some c" by (rule find_unique_key [OF ds that])
    ultimately have p: "polling_of d' (pg_id c) = Some (c\<lparr>pg_next_poll_at := Some (next_poll_of e randint d c)\<rparr>)"
      using F by simp
    define v where "v = (case profile_of d (pg_polling_profile c) of None \<Rightarrow> 0 | Some p \<Rightarrow> pp_interval_seconds p)"
    define i where "i = int (if v = 0 then 60 else v)"
    have "now e + seconds i \<le> next_poll_of e randint d c" "next_poll_of e randint d c \<le> now e + seconds (i + 10)" "0 < i"
      using calculate_next_poll_bounds [OF assms(2), of e v] by (simp_all add: next_poll_of_def i_def v_def)
    with p show ?thesis by blast
  qed
  moreover have "polling_of d' k = polling_of d k" if "k \<notin> pg_id ` set served" for k
  proof -
    have "find (\<lambda>x. pg_id x = k) served = None" using that by (auto simp: find_None_iff)
    with F show ?thesis by simp
  qed
  ultimately show ?thesis using F n by simp
qed

definition snmp_profile :: polling_profile where
  "snmp_profile = \<lparr>pp_id = 1, pp_name = [], pp_protocol = SNMP, pp_priority = HIGH, pp_interval_seconds = 30,
     pp_timeout_seconds = 5, pp_retry_count = 3, pp_stale_after_seconds = 180, pp_is_active = True\<rparr>"

definition ping_profile :: polling_profile where
  "ping_profile = snmp_profile\<lparr>pp_id := 2, pp_protocol := PING\<rparr>"

definition poll_row :: "uuid \<Rightarrow> uuid \<Rightarrow> time \<Rightarrow> polling_config" where
  "poll_row k p t = \<lparr>pg_id = k, pg_device = k, pg_polling_profile = p, pg_is_enabled = True, pg_last_polled_at = None,
     pg_next_poll_at = Some t, pg_consecutive_failures = 0, pg_last_error_message = None\<rparr>"

definition poll_db :: db where
  "poll_db = empty_db\<lparr>devices := [blank_device\<lparr>dev_id := 10\<rparr>, blank_device\<lparr>dev_id := 20\<rparr>],
     polling_profiles := [snmp_profile, ping_profile], polling_configs := [poll_row 10 1 7, poll_row 20 2 3]\<rparr>"

lemmas poll_example_defs = poll_db_def snmp_profile_def ping_profile_def poll_row_def blank_defs

lemma poll_db_due: "7 \<le> t \<Longrightarrow> due_configs t poll_db = [poll_row 20 2 3, poll_row 10 1 7]"
  by (simp add: due_configs_def order_by_def poll_example_defs config_due_def profile_of_def device_of_def tbl_get_def
      poll_order_def)

lemma poll_db_supported: "supported poll_db (poll_row k p t) \<longleftrightarrow> p = 1"
  by (auto simp: supported_def profile_of_def tbl_get_def poll_example_defs)

lemma scheduler_outcome_witness:
  "\<exists>d'. enqueue_due_polls (plain_env 8) True (\<lambda>a b. b) 2 poll_db = (Enqueued 1, d')
     \<and> outbox d' = [PollSnmpDevice 10 ''snmp_high''] \<and> polling_of d' 20 = Some (poll_row 20 2 3)"
proof -
  obtain res d' where r: "enqueue_due_polls (plain_env 8) True (\<lambda>a b. b) 2 poll_db = (res, d')" by (metis surj_pair)
  have k: "keys_unique pg_id (polling_configs poll_db)" by (simp add: poll_db_def poll_row_def keys_unique_def)
  have s: "[poll_row 10 1 7] = filter (supported poll_db) (take 2 (due_configs (now (plain_env 8)) poll_db))"
    using poll_db_due [of 8] poll_db_supported by (simp add: plain_env_def)
  have t: "task_of poll_db (poll_row 10 1 7) = Some (PollSnmpDevice 10 ''snmp_high'')"
    by (simp add: task_of_def profile_of_def tbl_get_def poll_example_defs poll_task_def get_queue_def
        lower_def lower_char_def char_of_def bit_0)
  have "polling_of poll_db 20 = Some (poll_row 20 2 3)" by (simp add: polling_of_def tbl_get_def poll_db_def poll_row_def)
  then show ?thesis
    using scheduler_outcome [OF k _ r s] t r by (simp add: poll_row_def [of 10] poll_db_def empty_db_def)
qed

subsection \<open>Starvation\<close>

lemma take_takeWhile_mono:
  "(\<And>x. P x \<Longrightarrow> Q x) \<Longrightarrow> n \<le> length (takeWhile P xs) \<Longrightarrow> take n (takeWhile Q xs) = take n (takeWhile P xs)"
  by (induction xs arbitrary: n) (auto simp: take_Cons split: nat.splits if_splits)

lemma filter_sorted_takeWhile:
  assumes "sorted (map f xs)"
  shows "filter (\<lambda>x. f x \<le> (t::'b::linorder)) xs = takeWhile (\<lambda>x. f x \<le> t) xs"
  using assms
proof (induction xs)
  case Nil
  then show ?case by simp
next
  case (Cons a xs)
  show ?case
  proof (cases "f a \<le> t")
    case True
    with Cons show ?thesis by simp
  next
    case False
    with Cons.prems have "filter (\<lambda>x. f x \<le> t) (a # xs) = []" by (auto simp: filter_empty_conv)
    moreover from False have "takeWhile (\<lambda>x. f x \<le> t) (a # xs) = []" by simp
    ultimately show ?thesis by metis
  qed
qed

text \<open>Due now is: in the fixed part of the test, with a poll time up to now.\<close>

definition pollable :: "db \<Rightarrow> polling_config \<Rightarrow> bool" where
  "pollable d c = (pg_is_enabled c \<and> pg_next_poll_at c \<noteq> None
     \<and> (case profile_of d (pg_polling_profile c) of None \<Rightarrow> False | Some p \<Rightarrow> pp_is_active p)
     \<and> (case device_of d (pg_device c) of None \<Rightarrow> False | Some v \<Rightarrow> dev_is_active v))"

lemma due_configs_alt:
  "due_configs t d = takeWhile (\<lambda>c. poll_order c \<le> t) (order_by poll_order (filter (pollable d) (polling_configs d)))"
proof -
  have "config_due t d c \<longleftrightarrow> poll_order c \<le> t \<and> pollable d c" for c
    by (auto simp: config_due_def pollable_def poll_order_def split: option.splits)
  then have "filter (config_due t d) cs = filter (\<lambda>c. poll_order c \<le> t) (filter (pollable d) cs)" for cs
    by (simp add: filter_filter conj_commute cong: filter_cong)
  then have "due_configs t d = filter (\<lambda>c. poll_order c \<le> t) (order_by poll_order (filter (pollable d) (polling_configs d)))"
    by (simp add: due_configs_def order_by_def filter_sort)
  then show ?thesis using filter_sorted_takeWhile [OF sorted_order_by] by simp
qed

lemma due_configs_later:
  "limit \<le> length (due_configs t d) \<Longrightarrow> t \<le> u \<Longrightarrow> take limit (due_configs u d) = take limit (due_configs t d)"
  unfolding due_configs_alt by (rule take_takeWhile_mono) auto

text \<open>A device of an unsupported protocol is skipped without a new poll time, so once the first \<open>limit\<close>
  due devices are all of such protocols, every later run enqueues nothing and changes nothing: the devices
  behind them are never polled.\<close>

theorem scheduler_starves:
  assumes "limit \<le> length (due_configs t d)" and "\<forall>c \<in> set (take limit (due_configs t d)). \<not> supported d c"
    and "t \<le> now e"
  shows "enqueue_due_polls e True randint limit d = (Enqueued 0, d)"
proof -
  have n: "fold (enqueue_one e randint) cs (0, d) = (0, d)" if "\<forall>c \<in> set cs. \<not> supported d c" for cs
    using that by (induction cs) (simp_all add: enqueue_one_cases supported_task)
  show ?thesis
    using n [OF assms(2)] due_configs_later [OF assms(1,3)] by (simp add: enqueue_due_polls_def)
qed

lemma scheduler_starves_witness:
  "enqueue_due_polls (plain_env 1000) True (\<lambda>a b. b) 1 poll_db = (Enqueued 0, poll_db)
    \<and> poll_row 10 1 7 \<in> set (due_configs 1000 poll_db) \<and> supported poll_db (poll_row 10 1 7)"
proof -
  have "enqueue_due_polls (plain_env 1000) True (\<lambda>a b. b) (Suc 0) poll_db = (Enqueued 0, poll_db)"
    using poll_db_due [of 8] poll_db_supported [of 20 2 3]
    by (intro scheduler_starves [of _ 8]) (simp_all add: plain_env_def)
  then show ?thesis using poll_db_due [of 1000] poll_db_supported [of 10 1 7] by simp
qed

subsection \<open>The mappings of a poll\<close>

lemma dict_set_keys: "map fst (dict_set d k v) = (if k \<in> fst ` set d then map fst d else map fst d @ [k])"
  by (induction d k v rule: dict_set.induct) auto

lemma set_dict_set: "distinct (map fst d) \<Longrightarrow> set (dict_set d k v) = insert (k, v) {p \<in> set d. fst p \<noteq> k}"
  by (induction d k v rule: dict_set.induct) (auto simp: image_iff)

lemma dict_get_None: "dict_get d k = None \<longleftrightarrow> k \<notin> fst ` set d"
  by (simp add: dict_get_def map_of_eq_None_iff)

definition deduped :: "('m \<Rightarrow> uuid) \<Rightarrow> ('m \<Rightarrow> uuid option) \<Rightarrow> 'm list \<Rightarrow> (uuid \<times> 'm) list \<Rightarrow> bool" where
  "deduped metric model ms D = (distinct (map fst D) \<and> fst ` set D = metric ` set ms
     \<and> (\<forall>(k, m) \<in> set D. k = metric m \<and> m \<in> set ms
         \<and> (model m = None \<longrightarrow> (\<forall>x \<in> set ms. metric x = k \<longrightarrow> model x = None))))"

lemma dedupe_step_inv:
  assumes "deduped metric model ms D"
  shows "deduped metric model (ms @ [m]) (dedupe_step metric model D m)"
proof -
  have d: "distinct (map fst D)" and f: "fst ` set D = metric ` set ms" using assms by (simp_all add: deduped_def)
  have one: "metric b = a \<and> b \<in> set ms \<and> (model b = None \<longrightarrow> (\<forall>x \<in> set ms. metric x = a \<longrightarrow> model x = None))"
    if "(a, b) \<in> set D" for a b
    using assms that unfolding deduped_def by fastforce
  show ?thesis
  proof (cases "dict_get D (metric m) = None \<or> model m \<noteq> None")
    case True
    then have s: "dedupe_step metric model D m = dict_set D (metric m) m" by (simp add: dedupe_step_def)
    have "distinct (map fst (dict_set D (metric m) m))" using d by (simp add: dict_set_keys)
    moreover have "fst ` set (dict_set D (metric m) m) = metric ` set (ms @ [m])"
      using f arg_cong [OF dict_set_keys [of D "metric m" m], of set] by (auto split: if_splits)
    moreover have "\<forall>x \<in> set (ms @ [m]). metric x = metric m \<longrightarrow> model x = None" if "model m = None"
    proof -
      from True that have "metric m \<notin> metric ` set ms" by (simp add: dict_get_None f)
      with that show ?thesis by (auto simp: image_iff)
    qed
    moreover have "a = metric b \<and> b \<in> set (ms @ [m]) \<and> (model b = None \<longrightarrow> (\<forall>x \<in> set (ms @ [m]). metric x = a \<longrightarrow> model x = None))"
      if "(a, b) \<in> set (dict_set D (metric m) m)" for a b
    proof -
      from that consider "a = metric m" "b = m" | "(a, b) \<in> set D" "a \<noteq> metric m"
        unfolding set_dict_set [OF d] by auto
      then show ?thesis
      proof cases
        case 1
        then show ?thesis using calculation(3) by simp
      next
        case 2
        with one [OF 2(1)] show ?thesis by auto
      qed
    qed
    ultimately show ?thesis unfolding s deduped_def Ball_def [of "set (dict_set D (metric m) m)"] split_paired_All prod.case by blast
  next
    case False
    then have m: "metric m \<in> metric ` set ms" "model m = None" by (simp_all add: dict_get_None f)
    from False have s: "dedupe_step metric model D m = D" by (auto simp: dedupe_step_def)
    have "metric ` set (ms @ [m]) = metric ` set ms" using m(1) by auto
    then show ?thesis using d f m one unfolding s deduped_def by auto
  qed
qed

lemma dedupe_inv: "deduped metric model ms (foldl (dedupe_step metric model) [] ms)"
proof (induction ms rule: rev_induct)
  case Nil
  show ?case by (simp add: deduped_def)
next
  case (snoc m ms)
  then show ?case using dedupe_step_inv by simp
qed

lemma dedupe_exact:
  shows "distinct (map metric (dedupe metric model ms))"
    and "metric ` set (dedupe metric model ms) = metric ` set ms"
    and "m \<in> set (dedupe metric model ms) \<Longrightarrow> m \<in> set ms
      \<and> (model m = None \<longrightarrow> (\<forall>x \<in> set ms. metric x = metric m \<longrightarrow> model x = None))"
proof -
  let ?D = "foldl (dedupe_step metric model) [] ms"
  note inv = dedupe_inv [of metric model ms]
  have k: "map metric (map snd ?D) = map fst ?D"
    using inv unfolding deduped_def map_map by (intro map_cong) auto
  show "distinct (map metric (dedupe metric model ms))" using inv k unfolding deduped_def dedupe_def by metis
  show "metric ` set (dedupe metric model ms) = metric ` set ms"
    using inv arg_cong [OF k, of set] unfolding deduped_def dedupe_def by (simp add: image_image)
  show "m \<in> set (dedupe metric model ms) \<Longrightarrow> m \<in> set ms
      \<and> (model m = None \<longrightarrow> (\<forall>x \<in> set ms. metric x = metric m \<longrightarrow> model x = None))"
    using inv unfolding deduped_def dedupe_def by auto
qed

text \<open>What an SNMP poll loads: an enabled endpoint and an active credential of the device, and one active
  mapping for every metric that some mapping in question names, the device model's own where there is one. A
  device without a model is asked for the generic mappings of every device type, not of its own only.\<close>

theorem snmp_runtime_exact:
  assumes "get_device_snmp_runtime d dev = Inr (pc, cr, ms)"
  shows "pc \<in> set (protocol_configs d) \<and> pc_is_enabled pc \<and> pc_device pc = dev_id dev \<and> pc_protocol pc = SNMP
    \<and> cr \<in> set (credentials d) \<and> cr_is_active cr \<and> cr_device cr = dev_id dev
    \<and> ms \<noteq> [] \<and> distinct (map om_metric ms)
    \<and> (\<forall>m \<in> set ms. m \<in> set (oid_mappings d) \<and> snmp_mapping_q dev m
         \<and> (om_device_model m = None \<longrightarrow> (\<forall>x \<in> set (oid_mappings d). snmp_mapping_q dev x \<and> om_metric x = om_metric m \<longrightarrow> om_device_model x = None)))
    \<and> (\<forall>x \<in> set (oid_mappings d). om_is_active x \<and> om_device_model x = None \<and> dev_device_model dev = None
         \<longrightarrow> om_metric x \<in> om_metric ` set ms)"
proof -
  let ?q = "filter (snmp_mapping_q dev) (oid_mappings d)"
  from assms have pc: "protocol_config_for d dev SNMP = Some pc" and cr: "active_credential d dev = Some cr"
    and ms: "ms = dedupe om_metric om_device_model ?q" "ms \<noteq> []"
    by (auto simp: get_device_snmp_runtime_def Let_def split: option.splits if_splits)
  have "pc \<in> set (protocol_configs d) \<and> pc_is_enabled pc \<and> pc_device pc = dev_id dev \<and> pc_protocol pc = SNMP"
    using first_row_Some_in [OF pc [unfolded protocol_config_for_def]] by simp
  moreover have "cr \<in> set (credentials d) \<and> cr_is_active cr \<and> cr_device cr = dev_id dev"
    using first_row_Some_in [OF cr [unfolded active_credential_def]] by simp
  moreover have "om_metric x \<in> om_metric ` set ms"
    if "x \<in> set (oid_mappings d)" "om_is_active x" "om_device_model x = None" "dev_device_model dev = None" for x
    using dedupe_exact(2) [where metric = om_metric and model = om_device_model and ms = ?q] ms(1) that by (auto simp: snmp_mapping_q_def)
  moreover have "m \<in> set (oid_mappings d) \<and> snmp_mapping_q dev m
      \<and> (om_device_model m = None \<longrightarrow> (\<forall>x \<in> set (oid_mappings d). snmp_mapping_q dev x \<and> om_metric x = om_metric m \<longrightarrow> om_device_model x = None))"
    if "m \<in> set ms" for m
    using dedupe_exact(3) [of m om_metric om_device_model ?q] that ms(1) by simp
  ultimately show ?thesis
    using ms(2) dedupe_exact(1) [where metric = om_metric and model = om_device_model and ms = ?q] ms(1)
    by blast
qed

definition oid_row :: "uuid \<Rightarrow> uuid \<Rightarrow> uuid \<Rightarrow> oid_mapping" where
  "oid_row k type metric = \<lparr>om_id = k, om_device_type = type, om_device_model = None, om_metric = metric, om_oid = [],
     om_data_type = ''int'', om_scale_factor = 1, om_offset_value = 0, om_is_active = True\<rparr>"

definition plain_config :: "protocol_type \<Rightarrow> protocol_config" where
  "plain_config p = \<lparr>pc_id = 1, pc_created_at = 0, pc_device = 10, pc_protocol = p, pc_host = ''h'', pc_port = None,
     pc_timeout_seconds = 5, pc_retry_count = 3, pc_is_primary = True, pc_is_enabled = True\<rparr>"

definition plain_credential :: credential where
  "plain_credential = \<lparr>cr_id = 1, cr_updated_at = 0, cr_device = 10, cr_protocol = SNMP, cr_username = None,
     cr_snmp_version = Some V2C, cr_snmp_community = Some ''public'', cr_v3_auth_protocol = None, cr_v3_auth_key = None,
     cr_v3_priv_protocol = None, cr_v3_priv_key = None, cr_is_active = True\<rparr>"

definition snmp_db :: db where
  "snmp_db = poll_db\<lparr>protocol_configs := [plain_config SNMP], credentials := [plain_credential],
     oid_mappings := [oid_row 1 5 100, oid_row 2 6 200]\<rparr>"

definition ups_device :: device where
  "ups_device = blank_device\<lparr>dev_id := 10, dev_device_type := 5\<rparr>"

lemma snmp_db_runtime:
  "get_device_snmp_runtime snmp_db ups_device = Inr (plain_config SNMP, plain_credential, [oid_row 1 5 100, oid_row 2 6 200])"
  by (simp add: get_device_snmp_runtime_def protocol_config_for_def active_credential_def snmp_db_def plain_config_def
      plain_credential_def ups_device_def blank_device_def dedupe_def dedupe_step_def snmp_mapping_q_def oid_row_def)

lemma snmp_runtime_exact_witness:
  "\<exists>pc cr ms. get_device_snmp_runtime snmp_db ups_device = Inr (pc, cr, ms) \<and> 200 \<in> om_metric ` set ms
     \<and> dev_device_type ups_device = 5 \<and> (\<forall>m \<in> set (oid_mappings snmp_db). om_metric m = 200 \<longrightarrow> om_device_type m = 6)"
proof -
  have "om_metric (oid_row 2 6 200) \<in> om_metric ` set [oid_row 1 5 100, oid_row 2 6 200]"
    using snmp_runtime_exact [OF snmp_db_runtime] by (simp add: snmp_db_def ups_device_def blank_device_def oid_row_def)
  moreover have "om_metric (oid_row 2 6 200) = 200" "dev_device_type ups_device = 5" by (simp_all add: oid_row_def ups_device_def)
  moreover have "\<forall>m \<in> set (oid_mappings snmp_db). om_metric m = 200 \<longrightarrow> om_device_type m = 6" by (simp add: snmp_db_def oid_row_def)
  ultimately show ?thesis using snmp_db_runtime by metis
qed

end
