(* ===== verification/Snmp_Client.thy ===== *)
theory Snmp_Client
  imports Polling_Props
begin

text \<open>
  Stored secrets (\<open>collectors/snmp_collector/security.py\<close>) and the SNMP client
  (\<open>collectors/snmp_collector/client.py\<close>). The Fernet cipher and the agent that answers a GET are
  arguments: the first a pair of functions, the second the reply of \<open>getCmd\<close>, or what it raises.
\<close>

subsection \<open>Secrets\<close>

record fernet =
  fe_encrypt :: "string \<Rightarrow> string"
  fe_decrypt :: "string \<Rightarrow> string option"

definition PREFIX :: string where
  "PREFIX = ''fernet:''"

definition encrypt_secret :: "fernet \<Rightarrow> string option \<Rightarrow> string option" where
  "encrypt_secret f value = (case value of
      None \<Rightarrow> None
    | Some v \<Rightarrow> if v = [] then Some []
        else if startswith v PREFIX then Some v
        else Some (PREFIX @ fe_encrypt f v))"

text \<open>\<open>InvalidToken\<close> is \<open>None\<close> of the cipher.\<close>

definition decrypt_secret :: "fernet \<Rightarrow> string option \<Rightarrow> string option" where
  "decrypt_secret f value = (case value of
      None \<Rightarrow> None
    | Some v \<Rightarrow> if v = [] then Some []
        else if \<not> startswith v PREFIX then Some v
        else fe_decrypt f (drop (length PREFIX) v))"

text \<open>A secret comes back as it was stored, encrypting twice is encrypting once, and a legacy plain
  text is read as it is. A secret that itself begins with the prefix is taken for encrypted: it is stored
  in the clear and does not come back unless its tail happens to be a token of it.\<close>

theorem secret_roundtrip:
  assumes "\<And>s. fe_decrypt f (fe_encrypt f s) = Some s"
  shows "encrypt_secret f (encrypt_secret f (Some v)) = encrypt_secret f (Some v)
    \<and> (if startswith v PREFIX
       then encrypt_secret f (Some v) = Some v
         \<and> decrypt_secret f (encrypt_secret f (Some v)) = fe_decrypt f (drop (length PREFIX) v)
       else decrypt_secret f (encrypt_secret f (Some v)) = Some v \<and> decrypt_secret f (Some v) = Some v)"
proof -
  have p: "startswith (PREFIX @ w) PREFIX" for w using startswith_append by blast
  have n: "PREFIX \<noteq> []" "\<not> startswith [] PREFIX" by (simp_all add: PREFIX_def)
  show ?thesis using assms p n by (auto simp: encrypt_secret_def decrypt_secret_def)
qed

definition toy_fernet :: fernet where
  "toy_fernet = \<lparr>fe_encrypt = (\<lambda>s. CHR ''#'' # s), fe_decrypt = (\<lambda>t. case t of [] \<Rightarrow> None | c # s \<Rightarrow> if c = CHR ''#'' then Some s else None)\<rparr>"

lemma secret_roundtrip_witness:
  "decrypt_secret toy_fernet (encrypt_secret toy_fernet (Some ''public'')) = Some ''public''
    \<and> decrypt_secret toy_fernet (encrypt_secret toy_fernet (Some ''fernet:x'')) = None"
proof -
  have t: "\<And>s. fe_decrypt toy_fernet (fe_encrypt toy_fernet s) = Some s" by (simp add: toy_fernet_def)
  have p: "\<not> startswith ''public'' PREFIX" "startswith ''fernet:x'' PREFIX" "drop (length PREFIX) ''fernet:x'' = ''x''"
    by (simp_all add: PREFIX_def)
  have x: "fe_decrypt toy_fernet ''x'' = None" by (simp add: toy_fernet_def)
  show ?thesis
    using secret_roundtrip [of toy_fernet "''public''", OF t, unfolded if_not_P [OF p(1)]]
      secret_roundtrip [of toy_fernet "''fernet:x''", OF t, unfolded if_P [OF p(2)] p(3) x] by blast
qed

subsection \<open>Authentication data\<close>

datatype auth_protocol = usmNoAuth | usmMD5 | usmSHA | usmSHA224 | usmSHA256 | usmSHA384 | usmSHA512

datatype priv_protocol = usmNoPriv | usmDES | usmAes128 | usmAes192 | usmAes256

definition AUTH_PROTOCOLS :: "(string \<times> auth_protocol) list" where
  "AUTH_PROTOCOLS = [('''', usmNoAuth), (''NONE'', usmNoAuth), (''MD5'', usmMD5), (''SHA'', usmSHA), (''SHA1'', usmSHA),
     (''SHA224'', usmSHA224), (''SHA256'', usmSHA256), (''SHA384'', usmSHA384), (''SHA512'', usmSHA512)]"

definition PRIV_PROTOCOLS :: "(string \<times> priv_protocol) list" where
  "PRIV_PROTOCOLS = [('''', usmNoPriv), (''NONE'', usmNoPriv), (''DES'', usmDES), (''AES'', usmAes128), (''AES128'', usmAes128),
     (''AES192'', usmAes192), (''AES256'', usmAes256)]"

datatype auth = CommunityData string nat | UsmUserData string "string option" "string option" auth_protocol priv_protocol

definition community_auth :: "fernet \<Rightarrow> credential \<Rightarrow> string \<Rightarrow> nat \<Rightarrow> exn + auth" where
  "community_auth f cr message model =
     (case decrypt_secret f (cr_snmp_community cr) of
        None \<Rightarrow> Inl (SNMPCredentialError message)
      | Some c \<Rightarrow> if c = [] then Inl (SNMPCredentialError message) else Inr (CommunityData c model))"

definition auth_data :: "fernet \<Rightarrow> credential \<Rightarrow> exn + auth" where
  "auth_data f cr = (case (case cr_snmp_version cr of None \<Rightarrow> V2C | Some v \<Rightarrow> v) of
      V1 \<Rightarrow> community_auth f cr ''SNMP v1 community is missing'' 0
    | V2C \<Rightarrow> community_auth f cr ''SNMP v2c community is missing'' 1
    | V3 \<Rightarrow>
        (let username = str_or (cr_username cr) [] in
         if username = [] then Inl (SNMPCredentialError ''SNMP v3 username is missing'')
         else (case dict_get AUTH_PROTOCOLS (upper (str_or (cr_v3_auth_protocol cr) ''NONE'')) of
             None \<Rightarrow> Inl (SNMPCredentialError (''Unsupported SNMP v3 auth protocol: '' @ str_or (cr_v3_auth_protocol cr) ''None''))
           | Some a \<Rightarrow> (case dict_get PRIV_PROTOCOLS (upper (str_or (cr_v3_priv_protocol cr) ''NONE'')) of
               None \<Rightarrow> Inl (SNMPCredentialError (''Unsupported SNMP v3 privacy protocol: '' @ str_or (cr_v3_priv_protocol cr) ''None''))
             | Some p \<Rightarrow> Inr (UsmUserData username (decrypt_secret f (cr_v3_auth_key cr)) (decrypt_secret f (cr_v3_priv_key cr)) a p)))))"

subsection \<open>One GET\<close>

record snmp_client =
  cl_host :: string
  cl_port :: nat
  cl_timeout :: nat
  cl_retries :: nat
  cl_credential :: credential

definition snmp_client_of :: "protocol_config \<Rightarrow> credential \<Rightarrow> snmp_client" where
  "snmp_client_of pc cr = \<lparr>cl_host = pc_host pc, cl_port = (case pc_port pc of None \<Rightarrow> 161 | Some p \<Rightarrow> if p = 0 then 161 else p),
     cl_timeout = (if pc_timeout_seconds pc = 0 then 5 else pc_timeout_seconds pc),
     cl_retries = (if pc_retry_count pc = 0 then 1 else pc_retry_count pc), cl_credential = cr\<rparr>"

text \<open>The four results of \<open>next(getCmd(...))\<close>; the status as its number and its text.\<close>

record snmp_reply =
  error_indication :: "string option"
  error_status :: "nat \<times> string"
  error_index :: nat
  var_binds :: "(string \<times> string) list"

record snmp_result =
  res_oid :: string
  res_value :: raw
  res_raw_value :: string

type_synonym agent = "auth \<Rightarrow> snmp_client \<Rightarrow> string \<Rightarrow> exn + snmp_reply"

definition snmp_get :: "fernet \<Rightarrow> agent \<Rightarrow> snmp_client \<Rightarrow> string \<Rightarrow> exn + snmp_result" where
  "snmp_get f agent c oid =
     (case auth_data f (cl_credential c) of Inl x \<Rightarrow> Inl x | Inr auth \<Rightarrow>
      case agent auth c oid of Inl x \<Rightarrow> Inl x | Inr r \<Rightarrow>
      (let msg = str_or (error_indication r) [] in
       if msg \<noteq> [] then
         (if contains (lower msg) ''timed out'' \<or> contains (lower msg) ''timeout''
          then Inl (SNMPTimeoutError msg) else Inl (SNMPResponseError msg))
       else if fst (error_status r) \<noteq> 0 then
         (if error_index r = 0 then Inl (SNMPResponseError (snd (error_status r) @ '' at '' @ oid))
          else if error_index r \<le> length (var_binds r)
          then Inl (SNMPResponseError (snd (error_status r) @ '' at '' @ fst (var_binds r ! (error_index r - 1))))
          else Inl IndexError)
       else (case var_binds r of
           [] \<Rightarrow> Inl (SNMPResponseError (''No SNMP response for OID '' @ oid))
         | (name, v) # _ \<Rightarrow> Inr \<lparr>res_oid = name, res_value = Pretty v, res_raw_value = v\<rparr>)))"

fun snmp_get_many :: "fernet \<Rightarrow> agent \<Rightarrow> snmp_client \<Rightarrow> string list \<Rightarrow> (string \<times> snmp_result) list \<Rightarrow> exn + (string \<times> snmp_result) list" where
  "snmp_get_many f agent c [] results = Inr results"
| "snmp_get_many f agent c (oid # oids) results =
     (case snmp_get f agent c oid of Inl x \<Rightarrow> Inl x | Inr r \<Rightarrow> snmp_get_many f agent c oids (dict_set results oid r))"

end
