(* ===== verification/Engine_Frame.thy ===== *)
theory Engine_Frame
  imports Alert_Engine_Props
begin

text \<open>
  What the alert engine leaves alone: an evaluation and a trap alert write the alert tables, the
  notifications, the cache and the task queue, and no other table. \<open>beyond_engine\<close> is the database with
  those blanked, so that "nothing else changed" is an equation.
\<close>

definition beyond_engine :: "db \<Rightarrow> db" where
  "beyond_engine d = d\<lparr>alert_events := [], condition_states := [], alert_logs := [], notifications := [],
     shared_cache := Map.empty, outbox := []\<rparr>"

lemma beyond_engine_sel:
  assumes "beyond_engine d' = beyond_engine d"
  shows "devices d' = devices d" "metrics d' = metrics d" "points d' = points d" "latest_rows d' = latest_rows d"
    "polling_configs d' = polling_configs d" "polling_profiles d' = polling_profiles d" "ingest_logs d' = ingest_logs d"
    "device_events d' = device_events d" "trap_events d' = trap_events d" "alert_rules d' = alert_rules d"
    "users d' = users d" "accesses d' = accesses d"
proof -
  show "devices d' = devices d" "metrics d' = metrics d" "points d' = points d" "latest_rows d' = latest_rows d"
    "polling_configs d' = polling_configs d" "polling_profiles d' = polling_profiles d" "ingest_logs d' = ingest_logs d"
    "device_events d' = device_events d" "trap_events d' = trap_events d" "alert_rules d' = alert_rules d"
    "users d' = users d" "accesses d' = accesses d"
    using arg_cong [OF assms, of devices] arg_cong [OF assms, of metrics] arg_cong [OF assms, of points] arg_cong [OF assms, of latest_rows]
      arg_cong [OF assms, of polling_configs] arg_cong [OF assms, of polling_profiles] arg_cong [OF assms, of ingest_logs]
      arg_cong [OF assms, of device_events] arg_cong [OF assms, of trap_events] arg_cong [OF assms, of alert_rules]
      arg_cong [OF assms, of users] arg_cong [OF assms, of accesses]
    by (simp_all add: beyond_engine_def)
qed

lemma beyond_engine_simps [simp]:
  "beyond_engine (create_alert_log a act os ns actor m sn md d) = beyond_engine d"
  "beyond_engine (save_alert k f d) = beyond_engine d"
  "beyond_engine (insert_alert a d) = beyond_engine d"
  "beyond_engine (clear_condition_state d l r) = beyond_engine d"
  "beyond_engine (snd (upsert_condition_state e d l r)) = beyond_engine d"
  "beyond_engine (d\<lparr>shared_cache := c\<rparr>) = beyond_engine d"
  by (simp_all add: beyond_engine_def create_alert_log_def save_alert_def insert_alert_def clear_condition_state_def
      upsert_condition_state_def Let_def split: option.splits)

lemma beyond_notifications: "only_notifications d d' \<Longrightarrow> beyond_engine d' = beyond_engine d"
  by (auto simp: only_notifications_def beyond_engine_def)

lemma beyond_told [simp]:
  "beyond_engine (snd (create_notifications_for_alert_opened e raced a d)) = beyond_engine d"
  "beyond_engine (snd (create_notifications_for_alert_resolved e raced a d)) = beyond_engine d"
  by (metis beyond_notifications only_create_for create_notifications_for_alert_opened_def prod.collapse)
    (metis beyond_notifications only_create_for create_notifications_for_alert_resolved_def prod.collapse)

lemma beyond_resolve: "resolve_alert e raced d a latest rtype actor comment = (res, d') \<Longrightarrow> beyond_engine d' = beyond_engine d"
  by (auto simp: resolve_alert_def Let_def split: sum.splits)

lemma beyond_ensure:
  "ensure_alert_for_true_condition e raced l dev me r val threshold d = (res, d') \<Longrightarrow> beyond_engine d' = beyond_engine d"
  by (auto simp: ensure_alert_for_true_condition_def suppress_alert_def update_active_alert_def maybe_create_duration_alert_def
      open_alert_def Let_def split: option.splits prod.splits if_splits sum.splits)
    (metis beyond_engine_simps(5) snd_conv)+

lemma beyond_resolve_if_needed:
  "resolve_if_needed e raced l me r d = (res, d') \<Longrightarrow> beyond_engine d' = beyond_engine d"
  by (auto simp: resolve_if_needed_def split: option.splits prod.splits if_splits sum.splits dest: beyond_resolve)

lemma beyond_ups:
  "resolve_ups_trap_alert_if_needed e raced l me d = (res, d') \<Longrightarrow> beyond_engine d' = beyond_engine d"
  by (auto simp: resolve_ups_trap_alert_if_needed_def split: option.splits prod.splits if_splits sum.splits dest: beyond_resolve)

lemma beyond_atomic:
  assumes "\<And>r d'. f d = (r, d') \<Longrightarrow> beyond_engine d' = beyond_engine d" and "atomic f d = (res, d')"
  shows "beyond_engine d' = beyond_engine d"
  using assms by (auto simp: atomic_def split: prod.splits sum.splits)

lemma beyond_rule_once:
  "evaluate_rule_once e raced l dev me r d = (res, d') \<Longrightarrow> beyond_engine d' = beyond_engine d"
  by (auto simp: evaluate_rule_once_def split: prod.splits if_splits
      elim!: beyond_atomic [rotated] dest: beyond_ensure beyond_resolve_if_needed)

lemma beyond_rules:
  "evaluate_rules e raced l dev me rs acc d = (res, d') \<Longrightarrow> beyond_engine d' = beyond_engine d"
proof (induction rs arbitrary: acc d)
  case Nil
  then show ?case by simp
next
  case (Cons r rs)
  obtain one d1 where o: "evaluate_rule_once e raced l dev me r d = (one, d1)" by (metis surj_pair)
  with Cons beyond_rule_once [OF o] show ?case by (cases one) auto
qed

lemma beyond_evaluate_latest:
  assumes "evaluate_latest e raced d l = (res, d')"
  shows "beyond_engine d' = beyond_engine d"
proof -
  have step: "beyond_engine d2 = beyond_engine d"
    if g: "get_matching_rules e d l = Inr (rs, d0)" and r: "evaluate_rules e raced l dev me rs [] d0 = (x, d1)"
      and u: "d2 = d1 \<or> (\<exists>y. atomic (resolve_ups_trap_alert_if_needed e raced l me) d1 = (y, d2))" for rs d0 dev me x d1 d2
  proof -
    from get_matching_frame [OF g] obtain c where "d0 = d\<lparr>shared_cache := c\<rparr>" by blast
    then have "beyond_engine d1 = beyond_engine d" using beyond_rules [OF r] by simp
    with u beyond_atomic [of "resolve_ups_trap_alert_if_needed e raced l me" d1] beyond_ups show ?thesis by metis
  qed
  show ?thesis
    using assms by (auto simp: evaluate_latest_def split: option.splits sum.splits prod.splits dest: step)
qed

lemma beyond_trap_alert:
  "create_or_update_trap_alert e raced dev code name sev msg t oid raw d = (a, d') \<Longrightarrow> beyond_engine d' = beyond_engine d"
  by (auto simp: create_or_update_trap_alert_def Let_def split: option.splits if_splits)

end
