(* ===== verification/Snmp_Poll.thy ===== *)
theory Snmp_Poll
  imports Snmp_Client Engine_Frame Telemetry_Props
begin

text \<open>
  One SNMP poll of a device (\<open>poll_snmp_device\<close> in \<open>collectors/snmp_collector/services.py\<close>): every OID is
  read, normalised, stored and evaluated inside one transaction, each failure being counted and
  skipped. A refused insert breaks the transaction: no later statement of it succeeds, and it is taken
  back as a whole. What the cache holds is not part of the transaction.
\<close>

subsection \<open>The loop over the mappings\<close>

record poll_state =
  ps_db :: db
  ps_broken :: bool
  ps_success :: nat
  ps_failure :: nat

text \<open>The point of one OID: what the reply, the chain and the metric make of it. Errors are those of the client.\<close>

definition snmp_reading ::
    "env \<Rightarrow> fernet \<Rightarrow> agent \<Rightarrow> snmp_client \<Rightarrow> db \<Rightarrow> device \<Rightarrow> uuid \<Rightarrow> oid_mapping \<Rightarrow> exn + telemetry_point" where
  "snmp_reading e f agent c d dev ingest m =
     (case snmp_get f agent c (om_oid m) of Inl x \<Rightarrow> Inl x | Inr r \<Rightarrow>
      case apply_scale e (Plain (PStr (res_raw_value r))) m of Inl x \<Rightarrow> Inl x | Inr v \<Rightarrow>
      case deref (metric_of d (om_metric m)) of Inl x \<Rightarrow> Inl x | Inr me \<Rightarrow>
      (let payload = value_payload e (me_data_type me) v in
       Inr \<lparr>tp_time = now e, tp_organization = dev_organization dev, tp_data_center = dev_data_center dev,
         tp_device = dev_id dev, tp_metric = om_metric m, tp_values = payload, tp_raw_value_text = Some (res_raw_value r),
         tp_quality = snmp_quality_for_metric e (PStr (metric_type_value (me_data_type me))) payload,
         tp_source = Some ''snmp_worker'', tp_ingest_id = Some ingest\<rparr>))"

text \<open>The row \<open>update_or_create\<close> returns.\<close>

definition stored_latest :: "telemetry_point \<Rightarrow> db \<Rightarrow> latest_telemetry" where
  "stored_latest p d = (case find_latest (latest_key (latest_of_point p)) d of None \<Rightarrow> latest_of_point p | Some l \<Rightarrow> l)"

definition count_failure :: "poll_state \<Rightarrow> poll_state" where
  "count_failure s = s\<lparr>ps_failure := ps_failure s + 1\<rparr>"

definition poll_point :: "env \<Rightarrow> (string \<Rightarrow> bool) \<Rightarrow> bool \<Rightarrow> telemetry_point \<Rightarrow> poll_state \<Rightarrow> poll_state" where
  "poll_point e raced evaluate_alerts p s =
     (if ps_broken s then count_failure s
      else if \<not> bigint_ok (tp_values p) then count_failure (s\<lparr>ps_broken := True\<rparr>)
      else (let d1 = put_latest (latest_of_point p) (insert_point p (ps_db s)) in
        if \<not> evaluate_alerts then s\<lparr>ps_db := d1, ps_success := ps_success s + 1\<rparr>
        else (case evaluate_latest e raced d1 (stored_latest p d1) of
            (Inl x, d2) \<Rightarrow> count_failure (s\<lparr>ps_db := d2\<rparr>)
          | (Inr _, d2) \<Rightarrow> s\<lparr>ps_db := d2, ps_success := ps_success s + 1\<rparr>)))"

definition poll_oid ::
    "env \<Rightarrow> (string \<Rightarrow> bool) \<Rightarrow> fernet \<Rightarrow> agent \<Rightarrow> snmp_client \<Rightarrow> db \<Rightarrow> device \<Rightarrow> uuid \<Rightarrow> bool \<Rightarrow> oid_mapping \<Rightarrow> poll_state \<Rightarrow> poll_state" where
  "poll_oid e raced f agent c d dev ingest evaluate_alerts m s =
     (case snmp_reading e f agent c d dev ingest m of
        Inl _ \<Rightarrow> count_failure s
      | Inr p \<Rightarrow> poll_point e raced evaluate_alerts p s)"

subsection \<open>The whole poll\<close>

record poll_outcome =
  po_device :: uuid
  po_ingest :: "uuid option"
  po_status :: string
  po_success :: nat
  po_failure :: nat
  po_error :: "string option"

definition poll_log :: "env \<Rightarrow> string \<Rightarrow> uuid \<Rightarrow> poll_outcome \<Rightarrow> ingest_log" where
  "poll_log e protocol ingest out =
     \<lparr>il_ingest_id = ingest, il_device = Some (po_device out), il_protocol = protocol, il_status = po_status out,
      il_raw_payload = [(''device_id'', PStr (str_nat (po_device out))), (''success_count'', PInt (int (po_success out))),
        (''failure_count'', PInt (int (po_failure out)))],
      il_error_message = po_error out, il_started_at = now e, il_finished_at = Some (now e), il_duration_ms = Some 0\<rparr>"

definition log_poll :: "env \<Rightarrow> string \<Rightarrow> uuid \<Rightarrow> poll_outcome \<Rightarrow> db \<Rightarrow> db" where
  "log_poll e protocol ingest out d = d\<lparr>ingest_logs := ingest_logs d @ [poll_log e protocol ingest out]\<rparr>"

definition rolled_back :: "db \<Rightarrow> db \<Rightarrow> db" where
  "rolled_back d d' = d\<lparr>shared_cache := shared_cache d'\<rparr>"

definition snmp_failed ::
    "env \<Rightarrow> device \<Rightarrow> (polling_config \<times> polling_profile) option \<Rightarrow> uuid \<Rightarrow> string \<Rightarrow> nat \<Rightarrow> nat \<Rightarrow> db \<Rightarrow> (exn + poll_outcome) \<times> db" where
  "snmp_failed e dev pcfg ingest message n m d =
     (let out = \<lparr>po_device = dev_id dev, po_ingest = Some ingest, po_status = ''FAILED'', po_success = n, po_failure = m, po_error = Some message\<rparr>
      in (Inr out, log_poll e ''SNMP'' ingest out (snmp_mark_failure d dev pcfg message (now e))))"

text \<open>\<open>interrupted\<close>: the soft time limit strikes before the loop; inside it, it is one more failed OID.\<close>

definition poll_snmp_device ::
    "env \<Rightarrow> (string \<Rightarrow> bool) \<Rightarrow> fernet \<Rightarrow> agent \<Rightarrow> bool \<Rightarrow> uuid \<Rightarrow> uuid \<Rightarrow> bool \<Rightarrow> db \<Rightarrow> (exn + poll_outcome) \<times> db" where
  "poll_snmp_device e raced f agent interrupted k ingest evaluate_alerts d =
     (case deref (device_of d k) of Inl x \<Rightarrow> (Inl x, d) | Inr dev \<Rightarrow>
      (let pcfg = polling_config_of d k in
       if interrupted then snmp_failed e dev pcfg ingest ''SNMP poll exceeded worker soft time limit'' 0 0 d
       else case get_device_snmp_runtime d dev of
         Inl x \<Rightarrow> snmp_failed e dev pcfg ingest (exn_text x) 0 0 d
       | Inr (pc, cr, ms) \<Rightarrow>
           (let s = fold (poll_oid e raced f agent (snmp_client_of pc cr) d dev ingest evaluate_alerts) ms
                      \<lparr>ps_db = d, ps_broken = False, ps_success = 0, ps_failure = 0\<rparr>
            in if ps_success s = 0
               then snmp_failed e dev pcfg ingest ''All configured SNMP OIDs failed'' 0 (ps_failure s) (rolled_back d (ps_db s))
               else if ps_broken s
               then snmp_failed e dev pcfg ingest (exn_text TransactionManagementError) (ps_success s) (ps_failure s) (rolled_back d (ps_db s))
               else (let out = \<lparr>po_device = dev_id dev, po_ingest = Some ingest,
                            po_status = (if ps_failure s = 0 then ''SUCCESS'' else ''PARTIAL_SUCCESS''),
                            po_success = ps_success s, po_failure = ps_failure s, po_error = None\<rparr>
                     in (Inr out, log_poll e ''SNMP'' ingest out (mark_success (ps_db s) dev pcfg (now e)))))))"

end
