(* ===== verification/Snmp_Poll_Props.thy ===== *)
theory Snmp_Poll_Props
  imports Snmp_Poll
begin

text \<open>
  A poll as a whole: what a failed one leaves untouched and what a successful one keeps of the alert
  engine's and the telemetry's invariants.
\<close>

lemma insert_point_frames [simp]:
  "alert_events (insert_point p d) = alert_events d" "alert_logs (insert_point p d) = alert_logs d"
  "devices (insert_point p d) = devices d" "polling_configs (insert_point p d) = polling_configs d"
  "polling_profiles (insert_point p d) = polling_profiles d"
  "latest_rows (insert_point p d) = latest_rows d" "points (insert_point p d) = points d @ [p]"
  by (simp_all add: insert_point_def tbl_insert_def)

lemma put_latest_frames [simp]:
  "alert_events (put_latest r d) = alert_events d" "alert_logs (put_latest r d) = alert_logs d"
  "devices (put_latest r d) = devices d" "polling_configs (put_latest r d) = polling_configs d"
  "polling_profiles (put_latest r d) = polling_profiles d" "points (put_latest r d) = points d"
  by (simp_all add: put_latest_def split: option.splits)

subsection \<open>The loop\<close>

definition poll_inv :: "db \<Rightarrow> (telemetry_point \<Rightarrow> bool) \<Rightarrow> poll_state \<Rightarrow> bool" where
  "poll_inv d R s = ((\<exists>ps. points (ps_db s) = points d @ ps \<and> (\<forall>p \<in> set ps. R p) \<and> ps_success s \<le> length ps)
     \<and> engine_step d (ps_db s) \<and> devices (ps_db s) = devices d \<and> polling_configs (ps_db s) = polling_configs d
     \<and> (latest_unique d \<longrightarrow> latest_unique (ps_db s)))"

lemma count_failure_sel [simp]:
  "ps_db (count_failure s) = ps_db s" "ps_broken (count_failure s) = ps_broken s"
  "ps_success (count_failure s) = ps_success s" "ps_failure (count_failure s) = ps_failure s + 1"
  by (simp_all add: count_failure_def)

lemma poll_inv_same: "ps_db t = ps_db s \<Longrightarrow> ps_success t = ps_success s \<Longrightarrow> poll_inv d R t = poll_inv d R s"
  by (simp add: poll_inv_def)

lemma store_step:
  assumes "latest_unique d"
  shows "latest_unique (put_latest r (insert_point p d))"
proof -
  have "latest_unique (insert_point p d)"
    using assms latest_unique_frame [of "insert_point p d" d] by simp
  then show ?thesis by (rule put_latest_unique)
qed

lemma poll_point_inv:
  assumes "poll_inv d R s" and "R p" and "keys_unique ae_id (alert_events d)"
  shows "poll_inv d R (poll_point e raced ev p s)"
proof (cases "ps_broken s \<or> \<not> bigint_ok (tp_values p)")
  case True
  then have "poll_point e raced ev p s = count_failure (if ps_broken s then s else s\<lparr>ps_broken := True\<rparr>)"
    by (auto simp: poll_point_def)
  with assms(1) show ?thesis
    using poll_inv_same [of "poll_point e raced ev p s" s d R] by simp
next
  case False
  define d1 where "d1 = put_latest (latest_of_point p) (insert_point p (ps_db s))"
  obtain res d2 where ev: "evaluate_latest e raced d1 (stored_latest p d1) = (res, d2)" by (metis surj_pair)
  define d3 where "d3 = (if ev then d2 else d1)"
  have p: "ps_db (poll_point e raced ev p s) = d3" "ps_success (poll_point e raced ev p s) \<le> ps_success s + 1"
    using False ev by (auto simp: poll_point_def Let_def d3_def split: sum.splits simp flip: d1_def)
  have e1: "engine_step (ps_db s) d1" by (rule engine_step_same [where ls = "[]"]) (simp_all add: d1_def)
  have es: "engine_step d (ps_db s)" using assms(1) by (simp add: poll_inv_def)
  then have e2: "engine_step d d1" using e1 by (rule engine_step_trans)
  then have "keys_unique ae_id (alert_events d1)" using assms(3) by (auto simp: engine_step_def dest: evolves_keys)
  with evaluate_latest_step [OF ev] e2 have "engine_step d d3"
    by (auto simp: d3_def intro: engine_step_trans)
  moreover have b: "points d3 = points d1" "latest_rows d3 = latest_rows d1" "devices d3 = devices d1" "polling_configs d3 = polling_configs d1"
    using beyond_engine_sel [OF beyond_evaluate_latest [OF ev]] by (simp_all add: d3_def)
  moreover have "latest_unique d \<longrightarrow> latest_unique d3"
    using assms(1) store_step latest_unique_frame [OF b(2)] by (auto simp: poll_inv_def d1_def)
  moreover obtain ps where "points (ps_db s) = points d @ ps" "\<forall>p \<in> set ps. R p" "ps_success s \<le> length ps"
    using assms(1) by (auto simp: poll_inv_def)
  then have "points d1 = points d @ (ps @ [p])" "\<forall>p \<in> set (ps @ [p]). R p" "ps_success (poll_point e raced ev p s) \<le> length (ps @ [p])"
    using assms(2) p(2) by (auto simp: d1_def)
  ultimately show ?thesis
    using assms(1) p(1) unfolding poll_inv_def by (auto simp: d1_def)
qed

lemma poll_oid_cases:
  "poll_oid e raced f agent c d dev ingest ev m s =
     (case snmp_reading e f agent c d dev ingest m of Inl _ \<Rightarrow> count_failure s | Inr p \<Rightarrow> poll_point e raced ev p s)"
  by (simp add: poll_oid_def)

lemma poll_point_count:
  "ps_success (poll_point e raced ev p s) + ps_failure (poll_point e raced ev p s) = ps_success s + ps_failure s + 1"
  "ps_broken (poll_point e raced ev p s) = (ps_broken s \<or> \<not> bigint_ok (tp_values p))"
  by (auto simp: poll_point_def Let_def split: sum.splits prod.splits)

lemma poll_oid_count:
  "ps_success (poll_oid e raced f agent c d dev ingest ev m s) + ps_failure (poll_oid e raced f agent c d dev ingest ev m s)
     = ps_success s + ps_failure s + 1"
  "ps_broken (poll_oid e raced f agent c d dev ingest ev m s) =
     (ps_broken s \<or> (\<exists>p. snmp_reading e f agent c d dev ingest m = Inr p \<and> \<not> bigint_ok (tp_values p)))"
  by (cases "snmp_reading e f agent c d dev ingest m"; simp add: poll_oid_cases poll_point_count)+

lemma poll_fold:
  fixes s :: poll_state and raced :: "string \<Rightarrow> bool" and ev :: bool
  assumes "poll_inv d R s" and "keys_unique ae_id (alert_events d)"
    and "\<And>m p. m \<in> set ms \<Longrightarrow> snmp_reading e f agent c d dev ingest m = Inr p \<Longrightarrow> R p"
  defines "t \<equiv> fold (poll_oid e raced f agent c d dev ingest ev) ms s"
  shows "poll_inv d R t \<and> ps_success t + ps_failure t = ps_success s + ps_failure s + length ms
    \<and> ps_broken t = (ps_broken s \<or> (\<exists>m \<in> set ms. \<exists>p. snmp_reading e f agent c d dev ingest m = Inr p \<and> \<not> bigint_ok (tp_values p)))"
  using assms(1,3) unfolding t_def
proof (induction ms arbitrary: s)
  case Nil
  then show ?case by simp
next
  case (Cons m ms)
  let ?s = "poll_oid e raced f agent c d dev ingest ev m s"
  have "poll_inv d R ?s"
  proof (cases "snmp_reading e f agent c d dev ingest m")
    case (Inl x)
    then have "?s = count_failure s" by (simp add: poll_oid_cases)
    with Cons.prems(1) show ?thesis using poll_inv_same [of ?s s d R] by simp
  next
    case (Inr p)
    then have "R p" using Cons.prems(2) by auto
    with Inr Cons.prems(1) assms(2) show ?thesis by (simp add: poll_oid_cases poll_point_inv)
  qed
  with Cons.IH [of ?s] Cons.prems(2) show ?case
    using poll_oid_count [of e raced f agent c d dev ingest ev m s] by auto
qed

subsection \<open>The outcome\<close>

lemma update_polling_frames [simp]:
  "points (update_polling k a b n m d) = points d" "latest_rows (update_polling k a b n m d) = latest_rows d"
  "alert_events (update_polling k a b n m d) = alert_events d" "alert_logs (update_polling k a b n m d) = alert_logs d"
  "notifications (update_polling k a b n m d) = notifications d" "devices (update_polling k a b n m d) = devices d"
  "ingest_logs (update_polling k a b n m d) = ingest_logs d"
  by (simp_all add: update_polling_def)

lemma mark_failure_frames [simp]:
  "points (snmp_mark_failure d dev pcfg m t) = points d" "latest_rows (snmp_mark_failure d dev pcfg m t) = latest_rows d"
  "alert_events (snmp_mark_failure d dev pcfg m t) = alert_events d" "alert_logs (snmp_mark_failure d dev pcfg m t) = alert_logs d"
  "notifications (snmp_mark_failure d dev pcfg m t) = notifications d"
  "ingest_logs (snmp_mark_failure d dev pcfg m t) = ingest_logs d"
  by (simp_all add: snmp_mark_failure_def update_device_status_def Let_def split: option.splits prod.splits)

lemma mark_success_frames [simp]:
  "points (mark_success d dev pcfg t) = points d" "latest_rows (mark_success d dev pcfg t) = latest_rows d"
  "alert_events (mark_success d dev pcfg t) = alert_events d" "alert_logs (mark_success d dev pcfg t) = alert_logs d"
  "devices (mark_success d dev pcfg t) = devices (device_seen (dev_id dev) t d)"
  by (simp_all add: mark_success_def device_seen_def Let_def split: option.splits prod.splits)

lemma log_poll_frames [simp]:
  "points (log_poll e pr i out d) = points d" "latest_rows (log_poll e pr i out d) = latest_rows d"
  "alert_events (log_poll e pr i out d) = alert_events d" "alert_logs (log_poll e pr i out d) = alert_logs d"
  "notifications (log_poll e pr i out d) = notifications d" "devices (log_poll e pr i out d) = devices d"
  by (simp_all add: log_poll_def)

lemma rolled_back_frames [simp]:
  "points (rolled_back d d') = points d" "latest_rows (rolled_back d d') = latest_rows d"
  "alert_events (rolled_back d d') = alert_events d" "alert_logs (rolled_back d d') = alert_logs d"
  "notifications (rolled_back d d') = notifications d" "devices (rolled_back d d') = devices d"
  by (simp_all add: rolled_back_def)

lemma device_of_seen: "device_of (device_seen k t d) j = (if j = k then map_option (seen_at t) (device_of d j) else device_of d j)"
  using device_tbl.get_upd [of "seen_at t" j k "devices d"]
  by (simp add: device_of_def device_seen_def seen_at_def [abs_def])

text \<open>C4. A poll whose configuration loads fails exactly when no OID succeeded or some reading is an integer the
  database refuses, and then the readings, alerts and notifications are as before, those of the good OIDs
  included. Otherwise every stored point is one of the readings, the device is ONLINE and seen at the start of
  the poll, the latest rows stay unique, and the engine's invariants hold. Every OID is counted once.\<close>

theorem snmp_poll_outcome:
  assumes "device_of d k = Some dev" and "get_device_snmp_runtime d dev = Inr (pc, cr, ms)"
    and "keys_unique ae_id (alert_events d)" and "latest_unique d"
    and "poll_snmp_device e raced f agent False k ingest ev d = (res, d')"
  shows "\<exists>out. res = Inr out \<and> po_success out + po_failure out = length ms
    \<and> (po_status out = ''FAILED'' \<longleftrightarrow> po_success out = 0 \<or>
         (\<exists>m \<in> set ms. \<exists>p. snmp_reading e f agent (snmp_client_of pc cr) d dev ingest m = Inr p \<and> \<not> bigint_ok (tp_values p)))
    \<and> (if po_status out = ''FAILED''
       then points d' = points d \<and> latest_rows d' = latest_rows d \<and> alert_events d' = alert_events d \<and> notifications d' = notifications d
       else (\<exists>ps. points d' = points d @ ps \<and> po_success out \<le> length ps
              \<and> (\<forall>p \<in> set ps. \<exists>m \<in> set ms. snmp_reading e f agent (snmp_client_of pc cr) d dev ingest m = Inr p))
         \<and> engine_step d d' \<and> latest_unique d' \<and> device_of d' k = Some (seen_at (now e) dev))"
proof -
  let ?c = "snmp_client_of pc cr"
  let ?s0 = "\<lparr>ps_db = d, ps_broken = False, ps_success = 0, ps_failure = 0\<rparr>"
  define R where "R p = (\<exists>m \<in> set ms. snmp_reading e f agent ?c d dev ingest m = Inr p)" for p
  define s where "s = fold (poll_oid e raced f agent ?c d dev ingest ev) ms ?s0"
  define bad where "bad = (\<exists>m \<in> set ms. \<exists>p. snmp_reading e f agent ?c d dev ingest m = Inr p \<and> \<not> bigint_ok (tp_values p))"
  have "poll_inv d R ?s0" by (simp add: poll_inv_def)
  from poll_fold [OF this assms(3), of ms e f agent ?c dev ingest raced ev]
  have s: "poll_inv d R s" "ps_success s + ps_failure s = length ms" "ps_broken s = bad"
    unfolding s_def bad_def R_def by auto
  have id: "dev_id dev = k" using assms(1) by (auto simp: device_of_def dest: tbl_get_Some)
  show ?thesis
  proof (cases "ps_success s = 0 \<or> bad")
    case True
    define msg where "msg = (if ps_success s = 0 then ''All configured SNMP OIDs failed'' else exn_text TransactionManagementError)"
    from True have r: "(res, d') = snmp_failed e dev (polling_config_of d k) ingest msg (ps_success s) (ps_failure s) (rolled_back d (ps_db s))"
      using assms(1,2,5) s(3) by (auto simp: poll_snmp_device_def Let_def msg_def simp flip: s_def)
    show ?thesis
      using r s(2) True unfolding bad_def
      by (intro exI [of _ "projr res"]) (auto simp: snmp_failed_def Let_def)
  next
    case False
    define out where "out = \<lparr>po_device = dev_id dev, po_ingest = Some ingest,
        po_status = (if ps_failure s = 0 then ''SUCCESS'' else ''PARTIAL_SUCCESS''),
        po_success = ps_success s, po_failure = ps_failure s, po_error = None\<rparr>"
    have r: "res = Inr out" "d' = log_poll e ''SNMP'' ingest out (mark_success (ps_db s) dev (polling_config_of d k) (now e))"
      using assms(1,2,5) s(3) False by (auto simp: poll_snmp_device_def Let_def out_def simp flip: s_def)
    have ps: "\<exists>ps. points d' = points d @ ps \<and> po_success out \<le> length ps \<and> (\<forall>p \<in> set ps. R p)"
      using s(1) by (auto simp: poll_inv_def r out_def)
    have "engine_step (ps_db s) d'" by (rule engine_step_same [where ls = "[]"]) (simp_all add: r)
    with s(1) have step: "engine_step d d'" by (auto simp: poll_inv_def intro: engine_step_trans)
    have uni: "latest_unique d'"
      using s(1) assms(4) latest_unique_frame [of d' "ps_db s"] by (simp add: poll_inv_def r)
    have "devices (ps_db s) = devices d" using s(1) by (simp add: poll_inv_def)
    then have "device_of d' k = Some (seen_at (now e) dev)"
      using device_of_seen [of k "now e" "ps_db s" k] assms(1) id by (simp add: device_of_def r)
    with ps step uni False s(2) r(1) show ?thesis
      unfolding R_def bad_def by (intro exI [of _ out]) (auto simp: out_def)
  qed
qed

text \<open>Two OIDs, one answering 5, the other a 64-bit counter past the range of the column.\<close>

definition counter_db :: db where
  "counter_db = snmp_db\<lparr>devices := [ups_device],
     metrics := [blank_metric\<lparr>me_id := 100, me_data_type := INTEGER\<rparr>, blank_metric\<lparr>me_id := 200, me_data_type := INTEGER\<rparr>],
     oid_mappings := [(oid_row 1 5 100)\<lparr>om_oid := ''a''\<rparr>, (oid_row 2 5 200)\<lparr>om_oid := ''b''\<rparr>]\<rparr>"

definition counter_agent :: agent where
  "counter_agent auth c oid = Inr \<lparr>error_indication = None, error_status = (0, []), error_index = 0,
     var_binds = [(oid, str_int (if oid = ''a'' then 5 else 2 ^ 63))]\<rparr>"

lemma counter_reading:
  assumes "snmp_get f counter_agent c (om_oid m) = Inr \<lparr>res_oid = om_oid m, res_value = Pretty (str_int i), res_raw_value = str_int i\<rparr>"
    and "metric_of d (om_metric m) = Some me" and "me_data_type me = INTEGER"
    and "om_data_type m = ''int''" and "om_scale_factor m = 1" and "om_offset_value m = 0" and "\<bar>i\<bar> < 10 ^ 28"
  shows "\<exists>p. snmp_reading (plain_env t) f counter_agent c d dev ingest m = Inr p \<and> tp_values p = no_value\<lparr>value_integer := Some i\<rparr>"
proof -
  let ?e = "plain_env t"
  have "apply_scale ?e (Plain (PStr (str_int i))) m = Inr (int_or_float ?e (scaled ?e (of_int i) 1 0))"
    using snmp_integer [of m ?e "Plain (PStr (str_int i))" i] assms(4-6)
    by (simp add: shared_integer_types_def raw_text_def py_str_def)
  also have "scaled ?e (of_int i) 1 0 = of_int i" by (simp add: scaled_def plain_env_def)
  finally have "apply_scale ?e (Plain (PStr (str_int i))) m = Inr (PInt i)" by simp
  moreover have "value_payload ?e INTEGER (PInt i) = no_value\<lparr>value_integer := Some i\<rparr>"
    using assms(7) value_payload_simps(3) [of "PInt i" ?e] by (simp add: integer_column_def quantize_half_up_def Let_def)
  ultimately show ?thesis using assms(1-3) by (simp add: snmp_reading_def Let_def)
qed

lemma counter_runtime:
  "get_device_snmp_runtime counter_db ups_device = Inr (plain_config SNMP, plain_credential, oid_mappings counter_db)"
  by (simp add: get_device_snmp_runtime_def protocol_config_for_def active_credential_def counter_db_def snmp_db_def plain_config_def
      plain_credential_def ups_device_def blank_device_def dedupe_def dedupe_step_def snmp_mapping_q_def oid_row_def)

lemma snmp_poll_outcome_witness:
  "\<exists>out d'. poll_snmp_device (plain_env 5) no_race toy_fernet counter_agent False 10 77 True counter_db = (Inr out, d')
    \<and> po_status out = ''FAILED'' \<and> points d' = [] \<and> latest_rows d' = []"
proof -
  obtain res d' where r: "poll_snmp_device (plain_env 5) no_race toy_fernet counter_agent False 10 77 True counter_db = (res, d')"
    by (metis surj_pair)
  have dev: "device_of counter_db 10 = Some ups_device"
    by (simp add: counter_db_def device_of_def tbl_get_def ups_device_def)
  let ?m = "(oid_row 2 5 200)\<lparr>om_oid := ''b''\<rparr>"
  have "snmp_get toy_fernet counter_agent (snmp_client_of (plain_config SNMP) plain_credential) (om_oid ?m) =
      Inr \<lparr>res_oid = om_oid ?m, res_value = Pretty (str_int (2 ^ 63)), res_raw_value = str_int (2 ^ 63)\<rparr>"
    by (simp add: snmp_get_def auth_data_def community_auth_def plain_credential_def snmp_client_of_def decrypt_secret_def
        counter_agent_def PREFIX_def)
  from counter_reading [OF this, of counter_db "blank_metric\<lparr>me_id := 200, me_data_type := INTEGER\<rparr>" 5 ups_device 77]
  have "\<exists>p. snmp_reading (plain_env 5) toy_fernet counter_agent (snmp_client_of (plain_config SNMP) plain_credential) counter_db ups_device 77 ?m = Inr p
      \<and> \<not> bigint_ok (tp_values p)"
    by (auto simp: counter_db_def metric_of_def tbl_get_def oid_row_def bigint_ok_def no_value_def)
  moreover have "?m \<in> set (oid_mappings counter_db)" by (simp add: counter_db_def)
  moreover have "keys_unique ae_id (alert_events counter_db)" "latest_unique counter_db" "points counter_db = []" "latest_rows counter_db = []"
    by (simp_all add: counter_db_def snmp_db_def poll_db_def empty_db_def keys_unique_def latest_unique_def)
  ultimately show ?thesis
    using snmp_poll_outcome [OF dev counter_runtime _ _ r] r by fastforce
qed

end
