(* ===== verification/Modbus_Registers.thy ===== *)
theory Modbus_Registers
  imports Polling "HOL-Library.Word"
begin

text \<open>
  Reading one Modbus mapping (\<open>_read_mapping\<close> in \<open>collectors/modbus_collector/services.py\<close>). A register is
  a 16-bit word; the client library is an argument that answers a function code, an address, a count
  and a slave. The arithmetic is Python's, on unbounded integers. \<open>struct.unpack\<close> of a single is the
  rational the IEEE 754 encoding denotes; what stands for an infinity or a NaN, which \<open>py\<close> lacks, is an
  argument.
\<close>

unbundle bit_operations_syntax

type_synonym register = "16 word"

datatype modbus_reply = ModbusError string | Bits "bool list" | Registers "register list"

type_synonym modbus_client = "nat \<Rightarrow> nat \<Rightarrow> nat \<Rightarrow> nat \<Rightarrow> exn + modbus_reply"

definition float32_exponent :: "32 word \<Rightarrow> nat" where
  "float32_exponent w = unat (drop_bit 23 w AND 255)"

definition float32_fraction :: "32 word \<Rightarrow> nat" where
  "float32_fraction w = unat (w AND mask 23)"

definition float32_value :: "32 word \<Rightarrow> rat" where
  "float32_value w =
     (let ex = float32_exponent w; fr = float32_fraction w;
          m = (if ex = 0 then rat_of_nat fr / 2 ^ 149 else rat_of_nat (2 ^ 23 + fr) * 2 ^ ex / 2 ^ 150)
      in if bit w 31 then - m else m)"

definition unpack_float :: "(32 word \<Rightarrow> py) \<Rightarrow> int \<Rightarrow> py" where
  "unpack_float nonfinite i =
     (let w = word_of_int i in if float32_exponent w = 255 then nonfinite w else PFloat (float32_value w))"

text \<open>\<open>(registers[0] << 16) + registers[1]\<close>\<close>

definition join_registers :: "register \<Rightarrow> register \<Rightarrow> int" where
  "join_registers hi lo = push_bit 16 (uint hi) + uint lo"

definition first_bit :: "modbus_reply \<Rightarrow> exn + py" where
  "first_bit r = (case r of
      ModbusError m \<Rightarrow> Inl (ModbusResponseError m)
    | Bits (b # _) \<Rightarrow> Inr (PBool b)
    | Bits [] \<Rightarrow> Inl IndexError
    | Registers _ \<Rightarrow> Inl AttributeError)"

definition decode_registers :: "(32 word \<Rightarrow> py) \<Rightarrow> string \<Rightarrow> register list \<Rightarrow> exn + py" where
  "decode_registers nonfinite data_type registers =
     (let dt = lower (if data_type = [] then ''uint16'' else data_type) in
      if dt \<in> {''uint16'', ''integer'', ''int''} then
        (case registers of [] \<Rightarrow> Inl IndexError | r # _ \<Rightarrow> Inr (PInt (uint r)))
      else if dt = ''int16'' then
        (case registers of [] \<Rightarrow> Inl IndexError
         | r # _ \<Rightarrow> Inr (PInt (if uint r > 32767 then uint r - 65536 else uint r)))
      else if dt \<in> {''uint32'', ''int32'', ''float32''} then
        (case registers of
           hi # lo # _ \<Rightarrow>
             (let raw = join_registers hi lo;
                  raw = (if dt = ''int32'' \<and> raw > 2147483647 then raw - 4294967296 else raw)
              in if dt = ''float32'' then Inr (unpack_float nonfinite raw) else Inr (PInt raw))
         | _ \<Rightarrow> Inl (ModbusResponseError ''Expected 2 registers''))
      else (case registers of [] \<Rightarrow> Inl IndexError | r # _ \<Rightarrow> Inr (PInt (uint r))))"

definition read_mapping :: "(32 word \<Rightarrow> py) \<Rightarrow> modbus_client \<Rightarrow> register_mapping \<Rightarrow> exn + py" where
  "read_mapping nonfinite client m =
     (let read = (\<lambda>code. client code (rg_register_address m) (rg_register_count m) (rg_slave_id m)) in
      if rg_function_code m \<in> {1, 2} then
        (case read (rg_function_code m) of Inl x \<Rightarrow> Inl x | Inr r \<Rightarrow> first_bit r)
      else if rg_function_code m \<in> {3, 4} then
        (case read (rg_function_code m) of
           Inl x \<Rightarrow> Inl x
         | Inr (ModbusError msg) \<Rightarrow> Inl (ModbusResponseError msg)
         | Inr (Bits _) \<Rightarrow> Inl AttributeError
         | Inr (Registers rs) \<Rightarrow> decode_registers nonfinite (rg_data_type m) rs)
      else Inl (ModbusResponseError (''Unsupported Modbus function code: '' @ str_nat (rg_function_code m))))"

subsection \<open>Reading back what a device encodes\<close>

text \<open>A device sends a 32-bit value as its high and its low half.\<close>

definition high_half :: "32 word \<Rightarrow> register" where
  "high_half w = ucast (drop_bit 16 w)"

definition low_half :: "32 word \<Rightarrow> register" where
  "low_half w = ucast w"

lemma sint_of_uint:
  fixes w :: "'a::len word"
  shows "sint w = (if uint w < 2 ^ (LENGTH('a) - 1) then uint w else uint w - 2 ^ LENGTH('a))"
proof -
  have u: "uint w = sint w mod 2 ^ LENGTH('a)" by (simp add: uint_sint take_bit_eq_mod)
  have b: "- (2 ^ (LENGTH('a) - 1)) \<le> sint w" "sint w < 2 ^ (LENGTH('a) - 1)"
    using sint_ge sint_lt by blast+
  have p: "(2::int) ^ LENGTH('a) = 2 * 2 ^ (LENGTH('a) - 1)"
    by (metis One_nat_def Suc_pred len_gt_0 power_Suc)
  show ?thesis
  proof (cases "0 \<le> sint w")
    case True
    with b p have "sint w mod 2 ^ LENGTH('a) = sint w" by (intro mod_pos_pos_trivial) auto
    with u b show ?thesis by simp
  next
    case False
    have "sint w mod 2 ^ LENGTH('a) = (sint w + 2 ^ LENGTH('a)) mod 2 ^ LENGTH('a)" by simp
    also have "\<dots> = sint w + 2 ^ LENGTH('a)"
      using False b p by (intro mod_pos_pos_trivial) auto
    finally show ?thesis using u b p by simp
  qed
qed

lemma uint_halves: "uint (high_half w) = uint w div 65536" "uint (low_half w) = uint w mod 65536"
proof -
  have "uint w < 2 ^ 32" using uint_lt2p [of w] by simp
  then have "uint w div 65536 mod 65536 = uint w div 65536"
    by (intro mod_pos_pos_trivial) (auto simp: pos_imp_zdiv_nonneg_iff)
  then show "uint (high_half w) = uint w div 65536"
    by (simp add: high_half_def unsigned_ucast_eq unsigned_drop_bit_eq drop_bit_eq_div take_bit_eq_mod uint_div)
  show "uint (low_half w) = uint w mod 65536"
    by (simp add: low_half_def unsigned_ucast_eq take_bit_eq_mod)
qed

lemma join_halves: "join_registers (high_half w) (low_half w) = uint w"
  by (simp add: join_registers_def uint_halves push_bit_eq_mult)

lemma decode_types:
  "decode_registers nf ''int16'' (r # rs) = Inr (PInt (sint r))"
  "decode_registers nf ''uint16'' (r # rs) = Inr (PInt (uint r))"
  "decode_registers nf ''uint32'' (high_half w # low_half w # rs) = Inr (PInt (uint w))"
  "decode_registers nf ''int32'' (high_half w # low_half w # rs) = Inr (PInt (sint w))"
  "decode_registers nf ''float32'' (high_half w # low_half w # rs) = Inr (unpack_float nf (uint w))"
  by (simp_all add: decode_registers_def Let_def lower_def lower_char_def char_of_def bit_0 sint_of_uint join_halves)

definition wide_type :: "string \<Rightarrow> bool" where
  "wide_type t = (lower t \<in> {''uint32'', ''int32'', ''float32''})"

lemma decode_short:
  assumes "wide_type t" and "List.length rs < 2"
  shows "decode_registers nf t rs = Inl (ModbusResponseError ''Expected 2 registers'')"
proof -
  have "t \<noteq> []" using assms(1) by (auto simp: wide_type_def lower_def)
  moreover obtain dt where "lower t = dt" "dt \<in> {''uint32'', ''int32'', ''float32''}" using assms(1) by (simp add: wide_type_def)
  moreover have "rs = [] \<or> (\<exists>r. rs = [r])" using assms(2) by (cases rs rule: remdups_adj.cases) auto
  ultimately show ?thesis by (auto simp: decode_registers_def)
qed


text \<open>-2 as a 32-bit value, from a mapping that says the low word comes first.\<close>

definition a_register :: register_mapping where
  "a_register = \<lparr>rg_id = 1, rg_device_type = 1, rg_device_model = None, rg_metric = 1, rg_slave_id = 1, rg_function_code = 3,
     rg_register_address = 100, rg_register_count = 2, rg_data_type = ''int32'', rg_byte_order = ''BIG'', rg_word_order = ''LITTLE'',
     rg_scale_factor = 1, rg_offset_value = 0, rg_is_active = True\<rparr>"


end
