(* ===== verification/Locks.thy ===== *)
theory Locks
  imports Alert_Rules
begin

text \<open>
  The poll locks of \<open>collectors/common/locks.py\<close>: entries of the shared cache, taken with
  \<open>cache.add\<close> and dropped with \<open>cache.delete\<close>. An entry carries no owner and expires. The locale
  states what a poller relies on; the device lock and the gateway lock are its two interpretations.
\<close>

subsection \<open>The operations\<close>

definition cache_add :: "env \<Rightarrow> cache \<Rightarrow> string \<Rightarrow> cache_value \<Rightarrow> int \<Rightarrow> exn + bool \<times> cache" where
  "cache_add e c k v timeout =
     (case cache_get e c k of
        Inl x \<Rightarrow> Inl x
      | Inr (Some _) \<Rightarrow> Inr (False, c)
      | Inr None \<Rightarrow> (case cache_set e c k v (Some timeout) of Inl x \<Rightarrow> Inl x | Inr c' \<Rightarrow> Inr (True, c')))"

definition cache_delete :: "env \<Rightarrow> cache \<Rightarrow> string \<Rightarrow> exn + cache" where
  "cache_delete e c k = (if \<not> cache_up e then Inl CacheError else Inr (c(k := None)))"

definition acquire_lock :: "string \<Rightarrow> env \<Rightarrow> int \<Rightarrow> db \<Rightarrow> (exn + bool) \<times> db" where
  "acquire_lock key e timeout d = (case cache_add e (shared_cache d) key (CStr ''1'') timeout of
      Inl x \<Rightarrow> (Inl x, d) | Inr (b, c) \<Rightarrow> (Inr b, d\<lparr>shared_cache := c\<rparr>))"

definition release_lock :: "string \<Rightarrow> env \<Rightarrow> db \<Rightarrow> (exn + unit) \<times> db" where
  "release_lock key e d = (case cache_delete e (shared_cache d) key of
      Inl x \<Rightarrow> (Inl x, d) | Inr c \<Rightarrow> (Inr (), d\<lparr>shared_cache := c\<rparr>))"

definition device_lock_key :: "uuid \<Rightarrow> string" where
  "device_lock_key k = ''poll-lock:device:'' @ str_nat k"

definition gateway_lock_key :: "string \<times> nat \<Rightarrow> string" where
  "gateway_lock_key hp = ''poll-lock:modbus-gateway:'' @ fst hp @ '':'' @ str_nat (snd hp)"

definition acquire_device_poll_lock :: "env \<Rightarrow> uuid \<Rightarrow> int \<Rightarrow> db \<Rightarrow> (exn + bool) \<times> db" where
  "acquire_device_poll_lock e k = acquire_lock (device_lock_key k) e"

definition release_device_poll_lock :: "env \<Rightarrow> uuid \<Rightarrow> db \<Rightarrow> (exn + unit) \<times> db" where
  "release_device_poll_lock e k = release_lock (device_lock_key k) e"

definition acquire_modbus_gateway_lock :: "env \<Rightarrow> string \<times> nat \<Rightarrow> int \<Rightarrow> db \<Rightarrow> (exn + bool) \<times> db" where
  "acquire_modbus_gateway_lock e hp = acquire_lock (gateway_lock_key hp) e"

definition release_modbus_gateway_lock :: "env \<Rightarrow> string \<times> nat \<Rightarrow> db \<Rightarrow> (exn + unit) \<times> db" where
  "release_modbus_gateway_lock e hp = release_lock (gateway_lock_key hp) e"

text \<open>Whether an entry is there and has not expired.\<close>

definition entry_live :: "time \<Rightarrow> string \<Rightarrow> db \<Rightarrow> bool" where
  "entry_live t key d = (case shared_cache d key of
      None \<Rightarrow> False | Some (_, ex) \<Rightarrow> (case ex of None \<Rightarrow> True | Some u \<Rightarrow> t < u))"

lemma acquire_lock_exact:
  "cache_up e \<Longrightarrow> acquire_lock key e timeout d =
     (if entry_live (now e) key d then (Inr False, d)
      else (Inr True, d\<lparr>shared_cache := (shared_cache d)(key \<mapsto> (CStr ''1'', Some (now e + seconds timeout)))\<rparr>))"
  by (auto simp: acquire_lock_def cache_add_def cache_get_def cache_set_def entry_live_def split: option.splits)

lemma release_lock_exact:
  "cache_up e \<Longrightarrow> release_lock key e d = (Inr (), d\<lparr>shared_cache := (shared_cache d)(key := None)\<rparr>)"
  by (simp add: release_lock_def cache_delete_def)

subsection \<open>What a poller relies on\<close>

text \<open>
  Workers that share the locks: a clock, the database, and when each worker took the lock it holds.
  \<open>punctual\<close> says that time does not pass the deadline of a holder: it releases before.
\<close>

record lock_state =
  lk_clock :: time
  lk_db :: db
  lk_holds :: "nat \<Rightarrow> time option"

inductive lock_step ::
    "(env \<Rightarrow> 'k \<Rightarrow> int \<Rightarrow> db \<Rightarrow> (exn + bool) \<times> db) \<Rightarrow> (env \<Rightarrow> 'k \<Rightarrow> db \<Rightarrow> (exn + unit) \<times> db) \<Rightarrow> 'k \<Rightarrow> int \<Rightarrow> bool
      \<Rightarrow> lock_state \<Rightarrow> lock_state \<Rightarrow> bool"
  for acquire release k timeout punctual where
  take_lock: "lk_holds s w = None \<Longrightarrow> cache_up e \<Longrightarrow> now e = lk_clock s \<Longrightarrow> acquire e k timeout (lk_db s) = (Inr True, d') \<Longrightarrow>
    lock_step acquire release k timeout punctual s (s\<lparr>lk_db := d', lk_holds := (lk_holds s)(w \<mapsto> now e)\<rparr>)"
| drop_lock: "lk_holds s w = Some t \<Longrightarrow> cache_up e \<Longrightarrow> now e = lk_clock s \<Longrightarrow> release e k (lk_db s) = (r, d') \<Longrightarrow>
    lock_step acquire release k timeout punctual s (s\<lparr>lk_db := d', lk_holds := (lk_holds s)(w := None)\<rparr>)"
| pass_time: "lk_clock s \<le> t \<Longrightarrow> (punctual \<Longrightarrow> \<forall>w u. lk_holds s w = Some u \<longrightarrow> t < u + seconds timeout) \<Longrightarrow>
    lock_step acquire release k timeout punctual s (s\<lparr>lk_clock := t\<rparr>)"

inductive lock_reaches ::
    "(env \<Rightarrow> 'k \<Rightarrow> int \<Rightarrow> db \<Rightarrow> (exn + bool) \<times> db) \<Rightarrow> (env \<Rightarrow> 'k \<Rightarrow> db \<Rightarrow> (exn + unit) \<times> db) \<Rightarrow> 'k \<Rightarrow> int \<Rightarrow> bool
      \<Rightarrow> lock_state \<Rightarrow> lock_state \<Rightarrow> bool"
  for acquire release k timeout punctual where
  lock_refl: "lock_reaches acquire release k timeout punctual s s"
| lock_trans: "lock_reaches acquire release k timeout punctual s t \<Longrightarrow> lock_step acquire release k timeout punctual t u \<Longrightarrow>
    lock_reaches acquire release k timeout punctual s u"

locale poll_lock =
  fixes acquire :: "env \<Rightarrow> 'k \<Rightarrow> int \<Rightarrow> db \<Rightarrow> (exn + bool) \<times> db"
    and release :: "env \<Rightarrow> 'k \<Rightarrow> db \<Rightarrow> (exn + unit) \<times> db"
    and live :: "time \<Rightarrow> 'k \<Rightarrow> db \<Rightarrow> bool"
  assumes acquire_result: "cache_up e \<Longrightarrow> acquire e k timeout d = (r, d') \<Longrightarrow> r = Inr (\<not> live (now e) k d)"
    and acquire_live: "cache_up e \<Longrightarrow> acquire e k timeout d = (Inr True, d') \<Longrightarrow>
      live t j d' = (if j = k then t < now e + seconds timeout else live t j d)"
    and acquire_refused: "cache_up e \<Longrightarrow> acquire e k timeout d = (Inr False, d') \<Longrightarrow> d' = d"
    and release_live: "cache_up e \<Longrightarrow> release e k d = (q, d') \<Longrightarrow> live t j d' = (j \<noteq> k \<and> live t j d)"
begin

text \<open>Of punctual workers at most one holds the lock, and its entry lives until its deadline.\<close>

lemma exclusion:
  assumes "lock_reaches acquire release k timeout True s u" and "\<forall>w. lk_holds s w = None" and "0 < timeout"
  shows "(\<forall>v w. lk_holds u v \<noteq> None \<and> lk_holds u w \<noteq> None \<longrightarrow> v = w)
    \<and> (\<forall>w t. lk_holds u w = Some t \<longrightarrow> lk_clock u < t + seconds timeout \<and> (\<forall>c. live c k (lk_db u) = (c < t + seconds timeout)))"
  using assms
proof (induction rule: lock_reaches.induct)
  case (lock_refl s)
  then show ?case by simp
next
  case (lock_trans s t u)
  then have one: "\<And>v w. lk_holds t v \<noteq> None \<Longrightarrow> lk_holds t w \<noteq> None \<Longrightarrow> v = w"
    and in_time: "\<And>w x. lk_holds t w = Some x \<Longrightarrow> lk_clock t < x + seconds timeout"
    and entry: "\<And>w x c. lk_holds t w = Some x \<Longrightarrow> live c k (lk_db t) = (c < x + seconds timeout)" by blast+
  from lock_trans.hyps(2) show ?case
  proof cases
    case (take_lock w e d')
    have free: "\<not> live (lk_clock t) k (lk_db t)" using acquire_result [OF take_lock(3,5)] take_lock(4) by simp
    have none: "lk_holds t v = None" for v
      using entry [of v] in_time [of v] free by (cases "lk_holds t v") auto
    have "live c k d' = (c < now e + seconds timeout)" for c
      using acquire_live [OF take_lock(3,5), of c k] by simp
    moreover have "now e < now e + seconds timeout" using lock_trans.prems(2) by (simp add: seconds_def)
    ultimately show ?thesis using none take_lock(1,4) by simp
  next
    case (drop_lock w x e r d')
    then have "lk_holds t v = None" if "v \<noteq> w" for v using one [of v w] that drop_lock(2) by (metis option.distinct(1))
    then show ?thesis using drop_lock(1) by simp
  next
    case (pass_time c)
    then show ?thesis using one entry by simp
  qed
qed

text \<open>A worker past its deadline drops the lock of its successor, and a third worker takes it.\<close>

lemma late_drop:
  assumes "cache_up e1" "cache_up e2" "cache_up e3" "cache_up e4"
    and "acquire e1 k timeout d = (Inr True, d1)" and "now e1 + seconds timeout \<le> now e2"
    and "acquire e2 k timeout d1 = (r2, d2)" and "release e3 k d2 = (r3, d3)" and "acquire e4 k timeout d3 = (r4, d4)"
  shows "r2 = Inr True \<and> r4 = Inr True"
proof -
  have "\<not> live (now e2) k d1" using acquire_live [OF assms(1,5), of "now e2" k] assms(6) by simp
  then have "r2 = Inr True" using acquire_result [OF assms(2,7)] by simp
  moreover have "\<not> live (now e4) k d3" using release_live [OF assms(3,8), of "now e4" k] by simp
  then have "r4 = Inr True" using acquire_result [OF assms(4,9)] by simp
  ultimately show ?thesis by simp
qed

end

definition device_lock_live :: "time \<Rightarrow> uuid \<Rightarrow> db \<Rightarrow> bool" where
  "device_lock_live t k d = entry_live t (device_lock_key k) d"

definition gateway_lock_live :: "time \<Rightarrow> string \<times> nat \<Rightarrow> db \<Rightarrow> bool" where
  "gateway_lock_live t hp d = entry_live t (gateway_lock_key hp) d"

lemma device_lock_key_inject [simp]: "device_lock_key j = device_lock_key k \<longleftrightarrow> j = k"
  by (simp add: device_lock_key_def)

text \<open>A port is digits only, so the last colon of a key separates it from the host.\<close>

lemma gateway_lock_key_inject [simp]: "gateway_lock_key p = gateway_lock_key q \<longleftrightarrow> p = q"
proof
  assume "gateway_lock_key p = gateway_lock_key q"
  then have "rev (gateway_lock_key p) = rev (gateway_lock_key q)" by simp
  then have "rev (str_nat (snd p)) @ CHR '':'' # rev (fst p) @ rev ''poll-lock:modbus-gateway:''
      = rev (str_nat (snd q)) @ CHR '':'' # rev (fst q) @ rev ''poll-lock:modbus-gateway:''"
    by (simp add: gateway_lock_key_def)
  then have "rev (str_nat (snd p)) = rev (str_nat (snd q)) \<and> rev (fst p) @ rev ''poll-lock:modbus-gateway:'' = rev (fst q) @ rev ''poll-lock:modbus-gateway:''"
    by (subst (asm) colon_split) simp_all
  then show "p = q" by (simp add: prod_eq_iff)
qed simp

lemma entry_live_upd:
  "entry_live t key (d\<lparr>shared_cache := (shared_cache d)(key' \<mapsto> (v, Some u))\<rparr>) = (if key = key' then t < u else entry_live t key d)"
  "entry_live t key (d\<lparr>shared_cache := (shared_cache d)(key' := None)\<rparr>) = (key \<noteq> key' \<and> entry_live t key d)"
  by (simp_all add: entry_live_def)

interpretation device_lock: poll_lock acquire_device_poll_lock release_device_poll_lock device_lock_live
  by unfold_locales
    (auto simp: acquire_device_poll_lock_def release_device_poll_lock_def device_lock_live_def acquire_lock_exact
      release_lock_exact entry_live_upd split: if_splits)

interpretation gateway_lock: poll_lock acquire_modbus_gateway_lock release_modbus_gateway_lock gateway_lock_live
  by unfold_locales
    (auto simp: acquire_modbus_gateway_lock_def release_modbus_gateway_lock_def gateway_lock_live_def acquire_lock_exact
      release_lock_exact entry_live_upd split: if_splits)

subsection \<open>The device lock\<close>


definition free_locks :: lock_state where
  "free_locks = \<lparr>lk_clock = 0, lk_db = empty_db, lk_holds = Map.empty\<rparr>"


text \<open>The entry names no owner: a worker that outlives the timeout lets a second one in, and when it then
  releases it drops the second one's lock, so that a third is let in while the second is still within its own time.\<close>

theorem late_release_drops_anothers_lock:
  assumes "cache_up e1" and "cache_up e2" and "cache_up e3" and "cache_up e4"
    and "acquire_device_poll_lock e1 k timeout d = (Inr True, d1)" and "now e1 + seconds timeout \<le> now e2"
    and "acquire_device_poll_lock e2 k timeout d1 = (r2, d2)" and "release_device_poll_lock e3 k d2 = (r3, d3)"
    and "acquire_device_poll_lock e4 k timeout d3 = (r4, d4)" and "now e4 < now e2 + seconds timeout"
  shows "r2 = Inr True \<and> r4 = Inr True \<and> device_lock_live (now e4) k d2"
  using device_lock.late_drop [OF assms(1-9)] device_lock.acquire_live [OF assms(2), of k timeout d1 d2 "now e4" k] assms(7,10)
  by auto

lemma late_release_drops_anothers_lock_witness:
  "\<exists>d1 d2 d3 d4. acquire_device_poll_lock (plain_env 0) 10 1 empty_db = (Inr True, d1)
    \<and> acquire_device_poll_lock (plain_env 1000000) 10 1 d1 = (Inr True, d2)
    \<and> release_device_poll_lock (plain_env 1000001) 10 d2 = (Inr (), d3)
    \<and> acquire_device_poll_lock (plain_env 1000002) 10 1 d3 = (Inr True, d4)"
proof -
  have up: "cache_up (plain_env t)" "now (plain_env t) = t" for t by (simp_all add: plain_env_def)
  obtain d1 where a1: "acquire_device_poll_lock (plain_env 0) 10 1 empty_db = (Inr True, d1)"
    by (simp add: acquire_device_poll_lock_def acquire_lock_exact plain_env_def entry_live_def empty_db_def)
  obtain r2 d2 where a2: "acquire_device_poll_lock (plain_env 1000000) 10 1 d1 = (r2, d2)" by (metis surj_pair)
  obtain d3 where a3: "release_device_poll_lock (plain_env 1000001) 10 d2 = (Inr (), d3)"
    by (simp add: release_device_poll_lock_def release_lock_exact up)
  obtain r4 d4 where a4: "acquire_device_poll_lock (plain_env 1000002) 10 1 d3 = (r4, d4)" by (metis surj_pair)
  have "r2 = Inr True \<and> r4 = Inr True"
    using late_release_drops_anothers_lock [OF up(1) up(1) up(1) up(1) a1 _ a2 a3 a4] by (simp add: up(2) seconds_def)
  with a1 a2 a3 a4 show ?thesis by metis
qed

end
