(* ===== verification/Modbus_Poll.thy ===== *)
theory Modbus_Poll
  imports Modbus_Registers Locks Snmp_Poll_Props
begin

text \<open>
  One Modbus poll of a device (\<open>poll_modbus_device\<close> in \<open>collectors/modbus_collector/services.py\<close>): the
  device lock, the gateway lock, the readings, one bulk write, the evaluations, the marks, the release of
  both locks and the log. Unlike the SNMP poll it runs in no transaction: what was written stays when a
  later step raises. The network is an argument: it connects to a host, a port and a timeout and answers
  with the client, with None where \<open>connect()\<close> is False.
\<close>

type_synonym modbus_net = "string \<Rightarrow> nat \<Rightarrow> nat \<Rightarrow> exn + modbus_client option"

definition modbus_reading :: "env \<Rightarrow> (32 word \<Rightarrow> py) \<Rightarrow> modbus_client \<Rightarrow> db \<Rightarrow> register_mapping \<Rightarrow> exn + reading" where
  "modbus_reading e nonfinite client d m =
     (case deref (metric_of d (rg_metric m)) of Inl x \<Rightarrow> Inl x | Inr me \<Rightarrow>
      case read_mapping nonfinite client m of Inl x \<Rightarrow> Inl x | Inr raw \<Rightarrow>
      Inr \<lparr>rd_metric = me,
        rd_value = normalize_value e raw (rg_data_type m) (PDec (rg_scale_factor m)) (PDec (rg_offset_value m)),
        rd_quality = Some GOOD, rd_raw_value_text = Some (py_str e raw)\<rparr>)"

definition read_step ::
    "env \<Rightarrow> (32 word \<Rightarrow> py) \<Rightarrow> modbus_client \<Rightarrow> db \<Rightarrow> register_mapping \<Rightarrow> reading list \<times> nat \<Rightarrow> reading list \<times> nat" where
  "read_step e nonfinite client d m s =
     (case modbus_reading e nonfinite client d m of
        Inl _ \<Rightarrow> (fst s, snd s + 1)
      | Inr r \<Rightarrow> (fst s @ [r], snd s))"

fun evaluate_stored :: "env \<Rightarrow> (string \<Rightarrow> bool) \<Rightarrow> latest_telemetry list \<Rightarrow> db \<Rightarrow> (exn + unit) \<times> db" where
  "evaluate_stored e raced [] d = (Inr (), d)"
| "evaluate_stored e raced (l # ls) d =
     (case evaluate_latest e raced d l of
        (Inl x, d1) \<Rightarrow> (Inl x, d1)
      | (Inr _, d1) \<Rightarrow> evaluate_stored e raced ls d1)"

text \<open>\<open>LatestTelemetry.objects.filter(device=device, metric__in=[...])\<close>\<close>

definition stored_rows :: "device \<Rightarrow> reading list \<Rightarrow> db \<Rightarrow> latest_telemetry list" where
  "stored_rows dev rs d = filter (\<lambda>l. lt_device l = dev_id dev \<and> lt_metric l \<in> me_id ` rd_metric ` set rs) (latest_rows d)"

definition store_and_evaluate ::
    "env \<Rightarrow> (string \<Rightarrow> bool) \<Rightarrow> device \<Rightarrow> uuid \<Rightarrow> bool \<Rightarrow> reading list \<Rightarrow> db \<Rightarrow> (exn + unit) \<times> db" where
  "store_and_evaluate e raced dev ingest evaluate_alerts rs d =
     (case write_device_telemetry_bulk e (dev_organization dev) (dev_data_center dev) dev rs (Some ''modbus_worker'')
             (Some ingest) (Some (now e)) d of
        (Inl x, d1) \<Rightarrow> (Inl x, d1)
      | (Inr _, d1) \<Rightarrow> if evaluate_alerts then evaluate_stored e raced (stored_rows dev rs d1) d1 else (Inr (), d1))"

definition modbus_failed ::
    "env \<Rightarrow> device \<Rightarrow> (polling_config \<times> polling_profile) option \<Rightarrow> uuid \<Rightarrow> string \<Rightarrow> nat \<Rightarrow> nat \<Rightarrow> db \<Rightarrow> poll_outcome \<times> db" where
  "modbus_failed e dev pcfg ingest message n m d =
     (\<lparr>po_device = dev_id dev, po_ingest = Some ingest, po_status = ''FAILED'', po_success = n, po_failure = m, po_error = Some message\<rparr>,
      modbus_mark_failure d dev pcfg message (now e))"

text \<open>What the two handlers of the \<open>try\<close> record.\<close>

definition modbus_error_text :: "exn \<Rightarrow> string" where
  "modbus_error_text x = (if x = SoftTimeLimitExceeded then ''Modbus poll exceeded worker soft time limit'' else exn_text x)"

definition connection_error :: "string \<times> nat \<Rightarrow> string" where
  "connection_error hp = ''Could not connect to Modbus TCP device '' @ fst hp @ '':'' @ str_nat (snd hp)"

text \<open>From the connection to the marks, both locks held.\<close>

definition modbus_session ::
    "env \<Rightarrow> (string \<Rightarrow> bool) \<Rightarrow> (32 word \<Rightarrow> py) \<Rightarrow> modbus_net \<Rightarrow> device \<Rightarrow> (polling_config \<times> polling_profile) option \<Rightarrow> uuid \<Rightarrow> bool
      \<Rightarrow> string \<times> nat \<Rightarrow> nat \<Rightarrow> register_mapping list \<Rightarrow> db \<Rightarrow> poll_outcome \<times> db" where
  "modbus_session e raced nonfinite net dev pcfg ingest evaluate_alerts hp timeout ms d =
     (case net (fst hp) (snd hp) timeout of
        Inl x \<Rightarrow> modbus_failed e dev pcfg ingest (modbus_error_text x) 0 0 d
      | Inr None \<Rightarrow> modbus_failed e dev pcfg ingest (connection_error hp) 0 0 d
      | Inr (Some client) \<Rightarrow>
          (let (rs, failures) = fold (read_step e nonfinite client d) ms ([], 0) in
           if rs = [] then modbus_failed e dev pcfg ingest ''All configured Modbus registers failed'' 0 failures d
           else case store_and_evaluate e raced dev ingest evaluate_alerts rs d of
               (Inl x, d1) \<Rightarrow> modbus_failed e dev pcfg ingest (modbus_error_text x) (length rs) failures d1
             | (Inr _, d1) \<Rightarrow>
                 (\<lparr>po_device = dev_id dev, po_ingest = Some ingest,
                    po_status = (if failures = 0 then ''SUCCESS'' else ''PARTIAL_SUCCESS''),
                    po_success = length rs, po_failure = failures, po_error = None\<rparr>,
                  mark_success d1 dev pcfg (now e))))"

definition skipped_poll :: "uuid \<Rightarrow> uuid option \<Rightarrow> string \<Rightarrow> poll_outcome" where
  "skipped_poll k ingest message =
     \<lparr>po_device = k, po_ingest = ingest, po_status = ''SKIPPED'', po_success = 0, po_failure = 0, po_error = Some message\<rparr>"

text \<open>\<open>protocol_config.port or 502\<close>\<close>

definition modbus_endpoint :: "protocol_config \<Rightarrow> string \<times> nat" where
  "modbus_endpoint pc = (pc_host pc, case pc_port pc of None \<Rightarrow> 502 | Some p \<Rightarrow> if p = 0 then 502 else p)"

text \<open>The body of the \<open>try\<close>, with the gateway lock to release.\<close>

definition modbus_attempt ::
    "env \<Rightarrow> (string \<Rightarrow> bool) \<Rightarrow> (32 word \<Rightarrow> py) \<Rightarrow> modbus_net \<Rightarrow> bool \<Rightarrow> bool \<Rightarrow> device \<Rightarrow> uuid \<Rightarrow> bool \<Rightarrow> db
      \<Rightarrow> (poll_outcome \<times> db) \<times> (string \<times> nat) option" where
  "modbus_attempt e raced nonfinite net installed interrupted dev ingest evaluate_alerts d =
     (let pcfg = polling_config_of d (dev_id dev) in
      if interrupted then (modbus_failed e dev pcfg ingest (modbus_error_text SoftTimeLimitExceeded) 0 0 d, None)
      else if \<not> installed then (modbus_failed e dev pcfg ingest ''pymodbus is not installed or failed to import'' 0 0 d, None)
      else case get_modbus_runtime d dev of
        Inl x \<Rightarrow> (modbus_failed e dev pcfg ingest (modbus_error_text x) 0 0 d, None)
      | Inr (pc, ms) \<Rightarrow>
          (let hp = modbus_endpoint pc in
           case acquire_modbus_gateway_lock e hp (max (int (pc_timeout_seconds pc) * 4) 20) d of
             (Inl x, d1) \<Rightarrow> (modbus_failed e dev pcfg ingest (modbus_error_text x) 0 0 d1, None)
           | (Inr False, d1) \<Rightarrow> ((skipped_poll (dev_id dev) (Some ingest) ''Modbus gateway busy'', d1), None)
           | (Inr True, d1) \<Rightarrow>
               (modbus_session e raced nonfinite net dev pcfg ingest evaluate_alerts hp (pc_timeout_seconds pc) ms d1, Some hp)))"

text \<open>The device is fetched after its lock is taken and before the \<open>try\<close>: where it is gone the lock stays.\<close>

definition poll_modbus_device ::
    "env \<Rightarrow> (string \<Rightarrow> bool) \<Rightarrow> (32 word \<Rightarrow> py) \<Rightarrow> modbus_net \<Rightarrow> bool \<Rightarrow> bool \<Rightarrow> uuid \<Rightarrow> uuid \<Rightarrow> bool \<Rightarrow> db
      \<Rightarrow> (exn + poll_outcome) \<times> db" where
  "poll_modbus_device e raced nonfinite net installed interrupted k ingest evaluate_alerts d =
     (case acquire_device_poll_lock e k 120 d of
        (Inl x, d1) \<Rightarrow> (Inl x, d1)
      | (Inr False, d1) \<Rightarrow> (Inr (skipped_poll k None ''Device already being polled''), d1)
      | (Inr True, d1) \<Rightarrow>
          (case deref (device_of d1 k) of Inl x \<Rightarrow> (Inl x, d1) | Inr dev \<Rightarrow>
           case modbus_attempt e raced nonfinite net installed interrupted dev ingest evaluate_alerts d1 of
             ((out, d2), gateway) \<Rightarrow>
               (let d3 = (case gateway of None \<Rightarrow> d2 | Some hp \<Rightarrow> snd (release_modbus_gateway_lock e hp d2)) in
                case release_device_poll_lock e k d3 of
                  (Inl x, d4) \<Rightarrow> (Inl x, d4)
                | (Inr _, d4) \<Rightarrow> (Inr out, if po_status out = ''SKIPPED'' then d4 else log_poll e ''MODBUS_TCP'' ingest out d4))))"

end
