(* ===== verification/Modbus_Poll_Props.thy ===== *)
theory Modbus_Poll_Props
  imports Modbus_Poll
begin

text \<open>
  The Modbus poll as a whole: what it does to the locks and the log, and which readings it stores when it
  succeeds and when it fails.
\<close>

lemma modbus_mark_frames [simp]:
  "points (modbus_mark_failure d dev pcfg m t) = points d" "latest_rows (modbus_mark_failure d dev pcfg m t) = latest_rows d"
  "alert_events (modbus_mark_failure d dev pcfg m t) = alert_events d" "alert_logs (modbus_mark_failure d dev pcfg m t) = alert_logs d"
  "ingest_logs (modbus_mark_failure d dev pcfg m t) = ingest_logs d"
  "shared_cache (modbus_mark_failure d dev pcfg m t) = shared_cache d"
  by (simp_all add: modbus_mark_failure_def update_device_status_def update_polling_def Let_def split: option.splits prod.splits)

lemma mark_success_logs [simp]:
  "ingest_logs (mark_success d dev pcfg t) = ingest_logs d" "shared_cache (mark_success d dev pcfg t) = shared_cache d"
  by (simp_all add: mark_success_def device_seen_def update_polling_def Let_def split: option.splits prod.splits)

lemma modbus_failed_sel [simp]:
  "po_status (fst (modbus_failed e dev pcfg ingest m a b d)) = ''FAILED''"
  "po_success (fst (modbus_failed e dev pcfg ingest m a b d)) = a" "po_failure (fst (modbus_failed e dev pcfg ingest m a b d)) = b"
  "snd (modbus_failed e dev pcfg ingest m a b d) = modbus_mark_failure d dev pcfg m (now e)"
  by (simp_all add: modbus_failed_def)

subsection \<open>The pieces of a session\<close>

lemma read_fold:
  "fold (read_step e nf client d) ms (rs, n) =
     (rs @ concat (map (\<lambda>m. case modbus_reading e nf client d m of Inl _ \<Rightarrow> [] | Inr r \<Rightarrow> [r]) ms),
      n + length (filter (\<lambda>m. isl (modbus_reading e nf client d m)) ms))"
proof (induction ms arbitrary: rs n)
  case (Cons m ms)
  then show ?case by (cases "modbus_reading e nf client d m") (simp_all add: read_step_def)
qed simp

definition good_readings :: "env \<Rightarrow> (32 word \<Rightarrow> py) \<Rightarrow> modbus_client \<Rightarrow> db \<Rightarrow> register_mapping list \<Rightarrow> reading list" where
  "good_readings e nf client d ms =
     concat (map (\<lambda>m. case modbus_reading e nf client d m of Inl _ \<Rightarrow> [] | Inr r \<Rightarrow> [r]) ms)"

lemma good_readings_length:
  "length (good_readings e nf client d ms) + length (filter (\<lambda>m. isl (modbus_reading e nf client d m)) ms) = length ms"
proof (induction ms)
  case (Cons m ms)
  then show ?case by (cases "modbus_reading e nf client d m") (simp_all add: good_readings_def)
qed (simp add: good_readings_def)

lemma read_all:
  "fold (read_step e nf client d) ms ([], 0) = (good_readings e nf client d ms, length ms - length (good_readings e nf client d ms))"
  using good_readings_length [of e nf client d ms] by (simp add: read_fold good_readings_def [symmetric])

lemma evaluate_stored_step:
  assumes "evaluate_stored e raced ls d = (res, d')" and "keys_unique ae_id (alert_events d)"
  shows "engine_step d d' \<and> beyond_engine d' = beyond_engine d"
  using assms
proof (induction ls arbitrary: d)
  case Nil
  then show ?case by simp
next
  case (Cons l ls)
  obtain r d1 where ev: "evaluate_latest e raced d l = (r, d1)" by (metis surj_pair)
  have step: "engine_step d d1" "beyond_engine d1 = beyond_engine d"
    using evaluate_latest_step [OF ev Cons.prems(2)] beyond_evaluate_latest [OF ev] by auto
  then have "keys_unique ae_id (alert_events d1)"
    using Cons.prems(2) by (auto simp: engine_step_def dest: evolves_keys)
  with Cons step ev show ?case
    by (cases r) (auto dest: engine_step_trans)
qed

definition modbus_points :: "env \<Rightarrow> device \<Rightarrow> uuid \<Rightarrow> reading list \<Rightarrow> telemetry_point list" where
  "modbus_points e dev ingest rs =
     map (point_of_reading e (dev_organization dev) (dev_data_center dev) dev (Some ''modbus_worker'') (Some ingest) (now e)) rs"

lemma store_and_evaluate_exact:
  assumes "store_and_evaluate e raced dev ingest ev rs d = (res, d')" and "latest_unique d" and "keys_unique ae_id (alert_events d)"
  shows "if \<exists>p \<in> set (modbus_points e dev ingest rs). \<not> bigint_ok (tp_values p) then res = Inl DataError \<and> d' = d
    else points d' = points d @ modbus_points e dev ingest rs \<and> latest_unique d' \<and> engine_step d d'
      \<and> devices d' = devices d \<and> ingest_logs d' = ingest_logs d
      \<and> (\<forall>k. shown_latest k d' = (case last_write point_key k (modbus_points e dev ingest rs) of
            Some p \<Rightarrow> Some (latest_of_point p) | None \<Rightarrow> shown_latest k d))"
proof -
  let ?ps = "modbus_points e dev ingest rs"
  obtain r1 d1 where w: "write_device_telemetry_bulk e (dev_organization dev) (dev_data_center dev) dev rs (Some ''modbus_worker'')
      (Some ingest) (Some (now e)) d = (r1, d1)" by (metis surj_pair)
  have ps: "?ps = map (point_of_reading e (dev_organization dev) (dev_data_center dev) dev (Some ''modbus_worker'') (Some ingest)
      (case Some (now e) of None \<Rightarrow> now e | Some t \<Rightarrow> t)) rs"
    by (simp add: modbus_points_def)
  note bulk = bulk_write_ok [OF assms(2) ps w]
  show ?thesis
  proof (cases "\<exists>p \<in> set ?ps. \<not> bigint_ok (tp_values p)")
    case True
    then have "r1 = Inl DataError" "d1 = d" using bulk by simp_all
    with assms(1) w True show ?thesis by (simp add: store_and_evaluate_def)
  next
    case False
    then obtain rows where d1: "d1 = d\<lparr>points := points d @ ?ps, latest_rows := rows\<rparr>" and u: "latest_unique d1"
      and r1: "r1 = Inr (length rs)"
      and sh: "\<And>k. shown_latest k d1 = (case last_write point_key k ?ps of Some p \<Rightarrow> Some (latest_of_point p) | None \<Rightarrow> shown_latest k d)"
      using bulk by auto
    have e1: "engine_step d d1" by (rule engine_step_same [where ls = "[]"]) (simp_all add: d1)
    have k1: "keys_unique ae_id (alert_events d1)" using assms(3) by (simp add: d1)
    have d': "d' = d1 \<or> (\<exists>x ls. evaluate_stored e raced ls d1 = (x, d'))"
      using assms(1) w r1 by (auto simp: store_and_evaluate_def split: if_splits)
    then have s: "engine_step d1 d' \<and> beyond_engine d' = beyond_engine d1"
      using evaluate_stored_step [OF _ k1] by auto
    note b = beyond_engine_sel [OF conjunct2 [OF s]]
    have "latest_unique d'" using u latest_unique_frame [OF b(4)] by simp
    moreover have "engine_step d d'" using e1 s engine_step_trans by blast
    ultimately show ?thesis
      using False b sh find_latest_frame [OF b(4)] by (simp add: d1)
  qed
qed

subsection \<open>The locks and the log\<close>

lemma upsert_logs: "upsert_points ps d = (r, d') \<Longrightarrow> ingest_logs d' = ingest_logs d"
  by (induction ps d arbitrary: d' rule: upsert_points.induct)
    (auto simp: put_latest_def split: if_splits option.splits)

lemma write_logs:
  "write_device_telemetry_bulk e org dc dev rs source ingest ts d = (r, d') \<Longrightarrow> ingest_logs d' = ingest_logs d"
  by (auto simp: write_device_telemetry_bulk_def atomic_def bulk_create_points_def Let_def
      split: sum.splits prod.splits if_splits dest: upsert_logs)

lemma evaluate_stored_logs: "evaluate_stored e raced ls d = (r, d') \<Longrightarrow> ingest_logs d' = ingest_logs d"
proof (induction ls arbitrary: d)
  case (Cons l ls)
  obtain x d1 where ev: "evaluate_latest e raced d l = (x, d1)" by (metis surj_pair)
  with Cons beyond_engine_sel(7) [OF beyond_evaluate_latest [OF ev]] show ?case by (cases x) auto
qed simp

lemma store_logs: "store_and_evaluate e raced dev ingest ev rs d = (r, d') \<Longrightarrow> ingest_logs d' = ingest_logs d"
  by (auto simp: store_and_evaluate_def split: sum.splits prod.splits if_splits dest!: write_logs evaluate_stored_logs)

definition finished_statuses :: "string set" where
  "finished_statuses = {''SUCCESS'', ''PARTIAL_SUCCESS'', ''FAILED''}"

lemma session_logs:
  assumes "modbus_session e raced nf net dev pcfg ingest ev hp timeout ms d = (out, d')"
  shows "ingest_logs d' = ingest_logs d \<and> po_status out \<in> finished_statuses"
  using assms
  by (auto simp: modbus_session_def finished_statuses_def modbus_failed_def split: sum.splits option.splits prod.splits if_splits
      dest!: store_logs)

text \<open>The attempt, with what it did to the gateway.\<close>

lemma attempt_cases:
  assumes "cache_up e" and "modbus_attempt e raced nf net installed interrupted dev ingest ev d = ((out, d'), gw)"
  shows "ingest_logs d' = ingest_logs d
    \<and> (if po_status out = ''SKIPPED''
       then gw = None \<and> d' = d \<and> (\<exists>pc ms. get_modbus_runtime d dev = Inr (pc, ms) \<and> gateway_lock_live (now e) (modbus_endpoint pc) d)
       else po_status out \<in> finished_statuses
         \<and> (installed \<and> \<not> interrupted \<longrightarrow> (\<forall>pc ms. get_modbus_runtime d dev = Inr (pc, ms) \<longrightarrow> gw = Some (modbus_endpoint pc))))"
proof -
  have g: "acquire_modbus_gateway_lock e hp t d = (if gateway_lock_live (now e) hp d then (Inr False, d)
      else (Inr True, d\<lparr>shared_cache := (shared_cache d)(gateway_lock_key hp \<mapsto> (CStr ''1'', Some (now e + seconds t)))\<rparr>))" for hp t
    using assms(1) by (simp add: acquire_modbus_gateway_lock_def acquire_lock_exact gateway_lock_live_def)
  have f: "''FAILED'' \<in> finished_statuses" "''SKIPPED'' \<notin> finished_statuses" by (simp_all add: finished_statuses_def)
  show ?thesis
    using assms(2) f
    by (auto simp: modbus_attempt_def Let_def g skipped_poll_def modbus_failed_def split: if_splits sum.splits prod.splits
        dest!: session_logs)
qed

lemma runtime_cache [simp]: "get_modbus_runtime (d\<lparr>shared_cache := c\<rparr>) dev = get_modbus_runtime d dev"
proof -
  have "protocol_config_for (d\<lparr>shared_cache := c\<rparr>) dev pr = protocol_config_for d dev pr" for pr
    by (simp add: protocol_config_for_def)
  then show ?thesis unfolding get_modbus_runtime_def by (simp cong: option.case_cong)
qed

text \<open>A Modbus poll while the device is being polled changes nothing. Otherwise, when it returns, the device's
  lock is free whatever happened in between, and so is the gateway's unless it was busy, when the poll is skipped with
  no log; every other poll leaves exactly one log row, of its own outcome. But a device that is gone is found out only
  with its lock taken: the call raises and the lock stays for its 120 seconds.\<close>

theorem modbus_poll_locks:
  assumes "cache_up e" and "poll_modbus_device e raced nf net installed interrupted k ingest ev d = (res, d')"
  shows "if device_lock_live (now e) k d then res = Inr (skipped_poll k None ''Device already being polled'') \<and> d' = d
    else (case device_of d k of
        None \<Rightarrow> res = Inl DoesNotExist \<and> (\<forall>t. device_lock_live t k d' = (t < now e + seconds 120))
      | Some dev \<Rightarrow> \<exists>out. res = Inr out \<and> (\<forall>t. \<not> device_lock_live t k d')
          \<and> (if po_status out = ''SKIPPED''
             then ingest_logs d' = ingest_logs d
               \<and> (\<exists>pc ms. get_modbus_runtime d dev = Inr (pc, ms) \<and> gateway_lock_live (now e) (modbus_endpoint pc) d)
             else ingest_logs d' = ingest_logs d @ [poll_log e ''MODBUS_TCP'' ingest out]
               \<and> (installed \<and> \<not> interrupted \<longrightarrow> (\<forall>pc ms. get_modbus_runtime d dev = Inr (pc, ms) \<longrightarrow>
                    (\<forall>t. \<not> gateway_lock_live t (modbus_endpoint pc) d')))))"
proof -
  define d1 where "d1 = d\<lparr>shared_cache := (shared_cache d)(device_lock_key k \<mapsto> (CStr ''1'', Some (now e + seconds 120)))\<rparr>"
  have a: "acquire_device_poll_lock e k 120 d = (if device_lock_live (now e) k d then (Inr False, d) else (Inr True, d1))"
    using assms(1) by (simp add: acquire_device_poll_lock_def acquire_lock_exact device_lock_live_def d1_def)
  have same: "device_of d1 k = device_of d k" "get_modbus_runtime d1 dev = get_modbus_runtime d dev" "ingest_logs d1 = ingest_logs d"
    "gateway_lock_live t hp d1 = gateway_lock_live t hp d" for dev t hp
    by (simp_all add: d1_def device_of_def gateway_lock_live_def entry_live_def device_lock_key_def gateway_lock_key_def)
  show ?thesis
  proof (cases "device_lock_live (now e) k d")
    case True
    with assms(2) a show ?thesis by (simp add: poll_modbus_device_def)
  next
    case free: False
    show ?thesis
    proof (cases "device_of d k")
      case None
      then have "res = Inl DoesNotExist" "d' = d1" using assms(2) a free same by (simp_all add: poll_modbus_device_def)
      then have "res = Inl DoesNotExist \<and> (\<forall>t. device_lock_live t k d' = (t < now e + seconds 120))"
        by (simp add: device_lock_live_def d1_def entry_live_upd)
      with None free show ?thesis by simp
    next
      case (Some dev)
      obtain out d2 gw where at: "modbus_attempt e raced nf net installed interrupted dev ingest ev d1 = ((out, d2), gw)"
        by (metis surj_pair)
      define d3 where "d3 = (case gw of None \<Rightarrow> d2 | Some hp \<Rightarrow> snd (release_modbus_gateway_lock e hp d2))"
      define d4 where "d4 = d3\<lparr>shared_cache := (shared_cache d3)(device_lock_key k := None)\<rparr>"
      have r: "res = Inr out" "d' = (if po_status out = ''SKIPPED'' then d4 else log_poll e ''MODBUS_TCP'' ingest out d4)"
        using assms a free Some same(1) at
        by (auto simp: poll_modbus_device_def Let_def d3_def [symmetric] release_device_poll_lock_def release_lock_exact d4_def)
      have c3: "shared_cache d3 = (case gw of None \<Rightarrow> shared_cache d2 | Some hp \<Rightarrow> (shared_cache d2)(gateway_lock_key hp := None))"
        "ingest_logs d3 = ingest_logs d2"
        using assms(1) by (simp_all add: d3_def release_modbus_gateway_lock_def release_lock_exact split: option.splits)
      have c: "shared_cache d' = (shared_cache d3)(device_lock_key k := None)"
        by (simp add: r d4_def log_poll_def)
      have dl: "\<not> device_lock_live t k d'" for t by (simp add: device_lock_live_def entry_live_def c)
      have gl: "\<forall>hp t. gw = Some hp \<longrightarrow> \<not> gateway_lock_live t hp d'"
        by (simp add: gateway_lock_live_def entry_live_def c c3)
      note at' = attempt_cases [OF assms(1) at]
      have l: "ingest_logs d4 = ingest_logs d" using at' same(3) c3(2) by (simp add: d4_def)
      show ?thesis
        using Some free r(1) dl gl at' l
        by (auto simp: r(2) same log_poll_def simp del: split_paired_All)
    qed
  qed
qed

text \<open>A device that is gone, and one whose poll is refused for want of a configuration.\<close>

lemma modbus_poll_locks_witness:
  "\<exists>d' d2 out. poll_modbus_device (plain_env 5) no_race (\<lambda>_. PNone) (\<lambda>_ _ _. Inr None) True False 99 77 True counter_db = (Inl DoesNotExist, d')
    \<and> device_lock_live 60000000 99 d'
    \<and> poll_modbus_device (plain_env 5) no_race (\<lambda>_. PNone) (\<lambda>_ _ _. Inr None) True False 10 77 True counter_db = (Inr out, d2)
    \<and> \<not> device_lock_live 5 10 d2"
proof -
  let ?p = "\<lambda>k. poll_modbus_device (plain_env 5) no_race (\<lambda>_. PNone) (\<lambda>_ _ _. Inr None) True False k 77 True counter_db"
  obtain r1 d1 where p1: "?p 99 = (r1, d1)" by (metis surj_pair)
  obtain r2 d2 where p2: "?p 10 = (r2, d2)" by (metis surj_pair)
  have up: "cache_up (plain_env 5)" "now (plain_env 5) = 5" by (simp_all add: plain_env_def)
  have free: "\<not> device_lock_live t k counter_db" for t k
    by (simp add: device_lock_live_def entry_live_def counter_db_def snmp_db_def poll_db_def empty_db_def)
  have gone: "device_of counter_db 99 = None" and there: "device_of counter_db 10 = Some ups_device"
    by (simp_all add: counter_db_def device_of_def tbl_get_def ups_device_def)
  from modbus_poll_locks [OF up(1) p1, unfolded if_not_P [OF free]] gone
  have a: "r1 = Inl DoesNotExist" "device_lock_live 60000000 99 d1"
    by (simp_all add: up(2) seconds_def)
  from modbus_poll_locks [OF up(1) p2, unfolded if_not_P [OF free]] there
  obtain out where "r2 = Inr out" "\<not> device_lock_live 5 10 d2" by auto
  with a p1 p2 show ?thesis by blast
qed

subsection \<open>The readings\<close>

lemma metric_of_cache [simp]: "metric_of (d\<lparr>shared_cache := c\<rparr>) k = metric_of d k"
  by (simp add: metric_of_def)

lemma good_readings_cache [simp]: "good_readings e nf client (d\<lparr>shared_cache := c\<rparr>) ms = good_readings e nf client d ms"
  by (simp add: good_readings_def modbus_reading_def)

definition refused :: "telemetry_point list \<Rightarrow> bool" where
  "refused ps = (\<exists>p \<in> set ps. \<not> bigint_ok (tp_values p))"

lemma session_exact:
  assumes "net (fst hp) (snd hp) timeout = Inr (Some client)" and "latest_unique d" and "keys_unique ae_id (alert_events d)"
    and "modbus_session e raced nf net dev pcfg ingest ev hp timeout ms d = (out, d')"
    and "rs = good_readings e nf client d ms" and "ps = modbus_points e dev ingest rs"
  shows "po_success out = length rs \<and> po_success out + po_failure out = length ms
    \<and> (if rs = [] \<or> refused ps
       then po_status out = ''FAILED'' \<and> points d' = points d \<and> latest_rows d' = latest_rows d \<and> alert_events d' = alert_events d
       else points d' = points d @ ps \<and> latest_unique d' \<and> engine_step d d'
         \<and> (\<forall>k. shown_latest k d' = (case last_write point_key k ps of Some p \<Rightarrow> Some (latest_of_point p) | None \<Rightarrow> shown_latest k d))
         \<and> (po_status out \<noteq> ''FAILED'' \<longrightarrow> devices d' = devices (device_seen (dev_id dev) (now e) d)))"
proof -
  have len: "length rs \<le> length ms" using good_readings_length [of e nf client d ms] assms(5) by simp
  have body: "(out, d') = (if rs = [] then modbus_failed e dev pcfg ingest ''All configured Modbus registers failed'' 0 (length ms - length rs) d
           else case store_and_evaluate e raced dev ingest ev rs d of
               (Inl x, d1) \<Rightarrow> modbus_failed e dev pcfg ingest (modbus_error_text x) (length rs) (length ms - length rs) d1
             | (Inr _, d1) \<Rightarrow>
                 (\<lparr>po_device = dev_id dev, po_ingest = Some ingest,
                    po_status = (if length ms - length rs = 0 then ''SUCCESS'' else ''PARTIAL_SUCCESS''),
                    po_success = length rs, po_failure = length ms - length rs, po_error = None\<rparr>,
                  mark_success d1 dev pcfg (now e)))"
    using assms(1,4) by (simp add: modbus_session_def read_all flip: assms(5))
  show ?thesis
  proof (cases "rs = []")
    case True
    then have "(out, d') = modbus_failed e dev pcfg ingest ''All configured Modbus registers failed'' 0 (length ms) d"
      using body by simp
    then have "out = fst (modbus_failed e dev pcfg ingest ''All configured Modbus registers failed'' 0 (length ms) d)"
      "d' = snd (modbus_failed e dev pcfg ingest ''All configured Modbus registers failed'' 0 (length ms) d)"
      by (metis fst_conv, metis snd_conv)
    with True show ?thesis by simp
  next
    case some: False
    obtain res d1 where st: "store_and_evaluate e raced dev ingest ev rs d = (res, d1)" by (metis surj_pair)
    note x = store_and_evaluate_exact [OF st assms(2,3), folded assms(6), folded refused_def]
    have out: "po_success out = length rs" "po_failure out = length ms - length rs" "po_status out \<noteq> ''FAILED'' \<longleftrightarrow> isl res = False"
      and same: "points d' = points d1" "latest_rows d' = latest_rows d1" "alert_events d' = alert_events d1" "alert_logs d' = alert_logs d1"
      and seen: "isl res = False \<Longrightarrow> devices d' = devices (device_seen (dev_id dev) (now e) d1)"
      using body some st by (auto simp: modbus_failed_def split: sum.splits)
    have step: "engine_step d1 d'" by (rule engine_step_same [where ls = "[]"]) (simp_all add: same)
    show ?thesis
    proof (cases "refused ps")
      case True
      with x have "res = Inl DataError" "d1 = d" by simp_all
      with True out same len show ?thesis by simp
    next
      case False
      with x have y: "points d1 = points d @ ps" "latest_unique d1" "engine_step d d1" "devices d1 = devices d"
        "\<And>k. shown_latest k d1 = (case last_write point_key k ps of Some p \<Rightarrow> Some (latest_of_point p) | None \<Rightarrow> shown_latest k d)"
        by (simp_all del: split_paired_All)
      have "engine_step d d'" using y(3) step engine_step_trans by blast
      then show ?thesis
        using False some out same len y latest_unique_frame [OF same(2)] find_latest_frame [OF same(2)] seen
        by (simp add: device_seen_def)
    qed
  qed
qed

text \<open>C3. A poll that gets both locks, its configuration and a connection stores the readings that could be read, in
  order and in one write, and shows the last of each metric as its latest value; or nothing at all, when none could be read or
  the database refuses one of them. What it stored stays when an evaluation then raises and the poll is recorded as
  FAILED. It counts every register once, keeps the invariants of the engine and the latest rows, and
  leaves the device seen when it does not fail.\<close>

theorem modbus_poll_outcome:
  assumes "cache_up e" and "\<not> device_lock_live (now e) k d" and "device_of d k = Some dev"
    and "get_modbus_runtime d dev = Inr (pc, ms)" and "hp = modbus_endpoint pc" and "\<not> gateway_lock_live (now e) hp d"
    and "net (fst hp) (snd hp) (pc_timeout_seconds pc) = Inr (Some client)"
    and "latest_unique d" and "keys_unique ae_id (alert_events d)"
    and "poll_modbus_device e raced nf net True False k ingest ev d = (res, d')"
    and "rs = good_readings e nf client d ms" and "ps = modbus_points e dev ingest rs"
  shows "\<exists>out. res = Inr out \<and> po_success out = length rs \<and> po_success out + po_failure out = length ms
    \<and> (if rs = [] \<or> refused ps
       then po_status out = ''FAILED'' \<and> points d' = points d \<and> latest_rows d' = latest_rows d \<and> alert_events d' = alert_events d
       else points d' = points d @ ps \<and> latest_unique d' \<and> engine_step d d'
         \<and> (\<forall>j. shown_latest j d' = (case last_write point_key j ps of Some p \<Rightarrow> Some (latest_of_point p) | None \<Rightarrow> shown_latest j d))
         \<and> (po_status out \<noteq> ''FAILED'' \<longrightarrow> device_of d' k = Some (seen_at (now e) dev)))"
proof -
  let ?t = "max (int (pc_timeout_seconds pc) * 4) 20"
  let ?pcfg = "polling_config_of d k"
  define c1 where "c1 = (shared_cache d)(device_lock_key k \<mapsto> (CStr ''1'', Some (now e + seconds 120)))"
  define c2 where "c2 = c1(gateway_lock_key hp \<mapsto> (CStr ''1'', Some (now e + seconds ?t)))"
  have a: "acquire_device_poll_lock e k 120 d = (Inr True, d\<lparr>shared_cache := c1\<rparr>)"
    using assms(1,2) by (simp add: acquire_device_poll_lock_def acquire_lock_exact device_lock_live_def c1_def)
  have "gateway_lock_live (now e) hp (d\<lparr>shared_cache := c1\<rparr>) = gateway_lock_live (now e) hp d"
    by (simp add: gateway_lock_live_def entry_live_def c1_def device_lock_key_def gateway_lock_key_def)
  then have g: "acquire_modbus_gateway_lock e hp ?t (d\<lparr>shared_cache := c1\<rparr>) = (Inr True, d\<lparr>shared_cache := c2\<rparr>)"
    using assms(1,6) by (simp add: acquire_modbus_gateway_lock_def acquire_lock_exact gateway_lock_live_def c2_def)
  have id: "dev_id dev = k" using assms(3) by (auto simp: device_of_def dest: tbl_get_Some)
  obtain out d2 where s: "modbus_session e raced nf net dev ?pcfg ingest ev hp (pc_timeout_seconds pc) ms (d\<lparr>shared_cache := c2\<rparr>) = (out, d2)"
    by (metis surj_pair)
  have f: "device_of (d\<lparr>shared_cache := c1\<rparr>) k = Some dev" "polling_config_of (d\<lparr>shared_cache := c1\<rparr>) k = ?pcfg"
    using assms(3) by (simp_all add: device_of_def polling_config_of_def profile_of_def cong: option.case_cong)
  have at: "modbus_attempt e raced nf net True False dev ingest ev (d\<lparr>shared_cache := c1\<rparr>) = ((out, d2), Some hp)"
    using assms(4) f(2) g s id unfolding modbus_attempt_def by (simp add: Let_def flip: assms(5))
  have r: "res = Inr out"
    "points d' = points d2 \<and> latest_rows d' = latest_rows d2 \<and> alert_events d' = alert_events d2 \<and> alert_logs d' = alert_logs d2 \<and> devices d' = devices d2"
    using assms(1,10) a f(1) at
    by (auto simp: poll_modbus_device_def Let_def release_modbus_gateway_lock_def release_device_poll_lock_def release_lock_exact)
  have u: "latest_unique (d\<lparr>shared_cache := c2\<rparr>)" and ku: "keys_unique ae_id (alert_events (d\<lparr>shared_cache := c2\<rparr>))"
    using assms(8,9) latest_unique_frame [of "d\<lparr>shared_cache := c2\<rparr>" d] by simp_all
  have rs: "rs = good_readings e nf client (d\<lparr>shared_cache := c2\<rparr>) ms" using assms(11) by simp
  note x = session_exact [where d = "d\<lparr>shared_cache := c2\<rparr>", OF assms(7) u ku s rs assms(12)]
  have sh: "shown_latest j (d\<lparr>shared_cache := c2\<rparr>) = shown_latest j d" "shown_latest j d' = shown_latest j d2"
    "latest_unique d' = latest_unique d2" for j
    using find_latest_frame [of "d\<lparr>shared_cache := c2\<rparr>" d] find_latest_frame [of d' d2] latest_unique_frame [of d' d2] r(2) by simp_all
  have e0: "engine_step d (d\<lparr>shared_cache := c2\<rparr>)" and e2: "engine_step d2 d'"
    by (rule engine_step_same [where ls = "[]"]; use r(2) in simp)+
  have st: "engine_step d d'" if "engine_step (d\<lparr>shared_cache := c2\<rparr>) d2"
    using e0 that e2 engine_step_trans by blast
  have dv: "device_of d' k = Some (seen_at (now e) dev)" if "devices d2 = devices (device_seen k (now e) (d\<lparr>shared_cache := c2\<rparr>))"
    using device_of_seen [of k "now e" d k] assms(3) r(2) that by (simp add: device_of_def device_seen_def)
  show ?thesis
  proof (cases "rs = [] \<or> refused ps")
    case True
    with x r show ?thesis by (auto simp del: split_paired_All)
  next
    case False
    with x r(1,2) sh st dv id show ?thesis by (simp del: split_paired_All cong: option.case_cong)
  qed
qed

text \<open>A register read as text; evaluation is off.\<close>

definition door_metric :: metric where
  "door_metric = blank_metric\<lparr>me_id := 1, me_data_type := TEXT\<rparr>"

definition door_register :: register_mapping where
  "door_register = a_register\<lparr>rg_device_type := 5, rg_data_type := ''raw''\<rparr>"

definition door_db :: db where
  "door_db = empty_db\<lparr>devices := [ups_device], metrics := [door_metric], protocol_configs := [plain_config MODBUS_TCP],
     register_mappings := [door_register, door_register\<lparr>rg_metric := 9\<rparr>]\<rparr>"

definition door_client :: modbus_client where
  "door_client _ _ _ _ = Inr (Registers [7])"

lemma door_runtime:
  "get_modbus_runtime door_db ups_device = Inr (plain_config MODBUS_TCP, register_mappings door_db)"
  by (simp add: get_modbus_runtime_def protocol_config_for_def door_db_def plain_config_def ups_device_def blank_device_def
      dedupe_def dedupe_step_def modbus_mapping_q_def door_register_def a_register_def)

lemma door_readings:
  "good_readings (plain_env 5) nf door_client door_db (register_mappings door_db) =
     [\<lparr>rd_metric = door_metric, rd_value = PStr (py_str (plain_env 5) (PInt 7)), rd_quality = Some GOOD,
       rd_raw_value_text = Some (py_str (plain_env 5) (PInt 7))\<rparr>]"
  by (simp add: good_readings_def modbus_reading_def read_mapping_def door_client_def decode_registers_def Let_def
      door_db_def door_register_def a_register_def metric_of_def tbl_get_def door_metric_def normalize_value_def
      lower_def lower_char_def char_of_def bit_0)

lemma modbus_poll_outcome_witness:
  "\<exists>out d'. poll_modbus_device (plain_env 5) no_race (\<lambda>_. PNone) (\<lambda>_ _ _. Inr (Some door_client)) True False 10 77 False door_db = (Inr out, d')
    \<and> po_success out = 1 \<and> po_failure out = 1 \<and> map tp_raw_value_text (points d') = [Some ''7'']"
proof -
  let ?net = "\<lambda>_ _ _. Inr (Some door_client)"
  let ?ps = "modbus_points (plain_env 5) ups_device 77 (good_readings (plain_env 5) (\<lambda>_. PNone) door_client door_db (register_mappings door_db))"
  obtain res d' where r: "poll_modbus_device (plain_env 5) no_race (\<lambda>_. PNone) ?net True False 10 77 False door_db = (res, d')"
    by (metis surj_pair)
  have up: "cache_up (plain_env 5)" by (simp add: plain_env_def)
  have free: "\<not> device_lock_live t 10 door_db" "\<not> gateway_lock_live t hp door_db" for t hp
    by (simp_all add: device_lock_live_def gateway_lock_live_def entry_live_def door_db_def empty_db_def)
  have dev: "device_of door_db 10 = Some ups_device"
    by (simp add: door_db_def device_of_def tbl_get_def ups_device_def)
  have u: "latest_unique door_db" "keys_unique ae_id (alert_events door_db)"
    by (simp_all add: door_db_def empty_db_def keys_unique_def latest_unique_def)
  have ok: "\<not> refused ?ps"
    using value_payload_simps(5) [of "PStr (py_str (plain_env 5) (PInt 7))" "plain_env 5"]
    by (simp add: refused_def modbus_points_def door_readings point_of_reading_def payload_for_def door_metric_def Let_def
        value_payload_def bigint_ok_def no_value_def text_column_def del: metric_type_value.simps)
  have raw: "map tp_raw_value_text ?ps = [Some ''7'']"
    by (simp add: modbus_points_def door_readings point_of_reading_def Let_def py_str_def str_int_def str_nat.simps digit_char_def char_of_def bit_0)
  have len: "length (register_mappings door_db) = 2" "points door_db = []" by (simp_all add: door_db_def empty_db_def)
  have net: "?net (fst (modbus_endpoint (plain_config MODBUS_TCP))) (snd (modbus_endpoint (plain_config MODBUS_TCP)))
      (pc_timeout_seconds (plain_config MODBUS_TCP)) = Inr (Some door_client)" by simp
  from modbus_poll_outcome [OF up free(1) dev door_runtime refl free(2) net u r refl refl] ok
  obtain out where "res = Inr out" "po_success out = 1" "po_success out + po_failure out = 2" "points d' = ?ps"
    by (auto simp: door_readings len)
  with r raw show ?thesis by auto
qed

end
