(* ===== verification/Trap_Receiver.thy ===== *)
theory Trap_Receiver
  imports Engine_Frame
begin

text \<open>
  From a datagram to a trap event: the receiver's callback (\<open>cb_fun\<close> in
  \<open>collectors/snmp_trap_receiver/receiver.py\<close>), the task (\<open>tasks.py\<close>) and the processing of one trap
  (\<open>services.py\<close>). The BER decoder is an argument.
\<close>

subsection \<open>The callback\<close>

text \<open>
  The first message of a datagram: a version the library has no module for, or the variable bindings
  that were printed before the iteration ended or raised, with the bytes left. None: decoding raises.
\<close>

datatype trap_message = Unsupported nat | TrapMessage "(string \<times> string) list" string

type_synonym trap_decoder = "string \<Rightarrow> trap_message option"

definition SNMP_TRAP_OID_V2 :: string where
  "SNMP_TRAP_OID_V2 = ''1.3.6.1.6.3.1.1.4.1.0''"

definition add_varbind :: "string \<times> string \<Rightarrow> dict \<times> string option \<Rightarrow> dict \<times> string option" where
  "add_varbind vb s =
     (dict_set (fst s) (fst vb) (PStr (snd vb)), if fst vb = SNMP_TRAP_OID_V2 then Some (snd vb) else snd s)"

definition trap_oid_of :: "dict \<times> string option \<Rightarrow> string" where
  "trap_oid_of s = str_or (snd s)
     (case dict_get (fst s) SNMP_TRAP_OID_V2 of Some (PStr t) \<Rightarrow> if t = [] then ''UNKNOWN'' else t | _ \<Rightarrow> ''UNKNOWN'')"

definition trap_task :: "string \<Rightarrow> (string \<times> string) list \<Rightarrow> task" where
  "trap_task source_ip vbs = (let s = fold add_varbind vbs ([], None) in ProcessSnmpTrap source_ip (trap_oid_of s) (fst s))"

text \<open>The tasks queued and the bytes returned; a decoder that raises ends the callback with what was queued.\<close>

partial_function (option) cb_fun :: "trap_decoder \<Rightarrow> string \<Rightarrow> string \<Rightarrow> (task list \<times> string option) option" where
  "cb_fun dec source_ip msg =
     (if msg = [] then Some ([], Some msg)
      else case dec msg of
        None \<Rightarrow> Some ([], None)
      | Some (Unsupported v) \<Rightarrow> Some ([], Some msg)
      | Some (TrapMessage vbs rest) \<Rightarrow>
          Option.bind (cb_fun dec source_ip rest) (\<lambda>(ts, left). Some (trap_task source_ip vbs # ts, left)))"

subsection \<open>PAC traps\<close>

definition PAC_CONFIRMATION_TRAP_CODES :: "string set" where
  "PAC_CONFIRMATION_TRAP_CODES = {''PAC_ALARM_FIRED'', ''PAC_ALARM_RESTORED''}"

definition is_pac_device :: "db \<Rightarrow> device \<Rightarrow> bool" where
  "is_pac_device d dev = (case device_type_of d (dev_device_type dev) of
      None \<Rightarrow> False
    | Some dt \<Rightarrow> upper (strip (dt_code dt)) = ''PAC'' \<or> contains (upper (strip (dt_name dt))) ''PAC'')"

definition is_pac_confirmation_trap :: "string option \<Rightarrow> bool" where
  "is_pac_confirmation_trap code = (upper (strip (str_or code [])) \<in> PAC_CONFIRMATION_TRAP_CODES)"

subsection \<open>Processing one trap\<close>

text \<open>\<open>first()\<close> on an unordered query orders by the primary key.\<close>

definition find_trap_source :: "db \<Rightarrow> string \<Rightarrow> trap_source option" where
  "find_trap_source d ip = first_row (order_by ts_id (filter (\<lambda>s. ts_source_ip s = ip \<and> ts_is_enabled s) (trap_sources d)))"

definition find_trap_device :: "db \<Rightarrow> string \<Rightarrow> device option" where
  "find_trap_device d ip = first_row (order_by dev_id (filter (\<lambda>r. dev_ip_address r = Some ip \<and> dev_is_active r) (devices d)))"

text \<open>The organisation, the data centre and the device of a trap.\<close>

definition trap_origin :: "db \<Rightarrow> string \<Rightarrow> uuid option \<times> uuid option \<times> device option" where
  "trap_origin d ip =
     (let src = find_trap_source d ip;
          org = map_option ts_organization src; dc = map_option ts_data_center src
      in case Option.bind (Option.bind src ts_device) (device_of d) of
        Some dev \<Rightarrow> (org, dc, Some dev)
      | None \<Rightarrow> (case find_trap_device d ip of
            Some dev \<Rightarrow> (Some (dev_organization dev), Some (dev_data_center dev), Some dev)
          | None \<Rightarrow> (org, dc, None)))"

definition trap_mapping_q :: "device \<Rightarrow> string \<Rightarrow> trap_mapping \<Rightarrow> bool" where
  "trap_mapping_q dev oid m = (tm_device_type m = dev_device_type dev \<and> tm_trap_oid m = oid \<and> tm_is_active m
     \<and> (tm_device_model m = dev_device_model dev \<or> tm_device_model m = None))"

text \<open>\<open>order_by("-device_model")\<close>: PostgreSQL puts NULL first in a descending order.\<close>

definition model_desc :: "trap_mapping \<Rightarrow> int" where
  "model_desc m = (case tm_device_model m of None \<Rightarrow> -1 | Some k \<Rightarrow> 0)"

definition find_trap_mapping :: "db \<Rightarrow> device \<Rightarrow> string \<Rightarrow> trap_mapping option" where
  "find_trap_mapping d dev oid = first_row (order_by model_desc (filter (trap_mapping_q dev oid) (trap_mappings d)))"

definition trap_message_text :: "trap_mapping option \<Rightarrow> string" where
  "trap_message_text m = (case m of None \<Rightarrow> ''Unmapped SNMP trap received'' | Some x \<Rightarrow> str_or (tm_message_template x) (tm_event_name x))"

definition new_trap_event ::
    "env \<Rightarrow> db \<Rightarrow> uuid option \<Rightarrow> uuid option \<Rightarrow> device option \<Rightarrow> string \<Rightarrow> string \<Rightarrow> trap_mapping option \<Rightarrow> dict \<Rightarrow> trap_event" where
  "new_trap_event e d org dc dev ip oid m raw =
     \<lparr>te_id = fresh_key te_id (trap_events d), te_organization = org, te_data_center = dc, te_device = map_option dev_id dev,
      te_source_ip = ip, te_trap_oid = (if oid = [] then ''UNKNOWN'' else oid), te_event_code = map_option tm_event_code m,
      te_event_name = map_option tm_event_name m, te_severity = (case m of None \<Rightarrow> TRAP_INFO | Some x \<Rightarrow> tm_severity x),
      te_raw_varbinds = raw, te_message = Some (trap_message_text m), te_received_at = now e, te_is_mapped = (m \<noteq> None),
      te_is_processed = True\<rparr>"

fun event_severity_of :: "trap_severity \<Rightarrow> event_severity" where
  "event_severity_of TRAP_INFO = EV_INFO"
| "event_severity_of TRAP_WARNING = EV_WARNING"
| "event_severity_of TRAP_CRITICAL = EV_CRITICAL"

fun alert_severity_of :: "trap_severity \<Rightarrow> alert_severity" where
  "alert_severity_of TRAP_INFO = INFO"
| "alert_severity_of TRAP_WARNING = WARNING"
| "alert_severity_of TRAP_CRITICAL = CRITICAL"

definition trap_device_event :: "env \<Rightarrow> device \<Rightarrow> trap_mapping \<Rightarrow> dict \<Rightarrow> device_event" where
  "trap_device_event e dev m raw =
     \<lparr>de_organization = dev_organization dev, de_data_center = dev_data_center dev, de_device = dev_id dev,
      de_event_code = tm_event_code m, de_event_name = tm_event_name m, de_severity = event_severity_of (tm_severity m),
      de_message = trap_message_text (Some m), de_occurred_at = now e, de_raw_payload = raw\<rparr>"

definition add_device_event :: "device_event \<Rightarrow> db \<Rightarrow> db" where
  "add_device_event r d = d\<lparr>device_events := tbl_insert r (device_events d)\<rparr>"

definition insert_trap_event :: "trap_event \<Rightarrow> db \<Rightarrow> db" where
  "insert_trap_event t d = d\<lparr>trap_events := tbl_insert t (trap_events d)\<rparr>"

text \<open>The part for a device whose trap is mapped; the confirmation task is queued on commit.\<close>

definition mapped_trap ::
    "env \<Rightarrow> (string \<Rightarrow> bool) \<Rightarrow> device \<Rightarrow> trap_mapping \<Rightarrow> string \<Rightarrow> dict \<Rightarrow> trap_event \<Rightarrow> db \<Rightarrow> db" where
  "mapped_trap e raced dev m oid raw ev d =
     (let pac = is_pac_device d dev \<and> is_pac_confirmation_trap (Some (tm_event_code m));
          d1 = add_device_event (trap_device_event e dev m raw) d;
          d2 = (if tm_create_alert m \<and> \<not> pac
                then snd (create_or_update_trap_alert e raced dev (Some (tm_event_code m)) (Some (tm_event_name m))
                       (alert_severity_of (tm_severity m)) (trap_message_text (Some m)) (now e) oid raw d1)
                else d1)
      in if pac then d2\<lparr>outbox := outbox d2 @ [ConfirmPacTrap (dev_id dev) (te_id ev) (tm_event_code m)]\<rparr> else d2)"

definition process_snmp_trap :: "env \<Rightarrow> (string \<Rightarrow> bool) \<Rightarrow> string \<Rightarrow> string \<Rightarrow> dict \<Rightarrow> db \<Rightarrow> trap_event \<times> db" where
  "process_snmp_trap e raced ip oid raw d =
     (case trap_origin d ip of (org, dc, dev) \<Rightarrow>
      (let m = Option.bind dev (\<lambda>r. find_trap_mapping d r oid);
           ev = new_trap_event e d org dc dev ip oid m raw;
           d1 = insert_trap_event ev d
       in case (dev, m) of
         (Some r, Some x) \<Rightarrow> (ev, mapped_trap e raced r x oid raw ev d1)
       | _ \<Rightarrow> (ev, d1)))"

definition process_snmp_trap_task :: "env \<Rightarrow> (string \<Rightarrow> bool) \<Rightarrow> string \<Rightarrow> string \<Rightarrow> dict \<Rightarrow> db \<Rightarrow> dict \<times> db" where
  "process_snmp_trap_task e raced ip oid raw d =
     (case process_snmp_trap e raced ip oid raw d of (ev, d') \<Rightarrow>
        ([(''trap_event_id'', PStr (str_nat (te_id ev))), (''source_ip'', PStr ip), (''trap_oid'', PStr oid),
          (''is_mapped'', PBool (te_is_mapped ev))], d'))"

end
