(* ===== verification/Pac_Alarms.thy ===== *)
theory Pac_Alarms
  imports Trap_Receiver Snmp_Client Telemetry_Writer
begin

text \<open>
  The confirmation of a PAC trap (\<open>collectors/snmp_trap_receiver/pac_alarm_handler.py\<close>): the alarm OIDs
  of the device are polled, each answer is reduced to 0 or 1, stored and evaluated; where no rule
  answers, an alert of the metric itself is opened, refreshed or resolved. Every mapping is its own
  unit: an error leaves what was written before it and is counted.
\<close>

subsection \<open>Codes and states\<close>

definition PAC_ALARM_METRIC_CODES :: "string set" where
  "PAC_ALARM_METRIC_CODES = {''GENERAL_ALARM'', ''ROOM_HIGH_TEMPERATURE_ALARM'', ''ROOM_LOW_TEMPERATURE_ALARM'',
     ''ROOM_HIGH_HUMIDITY_ALARM'', ''ROOM_LOW_HUMIDITY_ALARM'', ''FILTER_ALARM'', ''WATER_LEAK_ALARM'', ''AIRFLOW_ALARM'',
     ''PHASE_SEQUENCE_ALARM'', ''SMOKE_FIRE_ALARM'', ''LAN_ALARM'', ''EMERGENCY_POWER_ALARM''}"

definition normalize_code :: "string option \<Rightarrow> string" where
  "normalize_code code = removeprefix (upper (strip (str_or code []))) ''PAC_''"

definition is_pac_alarm_metric :: "string option \<Rightarrow> bool" where
  "is_pac_alarm_metric code = (normalize_code code \<in> PAC_ALARM_METRIC_CODES)"

definition pac_alarm_mappings :: "db \<Rightarrow> oid_mapping list \<Rightarrow> oid_mapping list" where
  "pac_alarm_mappings d ms = filter (\<lambda>m. is_pac_alarm_metric (map_option me_code (metric_of d (om_metric m)))) ms"

definition bit_state :: "int \<Rightarrow> int option" where
  "bit_state i = (if i = 1 then Some 1 else if i = 0 then Some 0 else None)"

definition coerce_alarm_state :: "py \<Rightarrow> int option" where
  "coerce_alarm_state v = (case v of
      PBool b \<Rightarrow> Some (if b then 1 else 0)
    | PNone \<Rightarrow> None
    | PInt i \<Rightarrow> bit_state i
    | PStr s \<Rightarrow>
        (let normalized = lower (strip s) in
         if normalized \<in> {''1'', ''true'', ''yes'', ''on'', ''active'', ''alarm''} then Some 1
         else if normalized \<in> {''0'', ''false'', ''no'', ''off'', ''normal'', ''restored''} then Some 0
         else (case py_int (PStr normalized) of Inl _ \<Rightarrow> None | Inr i \<Rightarrow> bit_state i))
    | _ \<Rightarrow> (case py_int v of Inl _ \<Rightarrow> None | Inr i \<Rightarrow> bit_state i))"

definition telemetry_payload :: "metric \<Rightarrow> int \<Rightarrow> value_cols" where
  "telemetry_payload me state = (case me_data_type me of
      FLOAT \<Rightarrow> no_value\<lparr>value_float := Some (of_int state)\<rparr>
    | INTEGER \<Rightarrow> no_value\<lparr>value_integer := Some state\<rparr>
    | BOOLEAN \<Rightarrow> no_value\<lparr>value_boolean := Some (state \<noteq> 0)\<rparr>
    | _ \<Rightarrow> no_value\<lparr>value_text := Some (str_int state)\<rparr>)"

definition pac_alert_message :: "int \<Rightarrow> string" where
  "pac_alert_message state =
     (if state = 1 then ''PAC alarm confirmed by SNMP poll'' else ''PAC alarm restored and confirmed by SNMP poll'')"

subsection \<open>The alert of a metric itself\<close>

definition exact_alert_q :: "device \<Rightarrow> uuid \<Rightarrow> alert_event \<Rightarrow> bool" where
  "exact_alert_q dev mk a =
     (ae_organization a = dev_organization dev \<and> ae_data_center a = dev_data_center dev \<and> ae_device a = dev_id dev
      \<and> ae_metric a = Some mk \<and> ae_alert_rule a = None \<and> ae_status a = OPEN)"

definition exact_alert :: "db \<Rightarrow> device \<Rightarrow> uuid \<Rightarrow> alert_event option" where
  "exact_alert d dev mk = first_row (newest_first (filter (exact_alert_q dev mk) (alert_events d)))"

definition new_exact_alert :: "env \<Rightarrow> db \<Rightarrow> device \<Rightarrow> uuid \<Rightarrow> int \<Rightarrow> time \<Rightarrow> value_cols \<Rightarrow> alert_event" where
  "new_exact_alert e d dev mk state confirmation_at payload =
     \<lparr>ae_id = fresh_key ae_id (alert_events d), ae_created_at = now e, ae_organization = dev_organization dev,
      ae_data_center = dev_data_center dev, ae_device = dev_id dev, ae_metric = Some mk, ae_alert_rule = None,
      ae_severity = CRITICAL, ae_status = OPEN, ae_values = payload, ae_message = pac_alert_message state,
      ae_triggered_at = confirmation_at, ae_last_seen_at = None, ae_acknowledged_by = None, ae_acknowledged_at = None,
      ae_resolved_by = None, ae_resolved_at = None, ae_resolution_type = None, ae_acknowledge_comment = None,
      ae_resolve_comment = None, ae_occurrence_count = 1, ae_metadata = []\<rparr>"

definition open_or_update_exact_alert ::
    "env \<Rightarrow> device \<Rightarrow> uuid \<Rightarrow> int \<Rightarrow> time \<Rightarrow> value_cols \<Rightarrow> db \<Rightarrow> (alert_event \<times> bool) \<times> db" where
  "open_or_update_exact_alert e dev mk state confirmation_at payload d =
     (case exact_alert d dev mk of
        Some a \<Rightarrow>
          (let f = (\<lambda>row. row\<lparr>ae_severity := CRITICAL, ae_message := pac_alert_message state, ae_values := payload\<rparr>)
           in ((f a, False), save_alert (ae_id a) f d))
      | None \<Rightarrow>
          (let a = new_exact_alert e d dev mk state confirmation_at payload in ((a, True), insert_alert a d)))"

definition resolve_exact_alert ::
    "device \<Rightarrow> uuid \<Rightarrow> time \<Rightarrow> value_cols \<Rightarrow> db \<Rightarrow> (alert_event option \<times> bool) \<times> db" where
  "resolve_exact_alert dev mk confirmation_at payload d =
     (case exact_alert d dev mk of
        None \<Rightarrow> ((None, False), d)
      | Some a \<Rightarrow>
          (let f = (\<lambda>row. row\<lparr>ae_status := RESOLVED, ae_resolved_at := Some confirmation_at, ae_message := pac_alert_message 0,
                      ae_values := payload\<rparr>)
           in ((Some (f a), True), save_alert (ae_id a) f d)))"

subsection \<open>One mapping\<close>

definition trap_reference :: "trap_event \<Rightarrow> dict" where
  "trap_reference t = [(''trap_event_id'', PStr (str_nat (te_id t))), (''trap_event_code'', opt_py PStr (te_event_code t)),
     (''trap_oid'', PStr (te_trap_oid t))]"

definition pac_device_event :: "device \<Rightarrow> metric \<Rightarrow> trap_event \<Rightarrow> int \<Rightarrow> time \<Rightarrow> dict \<Rightarrow> device_event" where
  "pac_device_event dev me t state confirmation_at raw =
     \<lparr>de_organization = dev_organization dev, de_data_center = dev_data_center dev, de_device = dev_id dev,
      de_event_code = (if state = 1 then ''PAC_ALARM_CONFIRMED_OPEN'' else ''PAC_ALARM_CONFIRMED_RESOLVED''),
      de_event_name = me_name me, de_severity = (if state = 1 then EV_CRITICAL else EV_INFO),
      de_message = pac_alert_message state, de_occurred_at = confirmation_at,
      de_raw_payload = dict_merge (trap_reference t @ [(''metric_code'', PStr (me_code me)), (''confirmed_state'', PInt state)]) raw\<rparr>"

definition failure_event :: "env \<Rightarrow> device \<Rightarrow> trap_event \<Rightarrow> string \<Rightarrow> device_event" where
  "failure_event e dev t message =
     \<lparr>de_organization = dev_organization dev, de_data_center = dev_data_center dev, de_device = dev_id dev,
      de_event_code = ''PAC_CONFIRMATION_FAILED'', de_event_name = ''PAC Trap Confirmation Failed'', de_severity = EV_WARNING,
      de_message = message, de_occurred_at = now e, de_raw_payload = trap_reference t\<rparr>"

text \<open>\<open>{scaled_value!r}\<close>: a text in quotes (one that itself holds quotes or escapes aside).\<close>

definition py_repr :: "env \<Rightarrow> py \<Rightarrow> string" where
  "py_repr e v = (case v of PStr s \<Rightarrow> [char_of (39::nat)] @ s @ [char_of (39::nat)] | _ \<Rightarrow> py_str e v)"

text \<open>The answer of an OID: its metric, its raw text, the scaled value and the state.\<close>

definition alarm_reading ::
    "env \<Rightarrow> fernet \<Rightarrow> agent \<Rightarrow> snmp_client \<Rightarrow> db \<Rightarrow> oid_mapping \<Rightarrow> exn + (metric \<times> string \<times> py \<times> int)" where
  "alarm_reading e f agent c d m =
     (case snmp_get f agent c (om_oid m) of Inl x \<Rightarrow> Inl x | Inr r \<Rightarrow>
      case apply_scale e (res_value r) m of Inl x \<Rightarrow> Inl x | Inr v \<Rightarrow>
      case deref (metric_of d (om_metric m)) of Inl x \<Rightarrow> Inl x | Inr me \<Rightarrow>
      case coerce_alarm_state v of
        None \<Rightarrow> Inl (ValueError (''Unrecognized PAC alarm value for '' @ me_code me @ '': '' @ py_repr e v))
      | Some s \<Rightarrow> Inr (me, res_raw_value r, v, s))"

text \<open>Stored, evaluated, and settled by the metric's own alert where the engine returns none.\<close>

definition confirm_state ::
    "env \<Rightarrow> (string \<Rightarrow> bool) \<Rightarrow> device \<Rightarrow> trap_event \<Rightarrow> metric \<Rightarrow> string \<Rightarrow> int \<Rightarrow> db \<Rightarrow> (exn + unit) \<times> db" where
  "confirm_state e raced dev t me raw state d =
     (case write_device_telemetry_bulk e (dev_organization dev) (dev_data_center dev) dev
             [\<lparr>rd_metric = me, rd_value = PInt state, rd_quality = None, rd_raw_value_text = Some raw\<rparr>]
             (Some ''TRAP_CONFIRMED_POLL'') (Some (te_id t)) (Some (now e)) d of
        (Inl x, d1) \<Rightarrow> (Inl x, d1)
      | (Inr _, d1) \<Rightarrow>
          (case deref (find_latest (dev_id dev, me_id me) d1) of Inl x \<Rightarrow> (Inl x, d1) | Inr latest \<Rightarrow>
           case evaluate_latest e raced d1 latest of
             (Inl x, d2) \<Rightarrow> (Inl x, d2)
           | (Inr as, d2) \<Rightarrow>
               if as \<noteq> [] then (Inr (), d2)
               else if state = 1
               then (Inr (), snd (open_or_update_exact_alert e dev (me_id me) state (now e) (telemetry_payload me state) d2))
               else (Inr (), snd (resolve_exact_alert dev (me_id me) (now e) (telemetry_payload me state) d2))))"

definition confirm_alarm ::
    "env \<Rightarrow> (string \<Rightarrow> bool) \<Rightarrow> fernet \<Rightarrow> agent \<Rightarrow> snmp_client \<Rightarrow> device \<Rightarrow> trap_event \<Rightarrow> oid_mapping \<Rightarrow> db \<Rightarrow> (exn + unit) \<times> db" where
  "confirm_alarm e raced f agent c dev t m d =
     (case alarm_reading e f agent c d m of Inl x \<Rightarrow> (Inl x, d) | Inr (me, raw, v, state) \<Rightarrow>
      case confirm_state e raced dev t me raw state d of
        (Inl x, d1) \<Rightarrow> (Inl x, d1)
      | (Inr _, d1) \<Rightarrow> (Inr (), add_device_event (pac_device_event dev me t state (now e)
            [(''source_ip'', PStr (te_source_ip t)), (''oid'', PStr (om_oid m)), (''raw_snmp_value'', PStr raw), (''scaled_value'', v)]) d1))"

definition confirm_step ::
    "env \<Rightarrow> (string \<Rightarrow> bool) \<Rightarrow> fernet \<Rightarrow> agent \<Rightarrow> snmp_client \<Rightarrow> device \<Rightarrow> trap_event \<Rightarrow> oid_mapping
      \<Rightarrow> (nat \<times> nat) \<times> db \<Rightarrow> (nat \<times> nat) \<times> db" where
  "confirm_step e raced f agent c dev t m s =
     (case s of ((processed, failures), d) \<Rightarrow>
      case confirm_alarm e raced f agent c dev t m d of
        (Inr _, d1) \<Rightarrow> ((processed + 1, failures), d1)
      | (Inl x, d1) \<Rightarrow> ((processed, failures + 1), add_device_event (failure_event e dev t
            (''PAC confirmation poll failed for '' @ (case metric_of d (om_metric m) of None \<Rightarrow> [] | Some me \<Rightarrow> me_code me)
              @ '': '' @ exn_text x)) d1))"

subsection \<open>The whole confirmation\<close>

datatype pac_result =
    PacSkipped string
  | PacFailed string "string option"
  | PacDone string nat nat uuid

definition done_status :: "nat \<Rightarrow> nat \<Rightarrow> string" where
  "done_status processed failures =
     (if processed \<noteq> 0 \<and> failures = 0 then ''success'' else if processed \<noteq> 0 then ''partial_success'' else ''failed'')"

definition process_pac_trap_alarm_confirmation ::
    "env \<Rightarrow> (string \<Rightarrow> bool) \<Rightarrow> fernet \<Rightarrow> agent \<Rightarrow> uuid \<Rightarrow> uuid \<Rightarrow> string option \<Rightarrow> db \<Rightarrow> pac_result \<times> db" where
  "process_pac_trap_alarm_confirmation e raced f agent k tk event_code d =
     (case first_row (filter (\<lambda>t. te_id t = tk \<and> te_device t = Some k) (trap_events d)) of
        None \<Rightarrow> (PacSkipped ''missing_trap_event_or_device'', d)
      | Some t \<Rightarrow> (case device_of d k of
          None \<Rightarrow> (PacSkipped ''missing_trap_event_or_device'', d)
        | Some dev \<Rightarrow>
            if \<not> is_pac_device d dev \<or> \<not> is_pac_confirmation_trap event_code then (PacSkipped ''non_pac_trap'', d)
            else (case get_device_snmp_runtime d dev of
                Inl x \<Rightarrow> (PacFailed ''runtime_error'' (Some (exn_text x)),
                  add_device_event (failure_event e dev t (''PAC confirmation could not load SNMP runtime: '' @ exn_text x)) d)
              | Inr (pc, cr, all_ms) \<Rightarrow>
                  (let ms = pac_alarm_mappings d all_ms in
                   if ms = [] then (PacFailed ''no_alarm_mappings'' None,
                     add_device_event (failure_event e dev t ''PAC confirmation found no active alarm/status OID mappings'') d)
                   else (case fold (confirm_step e raced f agent (snmp_client_of pc cr) dev t) ms ((0, 0), d) of
                       ((processed, failures), d1) \<Rightarrow> (PacDone (done_status processed failures) processed failures tk, d1))))))"

end
