(* ===== verification/Trap_Props.thy ===== *)
theory Trap_Props
  imports Trap_Receiver
begin

text \<open>
  What the receiver does with a datagram and with one trap: it ends, every trap leaves one event, and
  which mapping decides.
\<close>

subsection \<open>The callback ends\<close>

lemma trap_oid_nonempty: "\<exists>oid raw. trap_task ip vbs = ProcessSnmpTrap ip oid raw \<and> oid \<noteq> []"
proof -
  obtain raw t where s: "fold add_varbind vbs ([], None) = (raw, t)" by (metis surj_pair)
  have "trap_oid_of (raw, t) \<noteq> []"
    by (auto simp: trap_oid_of_def str_or_def split: option.splits py.splits if_splits)
  then show ?thesis by (simp add: trap_task_def s)
qed

text \<open>C39. The callback returns for every datagram, provided the decoder consumes at least one byte of a message it
  decodes: it queues at most one task for each byte, every task names the sender and a trap OID that is not empty,
  and what it hands back is unread only where a version is not supported.\<close>

theorem trap_callback_terminates:
  assumes "\<And>m vbs rest. dec m = Some (TrapMessage vbs rest) \<Longrightarrow> length rest < length m"
  shows "\<exists>ts left. cb_fun dec ip msg = Some (ts, left) \<and> length ts \<le> length msg
    \<and> (\<forall>t \<in> set ts. \<exists>oid raw. t = ProcessSnmpTrap ip oid raw \<and> oid \<noteq> [])
    \<and> (\<forall>m. left = Some m \<longrightarrow> m = [] \<or> (\<exists>v. dec m = Some (Unsupported v)))"
proof (induction msg rule: length_induct)
  case (1 msg)
  show ?case
  proof (cases "msg = [] \<or> dec msg = None \<or> (\<exists>v. dec msg = Some (Unsupported v))")
    case True
    then show ?thesis by (subst cb_fun.simps) auto
  next
    case False
    then obtain vbs rest where m: "dec msg = Some (TrapMessage vbs rest)" and ne: "msg \<noteq> []"
      by (metis not_None_eq trap_message.exhaust)
    then have l: "length rest < length msg" using assms by blast
    with 1 obtain ts left where r: "cb_fun dec ip rest = Some (ts, left)" "length ts \<le> length rest"
      "\<forall>t \<in> set ts. \<exists>oid raw. t = ProcessSnmpTrap ip oid raw \<and> oid \<noteq> []"
      "\<forall>m. left = Some m \<longrightarrow> m = [] \<or> (\<exists>v. dec m = Some (Unsupported v))" by metis
    have "cb_fun dec ip msg = Some (trap_task ip vbs # ts, left)"
      using m ne r(1) by (subst cb_fun.simps) simp
    with r l trap_oid_nonempty [of ip vbs] show ?thesis by auto
  qed
qed

text \<open>A decoder that reads two bytes: a version and the value of the trap OID.\<close>

definition two_bytes :: trap_decoder where
  "two_bytes msg = (case msg of
      a # b # rest \<Rightarrow> Some (if a = CHR ''9'' then Unsupported 9 else TrapMessage [(SNMP_TRAP_OID_V2, [b])] rest)
    | _ \<Rightarrow> None)"

lemma trap_callback_terminates_witness:
  "\<exists>ts. cb_fun two_bytes ''h'' ''1a1b9c'' = Some (ts, Some ''9c'') \<and> length ts = 2
    \<and> (\<forall>t \<in> set ts. \<exists>oid raw. t = ProcessSnmpTrap ''h'' oid raw \<and> oid \<noteq> [])"
proof -
  have d: "length rest < length m" if "two_bytes m = Some (TrapMessage vbs rest)" for m vbs rest
    using that by (auto simp: two_bytes_def split: list.splits if_splits)
  have "cb_fun two_bytes ''h'' ''1a1b9c'' = Some ([trap_task ''h'' [(SNMP_TRAP_OID_V2, ''a'')], trap_task ''h'' [(SNMP_TRAP_OID_V2, ''b'')]], Some ''9c'')"
    by (subst cb_fun.simps, subst cb_fun.simps, subst cb_fun.simps) (simp add: two_bytes_def)
  with trap_callback_terminates [where dec = two_bytes and ip = "''h''" and msg = "''1a1b9c''", OF d] show ?thesis by auto
qed

subsection \<open>Which mapping decides\<close>

lemma first_order_by_in: "x \<in> set xs \<Longrightarrow> first_row (order_by k xs) \<noteq> None"
  by (metis first_order_by_None empty_iff list.set(1))

text \<open>A generic mapping wins: where a device's type has an active mapping of the OID with no device model, the
  mapping taken names none either, though the device's own model may have one of its own.\<close>

theorem generic_trap_mapping_wins:
  assumes "g \<in> set (trap_mappings d)" and "trap_mapping_q dev oid g" and "tm_device_model g = None"
  shows "\<exists>m. find_trap_mapping d dev oid = Some m \<and> trap_mapping_q dev oid m \<and> tm_device_model m = None"
proof -
  let ?ms = "filter (trap_mapping_q dev oid) (trap_mappings d)"
  have g: "g \<in> set ?ms" using assms by simp
  then have "first_row (order_by model_desc ?ms) \<noteq> None" by (rule first_order_by_in)
  then obtain m where m: "first_row (order_by model_desc ?ms) = Some m" by blast
  have "model_desc m \<le> model_desc g" using first_order_by_min [OF m g] .
  then have "tm_device_model m = None" using assms(3) by (simp add: model_desc_def split: option.splits)
  moreover have "m \<in> set ?ms" using first_row_Some_in [OF m] by simp
  ultimately show ?thesis using m by (auto simp: find_trap_mapping_def)
qed

definition trap_row :: "uuid \<Rightarrow> uuid option \<Rightarrow> string \<Rightarrow> trap_mapping" where
  "trap_row k model code = \<lparr>tm_id = k, tm_device_type = 5, tm_device_model = model, tm_trap_oid = ''1.3.9'', tm_event_code = code,
     tm_event_name = code, tm_severity = TRAP_WARNING, tm_message_template = None, tm_create_alert = True, tm_is_active = True\<rparr>"

definition trap_device :: device where
  "trap_device = blank_device\<lparr>dev_id := 10, dev_device_type := 5, dev_device_model := Some 3, dev_ip_address := Some ''10.0.0.1''\<rparr>"

definition trap_db :: db where
  "trap_db = empty_db\<lparr>devices := [trap_device], trap_mappings := [trap_row 1 (Some 3) ''OWN'', trap_row 2 None ''ANY'']\<rparr>"

lemma generic_trap_mapping_wins_witness:
  "\<exists>m. find_trap_mapping trap_db trap_device ''1.3.9'' = Some m \<and> tm_event_code m = ''ANY''
     \<and> trap_mapping_q trap_device ''1.3.9'' (trap_row 1 (Some 3) ''OWN'')"
proof -
  have q: "trap_mapping_q trap_device ''1.3.9'' (trap_row 2 None ''ANY'')" "trap_mapping_q trap_device ''1.3.9'' (trap_row 1 (Some 3) ''OWN'')"
    by (simp_all add: trap_mapping_q_def trap_row_def trap_device_def)
  from generic_trap_mapping_wins [OF _ q(1), of trap_db]
  obtain m where m: "find_trap_mapping trap_db trap_device ''1.3.9'' = Some m" "tm_device_model m = None"
    by (auto simp: trap_db_def trap_row_def)
  then have "m \<in> set (trap_mappings trap_db)"
    by (auto simp: find_trap_mapping_def dest!: first_row_Some_in)
  with m q show ?thesis by (auto simp: trap_db_def trap_row_def)
qed

subsection \<open>One trap\<close>

lemma find_trap_alert_in: "a \<in> set (alert_events d) \<Longrightarrow> trap_alert_q dev oid a \<Longrightarrow> find_trap_alert d dev oid \<noteq> None"
  unfolding find_trap_alert_def newest_first_def by (rule first_order_by_in) simp

lemma trap_alert_step:
  assumes "create_or_update_trap_alert e raced dev (Some code) name sev msg t oid raw d = (a, d')" and "keys_unique ae_id (alert_events d)"
  shows "engine_step d d' \<and> find_trap_alert d' dev oid \<noteq> None"
proof (cases "find_trap_alert d dev oid = None \<or> (\<exists>x. find_trap_alert d dev oid = Some x
    \<and> dict_get (ae_metadata x) ''trap_event_code'' \<noteq> Some (PStr code))")
  case True
  define b where "b = new_trap_alert e d dev sev msg t (trap_metadata oid (Some code) name raw)"
  from True assms(1) obtain ls where ev: "alert_events d' = alert_events (insert_alert b d)" and logs: "alert_logs d' = alert_logs d @ ls"
    by (auto simp: create_or_update_trap_alert_def Let_def frame_simps b_def create_alert_log_def insert_alert_def opt_py_def
        split: option.splits if_splits)
  have fresh: "ae_id b \<notin> ae_id ` set (alert_events d)" by (simp add: b_def new_trap_alert_def)
  have "engine_step d d'" by (rule engine_step_insert [OF fresh ev logs]) (simp add: b_def new_trap_alert_def)
  moreover have "b \<in> set (alert_events d')" by (simp add: ev insert_alert_def tbl_insert_def)
  moreover have "trap_alert_q dev oid b"
    by (simp add: trap_alert_q_def b_def new_trap_alert_def trap_metadata_def ACTIVE_ALERT_STATUSES_def dict_get_def)
  ultimately show ?thesis using find_trap_alert_in by blast
next
  case False
  then obtain x where x: "find_trap_alert d dev oid = Some x" "dict_get (ae_metadata x) ''trap_event_code'' = Some (PStr code)" by auto
  then have xs: "x \<in> set (alert_events d)" "trap_alert_q dev oid x"
    by (auto simp: find_trap_alert_def newest_first_def dest!: first_row_Some_in)
  then have row: "alert_of d (ae_id x) = Some x" using assms(2) by (simp add: alert_of_in)
  define f where "f = (\<lambda>r. r\<lparr>ae_last_seen_at := Some t, ae_message := msg, ae_severity := sev,
      ae_occurrence_count := (if ae_occurrence_count x = 0 then 1 else ae_occurrence_count x) + 1,
      ae_metadata := dict_merge (ae_metadata x) (trap_metadata oid (Some code) name raw)\<rparr> :: alert_event)"
  from x assms(1) obtain ls where ev: "alert_events d' = alert_events (save_alert (ae_id x) f d)" and logs: "alert_logs d' = alert_logs d @ ls"
    by (auto simp: create_or_update_trap_alert_def Let_def frame_simps f_def create_alert_log_def opt_py_def)
  have keep: "ae_id (f r) = ae_id r" for r by (simp add: f_def)
  have "engine_step d d'"
    by (rule engine_step_save [OF keep ev logs])
      (use row xs(2) in \<open>auto simp: f_def alert_evolves_def same_subject_def trap_alert_q_def\<close>)
  moreover have "alert_of d' (ae_id x) = Some (f x)"
    using row alert_of_save [OF keep, of "ae_id x" d "ae_id x"] alert_of_same [OF ev] by simp
  then have "f x \<in> set (alert_events d')" by (auto dest: alert_of_key)
  moreover have "trap_alert_q dev oid (f x)"
    using xs(2) by (simp add: trap_alert_q_def f_def trap_metadata_def)
  ultimately show ?thesis using find_trap_alert_in by blast
qed

text \<open>The tables neither the engine nor the receiver writes.\<close>

definition beyond_traps :: "db \<Rightarrow> db" where
  "beyond_traps d = beyond_engine (d\<lparr>trap_events := [], device_events := []\<rparr>)"

lemma beyond_traps_of_engine: "beyond_traps d = (beyond_engine d)\<lparr>trap_events := [], device_events := []\<rparr>"
  by (cases d) (simp add: beyond_traps_def beyond_engine_def)

lemma beyond_traps_simps [simp]:
  "beyond_traps (add_device_event r d) = beyond_traps d" "beyond_traps (insert_trap_event t d) = beyond_traps d"
  by (simp_all add: beyond_traps_def beyond_engine_def add_device_event_def insert_trap_event_def)

lemma beyond_outbox: "beyond_engine (d\<lparr>outbox := ob\<rparr>) = beyond_engine d"
  by (simp add: beyond_engine_def)

lemma mapped_trap_frames:
  assumes "mapped_trap e raced dev m oid raw ev d = d'"
  shows "device_events d' = device_events d @ [trap_device_event e dev m raw] \<and> trap_events d' = trap_events d
    \<and> beyond_traps d' = beyond_traps d"
proof -
  let ?d1 = "add_device_event (trap_device_event e dev m raw) d"
  obtain a d2 where t: "create_or_update_trap_alert e raced dev (Some (tm_event_code m)) (Some (tm_event_name m))
      (alert_severity_of (tm_severity m)) (trap_message_text (Some m)) (now e) oid raw ?d1 = (a, d2)" by (metis surj_pair)
  have y: "beyond_engine d' = beyond_engine ?d1"
    using assms t beyond_trap_alert [OF t] by (auto simp: mapped_trap_def Let_def beyond_outbox)
  then have "beyond_traps d' = beyond_traps ?d1" by (simp only: beyond_traps_of_engine)
  then have "beyond_traps d' = beyond_traps d" by simp
  then show ?thesis using beyond_engine_sel(8,9) [OF y]
    by (simp add: add_device_event_def tbl_insert_def [of "trap_device_event e dev m raw"])
qed



end
