(* ===== verification/Pac_Props.thy ===== *)
theory Pac_Props
  imports Pac_Alarms Trap_Props Telemetry_Props Polling_Props
begin

text \<open>
  The confirmation of a PAC trap: what one confirmed state does to the alert of a metric no rule
  watches, and how the whole confirmation counts.
\<close>

subsection \<open>The write of one state\<close>

definition state_reading :: "metric \<Rightarrow> string \<Rightarrow> int \<Rightarrow> reading" where
  "state_reading me raw state = \<lparr>rd_metric = me, rd_value = PInt state, rd_quality = None, rd_raw_value_text = Some raw\<rparr>"

definition state_point :: "env \<Rightarrow> device \<Rightarrow> trap_event \<Rightarrow> metric \<Rightarrow> string \<Rightarrow> int \<Rightarrow> telemetry_point" where
  "state_point e dev t me raw state =
     point_of_reading e (dev_organization dev) (dev_data_center dev) dev (Some ''TRAP_CONFIRMED_POLL'') (Some (te_id t)) (now e) (state_reading me raw state)"

lemma state_point_sel [simp]:
  "tp_device (state_point e dev t me raw s) = dev_id dev" "tp_metric (state_point e dev t me raw s) = me_id me"
  by (simp_all add: state_point_def point_of_reading_def state_reading_def Let_def)

lemma coerce_alarm_bit: "coerce_alarm_state v = Some s \<Longrightarrow> s = 0 \<or> s = 1"
  by (auto simp: coerce_alarm_state_def bit_state_def Let_def split: py.splits if_splits sum.splits)

lemma state_point_values: "tp_values (state_point e dev t me raw s) = value_payload e (me_data_type me) (PInt s)"
  by (simp add: state_point_def state_reading_def point_of_reading_def payload_for_def value_payload_def Let_def)

lemma state_point_ok:
  assumes "s = 0 \<or> s = 1"
  shows "bigint_ok (tp_values (state_point e dev t me raw s))"
proof -
  have "integer_column e (PInt s) = Inr s"
    using assms by (auto simp: integer_column_def quantize_half_up_def Let_def)
  then show ?thesis
    using value_payload_simps(2-5) [of "PInt s" e] assms unfolding state_point_values
    by (cases "me_data_type me") (auto simp: bigint_ok_def no_value_def text_column_def split: sum.splits)
qed

lemma write_state:
  assumes "latest_unique d" and "s = 0 \<or> s = 1"
    and "write_device_telemetry_bulk e (dev_organization dev) (dev_data_center dev) dev [state_reading me raw s]
      (Some ''TRAP_CONFIRMED_POLL'') (Some (te_id t)) (Some (now e)) d = (res, d')"
  shows "res = Inr 1 \<and> (\<exists>rows. d' = d\<lparr>points := points d @ [state_point e dev t me raw s], latest_rows := rows\<rparr>) \<and> latest_unique d'
    \<and> (\<exists>l. find_latest (dev_id dev, me_id me) d' = Some l \<and> lt_device l = dev_id dev \<and> lt_metric l = me_id me)"
proof -
  let ?p = "state_point e dev t me raw s"
  have ps: "[?p] = map (point_of_reading e (dev_organization dev) (dev_data_center dev) dev (Some ''TRAP_CONFIRMED_POLL'') (Some (te_id t))
      (case Some (now e) of None \<Rightarrow> now e | Some u \<Rightarrow> u)) [state_reading me raw s]"
    by (simp add: state_point_def)
  have good: "\<not> (\<exists>p \<in> set [?p]. \<not> bigint_ok (tp_values p))" using state_point_ok [OF assms(2)] by simp
  note b = bulk_write_ok [OF assms(1) ps assms(3), unfolded if_not_P [OF good]]
  have "last_write point_key (dev_id dev, me_id me) [?p] = Some ?p" by (simp add: last_write_def point_key_def)
  with b have "shown_latest (dev_id dev, me_id me) d' = Some (latest_of_point ?p)" by (metis option.simps(5))
  then obtain l where l: "find_latest (dev_id dev, me_id me) d' = Some l" by (auto simp: shown_latest_def)
  then have "latest_key l = (dev_id dev, me_id me)" by (auto dest: find_latest_Some)
  with l b show ?thesis by (auto simp: latest_key_def)
qed

subsection \<open>A metric no rule watches\<close>

lemma coherent_frame:
  "shared_cache d' = shared_cache d \<Longrightarrow> alert_rules d' = alert_rules d \<Longrightarrow> cache_coherent d' = cache_coherent d"
  by (simp add: cache_coherent_def current_version_def sorted_matching_rules_def matching_rule_queryset_def)

lemma ups_not_pac:
  "\<not> is_pac_alarm_metric (Some ''ups_abnormal_conditions'')" "\<not> is_pac_alarm_metric (Some ''ups_output_status'')"
  by code_simp+

lemma evaluate_unwatched:
  assumes "\<forall>r \<in> set (alert_rules d). ar_is_active r \<longrightarrow> ar_metric r \<noteq> lt_metric l"
    and "keys_unique ar_id (alert_rules d)" and "cache_up e" and "cache_coherent d" and "fresh_namespace e d"
    and "device_of d (lt_device l) = Some dev" and "metric_of d (lt_metric l) = Some me" and "is_pac_alarm_metric (Some (me_code me))"
  shows "\<exists>c. evaluate_latest e raced d l = (Inr [], d\<lparr>shared_cache := c\<rparr>)"
proof -
  have "matching_rule_queryset d dev l = []"
    using assms(1) by (auto simp: matching_rule_queryset_def rule_matches_def filter_empty_conv)
  then have "sorted_matching_rules d dev l = []" by (simp add: sorted_matching_rules_def sort_reverse_def)
  with get_matching_rules_coherent [OF assms(2-6)] obtain c where "get_matching_rules e d l = Inr ([], d\<lparr>shared_cache := c\<rparr>)" by auto
  moreover have "\<not> is_ups_abnormal_condition_cleared e l me"
    using assms(8) ups_not_pac by (auto simp: is_ups_abnormal_condition_cleared_def)
  ultimately show ?thesis
    using assms(6,7) by (intro exI [of _ c]) (simp add: evaluate_latest_def atomic_def resolve_ups_trap_alert_if_needed_def add_alert_def)
qed

definition exact_opened :: "env \<Rightarrow> db \<Rightarrow> device \<Rightarrow> metric \<Rightarrow> alert_event" where
  "exact_opened e d dev me = new_exact_alert e d dev (me_id me) 1 (now e) (telemetry_payload me 1)"

definition refreshed_alert :: "metric \<Rightarrow> alert_event \<Rightarrow> alert_event" where
  "refreshed_alert me a = a\<lparr>ae_severity := CRITICAL, ae_message := pac_alert_message 1, ae_values := telemetry_payload me 1\<rparr>"

definition restored_alert :: "time \<Rightarrow> metric \<Rightarrow> alert_event \<Rightarrow> alert_event" where
  "restored_alert t me a = a\<lparr>ae_status := RESOLVED, ae_resolved_at := Some t, ae_message := pac_alert_message 0,
     ae_values := telemetry_payload me 0\<rparr>"

text \<open>C22. A confirmed state of a metric no active rule watches is settled by the metric's own OPEN alert alone: fired, the newest
  one is refreshed or, where there is none, a new one is opened; restored, the newest one is resolved. An
  acknowledged alert is not looked at, so a fired alarm opens a second one beside it and a restored one leaves it
  active. Neither the opening nor the resolution is logged or notified.\<close>

theorem pac_alarm_settled:
  assumes "confirm_state e raced dev t me raw state d = (res, d')" and "state = 0 \<or> state = 1"
    and "\<forall>r \<in> set (alert_rules d). ar_is_active r \<longrightarrow> ar_metric r \<noteq> me_id me" and "is_pac_alarm_metric (Some (me_code me))"
    and "keys_unique ar_id (alert_rules d)" and "cache_up e" and "cache_coherent d" and "fresh_namespace e d"
    and "device_of d (dev_id dev) = Some dev" and "metric_of d (me_id me) = Some me"
    and "latest_unique d" and "keys_unique ae_id (alert_events d)"
  shows "res = Inr () \<and> alert_logs d' = alert_logs d \<and> notifications d' = notifications d \<and> outbox d' = outbox d
    \<and> (case exact_alert d dev (me_id me) of
        None \<Rightarrow> alert_events d' = (if state = 1 then alert_events d @ [exact_opened e d dev me] else alert_events d)
      | Some a \<Rightarrow> length (alert_events d') = length (alert_events d)
          \<and> (\<forall>k. alert_of d' k = (if k = ae_id a then Some ((if state = 1 then refreshed_alert me else restored_alert (now e) me) a)
                                  else alert_of d k)))"
proof -
  obtain r1 d1 where w: "write_device_telemetry_bulk e (dev_organization dev) (dev_data_center dev) dev [state_reading me raw state]
      (Some ''TRAP_CONFIRMED_POLL'') (Some (te_id t)) (Some (now e)) d = (r1, d1)" by (metis surj_pair)
  from write_state [OF assms(11,2) w] obtain rows l where r1: "r1 = Inr 1"
    and d1: "d1 = d\<lparr>points := points d @ [state_point e dev t me raw state], latest_rows := rows\<rparr>"
    and l: "find_latest (dev_id dev, me_id me) d1 = Some l" "lt_device l = dev_id dev" "lt_metric l = me_id me" by blast
  have co: "cache_coherent d1" using assms(7) coherent_frame [of d1 d] by (simp add: d1)
  have "\<exists>c. evaluate_latest e raced d1 l = (Inr [], d1\<lparr>shared_cache := c\<rparr>)"
    by (rule evaluate_unwatched [OF _ _ assms(6) co, where dev = dev and me = me])
      (use assms(3-5,8-10) l(2,3) in \<open>simp_all add: d1 fresh_namespace_def device_of_def metric_of_def\<close>)
  then obtain c where ev: "evaluate_latest e raced d1 l = (Inr [], d1\<lparr>shared_cache := c\<rparr>)" by blast
  let ?d2 = "d1\<lparr>shared_cache := c\<rparr>"
  have frame: "alert_logs d1 = alert_logs d" "notifications d1 = notifications d" "outbox d1 = outbox d" by (simp_all add: d1)
  have same: "alert_events ?d2 = alert_events d" "alert_logs ?d2 = alert_logs d" "notifications ?d2 = notifications d" "outbox ?d2 = outbox d"
    "exact_alert ?d2 dev mk = exact_alert d dev mk" "alert_of ?d2 k = alert_of d k" for k mk
    by (simp_all add: d1 exact_alert_def alert_of_def)
  have res: "res = Inr ()" and d': "d' = (if state = 1
      then snd (open_or_update_exact_alert e dev (me_id me) state (now e) (telemetry_payload me state) ?d2)
      else snd (resolve_exact_alert dev (me_id me) (now e) (telemetry_payload me state) ?d2))"
    using assms(1) w r1 l(1) ev by (auto simp: confirm_state_def state_reading_def split: if_splits)
  show ?thesis
  proof (cases "exact_alert d dev (me_id me)")
    case None
    then have "new_exact_alert e ?d2 dev (me_id me) 1 (now e) (telemetry_payload me 1) = exact_opened e d dev me"
      by (simp add: exact_opened_def new_exact_alert_def same)
    with None res show ?thesis
      by (auto simp: d' open_or_update_exact_alert_def resolve_exact_alert_def same(5) Let_def insert_alert_def tbl_insert_def same(1-4) frame)
  next
    case (Some a)
    then have "a \<in> set (alert_events d)" unfolding exact_alert_def newest_first_def by (auto dest: first_row_Some_in)
    with assms(12) have a: "alert_of d (ae_id a) = Some a" by (simp add: alert_of_in)
    let ?f = "if state = 1 then refreshed_alert me else restored_alert (now e) me"
    have keep: "ae_id (?f r) = ae_id r" for r by (simp add: refreshed_alert_def restored_alert_def)
    have s: "d' = save_alert (ae_id a) ?f ?d2"
      using Some assms(2)
      by (auto simp: d' open_or_update_exact_alert_def resolve_exact_alert_def same(5) Let_def refreshed_alert_def [abs_def]
          restored_alert_def [abs_def])
    have "length (alert_events d') = length (alert_events d)" by (simp add: s save_alert_def same(1))
    moreover have "alert_of d' k = (if k = ae_id a then Some (?f a) else alert_of d k)" for k
      unfolding s alert_of_save [OF keep] same(6) using a by simp
    moreover have "alert_logs d' = alert_logs d" "notifications d' = notifications d" "outbox d' = outbox d"
      by (simp_all add: s save_alert_def frame)
    ultimately show ?thesis using Some res by simp
  qed
qed

text \<open>An acknowledged alarm that fires again: two active alerts of one metric.\<close>

definition smoke_metric :: metric where
  "smoke_metric = blank_metric\<lparr>me_id := 8, me_code := ''PAC_SMOKE_FIRE_ALARM'', me_data_type := INTEGER\<rparr>"

definition acked_alert :: alert_event where
  "acked_alert = blank_event\<lparr>ae_id := 1, ae_device := 10, ae_metric := Some 8, ae_alert_rule := None, ae_status := ACKNOWLEDGED\<rparr>"

definition pac_event :: trap_event where
  "pac_event = \<lparr>te_id = 70, te_organization = None, te_data_center = None, te_device = Some 10, te_source_ip = ''10.0.0.1'',
     te_trap_oid = ''1.3.9'', te_event_code = Some ''PAC_ALARM_FIRED'', te_event_name = None, te_severity = TRAP_CRITICAL,
     te_raw_varbinds = [], te_message = None, te_received_at = 5, te_is_mapped = True, te_is_processed = True\<rparr>"

definition smoke_db :: db where
  "smoke_db = empty_db\<lparr>devices := [trap_device], metrics := [smoke_metric], alert_events := [acked_alert]\<rparr>"

lemma pac_alarm_settled_witness:
  "\<exists>d' a. confirm_state (plain_env 5) no_race trap_device pac_event smoke_metric ''1'' 1 smoke_db = (Inr (), d')
     \<and> alert_events d' = [acked_alert, a] \<and> ae_status a = OPEN \<and> ae_metric a = ae_metric acked_alert
     \<and> ae_status acked_alert \<in> ACTIVE_ALERT_STATUSES \<and> alert_logs d' = []"
proof -
  obtain res d' where r: "confirm_state (plain_env 5) no_race trap_device pac_event smoke_metric ''1'' 1 smoke_db = (res, d')"
    by (metis surj_pair)
  have pac: "is_pac_alarm_metric (Some (me_code smoke_metric))" by code_simp
  have dev: "device_of smoke_db (dev_id trap_device) = Some trap_device" and me: "metric_of smoke_db (me_id smoke_metric) = Some smoke_metric"
    by (simp_all add: smoke_db_def device_of_def metric_of_def tbl_get_def)
  have none: "exact_alert smoke_db trap_device (me_id smoke_metric) = None"
    by (simp add: exact_alert_def newest_first_def smoke_db_def exact_alert_q_def acked_alert_def)
  have st: "\<forall>r \<in> set (alert_rules smoke_db). ar_is_active r \<longrightarrow> ar_metric r \<noteq> me_id smoke_metric" "keys_unique ar_id (alert_rules smoke_db)"
    "cache_up (plain_env 5)" "cache_coherent smoke_db" "fresh_namespace (plain_env 5) smoke_db" "latest_unique smoke_db"
    "keys_unique ae_id (alert_events smoke_db)" "alert_logs smoke_db = []" "alert_events smoke_db = [acked_alert]"
    by (simp_all add: smoke_db_def empty_db_def keys_unique_def latest_unique_def cache_coherent_def fresh_namespace_def plain_env_def)
  have "res = Inr ()" "alert_logs d' = []" "alert_events d' = [acked_alert, exact_opened (plain_env 5) smoke_db trap_device smoke_metric]"
    using pac_alarm_settled [OF r _ st(1) pac st(2-5) dev me st(6,7)] none st(8,9) by simp_all
  moreover have "ae_status acked_alert \<in> ACTIVE_ALERT_STATUSES" "ae_metric acked_alert = Some 8"
    by (simp_all add: acked_alert_def ACTIVE_ALERT_STATUSES_def)
  ultimately show ?thesis
    using r by (intro exI [of _ d'] exI [of _ "exact_opened (plain_env 5) smoke_db trap_device smoke_metric"])
      (simp add: exact_opened_def new_exact_alert_def smoke_metric_def)
qed

subsection \<open>The whole confirmation\<close>

lemma exact_keys:
  assumes "keys_unique ae_id (alert_events d)"
  shows "keys_unique ae_id (alert_events (snd (open_or_update_exact_alert e dev mk s t p d)))"
    and "keys_unique ae_id (alert_events (snd (resolve_exact_alert dev mk t p d)))"
proof -
  have f: "keys_unique ae_id (tbl_update ae_id k (\<lambda>row. row\<lparr>ae_severity := x, ae_message := m, ae_values := v\<rparr>) (alert_events d))"
    "keys_unique ae_id (tbl_update ae_id k (\<lambda>row. row\<lparr>ae_status := st, ae_resolved_at := u, ae_message := m, ae_values := v\<rparr>) (alert_events d))"
    for k x m v st u by (rule keys_unique_update; use assms in simp)+
  have "keys_unique ae_id (tbl_insert (new_exact_alert e d dev mk s t p) (alert_events d))"
    using assms by (rule keys_unique_insert) (simp add: new_exact_alert_def)
  with f show "keys_unique ae_id (alert_events (snd (open_or_update_exact_alert e dev mk s t p d)))"
    and "keys_unique ae_id (alert_events (snd (resolve_exact_alert dev mk t p d)))"
    using assms by (auto simp: open_or_update_exact_alert_def resolve_exact_alert_def save_alert_def insert_alert_def Let_def split: option.splits)
qed

lemma exact_frames:
  "beyond_engine (snd (open_or_update_exact_alert e dev mk s t p d)) = beyond_engine d"
  "beyond_engine (snd (resolve_exact_alert dev mk t p d)) = beyond_engine d"
  by (simp_all add: open_or_update_exact_alert_def resolve_exact_alert_def Let_def split: option.splits)

definition pac_ok :: "db \<Rightarrow> bool" where
  "pac_ok d = (latest_unique d \<and> keys_unique ae_id (alert_events d))"

lemma confirm_state_step:
  assumes "confirm_state e raced dev t me raw s d = (res, d')" and "pac_ok d" and "s = 0 \<or> s = 1"
  shows "pac_ok d' \<and> device_events d' = device_events d \<and> points d' = points d @ [state_point e dev t me raw s]"
proof -
  obtain r1 d1 where w: "write_device_telemetry_bulk e (dev_organization dev) (dev_data_center dev) dev [state_reading me raw s]
      (Some ''TRAP_CONFIRMED_POLL'') (Some (te_id t)) (Some (now e)) d = (r1, d1)" by (metis surj_pair)
  have u: "latest_unique d" "keys_unique ae_id (alert_events d)" using assms(2) by (simp_all add: pac_ok_def)
  from write_state [OF u(1) assms(3) w] obtain rows l where r1: "r1 = Inr 1" "latest_unique d1"
    and d1: "d1 = d\<lparr>points := points d @ [state_point e dev t me raw s], latest_rows := rows\<rparr>"
    and l: "find_latest (dev_id dev, me_id me) d1 = Some l" by blast
  have f1: "alert_events d1 = alert_events d" "device_events d1 = device_events d"
    "points d1 = points d @ [state_point e dev t me raw s]" by (simp_all add: d1)
  obtain r2 d2 where ev: "evaluate_latest e raced d1 l = (r2, d2)" by (metis surj_pair)
  have k2: "keys_unique ae_id (alert_events d2)"
    using evaluate_latest_step [OF ev] u(2) f1(1) by (auto simp: engine_step_def dest: evolves_keys)
  let ?o = "snd (open_or_update_exact_alert e dev (me_id me) s (now e) (telemetry_payload me s) d2)"
  let ?r = "snd (resolve_exact_alert dev (me_id me) (now e) (telemetry_payload me s) d2)"
  have d': "d' \<in> {d2, ?o, ?r}"
    using assms(1) w r1(1) l ev by (auto simp: confirm_state_def state_reading_def split: sum.splits if_splits)
  then have "beyond_engine d' = beyond_engine d1" using exact_frames beyond_evaluate_latest [OF ev] by auto
  note b = beyond_engine_sel [OF this]
  have "keys_unique ae_id (alert_events d')" using d' k2 exact_keys [OF k2] by auto
  with b f1 r1(2) latest_unique_frame [OF b(4)] show ?thesis by (simp add: pac_ok_def)
qed

lemma alarm_reading_bit: "alarm_reading e f agent c d m = Inr (me, raw, v, s) \<Longrightarrow> s = 0 \<or> s = 1"
  by (auto simp: alarm_reading_def split: sum.splits option.splits dest: coerce_alarm_bit)

lemma pac_ok_event [simp]: "pac_ok (add_device_event r d) = pac_ok d"
  using latest_unique_frame [of "add_device_event r d" d] by (simp add: pac_ok_def add_device_event_def)

lemma add_device_event_sel [simp]:
  "device_events (add_device_event r d) = device_events d @ [r]" "points (add_device_event r d) = points d"
  by (simp_all add: add_device_event_def tbl_insert_def)

lemma confirm_step_step:
  assumes "confirm_step e raced f agent c dev t m ((p, q), d) = ((p', q'), d')" and "pac_ok d"
  shows "pac_ok d' \<and> p' + q' = p + q + 1 \<and> p \<le> p' \<and> length (device_events d') = length (device_events d) + 1
    \<and> (\<exists>ps. points d' = points d @ ps \<and> p' \<le> p + length ps \<and> length ps \<le> 1)"
proof (cases "alarm_reading e f agent c d m")
  case (Inl x)
  with assms show ?thesis by (auto simp: confirm_step_def confirm_alarm_def)
next
  case (Inr z)
  obtain me raw v s where z: "z = (me, raw, v, s)" by (metis prod_cases4)
  obtain r d1 where cs: "confirm_state e raced dev t me raw s d = (r, d1)" by (metis surj_pair)
  note st = confirm_state_step [OF cs assms(2) alarm_reading_bit [OF Inr [unfolded z]]]
  show ?thesis
    using assms(1) Inr z cs st by (auto simp: confirm_step_def confirm_alarm_def split: sum.splits)
qed

lemma confirm_fold:
  assumes "fold (confirm_step e raced f agent c dev t) ms ((p, q), d) = ((p', q'), d')" and "pac_ok d"
  shows "pac_ok d' \<and> p' + q' = p + q + length ms \<and> length (device_events d') = length (device_events d) + length ms
    \<and> (\<exists>ps. points d' = points d @ ps \<and> p' \<le> p + length ps \<and> length ps \<le> length ms)"
  using assms
proof (induction ms arbitrary: p q d)
  case Nil
  then show ?case by simp
next
  case (Cons m ms)
  obtain p1 q1 d1 where s: "confirm_step e raced f agent c dev t m ((p, q), d) = ((p1, q1), d1)" by (metis surj_pair)
  note st = confirm_step_step [OF s Cons.prems(2)]
  have "fold (confirm_step e raced f agent c dev t) ms ((p1, q1), d1) = ((p', q'), d')" using Cons.prems(1) s by simp
  from Cons.IH [OF this] st obtain ps ps1 where "points d' = points d1 @ ps" "p' \<le> p1 + length ps" "length ps \<le> length ms"
    "points d1 = points d @ ps1" "p1 \<le> p + length ps1" "length ps1 \<le> 1" "pac_ok d'" "p' + q' = p1 + q1 + length ms"
    "length (device_events d') = length (device_events d1) + length ms" by blast
  with st show ?case by (intro conjI exI [of _ "ps1 @ ps"]) auto
qed

text \<open>A confirmation that has its configuration and some alarm OIDs takes every one of them to an end, whatever fails on
  the way: each is counted once, as processed or as failed, and leaves one event of the device; the result is a
  success exactly when none failed; every processed one, and no OID twice, leaves a telemetry point; one latest
  row per metric and unique alert keys are kept.\<close>

theorem pac_confirmation_counts:
  assumes "process_pac_trap_alarm_confirmation e raced f agent k tk code d = (res, d')"
    and "first_row (filter (\<lambda>t. te_id t = tk \<and> te_device t = Some k) (trap_events d)) = Some t" and "device_of d k = Some dev"
    and "is_pac_device d dev" and "is_pac_confirmation_trap code"
    and "get_device_snmp_runtime d dev = Inr (pc, cr, all_ms)" and "ms = pac_alarm_mappings d all_ms" and "ms \<noteq> []"
    and "latest_unique d" and "keys_unique ae_id (alert_events d)"
  shows "\<exists>processed failures. res = PacDone (done_status processed failures) processed failures tk
    \<and> processed + failures = length ms \<and> (done_status processed failures = ''success'' \<longleftrightarrow> failures = 0)
    \<and> length (device_events d') = length (device_events d) + length ms
    \<and> (\<exists>ps. points d' = points d @ ps \<and> processed \<le> length ps \<and> length ps \<le> length ms)
    \<and> latest_unique d' \<and> keys_unique ae_id (alert_events d')"
proof -
  obtain p q d1 where f: "fold (confirm_step e raced f agent (snmp_client_of pc cr) dev t) ms ((0, 0), d) = ((p, q), d1)"
    by (metis surj_pair)
  have "pac_ok d" using assms(9,10) by (simp add: pac_ok_def)
  note x = confirm_fold [OF f this]
  have "res = PacDone (done_status p q) p q tk" "d' = d1"
    using assms(1-6,8) f unfolding assms(7) by (auto simp: process_pac_trap_alarm_confirmation_def Let_def)
  with x assms(8) show ?thesis
    by (intro exI [of _ p] exI [of _ q]) (auto simp: pac_ok_def done_status_def)
qed

text \<open>A PAC unit with one alarm OID, whose agent does not answer.\<close>

definition pac_db :: db where
  "pac_db = smoke_db\<lparr>device_types := [\<lparr>dt_id = 5, dt_name = ''Room cooling'', dt_code = ''pac''\<rparr>], protocol_configs := [plain_config SNMP],
     credentials := [plain_credential], oid_mappings := [oid_row 1 5 8, oid_row 2 5 9], trap_events := [pac_event]\<rparr>"

definition silent_agent :: agent where
  "silent_agent _ _ _ = Inl (SNMPTimeoutError ''timeout'')"

lemma pac_runtime: "get_device_snmp_runtime pac_db trap_device = Inr (plain_config SNMP, plain_credential, [oid_row 1 5 8, oid_row 2 5 9])"
  by (simp add: get_device_snmp_runtime_def protocol_config_for_def active_credential_def pac_db_def smoke_db_def plain_config_def
      plain_credential_def trap_device_def blank_device_def dedupe_def dedupe_step_def snmp_mapping_q_def oid_row_def)

lemma pac_confirmation_counts_witness:
  "\<exists>p q d'. process_pac_trap_alarm_confirmation (plain_env 5) no_race toy_fernet silent_agent 10 70 (Some ''pac_alarm_fired'') pac_db
      = (PacDone (done_status p q) p q 70, d') \<and> p + q = 1 \<and> length (device_events d') = 1"
proof -
  obtain res d' where r: "process_pac_trap_alarm_confirmation (plain_env 5) no_race toy_fernet silent_agent 10 70 (Some ''pac_alarm_fired'') pac_db = (res, d')"
    by (metis surj_pair)
  have t: "first_row (filter (\<lambda>t. te_id t = 70 \<and> te_device t = Some 10) (trap_events pac_db)) = Some pac_event"
    by (simp add: pac_db_def pac_event_def)
  have dev: "device_of pac_db 10 = Some trap_device" by (simp add: pac_db_def smoke_db_def device_of_def tbl_get_def trap_device_def)
  have pac: "is_pac_device pac_db trap_device"
    by (simp add: is_pac_device_def device_type_of_def tbl_get_def pac_db_def trap_device_def) code_simp
  have code: "is_pac_confirmation_trap (Some ''pac_alarm_fired'')" by code_simp
  have m: "metric_of pac_db 8 = Some smoke_metric" "metric_of pac_db 9 = None"
    by (simp_all add: pac_db_def smoke_db_def metric_of_def tbl_get_def smoke_metric_def)
  have "is_pac_alarm_metric (Some (me_code smoke_metric))" "\<not> is_pac_alarm_metric None" by code_simp+
  then have ms: "pac_alarm_mappings pac_db [oid_row 1 5 8, oid_row 2 5 9] = [oid_row 1 5 8]"
    using m by (simp add: pac_alarm_mappings_def oid_row_def)
  have u: "latest_unique pac_db" "keys_unique ae_id (alert_events pac_db)" "device_events pac_db = []"
    by (simp_all add: pac_db_def smoke_db_def empty_db_def keys_unique_def latest_unique_def)
  from pac_confirmation_counts [OF r t dev pac code pac_runtime refl _ u(1,2)] ms u(3) r show ?thesis by auto
qed

end
