(* ===== verification/Report_Keys.thy ===== *)
theory Report_Keys
  imports Py_Value
begin

text \<open>
  The report vocabulary (\<open>apps/reports/constants.py\<close>): report types, frequencies and formats, the spellings
  that are accepted for them, and the duplicate-free lists of recipients and choices.
\<close>

subsection \<open>Keys\<close>

definition key_char :: "char \<Rightarrow> bool" where
  "key_char c = (let n = (of_char c :: nat) in (97 \<le> n \<and> n \<le> 122) \<or> (48 \<le> n \<and> n \<le> 57))"

text \<open>\<open>re.sub(r"[^a-z0-9]+", "_", s)\<close>: a run of other characters becomes one underscore.\<close>

function underscore_runs :: "string \<Rightarrow> string" where
  "underscore_runs [] = []"
| "underscore_runs (c # cs) =
     (if key_char c then c # underscore_runs cs else CHR ''_'' # underscore_runs (dropWhile (\<lambda>x. \<not> key_char x) cs))"
  by pat_completeness auto
termination by (relation "measure length") (auto simp: le_imp_less_Suc length_dropWhile_le)

definition strip_underscores :: "string \<Rightarrow> string" where
  "strip_underscores s = rev (dropWhile (\<lambda>c. c = CHR ''_'') (rev (dropWhile (\<lambda>c. c = CHR ''_'') s)))"

definition normalize_key :: "string \<Rightarrow> string" where
  "normalize_key s = strip_underscores (underscore_runs (lower (strip s)))"

text \<open>\<open>str(value or "")\<close>, which the callers apply to values that need not be texts.\<close>

definition text_or_empty :: "env \<Rightarrow> py \<Rightarrow> string" where
  "text_or_empty e v = (if truthy v then py_str e v else [])"

subsection \<open>Report types, frequencies, formats\<close>

definition REPORT_TYPE_LABELS :: "(string \<times> string) list" where
  "REPORT_TYPE_LABELS =
     [(''alert_summary'', ''Alert Summary''), (''notification_delivery'', ''Notification Delivery''),
      (''device_inventory'', ''Device Inventory''), (''alert_export'', ''Alert Export''), (''audit_export'', ''Audit Export''),
      (''telemetry_export'', ''Telemetry Export''), (''room_environment'', ''Environmental Trends Report'')]"

definition REPORT_TYPE_ALIASES :: "(string \<times> string) list" where
  "REPORT_TYPE_ALIASES = map (\<lambda>(s, t). (normalize_key s, t))
     [(''alert summary'', ''alert_summary''), (''alert summary report'', ''alert_summary''),
      (''notification delivery'', ''notification_delivery''), (''notification delivery report'', ''notification_delivery''),
      (''device inventory'', ''device_inventory''), (''device inventory report'', ''device_inventory''),
      (''environmental trends report'', ''room_environment''), (''room temperature and humidity report'', ''room_environment''),
      (''room environment report'', ''room_environment''), (''room_environment'', ''room_environment''),
      (''alert_summary'', ''alert_summary''), (''notification_delivery'', ''notification_delivery''),
      (''device_inventory'', ''device_inventory''), (''alert_export'', ''alert_export''), (''audit_export'', ''audit_export''),
      (''alert export'', ''alert_export''), (''audit export'', ''audit_export''), (''telemetry export'', ''telemetry_export''),
      (''telemetry_export'', ''telemetry_export'')]"

definition SUPPORTED_REPORT_TYPES :: "string list" where
  "SUPPORTED_REPORT_TYPES = map fst REPORT_TYPE_LABELS"

definition FREQUENCY_LABELS :: "(string \<times> string) list" where
  "FREQUENCY_LABELS = [(''DAILY'', ''Daily''), (''WEEKLY'', ''Weekly''), (''MONTHLY'', ''Monthly''), (''QUARTERLY'', ''Quarterly'')]"

definition FREQUENCY_ALIASES :: "(string \<times> string) list" where
  "FREQUENCY_ALIASES = map (\<lambda>(s, t). (normalize_key s, t))
     [(''daily'', ''DAILY''), (''weekly'', ''WEEKLY''), (''monthly'', ''MONTHLY''), (''quarterly'', ''QUARTERLY'')]"

definition FORMAT_LABELS :: "(string \<times> string) list" where
  "FORMAT_LABELS = [(''CSV'', ''CSV''), (''PDF'', ''PDF''), (''PDF_CSV'', ''PDF / CSV'')]"

definition FORMAT_ALIASES :: "(string \<times> string) list" where
  "FORMAT_ALIASES = map (\<lambda>(s, t). (normalize_key s, t))
     [(''csv'', ''CSV''), (''pdf'', ''PDF''), (''pdf csv'', ''PDF_CSV''), (''pdf / csv'', ''PDF_CSV''), (''pdf and csv'', ''PDF_CSV''),
      (''pdf + csv'', ''PDF_CSV'')]"

definition normalize_report_type :: "string \<Rightarrow> string option" where
  "normalize_report_type v =
     (let key = normalize_key v in
      if key = [] then None
      else case map_of REPORT_TYPE_ALIASES key of
        Some t \<Rightarrow> Some t
      | None \<Rightarrow> if key \<in> set (map fst REPORT_TYPE_LABELS) then Some key else None)"

definition normalize_report_frequency :: "string \<Rightarrow> string option" where
  "normalize_report_frequency v =
     (let key = normalize_key v in
      if key = [] then None
      else case map_of FREQUENCY_ALIASES key of
        Some t \<Rightarrow> Some t
      | None \<Rightarrow> if key \<in> set (map fst FREQUENCY_LABELS) then Some key else None)"

definition normalize_report_format :: "string \<Rightarrow> string option" where
  "normalize_report_format v =
     (let key = normalize_key v in
      if key = [] then None
      else case map_of FORMAT_ALIASES key of
        Some t \<Rightarrow> Some t
      | None \<Rightarrow> if upper key \<in> set (map fst FORMAT_LABELS) then Some (upper key) else None)"

subsection \<open>Lists without repetition\<close>

text \<open>The \<open>seen\<close> loops and \<open>dict.fromkeys\<close>: the first of equal values stays, in order.\<close>

fun first_of_each :: "'a list \<Rightarrow> 'a list" where
  "first_of_each [] = []"
| "first_of_each (x # xs) = x # filter (\<lambda>y. y \<noteq> x) (first_of_each xs)"

lemma set_first_of_each [simp]: "set (first_of_each xs) = set xs"
  by (induction xs) auto

lemma distinct_first_of_each [simp]: "distinct (first_of_each xs)"
  by (induction xs) auto

lemma first_of_each_distinct [simp]: "distinct xs \<Longrightarrow> first_of_each xs = xs"
proof (induction xs)
  case (Cons x xs)
  then show ?case by (auto intro: filter_True)
qed simp

lemma first_of_each_Nil [simp]: "first_of_each xs = [] \<longleftrightarrow> xs = []"
  by (cases xs) auto

definition list_or_empty :: "py \<Rightarrow> py list" where
  "list_or_empty v = (case v of PList vs \<Rightarrow> vs | _ \<Rightarrow> [])"

text \<open>The texts of a list, stripped, without the empty ones and without repetition.\<close>

definition stripped_texts :: "env \<Rightarrow> py list \<Rightarrow> string list" where
  "stripped_texts e vs = first_of_each (filter (\<lambda>s. s \<noteq> []) (map (\<lambda>v. strip (py_str e v)) vs))"

subsection \<open>The values of a normalisation\<close>

text \<open>A lower-case key is its own key.\<close>

definition is_key :: "string \<Rightarrow> bool" where
  "is_key s = (s \<noteq> [] \<and> hd s \<noteq> CHR ''_'' \<and> last s \<noteq> CHR ''_'' \<and> underscore_runs s = s \<and> lower s = s \<and> strip s = s)"

lemma strip_underscores_id: "s \<noteq> [] \<Longrightarrow> hd s \<noteq> CHR ''_'' \<Longrightarrow> last s \<noteq> CHR ''_'' \<Longrightarrow> strip_underscores s = s"
proof -
  assume s: "s \<noteq> []" "hd s \<noteq> CHR ''_''" "last s \<noteq> CHR ''_''"
  have "dropWhile (\<lambda>c. c = CHR ''_'') s = s" using s by (cases s) auto
  moreover have "dropWhile (\<lambda>c. c = CHR ''_'') (rev s) = rev s" using s by (cases s rule: rev_cases) auto
  ultimately show ?thesis by (simp add: strip_underscores_def)
qed

lemma normalize_key_id: "is_key s \<Longrightarrow> normalize_key s = s"
  by (simp add: normalize_key_def is_key_def strip_underscores_id)

lemma type_alias_values: "map_of REPORT_TYPE_ALIASES k = Some t \<Longrightarrow> t \<in> set SUPPORTED_REPORT_TYPES"
proof -
  assume "map_of REPORT_TYPE_ALIASES k = Some t"
  then have "(k, t) \<in> set REPORT_TYPE_ALIASES" by (rule map_of_SomeD)
  then show ?thesis by (auto simp: REPORT_TYPE_ALIASES_def SUPPORTED_REPORT_TYPES_def REPORT_TYPE_LABELS_def)
qed

lemma normalized_type_supported: "normalize_report_type v = Some t \<Longrightarrow> t \<in> set SUPPORTED_REPORT_TYPES"
  by (auto simp: normalize_report_type_def Let_def SUPPORTED_REPORT_TYPES_def dest: type_alias_values split: if_splits option.splits)

text \<open>The alias tables with their keys computed.\<close>

lemma REPORT_TYPE_ALIASES_eval:
  "REPORT_TYPE_ALIASES =
     [(''alert_summary'', ''alert_summary''), (''alert_summary_report'', ''alert_summary''),
      (''notification_delivery'', ''notification_delivery''), (''notification_delivery_report'', ''notification_delivery''),
      (''device_inventory'', ''device_inventory''), (''device_inventory_report'', ''device_inventory''),
      (''environmental_trends_report'', ''room_environment''), (''room_temperature_and_humidity_report'', ''room_environment''),
      (''room_environment_report'', ''room_environment''), (''room_environment'', ''room_environment''),
      (''alert_summary'', ''alert_summary''), (''notification_delivery'', ''notification_delivery''),
      (''device_inventory'', ''device_inventory''), (''alert_export'', ''alert_export''), (''audit_export'', ''audit_export''),
      (''alert_export'', ''alert_export''), (''audit_export'', ''audit_export''), (''telemetry_export'', ''telemetry_export''),
      (''telemetry_export'', ''telemetry_export'')]"
  by code_simp

lemma supported_types_keys: "map normalize_key SUPPORTED_REPORT_TYPES = SUPPORTED_REPORT_TYPES"
  by code_simp

lemma supported_types_found: "list_all (\<lambda>t. t \<noteq> [] \<and> map_of REPORT_TYPE_ALIASES t = Some t) SUPPORTED_REPORT_TYPES"
  unfolding REPORT_TYPE_ALIASES_eval by code_simp

lemma supported_types_stay:
  assumes "t \<in> set SUPPORTED_REPORT_TYPES"
  shows "normalize_report_type t = Some t"
proof -
  have "map normalize_key SUPPORTED_REPORT_TYPES = map id SUPPORTED_REPORT_TYPES" using supported_types_keys by simp
  with assms have "normalize_key t = t" unfolding map_eq_conv by auto
  moreover have "t \<noteq> [] \<and> map_of REPORT_TYPE_ALIASES t = Some t" using supported_types_found assms unfolding list_all_iff by blast
  ultimately show ?thesis by (simp add: normalize_report_type_def)
qed

text \<open>C40. The spelling a report type is stored under is one of the supported types, and it is its own normal form.\<close>

theorem report_type_normal:
  "(normalize_report_type v = Some t \<longrightarrow> t \<in> set SUPPORTED_REPORT_TYPES)
    \<and> (t \<in> set SUPPORTED_REPORT_TYPES \<longrightarrow> normalize_report_type t = Some t)"
  using normalized_type_supported supported_types_stay by blast

lemma report_type_normal_witness: "normalize_report_type ''Alert Summary'' = Some ''alert_summary'' \<and> normalize_report_type ''alert_summary'' = Some ''alert_summary''"
proof -
  have "normalize_key ''Alert Summary'' = ''alert_summary''" by code_simp
  then have "normalize_report_type ''Alert Summary'' = Some ''alert_summary''"
    by (simp add: normalize_report_type_def REPORT_TYPE_ALIASES_eval)
  then show ?thesis using report_type_normal [of "''Alert Summary''" "''alert_summary''"] by blast
qed

end
