(* ===== verification/Calendar.thy ===== *)
theory Calendar
  imports Dcim_Prelude
begin

text \<open>
  The part of Python's \<open>datetime\<close> that the report schedules use: days are numbered from 1970-01-01, a
  moment is a number of microseconds, and months are numbered through (\<open>12 * year + month - 1\<close>).
  \<open>Asia/Dhaka\<close>, the zone of the settings, is six hours ahead of UTC all year.
\<close>

subsection \<open>Days and months\<close>

definition leap :: "int \<Rightarrow> bool" where
  "leap y = (4 dvd y \<and> (100 dvd y \<longrightarrow> 400 dvd y))"

text \<open>\<open>calendar.monthrange(year, month)[1]\<close>\<close>

definition days_in_month :: "int \<Rightarrow> int \<Rightarrow> int" where
  "days_in_month y m = (if m = 2 then (if leap y then 29 else 28) else if m \<in> {4, 6, 9, 11} then 30 else 31)"

text \<open>The days before a year, from year 1, and before a month of it.\<close>

definition days_before_year :: "int \<Rightarrow> int" where
  "days_before_year y = 365 * (y - 1) + (y - 1) div 4 - (y - 1) div 100 + (y - 1) div 400"

definition days_before_month :: "int \<Rightarrow> int \<Rightarrow> int" where
  "days_before_month y m = [0, 31, 59, 90, 120, 151, 181, 212, 243, 273, 304, 334] ! nat (m - 1) + (if m > 2 \<and> leap y then 1 else 0)"

text \<open>The day number of 1970-01-01 counted from the first day of year 1.\<close>

definition epoch_day :: int where
  "epoch_day = 719162"

definition month_start :: "int \<Rightarrow> int" where
  "month_start mi = days_before_year (mi div 12) + days_before_month (mi div 12) (mi mod 12 + 1) - epoch_day"

definition month_length :: "int \<Rightarrow> int" where
  "month_length mi = days_in_month (mi div 12) (mi mod 12 + 1)"

lemma month_length_bounds: "28 \<le> month_length mi \<and> month_length mi \<le> 31"
  by (simp add: month_length_def days_in_month_def)

lemma div_step:
  fixes y k :: int
  assumes k: "0 < k"
  shows "y div k - (y - 1) div k = (if k dvd y then 1 else 0)"
proof -
  define q r where "q = (y - 1) div k" and "r = (y - 1) mod k"
  have y: "y = (r + 1) + q * k" "0 \<le> r" "r < k"
    using k div_mult_mod_eq [of "y - 1" k] unfolding q_def r_def by simp_all
  have d: "y div k = q + (r + 1) div k" "y mod k = (r + 1) mod k" using k unfolding y(1) by simp_all
  show ?thesis
  proof (cases "r + 1 = k")
    case True
    then have "y div k = q + 1" "y mod k = 0" using d k by simp_all
    then show ?thesis unfolding q_def [symmetric] by (simp add: dvd_eq_mod_eq_0)
  next
    case False
    then have "(r + 1) div k = 0" "(r + 1) mod k = r + 1" using y(2,3) by simp_all
    then have "y div k = q" "y mod k \<noteq> 0" using d y(2) by simp_all
    then show ?thesis unfolding q_def [symmetric] by (simp add: dvd_eq_mod_eq_0)
  qed
qed

lemma year_length: "days_before_year (y + 1) = days_before_year y + (if leap y then 366 else 365)"
proof -
  have a: "400 dvd y \<Longrightarrow> 100 dvd y" by (rule dvd_trans [of 100 400 y]) simp_all
  have b: "100 dvd y \<Longrightarrow> 4 dvd y" by (rule dvd_trans [of 4 100 y]) simp_all
  have e: "days_before_year (y + 1) = days_before_year y + 365 + (y div 4 - (y - 1) div 4) - (y div 100 - (y - 1) div 100)
      + (y div 400 - (y - 1) div 400)"
    by (simp add: days_before_year_def)
  show ?thesis
    unfolding e div_step [of 4 y, simplified] div_step [of 100 y, simplified] div_step [of 400 y, simplified] leap_def
    using a b by (cases "400 dvd y"; cases "100 dvd y"; cases "4 dvd y") simp_all
qed

lemma below_twelve: "0 \<le> x \<Longrightarrow> x < 12 \<Longrightarrow> x \<in> {0, 1, 2, 3, 4, 5, 6, 7, 8, 9, 10, 11}" for x :: int
  by (simp only: insert_iff empty_iff) presburger

lemma mod_twelve: "(k::int) mod 12 \<in> {0, 1, 2, 3, 4, 5, 6, 7, 8, 9, 10, 11}"
  by (rule below_twelve) simp_all

lemma month_start_Suc: "month_start (mi + 1) = month_start mi + month_length mi"
proof (cases "mi mod 12 = 11")
  case True
  define y where "y = mi div 12"
  from True have "mi = 12 * y + 11" using div_mult_mod_eq [of mi 12] unfolding y_def by simp
  then have n: "(mi + 1) div 12 = y + 1" "(mi + 1) mod 12 = 0" "mi div 12 = y" "mi mod 12 = 11" by simp_all
  then show ?thesis
    using year_length [of y] unfolding month_start_def month_length_def n
    by (simp add: days_before_month_def days_in_month_def)
next
  case False
  define y m where "y = mi div 12" and "m = mi mod 12"
  have m: "m \<in> {0, 1, 2, 3, 4, 5, 6, 7, 8, 9, 10}" using False mod_twelve [of mi] by (auto simp: m_def)
  have e: "mi + 1 = (m + 1) + y * 12" using div_mult_mod_eq [of mi 12] unfolding y_def m_def by simp
  have "(mi + 1) div 12 = y + (m + 1) div 12" "(mi + 1) mod 12 = (m + 1) mod 12" unfolding e by simp_all
  then have n: "(mi + 1) div 12 = y" "(mi + 1) mod 12 = m + 1" using m by auto
  show ?thesis
    using m unfolding month_start_def month_length_def n y_def [symmetric] m_def [symmetric]
    by (auto simp: days_before_month_def days_in_month_def)
qed

lemma month_start_less: "month_start mi < month_start (mi + 1)"
  using month_length_bounds [of mi] by (simp add: month_start_Suc)

lemma month_start_mono: "month_start a + 28 * int k \<le> month_start (a + int k)"
proof (induction k)
  case (Suc k)
  then show ?case using month_start_Suc [of "a + int k"] month_length_bounds [of "a + int k"] by (simp add: algebra_simps)
qed simp

text \<open>The month a day is in, searched for upwards from a month that starts before it.\<close>

function month_from :: "int \<Rightarrow> int \<Rightarrow> int" where
  "month_from n mi = (if n < month_start (mi + 1) then mi else month_from n (mi + 1))"
  by pat_completeness auto
termination
proof (relation "measure (\<lambda>(n, mi). nat (n + 1 - month_start mi))", goal_cases)
  case (2 n mi)
  then show ?case using month_start_less [of mi] by simp
qed simp

declare month_from.simps [simp del]

definition month_of :: "int \<Rightarrow> int" where
  "month_of n = month_from n (12 * ((n + epoch_day) div 366))"

lemma month_from_spec: "month_start mi \<le> n \<Longrightarrow> month_start (month_from n mi) \<le> n \<and> n < month_start (month_from n mi + 1)"
proof (induction n mi rule: month_from.induct)
  case (1 n mi)
  then show ?case by (cases "n < month_start (mi + 1)") (simp_all add: month_from.simps [of n mi])
qed

lemma year_start_le:
  assumes "0 \<le> y"
  shows "days_before_year y \<le> 366 * y"
proof (cases "y = 0")
  case False
  with assms have z: "0 \<le> y - 1" by simp
  then have "(y - 1) div 4 \<le> y - 1" using int_div_less_self [of "y - 1" 4] by (cases "y = 1") auto
  moreover have "(y - 1) div 400 \<le> (y - 1) div 100" using z by (intro zdiv_mono2) auto
  ultimately show ?thesis by (simp add: days_before_year_def)
qed (simp add: days_before_year_def)

lemma month_of_spec:
  assumes "- epoch_day \<le> n"
  shows "month_start (month_of n) \<le> n \<and> n < month_start (month_of n + 1)"
proof -
  let ?y = "(n + epoch_day) div 366"
  have "0 \<le> ?y" using assms by (simp add: pos_imp_zdiv_nonneg_iff)
  then have "days_before_year ?y \<le> 366 * ?y" by (rule year_start_le)
  also have "366 * ?y \<le> n + epoch_day" using div_mult_mod_eq [of "n + epoch_day" 366] by (simp add: mult.commute) 
  finally have "month_start (12 * ?y) \<le> n" by (simp add: month_start_def days_before_month_def)
  then show ?thesis unfolding month_of_def by (rule month_from_spec)
qed

lemma month_of_unique:
  assumes "month_start mi \<le> n" and "n < month_start (mi + 1)" and "- epoch_day \<le> n"
  shows "month_of n = mi"
proof (rule ccontr)
  assume ne: "month_of n \<noteq> mi"
  note s = month_of_spec [OF assms(3)]
  show False
  proof (cases "month_of n < mi")
    case True
    then have "month_start (month_of n + 1) \<le> month_start mi"
      using month_start_mono [of "month_of n + 1" "nat (mi - month_of n - 1)"] by simp
    with s assms(1) show False by simp
  next
    case False
    with ne have "month_start (mi + 1) \<le> month_start (month_of n)"
      using month_start_mono [of "mi + 1" "nat (month_of n - mi - 1)"] by simp
    with s assms(2) show False by simp
  qed
qed

subsection \<open>Moments\<close>

definition day_length :: time where
  "day_length = seconds 86400"

definition local_offset :: time where
  "local_offset = seconds 21600"

text \<open>The day of the month, from 1.\<close>

definition day_of_month :: "int \<Rightarrow> int" where
  "day_of_month n = n - month_start (month_of n) + 1"

text \<open>\<open>value.replace(year=..., month=..., day=min(value.day, monthrange))\<close>\<close>

definition add_months :: "int \<Rightarrow> int \<Rightarrow> int" where
  "add_months n months =
     (let mi = month_of n + months in month_start mi + min (day_of_month n) (month_length mi) - 1)"

lemma add_months_bounds:
  assumes "- epoch_day \<le> n"
  shows "n + 28 * int (Suc k) - 30 \<le> add_months n (int (Suc k)) \<and> n < add_months n (int (Suc k))"
proof -
  let ?m = "month_of n"
  note s = month_of_spec [OF assms]
  have d: "1 \<le> day_of_month n" "day_of_month n \<le> month_length ?m"
    using s by (simp_all add: day_of_month_def month_start_Suc)
  have m: "month_start ?m + month_length ?m + 28 * int k \<le> month_start (?m + int (Suc k))"
    using month_start_mono [of "?m + 1" k] month_start_Suc [of ?m] by (simp add: algebra_simps)
  have l: "28 \<le> month_length (?m + int (Suc k))" "month_length ?m \<le> 31" using month_length_bounds by blast+
  have n: "n = month_start ?m + day_of_month n - 1" by (simp add: day_of_month_def)
  show ?thesis using d m l n by (auto simp: add_months_def Let_def min_def)
qed

end
