(* ===== verification/Report_Params.thy ===== *)
theory Report_Params
  imports Report_Keys Calendar Alert_Evaluate
begin

text \<open>
  The parameters of a report job (\<open>apps/reports/services/generator.py\<close>, first half): lists, choices, date
  ranges, and the rows of the job's organization that the identifiers of the parameters name. Django's date parsing and
  the columns the records leave out are arguments (\<open>report_ctx\<close>).
\<close>

text \<open>
  \<open>parse_moment\<close> is \<open>parse_datetime\<close> with \<open>make_aware\<close>, \<open>parse_day\<close> is \<open>parse_date\<close> as a day number; both answer
  \<open>None\<close> on a text of another form and raise on a date that does not exist.
\<close>

record report_ctx =
  parse_moment :: "string \<Rightarrow> exn + time option"
  parse_day :: "string \<Rightarrow> exn + int option"
  local_minute :: "time \<Rightarrow> string"
  file_stamp :: "time \<Rightarrow> string"
  slugify :: "string \<Rightarrow> string"
  device_models :: "(uuid \<times> string \<times> string option) list"
  device_hostname :: "uuid \<Rightarrow> string option"
  metric_unit :: "uuid \<Rightarrow> string option"
  user_full_name :: "uuid \<Rightarrow> string"

subsection \<open>Values\<close>

definition given :: "dict \<Rightarrow> string \<Rightarrow> py option" where
  "given params key = (case dict_get params key of
      None \<Rightarrow> None
    | Some v \<Rightarrow> if v = PNone \<or> v = PStr [] then None else Some v)"

fun get_parameter_value :: "dict \<Rightarrow> string list \<Rightarrow> py option" where
  "get_parameter_value params [] = None"
| "get_parameter_value params (key # keys) =
     (case given params key of Some v \<Rightarrow> Some v | None \<Rightarrow> get_parameter_value params keys)"

fun split_at :: "char \<Rightarrow> string \<Rightarrow> string list" where
  "split_at c [] = [[]]"
| "split_at c (x # xs) = (if x = c then [] # split_at c xs else (case split_at c xs of [] \<Rightarrow> [[x]] | w # ws \<Rightarrow> (x # w) # ws))"

definition normalize_list :: "env \<Rightarrow> py option \<Rightarrow> string list" where
  "normalize_list e v = (case v of
      None \<Rightarrow> []
    | Some (PList vs) \<Rightarrow> stripped_texts e vs
    | Some PNone \<Rightarrow> []
    | Some w \<Rightarrow> if w = PStr [] then []
        else stripped_texts e (map PStr (split_at CHR '','' (map (\<lambda>c. if c = CHR '';'' then CHR '','' else c) (py_str e w)))))"

fun choose_each :: "string \<Rightarrow> string list \<Rightarrow> string list \<Rightarrow> string list \<Rightarrow> exn + string list" where
  "choose_each field choices [] acc = Inr acc"
| "choose_each field choices (raw # raws) acc =
     (case find (\<lambda>c. normalize_key c = normalize_key raw) (rev choices) of
        None \<Rightarrow> Inl (ValueError (''Invalid '' @ field @ '' value: '' @ raw))
      | Some c \<Rightarrow> choose_each field choices raws (if c \<in> set acc then acc else acc @ [c]))"

definition normalize_choice_values :: "env \<Rightarrow> py option \<Rightarrow> string list \<Rightarrow> string \<Rightarrow> exn + string list" where
  "normalize_choice_values e v choices field = choose_each field choices (normalize_list e v) []"

definition normalize_bool :: "env \<Rightarrow> py option \<Rightarrow> string \<Rightarrow> exn + bool option" where
  "normalize_bool e v field = (case v of
      None \<Rightarrow> Inr None
    | Some w \<Rightarrow>
       (let bad = Inl (ValueError (''Invalid '' @ field @ '' value: '' @ py_str e w)) in
        case w of
          PNone \<Rightarrow> Inr None
        | PBool b \<Rightarrow> Inr (Some b)
        | PInt i \<Rightarrow> if i = 0 \<or> i = 1 then Inr (Some (i = 1)) else bad
        | PFloat r \<Rightarrow> if r = 0 \<or> r = 1 then Inr (Some (r = 1)) else bad
        | PStr s \<Rightarrow> if s = [] then Inr None
            else (let n = lower (strip s) in
              if n \<in> {''true'', ''1'', ''yes'', ''y'', ''on''} then Inr (Some True)
              else if n \<in> {''false'', ''0'', ''no'', ''n'', ''off''} then Inr (Some False) else bad)
        | _ \<Rightarrow> bad))"

subsection \<open>Date ranges\<close>

definition local_day :: "int \<Rightarrow> bool \<Rightarrow> time" where
  "local_day n is_end = n * day_length + (if is_end then day_length - 1 else 0) - local_offset"

definition parse_range_value :: "env \<Rightarrow> report_ctx \<Rightarrow> py \<Rightarrow> bool \<Rightarrow> exn + time" where
  "parse_range_value e c raw is_end = (case raw of
      PStr s \<Rightarrow> (case parse_moment c s of
        Inl x \<Rightarrow> Inl x
      | Inr (Some t) \<Rightarrow> Inr t
      | Inr None \<Rightarrow> (case parse_day c s of
          Inl x \<Rightarrow> Inl x
        | Inr (Some n) \<Rightarrow> Inr (local_day n is_end)
        | Inr None \<Rightarrow> Inl (ValueError (''Invalid date value: '' @ fmt_py e raw))))
    | _ \<Rightarrow> Inl (ValueError (''Invalid date value: '' @ fmt_py e raw)))"

definition parse_optional :: "env \<Rightarrow> report_ctx \<Rightarrow> py option \<Rightarrow> bool \<Rightarrow> exn + time option" where
  "parse_optional e c v is_end = (case v of None \<Rightarrow> Inr None | Some raw \<Rightarrow> map_sum id Some (parse_range_value e c raw is_end))"

definition parse_report_date_range :: "env \<Rightarrow> report_ctx \<Rightarrow> dict \<Rightarrow> bool \<Rightarrow> exn + (time option \<times> time option)" where
  "parse_report_date_range e c params required =
     (let start_value = get_parameter_value params [''date_from'', ''start_date''];
          end_value = get_parameter_value params [''date_to'', ''end_date''] in
      if required \<and> (start_value = None \<or> end_value = None) then Inl (ValueError ''date_from and date_to are required.'')
      else case parse_optional e c start_value False of
        Inl x \<Rightarrow> Inl x
      | Inr a \<Rightarrow> (case parse_optional e c end_value True of
          Inl x \<Rightarrow> Inl x
        | Inr b \<Rightarrow> (case (a, b) of
            (Some s, Some t) \<Rightarrow>
              if s > t then Inl (ValueError ''Invalid date range: date_from/start_date must be earlier than date_to/end_date.'')
              else Inr (a, b)
          | _ \<Rightarrow> Inr (a, b))))"

definition max_range_days :: "dict \<Rightarrow> int \<Rightarrow> int" where
  "max_range_days config default_days = (case dict_get config ''max_date_range_days'' of
      None \<Rightarrow> default_days
    | Some v \<Rightarrow> (case py_int v of Inl _ \<Rightarrow> default_days | Inr n \<Rightarrow> n))"

definition validate_max_date_range :: "time option \<Rightarrow> time option \<Rightarrow> dict \<Rightarrow> int \<Rightarrow> exn + unit" where
  "validate_max_date_range date_from date_to config default_days = (case (date_from, date_to) of
      (Some s, Some t) \<Rightarrow>
        (let n = max_range_days config default_days in
         if n \<le> 0 then Inr ()
         else if t - s > n * day_length then Inl (ValueError (''Date range cannot exceed '' @ str_int n @ '' days.''))
         else Inr ())
    | _ \<Rightarrow> Inr ())"

definition in_range :: "time option \<Rightarrow> time option \<Rightarrow> time \<Rightarrow> bool" where
  "in_range a b t = ((case a of None \<Rightarrow> True | Some s \<Rightarrow> s \<le> t) \<and> (case b of None \<Rightarrow> True | Some s \<Rightarrow> t \<le> s))"

text \<open>What the row functions do first; the range stays optional unless it is required.\<close>

definition report_range :: "env \<Rightarrow> report_ctx \<Rightarrow> dict \<Rightarrow> dict \<Rightarrow> bool \<Rightarrow> int \<Rightarrow> exn + (time option \<times> time option)" where
  "report_range e c params config required default_days = (case parse_report_date_range e c params required of
      Inl x \<Rightarrow> Inl x
    | Inr (a, b) \<Rightarrow> (case validate_max_date_range a b config default_days of Inl x \<Rightarrow> Inl x | Inr _ \<Rightarrow> Inr (a, b)))"

subsection \<open>The job's own values\<close>

definition dict_or_empty :: "py \<Rightarrow> dict" where
  "dict_or_empty v = (case v of PDict kvs \<Rightarrow> kvs | _ \<Rightarrow> [])"

definition template_of :: "db \<Rightarrow> report_job \<Rightarrow> report_template option" where
  "template_of d j = Option.bind (rj_template j) (\<lambda>k. tbl_get rt_id k (report_templates d))"

definition get_report_config :: "db \<Rightarrow> report_job \<Rightarrow> dict" where
  "get_report_config d j = (case template_of d j of None \<Rightarrow> [] | Some t \<Rightarrow> dict_or_empty (rt_config t))"

definition is_dict :: "py \<Rightarrow> bool" where
  "is_dict v = (case v of PDict _ \<Rightarrow> True | _ \<Rightarrow> False)"

definition job_report_type :: "db \<Rightarrow> report_job \<Rightarrow> py" where
  "job_report_type d j =
     (let get = (\<lambda>kvs. case dict_get kvs ''report_type'' of None \<Rightarrow> PNone | Some v \<Rightarrow> v) in
      case template_of d j of
        Some t \<Rightarrow> if is_dict (rt_config t) then get (dict_or_empty (rt_config t))
                  else if is_dict (rj_parameters j) then get (dict_or_empty (rj_parameters j)) else PNone
      | None \<Rightarrow> if is_dict (rj_parameters j) then get (dict_or_empty (rj_parameters j)) else PNone)"

definition resolve_report_type :: "env \<Rightarrow> db \<Rightarrow> report_job \<Rightarrow> exn + string" where
  "resolve_report_type e d j =
     (let v = job_report_type d j in
      if \<not> truthy v then Inl (ValueError ''Report type is missing from the report template or parameters.'')
      else let t = strip (py_str e v) in
        if t \<in> set SUPPORTED_REPORT_TYPES then Inr t else Inl (ValueError (''Unsupported report type: '' @ t)))"

definition resolve_output_format :: "env \<Rightarrow> db \<Rightarrow> report_job \<Rightarrow> exn + string" where
  "resolve_output_format e d j =
     (let config = get_report_config d j;
          raw = (case dict_get config ''output_format'' of None \<Rightarrow> PStr ''csv'' | Some v \<Rightarrow> v) in
      case normalize_report_format (text_or_empty e raw) of
        None \<Rightarrow> if normalize_key (text_or_empty e raw) = ''xlsx'' then Inl (ValueError ''XLSX output is not supported yet.'')
                else Inl (ValueError (py_str e raw @ '' output is not supported yet.''))
      | Some f \<Rightarrow> if f \<noteq> ''CSV'' then Inl (ValueError (f @ '' output is not supported yet.''))
          else (let allowed = normalize_list e (dict_get config ''allowed_output_formats'') in
            if allowed \<noteq> [] \<and> ''csv'' \<notin> set (map normalize_key allowed) then Inl (ValueError ''CSV output is not allowed for this template.'')
            else Inr ''CSV''))"

subsection \<open>The rows the parameters name\<close>

text \<open>A text that is no key is refused with a \<open>ValidationError\<close>, which the code's handlers do not name.\<close>

definition parse_pk :: "py \<Rightarrow> exn + uuid" where
  "parse_pk v =
     (let bad = Inl (ValidationError [([], [''Value is not a valid UUID.''])]) in
      case v of
        PStr s \<Rightarrow> if s \<noteq> [] \<and> list_all is_digit s then Inr (nat_of_digits s) else bad
      | PInt i \<Rightarrow> if 0 \<le> i then Inr (nat i) else bad
      | PBool b \<Rightarrow> Inr (if b then 1 else 0)
      | _ \<Rightarrow> bad)"

definition get_row :: "('r \<Rightarrow> uuid) \<Rightarrow> 'r list \<Rightarrow> string \<Rightarrow> py \<Rightarrow> exn + 'r" where
  "get_row pk rows message v = (case parse_pk v of
      Inl x \<Rightarrow> Inl x
    | Inr k \<Rightarrow> (case tbl_get pk k rows of None \<Rightarrow> Inl (ValueError message) | Some r \<Rightarrow> Inr r))"

definition job_data_center :: "db \<Rightarrow> report_job \<Rightarrow> data_center option" where
  "job_data_center d j = Option.bind (rj_data_center j) (data_center_of d)"

definition resolve_data_center_scope :: "db \<Rightarrow> report_job \<Rightarrow> dict \<Rightarrow> bool \<Rightarrow> exn + data_center option" where
  "resolve_data_center_scope d j params required = (case given params ''data_center_id'' of
      None \<Rightarrow> if required \<and> job_data_center d j = None then Inl (ValueError ''data_center_id is required.'') else Inr (job_data_center d j)
    | Some v \<Rightarrow> (case get_row dc_id (data_centers d) ''Invalid data_center_id.'' v of
        Inl x \<Rightarrow> Inl x
      | Inr c \<Rightarrow>
          if dc_organization c \<noteq> rj_organization j then Inl (ValueError ''data_center_id must belong to the selected organization.'')
          else (case job_data_center d j of
            None \<Rightarrow> Inr (Some c)
          | Some jc \<Rightarrow> if dc_id jc \<noteq> dc_id c then Inl (ValueError ''ReportJob.data_center must match parameters.data_center_id.'')
              else Inr (Some c))))"

definition resolve_device :: "db \<Rightarrow> report_job \<Rightarrow> py \<Rightarrow> exn + device" where
  "resolve_device d j v = (case get_row dev_id (devices d) ''Invalid device_id.'' v of
      Inl x \<Rightarrow> Inl x
    | Inr dev \<Rightarrow> if dev_organization dev \<noteq> rj_organization j then Inl (ValueError ''device_id must belong to the selected organization.'')
        else Inr dev)"

definition resolve_room :: "db \<Rightarrow> report_job \<Rightarrow> py \<Rightarrow> exn + room" where
  "resolve_room d j v = (case get_row rm_id (rooms d) ''Invalid room_id.'' v of
      Inl x \<Rightarrow> Inl x
    | Inr r \<Rightarrow> (case data_center_of d (rm_data_center r) of
        None \<Rightarrow> Inl DoesNotExist
      | Some c \<Rightarrow> if dc_organization c \<noteq> rj_organization j then Inl (ValueError ''room_id must belong to the selected organization.'')
          else Inr r))"

definition resolve_rack :: "db \<Rightarrow> report_job \<Rightarrow> py \<Rightarrow> exn + rack" where
  "resolve_rack d j v = (case get_row rk_id (racks d) ''Invalid rack_id.'' v of
      Inl x \<Rightarrow> Inl x
    | Inr r \<Rightarrow> (case data_center_of d (rk_data_center r) of
        None \<Rightarrow> Inl DoesNotExist
      | Some c \<Rightarrow> if dc_organization c \<noteq> rj_organization j then Inl (ValueError ''rack_id must belong to the selected organization.'')
          else Inr r))"

definition resolve_device_model :: "report_ctx \<Rightarrow> db \<Rightarrow> report_job \<Rightarrow> py \<Rightarrow> exn + uuid" where
  "resolve_device_model c d j v = (case get_row fst (device_models c) ''Invalid device_model_id.'' v of
      Inl x \<Rightarrow> Inl x
    | Inr m \<Rightarrow> if list_ex (\<lambda>dev. dev_organization dev = rj_organization j \<and> dev_device_model dev = Some (fst m)) (devices d)
        then Inr (fst m) else Inl (ValueError ''device_model_id must belong to the selected organization.''))"

definition resolve_device_type :: "db \<Rightarrow> report_job \<Rightarrow> py \<Rightarrow> exn + uuid" where
  "resolve_device_type d j v = (case get_row dt_id (device_types d) ''Invalid device_type_id.'' v of
      Inl x \<Rightarrow> Inl x
    | Inr t \<Rightarrow> if list_ex (\<lambda>dev. dev_organization dev = rj_organization j \<and> dev_device_type dev = dt_id t) (devices d)
        then Inr (dt_id t) else Inl (ValueError ''device_type_id must belong to the selected organization.''))"

text \<open>One \<open>if <parameter>: ... qs.filter(device...)\<close> block of the row functions, as the condition on the device.\<close>

datatype device_filter = BY_DEVICE | BY_MODEL | BY_TYPE | BY_ROOM | BY_RACK

definition outside :: "data_center option \<Rightarrow> uuid \<Rightarrow> bool" where
  "outside dc k = (case dc of None \<Rightarrow> False | Some x \<Rightarrow> k \<noteq> dc_id x)"

fun device_condition ::
    "report_ctx \<Rightarrow> db \<Rightarrow> report_job \<Rightarrow> dict \<Rightarrow> data_center option \<Rightarrow> device_filter \<Rightarrow> exn + (device \<Rightarrow> bool)" where
  "device_condition c d j params dc BY_DEVICE = (case given params ''device_id'' of
      None \<Rightarrow> Inr (\<lambda>_. True)
    | Some v \<Rightarrow> (case resolve_device d j v of
        Inl x \<Rightarrow> Inl x
      | Inr r \<Rightarrow> if outside dc (dev_data_center r) then Inl (ValueError ''device_id must belong to the selected data center.'')
          else Inr (\<lambda>x. dev_id x = dev_id r)))"
| "device_condition c d j params dc BY_MODEL = (case given params ''device_model_id'' of
      None \<Rightarrow> Inr (\<lambda>_. True)
    | Some v \<Rightarrow> (case resolve_device_model c d j v of Inl x \<Rightarrow> Inl x | Inr k \<Rightarrow> Inr (\<lambda>x. dev_device_model x = Some k)))"
| "device_condition c d j params dc BY_TYPE = (case given params ''device_type_id'' of
      None \<Rightarrow> Inr (\<lambda>_. True)
    | Some v \<Rightarrow> (case resolve_device_type d j v of Inl x \<Rightarrow> Inl x | Inr k \<Rightarrow> Inr (\<lambda>x. dev_device_type x = k)))"
| "device_condition c d j params dc BY_ROOM = (case given params ''room_id'' of
      None \<Rightarrow> Inr (\<lambda>_. True)
    | Some v \<Rightarrow> (case resolve_room d j v of
        Inl x \<Rightarrow> Inl x
      | Inr r \<Rightarrow> if outside dc (rm_data_center r) then Inl (ValueError ''room_id must belong to the selected data center.'')
          else Inr (\<lambda>x. dev_room x = Some (rm_id r))))"
| "device_condition c d j params dc BY_RACK = (case given params ''rack_id'' of
      None \<Rightarrow> Inr (\<lambda>_. True)
    | Some v \<Rightarrow> (case resolve_rack d j v of
        Inl x \<Rightarrow> Inl x
      | Inr r \<Rightarrow> if outside dc (rk_data_center r) then Inl (ValueError ''rack_id must belong to the selected data center.'')
          else Inr (\<lambda>x. dev_rack x = Some (rk_id r))))"

fun device_conditions ::
    "report_ctx \<Rightarrow> db \<Rightarrow> report_job \<Rightarrow> dict \<Rightarrow> data_center option \<Rightarrow> device_filter list \<Rightarrow> exn + (device \<Rightarrow> bool)" where
  "device_conditions c d j params dc [] = Inr (\<lambda>_. True)"
| "device_conditions c d j params dc (k # ks) = (case device_condition c d j params dc k of
      Inl x \<Rightarrow> Inl x
    | Inr p \<Rightarrow> (case device_conditions c d j params dc ks of Inl x \<Rightarrow> Inl x | Inr q \<Rightarrow> Inr (\<lambda>x. p x \<and> q x)))"

subsection \<open>Metric codes\<close>

definition resolve_metric_codes :: "env \<Rightarrow> dict \<Rightarrow> bool \<Rightarrow> exn + string list" where
  "resolve_metric_codes e params required =
     (let codes = normalize_list e (dict_get params ''metric_codes'') in
      if required \<and> codes = [] then Inl (ValueError ''metric_codes is required.'') else Inr codes)"

definition TELEMETRY_METRIC_CODE_ALIASES :: "(string \<times> string) list" where
  "TELEMETRY_METRIC_CODE_ALIASES =
     [(''room_temperature'', ''pac_room_temperature''), (''room_humidity'', ''pac_room_humidity''),
      (''roomTemp'', ''pac_room_temperature''), (''roomRH'', ''pac_room_humidity'')]"

definition metric_for_code :: "db \<Rightarrow> string \<Rightarrow> metric option" where
  "metric_for_code d code = find (\<lambda>m. me_code m = code) (metrics d)"

definition canonical_code :: "db \<Rightarrow> string \<Rightarrow> string" where
  "canonical_code d code = (if metric_for_code d code \<noteq> None then code
     else (case map_of TELEMETRY_METRIC_CODE_ALIASES code of Some t \<Rightarrow> t | None \<Rightarrow> code))"

definition resolve_telemetry_metrics :: "db \<Rightarrow> string list \<Rightarrow> exn + (string list \<times> metric list)" where
  "resolve_telemetry_metrics d codes =
     (let canonical = map (canonical_code d) codes;
          missing = filter (\<lambda>code. metric_for_code d (canonical_code d code) = None) codes in
      if missing \<noteq> [] then Inl (ValueError (''Invalid metric_codes value: '' @ join '', '' missing @ ''.''))
      else Inr (canonical, map (\<lambda>code. the (metric_for_code d code)) (first_of_each canonical)))"

end
