(* ===== verification/Audit_Trail.thy ===== *)
theory Audit_Trail
  imports Dcim_Models
begin

text \<open>
  The audit trail (\<open>apps/common/audit.py\<close>): values are made JSON-safe, redacted and stored with the actor
  and the address of the current request. What PostgreSQL's \<open>inet\<close> accepts is an argument.
\<close>

subsection \<open>JSON-safe values\<close>

fun json_safe :: "env \<Rightarrow> py \<Rightarrow> py" where
  "json_safe e (PDict kvs) = PDict (map (\<lambda>(k, v). (k, json_safe e v)) kvs)"
| "json_safe e (PList vs) = PList (map (json_safe e) vs)"
| "json_safe e (PDec r) = PStr (py_str e (PDec r))"
| "json_safe e v = v"

fun depth :: "py \<Rightarrow> nat" where
  "depth (PDict kvs) = Suc (fold max (map (\<lambda>(k, v). depth v) kvs) 0)"
| "depth (PList vs) = Suc (fold max (map depth vs) 0)"
| "depth v = 0"

lemma fold_max_ge: "(x::nat) \<in> set xs \<or> x \<le> m \<Longrightarrow> x \<le> fold max xs m"
  by (induction xs arbitrary: m) (auto simp: max_def)

lemma depth_json_safe [simp]: "depth (json_safe e v) = depth v"
proof (induction v rule: json_safe.induct)
  case (1 e kvs)
  then have m: "map (\<lambda>x. depth (json_safe e (snd x))) kvs = map (\<lambda>x. depth (snd x)) kvs"
    by (intro map_cong) (auto simp: prod_eq_iff)
  show ?case by (simp only: json_safe.simps depth.simps list.map_comp comp_def case_prod_unfold snd_conv m)
next
  case (2 e vs)
  then have m: "map (\<lambda>x. depth (json_safe e x)) vs = map depth vs" by (intro map_cong) auto
  show ?case by (simp only: json_safe.simps depth.simps list.map_comp comp_def m)
qed simp_all

lemma depth_value: "(k, v) \<in> set kvs \<Longrightarrow> depth v < depth (PDict kvs)"
proof -
  assume "(k, v) \<in> set kvs"
  then have "depth v \<in> set (map (\<lambda>(k, v). depth v) kvs)" by force
  then show ?thesis using fold_max_ge [of "depth v" "map (\<lambda>(k, v). depth v) kvs" 0] by simp
qed

lemma depth_item: "v \<in> set vs \<Longrightarrow> depth v < depth (PList vs)"
  using fold_max_ge [of "depth v" "map depth vs" 0] by simp

subsection \<open>Redaction\<close>

definition SENSITIVE_KEYS :: "string list" where
  "SENSITIVE_KEYS = [''password'', ''token'', ''secret'', ''credential'', ''community'', ''auth_key'', ''priv_key'', ''api_key'',
     ''access'', ''refresh'']"

definition sensitive :: "string \<Rightarrow> bool" where
  "sensitive k = list_ex (contains (lower k)) SENSITIVE_KEYS"

definition REDACTED :: py where
  "REDACTED = PStr ''***REDACTED***''"

definition is_container :: "py \<Rightarrow> bool" where
  "is_container v = (case v of PDict _ \<Rightarrow> True | PList _ \<Rightarrow> True | _ \<Rightarrow> False)"

function redact :: "env \<Rightarrow> py \<Rightarrow> py" where
  "redact e val = (case json_safe e val of
      PDict kvs \<Rightarrow> PDict (map (\<lambda>(k, v). (k, if sensitive k \<and> \<not> is_container v then REDACTED else redact e v)) kvs)
    | PList vs \<Rightarrow> PList (map (redact e) vs)
    | v \<Rightarrow> v)"
  by pat_completeness auto
termination
proof (relation "measure (\<lambda>(e, v). depth v)")
  fix e :: env and val kvs and x :: "string \<times> py" and k v
  assume "json_safe e val = PDict kvs" "x \<in> set kvs" "(k, v) = x"
  then show "((e, v), (e, val)) \<in> measure (\<lambda>(e, v). depth v)"
    using depth_value [of k v kvs] depth_json_safe [of e val] by simp
next
  fix e :: env and val vs and v :: py
  assume "json_safe e val = PList vs" "v \<in> set vs"
  then show "((e, v), (e, val)) \<in> measure (\<lambda>(e, v). depth v)"
    using depth_item [of v vs] depth_json_safe [of e val] by simp
qed simp

declare redact.simps [simp del]

subsection \<open>Writing an entry\<close>

record web_request =
  wr_user :: "uuid option"
  wr_forwarded_for :: "string option"
  wr_remote_addr :: "string option"
  wr_user_agent :: "string option"

definition before_comma :: "string \<Rightarrow> string" where
  "before_comma s = takeWhile (\<lambda>c. c \<noteq> CHR '','') s"

definition client_ip :: "web_request \<Rightarrow> string" where
  "client_ip r = before_comma (case wr_forwarded_for r of Some s \<Rightarrow> s
     | None \<Rightarrow> (case wr_remote_addr r of Some s \<Rightarrow> s | None \<Rightarrow> []))"

definition or_empty :: "py option \<Rightarrow> py" where
  "or_empty v = (case v of None \<Rightarrow> PDict [] | Some x \<Rightarrow> if truthy x then x else PDict [])"

definition audit_row ::
    "env \<Rightarrow> web_request option \<Rightarrow> string \<Rightarrow> string option \<Rightarrow> uuid option \<Rightarrow> py option \<Rightarrow> py option \<Rightarrow> string option \<Rightarrow> uuid option
      \<Rightarrow> uuid option \<Rightarrow> audit_log" where
  "audit_row e req action resource_type resource_id old_value new_value message organization actor =
     (let ip = (case req of None \<Rightarrow> [] | Some r \<Rightarrow> client_ip r) in
      \<lparr>au_created_at = now e, au_organization = organization,
       au_actor = (if actor \<noteq> None then actor else Option.bind req wr_user),
       au_action = action, au_resource_type = resource_type, au_resource_id = map_option str_nat resource_id,
       au_old_value = redact e (or_empty old_value), au_new_value = redact e (or_empty new_value),
       au_ip_address = (if ip = [] then None else Some ip),
       au_user_agent = map_option (\<lambda>r. case wr_user_agent r of None \<Rightarrow> [] | Some s \<Rightarrow> s) req, au_message = message\<rparr>)"

definition write_audit ::
    "(string \<Rightarrow> bool) \<Rightarrow> env \<Rightarrow> web_request option \<Rightarrow> string \<Rightarrow> string option \<Rightarrow> uuid option \<Rightarrow> py option \<Rightarrow> py option \<Rightarrow> string option
      \<Rightarrow> uuid option \<Rightarrow> uuid option \<Rightarrow> db \<Rightarrow> (exn + audit_log) \<times> db" where
  "write_audit inet e req action resource_type resource_id old_value new_value message organization actor d =
     (let row = audit_row e req action resource_type resource_id old_value new_value message organization actor in
      case au_ip_address row of
        Some ip \<Rightarrow> if inet ip then (Inr row, d\<lparr>audit_logs := audit_logs d @ [row]\<rparr>) else (Inl DataError, d)
      | None \<Rightarrow> (Inr row, d\<lparr>audit_logs := audit_logs d @ [row]\<rparr>))"

subsection \<open>What redaction leaves\<close>

text \<open>No dict anywhere in the value holds a scalar under a sensitive key other than the mark.\<close>

fun leaks_nothing :: "py \<Rightarrow> bool" where
  "leaks_nothing (PDict kvs) = list_all (\<lambda>(k, v). leaks_nothing v \<and> (sensitive k \<longrightarrow> is_container v \<or> v = REDACTED)) kvs"
| "leaks_nothing (PList vs) = list_all leaks_nothing vs"
| "leaks_nothing v = True"

lemma json_safe_idem [simp]: "json_safe e (json_safe e v) = json_safe e v"
  by (induction v rule: json_safe.induct) (auto simp: case_prod_beta)

lemma is_container_json_safe [simp]: "is_container (json_safe e v) = is_container v"
  by (cases v) (simp_all add: is_container_def)

lemma redact_dict: "redact e (PDict kvs) = PDict (map (\<lambda>(k, v). (k, if sensitive k \<and> \<not> is_container v then REDACTED else redact e v)) kvs)"
proof -
  have j: "redact e (json_safe e v) = redact e v" for v
    by (simp add: redact.simps [of e v] redact.simps [of e "json_safe e v"])
  show ?thesis by (auto simp: redact.simps [of e "PDict kvs"] j case_prod_beta)
qed

lemma redact_list: "redact e (PList vs) = PList (map (redact e) vs)"
proof -
  have j: "redact e (json_safe e v) = redact e v" for v
    by (simp add: redact.simps [of e v] redact.simps [of e "json_safe e v"])
  show ?thesis by (simp add: redact.simps [of e "PList vs"] j)
qed

lemma redact_scalar: "\<not> is_container v \<Longrightarrow> redact e v = json_safe e v"
  by (cases v) (simp_all add: redact.simps is_container_def)

lemma is_container_redact [simp]: "is_container (redact e v) = is_container v"
  by (cases v) (simp_all add: redact_dict redact_list redact_scalar is_container_def)

lemma REDACTED_simps [simp]: "\<not> is_container REDACTED" "redact e REDACTED = REDACTED" "json_safe e REDACTED = REDACTED"
  by (simp_all add: REDACTED_def is_container_def redact_scalar)

lemma redact_leaks_nothing: "leaks_nothing (redact e v)"
proof (induction v rule: leaks_nothing.induct)
  case (1 kvs)
  then show ?case by (auto simp: redact_dict list_all_iff REDACTED_def)
next
  case (2 vs)
  then show ?case by (auto simp: redact_list list_all_iff)
qed (simp_all add: redact_scalar is_container_def)

lemma redact_clean: "leaks_nothing v \<Longrightarrow> redact e v = json_safe e v"
proof (induction v rule: leaks_nothing.induct)
  case (1 kvs)
  have "(if sensitive k \<and> \<not> is_container x then REDACTED else redact e x) = json_safe e x" if "(k, x) \<in> set kvs" for k x
    using 1 that by (auto simp: list_all_iff)
  then show ?case by (auto simp: redact_dict)
next
  case (2 vs)
  then show ?case by (simp add: redact_list list_all_iff)
qed (simp_all add: redact_scalar is_container_def)

lemma json_safe_redact [simp]: "json_safe e (redact e v) = redact e v"
proof (induction v rule: leaks_nothing.induct)
  case (1 kvs)
  then show ?case by (auto simp: redact_dict)
next
  case (2 vs)
  then show ?case by (simp add: redact_list)
qed (simp_all add: redact_scalar is_container_def)

text \<open>What an audit entry shows of a value: no scalar under a sensitive key, everything of a value that has none, and
  redacting twice is redacting once. But only the key next to a scalar counts: what stands in a list or a dict under a
  sensitive key is shown, so a list of tokens is stored in clear.\<close>

theorem redaction_exact:
  "leaks_nothing (redact e v) \<and> redact e (redact e v) = redact e v \<and> (leaks_nothing v \<longrightarrow> redact e v = json_safe e v)
    \<and> (\<forall>k xs. v = PDict [(k, PList (map PStr xs))] \<longrightarrow> redact e v = v)"
proof (intro conjI allI impI)
  show "redact e (redact e v) = redact e v" using redact_clean [OF redact_leaks_nothing] by simp
  fix k xs assume "v = PDict [(k, PList (map PStr xs))]"
  then show "redact e v = v" by (simp add: redact_dict redact_list redact_scalar is_container_def comp_def)
qed (rule redact_leaks_nothing, rule redact_clean)

lemma redaction_exact_witness:
  "redact (plain_env 0) (PDict [(''password'', PStr ''x''), (''tokens'', PList [PStr ''y''])])
     = PDict [(''password'', REDACTED), (''tokens'', PList [PStr ''y''])]
   \<and> redact (plain_env 0) (PDict [(''tokens'', PList [PStr ''y''])]) = PDict [(''tokens'', PList [PStr ''y''])]"
proof -
  have "sensitive ''password''" by code_simp
  moreover have "redact (plain_env 0) (PDict [(''tokens'', PList (map PStr [''y'']))]) = PDict [(''tokens'', PList (map PStr [''y'']))]"
    using redaction_exact [of "plain_env 0" "PDict [(''tokens'', PList (map PStr [''y'']))]"] by blast
  ultimately show ?thesis by (simp add: redact_dict redact_list redact_scalar is_container_def)
qed

end
