(* ===== verification/Report_Rows.thy ===== *)
theory Report_Rows
  imports Report_Params Audit_Trail
begin

text \<open>
  The rows of the seven reports and their CSV text (\<open>apps/reports/services/generator.py\<close>). A report is its
  header and its rows, the cells of a row in the order of the header; a queryset is the list of the rows its filters keep.
\<close>

type_synonym report_rows = "string list \<times> py list list"

fun device_status_value :: "device_status \<Rightarrow> string" where
  "device_status_value ONLINE = ''ONLINE''"
| "device_status_value OFFLINE = ''OFFLINE''"
| "device_status_value DEGRADED = ''DEGRADED''"
| "device_status_value MAINTENANCE = ''MAINTENANCE''"
| "device_status_value UNKNOWN = ''UNKNOWN''"

fun quality_value :: "telemetry_quality \<Rightarrow> string" where
  "quality_value GOOD = ''GOOD''"
| "quality_value BAD = ''BAD''"
| "quality_value STALE = ''STALE''"
| "quality_value UNKNOWN_QUALITY = ''UNKNOWN''"

definition severities :: "alert_severity list" where
  "severities = [INFO, WARNING, CRITICAL, EMERGENCY]"

definition alert_statuses :: "alert_status list" where
  "alert_statuses = [OPEN, ACKNOWLEDGED, RESOLVED, SUPPRESSED]"

definition device_statuses :: "device_status list" where
  "device_statuses = [ONLINE, OFFLINE, DEGRADED, MAINTENANCE, UNKNOWN]"

definition channels :: "notification_channel list" where
  "channels = [EMAIL, SMS, WEB, WEBHOOK]"

definition notification_statuses :: "notification_status list" where
  "notification_statuses = [PENDING, DELIVERING, SENT, FAILED]"

definition audit_actions :: "string list" where
  "audit_actions =
     [''LOGIN_SUCCESS'', ''LOGIN_FAILED'', ''LOGOUT'', ''CREATE'', ''UPDATE'', ''DELETE'', ''ROLE_ASSIGNED'', ''ROLE_REMOVED'',
      ''ALERT_ACKNOWLEDGED'', ''ALERT_RESOLVED'', ''ALERT_SUPPRESSED'', ''ALERT_ESCALATED'', ''REPORT_GENERATION_REQUESTED'',
      ''REPORT_RETRY_REQUESTED'', ''REPORT_CANCELLED'', ''REPORT_GENERATION_STARTED'', ''REPORT_GENERATED'',
      ''REPORT_GENERATION_FAILED'', ''REPORT_DOWNLOADED'', ''CREDENTIAL_UPDATED'']"

text \<open>\<open>if values: qs = qs.filter(field__in=values)\<close>\<close>

definition one_of :: "string list \<Rightarrow> string \<Rightarrow> bool" where
  "one_of values s = (values = [] \<or> s \<in> set values)"

definition summary_row :: "string \<Rightarrow> string \<Rightarrow> nat \<Rightarrow> py list" where
  "summary_row part label n = [PStr part, PStr label, PInt (int n)]"

definition count_rows :: "('r \<Rightarrow> bool) \<Rightarrow> 'r list \<Rightarrow> nat" where
  "count_rows P rows = length (filter P rows)"

subsection \<open>Alert summary\<close>

definition alert_device :: "db \<Rightarrow> (device \<Rightarrow> bool) \<Rightarrow> alert_event \<Rightarrow> bool" where
  "alert_device d p a = (case device_of d (ae_device a) of None \<Rightarrow> False | Some x \<Rightarrow> p x)"

definition alert_metric_code :: "db \<Rightarrow> alert_event \<Rightarrow> string option" where
  "alert_metric_code d a = map_option me_code (Option.bind (ae_metric a) (metric_of d))"

definition metric_among :: "db \<Rightarrow> string list \<Rightarrow> alert_event \<Rightarrow> bool" where
  "metric_among d codes a = (codes = [] \<or> (case alert_metric_code d a of None \<Rightarrow> False | Some c \<Rightarrow> c \<in> set codes))"

definition site_of_report :: "data_center option \<Rightarrow> uuid \<Rightarrow> bool" where
  "site_of_report dc k = (case dc of None \<Rightarrow> True | Some c \<Rightarrow> k = dc_id c)"

definition all_device_filters :: "device_filter list" where
  "all_device_filters = [BY_DEVICE, BY_MODEL, BY_TYPE, BY_ROOM, BY_RACK]"

definition alert_summary_alerts :: "env \<Rightarrow> report_ctx \<Rightarrow> db \<Rightarrow> report_job \<Rightarrow> exn + alert_event list" where
  "alert_summary_alerts e c d j =
     (let params = dict_or_empty (rj_parameters j) in
      case report_range e c params (get_report_config d j) False 90 of
        Inl x \<Rightarrow> Inl x
      | Inr (a, b) \<Rightarrow> (case resolve_data_center_scope d j params False of
          Inl x \<Rightarrow> Inl x
        | Inr dc \<Rightarrow> (case resolve_metric_codes e params False of
            Inl x \<Rightarrow> Inl x
          | Inr codes \<Rightarrow> (case normalize_choice_values e (dict_get params ''severity'') (map severity_value severities) ''severity'' of
              Inl x \<Rightarrow> Inl x
            | Inr sevs \<Rightarrow> (case normalize_choice_values e (dict_get params ''status'') (map status_value alert_statuses) ''status'' of
                Inl x \<Rightarrow> Inl x
              | Inr stats \<Rightarrow> (case device_conditions c d j params dc all_device_filters of
                  Inl x \<Rightarrow> Inl x
                | Inr p \<Rightarrow> Inr (filter (\<lambda>al. ae_organization al = rj_organization j \<and> site_of_report dc (ae_data_center al)
                      \<and> in_range a b (ae_triggered_at al) \<and> metric_among d codes al \<and> one_of sevs (severity_value (ae_severity al))
                      \<and> one_of stats (status_value (ae_status al)) \<and> alert_device d p al) (alert_events d))))))))"

definition is_active_alert :: "alert_event \<Rightarrow> bool" where
  "is_active_alert a = (ae_status a = OPEN \<or> ae_status a = ACKNOWLEDGED)"

definition summarise_alerts :: "alert_event list \<Rightarrow> py list list" where
  "summarise_alerts qs =
     [summary_row ''summary'' ''total_alerts'' (length qs),
      summary_row ''summary'' ''open_total'' (count_rows is_active_alert qs),
      summary_row ''summary'' ''critical_open'' (count_rows (\<lambda>a. is_active_alert a \<and> ae_severity a = CRITICAL) qs),
      summary_row ''summary'' ''warning_open'' (count_rows (\<lambda>a. is_active_alert a \<and> ae_severity a = WARNING) qs),
      summary_row ''summary'' ''acknowledged_total'' (count_rows (\<lambda>a. ae_status a = ACKNOWLEDGED) qs),
      summary_row ''summary'' ''resolved_total'' (count_rows (\<lambda>a. ae_status a = RESOLVED) qs),
      summary_row ''summary'' ''unacknowledged_critical'' (count_rows (\<lambda>a. ae_status a = OPEN \<and> ae_severity a = CRITICAL) qs)]
     @ map (\<lambda>s. summary_row ''severity'' (severity_value s) (count_rows (\<lambda>a. ae_severity a = s) qs)) severities
     @ map (\<lambda>s. summary_row ''status'' (status_value s) (count_rows (\<lambda>a. ae_status a = s) qs)) alert_statuses"

definition summary_headers :: "string list" where
  "summary_headers = [''section'', ''label'', ''value'']"

definition alert_summary_rows :: "env \<Rightarrow> report_ctx \<Rightarrow> db \<Rightarrow> report_job \<Rightarrow> exn + report_rows" where
  "alert_summary_rows e c d j = (case alert_summary_alerts e c d j of
      Inl x \<Rightarrow> Inl x
    | Inr qs \<Rightarrow> Inr (summary_headers, summarise_alerts qs))"

subsection \<open>Notification delivery\<close>

definition metadata_is :: "notification \<Rightarrow> string \<Rightarrow> string \<Rightarrow> bool" where
  "metadata_is n key s = (dict_get (nt_metadata n) key = Some (PStr s))"

definition about_alerts :: "string list \<Rightarrow> notification \<Rightarrow> bool" where
  "about_alerts ids n = (list_ex (metadata_is n ''alert_event_id'') ids \<or> list_ex (metadata_is n ''alert_id'') ids)"

definition site_notifications :: "db \<Rightarrow> report_job \<Rightarrow> notification list" where
  "site_notifications d j =
     (let own = filter (\<lambda>n. nt_organization n = rj_organization j) (notifications d) in
      case rj_data_center j of
        None \<Rightarrow> own
      | Some k \<Rightarrow>
         (let ids = map (\<lambda>a. str_nat (ae_id a)) (filter (\<lambda>a. ae_organization a = rj_organization j \<and> ae_data_center a = k) (alert_events d))
          in filter (about_alerts ids) own))"

definition given_user :: "db \<Rightarrow> dict \<Rightarrow> string \<Rightarrow> string \<Rightarrow> exn + uuid option" where
  "given_user d params key message = (case given params key of
      None \<Rightarrow> Inr None
    | Some v \<Rightarrow> map_sum id (Some \<circ> usr_id) (get_row usr_id (users d) message v))"

definition notification_report :: "env \<Rightarrow> report_ctx \<Rightarrow> db \<Rightarrow> report_job \<Rightarrow> exn + notification list" where
  "notification_report e c d j =
     (let params = dict_or_empty (rj_parameters j) in
      case report_range e c params (get_report_config d j) False 90 of
        Inl x \<Rightarrow> Inl x
      | Inr (a, b) \<Rightarrow> (case given_user d params ''recipient_id'' ''Invalid recipient_id.'' of
          Inl x \<Rightarrow> Inl x
        | Inr recipient \<Rightarrow> (case normalize_choice_values e (dict_get params ''channel'') (map channel_value channels) ''channel'' of
            Inl x \<Rightarrow> Inl x
          | Inr chans \<Rightarrow> (case normalize_choice_values e (dict_get params ''status'') (map notification_status_value notification_statuses) ''status'' of
              Inl x \<Rightarrow> Inl x
            | Inr stats \<Rightarrow>
               (case (case given params ''device_id'' of None \<Rightarrow> Inr None | Some v \<Rightarrow> map_sum id (\<lambda>r. Some (dev_id r, v)) (resolve_device d j v)) of
                  Inl x \<Rightarrow> Inl x
                | Inr dev \<Rightarrow> Inr (filter (\<lambda>n. in_range a b (nt_created_at n) \<and> (case recipient of None \<Rightarrow> True | Some u \<Rightarrow> nt_recipient n = Some u)
                      \<and> one_of chans (channel_value (nt_channel n)) \<and> one_of stats (notification_status_value (nt_status n))
                      \<and> (case given params ''alert_id'' of None \<Rightarrow> True | Some v \<Rightarrow> about_alerts [py_str e v] n)
                      \<and> (case dev of None \<Rightarrow> True | Some (k, v) \<Rightarrow> metadata_is n ''device_id'' (str_nat k) \<or> metadata_is n ''device_id'' (py_str e v)))
                    (site_notifications d j)))))))"

definition summarise_notifications :: "notification list \<Rightarrow> py list list" where
  "summarise_notifications qs =
     [summary_row ''summary'' ''total'' (length qs),
      summary_row ''summary'' ''pending'' (count_rows (\<lambda>n. nt_status n = PENDING) qs),
      summary_row ''summary'' ''delivering'' (count_rows (\<lambda>n. nt_status n = DELIVERING) qs),
      summary_row ''summary'' ''sent'' (count_rows (\<lambda>n. nt_status n = SENT) qs),
      summary_row ''summary'' ''failed'' (count_rows (\<lambda>n. nt_status n = FAILED) qs),
      summary_row ''summary'' ''read_count'' (count_rows (\<lambda>n. nt_read_at n \<noteq> None) qs)]
     @ map (\<lambda>s. summary_row ''status'' (notification_status_value s) (count_rows (\<lambda>n. nt_status n = s) qs)) notification_statuses
     @ map (\<lambda>ch. summary_row ''channel'' (channel_value ch) (count_rows (\<lambda>n. nt_channel n = ch) qs)) channels"

definition notification_delivery_rows :: "env \<Rightarrow> report_ctx \<Rightarrow> db \<Rightarrow> report_job \<Rightarrow> exn + report_rows" where
  "notification_delivery_rows e c d j = (case notification_report e c d j of
      Inl x \<Rightarrow> Inl x
    | Inr qs \<Rightarrow> Inr (summary_headers, summarise_notifications qs))"

subsection \<open>Names in the exported rows\<close>

definition text_cell :: "string option \<Rightarrow> py" where
  "text_cell s = opt_py PStr s"

definition organization_name :: "db \<Rightarrow> uuid \<Rightarrow> py" where
  "organization_name d k = text_cell (map_option org_name (tbl_get org_id k (organizations d)))"

definition data_center_name :: "db \<Rightarrow> uuid \<Rightarrow> py" where
  "data_center_name d k = text_cell (map_option dc_name (data_center_of d k))"

definition device_room :: "db \<Rightarrow> device \<Rightarrow> room option" where
  "device_room d x = Option.bind (dev_room x) (room_of d)"

definition room_name :: "db \<Rightarrow> device \<Rightarrow> py" where
  "room_name d x = text_cell (map_option rm_name (device_room d x))"

definition rack_name :: "db \<Rightarrow> device \<Rightarrow> py" where
  "rack_name d x = text_cell (map_option rk_name (Option.bind (dev_rack x) (rack_of d)))"

definition device_model_of :: "report_ctx \<Rightarrow> device \<Rightarrow> (string \<times> string option) option" where
  "device_model_of c x = Option.bind (dev_device_model x) (map_of (device_models c))"

definition model_name :: "report_ctx \<Rightarrow> device \<Rightarrow> py" where
  "model_name c x = text_cell (map_option fst (device_model_of c x))"

definition device_type_name :: "db \<Rightarrow> device \<Rightarrow> py" where
  "device_type_name d x = text_cell (map_option dt_name (device_type_of d (dev_device_type x)))"

definition time_cell :: "env \<Rightarrow> time option \<Rightarrow> py" where
  "time_cell e t = opt_py (\<lambda>x. PStr (isoformat e x)) t"

definition user_label :: "report_ctx \<Rightarrow> db \<Rightarrow> uuid option \<Rightarrow> py" where
  "user_label c d k = (case Option.bind k (\<lambda>i. tbl_get usr_id i (users d)) of
      None \<Rightarrow> PStr []
    | Some u \<Rightarrow> PStr (if user_full_name c (usr_id u) \<noteq> [] then user_full_name c (usr_id u)
        else if usr_username u \<noteq> [] then usr_username u else if usr_email u \<noteq> [] then usr_email u else str_nat (usr_id u)))"

subsection \<open>Device inventory\<close>

definition inventory_device_filters :: "device_filter list" where
  "inventory_device_filters = [BY_ROOM, BY_RACK, BY_DEVICE, BY_MODEL, BY_TYPE]"

definition inventory_devices :: "env \<Rightarrow> report_ctx \<Rightarrow> db \<Rightarrow> report_job \<Rightarrow> exn + device list" where
  "inventory_devices e c d j =
     (let params = dict_or_empty (rj_parameters j) in
      case resolve_data_center_scope d j params False of
        Inl x \<Rightarrow> Inl x
      | Inr dc \<Rightarrow> (case device_conditions c d j params dc inventory_device_filters of
          Inl x \<Rightarrow> Inl x
        | Inr p \<Rightarrow> (case normalize_choice_values e (dict_get params ''status'') (map device_status_value device_statuses) ''status'' of
            Inl x \<Rightarrow> Inl x
          | Inr stats \<Rightarrow> (case normalize_bool e (dict_get params ''is_active'') ''is_active'' of
              Inl x \<Rightarrow> Inl x
            | Inr active \<Rightarrow> Inr (order_by (\<lambda>x. (dev_name x, dev_code x))
                (filter (\<lambda>x. dev_organization x = rj_organization j \<and> site_of_report dc (dev_data_center x) \<and> p x
                  \<and> one_of stats (device_status_value (dev_status x)) \<and> (case active of None \<Rightarrow> True | Some b \<Rightarrow> dev_is_active x = b))
                 (devices d)))))))"

definition inventory_row :: "env \<Rightarrow> report_ctx \<Rightarrow> db \<Rightarrow> device \<Rightarrow> py list" where
  "inventory_row e c d x =
     [PStr (str_nat (dev_id x)), organization_name d (dev_organization x), data_center_name d (dev_data_center x),
      room_name d x, rack_name d x, PStr (dev_name x), PStr (dev_code x), text_cell (device_hostname c (dev_id x)),
      text_cell (dev_ip_address x), device_type_name d x, model_name c x, text_cell (Option.bind (device_model_of c x) snd),
      PStr (device_status_value (dev_status x)), PBool (dev_is_active x), time_cell e (dev_last_seen_at x)]"

definition inventory_headers :: "string list" where
  "inventory_headers = [''device_id'', ''organization'', ''data_center'', ''room'', ''rack'', ''device'', ''code'', ''hostname'',
     ''ip_address'', ''device_type'', ''device_model'', ''vendor'', ''status'', ''is_active'', ''last_seen'']"

definition device_inventory_rows :: "env \<Rightarrow> report_ctx \<Rightarrow> db \<Rightarrow> report_job \<Rightarrow> exn + report_rows" where
  "device_inventory_rows e c d j = (case inventory_devices e c d j of
      Inl x \<Rightarrow> Inl x
    | Inr xs \<Rightarrow> Inr (inventory_headers, map (inventory_row e c d) xs))"

subsection \<open>Alert export\<close>

definition source_among :: "string list \<Rightarrow> alert_event \<Rightarrow> bool" where
  "source_among sources a = (sources = []
     \<or> (case dict_get (ae_metadata a) ''source'' of Some (PStr s) \<Rightarrow> s \<in> set sources | _ \<Rightarrow> False))"

definition exported_alerts :: "env \<Rightarrow> report_ctx \<Rightarrow> db \<Rightarrow> report_job \<Rightarrow> exn + alert_event list" where
  "exported_alerts e c d j =
     (let params = dict_or_empty (rj_parameters j) in
      case report_range e c params (get_report_config d j) True 90 of
        Inl x \<Rightarrow> Inl x
      | Inr (a, b) \<Rightarrow> (case resolve_data_center_scope d j params False of
          Inl x \<Rightarrow> Inl x
        | Inr dc \<Rightarrow> (case device_conditions c d j params dc all_device_filters of
            Inl x \<Rightarrow> Inl x
          | Inr p \<Rightarrow> (case resolve_metric_codes e params False of
              Inl x \<Rightarrow> Inl x
            | Inr codes \<Rightarrow> (case normalize_choice_values e (dict_get params ''severity'') (map severity_value severities) ''severity'' of
                Inl x \<Rightarrow> Inl x
              | Inr sevs \<Rightarrow> (case normalize_choice_values e (dict_get params ''status'') (map status_value alert_statuses) ''status'' of
                  Inl x \<Rightarrow> Inl x
                | Inr stats \<Rightarrow> Inr (order_by (\<lambda>al. (ae_triggered_at al, ae_id al))
                    (filter (\<lambda>al. ae_organization al = rj_organization j \<and> site_of_report dc (ae_data_center al)
                      \<and> in_range a b (ae_triggered_at al) \<and> alert_device d p al \<and> metric_among d codes al
                      \<and> one_of sevs (severity_value (ae_severity al)) \<and> one_of stats (status_value (ae_status al))
                      \<and> source_among (normalize_list e (dict_get params ''source'')) al) (alert_events d)))))))))"

definition export_alert_row :: "env \<Rightarrow> report_ctx \<Rightarrow> db \<Rightarrow> alert_event \<Rightarrow> py list" where
  "export_alert_row e c d a =
     (let dev = device_of d (ae_device a); cell = (\<lambda>f. case dev of None \<Rightarrow> PNone | Some x \<Rightarrow> f x) in
      [time_cell e (Some (ae_triggered_at a)), time_cell e (ae_resolved_at a), organization_name d (ae_organization a),
       data_center_name d (ae_data_center a), cell (room_name d), cell (rack_name d), cell (\<lambda>x. PStr (dev_name x)), cell (model_name c),
       text_cell (alert_metric_code d a), PStr (severity_value (ae_severity a)), PStr (status_value (ae_status a)), PStr (ae_message a),
       PInt (ae_occurrence_count a), user_label c d (ae_acknowledged_by a), user_label c d (ae_resolved_by a)])"

definition alert_export_headers :: "string list" where
  "alert_export_headers = [''triggered_at'', ''resolved_at'', ''organization'', ''data_center'', ''room'', ''rack'', ''device'',
     ''device_model'', ''metric'', ''severity'', ''status'', ''message'', ''occurrence_count'', ''acknowledged_by'', ''resolved_by'']"

definition alert_export_rows :: "env \<Rightarrow> report_ctx \<Rightarrow> db \<Rightarrow> report_job \<Rightarrow> exn + report_rows" where
  "alert_export_rows e c d j = (case exported_alerts e c d j of
      Inl x \<Rightarrow> Inl x
    | Inr qs \<Rightarrow> Inr (alert_export_headers, map (export_alert_row e c d) qs))"

end
