(* ===== verification/Report_Export.thy ===== *)
theory Report_Export
  imports Report_Rows
begin

text \<open>
  The exports of the audit trail and of the telemetry, the environment report, the CSV text and the choice of
  the report (\<open>apps/reports/services/generator.py\<close>). A CSV text is read back by a reader of the format, so the file
  shows exactly the cells of the rows.
\<close>

subsection \<open>Audit export\<close>

definition text_filter :: "env \<Rightarrow> dict \<Rightarrow> string \<Rightarrow> string option \<Rightarrow> bool" where
  "text_filter e params key column = (case given params key of None \<Rightarrow> True | Some v \<Rightarrow> column = Some (strip (py_str e v)))"

definition exported_audit :: "env \<Rightarrow> report_ctx \<Rightarrow> db \<Rightarrow> report_job \<Rightarrow> exn + audit_log list" where
  "exported_audit e c d j =
     (let params = dict_or_empty (rj_parameters j) in
      case report_range e c params (get_report_config d j) True 90 of
        Inl x \<Rightarrow> Inl x
      | Inr (a, b) \<Rightarrow> (case given_user d params ''actor_id'' ''Invalid actor_id.'' of
          Inl x \<Rightarrow> Inl x
        | Inr actor \<Rightarrow> (case normalize_choice_values e (dict_get params ''actions'') audit_actions ''actions'' of
            Inl x \<Rightarrow> Inl x
          | Inr acts \<Rightarrow> Inr (order_by au_created_at
              (filter (\<lambda>l. au_organization l = Some (rj_organization j) \<and> in_range a b (au_created_at l)
                \<and> (case actor of None \<Rightarrow> True | Some u \<Rightarrow> au_actor l = Some u) \<and> one_of acts (au_action l)
                \<and> text_filter e params ''resource_type'' (au_resource_type l) \<and> text_filter e params ''resource_id'' (au_resource_id l)
                \<and> text_filter e params ''ip_address'' (au_ip_address l)) (audit_logs d))))))"

definition audit_export_row :: "env \<Rightarrow> report_ctx \<Rightarrow> db \<Rightarrow> audit_log \<Rightarrow> py list" where
  "audit_export_row e c d l =
     [time_cell e (Some (au_created_at l)), user_label c d (au_actor l), PStr (au_action l), text_cell (au_resource_type l),
      text_cell (au_resource_id l), (case au_organization l of None \<Rightarrow> PNone | Some k \<Rightarrow> organization_name d k), text_cell (au_message l),
      text_cell (au_ip_address l), text_cell (au_user_agent l)]"

definition audit_export_headers :: "string list" where
  "audit_export_headers = [''created_at'', ''actor'', ''action'', ''resource_type'', ''resource_id'', ''organization'', ''message'',
     ''ip_address'', ''user_agent'']"

definition audit_export_rows :: "env \<Rightarrow> report_ctx \<Rightarrow> db \<Rightarrow> report_job \<Rightarrow> exn + report_rows" where
  "audit_export_rows e c d j = (case exported_audit e c d j of
      Inl x \<Rightarrow> Inl x
    | Inr ls \<Rightarrow> Inr (audit_export_headers, map (audit_export_row e c d) ls))"

subsection \<open>Telemetry\<close>

definition telemetry_value :: "telemetry_point \<Rightarrow> py" where
  "telemetry_value p = (case value_float (tp_values p) of
      Some r \<Rightarrow> PFloat r
    | None \<Rightarrow> (case value_integer (tp_values p) of
        Some i \<Rightarrow> PInt i
      | None \<Rightarrow> (case value_boolean (tp_values p) of
          Some b \<Rightarrow> PBool b
        | None \<Rightarrow> (case value_text (tp_values p) of
            Some s \<Rightarrow> PStr s
          | None \<Rightarrow> text_cell (tp_raw_value_text p)))))"

definition point_device :: "db \<Rightarrow> (device \<Rightarrow> bool) \<Rightarrow> telemetry_point \<Rightarrow> bool" where
  "point_device d p pt = (case device_of d (tp_device pt) of None \<Rightarrow> False | Some x \<Rightarrow> p x)"

definition point_device_name :: "db \<Rightarrow> telemetry_point \<Rightarrow> string" where
  "point_device_name d pt = (case device_of d (tp_device pt) of None \<Rightarrow> [] | Some x \<Rightarrow> dev_name x)"

definition point_metric_code :: "db \<Rightarrow> telemetry_point \<Rightarrow> string" where
  "point_metric_code d pt = (case metric_of d (tp_metric pt) of None \<Rightarrow> [] | Some me \<Rightarrow> me_code me)"

definition exported_points :: "env \<Rightarrow> report_ctx \<Rightarrow> db \<Rightarrow> report_job \<Rightarrow> exn + telemetry_point list" where
  "exported_points e c d j =
     (let params = dict_or_empty (rj_parameters j) in
      case report_range e c params (get_report_config d j) True 31 of
        Inl x \<Rightarrow> Inl x
      | Inr (a, b) \<Rightarrow> (case resolve_metric_codes e params True of
          Inl x \<Rightarrow> Inl x
        | Inr codes \<Rightarrow> (case resolve_telemetry_metrics d codes of
            Inl x \<Rightarrow> Inl x
          | Inr (_, ms) \<Rightarrow> (case resolve_data_center_scope d j params False of
              Inl x \<Rightarrow> Inl x
            | Inr dc \<Rightarrow> (case device_conditions c d j params dc all_device_filters of
                Inl x \<Rightarrow> Inl x
              | Inr p \<Rightarrow> Inr (order_by (\<lambda>pt. (tp_time pt, point_device_name d pt, point_metric_code d pt))
                  (filter (\<lambda>pt. tp_organization pt = rj_organization j \<and> tp_metric pt \<in> set (map me_id ms)
                    \<and> site_of_report dc (tp_data_center pt) \<and> in_range a b (tp_time pt) \<and> point_device d p pt) (points d))))))))"

definition device_cell :: "db \<Rightarrow> telemetry_point \<Rightarrow> (device \<Rightarrow> py) \<Rightarrow> py" where
  "device_cell d pt f = (case device_of d (tp_device pt) of None \<Rightarrow> PNone | Some x \<Rightarrow> f x)"

definition metric_cell :: "db \<Rightarrow> telemetry_point \<Rightarrow> (metric \<Rightarrow> py) \<Rightarrow> py" where
  "metric_cell d pt f = (case metric_of d (tp_metric pt) of None \<Rightarrow> PNone | Some me \<Rightarrow> f me)"

definition unit_cell :: "report_ctx \<Rightarrow> telemetry_point \<Rightarrow> py" where
  "unit_cell c pt = PStr (str_or (metric_unit c (tp_metric pt)) [])"

definition telemetry_row :: "report_ctx \<Rightarrow> db \<Rightarrow> telemetry_point \<Rightarrow> py list" where
  "telemetry_row c d pt =
     [PStr (local_minute c (tp_time pt)), organization_name d (tp_organization pt), data_center_name d (tp_data_center pt),
      device_cell d pt (room_name d), device_cell d pt (rack_name d), device_cell d pt (\<lambda>x. PStr (dev_name x)), device_cell d pt (model_name c),
      device_cell d pt (device_type_name d), metric_cell d pt (\<lambda>me. PStr (me_code me)), metric_cell d pt (\<lambda>me. PStr (me_name me)),
      telemetry_value pt, unit_cell c pt, PStr (quality_value (tp_quality pt))]"

definition telemetry_export_headers :: "string list" where
  "telemetry_export_headers = [''timestamp'', ''organization'', ''data_center'', ''room'', ''rack'', ''device'', ''device_model'',
     ''device_type'', ''metric_code'', ''metric_name'', ''value'', ''unit'', ''quality'']"

definition telemetry_export_rows :: "env \<Rightarrow> report_ctx \<Rightarrow> db \<Rightarrow> report_job \<Rightarrow> exn + report_rows" where
  "telemetry_export_rows e c d j = (case exported_points e c d j of
      Inl x \<Rightarrow> Inl x
    | Inr ps \<Rightarrow> Inr (telemetry_export_headers, map (telemetry_row c d) ps))"

subsection \<open>Room environment\<close>

definition listed_codes :: "env \<Rightarrow> dict \<Rightarrow> string list" where
  "listed_codes e kvs = (case dict_get kvs ''metrics'' of Some (PList vs) \<Rightarrow> stripped_texts e vs | _ \<Rightarrow> [])"

definition environment_codes :: "env \<Rightarrow> db \<Rightarrow> report_job \<Rightarrow> string list" where
  "environment_codes e d j =
     (let own = listed_codes e (dict_or_empty (rj_parameters j)); from_template = listed_codes e (get_report_config d j) in
      if own \<noteq> [] then own else if from_template \<noteq> [] then from_template else [''room_temperature'', ''room_humidity''])"

definition environment_metrics :: "env \<Rightarrow> db \<Rightarrow> report_job \<Rightarrow> metric list" where
  "environment_metrics e d j = filter (\<lambda>me. me_code me \<in> set (environment_codes e d j) \<and> me_is_active me) (metrics d)"

definition room_key :: "db \<Rightarrow> telemetry_point \<Rightarrow> nat \<times> string" where
  "room_key d pt = (case Option.bind (device_of d (tp_device pt)) (device_room d) of None \<Rightarrow> (1, []) | Some r \<Rightarrow> (0, rm_name r))"

definition environment_points :: "env \<Rightarrow> report_ctx \<Rightarrow> db \<Rightarrow> report_job \<Rightarrow> exn + telemetry_point list" where
  "environment_points e c d j =
     (case parse_report_date_range e c (dict_or_empty (rj_parameters j)) False of
        Inl x \<Rightarrow> Inl x
      | Inr (a, b) \<Rightarrow> Inr (order_by (\<lambda>pt. (room_key d pt, point_device_name d pt, tp_time pt, point_metric_code d pt))
          (filter (\<lambda>pt. tp_organization pt = rj_organization j \<and> tp_metric pt \<in> set (map me_id (environment_metrics e d j))
            \<and> (case rj_data_center j of None \<Rightarrow> True | Some k \<Rightarrow> tp_data_center pt = k) \<and> in_range a b (tp_time pt)
            \<and> point_device d (\<lambda>_. True) pt) (points d))))"

definition environment_row :: "env \<Rightarrow> report_ctx \<Rightarrow> db \<Rightarrow> telemetry_point \<Rightarrow> py list" where
  "environment_row e c d pt =
     (let r = Option.bind (device_of d (tp_device pt)) (device_room d) in
      [PStr (str_or (map_option rm_name r) ''Unassigned''), PStr (str_or (map_option rm_code r) []),
       device_cell d pt (\<lambda>x. PStr (dev_name x)), device_cell d pt (\<lambda>x. PStr (dev_code x)), metric_cell d pt (\<lambda>me. PStr (me_code me)),
       metric_cell d pt (\<lambda>me. PStr (me_name me)), time_cell e (Some (tp_time pt)), telemetry_value pt, unit_cell c pt,
       PStr (quality_value (tp_quality pt)), PStr (str_or (tp_source pt) [])])"

definition environment_headers :: "string list" where
  "environment_headers = [''room_name'', ''room_code'', ''device_name'', ''device_code'', ''metric_code'', ''metric_name'', ''measured_at'',
     ''value'', ''unit'', ''quality'', ''source'']"

definition room_environment_rows :: "env \<Rightarrow> report_ctx \<Rightarrow> db \<Rightarrow> report_job \<Rightarrow> exn + report_rows" where
  "room_environment_rows e c d j =
     (if environment_metrics e d j = [] then Inr (environment_headers, [])
      else (case environment_points e c d j of
        Inl x \<Rightarrow> Inl x
      | Inr ps \<Rightarrow> Inr (environment_headers, map (environment_row e c d) ps)))"

subsection \<open>CSV\<close>

text \<open>\<open>csv.DictWriter\<close> with its defaults: fields are quoted when they hold a comma, a quote or a line break.\<close>

definition QUOTE :: char where "QUOTE = CHR 0x22"
definition COMMA :: char where "COMMA = CHR 0x2C"
definition CR :: char where "CR = CHR 0x0D"
definition LF :: char where "LF = CHR 0x0A"

definition csv_plain :: "char \<Rightarrow> bool" where
  "csv_plain ch = (ch \<noteq> QUOTE \<and> ch \<noteq> COMMA \<and> ch \<noteq> CR \<and> ch \<noteq> LF)"

definition csv_escape :: "string \<Rightarrow> string" where
  "csv_escape s = concat (map (\<lambda>ch. if ch = QUOTE then [QUOTE, QUOTE] else [ch]) s)"

definition csv_field :: "string \<Rightarrow> string" where
  "csv_field s = (if list_all csv_plain s then s else QUOTE # csv_escape s @ [QUOTE])"

definition csv_line :: "string list \<Rightarrow> string" where
  "csv_line fs = (if fs = [[]] then [QUOTE, QUOTE] else join [COMMA] (map csv_field fs)) @ [CR, LF]"

definition csv_cell :: "env \<Rightarrow> py \<Rightarrow> string" where
  "csv_cell e v = (if v = PNone then [] else py_str e v)"

definition render_csv :: "env \<Rightarrow> string list \<Rightarrow> py list list \<Rightarrow> string" where
  "render_csv e headers rows = csv_line headers @ concat (map (\<lambda>r. csv_line (map (csv_cell e) r)) rows)"

subsection \<open>The report\<close>

definition report_rows_of :: "env \<Rightarrow> report_ctx \<Rightarrow> db \<Rightarrow> report_job \<Rightarrow> string \<Rightarrow> exn + report_rows" where
  "report_rows_of e c d j t =
     (if t = ''alert_summary'' then alert_summary_rows e c d j
      else if t = ''notification_delivery'' then notification_delivery_rows e c d j
      else if t = ''device_inventory'' then device_inventory_rows e c d j
      else if t = ''alert_export'' then alert_export_rows e c d j
      else if t = ''audit_export'' then audit_export_rows e c d j
      else if t = ''telemetry_export'' then telemetry_export_rows e c d j
      else if t = ''room_environment'' then room_environment_rows e c d j
      else Inl (ValueError (''Unsupported report type: '' @ t)))"

definition build_report :: "env \<Rightarrow> report_ctx \<Rightarrow> db \<Rightarrow> report_job \<Rightarrow> exn + (string \<times> string)" where
  "build_report e c d j = (case resolve_report_type e d j of
      Inl x \<Rightarrow> Inl x
    | Inr t \<Rightarrow> (case resolve_output_format e d j of
        Inl x \<Rightarrow> Inl x
      | Inr _ \<Rightarrow> (case report_rows_of e c d j t of
          Inl x \<Rightarrow> Inl x
        | Inr (headers, rows) \<Rightarrow> Inr (t, render_csv e headers rows))))"

definition report_filename :: "env \<Rightarrow> report_ctx \<Rightarrow> db \<Rightarrow> report_job \<Rightarrow> string \<Rightarrow> string" where
  "report_filename e c d j t =
     (let org = tbl_get org_id (rj_organization j) (organizations d);
          label = str_or (map_option org_code org) (str_or (map_option org_name org) (str_nat (rj_organization j)));
          slug = (if slugify c label = [] then str_nat (rj_organization j) else slugify c label) in
      slug @ ''/'' @ t @ ''_'' @ str_nat (rj_id j) @ ''_'' @ file_stamp c (now e) @ ''.csv'')"

subsection \<open>Reading a CSV text back\<close>

fun read_quoted :: "string \<Rightarrow> string \<times> string" where
  "read_quoted [] = ([], [])"
| "read_quoted [ch] = (if ch = QUOTE then ([], []) else ([ch], []))"
| "read_quoted (a # b # s) =
     (if a = QUOTE then (if b = QUOTE then (let (f, r) = read_quoted s in (QUOTE # f, r)) else ([], b # s))
      else (let (f, r) = read_quoted (b # s) in (a # f, r)))"

definition read_field :: "string \<Rightarrow> string \<times> string" where
  "read_field s = (case s of
      ch # cs \<Rightarrow> if ch = QUOTE then read_quoted cs else (takeWhile csv_plain s, dropWhile csv_plain s)
    | [] \<Rightarrow> ([], []))"

text \<open>The fuel bounds the number of fields and of lines; the length of the text is enough.\<close>

fun read_line :: "nat \<Rightarrow> string \<Rightarrow> string list \<times> string" where
  "read_line 0 s = ([], s)"
| "read_line (Suc n) s =
     (let (f, r) = read_field s in
      case r of
        [] \<Rightarrow> ([f], [])
      | ch # r' \<Rightarrow> if ch = COMMA then (let (fs, r2) = read_line n r' in (f # fs, r2)) else ([f], drop 1 r'))"

fun read_csv :: "nat \<Rightarrow> string \<Rightarrow> string list list" where
  "read_csv 0 s = []"
| "read_csv (Suc n) s = (if s = [] then [] else (let (fs, r) = read_line (length s) s in fs # read_csv n r))"

lemma csv_chars [simp]: "QUOTE \<noteq> COMMA" "QUOTE \<noteq> CR" "QUOTE \<noteq> LF" "COMMA \<noteq> CR" "COMMA \<noteq> QUOTE" "CR \<noteq> QUOTE" "CR \<noteq> COMMA" "LF \<noteq> QUOTE"
  by (simp_all add: QUOTE_def COMMA_def CR_def LF_def)

lemma csv_escape_simps [simp]:
  "csv_escape [] = []"
  "csv_escape (ch # s) = (if ch = QUOTE then QUOTE # QUOTE # csv_escape s else ch # csv_escape s)"
  by (simp_all add: csv_escape_def)

definition ends_field :: "string \<Rightarrow> bool" where
  "ends_field r = (case r of [] \<Rightarrow> True | ch # _ \<Rightarrow> ch = COMMA \<or> ch = CR)"

lemma read_quoted_escape: "ends_field r \<Longrightarrow> read_quoted (csv_escape s @ QUOTE # r) = (s, r)"
proof (induction s)
  case Nil
  then show ?case by (cases r) (auto simp: ends_field_def)
next
  case (Cons ch s)
  then have IH: "read_quoted (csv_escape s @ QUOTE # r) = (s, r)" by simp
  obtain b t where bt: "csv_escape s @ QUOTE # r = b # t" by (cases "csv_escape s @ QUOTE # r") auto
  show ?case
  proof (cases "ch = QUOTE")
    case True
    then show ?thesis using IH by simp
  next
    case False
    have "read_quoted (ch # b # t) = (ch # s, r)" using False IH by (simp add: bt)
    then show ?thesis using False by (simp add: bt)
  qed
qed

lemma read_field_plain:
  assumes "list_all csv_plain s" and "ends_field r"
  shows "takeWhile csv_plain (s @ r) = s \<and> dropWhile csv_plain (s @ r) = r"
proof -
  have r: "takeWhile csv_plain r = []" "dropWhile csv_plain r = r"
    using assms(2) by (cases r; auto simp: ends_field_def csv_plain_def)+
  have "\<forall>ch \<in> set s. csv_plain ch" using assms(1) by (simp add: list_all_iff)
  then show ?thesis using r by simp
qed

lemma read_field_csv: "ends_field r \<Longrightarrow> read_field (csv_field s @ r) = (s, r)"
proof (cases "list_all csv_plain s")
  case True
  assume r: "ends_field r"
  show ?thesis
  proof (cases "s @ r")
    case Nil
    then show ?thesis using True by (simp add: csv_field_def read_field_def)
  next
    case (Cons ch cs)
    have "ch \<noteq> QUOTE" using True r Cons by (cases s) (auto simp: ends_field_def csv_plain_def)
    then show ?thesis using read_field_plain [OF True r] True Cons by (simp add: csv_field_def read_field_def)
  qed
next
  case False
  assume "ends_field r"
  then show ?thesis using False by (simp add: csv_field_def read_field_def read_quoted_escape)
qed

lemma read_line_fields:
  assumes "fs \<noteq> []" and "length fs \<le> n"
  shows "read_line n (join [COMMA] (map csv_field fs) @ CR # LF # r) = (fs, r)"
  using assms
proof (induction fs arbitrary: n)
  case Nil
  then show ?case by simp
next
  case (Cons f fs)
  then obtain k where n: "n = Suc k" and k: "length fs \<le> k" by (cases n) auto
  show ?case
  proof (cases fs)
    case Nil
    have "read_field (csv_field f @ CR # LF # r) = (f, CR # LF # r)" by (rule read_field_csv) (simp add: ends_field_def)
    then show ?thesis by (simp add: n Nil)
  next
    case (Cons g gs)
    have "read_field (csv_field f @ COMMA # join [COMMA] (map csv_field fs) @ CR # LF # r)
        = (f, COMMA # join [COMMA] (map csv_field fs) @ CR # LF # r)"
      by (rule read_field_csv) (simp add: ends_field_def)
    moreover have "read_line k (join [COMMA] (map csv_field fs) @ CR # LF # r) = (fs, r)" using Cons.IH Cons k by simp
    ultimately show ?thesis by (simp add: n Cons)
  qed
qed

lemma join_length: "fs \<noteq> [] \<Longrightarrow> length fs \<le> Suc (length (join [COMMA] (map csv_field fs)))"
proof (induction fs)
  case (Cons f fs)
  then show ?case by (cases fs) auto
qed simp

lemma read_csv_line: "fs \<noteq> [] \<Longrightarrow> read_line (length (csv_line fs @ r)) (csv_line fs @ r) = (fs, r)"
proof (cases "fs = [[]]")
  case True
  have "read_line (Suc k) (QUOTE # QUOTE # CR # LF # r) = ([[]], r)" for k by (simp add: read_field_def)
  then show ?thesis using True by (simp add: csv_line_def)
next
  case False
  assume ne: "fs \<noteq> []"
  have e: "csv_line fs @ r = join [COMMA] (map csv_field fs) @ CR # LF # r" using False by (simp add: csv_line_def)
  have "length fs \<le> length (csv_line fs @ r)" using join_length [OF ne] False by (simp add: csv_line_def)
  then show ?thesis using read_line_fields [OF ne, of "length (csv_line fs @ r)" r] unfolding e by simp
qed

lemma csv_line_nonempty: "csv_line fs @ r \<noteq> []"
  by (simp add: csv_line_def)

lemma read_csv_lines:
  assumes "\<forall>fs \<in> set lines. fs \<noteq> []" and "length lines \<le> n"
  shows "read_csv n (concat (map csv_line lines)) = lines"
  using assms
proof (induction lines arbitrary: n)
  case Nil
  then show ?case by (cases n) simp_all
next
  case (Cons fs ls)
  then obtain k where n: "n = Suc k" "length ls \<le> k" by (cases n) auto
  have IH: "read_csv k (concat (map csv_line ls)) = ls" using Cons n by simp
  show ?case using csv_line_nonempty [of fs "concat (map csv_line ls)"] read_csv_line [of fs "concat (map csv_line ls)"] Cons.prems IH
    by (simp add: n(1) del: append_is_Nil_conv)
qed

lemma csv_lines_length: "length lines \<le> length (concat (map csv_line lines))"
  by (induction lines) (auto simp: csv_line_def)

lemma summary_shape: "row \<in> set (summarise_alerts qs) \<Longrightarrow> length row = 3" "row \<in> set (summarise_notifications ns) \<Longrightarrow> length row = 3"
  by (auto simp: summarise_alerts_def summarise_notifications_def summary_row_def)

lemma row_lengths [simp]:
  "length (inventory_row e c d x) = 15" "length (export_alert_row e c d a) = 15" "length (audit_export_row e c d l) = 9"
  "length (telemetry_row c d pt) = 13" "length (environment_row e c d pt) = 11"
  "length summary_headers = 3" "length inventory_headers = 15" "length alert_export_headers = 15" "length audit_export_headers = 9"
  "length telemetry_export_headers = 13" "length environment_headers = 11"
  by (simp_all add: inventory_row_def export_alert_row_def audit_export_row_def telemetry_row_def environment_row_def Let_def
      summary_headers_def inventory_headers_def alert_export_headers_def audit_export_headers_def telemetry_export_headers_def environment_headers_def)

text \<open>Every report has a header, and its rows have one cell per column.\<close>

lemma report_shape:
  assumes "report_rows_of e c d j t = Inr (headers, rows)"
  shows "headers \<noteq> [] \<and> (\<forall>row \<in> set rows. length row = length headers)"
proof -
  consider "alert_summary_rows e c d j = Inr (headers, rows)" | "notification_delivery_rows e c d j = Inr (headers, rows)"
    | "device_inventory_rows e c d j = Inr (headers, rows)" | "alert_export_rows e c d j = Inr (headers, rows)"
    | "audit_export_rows e c d j = Inr (headers, rows)" | "telemetry_export_rows e c d j = Inr (headers, rows)"
    | "room_environment_rows e c d j = Inr (headers, rows)"
    using assms unfolding report_rows_of_def by (auto split: if_splits)
  then show ?thesis
  proof cases
    case 1
    then show ?thesis by (auto simp: alert_summary_rows_def summary_headers_def dest: summary_shape split: sum.splits)
  next
    case 2
    then show ?thesis by (auto simp: notification_delivery_rows_def summary_headers_def dest: summary_shape split: sum.splits)
  next
    case 3
    then have "length headers = 15 \<and> (\<forall>row \<in> set rows. length row = 15)" by (auto simp: device_inventory_rows_def split: sum.splits)
    then show ?thesis by auto
  next
    case 4
    then have "length headers = 15 \<and> (\<forall>row \<in> set rows. length row = 15)" by (auto simp: alert_export_rows_def split: sum.splits)
    then show ?thesis by auto
  next
    case 5
    then have "length headers = 9 \<and> (\<forall>row \<in> set rows. length row = 9)" by (auto simp: audit_export_rows_def split: sum.splits)
    then show ?thesis by auto
  next
    case 6
    then have "length headers = 13 \<and> (\<forall>row \<in> set rows. length row = 13)" by (auto simp: telemetry_export_rows_def split: sum.splits)
    then show ?thesis by auto
  next
    case 7
    then have "length headers = 11 \<and> (\<forall>row \<in> set rows. length row = 11)" by (auto simp: room_environment_rows_def split: sum.splits if_splits)
    then show ?thesis by auto
  qed
qed

text \<open>C18. Whatever the cells hold (commas, quotes, line breaks), the file of a report reads back as its header and its rows,
  each with the cells of the header's columns.\<close>

theorem csv_roundtrip:
  assumes "report_rows_of e c d j t = Inr (headers, rows)"
  shows "read_csv (length (render_csv e headers rows)) (render_csv e headers rows) = headers # map (map (csv_cell e)) rows
    \<and> (\<forall>row \<in> set rows. length row = length headers)"
proof -
  have shape: "headers \<noteq> [] \<and> (\<forall>row \<in> set rows. length row = length headers)" using assms by (rule report_shape)
  let ?lines = "headers # map (map (csv_cell e)) rows"
  have all_lines: "render_csv e headers rows = concat (map csv_line ?lines)" by (simp add: render_csv_def comp_def)
  have "\<forall>fs \<in> set ?lines. fs \<noteq> []" using shape by auto
  then have "read_csv (length (concat (map csv_line ?lines))) (concat (map csv_line ?lines)) = ?lines"
    by (rule read_csv_lines) (rule csv_lines_length)
  with shape all_lines show ?thesis by simp
qed

lemma csv_roundtrip_witness:
  "read_csv (length (render_csv (plain_env 0) environment_headers [])) (render_csv (plain_env 0) environment_headers []) = [environment_headers]"
proof -
  define j where "j = \<lparr>rj_id = 1, rj_created_at = 0, rj_organization = 1, rj_data_center = None, rj_template = None, rj_requested_by = None,
    rj_status = JOB_PROCESSING, rj_parameters = PDict [], rj_file = None, rj_started_at = None, rj_completed_at = None,
    rj_error_message = None\<rparr>"
  have "report_rows_of (plain_env 0) c empty_db j ''room_environment'' = Inr (environment_headers, [])" for c
    by (simp add: report_rows_of_def room_environment_rows_def environment_metrics_def empty_db_def)
  from csv_roundtrip [OF this] show ?thesis by simp
qed

end
