(* ===== verification/Report_Jobs.thy ===== *)
theory Report_Jobs
  imports Report_Export
begin

text \<open>
  The life of a report job (\<open>apps/reports/models.py\<close>, class \<open>ReportJob\<close>; \<open>services/generator.py\<close>;
  \<open>views.py\<close>): validation and saving, generation, and what a user may do with a job. What other transactions do while a
  report is built is an argument (\<open>other\<close>); the clock is read once when generation starts and once when it ends.
\<close>

subsection \<open>Validation and saving\<close>

definition terminal_status :: "job_status \<Rightarrow> bool" where
  "terminal_status s = (s = JOB_COMPLETED \<or> s = JOB_FAILED \<or> s = JOB_CANCELLED)"

definition job_field_errors :: "db \<Rightarrow> report_job \<Rightarrow> (string \<times> string list) list" where
  "job_field_errors d j =
     (if tbl_get org_id (rj_organization j) (organizations d) = None then [(''organization'', [''organization instance does not exist.''])] else [])
     @ (case rj_data_center j of None \<Rightarrow> []
        | Some k \<Rightarrow> if data_center_of d k = None then [(''data_center'', [''data center instance does not exist.''])] else [])
     @ (case rj_template j of None \<Rightarrow> []
        | Some k \<Rightarrow> if tbl_get rt_id k (report_templates d) = None then [(''template'', [''report template instance does not exist.''])] else [])
     @ (case rj_requested_by j of None \<Rightarrow> []
        | Some k \<Rightarrow> if tbl_get usr_id k (users d) = None then [(''requested_by'', [''user instance does not exist.''])] else [])"

definition job_site_errors :: "db \<Rightarrow> report_job \<Rightarrow> exn + (string \<times> string list) list" where
  "job_site_errors d j = (case rj_data_center j of
      None \<Rightarrow> Inr []
    | Some k \<Rightarrow> (case data_center_of d k of
        None \<Rightarrow> Inl DoesNotExist
      | Some c \<Rightarrow> Inr (if dc_organization c \<noteq> rj_organization j
          then [(''data_center'', [''Data center must belong to the selected organization.''])] else [])))"

definition job_template_errors :: "db \<Rightarrow> report_job \<Rightarrow> exn + (string \<times> string list) list" where
  "job_template_errors d j = (case rj_template j of
      None \<Rightarrow> Inr []
    | Some k \<Rightarrow> (case tbl_get rt_id k (report_templates d) of
        None \<Rightarrow> Inl DoesNotExist
      | Some t \<Rightarrow> Inr (if rt_organization t \<noteq> rj_organization j
          then [(''template'', [''Template must belong to the selected organization.''])] else [])))"

definition job_time_errors :: "report_job \<Rightarrow> (string \<times> string list) list" where
  "job_time_errors j =
     (case (rj_started_at j, rj_completed_at j) of
        (Some s, Some t) \<Rightarrow> if s > t then [(''started_at'', [''Started time cannot be after completed time.'']),
            (''completed_at'', [''Completed time cannot be before started time.''])] else []
      | _ \<Rightarrow> [])
     @ (if rj_status j = JOB_PENDING \<and> rj_started_at j \<noteq> None then [(''started_at'', [''Pending jobs cannot have a started time.''])] else [])
     @ (if rj_status j = JOB_PENDING \<and> rj_completed_at j \<noteq> None then [(''completed_at'', [''Pending jobs cannot have a completed time.''])] else [])
     @ (if rj_status j = JOB_PROCESSING \<and> rj_started_at j = None then [(''started_at'', [''Processing jobs must have a started time.''])] else [])
     @ (if rj_status j = JOB_PROCESSING \<and> rj_completed_at j \<noteq> None
        then [(''completed_at'', [''Processing jobs cannot have a completed time.''])] else [])
     @ (if terminal_status (rj_status j) \<and> rj_started_at j = None then [(''started_at'', [''Completed jobs must have a started time.''])] else [])
     @ (if terminal_status (rj_status j) \<and> rj_completed_at j = None then [(''completed_at'', [''Terminal jobs must have a completed time.''])] else [])"

definition full_clean_job :: "db \<Rightarrow> bool \<Rightarrow> report_job \<Rightarrow> exn + unit" where
  "full_clean_job d adding j = (case job_site_errors d j of
      Inl x \<Rightarrow> Inl x
    | Inr site \<Rightarrow> (case job_template_errors d j of
        Inl x \<Rightarrow> Inl x
      | Inr tmpl \<Rightarrow> raise_errors
          (job_field_errors d j
           @ (if \<not> is_dict (rj_parameters j) then [(''parameters'', [''Parameters must be a dictionary/object.''])] else [])
           @ site @ tmpl
           @ (if adding \<and> rj_requested_by j = None then [(''requested_by'', [''Requested by is required for user-created jobs.''])] else [])
           @ job_time_errors j)))"

definition job_of :: "db \<Rightarrow> uuid \<Rightarrow> report_job option" where
  "job_of d k = tbl_get rj_id k (report_jobs d)"

text \<open>\<open>save(update_fields=...)\<close> copies the named fields of the object (\<open>copy\<close>) into its row.\<close>

definition save_job :: "(report_job \<Rightarrow> report_job \<Rightarrow> report_job) \<Rightarrow> report_job \<Rightarrow> db \<Rightarrow> (exn + report_job) \<times> db" where
  "save_job copy j d = (case full_clean_job d False j of
      Inl x \<Rightarrow> (Inl x, d)
    | Inr _ \<Rightarrow> if job_of d (rj_id j) = None then (Inl DatabaseError, d)
        else (Inr j, d\<lparr>report_jobs := tbl_update rj_id (rj_id j) (copy j) (report_jobs d)\<rparr>))"

definition create_job :: "report_job \<Rightarrow> db \<Rightarrow> (exn + report_job) \<times> db" where
  "create_job j d = (case full_clean_job d True j of
      Inl x \<Rightarrow> (Inl x, d)
    | Inr _ \<Rightarrow> (Inr j, d\<lparr>report_jobs := tbl_insert j (report_jobs d)\<rparr>))"

subsection \<open>Generation\<close>

text \<open>\<open>_safe_write_audit\<close>: an entry the database refuses (an address that is none) is dropped.\<close>

definition audit_job :: "env \<Rightarrow> web_request option \<Rightarrow> (string \<Rightarrow> bool) \<Rightarrow> string \<Rightarrow> report_job \<Rightarrow> uuid option \<Rightarrow> string \<Rightarrow> db \<Rightarrow> db" where
  "audit_job e req inet action j actor message d =
     snd (write_audit inet e req action (Some ''ReportJob'') (Some (rj_id j)) None None (Some message) (Some (rj_organization j)) actor d)"

text \<open>A task runs outside any request, so its audit entries have no address and are always accepted.\<close>

definition task_audit :: "env \<Rightarrow> string \<Rightarrow> report_job \<Rightarrow> string \<Rightarrow> db \<Rightarrow> db" where
  "task_audit e action j message d = audit_job e None (\<lambda>_. True) action j (rj_requested_by j) message d"

text \<open>
  Inside an \<open>atomic\<close> block an entry the database refuses breaks the transaction although the code swallows the error: the
  block is rolled back to \<open>d0\<close> at its end, without an exception.
\<close>

definition audit_in_block ::
    "web_request option \<Rightarrow> (string \<Rightarrow> bool) \<Rightarrow> env \<Rightarrow> string \<Rightarrow> report_job \<Rightarrow> string \<Rightarrow> db \<Rightarrow> db \<Rightarrow> db" where
  "audit_in_block req inet e action j message d0 d =
     (case write_audit inet e req action (Some ''ReportJob'') (Some (rj_id j)) None None (Some message) (Some (rj_organization j)) (rj_requested_by j) d of
        (Inl _, _) \<Rightarrow> d0
      | (Inr _, d') \<Rightarrow> d')"

definition copy_started :: "report_job \<Rightarrow> report_job \<Rightarrow> report_job" where
  "copy_started j row = row\<lparr>rj_status := rj_status j, rj_started_at := rj_started_at j, rj_error_message := rj_error_message j\<rparr>"

definition type_label :: "env \<Rightarrow> db \<Rightarrow> report_job \<Rightarrow> string" where
  "type_label e d j = (if truthy (job_report_type d j) then py_str e (job_report_type d j) else ''unknown'')"

text \<open>The first block: whether the job is to be built, with the job as it is then.\<close>

definition start_generation :: "web_request option \<Rightarrow> (string \<Rightarrow> bool) \<Rightarrow> env \<Rightarrow> uuid \<Rightarrow> db \<Rightarrow> (exn + (report_job \<times> bool)) \<times> db" where
  "start_generation req inet e k d = (case job_of d k of
      None \<Rightarrow> (Inl (ValueError (''Report job '' @ str_nat k @ '' does not exist.'')), d)
    | Some j \<Rightarrow>
        if rj_status j = JOB_CANCELLED then (Inr (j, False), d)
        else if rj_status j \<noteq> JOB_PENDING \<and> rj_status j \<noteq> JOB_FAILED then (Inr (j, False), d)
        else (let j' = j\<lparr>rj_status := JOB_PROCESSING,
                rj_started_at := Some (case rj_started_at j of Some t \<Rightarrow> t | None \<Rightarrow> now e), rj_error_message := Some []\<rparr> in
          case save_job copy_started j' d of
            (Inl x, d') \<Rightarrow> (Inl x, d')
          | (Inr _, d') \<Rightarrow> (Inr (j', True),
              audit_in_block req inet e ''REPORT_GENERATION_STARTED'' j' (''Report generation started for '' @ type_label e d' j') d d')))"

definition copy_finished :: "report_job \<Rightarrow> report_job \<Rightarrow> report_job" where
  "copy_finished j row = row\<lparr>rj_file := rj_file j, rj_status := rj_status j, rj_completed_at := rj_completed_at j,
     rj_error_message := rj_error_message j\<rparr>"

definition finish_generation :: "env \<Rightarrow> uuid \<Rightarrow> string \<Rightarrow> string \<Rightarrow> db \<Rightarrow> (exn + (report_job \<times> bool)) \<times> db" where
  "finish_generation e k filename text d = (case job_of d k of
      None \<Rightarrow> (Inl DoesNotExist, d)
    | Some j \<Rightarrow>
        if rj_status j = JOB_CANCELLED then (Inr (j, False), d)
        else (let j' = j\<lparr>rj_file := Some (''reports/'' @ filename, text), rj_status := JOB_COMPLETED,
                rj_completed_at := Some (now e), rj_error_message := Some []\<rparr> in
          case save_job copy_finished j' d of (Inl x, d') \<Rightarrow> (Inl x, d') | (Inr _, d') \<Rightarrow> (Inr (j', True), d')))"

definition copy_failed :: "report_job \<Rightarrow> report_job \<Rightarrow> report_job" where
  "copy_failed j row = row\<lparr>rj_status := rj_status j, rj_completed_at := rj_completed_at j, rj_error_message := rj_error_message j\<rparr>"

text \<open>
  The errors of the fields and of \<open>clean\<close> end in one dict, a field once. \<open>failure_message\<close> is \<open>"; ".join(exc.messages)\<close>
  of a validation error and \<open>str(exc)\<close> otherwise; \<open>error_text\<close> is \<open>str(exc)\<close> in both cases, the text of a dict or a list.
\<close>

definition grouped :: "error_lists \<Rightarrow> error_lists" where
  "grouped es = foldl (\<lambda>g (field, messages). foldl (\<lambda>g m. err_append g field m) g messages) [] es"

definition failure_message :: "exn \<Rightarrow> string" where
  "failure_message x = (case x of
      ValidationError es \<Rightarrow> join ''; '' (filter (\<lambda>s. s \<noteq> []) (concat (map snd (grouped es))))
    | _ \<Rightarrow> exn_text x)"

definition error_text :: "env \<Rightarrow> exn \<Rightarrow> string" where
  "error_text e x = (case x of
      ValidationError es \<Rightarrow> (case es of
          [([], messages)] \<Rightarrow> py_str e (PList (map PStr messages))
        | _ \<Rightarrow> py_str e (PDict (map (\<lambda>(field, messages). (field, PList (map PStr messages))) (grouped es))))
    | _ \<Rightarrow> exn_text x)"

definition fail_generation :: "web_request option \<Rightarrow> (string \<Rightarrow> bool) \<Rightarrow> env \<Rightarrow> uuid \<Rightarrow> string \<Rightarrow> db \<Rightarrow> (exn + report_job option) \<times> db" where
  "fail_generation req inet e k message d = (case job_of d k of
      None \<Rightarrow> (Inr None, d)
    | Some j \<Rightarrow>
       (let j' = j\<lparr>rj_status := JOB_FAILED, rj_completed_at := Some (now e), rj_error_message := Some message\<rparr> in
        case save_job copy_failed j' d of
          (Inl x, d') \<Rightarrow> (Inl x, d')
        | (Inr _, d') \<Rightarrow> (Inr (Some j'), audit_in_block req inet e ''REPORT_GENERATION_FAILED'' j' message d d')))"

definition generate_report_job ::
    "web_request option \<Rightarrow> (string \<Rightarrow> bool) \<Rightarrow> env \<Rightarrow> env \<Rightarrow> report_ctx \<Rightarrow> (db \<Rightarrow> db) \<Rightarrow> uuid \<Rightarrow> db \<Rightarrow> (exn + report_job option) \<times> db" where
  "generate_report_job req inet e e2 c other k d = (case atomic (start_generation req inet e k) d of
      (Inl x, d1) \<Rightarrow> (Inl x, d1)
    | (Inr (j, build), d1) \<Rightarrow>
        if \<not> build then (Inr (Some j), d1)
        else (case build_report e2 c d1 j of
          Inl x \<Rightarrow> atomic (fail_generation req inet e2 k (failure_message x)) (other d1)
        | Inr (t, text) \<Rightarrow> (case atomic (finish_generation e2 k (report_filename e2 c d1 j t) text) (other d1) of
            (Inl x, d2) \<Rightarrow> atomic (fail_generation req inet e2 k (failure_message x)) d2
          | (Inr (j2, stored), d2) \<Rightarrow> (Inr (Some j2),
              if stored then audit_job e2 req inet ''REPORT_GENERATED'' j2 (rj_requested_by j2) (''Report generated successfully for '' @ t) d2 else d2))))"

text \<open>The task catches what is raised.\<close>

definition generate_report_job_task ::
    "env \<Rightarrow> env \<Rightarrow> report_ctx \<Rightarrow> (db \<Rightarrow> db) \<Rightarrow> uuid \<Rightarrow> db \<Rightarrow> (string \<times> string option) \<times> db" where
  "generate_report_job_task e e2 c other k d = (case generate_report_job None (\<lambda>_. True) e e2 c other k d of
      (Inl x, d') \<Rightarrow> ((''FAILED'', Some (error_text e2 x)), d')
    | (Inr None, d') \<Rightarrow> (([], None), d')
    | (Inr (Some j), d') \<Rightarrow> ((case rj_status j of JOB_PENDING \<Rightarrow> ''PENDING'' | JOB_PROCESSING \<Rightarrow> ''PROCESSING''
        | JOB_COMPLETED \<Rightarrow> ''COMPLETED'' | JOB_FAILED \<Rightarrow> ''FAILED'' | JOB_CANCELLED \<Rightarrow> ''CANCELLED'', None), d'))"

subsection \<open>What a user does with a job\<close>

text \<open>The views act on the object they read (\<open>j\<close>), which the row may have left behind by then.\<close>

datatype view_result = BadRequest string | Done "report_job option"

definition copy_enqueued :: "report_job \<Rightarrow> report_job \<Rightarrow> report_job" where
  "copy_enqueued j row = row\<lparr>rj_requested_by := rj_requested_by j, rj_status := rj_status j, rj_error_message := rj_error_message j,
     rj_started_at := rj_started_at j, rj_completed_at := rj_completed_at j, rj_file := rj_file j\<rparr>"

definition enqueue_generation ::
    "env \<Rightarrow> (string \<Rightarrow> bool) \<Rightarrow> web_request \<Rightarrow> string \<Rightarrow> report_job \<Rightarrow> db \<Rightarrow> (exn + view_result) \<times> db" where
  "enqueue_generation e inet req action j d =
     (let j1 = (if rj_requested_by j = None \<and> wr_user req \<noteq> None then j\<lparr>rj_requested_by := wr_user req\<rparr> else j);
          j2 = (if rj_status j1 = JOB_FAILED
                then j1\<lparr>rj_status := JOB_PENDING, rj_error_message := Some [], rj_started_at := None, rj_completed_at := None\<rparr> else j1);
          j3 = j2\<lparr>rj_file := None\<rparr> in
      case save_job copy_enqueued j3 d of
        (Inl x, d') \<Rightarrow> (Inl x, d')
      | (Inr _, d') \<Rightarrow>
         (let d2 = audit_job e (Some req) inet action j3 (wr_user req) (''Report generation queued for '' @ type_label e d' j3)
                (d'\<lparr>outbox := outbox d' @ [GenerateReport (rj_id j3)]\<rparr>)
          in (Inr (Done (job_of d2 (rj_id j3))), d2)))"

definition generate_view :: "env \<Rightarrow> (string \<Rightarrow> bool) \<Rightarrow> web_request \<Rightarrow> report_job \<Rightarrow> db \<Rightarrow> (exn + view_result) \<times> db" where
  "generate_view e inet req j d =
     (if rj_status j \<noteq> JOB_PENDING \<and> rj_status j \<noteq> JOB_FAILED then (Inr (BadRequest ''Only pending or failed jobs can be generated.''), d)
      else enqueue_generation e inet req ''REPORT_GENERATION_REQUESTED'' j d)"

definition retry_view :: "env \<Rightarrow> (string \<Rightarrow> bool) \<Rightarrow> web_request \<Rightarrow> report_job \<Rightarrow> db \<Rightarrow> (exn + view_result) \<times> db" where
  "retry_view e inet req j d =
     (if rj_status j \<noteq> JOB_FAILED then (Inr (BadRequest ''Only failed jobs can be retried.''), d)
      else enqueue_generation e inet req ''REPORT_RETRY_REQUESTED'' j d)"

definition copy_cancelled :: "report_job \<Rightarrow> report_job \<Rightarrow> report_job" where
  "copy_cancelled j row = row\<lparr>rj_status := rj_status j, rj_started_at := rj_started_at j, rj_completed_at := rj_completed_at j,
     rj_error_message := rj_error_message j, rj_file := rj_file j\<rparr>"

definition cancel_view :: "env \<Rightarrow> (string \<Rightarrow> bool) \<Rightarrow> web_request \<Rightarrow> report_job \<Rightarrow> db \<Rightarrow> (exn + view_result) \<times> db" where
  "cancel_view e inet req j d =
     (if rj_status j \<noteq> JOB_PENDING then (Inr (BadRequest ''Only pending jobs can be cancelled.''), d)
      else let j' = j\<lparr>rj_file := None, rj_status := JOB_CANCELLED,
             rj_started_at := Some (case rj_started_at j of Some t \<Rightarrow> t | None \<Rightarrow> now e), rj_completed_at := Some (now e),
             rj_error_message := Some ''Cancelled by user''\<rparr> in
        case save_job copy_cancelled j' d of
          (Inl x, d') \<Rightarrow> (Inl x, d')
        | (Inr _, d') \<Rightarrow>
           (let d2 = audit_job e (Some req) inet ''REPORT_CANCELLED'' j' (wr_user req) ''Report job cancelled by user'' d'
            in (Inr (Done (job_of d2 (rj_id j'))), d2)))"

definition is_downloadable :: "report_job \<Rightarrow> bool" where
  "is_downloadable j = (rj_status j = JOB_COMPLETED \<and> rj_file j \<noteq> None)"

definition download_view ::
    "env \<Rightarrow> (string \<Rightarrow> bool) \<Rightarrow> web_request \<Rightarrow> report_job \<Rightarrow> db \<Rightarrow> (string + (string \<times> string) option) \<times> db" where
  "download_view e inet req j d =
     (if \<not> is_downloadable j then (Inl ''This report is not available for download.'', d)
      else (Inr (rj_file j), audit_job e (Some req) inet ''REPORT_DOWNLOADED'' j (wr_user req) ''Report downloaded'' d))"

end
