(* ===== verification/Report_Job_Props.thy ===== *)
theory Report_Job_Props
  imports Report_Jobs
begin

text \<open>
  What holds of report jobs: the times of a row fit its status whatever is done with it, what a generation
  leaves behind, and which jobs can be generated again.
\<close>

interpretation job_tbl: keyed_table rj_id "tbl_update rj_id" "tbl_get rj_id"
  by (rule keyed_table_lists)

subsection \<open>Valid jobs\<close>

text \<open>The times a status asks for.\<close>

definition job_times_ok :: "report_job \<Rightarrow> bool" where
  "job_times_ok j = (case rj_status j of
      JOB_PENDING \<Rightarrow> rj_started_at j = None \<and> rj_completed_at j = None
    | JOB_PROCESSING \<Rightarrow> rj_started_at j \<noteq> None \<and> rj_completed_at j = None
    | _ \<Rightarrow> (case (rj_started_at j, rj_completed_at j) of (Some s, Some t) \<Rightarrow> s \<le> t | _ \<Rightarrow> False))"

lemma job_times_iff: "job_time_errors j = [] \<longleftrightarrow> job_times_ok j"
  by (cases "rj_status j"; cases "rj_started_at j"; cases "rj_completed_at j")
    (simp_all add: job_time_errors_def job_times_ok_def terminal_status_def not_less)

definition job_refs_ok :: "db \<Rightarrow> report_job \<Rightarrow> bool" where
  "job_refs_ok d j = (job_site_errors d j = Inr [] \<and> job_template_errors d j = Inr [] \<and> job_field_errors d j = [] \<and> is_dict (rj_parameters j))"

lemma full_clean_job_iff: "full_clean_job d False j = Inr u \<longleftrightarrow> job_refs_ok d j \<and> job_times_ok j"
  by (auto simp: full_clean_job_def job_refs_ok_def job_times_iff split: sum.splits)

lemma job_refs_cong:
  assumes "rj_organization i = rj_organization j" "rj_data_center i = rj_data_center j" "rj_template i = rj_template j"
    "rj_requested_by i = rj_requested_by j" "rj_parameters i = rj_parameters j"
  shows "job_refs_ok d i = job_refs_ok d j"
  unfolding job_refs_ok_def job_site_errors_def job_template_errors_def job_field_errors_def assms by (rule refl)

lemma job_refs_update [simp]:
  "job_refs_ok d (j\<lparr>rj_status := a\<rparr>) = job_refs_ok d j" "job_refs_ok d (j\<lparr>rj_started_at := b\<rparr>) = job_refs_ok d j"
  "job_refs_ok d (j\<lparr>rj_completed_at := b\<rparr>) = job_refs_ok d j" "job_refs_ok d (j\<lparr>rj_error_message := m\<rparr>) = job_refs_ok d j"
  "job_refs_ok d (j\<lparr>rj_file := f\<rparr>) = job_refs_ok d j"
  by (rule job_refs_cong; simp)+

lemma job_refs_frame [simp]:
  "job_refs_ok (d\<lparr>report_jobs := rows\<rparr>) j = job_refs_ok d j" "job_refs_ok (d\<lparr>audit_logs := logs\<rparr>) j = job_refs_ok d j"
proof -
  have s: "job_site_errors (d\<lparr>report_jobs := rows\<rparr>) j = job_site_errors d j" "job_site_errors (d\<lparr>audit_logs := logs\<rparr>) j = job_site_errors d j"
    by (simp_all add: job_site_errors_def data_center_of_def split: option.splits)
  have t: "job_template_errors (d\<lparr>report_jobs := rows\<rparr>) j = job_template_errors d j" "job_template_errors (d\<lparr>audit_logs := logs\<rparr>) j = job_template_errors d j"
    by (simp_all add: job_template_errors_def split: option.splits)
  have f: "job_field_errors (d\<lparr>report_jobs := rows\<rparr>) j = job_field_errors d j" "job_field_errors (d\<lparr>audit_logs := logs\<rparr>) j = job_field_errors d j"
    by (simp_all add: job_field_errors_def data_center_of_def split: option.splits)
  show "job_refs_ok (d\<lparr>report_jobs := rows\<rparr>) j = job_refs_ok d j" "job_refs_ok (d\<lparr>audit_logs := logs\<rparr>) j = job_refs_ok d j"
    by (simp_all only: job_refs_ok_def s t f)
qed

subsection \<open>Audit entries leave the jobs alone\<close>

lemma task_audit_eq: "task_audit e action j message d = d\<lparr>audit_logs := audit_logs d @
    [audit_row e None action (Some ''ReportJob'') (Some (rj_id j)) None None (Some message) (Some (rj_organization j)) (rj_requested_by j)]\<rparr>"
  by (simp add: task_audit_def audit_job_def write_audit_def audit_row_def Let_def)

lemma audit_job_cases:
  obtains "audit_job e req inet action j actor message d = d"
    | row where "audit_job e req inet action j actor message d = d\<lparr>audit_logs := audit_logs d @ [row]\<rparr>"
proof -
  define row where "row = audit_row e req action (Some ''ReportJob'') (Some (rj_id j)) None None (Some message) (Some (rj_organization j)) actor"
  have "audit_job e req inet action j actor message d = d \<or> audit_job e req inet action j actor message d = d\<lparr>audit_logs := audit_logs d @ [row]\<rparr>"
    by (simp add: audit_job_def write_audit_def Let_def row_def [symmetric] split: option.split)
  with that show thesis by blast
qed

lemma audit_job_jobs [simp]: "report_jobs (audit_job e req inet action j actor message d) = report_jobs d"
  by (cases rule: audit_job_cases [of e req inet action j actor message d]) simp_all

lemma job_of_frame [simp]:
  "job_of (audit_job e req inet action j actor message d) k = job_of d k"
  "job_of (d\<lparr>audit_logs := logs\<rparr>) k = job_of d k" "job_of (d\<lparr>outbox := q\<rparr>) k = job_of d k"
  by (simp_all add: job_of_def)

lemma task_audit_jobs [simp]:
  "report_jobs (task_audit e action j message d) = report_jobs d" "job_of (task_audit e action j message d) k = job_of d k"
  "job_refs_ok (task_audit e action j message d) x = job_refs_ok d x"
  by (simp_all add: task_audit_eq)

lemma audit_in_block_None [simp]: "audit_in_block None inet e action j m d0 d = task_audit e action j m d"
  by (simp add: audit_in_block_def task_audit_def audit_job_def write_audit_def audit_row_def Let_def)

lemma audit_job_None: "audit_job e None inet action j (rj_requested_by j) m d = task_audit e action j m d"
  by (simp add: task_audit_def audit_job_def write_audit_def audit_row_def Let_def)

lemma audit_in_block_cases:
  obtains "audit_in_block req inet e action j m d0 d = d0"
    | "audit_in_block req inet e action j m d0 d = audit_job e req inet action j (rj_requested_by j) m d"
proof -
  obtain a b where "write_audit inet e req action (Some ''ReportJob'') (Some (rj_id j)) None None (Some m) (Some (rj_organization j)) (rj_requested_by j) d
      = (a, b)" by fastforce
  with that show thesis by (cases a) (auto simp: audit_in_block_def audit_job_def)
qed

lemma job_of_id: "job_of d k = Some j \<Longrightarrow> rj_id j = k"
  by (auto simp: job_of_def dest: job_tbl.get_key)

subsection \<open>Saving\<close>

lemma save_job_ok:
  "job_refs_ok d j \<Longrightarrow> job_times_ok j \<Longrightarrow> job_of d (rj_id j) \<noteq> None \<Longrightarrow>
    save_job copy j d = (Inr j, d\<lparr>report_jobs := tbl_update rj_id (rj_id j) (copy j) (report_jobs d)\<rparr>)"
  using full_clean_job_iff [of d j "()"] by (simp add: save_job_def)

lemma save_job_Inr:
  "save_job copy j d = (Inr r, d') \<Longrightarrow> job_refs_ok d j \<and> job_times_ok j \<and> job_of d (rj_id j) \<noteq> None \<and> r = j
    \<and> d' = d\<lparr>report_jobs := tbl_update rj_id (rj_id j) (copy j) (report_jobs d)\<rparr>"
  by (auto simp: save_job_def full_clean_job_iff split: sum.splits if_splits)

lemma save_job_Inl: "save_job copy j d = (Inl x, d') \<Longrightarrow> d' = d"
  by (auto simp: save_job_def split: sum.splits if_splits)

lemma job_of_updated:
  assumes "\<And>r. rj_id (f r) = rj_id r" and "job_of d k = Some j"
  shows "job_of (d\<lparr>report_jobs := tbl_update rj_id k f (report_jobs d)\<rparr>) i = (if i = k then Some (f j) else job_of d i)"
  using job_tbl.get_upd [of f i k "report_jobs d"] assms by (simp add: job_of_def)

definition jobs_ok :: "db \<Rightarrow> bool" where
  "jobs_ok d = (\<forall>j \<in> set (report_jobs d). job_times_ok j)"

lemma jobs_ok_updated:
  "jobs_ok d \<Longrightarrow> (\<And>r. r \<in> set (report_jobs d) \<Longrightarrow> rj_id r = k \<Longrightarrow> job_times_ok (f r)) \<Longrightarrow>
    jobs_ok (d\<lparr>report_jobs := tbl_update rj_id k f (report_jobs d)\<rparr>)"
  by (auto simp: jobs_ok_def set_tbl_update)

lemma jobs_ok_frame [simp]:
  "jobs_ok (d\<lparr>audit_logs := logs\<rparr>) = jobs_ok d" "jobs_ok (d\<lparr>outbox := q\<rparr>) = jobs_ok d"
  "jobs_ok (audit_job e req inet action j actor message d) = jobs_ok d" "jobs_ok (task_audit e action j message d) = jobs_ok d"
  by (simp_all add: jobs_ok_def)

lemma job_times_cong:
  assumes "rj_status i = rj_status j" "rj_started_at i = rj_started_at j" "rj_completed_at i = rj_completed_at j"
  shows "job_times_ok i = job_times_ok j"
  unfolding job_times_ok_def assms by (rule refl)

lemma copies_times:
  "job_times_ok (copy_enqueued j row) = job_times_ok j" "job_times_ok (copy_cancelled j row) = job_times_ok j"
  "rj_started_at row = rj_started_at j \<Longrightarrow> job_times_ok (copy_finished j row) = job_times_ok j"
  "rj_started_at row = rj_started_at j \<Longrightarrow> job_times_ok (copy_failed j row) = job_times_ok j"
  "rj_completed_at row = rj_completed_at j \<Longrightarrow> job_times_ok (copy_started j row) = job_times_ok j"
  by (rule job_times_cong; simp add: copy_enqueued_def copy_cancelled_def copy_finished_def copy_failed_def copy_started_def)+

subsection \<open>A closed example\<close>

text \<open>An organization without metrics, whose environment report has a header and no rows.\<close>

definition a_job :: "job_status \<Rightarrow> time option \<Rightarrow> time option \<Rightarrow> report_job" where
  "a_job s a b = \<lparr>rj_id = 1, rj_created_at = 0, rj_organization = 1, rj_data_center = None, rj_template = None, rj_requested_by = Some 1,
     rj_status = s, rj_parameters = PDict [(''report_type'', PStr ''room_environment'')], rj_file = None, rj_started_at = a,
     rj_completed_at = b, rj_error_message = None\<rparr>"

definition jobs_example :: "report_job list \<Rightarrow> db" where
  "jobs_example js = empty_db\<lparr>organizations := [\<lparr>org_id = 1, org_created_at = 0, org_name = ''Org'', org_code = ''org'', org_status = ''ACTIVE''\<rparr>],
     users := [blank_user\<lparr>usr_id := 1\<rparr>], report_jobs := js\<rparr>"

definition plain_ctx :: report_ctx where
  "plain_ctx = \<lparr>parse_moment = (\<lambda>_. Inr None), parse_day = (\<lambda>_. Inr None), local_minute = (\<lambda>_. ''M''), file_stamp = (\<lambda>_. ''S''),
     slugify = id, device_models = [], device_hostname = (\<lambda>_. None), metric_unit = (\<lambda>_. None), user_full_name = (\<lambda>_. [])\<rparr>"

lemma a_job_refs [simp]: "job_refs_ok (jobs_example js) (a_job s a b)"
  by (simp add: job_refs_ok_def job_site_errors_def job_template_errors_def job_field_errors_def a_job_def jobs_example_def tbl_get_def
      is_dict_def)

lemma a_job_of [simp]: "job_of (jobs_example [a_job s a b]) 1 = Some (a_job s a b)"
  by (simp add: job_of_def jobs_example_def tbl_get_def a_job_def)

lemma environment_built:
  assumes "metrics d = []" and "rj_template j = None" and "rj_parameters j = PDict kvs"
    and "dict_get kvs ''report_type'' = Some (PStr ''room_environment'')"
  shows "build_report e c d j = Inr (''room_environment'', render_csv e environment_headers [])"
proof -
  have "strip ''room_environment'' = ''room_environment''" by code_simp
  then have t: "resolve_report_type e d j = Inr ''room_environment''"
    using assms by (simp add: resolve_report_type_def job_report_type_def template_of_def is_dict_def dict_or_empty_def py_str_def
        SUPPORTED_REPORT_TYPES_def REPORT_TYPE_LABELS_def)
  have "normalize_report_format ''csv'' = Some ''CSV''" by code_simp
  then have "resolve_output_format e d j = Inr ''CSV''"
    using assms by (simp add: resolve_output_format_def get_report_config_def template_of_def text_or_empty_def py_str_def normalize_list_def)
  moreover have "report_rows_of e c d j ''room_environment'' = Inr (environment_headers, [])"
    using assms(1) by (simp add: report_rows_of_def room_environment_rows_def environment_metrics_def)
  ultimately show ?thesis by (simp add: build_report_def t)
qed

subsection \<open>Each status\<close>

lemma start_pending:
  assumes "job_of d k = Some j" and "rj_status j = JOB_PENDING" and "job_refs_ok d j" and "job_times_ok j"
  shows "start_generation None inet e k d =
    (let j' = j\<lparr>rj_status := JOB_PROCESSING, rj_started_at := Some (now e), rj_error_message := Some []\<rparr>;
         d' = d\<lparr>report_jobs := tbl_update rj_id k (copy_started j') (report_jobs d)\<rparr>
     in (Inr (j', True), task_audit e ''REPORT_GENERATION_STARTED'' j' (''Report generation started for '' @ type_label e d' j') d'))"
proof -
  have k: "rj_id j = k" using assms(1) by (rule job_of_id)
  have none: "rj_started_at j = None" "rj_completed_at j = None" using assms(2,4) by (simp_all add: job_times_ok_def)
  define j' where "j' = j\<lparr>rj_status := JOB_PROCESSING, rj_started_at := Some (now e), rj_error_message := Some []\<rparr>"
  have ok: "job_refs_ok d j'" "job_times_ok j'" "job_of d (rj_id j') \<noteq> None"
    using assms none k by (simp_all add: j'_def job_times_ok_def)
  have "save_job copy_started j' d = (Inr j', d\<lparr>report_jobs := tbl_update rj_id k (copy_started j') (report_jobs d)\<rparr>)"
    using save_job_ok [OF ok, of copy_started] k by (simp add: j'_def)
  then show ?thesis using assms(1,2) none by (simp add: start_generation_def Let_def j'_def)
qed

text \<open>A job that is waiting is built; a cancelled, completed or running one is left as it is; a failed one, which the code also
  takes for building, keeps the time it ended, with which it may not be running, so the validation raises and the job stays failed.
  A job whose worker died while it was running stays so: it is not built again and a user can neither retry nor cancel it.\<close>

theorem generation_by_status:
  assumes "job_of d k = Some j" and "job_times_ok j"
  shows "(rj_status j \<in> {JOB_PROCESSING, JOB_COMPLETED, JOB_CANCELLED} \<longrightarrow> generate_report_job req inet e e2 c other k d = (Inr (Some j), d))
    \<and> (rj_status j = JOB_FAILED \<longrightarrow> (\<exists>x. generate_report_job req inet e e2 c other k d = (Inl x, d)))
    \<and> (rj_status j = JOB_PROCESSING \<longrightarrow> (\<forall>r i. snd (generate_view e i r j d) = d \<and> snd (retry_view e i r j d) = d
         \<and> snd (cancel_view e i r j d) = d))"
proof (intro conjI impI allI)
  assume "rj_status j \<in> {JOB_PROCESSING, JOB_COMPLETED, JOB_CANCELLED}"
  then have "start_generation req inet e k d = (Inr (j, False), d)" using assms(1) by (auto simp: start_generation_def)
  then show "generate_report_job req inet e e2 c other k d = (Inr (Some j), d)" by (simp add: generate_report_job_def atomic_def)
next
  assume f: "rj_status j = JOB_FAILED"
  define j' where "j' = j\<lparr>rj_status := JOB_PROCESSING,
    rj_started_at := Some (case rj_started_at j of Some t \<Rightarrow> t | None \<Rightarrow> now e), rj_error_message := Some []\<rparr>"
  have "rj_completed_at j \<noteq> None" using assms(2) f by (auto simp: job_times_ok_def split: option.splits)
  then have "\<not> job_times_ok j'" by (simp add: j'_def job_times_ok_def)
  then obtain x where x: "save_job copy_started j' d = (Inl x, d)"
    using save_job_Inr [of copy_started j' d] save_job_Inl [of copy_started j' d]
    by (metis old.sum.exhaust surj_pair)
  have "start_generation req inet e k d = (Inl x, d)" using assms(1) f x by (simp add: start_generation_def Let_def j'_def)
  then have "generate_report_job req inet e e2 c other k d = (Inl x, d)" by (simp add: generate_report_job_def atomic_def)
  then show "\<exists>x. generate_report_job req inet e e2 c other k d = (Inl x, d)" by blast
next
  fix r i assume p: "rj_status j = JOB_PROCESSING"
  then show "snd (generate_view e i r j d) = d" "snd (retry_view e i r j d) = d" "snd (cancel_view e i r j d) = d"
    by (simp_all add: generate_view_def retry_view_def cancel_view_def)
qed

lemma generation_by_status_witness:
  "(\<exists>x. generate_report_job None (\<lambda>_. True) (plain_env 20) (plain_env 30) plain_ctx id 1 (jobs_example [a_job JOB_FAILED (Some 5) (Some 9)])
      = (Inl x, jobs_example [a_job JOB_FAILED (Some 5) (Some 9)]))
    \<and> generate_report_job None (\<lambda>_. True) (plain_env 20) (plain_env 30) plain_ctx id 1 (jobs_example [a_job JOB_PROCESSING (Some 5) None])
      = (Inr (Some (a_job JOB_PROCESSING (Some 5) None)), jobs_example [a_job JOB_PROCESSING (Some 5) None])"
proof -
  have t: "job_times_ok (a_job JOB_FAILED (Some 5) (Some 9))" "job_times_ok (a_job JOB_PROCESSING (Some 5) None)"
    by (simp_all add: job_times_ok_def a_job_def)
  have s: "rj_status (a_job s a b) = s" for s a b by (simp add: a_job_def)
  show ?thesis using generation_by_status [OF a_job_of t(1)] generation_by_status [OF a_job_of t(2)] by (simp add: s)
qed

subsection \<open>One generation\<close>

lemma copies_same:
  "copy_started (j\<lparr>rj_status := a, rj_started_at := b, rj_error_message := m\<rparr>) j = j\<lparr>rj_status := a, rj_started_at := b, rj_error_message := m\<rparr>"
  "copy_finished (j\<lparr>rj_file := f, rj_status := a, rj_completed_at := b, rj_error_message := m\<rparr>) j
     = j\<lparr>rj_file := f, rj_status := a, rj_completed_at := b, rj_error_message := m\<rparr>"
  "copy_failed (j\<lparr>rj_status := a, rj_completed_at := b, rj_error_message := m\<rparr>) j = j\<lparr>rj_status := a, rj_completed_at := b, rj_error_message := m\<rparr>"
  by (cases j; simp add: copy_started_def copy_finished_def copy_failed_def)+

lemma copies_id [simp]:
  "rj_id (copy_started j r) = rj_id r" "rj_id (copy_finished j r) = rj_id r" "rj_id (copy_failed j r) = rj_id r"
  "rj_id (copy_enqueued j r) = rj_id r" "rj_id (copy_cancelled j r) = rj_id r"
  by (simp_all add: copy_started_def copy_finished_def copy_failed_def copy_enqueued_def copy_cancelled_def)

definition ended :: "report_job \<Rightarrow> env \<Rightarrow> job_status \<Rightarrow> string \<Rightarrow> report_job" where
  "ended j e2 s m = j\<lparr>rj_status := s, rj_completed_at := Some (now e2), rj_error_message := Some m\<rparr>"

lemma fail_running:
  assumes "job_of d k = Some j" and "job_refs_ok d j" and "rj_started_at j = Some s" and "s \<le> now e2"
  shows "\<exists>d'. atomic (fail_generation None inet e2 k m) d = (Inr (Some (ended j e2 JOB_FAILED m)), d') \<and> job_of d' k = Some (ended j e2 JOB_FAILED m)
    \<and> (\<forall>i. i \<noteq> k \<longrightarrow> job_of d' i = job_of d i) \<and> map au_action (audit_logs d') = map au_action (audit_logs d) @ [''REPORT_GENERATION_FAILED'']"
proof -
  let ?j = "ended j e2 JOB_FAILED m"
  have k: "rj_id j = k" using assms(1) by (rule job_of_id)
  have ok: "job_refs_ok d ?j" "job_times_ok ?j" "job_of d (rj_id ?j) \<noteq> None"
    using assms k by (simp_all add: ended_def job_times_ok_def)
  let ?d = "d\<lparr>report_jobs := tbl_update rj_id k (copy_failed ?j) (report_jobs d)\<rparr>"
  have save: "save_job copy_failed ?j d = (Inr ?j, ?d)" using save_job_ok [OF ok, of copy_failed] k by (simp add: ended_def)
  have run: "atomic (fail_generation None inet e2 k m) d = (Inr (Some ?j), task_audit e2 ''REPORT_GENERATION_FAILED'' ?j m ?d)"
    using assms(1) save by (simp add: atomic_def fail_generation_def Let_def ended_def)
  have row: "job_of ?d i = (if i = k then Some ?j else job_of d i)" for i
    using job_of_updated [of "copy_failed ?j", OF _ assms(1)] by (simp add: ended_def copies_same)
  show ?thesis using run row by (auto simp: task_audit_eq audit_row_def Let_def)
qed

lemma finish_eq:
  assumes "job_of d k = Some j" and "job_refs_ok d j" and "rj_started_at j = Some s" and "s \<le> now e2" and "rj_status j = JOB_PROCESSING"
    and "j' = j\<lparr>rj_file := Some (''reports/'' @ filename, csv), rj_status := JOB_COMPLETED, rj_completed_at := Some (now e2), rj_error_message := Some []\<rparr>"
  shows "atomic (finish_generation e2 k filename csv) d
    = (Inr (j', True), d\<lparr>report_jobs := tbl_update rj_id k (copy_finished j') (report_jobs d)\<rparr>)"
proof -
  have k: "rj_id j = k" using assms(1) by (rule job_of_id)
  have ok: "job_refs_ok d j'" "job_times_ok j'" "job_of d (rj_id j') \<noteq> None"
    using assms(1-5) k by (simp_all add: assms(6) job_times_ok_def)
  have save: "save_job copy_finished j' d = (Inr j', d\<lparr>report_jobs := tbl_update rj_id k (copy_finished j') (report_jobs d)\<rparr>)"
    using save_job_ok [OF ok, of copy_finished] k by (simp add: assms(6))
  show ?thesis using assms(1,5) save by (simp add: atomic_def finish_generation_def Let_def assms(6))
qed

lemma finish_running:
  assumes "job_of d k = Some j" and "job_refs_ok d j" and "rj_started_at j = Some s" and "s \<le> now e2" and "rj_status j = JOB_PROCESSING"
  shows "\<exists>j' d'. atomic (finish_generation e2 k filename csv) d = (Inr (j', True), d') \<and> job_of d' k = Some j'
    \<and> j' = j\<lparr>rj_file := Some (''reports/'' @ filename, csv), rj_status := JOB_COMPLETED, rj_completed_at := Some (now e2), rj_error_message := Some []\<rparr>
    \<and> (\<forall>i. i \<noteq> k \<longrightarrow> job_of d' i = job_of d i) \<and> audit_logs d' = audit_logs d"
proof -
  define j' where "j' = j\<lparr>rj_file := Some (''reports/'' @ filename, csv), rj_status := JOB_COMPLETED,
    rj_completed_at := Some (now e2), rj_error_message := Some []\<rparr>"
  have row: "job_of (d\<lparr>report_jobs := tbl_update rj_id k (copy_finished j') (report_jobs d)\<rparr>) i = (if i = k then Some j' else job_of d i)" for i
    using job_of_updated [of "copy_finished j'", OF _ assms(1)] by (simp add: j'_def copies_same)
  show ?thesis using finish_eq [OF assms j'_def] row unfolding j'_def [symmetric] by auto
qed

lemma started_job:
  assumes "job_of d k = Some j" and "rj_status j = JOB_PENDING" and "job_refs_ok d j" and "job_times_ok j"
  obtains j1 d1 where "start_generation None inet e k d = (Inr (j1, True), d1)"
    "j1 = j\<lparr>rj_status := JOB_PROCESSING, rj_started_at := Some (now e), rj_error_message := Some []\<rparr>"
    "job_of d1 k = Some j1" "\<And>i. i \<noteq> k \<Longrightarrow> job_of d1 i = job_of d i"
    "map au_action (audit_logs d1) = map au_action (audit_logs d) @ [''REPORT_GENERATION_STARTED'']"
proof -
  define j1 where "j1 = j\<lparr>rj_status := JOB_PROCESSING, rj_started_at := Some (now e), rj_error_message := Some []\<rparr>"
  let ?d = "d\<lparr>report_jobs := tbl_update rj_id k (copy_started j1) (report_jobs d)\<rparr>"
  have run: "start_generation None inet e k d
      = (Inr (j1, True), task_audit e ''REPORT_GENERATION_STARTED'' j1 (''Report generation started for '' @ type_label e ?d j1) ?d)"
    using start_pending [OF assms, where e = e] by (simp add: j1_def Let_def)
  have row: "job_of ?d i = (if i = k then Some j1 else job_of d i)" for i
    using job_of_updated [of "copy_started j1", OF _ assms(1)] by (simp add: j1_def copies_same)
  show thesis by (rule that [OF run]) (simp_all add: j1_def row [unfolded j1_def] task_audit_eq audit_row_def Let_def)
qed

text \<open>C15. A waiting job is taken to its end whatever the report is: while no other transaction touches its row, it is completed with
  the CSV file of the report, or failed with the message of what the report raised; its times are those of the two readings of the
  clock, the trail gets two entries, and no other job changes.\<close>

theorem generation_outcome:
  assumes "job_of d k = Some j" and "rj_status j = JOB_PENDING" and "job_refs_ok d j" and "job_times_ok j" and "now e \<le> now e2"
    and "start_generation None inet e k d = (Inr (j1, b), d1)" and "job_of (other d1) k = Some j1" and "job_refs_ok (other d1) j1"
  shows "\<exists>j' d'. generate_report_job None inet e e2 c other k d = (Inr (Some j'), d') \<and> job_of d' k = Some j'
    \<and> rj_started_at j' = Some (now e) \<and> rj_completed_at j' = Some (now e2)
    \<and> (case build_report e2 c d1 j1 of
         Inl x \<Rightarrow> rj_status j' = JOB_FAILED \<and> rj_error_message j' = Some (failure_message x) \<and> rj_file j' = rj_file j
           \<and> map au_action (audit_logs d') = map au_action (audit_logs (other d1)) @ [''REPORT_GENERATION_FAILED'']
       | Inr (t, csv) \<Rightarrow> rj_status j' = JOB_COMPLETED \<and> rj_file j' = Some (''reports/'' @ report_filename e2 c d1 j1 t, csv)
           \<and> map au_action (audit_logs d') = map au_action (audit_logs (other d1)) @ [''REPORT_GENERATED''])
    \<and> map au_action (audit_logs d1) = map au_action (audit_logs d) @ [''REPORT_GENERATION_STARTED'']
    \<and> (\<forall>i. i \<noteq> k \<longrightarrow> job_of d' i = job_of (other d1) i \<and> job_of d1 i = job_of d i)"
proof -
  obtain j2 d2 where s: "start_generation None inet e k d = (Inr (j2, True), d2)"
    "j2 = j\<lparr>rj_status := JOB_PROCESSING, rj_started_at := Some (now e), rj_error_message := Some []\<rparr>" "\<And>i. i \<noteq> k \<Longrightarrow> job_of d2 i = job_of d i"
    "map au_action (audit_logs d2) = map au_action (audit_logs d) @ [''REPORT_GENERATION_STARTED'']"
    using started_job [OF assms(1-4), where e = e] by blast
  have same: "j2 = j1" "d2 = d1" "b = True" using s(1) assms(6) by simp_all
  have st: "rj_started_at j1 = Some (now e)" "rj_status j1 = JOB_PROCESSING" "rj_file j1 = rj_file j" using s(2) by (simp_all add: same)
  have at: "atomic (start_generation None inet e k) d = (Inr (j1, True), d1)" using s(1) by (simp add: atomic_def same)
  have fail: "\<exists>d'. atomic (fail_generation None inet e2 k m) (other d1) = (Inr (Some (ended j1 e2 JOB_FAILED m)), d')
      \<and> job_of d' k = Some (ended j1 e2 JOB_FAILED m) \<and> (\<forall>i. i \<noteq> k \<longrightarrow> job_of d' i = job_of (other d1) i)
      \<and> map au_action (audit_logs d') = map au_action (audit_logs (other d1)) @ [''REPORT_GENERATION_FAILED'']" for m
    using fail_running [OF assms(7,8) st(1) assms(5)] by blast
  show ?thesis
  proof (cases "build_report e2 c d1 j1")
    case (Inl x)
    then show ?thesis using fail [of "failure_message x"] s(3,4) st at
      by (auto simp: generate_report_job_def same ended_def)
  next
    case (Inr tt)
    obtain t csv where tt: "tt = (t, csv)" by (cases tt)
    obtain j' d' where f: "atomic (finish_generation e2 k (report_filename e2 c d1 j1 t) csv) (other d1) = (Inr (j', True), d')"
      "job_of d' k = Some j'" "j' = j1\<lparr>rj_file := Some (''reports/'' @ report_filename e2 c d1 j1 t, csv), rj_status := JOB_COMPLETED,
         rj_completed_at := Some (now e2), rj_error_message := Some []\<rparr>"
      "\<forall>i. i \<noteq> k \<longrightarrow> job_of d' i = job_of (other d1) i" "audit_logs d' = audit_logs (other d1)"
      using finish_running [OF assms(7,8) st(1) assms(5) st(2)] by blast
    have run: "generate_report_job None inet e e2 c other k d
        = (Inr (Some j'), task_audit e2 ''REPORT_GENERATED'' j' (''Report generated successfully for '' @ t) d')"
      using at f(1) Inr by (simp add: generate_report_job_def tt audit_job_None)
    have log: "map au_action (audit_logs (task_audit e2 ''REPORT_GENERATED'' j' (''Report generated successfully for '' @ t) d'))
        = map au_action (audit_logs (other d1)) @ [''REPORT_GENERATED'']" by (simp add: task_audit_eq f(5) audit_row_def Let_def)
    show ?thesis using run log f(2,4) s(3,4) st unfolding Inr tt f(3) by (auto simp: same)
  qed
qed

lemma generation_outcome_witness:
  "\<exists>j' d'. generate_report_job None (\<lambda>_. True) (plain_env 5) (plain_env 9) plain_ctx (\<lambda>x. x) 1 (jobs_example [a_job JOB_PENDING None None])
      = (Inr (Some j'), d') \<and> rj_status j' = JOB_COMPLETED \<and> rj_started_at j' = Some 5 \<and> rj_completed_at j' = Some 9"
proof -
  let ?d = "jobs_example [a_job JOB_PENDING None None]" and ?j = "a_job JOB_PENDING None None"
  have st: "rj_status ?j = JOB_PENDING" "job_times_ok ?j" by (simp_all add: a_job_def job_times_ok_def)
  define j1 where "j1 = ?j\<lparr>rj_status := JOB_PROCESSING, rj_started_at := Some (now (plain_env 5)), rj_error_message := Some []\<rparr>"
  let ?d1 = "?d\<lparr>report_jobs := tbl_update rj_id 1 (copy_started j1) (report_jobs ?d)\<rparr>"
  define d1 where "d1 = task_audit (plain_env 5) ''REPORT_GENERATION_STARTED'' j1
    (''Report generation started for '' @ type_label (plain_env 5) ?d1 j1) ?d1"
  have run: "start_generation None (\<lambda>_. True) (plain_env 5) 1 ?d = (Inr (j1, True), d1)"
    using start_pending [OF a_job_of st(1) a_job_refs st(2), where e = "plain_env 5"] by (simp add: Let_def j1_def d1_def)
  have row: "job_of d1 1 = Some j1"
    using job_of_updated [of "copy_started j1" ?d 1 ?j 1, OF _ a_job_of] by (simp add: d1_def) (simp add: j1_def copies_same)
  have refs: "job_refs_ok d1 j1" by (simp add: d1_def j1_def)
  have built: "build_report (plain_env 9) plain_ctx d1 j1 = Inr (''room_environment'', render_csv (plain_env 9) environment_headers [])"
    by (rule environment_built [where kvs = "[(''report_type'', PStr ''room_environment'')]"])
      (simp_all add: d1_def task_audit_eq j1_def a_job_def jobs_example_def empty_db_def)
  have t: "now (plain_env 5) = 5" "now (plain_env 9) = 9" "now (plain_env 5) \<le> now (plain_env 9)" by (simp_all add: plain_env_def)
  show ?thesis
    using generation_outcome [OF a_job_of st(1) a_job_refs st(2) t(3) run, of "\<lambda>x. x" plain_ctx, OF row refs]
    unfolding built t by auto
qed

text \<open>The environment report of an organization without metrics, built without interference.\<close>

lemma environment_generated:
  assumes "job_of d k = Some j" and "rj_status j = JOB_PENDING" and "job_refs_ok d j" and "job_times_ok j" and "now e \<le> now e2"
    and "metrics d = []" and "rj_template j = None" and "rj_parameters j = PDict kvs"
    and "dict_get kvs ''report_type'' = Some (PStr ''room_environment'')"
  obtains built rows logs where
    "generate_report_job None inet e e2 c (\<lambda>x. x) k d = (Inr (Some built), d\<lparr>report_jobs := rows, audit_logs := logs\<rparr>)"
    "rj_status built = JOB_COMPLETED" "rj_file built \<noteq> None" "rj_id built = k"
    "job_of (d\<lparr>report_jobs := rows, audit_logs := logs\<rparr>) k \<noteq> None"
proof -
  define j1 where "j1 = j\<lparr>rj_status := JOB_PROCESSING, rj_started_at := Some (now e), rj_error_message := Some []\<rparr>"
  define rows1 where "rows1 = tbl_update rj_id k (copy_started j1) (report_jobs d)"
  obtain logs1 where logs1: "task_audit e ''REPORT_GENERATION_STARTED'' j1 (''Report generation started for '' @ type_label e (d\<lparr>report_jobs := rows1\<rparr>) j1)
      (d\<lparr>report_jobs := rows1\<rparr>) = d\<lparr>report_jobs := rows1, audit_logs := logs1\<rparr>"
    by (simp add: task_audit_eq)
  define d1 where "d1 = d\<lparr>report_jobs := rows1, audit_logs := logs1\<rparr>"
  have run1: "start_generation None inet e k d = (Inr (j1, True), d1)"
    using start_pending [OF assms(1-4), where e = e] unfolding Let_def j1_def [symmetric] rows1_def [symmetric] logs1 d1_def .
  have "job_of (d\<lparr>report_jobs := rows1\<rparr>) k = Some j1"
    using job_of_updated [of "copy_started j1" d k j k, OF _ assms(1)] by (simp add: rows1_def j1_def copies_same)
  then have row: "job_of d1 k = Some j1" by (simp add: d1_def job_of_def)
  have refs: "job_refs_ok d1 j1" using assms(3) by (simp add: d1_def j1_def)
  have built: "build_report e2 c d1 j1 = Inr (''room_environment'', render_csv e2 environment_headers [])"
    by (rule environment_built [OF _ _ _ assms(9)]) (simp_all add: d1_def j1_def assms)
  define j2 where "j2 = j1\<lparr>rj_file := Some (''reports/'' @ report_filename e2 c d1 j1 ''room_environment'', render_csv e2 environment_headers []),
    rj_status := JOB_COMPLETED, rj_completed_at := Some (now e2), rj_error_message := Some []\<rparr>"
  define rows2 where "rows2 = tbl_update rj_id k (copy_finished j2) (report_jobs d1)"
  have st: "rj_started_at j1 = Some (now e)" "rj_status j1 = JOB_PROCESSING" by (simp_all add: j1_def)
  note run2 = finish_eq [OF row refs st(1) assms(5) st(2) j2_def]
  obtain logs2 where logs2: "task_audit e2 ''REPORT_GENERATED'' j2 (''Report generated successfully for '' @ ''room_environment'') (d1\<lparr>report_jobs := rows2\<rparr>)
      = d\<lparr>report_jobs := rows2, audit_logs := logs2\<rparr>"
    by (simp add: task_audit_eq d1_def)
  have "generate_report_job None inet e e2 c (\<lambda>x. x) k d = (Inr (Some j2), d\<lparr>report_jobs := rows2, audit_logs := logs2\<rparr>)"
    unfolding generate_report_job_def using run1 built run2 logs2
    by (simp add: atomic_def [of "start_generation None inet e k"] rows2_def [symmetric] audit_job_None)
  moreover have "job_of (d\<lparr>report_jobs := rows2, audit_logs := logs2\<rparr>) k = Some j2"
    using job_of_updated [of "copy_finished j2" d1 k j1 k, OF _ row] by (simp add: rows2_def j2_def copies_same job_of_def)
  moreover have "rj_id j2 = k" using job_of_id [OF assms(1)] by (simp add: j2_def j1_def)
  moreover have "rj_status j2 = JOB_COMPLETED" "rj_file j2 \<noteq> None" by (simp_all add: j2_def)
  ultimately show thesis by (intro that [where built = j2 and rows = rows2 and logs = logs2]) simp_all
qed

subsection \<open>Cancelling\<close>

text \<open>Cancelling acts on the object the request read: when the job was built in the meantime the finished report is taken back and
  its file is gone.\<close>

theorem cancel_takes_back_report:
  assumes "job_of d (rj_id j) = Some r" and "rj_status j = JOB_PENDING" and "job_refs_ok d j" and "job_times_ok j"
  shows "\<exists>r' d'. cancel_view e inet req j d = (Inr (Done (Some r')), d') \<and> job_of d' (rj_id j) = Some r'
    \<and> rj_status r' = JOB_CANCELLED \<and> rj_file r' = None \<and> rj_completed_at r' = Some (now e) \<and> rj_parameters r' = rj_parameters r
    \<and> \<not> is_downloadable r' \<and> fst (download_view e inet req r' d') = Inl ''This report is not available for download.''
    \<and> (\<forall>i. i \<noteq> rj_id j \<longrightarrow> job_of d' i = job_of d i)"
proof -
  define j' where "j' = j\<lparr>rj_file := None, rj_status := JOB_CANCELLED,
    rj_started_at := Some (case rj_started_at j of Some t \<Rightarrow> t | None \<Rightarrow> now e), rj_completed_at := Some (now e),
    rj_error_message := Some ''Cancelled by user''\<rparr>"
  have none: "rj_started_at j = None" using assms(2,4) by (simp add: job_times_ok_def)
  have ok: "job_refs_ok d j'" "job_times_ok j'" "job_of d (rj_id j') \<noteq> None"
    using assms none by (simp_all add: j'_def job_times_ok_def)
  let ?d = "d\<lparr>report_jobs := tbl_update rj_id (rj_id j) (copy_cancelled j') (report_jobs d)\<rparr>"
  have save: "save_job copy_cancelled j' d = (Inr j', ?d)" using save_job_ok [OF ok, of copy_cancelled] by (simp add: j'_def)
  have row: "job_of ?d i = (if i = rj_id j then Some (copy_cancelled j' r) else job_of d i)" for i
    using job_of_updated [of "copy_cancelled j'", OF _ assms(1)] by simp
  define d' where "d' = audit_job e (Some req) inet ''REPORT_CANCELLED'' j' (wr_user req) ''Report job cancelled by user'' ?d"
  have id: "rj_id j' = rj_id j" by (simp add: j'_def)
  have run: "cancel_view e inet req j d = (Inr (Done (job_of d' (rj_id j))), d')"
    unfolding cancel_view_def Let_def j'_def [symmetric] save id d'_def by (simp add: assms(2))
  have "job_of d' (rj_id j) = Some (copy_cancelled j' r)" by (simp add: d'_def row)
  moreover have "\<not> is_downloadable (copy_cancelled j' r)" by (simp add: is_downloadable_def copy_cancelled_def j'_def)
  ultimately show ?thesis using run by (auto simp: copy_cancelled_def j'_def d'_def row [unfolded j'_def] download_view_def)
qed

lemma cancel_takes_back_report_witness:
  "\<exists>r' d'. cancel_view (plain_env 20) (\<lambda>_. True) \<lparr>wr_user = Some 1, wr_forwarded_for = None, wr_remote_addr = None, wr_user_agent = None\<rparr>
      (a_job JOB_PENDING None None) (jobs_example [(a_job JOB_COMPLETED (Some 5) (Some 9))\<lparr>rj_file := Some (''reports/r.csv'', ''x'')\<rparr>])
    = (Inr (Done (Some r')), d') \<and> rj_status r' = JOB_CANCELLED \<and> rj_file r' = None"
proof -
  let ?r = "(a_job JOB_COMPLETED (Some 5) (Some 9))\<lparr>rj_file := Some (''reports/r.csv'', ''x'')\<rparr>" and ?j = "a_job JOB_PENDING None None"
  have "job_of (jobs_example [?r]) (rj_id ?j) = Some ?r" by (simp add: job_of_def jobs_example_def tbl_get_def a_job_def)
  moreover have "rj_status ?j = JOB_PENDING" "job_times_ok ?j" by (simp_all add: a_job_def job_times_ok_def)
  ultimately show ?thesis using cancel_takes_back_report [OF _ _ a_job_refs] by blast
qed

subsection \<open>Whatever is done with the jobs\<close>

text \<open>The transactions on jobs; a view acts on an object read at any earlier time, so on any object.\<close>

inductive job_step :: "db \<Rightarrow> db \<Rightarrow> bool" where
  step_create: "rj_id j \<notin> rj_id ` set (report_jobs d) \<Longrightarrow> job_step d (snd (create_job j d))"
| step_start: "job_step d (snd (atomic (start_generation req inet e k) d))"
| step_finish: "job_step d (snd (atomic (finish_generation e k filename csv) d))"
| step_fail: "job_step d (snd (atomic (fail_generation req inet e k m) d))"
| step_audit: "job_step d (audit_job e req inet action j actor m d)"
| step_generate: "job_step d (snd (generate_view e inet req j d))"
| step_retry: "job_step d (snd (retry_view e inet req j d))"
| step_cancel: "job_step d (snd (cancel_view e inet req j d))"

inductive job_reaches :: "db \<Rightarrow> db \<Rightarrow> bool" where
  job_refl: "job_reaches d d"
| job_then: "job_reaches d d1 \<Longrightarrow> job_step d1 d2 \<Longrightarrow> job_reaches d d2"

definition job_inv :: "db \<Rightarrow> bool" where
  "job_inv d = (keys_unique rj_id (report_jobs d) \<and> jobs_ok d)"

lemma job_inv_frame [simp]:
  "job_inv (d\<lparr>audit_logs := logs\<rparr>) = job_inv d" "job_inv (d\<lparr>outbox := q\<rparr>) = job_inv d"
  "job_inv (audit_job e req inet action j actor message d) = job_inv d" "job_inv (task_audit e action j message d) = job_inv d"
  by (simp_all add: job_inv_def)

lemma job_row: "job_inv d \<Longrightarrow> r \<in> set (report_jobs d) \<Longrightarrow> job_of d (rj_id r) = Some r"
  unfolding job_inv_def keys_unique_def job_of_def using job_tbl.get_in by blast

lemma save_keeps:
  assumes "job_inv d" and "save_job copy j d = (r, d')" and "\<And>j r. rj_id (copy j r) = rj_id r"
    and "\<And>row. job_of d (rj_id j) = Some row \<Longrightarrow> job_times_ok j \<Longrightarrow> job_times_ok (copy j row)"
  shows "job_inv d'"
proof (cases r)
  case (Inl x)
  then show ?thesis using assms(1,2) save_job_Inl by metis
next
  case (Inr q)
  have s: "job_times_ok j" "d' = d\<lparr>report_jobs := tbl_update rj_id (rj_id j) (copy j) (report_jobs d)\<rparr>"
    using save_job_Inr assms(2) unfolding Inr by blast+
  have "keys_unique rj_id (report_jobs d')" using assms(1,3) by (simp add: s(2) job_inv_def keys_unique_update)
  moreover have "jobs_ok d'" unfolding s(2)
  proof (rule jobs_ok_updated)
    show "jobs_ok d" using assms(1) by (simp add: job_inv_def)
    fix row assume "row \<in> set (report_jobs d)" "rj_id row = rj_id j"
    then show "job_times_ok (copy j row)" using job_row [OF assms(1)] assms(4) s(1) by metis
  qed
  ultimately show ?thesis by (simp add: job_inv_def)
qed

lemma block_keeps: "job_inv d0 \<Longrightarrow> job_inv d \<Longrightarrow> job_inv (audit_in_block req inet e action j m d0 d)"
  by (cases rule: audit_in_block_cases [of req inet e action j m d0 d]) simp_all

lemma atomic_keeps: "job_inv d \<Longrightarrow> (\<And>r d'. f d = (r, d') \<Longrightarrow> job_inv d') \<Longrightarrow> job_inv (snd (atomic f d))"
  by (auto simp: atomic_def split: prod.splits sum.splits)

lemma start_keeps:
  assumes "job_inv d"
  shows "job_inv (snd (start_generation req inet e k d))"
proof (cases "job_of d k")
  case None
  then show ?thesis using assms by (simp add: start_generation_def)
next
  case (Some j)
  define j' where "j' = j\<lparr>rj_status := JOB_PROCESSING,
    rj_started_at := Some (case rj_started_at j of Some t \<Rightarrow> t | None \<Rightarrow> now e), rj_error_message := Some []\<rparr>"
  obtain r d' where s: "save_job copy_started j' d = (r, d')" by fastforce
  have "job_inv d'" by (rule save_keeps [OF assms s]) (use Some job_of_id [OF Some] in \<open>auto simp: j'_def copies_times\<close>)
  then show ?thesis using assms Some s by (auto simp: start_generation_def Let_def j'_def [symmetric] block_keeps split: sum.splits)
qed

lemma finish_keeps:
  assumes "job_inv d"
  shows "job_inv (snd (finish_generation e k filename csv d))"
proof (cases "job_of d k")
  case None
  then show ?thesis using assms by (simp add: finish_generation_def)
next
  case (Some j)
  define j' where "j' = j\<lparr>rj_file := Some (''reports/'' @ filename, csv), rj_status := JOB_COMPLETED,
    rj_completed_at := Some (now e), rj_error_message := Some []\<rparr>"
  obtain r d' where s: "save_job copy_finished j' d = (r, d')" by fastforce
  have "job_inv d'" by (rule save_keeps [OF assms s]) (use Some job_of_id [OF Some] in \<open>auto simp: j'_def copies_times\<close>)
  then show ?thesis
    using assms unfolding finish_generation_def Some option.simps Let_def j'_def [symmetric] s by (cases r) simp_all
qed

lemma fail_keeps:
  assumes "job_inv d"
  shows "job_inv (snd (fail_generation req inet e k m d))"
proof (cases "job_of d k")
  case None
  then show ?thesis using assms by (simp add: fail_generation_def)
next
  case (Some j)
  define j' where "j' = j\<lparr>rj_status := JOB_FAILED, rj_completed_at := Some (now e), rj_error_message := Some m\<rparr>"
  obtain r d' where s: "save_job copy_failed j' d = (r, d')" by fastforce
  have "job_inv d'" by (rule save_keeps [OF assms s]) (use Some job_of_id [OF Some] in \<open>auto simp: j'_def copies_times\<close>)
  then show ?thesis using assms Some s by (auto simp: fail_generation_def Let_def j'_def [symmetric] block_keeps split: sum.splits)
qed

lemma enqueue_keeps:
  assumes "job_inv d"
  shows "job_inv (snd (enqueue_generation e inet req action j d))"
proof -
  define j1 where "j1 = (if rj_requested_by j = None \<and> wr_user req \<noteq> None then j\<lparr>rj_requested_by := wr_user req\<rparr> else j)"
  define j2 where "j2 = (if rj_status j1 = JOB_FAILED
    then j1\<lparr>rj_status := JOB_PENDING, rj_error_message := Some [], rj_started_at := None, rj_completed_at := None\<rparr> else j1)"
  obtain r d' where s: "save_job copy_enqueued (j2\<lparr>rj_file := None\<rparr>) d = (r, d')" by fastforce
  have "job_inv d'" by (rule save_keeps [OF assms s]) (simp_all add: copies_times)
  then show ?thesis
    unfolding enqueue_generation_def Let_def j1_def [symmetric] j2_def [symmetric] s by (cases r) simp_all
qed

lemma cancel_keeps:
  assumes "job_inv d"
  shows "job_inv (snd (cancel_view e inet req j d))"
proof -
  define j' where "j' = j\<lparr>rj_file := None, rj_status := JOB_CANCELLED,
    rj_started_at := Some (case rj_started_at j of Some t \<Rightarrow> t | None \<Rightarrow> now e), rj_completed_at := Some (now e),
    rj_error_message := Some ''Cancelled by user''\<rparr>"
  obtain r d' where s: "save_job copy_cancelled j' d = (r, d')" by fastforce
  have "job_inv d'" by (rule save_keeps [OF assms s]) (simp_all add: copies_times)
  then show ?thesis using assms unfolding cancel_view_def Let_def j'_def [symmetric] s by (cases r) simp_all
qed

lemma create_keeps:
  assumes "job_inv d" and "rj_id j \<notin> rj_id ` set (report_jobs d)"
  shows "job_inv (snd (create_job j d))"
proof (cases "full_clean_job d True j")
  case (Inl x)
  then show ?thesis using assms(1) by (simp add: create_job_def)
next
  case (Inr u)
  then have "job_times_ok j" by (auto simp: full_clean_job_def job_times_iff split: sum.splits)
  then show ?thesis using assms Inr by (auto simp: create_job_def job_inv_def jobs_ok_def keys_unique_insert)
qed

lemma job_step_keeps: "job_step d d' \<Longrightarrow> job_inv d \<Longrightarrow> job_inv d'"
proof (induction rule: job_step.induct)
  case (step_start d req inet e k)
  then show ?case by (intro atomic_keeps) (auto dest: start_keeps [of d req inet e k])
next
  case (step_finish d e k filename csv)
  then show ?case by (intro atomic_keeps) (auto dest: finish_keeps [of d e k filename csv])
next
  case (step_fail d req inet e k m)
  then show ?case by (intro atomic_keeps) (auto dest: fail_keeps [of d req inet e k m])
qed (auto simp: generate_view_def retry_view_def create_keeps enqueue_keeps cancel_keeps)

lemma job_reaches_keeps: "job_reaches d d' \<Longrightarrow> job_inv d \<Longrightarrow> job_inv d'"
  by (induction rule: job_reaches.induct) (auto dest: job_step_keeps)

lemma job_reaches_trans: "job_reaches b c \<Longrightarrow> job_reaches a b \<Longrightarrow> job_reaches a c"
  by (induction rule: job_reaches.induct) (auto intro: job_then)

lemma job_one: "job_step d d' \<Longrightarrow> job_reaches d d'"
  by (rule job_then [OF job_refl])

text \<open>A whole generation is such a sequence of transactions, with those of others in between.\<close>

lemma generate_reaches:
  assumes "\<And>x. job_reaches x (other x)"
  shows "job_reaches d (snd (generate_report_job req inet e e2 c other k d))"
proof -
  obtain r d1 where s: "atomic (start_generation req inet e k) d = (r, d1)" by fastforce
  have 1: "job_reaches d d1" using job_one [OF step_start [of d req inet e k]] s by simp
  have 2: "job_reaches d (other d1)" using assms 1 by (rule job_reaches_trans)
  have fail: "job_reaches x (snd (atomic (fail_generation req inet e2 k m) x))" for x m by (rule job_one [OF step_fail])
  show ?thesis
  proof (cases r)
    case (Inl x)
    then show ?thesis using s 1 by (simp add: generate_report_job_def)
  next
    case (Inr jb)
    obtain j b where jb: "jb = (j, b)" by fastforce
    show ?thesis
    proof (cases "b \<and> (\<exists>t csv. build_report e2 c d1 j = Inr (t, csv))")
      case True
      then obtain t csv where b: b "build_report e2 c d1 j = Inr (t, csv)" by blast
      obtain q d2 where f: "atomic (finish_generation e2 k (report_filename e2 c d1 j t) csv) (other d1) = (q, d2)" by fastforce
      have 3: "job_reaches d d2" using job_one [OF step_finish [of "other d1" e2 k "report_filename e2 c d1 j t" csv]] f 2
        by (auto intro: job_reaches_trans)
      have "job_reaches d (audit_job e2 req inet action j2 actor m d2)" for action j2 actor m
        by (rule job_then [OF 3 step_audit])
      then show ?thesis using 3 s f b fail [THEN job_reaches_trans [OF _ 3]]
        by (auto simp: generate_report_job_def Inr jb split: sum.splits)
    next
      case False
      then show ?thesis using s 1 fail [THEN job_reaches_trans [OF _ 2]]
        by (auto simp: generate_report_job_def Inr jb split: sum.splits)
    qed
  qed
qed



end
