(* ===== verification/Report_Schedules.thy ===== *)
theory Report_Schedules
  imports Report_Keys Calendar Dcim_Models
begin

text \<open>
  Report schedules (\<open>apps/reports/models.py\<close>, class \<open>ReportSchedule\<close>, and the claiming half of
  \<open>apps/reports/services/schedules.py\<close>): the next run, the window of a run, validation and saving, and the
  claim of the due schedules. A moment is UTC; the wall clock of \<open>Asia/Dhaka\<close> is \<open>local_offset\<close> ahead of it.
\<close>

subsection \<open>Times\<close>

definition shift_months :: "time \<Rightarrow> int \<Rightarrow> time" where
  "shift_months v months = add_months (v div day_length) months * day_length + v mod day_length"

text \<open>The value is a wall clock reading in the zone the datetime carries.\<close>

definition shift_by_frequency :: "string \<Rightarrow> time \<Rightarrow> int \<Rightarrow> time" where
  "shift_by_frequency frequency v steps =
     (if frequency = ''DAILY'' then v + steps * day_length
      else if frequency = ''WEEKLY'' then v + steps * (7 * day_length)
      else if frequency = ''MONTHLY'' then shift_months v steps
      else if frequency = ''QUARTERLY'' then shift_months v (steps * 3)
      else v + steps * day_length)"

text \<open>
  The reference is a UTC moment, so \<open>.date()\<close> is its UTC day; combined with the delivery time the day is
  read on the wall clock of the zone.
\<close>

definition calculate_next_run_at :: "report_schedule \<Rightarrow> time \<Rightarrow> time" where
  "calculate_next_run_at s reference =
     (let wall = reference div day_length * day_length + rs_delivery_time s in
      if wall - local_offset \<le> reference then shift_by_frequency (rs_frequency s) wall 1 - local_offset
      else wall - local_offset)"

definition calculate_execution_window :: "report_schedule \<Rightarrow> time \<Rightarrow> time \<times> time" where
  "calculate_execution_window s reference =
     (case rs_last_run_at s of
        Some t \<Rightarrow> (t, reference)
      | None \<Rightarrow> (shift_by_frequency (rs_frequency s) reference (- 1), reference))"

subsection \<open>Validation\<close>

definition normalize_recipients :: "env \<Rightarrow> report_schedule \<Rightarrow> string list" where
  "normalize_recipients e s =
     first_of_each (filter (\<lambda>c. c \<noteq> []) (map (\<lambda>r. lower (strip (py_str e r))) (list_or_empty (rs_recipients s))))"

definition valid_recipient :: "string \<Rightarrow> bool" where
  "valid_recipient r = (count_list r CHR ''@'' = 1
     \<and> takeWhile (\<lambda>c. c \<noteq> CHR ''@'') r \<noteq> [] \<and> tl (dropWhile (\<lambda>c. c \<noteq> CHR ''@'') r) \<noteq> [])"

definition is_list :: "py \<Rightarrow> bool" where
  "is_list v = (case v of PList _ \<Rightarrow> True | _ \<Rightarrow> False)"

text \<open>\<open>clean_fields\<close>: blank texts, lengths, choices and the rows the foreign keys name.\<close>

definition choice_errors :: "string \<Rightarrow> string \<Rightarrow> string list \<Rightarrow> (string \<times> string list) list" where
  "choice_errors field v choices =
     (if v = [] then [(field, [''This field cannot be blank.''])]
      else if v \<notin> set choices then [(field, [''Value is not a valid choice.''])] else [])"

definition schedule_field_errors :: "db \<Rightarrow> report_schedule \<Rightarrow> (string \<times> string list) list" where
  "schedule_field_errors d s =
     (if tbl_get org_id (rs_organization s) (organizations d) = None then [(''organization'', [''organization instance does not exist.''])] else [])
     @ (case rs_data_center s of None \<Rightarrow> []
        | Some k \<Rightarrow> if data_center_of d k = None then [(''data_center'', [''data center instance does not exist.''])] else [])
     @ (if rs_name s = [] then [(''name'', [''This field cannot be blank.''])]
        else if length (rs_name s) > 255 then [(''name'', [''Ensure this value has at most 255 characters.''])] else [])
     @ choice_errors ''report_type'' (rs_report_type s) SUPPORTED_REPORT_TYPES
     @ choice_errors ''frequency'' (rs_frequency s) (map fst FREQUENCY_LABELS)
     @ choice_errors ''output_format'' (rs_output_format s) (map fst FORMAT_LABELS)
     @ (case rs_last_job s of None \<Rightarrow> []
        | Some k \<Rightarrow> if tbl_get rj_id k (report_jobs d) = None then [(''last_job'', [''report job instance does not exist.''])] else [])
     @ (case rs_created_by s of None \<Rightarrow> []
        | Some k \<Rightarrow> if tbl_get usr_id k (users d) = None then [(''created_by'', [''user instance does not exist.''])] else [])"

text \<open>\<open>clean\<close> rewrites the object while it collects its errors.\<close>

definition with_vocabulary :: "report_schedule \<Rightarrow> report_schedule" where
  "with_vocabulary s =
     s\<lparr>rs_report_type := (case normalize_report_type (rs_report_type s) of Some t \<Rightarrow> t | None \<Rightarrow> rs_report_type s),
       rs_frequency := (case normalize_report_frequency (rs_frequency s) of Some t \<Rightarrow> t | None \<Rightarrow> rs_frequency s),
       rs_output_format := (case normalize_report_format (rs_output_format s) of Some t \<Rightarrow> t | None \<Rightarrow> rs_output_format s)\<rparr>"

definition with_recipients :: "env \<Rightarrow> report_schedule \<Rightarrow> report_schedule" where
  "with_recipients e s =
     (if is_list (rs_recipients s)
      then s\<lparr>rs_recipients := PList (map PStr (normalize_recipients e s)),
             rs_sms_recipients := PList (map PStr (stripped_texts e (list_or_empty (rs_sms_recipients s))))\<rparr>
      else s)"

definition with_next_run :: "env \<Rightarrow> report_schedule \<Rightarrow> report_schedule" where
  "with_next_run e s =
     (if rs_is_active s \<and> rs_next_run_at s = None then s\<lparr>rs_next_run_at := Some (calculate_next_run_at s (now e))\<rparr> else s)"

definition vocabulary_errors :: "report_schedule \<Rightarrow> (string \<times> string list) list" where
  "vocabulary_errors s =
     (if rs_name s = [] then [(''name'', [''Name is required.''])] else [])
     @ (if normalize_report_type (rs_report_type s) = None then [(''report_type'', [''Unsupported report type.''])] else [])
     @ (if normalize_report_frequency (rs_frequency s) = None then [(''frequency'', [''Unsupported frequency.''])] else [])
     @ (if normalize_report_format (rs_output_format s) = None then [(''output_format'', [''Unsupported report format.''])] else [])"

definition recipient_errors :: "env \<Rightarrow> report_schedule \<Rightarrow> (string \<times> string list) list" where
  "recipient_errors e s =
     (if \<not> is_list (rs_recipients s) then [(''recipients'', [''Recipients must be a list of email addresses.''])]
      else let emails = normalize_recipients e s; phones = stripped_texts e (list_or_empty (rs_sms_recipients s)) in
        (if emails = [] \<and> \<not> (rs_send_sms s \<and> phones \<noteq> []) then [(''recipients'', [''At least one recipient email is required.''])] else [])
        @ map (\<lambda>r. (''recipients'', [''Invalid recipient email: '' @ r])) (filter (\<lambda>r. \<not> valid_recipient r) emails))"

definition run_errors :: "report_schedule \<Rightarrow> (string \<times> string list) list" where
  "run_errors s =
     (if rs_send_sms s \<and> \<not> truthy (rs_sms_recipients s)
      then [(''sms_recipients'', [''At least one SMS recipient is required when SMS is enabled.''])] else [])
     @ (case (rs_last_run_at s, rs_next_run_at s) of
          (Some l, Some n) \<Rightarrow> if l > n then [(''next_run_at'', [''Next run time must be after the last run time.''])] else []
        | _ \<Rightarrow> [])"

text \<open>The data center's organization, which \<open>clean\<close> compares, is one of a row that may be missing.\<close>

definition schedule_site_errors :: "db \<Rightarrow> report_schedule \<Rightarrow> exn + (string \<times> string list) list" where
  "schedule_site_errors d s = (case rs_data_center s of
      None \<Rightarrow> Inr []
    | Some k \<Rightarrow> (case data_center_of d k of
        None \<Rightarrow> Inl DoesNotExist
      | Some c \<Rightarrow> Inr (if dc_organization c \<noteq> rs_organization s
          then [(''data_center'', [''Data center must belong to the selected organization.''])] else [])))"

definition clean_schedule :: "env \<Rightarrow> report_schedule \<Rightarrow> report_schedule" where
  "clean_schedule e s = with_next_run e (with_recipients e (with_vocabulary s))"

definition full_clean_schedule :: "env \<Rightarrow> db \<Rightarrow> report_schedule \<Rightarrow> exn + report_schedule" where
  "full_clean_schedule e d s = (case schedule_site_errors d s of
      Inl x \<Rightarrow> Inl x
    | Inr site \<Rightarrow>
       (let errors = schedule_field_errors d s @ vocabulary_errors s @ site @ recipient_errors e s @ run_errors (clean_schedule e s) in
        if errors = [] then Inr (clean_schedule e s) else Inl (ValidationError errors)))"

subsection \<open>Saving\<close>

text \<open>
  \<open>save(update_fields=...)\<close> of an object read earlier: a change of the delivery time, the frequency or a
  reactivation since the stored row asks for a new next run; only the named fields (\<open>copy\<close>) reach the row.
\<close>

definition retimed :: "report_schedule option \<Rightarrow> report_schedule \<Rightarrow> bool" where
  "retimed previous s = (case previous of
      None \<Rightarrow> False
    | Some p \<Rightarrow> rs_delivery_time p \<noteq> rs_delivery_time s \<or> rs_frequency p \<noteq> rs_frequency s \<or> (rs_is_active s \<and> \<not> rs_is_active p))"

definition schedule_of :: "db \<Rightarrow> uuid \<Rightarrow> report_schedule option" where
  "schedule_of d k = tbl_get rs_id k (report_schedules d)"

definition save_schedule ::
    "env \<Rightarrow> (report_schedule \<Rightarrow> report_schedule \<Rightarrow> report_schedule) \<Rightarrow> report_schedule \<Rightarrow> db \<Rightarrow> (exn + report_schedule) \<times> db" where
  "save_schedule e copy s d =
     (let previous = schedule_of d (rs_id s);
          s' = (if retimed previous s then s\<lparr>rs_next_run_at := Some (calculate_next_run_at s (now e))\<rparr> else s);
          write = (\<lambda>s2 row. (if retimed previous s then (copy s2 row)\<lparr>rs_next_run_at := rs_next_run_at s2\<rparr> else copy s2 row)) in
      case full_clean_schedule e d s' of
        Inl x \<Rightarrow> (Inl x, d)
      | Inr s2 \<Rightarrow> if previous = None then (Inl DatabaseError, d)
          else (Inr s2, d\<lparr>report_schedules := tbl_update rs_id (rs_id s) (write s2) (report_schedules d)\<rparr>))"

text \<open>Saving a new object writes all of it.\<close>

definition create_schedule :: "env \<Rightarrow> report_schedule \<Rightarrow> db \<Rightarrow> (exn + report_schedule) \<times> db" where
  "create_schedule e s d =
     (let s' = (if rs_next_run_at s = None then s\<lparr>rs_next_run_at := Some (calculate_next_run_at s (now e))\<rparr> else s) in
      case full_clean_schedule e d s' of
        Inl x \<Rightarrow> (Inl x, d)
      | Inr s2 \<Rightarrow> (Inr s2, d\<lparr>report_schedules := tbl_insert s2 (report_schedules d)\<rparr>))"

subsection \<open>Claiming\<close>

definition is_due :: "time \<Rightarrow> report_schedule \<Rightarrow> bool" where
  "is_due t s = (rs_is_active s \<and> (case rs_next_run_at s of None \<Rightarrow> False | Some n \<Rightarrow> n \<le> t))"

definition due_schedules :: "uuid set \<Rightarrow> time \<Rightarrow> nat \<Rightarrow> db \<Rightarrow> report_schedule list" where
  "due_schedules locked t limit d =
     take limit (order_by (\<lambda>s. (the (rs_next_run_at s), rs_created_at s))
       (filter (\<lambda>s. is_due t s \<and> rs_id s \<notin> locked) (report_schedules d)))"

record claimed_schedule =
  cl_schedule :: uuid
  cl_window_start :: time
  cl_window_end :: time

definition claimed :: "time \<Rightarrow> report_schedule \<Rightarrow> report_schedule" where
  "claimed t s = s\<lparr>rs_last_run_at := Some (snd (calculate_execution_window s t)), 
     rs_next_run_at := Some (calculate_next_run_at (s\<lparr>rs_last_run_at := Some (snd (calculate_execution_window s t))\<rparr>) t),
     rs_last_delivery_status := Some ''PENDING'', rs_last_error_message := Some []\<rparr>"

definition copy_claim :: "report_schedule \<Rightarrow> report_schedule \<Rightarrow> report_schedule" where
  "copy_claim s row = row\<lparr>rs_last_run_at := rs_last_run_at s, rs_next_run_at := rs_next_run_at s,
     rs_last_delivery_status := rs_last_delivery_status s, rs_last_error_message := rs_last_error_message s\<rparr>"

definition claim_of :: "time \<Rightarrow> report_schedule \<Rightarrow> claimed_schedule" where
  "claim_of t s = (let w = calculate_execution_window s t in \<lparr>cl_schedule = rs_id s, cl_window_start = fst w, cl_window_end = snd w\<rparr>)"

primrec claim_each :: "env \<Rightarrow> report_schedule list \<Rightarrow> claimed_schedule list \<Rightarrow> db \<Rightarrow> (exn + claimed_schedule list) \<times> db" where
  "claim_each e [] acc d = (Inr acc, d)"
| "claim_each e (s # ss) acc d = (case save_schedule e copy_claim (claimed (now e) s) d of
      (Inl x, d') \<Rightarrow> (Inl x, d')
    | (Inr _, d') \<Rightarrow> claim_each e ss (acc @ [claim_of (now e) s]) d')"

definition claim_due_report_schedules :: "env \<Rightarrow> uuid set \<Rightarrow> nat \<Rightarrow> db \<Rightarrow> (exn + claimed_schedule list) \<times> db" where
  "claim_due_report_schedules e locked limit d = atomic (\<lambda>d. claim_each e (due_schedules locked (now e) limit d) [] d) d"

definition delivery_task :: "claimed_schedule \<Rightarrow> task" where
  "delivery_task c = DeliverReportSchedule (cl_schedule c) (cl_window_start c) (cl_window_end c)"

definition enqueue_due_report_schedules :: "env \<Rightarrow> uuid set \<Rightarrow> nat \<Rightarrow> db \<Rightarrow> (exn + nat) \<times> db" where
  "enqueue_due_report_schedules e locked limit d = (case claim_due_report_schedules e locked limit d of
      (Inl x, d') \<Rightarrow> (Inl x, d')
    | (Inr cs, d') \<Rightarrow> (Inr (length cs), d'\<lparr>outbox := outbox d' @ map delivery_task cs\<rparr>))"

end
