(* ===== verification/Report_Schedule_Props.thy ===== *)
theory Report_Schedule_Props
  imports Report_Schedules
begin

text \<open>
  What the claim of the due report schedules does: the next run it sets, when it goes through, and what it
  leaves in the table and in the queue.
\<close>

interpretation schedule_tbl: keyed_table rs_id "tbl_update rs_id" "tbl_get rs_id"
  by (rule keyed_table_lists)

subsection \<open>The next run\<close>

lemma day_length_pos: "0 < day_length" "local_offset < day_length" "0 < local_offset"
  by (simp_all add: day_length_def local_offset_def seconds_def)

lemma day_start: "t div day_length * day_length \<le> t" "t < t div day_length * day_length + day_length"
proof -
  have "0 \<le> t mod day_length" "t mod day_length < day_length" using day_length_pos(1) by simp_all
  then show "t div day_length * day_length \<le> t" "t < t div day_length * day_length + day_length"
    using div_mult_mod_eq [of t day_length] by linarith+
qed

lemma day_mod: "t mod day_length = t - t div day_length * day_length"
  using div_mult_mod_eq [of t day_length] by linarith

lemma clock_of: "0 \<le> v \<Longrightarrow> v < day_length \<Longrightarrow> (k * day_length + v) mod day_length = v \<and> (k * day_length + v) div day_length = k"
  by simp

lemma shift_months_day:
  assumes "0 \<le> v" and "v < day_length" and "- epoch_day \<le> k"
  shows "k * day_length + v + day_length \<le> shift_months (k * day_length + v) (int (Suc n))"
proof -
  have "k + 1 \<le> add_months k (int (Suc n))" using add_months_bounds [OF assms(3), of n] by linarith
  then have "(k + 1) * day_length \<le> add_months k (int (Suc n)) * day_length" by (rule mult_right_mono) (simp add: day_length_pos(1) less_imp_le)
  then show ?thesis
    unfolding shift_months_def clock_of [OF assms(1,2), THEN conjunct1] clock_of [OF assms(1,2), THEN conjunct2]
    by (simp add: distrib_right)
qed

lemma shift_one_day:
  assumes "0 \<le> v" and "v < day_length" and "- epoch_day \<le> k"
  shows "k * day_length + v + day_length \<le> shift_by_frequency f (k * day_length + v) 1"
proof -
  have m: "k * day_length + v + day_length \<le> shift_months (k * day_length + v) 1"
    "k * day_length + v + day_length \<le> shift_months (k * day_length + v) 3"
    using shift_months_day [OF assms, of 0] shift_months_day [OF assms, of 2] by simp_all
  show ?thesis
  proof (cases "f = ''MONTHLY'' \<or> f = ''QUARTERLY''")
    case True
    then show ?thesis using m by (auto simp: shift_by_frequency_def)
  next
    case False
    then show ?thesis using day_length_pos(1) by (auto simp: shift_by_frequency_def)
  qed
qed

lemma shift_clock:
  assumes "0 \<le> v" and "v < day_length"
  shows "shift_by_frequency f (k * day_length + v) n mod day_length = v"
proof -
  have d: "(k * day_length + v + j * day_length) mod day_length = v" for j
  proof -
    have "k * day_length + v + j * day_length = (k + j) * day_length + v" by (simp add: distrib_right)
    then show ?thesis using clock_of [OF assms] by simp
  qed
  have w: "(k * day_length + v + n * (7 * day_length)) mod day_length = v" using d [of "n * 7"] by (simp only: mult.assoc)
  have m: "shift_months (k * day_length + v) j mod day_length = v" for j
    using clock_of [OF assms] unfolding shift_months_def by simp
  show ?thesis unfolding shift_by_frequency_def by (simp only: d w m if_cancel split: if_split) simp
qed

lemma shift_daily: "shift_by_frequency ''DAILY'' v n = v + n * day_length"
  by (simp add: shift_by_frequency_def)

lemma local_clock:
  assumes "0 \<le> r" and "r < day_length"
  shows "(k * day_length + r + local_offset) mod day_length = (if r + local_offset < day_length then r + local_offset else r + local_offset - day_length)"
proof (cases "r + local_offset < day_length")
  case True
  have e: "k * day_length + r + local_offset = k * day_length + (r + local_offset)" by (rule add.assoc)
  show ?thesis unfolding e using True clock_of [of "r + local_offset" k] assms day_length_pos by simp
next
  case False
  have e: "k * day_length + r + local_offset = (k + 1) * day_length + (r + local_offset - day_length)" by (simp add: distrib_right)
  show ?thesis unfolding e using False clock_of [of "r + local_offset - day_length" "k + 1"] assms day_length_pos by simp
qed

lemma next_run_cases:
  assumes "- epoch_day * day_length \<le> t"
  obtains k r where "t = k * day_length + r" "0 \<le> r" "r < day_length" "- epoch_day \<le> k"
    "\<And>s. calculate_next_run_at s t = (if rs_delivery_time s - local_offset \<le> r
        then shift_by_frequency (rs_frequency s) (k * day_length + rs_delivery_time s) 1 - local_offset
        else k * day_length + rs_delivery_time s - local_offset)"
proof -
  define k r where "k = t div day_length" and "r = t mod day_length"
  have t: "t = k * day_length + r" "0 \<le> r" "r < day_length" using day_length_pos(1) by (simp_all add: k_def r_def)
  have k: "- epoch_day \<le> k"
    using assms day_length_pos(1) t
    by (metis k_def nonzero_mult_div_cancel_right less_irrefl zdiv_mono1)
  have "calculate_next_run_at s t = (if rs_delivery_time s - local_offset \<le> r
        then shift_by_frequency (rs_frequency s) (k * day_length + rs_delivery_time s) 1 - local_offset
        else k * day_length + rs_delivery_time s - local_offset)" for s
    unfolding calculate_next_run_at_def Let_def k_def [symmetric] using t(1) by simp
  with t k that show thesis by blast
qed

lemma next_run_clock:
  assumes "0 \<le> rs_delivery_time s" and "rs_delivery_time s < day_length" and "- epoch_day * day_length \<le> t"
  shows "(calculate_next_run_at s t + local_offset) mod day_length = rs_delivery_time s"
proof -
  from assms(3) obtain k r where n: "calculate_next_run_at s t = (if rs_delivery_time s - local_offset \<le> r
        then shift_by_frequency (rs_frequency s) (k * day_length + rs_delivery_time s) 1 - local_offset
        else k * day_length + rs_delivery_time s - local_offset)" by (rule next_run_cases) blast
  show ?thesis using shift_clock [OF assms(1,2), of "rs_frequency s" k 1] clock_of [OF assms(1,2), of k] by (simp add: n)
qed

lemma next_run_future:
  assumes "0 \<le> rs_delivery_time s" and "rs_delivery_time s < day_length" and "- epoch_day * day_length \<le> t"
    and "local_offset \<le> rs_delivery_time s"
  shows "t < calculate_next_run_at s t"
proof -
  from assms(3) obtain k r where t: "t = k * day_length + r" "0 \<le> r" "r < day_length" "- epoch_day \<le> k"
    and n: "calculate_next_run_at s t = (if rs_delivery_time s - local_offset \<le> r
        then shift_by_frequency (rs_frequency s) (k * day_length + rs_delivery_time s) 1 - local_offset
        else k * day_length + rs_delivery_time s - local_offset)" by (rule next_run_cases) blast
  show ?thesis using shift_one_day [OF assms(1,2) t(4), of "rs_frequency s"] assms t(1-3) n by (auto split: if_splits)
qed

lemma next_run_daily:
  assumes "0 \<le> rs_delivery_time s" and "rs_delivery_time s < day_length" and "- epoch_day * day_length \<le> t"
    and "rs_frequency s = ''DAILY''"
  shows "calculate_next_run_at s t \<le> t + day_length"
proof -
  from assms(3) obtain k r where t: "t = k * day_length + r" "0 \<le> r" "r < day_length" "- epoch_day \<le> k"
    and n: "calculate_next_run_at s t = (if rs_delivery_time s - local_offset \<le> r
        then shift_by_frequency (rs_frequency s) (k * day_length + rs_delivery_time s) 1 - local_offset
        else k * day_length + rs_delivery_time s - local_offset)" by (rule next_run_cases) blast
  show ?thesis using n [unfolded assms(4) shift_daily] assms(1,2) t(1-3) day_length_pos by (auto split: if_splits)
qed

lemma next_run_past:
  assumes "0 \<le> rs_delivery_time s" and "rs_delivery_time s < day_length" and "- epoch_day * day_length \<le> t"
    and "rs_frequency s = ''DAILY''" and "rs_delivery_time s < local_offset"
  shows "calculate_next_run_at s t < t
    \<longleftrightarrow> rs_delivery_time s < (t + local_offset) mod day_length \<and> (t + local_offset) mod day_length < local_offset"
proof -
  from assms(3) obtain k r where t: "t = k * day_length + r" "0 \<le> r" "r < day_length" "- epoch_day \<le> k"
    and n: "calculate_next_run_at s t = (if rs_delivery_time s - local_offset \<le> r
        then shift_by_frequency (rs_frequency s) (k * day_length + rs_delivery_time s) 1 - local_offset
        else k * day_length + rs_delivery_time s - local_offset)" by (rule next_run_cases) blast
  have "calculate_next_run_at s t = k * day_length + rs_delivery_time s + day_length - local_offset"
    using n [unfolded assms(4) shift_daily] assms(5) t(2) by simp
  then show ?thesis using local_clock [OF t(2,3), of k] assms(1,2,5) t(2,3) day_length_pos unfolding t(1) by auto
qed

text \<open>The next run reads the delivery time on the wall clock. With a delivery time of 06:00 or later it is in the
  future, and a daily report's is the first such moment. With an earlier one a daily report's next run is already past from the
  delivery time of the day until 06:00.\<close>

theorem next_run_exact:
  assumes "0 \<le> rs_delivery_time s" and "rs_delivery_time s < day_length" and "- epoch_day * day_length \<le> t"
  shows "(calculate_next_run_at s t + local_offset) mod day_length = rs_delivery_time s
    \<and> (local_offset \<le> rs_delivery_time s \<longrightarrow> t < calculate_next_run_at s t)
    \<and> (rs_frequency s = ''DAILY'' \<longrightarrow> calculate_next_run_at s t \<le> t + day_length
        \<and> (rs_delivery_time s < local_offset \<longrightarrow>
             (calculate_next_run_at s t < t \<longleftrightarrow> rs_delivery_time s < (t + local_offset) mod day_length \<and> (t + local_offset) mod day_length < local_offset)))"
  using next_run_clock [OF assms] next_run_future [OF assms] next_run_daily [OF assms] next_run_past [OF assms] by blast

definition daily_schedule :: "time \<Rightarrow> report_schedule" where
  "daily_schedule delivery = \<lparr>rs_id = 1, rs_created_at = 0, rs_organization = 1, rs_data_center = None, rs_name = ''Daily'',
     rs_report_type = ''alert_summary'', rs_frequency = ''DAILY'', rs_delivery_time = delivery, rs_output_format = ''CSV'',
     rs_parameters = PDict [], rs_recipients = PList [PStr ''a@b''], rs_send_sms = False, rs_sms_recipients = PList [],
     rs_attach_raw_data = True, rs_is_active = True, rs_next_run_at = Some 0, rs_last_run_at = None, rs_last_sent_at = None,
     rs_last_delivery_status = None, rs_last_error_message = None, rs_last_job = None, rs_created_by = None\<rparr>"

lemma next_run_exact_witness:
  "calculate_next_run_at (daily_schedule (seconds 7200)) (seconds 75600) < seconds 75600
    \<and> seconds 75600 < calculate_next_run_at (daily_schedule (seconds 21600)) (seconds 75600)"
  using next_run_exact [of "daily_schedule (seconds 7200)" "seconds 75600"] next_run_exact [of "daily_schedule (seconds 21600)" "seconds 75600"]
  by (simp add: daily_schedule_def seconds_def day_length_def local_offset_def epoch_day_def)

subsection \<open>The claim of one schedule\<close>

lemma window_end [simp]: "snd (calculate_execution_window s t) = t"
  by (simp add: calculate_execution_window_def split: option.splits)

lemma next_run_last [simp]: "calculate_next_run_at (s\<lparr>rs_last_run_at := x\<rparr>) t = calculate_next_run_at s t"
  by (simp add: calculate_next_run_at_def Let_def)

lemma claimed_fields [simp]:
  "rs_id (claimed t s) = rs_id s" "rs_last_run_at (claimed t s) = Some t"
  "rs_next_run_at (claimed t s) = Some (calculate_next_run_at s t)"
  "rs_delivery_time (claimed t s) = rs_delivery_time s" "rs_frequency (claimed t s) = rs_frequency s"
  "rs_is_active (claimed t s) = rs_is_active s"
  by (simp_all add: claimed_def)

lemma cleaned_fields [simp]:
  "rs_last_run_at (clean_schedule e s) = rs_last_run_at s"
  "rs_next_run_at s = Some n \<Longrightarrow> rs_next_run_at (clean_schedule e s) = Some n"
  "rs_last_delivery_status (clean_schedule e s) = rs_last_delivery_status s"
  "rs_last_error_message (clean_schedule e s) = rs_last_error_message s"
  by (simp_all add: clean_schedule_def with_next_run_def with_recipients_def with_vocabulary_def Let_def)

lemma copied_claim [simp]: "copy_claim (clean_schedule e (claimed t s)) s = claimed t s"
proof -
  have "copy_claim (clean_schedule e (claimed t s)) s = copy_claim (claimed t s) s" by (simp add: copy_claim_def)
  then show ?thesis by (simp add: copy_claim_def claimed_def)
qed

lemma full_clean_Inr: "full_clean_schedule e d s = Inr s2 \<Longrightarrow> s2 = clean_schedule e s"
  by (auto simp: full_clean_schedule_def Let_def split: sum.splits if_splits)

text \<open>The tables a validation reads do not include the schedules.\<close>

lemma full_clean_frame [simp]: "full_clean_schedule e (d\<lparr>report_schedules := rows\<rparr>) s = full_clean_schedule e d s"
proof -
  have a: "schedule_site_errors (d\<lparr>report_schedules := rows\<rparr>) s = schedule_site_errors d s"
    by (simp add: schedule_site_errors_def data_center_of_def split: option.splits)
  have b: "schedule_field_errors (d\<lparr>report_schedules := rows\<rparr>) s = schedule_field_errors d s"
    by (simp add: schedule_field_errors_def data_center_of_def split: option.splits)
  show ?thesis unfolding full_clean_schedule_def a b by (rule refl)
qed

definition claim_ok :: "env \<Rightarrow> db \<Rightarrow> report_schedule \<Rightarrow> bool" where
  "claim_ok e d s = (case full_clean_schedule e d (claimed (now e) s) of Inl _ \<Rightarrow> False | Inr _ \<Rightarrow> True)"

lemma claim_ok_frame [simp]: "claim_ok e (d\<lparr>report_schedules := rows\<rparr>) s = claim_ok e d s"
  by (simp add: claim_ok_def)

definition claim_row :: "time \<Rightarrow> uuid set \<Rightarrow> report_schedule \<Rightarrow> report_schedule" where
  "claim_row t ks row = (if rs_id row \<in> ks then claimed t row else row)"

definition claim_rows :: "time \<Rightarrow> uuid set \<Rightarrow> db \<Rightarrow> db" where
  "claim_rows t ks d = d\<lparr>report_schedules := map (claim_row t ks) (report_schedules d)\<rparr>"

lemma claim_row_id [simp]: "rs_id (claim_row t ks r) = rs_id r"
  by (simp add: claim_row_def)

lemma claim_ok_rows [simp]: "claim_ok e (claim_rows t ks d) s = claim_ok e d s"
  by (simp add: claim_rows_def)

lemma stored_schedule: "keys_unique rs_id (report_schedules d) \<Longrightarrow> s \<in> set (report_schedules d) \<Longrightarrow> schedule_of d (rs_id s) = Some s"
  unfolding schedule_of_def keys_unique_def by (rule schedule_tbl.get_in)

lemma save_claim:
  assumes u: "keys_unique rs_id (report_schedules d)" and s: "s \<in> set (report_schedules d)"
  shows "save_schedule e copy_claim (claimed (now e) s) d =
    (case full_clean_schedule e d (claimed (now e) s) of Inl x \<Rightarrow> (Inl x, d)
     | Inr s2 \<Rightarrow> (Inr s2, claim_rows (now e) {rs_id s} d))"
proof -
  have g: "schedule_of d (rs_id s) = Some s" using u s by (rule stored_schedule)
  have r: "\<not> retimed (Some s) (claimed (now e) s)" by (simp add: retimed_def)
  have same: "r = s" if "r \<in> set (report_schedules d)" "rs_id r = rs_id s" for r
    using stored_schedule [OF u that(1)] g that(2) by (metis option.inject)
  have "tbl_update rs_id (rs_id s) (copy_claim (clean_schedule e (claimed (now e) s))) (report_schedules d)
      = map (claim_row (now e) {rs_id s}) (report_schedules d)"
    unfolding tbl_update_def by (rule map_cong) (auto simp: claim_row_def dest: same)
  then show ?thesis
    unfolding save_schedule_def Let_def claimed_fields g
    by (auto simp: r claim_rows_def dest: full_clean_Inr split: sum.splits)
qed

lemma claim_rows_compose:
  assumes "\<And>r. r \<in> set (report_schedules d) \<Longrightarrow> rs_id r \<in> ks \<Longrightarrow> rs_id r \<notin> ks'"
  shows "claim_rows t ks' (claim_rows t ks d) = claim_rows t (ks \<union> ks') d"
proof -
  have "claim_row t ks' (claim_row t ks r) = claim_row t (ks \<union> ks') r" if "r \<in> set (report_schedules d)" for r
    using assms [OF that] by (cases "rs_id r \<in> ks") (simp_all add: claim_row_def)
  then have "map (\<lambda>r. claim_row t ks' (claim_row t ks r)) (report_schedules d) = map (claim_row t (ks \<union> ks')) (report_schedules d)"
    by (rule map_cong [OF refl])
  then show ?thesis by (simp add: claim_rows_def comp_def)
qed

lemma claim_rows_none [simp]: "claim_rows t {} d = d"
proof -
  have "claim_row t {} = (\<lambda>r. r)" by (rule ext) (simp add: claim_row_def)
  then show ?thesis by (cases d) (simp add: claim_rows_def)
qed

lemma claim_rows_keys: "keys_unique rs_id (report_schedules (claim_rows t ks d)) = keys_unique rs_id (report_schedules d)"
  by (simp add: claim_rows_def keys_unique_def comp_def)

lemma claim_each_eq:
  assumes "keys_unique rs_id (report_schedules d)" and "set ss \<subseteq> set (report_schedules d)" and "distinct (map rs_id ss)"
  shows "if list_all (claim_ok e d) ss
    then claim_each e ss acc d = (Inr (acc @ map (claim_of (now e)) ss), claim_rows (now e) (rs_id ` set ss) d)
    else \<exists>x d'. claim_each e ss acc d = (Inl x, d') \<and> (\<exists>s \<in> set ss. full_clean_schedule e d (claimed (now e) s) = Inl x)"
  using assms
proof (induction ss arbitrary: acc d)
  case Nil
  then show ?case by simp
next
  case (Cons s ss)
  let ?d = "claim_rows (now e) {rs_id s} d"
  have s: "s \<in> set (report_schedules d)" and rest: "rs_id s \<notin> rs_id ` set ss" "distinct (map rs_id ss)" using Cons.prems by auto
  note save = save_claim [OF Cons.prems(1) s, of e]
  show ?case
  proof (cases "full_clean_schedule e d (claimed (now e) s)")
    case (Inl x)
    then have "\<not> claim_ok e d s" by (simp add: claim_ok_def)
    moreover have "claim_each e (s # ss) acc d = (Inl x, d)" by (simp add: save Inl)
    ultimately show ?thesis using Inl by simp
  next
    case (Inr s2)
    then have ok: "claim_ok e d s" by (simp add: claim_ok_def)
    have sub: "set ss \<subseteq> set (report_schedules ?d)"
    proof
      fix r assume r: "r \<in> set ss"
      with rest(1) have "rs_id r \<noteq> rs_id s" by (metis image_eqI)
      then have "claim_row (now e) {rs_id s} r = r" by (simp add: claim_row_def)
      moreover have "r \<in> set (report_schedules d)" using r Cons.prems(2) by auto
      ultimately show "r \<in> set (report_schedules ?d)" by (force simp: claim_rows_def)
    qed
    have step: "claim_each e (s # ss) acc d = claim_each e ss (acc @ [claim_of (now e) s]) ?d" by (simp add: save Inr)
    have clean: "full_clean_schedule e ?d r = full_clean_schedule e d r" for r by (simp add: claim_rows_def)
    have comp: "claim_rows (now e) (rs_id ` set ss) ?d = claim_rows (now e) (rs_id ` set (s # ss)) d"
      using claim_rows_compose [of d "{rs_id s}" "rs_id ` set ss" "now e"] rest(1) by auto
    have u: "keys_unique rs_id (report_schedules ?d)" using Cons.prems(1) by (simp add: claim_rows_keys)
    note IH = Cons.IH [OF u sub rest(2), of "acc @ [claim_of (now e) s]"]
    have c: "claim_ok e ?d = claim_ok e d" by (rule ext) simp
    show ?thesis
    proof (cases "list_all (claim_ok e d) ss")
      case True
      then show ?thesis using IH unfolding step comp c by (simp add: ok)
    next
      case False
      then show ?thesis using IH unfolding step clean c by (simp add: ok) blast
    qed
  qed
qed

subsection \<open>The claim\<close>

lemma due_subset: "set (due_schedules locked t limit d) \<subseteq> {s \<in> set (report_schedules d). is_due t s \<and> rs_id s \<notin> locked}"
  unfolding due_schedules_def using set_take_subset by fastforce

lemma due_distinct:
  assumes "keys_unique rs_id (report_schedules d)"
  shows "distinct (map rs_id (due_schedules locked t limit d))"
proof -
  have i: "inj_on rs_id (set (report_schedules d))" and dd: "distinct (report_schedules d)"
    using assms by (simp_all add: keys_unique_def distinct_map)
  have "distinct (due_schedules locked t limit d)" using dd by (simp add: due_schedules_def)
  moreover have "inj_on rs_id (set (due_schedules locked t limit d))" using i due_subset by (rule inj_on_subset [OF _ subset_trans]) auto
  ultimately show ?thesis by (simp add: distinct_map)
qed

lemma claim_eq:
  assumes "keys_unique rs_id (report_schedules d)"
  shows "if list_all (claim_ok e d) (due_schedules locked (now e) limit d)
    then claim_due_report_schedules e locked limit d
      = (Inr (map (claim_of (now e)) (due_schedules locked (now e) limit d)),
         claim_rows (now e) (rs_id ` set (due_schedules locked (now e) limit d)) d)
    else \<exists>x. claim_due_report_schedules e locked limit d = (Inl x, d)
      \<and> (\<exists>s \<in> set (due_schedules locked (now e) limit d). full_clean_schedule e d (claimed (now e) s) = Inl x)"
proof -
  have sub: "set (due_schedules locked (now e) limit d) \<subseteq> set (report_schedules d)" using due_subset by blast
  show ?thesis
    using claim_each_eq [OF assms sub due_distinct [OF assms], of e "[]"]
    by (auto simp: claim_due_report_schedules_def atomic_def split: if_splits)
qed

lemma stored_after: "schedule_of (claim_rows t ks d) k = map_option (claim_row t ks) (schedule_of d k)"
proof -
  have "find (\<lambda>r. rs_id r = k) (map (claim_row t ks) rows) = map_option (claim_row t ks) (find (\<lambda>r. rs_id r = k) rows)" for rows
    by (induction rows) simp_all
  then show ?thesis by (simp add: schedule_of_def claim_rows_def tbl_get_def)
qed

lemma enqueue_eq:
  assumes "keys_unique rs_id (report_schedules d)"
  shows "if list_all (claim_ok e d) (due_schedules locked (now e) limit d)
    then enqueue_due_report_schedules e locked limit d
      = (Inr (length (due_schedules locked (now e) limit d)),
         (claim_rows (now e) (rs_id ` set (due_schedules locked (now e) limit d)) d)\<lparr>outbox := outbox d
            @ map (delivery_task \<circ> claim_of (now e)) (due_schedules locked (now e) limit d)\<rparr>)
    else \<exists>x. enqueue_due_report_schedules e locked limit d = (Inl x, d)
      \<and> (\<exists>s \<in> set (due_schedules locked (now e) limit d). full_clean_schedule e d (claimed (now e) s) = Inl x)"
  using claim_eq [OF assms, of e locked limit]
  by (auto simp: enqueue_due_report_schedules_def claim_rows_def split: if_splits)

text \<open>A closed example: an organization with daily schedules at 02:00 and at 08:00.\<close>

definition schedules_example :: "report_schedule list \<Rightarrow> db" where
  "schedules_example rows = empty_db\<lparr>organizations := [\<lparr>org_id = 1, org_created_at = 0, org_name = ''Org'', org_code = ''org'', org_status = ''ACTIVE''\<rparr>], report_schedules := rows\<rparr>"

lemma daily_vocabulary:
  "normalize_report_type ''alert_summary'' = Some ''alert_summary''"
  "normalize_report_frequency ''DAILY'' = Some ''DAILY''"
  "normalize_report_format ''CSV'' = Some ''CSV''"
proof -
  show "normalize_report_type ''alert_summary'' = Some ''alert_summary''"
    by (rule supported_types_stay) (simp add: SUPPORTED_REPORT_TYPES_def REPORT_TYPE_LABELS_def)
  show "normalize_report_frequency ''DAILY'' = Some ''DAILY''" by code_simp
  show "normalize_report_format ''CSV'' = Some ''CSV''" by code_simp
qed

lemma daily_recipient: "first_of_each (filter (\<lambda>c. c \<noteq> []) (map (\<lambda>r. lower (strip (py_str e r))) [PStr ''a@b''])) = [''a@b'']"
proof -
  have "lower (strip ''a@b'') = ''a@b''" by code_simp
  then show ?thesis by (simp add: py_str_def)
qed

lemma daily_claim_ok:
  assumes "t \<le> calculate_next_run_at (daily_schedule v) t" and "now e = t"
  shows "claim_ok e (schedules_example rows) (daily_schedule v)"
proof -
  have n: "normalize_recipients e (claimed t (daily_schedule v)) = [''a@b'']"
    using daily_recipient [of e] by (simp add: normalize_recipients_def claimed_def daily_schedule_def list_or_empty_def)
  have f: "schedule_field_errors (schedules_example rows) (claimed t (daily_schedule v)) = []"
    by (simp add: schedule_field_errors_def schedules_example_def claimed_def daily_schedule_def tbl_get_def choice_errors_def
        SUPPORTED_REPORT_TYPES_def REPORT_TYPE_LABELS_def FREQUENCY_LABELS_def FORMAT_LABELS_def)
  have v: "vocabulary_errors (claimed t (daily_schedule v)) = []"
    by (simp add: vocabulary_errors_def claimed_def daily_schedule_def daily_vocabulary)
  have s: "schedule_site_errors (schedules_example rows) (claimed t (daily_schedule v)) = Inr []"
    by (simp add: schedule_site_errors_def claimed_def daily_schedule_def)
  have r: "recipient_errors e (claimed t (daily_schedule v)) = []"
    using n by (simp add: recipient_errors_def Let_def is_list_def claimed_def daily_schedule_def valid_recipient_def)
  have q: "run_errors (clean_schedule e (claimed t (daily_schedule v))) = []"
  proof -
    have "rs_send_sms (clean_schedule e (claimed t (daily_schedule v))) = False"
      by (simp add: clean_schedule_def with_next_run_def with_recipients_def with_vocabulary_def claimed_def daily_schedule_def)
    then show ?thesis using assms(1) by (simp add: run_errors_def)
  qed
  show ?thesis unfolding claim_ok_def assms(2) full_clean_schedule_def s f v r q by simp
qed

lemma schedules_example_due:
  "0 \<le> t \<Longrightarrow> due_schedules {} t 100 (schedules_example [daily_schedule v]) = [daily_schedule v]"
  "schedule_of (schedules_example [daily_schedule v]) 1 = Some (daily_schedule v)"
  "keys_unique rs_id (report_schedules (schedules_example [daily_schedule v]))"
  by (simp_all add: due_schedules_def schedules_example_def is_due_def daily_schedule_def schedule_of_def tbl_get_def keys_unique_def)

lemma daily_next: "calculate_next_run_at (daily_schedule (seconds 28800)) (seconds 10000) = seconds 93600"
  by (simp add: calculate_next_run_at_def shift_by_frequency_def daily_schedule_def day_length_def local_offset_def seconds_def Let_def)

lemma daily_example_ok: "claim_ok (plain_env (seconds 10000)) (schedules_example rows) (daily_schedule (seconds 28800))"
  by (rule daily_claim_ok [where t = "seconds 10000"]) (simp_all only: daily_next, simp_all add: seconds_def plain_env_def)

text \<open>C9. A tick of the scheduler is all or nothing: when every due schedule it selects validates with its new run
  times, each gets one delivery task with the window from its last run (or one period back) to now, and its row moves on; when one
  does not, the tick raises and nothing changes.\<close>

theorem schedule_tick_exact:
  assumes "keys_unique rs_id (report_schedules d)" and "enqueue_due_report_schedules e locked limit d = (r, d')"
  shows "(\<forall>x. r = Inl x \<longrightarrow> d' = d \<and> (\<exists>s \<in> set (due_schedules locked (now e) limit d). \<not> claim_ok e d s))
    \<and> (\<forall>n. r = Inr n \<longrightarrow> n = length (due_schedules locked (now e) limit d)
        \<and> outbox d' = outbox d @ map (\<lambda>s. DeliverReportSchedule (rs_id s) (fst (calculate_execution_window s (now e))) (now e))
            (due_schedules locked (now e) limit d)
        \<and> (\<forall>s. schedule_of d (rs_id s) = Some s \<longrightarrow> schedule_of d' (rs_id s)
             = Some (if s \<in> set (due_schedules locked (now e) limit d) then claimed (now e) s else s)))
    \<and> ((\<exists>n. r = Inr n) \<longleftrightarrow> (\<forall>s \<in> set (due_schedules locked (now e) limit d). claim_ok e d s))"
proof -
  let ?due = "due_schedules locked (now e) limit d"
  show ?thesis
  proof (cases "list_all (claim_ok e d) ?due")
    case False
    with enqueue_eq [OF assms(1), of e locked limit] assms(2) obtain x where "r = Inl x" "d' = d" by auto
    with False show ?thesis by (auto simp: list_all_iff)
  next
    case True
    with enqueue_eq [OF assms(1), of e locked limit] assms(2)
    have r: "r = Inr (length ?due)"
      and d': "d' = (claim_rows (now e) (rs_id ` set ?due) d)\<lparr>outbox := outbox d @ map (delivery_task \<circ> claim_of (now e)) ?due\<rparr>"
      by simp_all
    have task: "(delivery_task \<circ> claim_of (now e)) s
        = DeliverReportSchedule (rs_id s) (fst (calculate_execution_window s (now e))) (now e)" for s
      by (simp add: delivery_task_def claim_of_def Let_def)
    have row: "schedule_of d' (rs_id s) = Some (if s \<in> set ?due then claimed (now e) s else s)" if s: "schedule_of d (rs_id s) = Some s" for s
    proof -
      have in_due: "rs_id s \<in> rs_id ` set ?due \<longleftrightarrow> s \<in> set ?due"
      proof
        assume "rs_id s \<in> rs_id ` set ?due"
        then obtain q where q: "q \<in> set ?due" "rs_id q = rs_id s" by force
        then have "q \<in> set (report_schedules d)" using due_subset by blast
        then have "schedule_of d (rs_id q) = Some q" using assms(1) by (simp add: stored_schedule)
        with q s show "s \<in> set ?due" by simp
      qed simp
      have "schedule_of d' (rs_id s) = schedule_of (claim_rows (now e) (rs_id ` set ?due) d) (rs_id s)"
        unfolding d' by (simp add: schedule_of_def)
      then show ?thesis by (simp add: stored_after s claim_row_def in_due)
    qed
    have "outbox d' = outbox d @ map (\<lambda>s. DeliverReportSchedule (rs_id s) (fst (calculate_execution_window s (now e))) (now e)) ?due"
      unfolding d' using task by simp
    with r row True show ?thesis by (simp add: list_all_iff)
  qed
qed

lemma schedule_tick_exact_witness:
  "outbox (snd (enqueue_due_report_schedules (plain_env (seconds 10000)) {} 100 (schedules_example [daily_schedule (seconds 28800)])))
     = [DeliverReportSchedule 1 (seconds (- 76400)) (seconds 10000)]"
proof -
  let ?e = "plain_env (seconds 10000)" and ?s = "daily_schedule (seconds 28800)"
  let ?d = "schedules_example [?s]"
  have n: "now ?e = seconds 10000" by (simp add: plain_env_def)
  have due: "due_schedules {} (now ?e) 100 ?d = [?s]" unfolding n by (rule schedules_example_due(1)) (simp add: seconds_def)
  obtain r d' where run: "enqueue_due_report_schedules ?e {} 100 ?d = (r, d')" by fastforce
  note x = schedule_tick_exact [OF schedules_example_due(3) run, unfolded due]
  obtain k where "r = Inr k" using x daily_example_ok by auto
  then have "outbox d' = outbox ?d @ [DeliverReportSchedule (rs_id ?s) (fst (calculate_execution_window ?s (now ?e))) (now ?e)]"
    using x by simp
  then show ?thesis unfolding run snd_conv n
    by (simp add: schedules_example_def empty_db_def calculate_execution_window_def daily_schedule_def shift_by_frequency_def
        seconds_def day_length_def)
qed

lemma early_claim_fails:
  assumes "rs_next_run_at s = Some n" and "calculate_next_run_at s (now e) < now e"
  shows "\<not> claim_ok e d s"
proof -
  have "run_errors (clean_schedule e (claimed (now e) s)) \<noteq> []" using assms(2) by (simp add: run_errors_def)
  then show ?thesis by (auto simp: claim_ok_def full_clean_schedule_def Let_def split: sum.splits)
qed

text \<open>An active daily schedule with a delivery time before 06:00 stops every schedule: from its delivery time until 06:00 each
  tick that selects it raises, so no report of any schedule is queued.\<close>

theorem early_schedule_stops_all:
  assumes "keys_unique rs_id (report_schedules d)" and "s \<in> set (due_schedules locked (now e) limit d)"
    and "rs_frequency s = ''DAILY''" and "0 \<le> rs_delivery_time s" and "- epoch_day * day_length \<le> now e"
    and "rs_delivery_time s < (now e + local_offset) mod day_length" and "(now e + local_offset) mod day_length < local_offset"
  shows "\<exists>x. enqueue_due_report_schedules e locked limit d = (Inl x, d)"
proof -
  have v: "rs_delivery_time s < local_offset" using assms(6,7) by linarith
  have "calculate_next_run_at s (now e) < now e"
    using next_run_past [OF assms(4) _ assms(5,3) v] assms(6,7) v day_length_pos by simp
  moreover obtain n where "rs_next_run_at s = Some n" using assms(2) due_subset by (fastforce simp: is_due_def split: option.splits)
  ultimately have "\<not> claim_ok e d s" by (rule early_claim_fails [rotated])
  then have "\<not> list_all (claim_ok e d) (due_schedules locked (now e) limit d)" using assms(2) by (auto simp: list_all_iff)
  then show ?thesis using enqueue_eq [OF assms(1), of e locked limit] by auto
qed

lemma early_schedule_stops_all_witness:
  "\<exists>x. enqueue_due_report_schedules (plain_env (seconds 75600)) {} 100
      (schedules_example [daily_schedule (seconds 7200), (daily_schedule (seconds 28800))\<lparr>rs_id := 2, rs_created_at := 1\<rparr>])
    = (Inl x, schedules_example [daily_schedule (seconds 7200), (daily_schedule (seconds 28800))\<lparr>rs_id := 2, rs_created_at := 1\<rparr>])"
  by (rule early_schedule_stops_all [where s = "daily_schedule (seconds 7200)"])
    (simp_all add: schedules_example_def due_schedules_def is_due_def daily_schedule_def keys_unique_def order_by_def plain_env_def
      seconds_def day_length_def local_offset_def epoch_day_def)



end
