(* ===== verification/Report_Rows_Props.thy ===== *)
theory Report_Rows_Props
  imports Report_Job_Props Report_Schedule_Props
begin

text \<open>
  What the reports show: rows of the job's organization and data center only, an alert summary whose parts add
  up, and which windows of a schedule the date range check refuses.
\<close>

subsection \<open>The alert summary adds up\<close>

definition section_total :: "string \<Rightarrow> py list list \<Rightarrow> int" where
  "section_total part rows = sum_list (map (\<lambda>r. case r of [PStr p, _, PInt n] \<Rightarrow> (if p = part then n else 0) | _ \<Rightarrow> 0) rows)"

definition labelled :: "string \<Rightarrow> string \<Rightarrow> py list list \<Rightarrow> int option" where
  "labelled part label rows = (case filter (\<lambda>r. take 2 r = [PStr part, PStr label]) rows of
      [[_, _, PInt n]] \<Rightarrow> Some n | _ \<Rightarrow> None)"

lemma count_rows_split: "(\<And>x. P x = (Q x \<or> R x)) \<Longrightarrow> (\<And>x. \<not> (Q x \<and> R x)) \<Longrightarrow> count_rows P xs = count_rows Q xs + count_rows R xs"
proof (induction xs)
  case Nil
  then show ?case by (simp add: count_rows_def)
next
  case (Cons x xs)
  then have "count_rows P xs = count_rows Q xs + count_rows R xs" by blast
  then show ?case using Cons.prems(1) [of x] Cons.prems(2) [of x] by (auto simp: count_rows_def)
qed

lemma count_all: "count_rows (\<lambda>_. True) xs = length xs"
  by (simp add: count_rows_def)

lemma count_severities:
  "count_rows (\<lambda>a. ae_severity a = INFO) qs + count_rows (\<lambda>a. ae_severity a = WARNING) qs
    + count_rows (\<lambda>a. ae_severity a = CRITICAL) qs + count_rows (\<lambda>a. ae_severity a = EMERGENCY) qs = length qs"
proof (induction qs)
  case (Cons a qs)
  then show ?case by (cases "ae_severity a") (auto simp: count_rows_def)
qed (simp add: count_rows_def)

lemma count_statuses:
  "count_rows (\<lambda>a. ae_status a = OPEN) qs + count_rows (\<lambda>a. ae_status a = ACKNOWLEDGED) qs
    + count_rows (\<lambda>a. ae_status a = RESOLVED) qs + count_rows (\<lambda>a. ae_status a = SUPPRESSED) qs = length qs"
proof (induction qs)
  case (Cons a qs)
  then show ?case by (cases "ae_status a") (auto simp: count_rows_def)
qed (simp add: count_rows_def)

lemma summarise_rows:
  "section_total ''severity'' (summarise_alerts qs) = int (length qs)"
  "section_total ''status'' (summarise_alerts qs) = int (length qs)"
  "labelled ''summary'' ''total_alerts'' (summarise_alerts qs) = Some (int (length qs))"
  "labelled ''summary'' ''open_total'' (summarise_alerts qs) = Some (int (count_rows is_active_alert qs))"
  "labelled ''status'' ''OPEN'' (summarise_alerts qs) = Some (int (count_rows (\<lambda>a. ae_status a = OPEN) qs))"
  "labelled ''status'' ''ACKNOWLEDGED'' (summarise_alerts qs) = Some (int (count_rows (\<lambda>a. ae_status a = ACKNOWLEDGED) qs))"
proof -
  have "section_total ''severity'' (summarise_alerts qs)
      = int (count_rows (\<lambda>a. ae_severity a = INFO) qs + count_rows (\<lambda>a. ae_severity a = WARNING) qs
          + count_rows (\<lambda>a. ae_severity a = CRITICAL) qs + count_rows (\<lambda>a. ae_severity a = EMERGENCY) qs)"
    by (simp add: section_total_def summarise_alerts_def summary_row_def severities_def alert_statuses_def)
  then show "section_total ''severity'' (summarise_alerts qs) = int (length qs)" unfolding count_severities .
  have "section_total ''status'' (summarise_alerts qs)
      = int (count_rows (\<lambda>a. ae_status a = OPEN) qs + count_rows (\<lambda>a. ae_status a = ACKNOWLEDGED) qs
          + count_rows (\<lambda>a. ae_status a = RESOLVED) qs + count_rows (\<lambda>a. ae_status a = SUPPRESSED) qs)"
    by (simp add: section_total_def summarise_alerts_def summary_row_def severities_def alert_statuses_def)
  then show "section_total ''status'' (summarise_alerts qs) = int (length qs)" unfolding count_statuses .
qed (simp_all add: labelled_def summarise_alerts_def summary_row_def severities_def alert_statuses_def)

text \<open>In the alert summary every alert it covers is counted under exactly one severity and one status, so both sections sum to the
  total, and the active ones are the open and the acknowledged ones.\<close>

theorem alert_summary_adds_up:
  assumes "alert_summary_rows e c d j = Inr (headers, rows)" and "alert_summary_alerts e c d j = Inr qs"
  shows "section_total ''severity'' rows = int (length qs) \<and> section_total ''status'' rows = int (length qs)
    \<and> labelled ''summary'' ''total_alerts'' rows = Some (int (length qs))
    \<and> (\<exists>n m. labelled ''status'' ''OPEN'' rows = Some n \<and> labelled ''status'' ''ACKNOWLEDGED'' rows = Some m
        \<and> labelled ''summary'' ''open_total'' rows = Some (n + m))"
proof -
  have rows: "rows = summarise_alerts qs" using assms by (simp add: alert_summary_rows_def)
  have "count_rows is_active_alert qs = count_rows (\<lambda>a. ae_status a = OPEN) qs + count_rows (\<lambda>a. ae_status a = ACKNOWLEDGED) qs"
    by (rule count_rows_split) (auto simp: is_active_alert_def)
  then show ?thesis unfolding rows summarise_rows by simp
qed

text \<open>One open critical alert.\<close>

definition alerts_example :: db where
  "alerts_example = empty_db\<lparr>devices := [blank_device\<lparr>dev_id := 1, dev_organization := 1\<rparr>],
     alert_events := [blank_event\<lparr>ae_id := 1, ae_organization := 1, ae_device := 1, ae_severity := CRITICAL\<rparr>]\<rparr>"

definition an_alert :: alert_event where
  "an_alert = blank_event\<lparr>ae_id := 1, ae_organization := 1, ae_device := 1, ae_severity := CRITICAL\<rparr>"

lemma alerts_example_summary:
  "alert_summary_alerts (plain_env 0) plain_ctx alerts_example (a_job JOB_PROCESSING (Some 0) None) = Inr [an_alert]"
  by (simp add: alert_summary_alerts_def Let_def a_job_def dict_or_empty_def report_range_def parse_report_date_range_def given_def
      parse_optional_def validate_max_date_range_def get_report_config_def template_of_def resolve_data_center_scope_def job_data_center_def
      resolve_metric_codes_def normalize_list_def normalize_choice_values_def all_device_filters_def alerts_example_def empty_db_def
      site_of_report_def in_range_def metric_among_def one_of_def alert_device_def device_of_def tbl_get_def an_alert_def blank_event_def
      blank_device_def)

lemma alert_summary_adds_up_witness:
  "\<exists>rows. alert_summary_rows (plain_env 0) plain_ctx alerts_example (a_job JOB_PROCESSING (Some 0) None) = Inr (summary_headers, rows)
    \<and> section_total ''severity'' rows = 1"
proof -
  have r: "alert_summary_rows (plain_env 0) plain_ctx alerts_example (a_job JOB_PROCESSING (Some 0) None)
      = Inr (summary_headers, summarise_alerts [an_alert])"
    by (simp add: alert_summary_rows_def alerts_example_summary)
  show ?thesis using alert_summary_adds_up [OF r alerts_example_summary] r by simp
qed

subsection \<open>Whose rows\<close>

lemma scope_of_job:
  assumes "resolve_data_center_scope d j params False = Inr dc" and "rj_data_center j = Some k" and "data_center_of d k = Some jc"
  shows "\<exists>c. dc = Some c \<and> dc_id c = k"
proof -
  have k: "dc_id jc = k" using assms(3) by (auto simp: data_center_of_def dest: tbl_get_Some)
  have j: "job_data_center d j = Some jc" using assms(2,3) by (simp add: job_data_center_def)
  show ?thesis
  proof (cases "given params ''data_center_id''")
    case None
    then have "dc = Some jc" using assms(1) by (simp add: resolve_data_center_scope_def j)
    with k show ?thesis by blast
  next
    case (Some v)
    then show ?thesis using assms(1) k by (auto simp: resolve_data_center_scope_def j split: sum.splits if_splits)
  qed
qed

definition own_site :: "db \<Rightarrow> report_job \<Rightarrow> uuid \<Rightarrow> bool" where
  "own_site d j k = (\<forall>x jc. rj_data_center j = Some x \<and> data_center_of d x = Some jc \<longrightarrow> k = x)"

lemma site_of_own: "resolve_data_center_scope d j params False = Inr dc \<Longrightarrow> site_of_report dc k \<Longrightarrow> own_site d j k"
  unfolding own_site_def site_of_report_def by (auto dest: scope_of_job)

lemma summary_isolated:
  "\<forall>qs a. alert_summary_alerts e c d j = Inr qs \<and> a \<in> set qs \<longrightarrow> ae_organization a = rj_organization j \<and> own_site d j (ae_data_center a)"
  by (auto simp: alert_summary_alerts_def Let_def intro: site_of_own split: sum.splits prod.splits)

lemma export_isolated:
  "\<forall>qs a. exported_alerts e c d j = Inr qs \<and> a \<in> set qs \<longrightarrow> ae_organization a = rj_organization j \<and> own_site d j (ae_data_center a)"
  by (auto simp: exported_alerts_def Let_def intro: site_of_own split: sum.splits prod.splits)

lemma inventory_isolated:
  "\<forall>xs x. inventory_devices e c d j = Inr xs \<and> x \<in> set xs \<longrightarrow> dev_organization x = rj_organization j \<and> own_site d j (dev_data_center x)"
  by (auto simp: inventory_devices_def Let_def intro: site_of_own split: sum.splits)

lemma points_isolated:
  "\<forall>ps p. exported_points e c d j = Inr ps \<and> p \<in> set ps \<longrightarrow> tp_organization p = rj_organization j \<and> own_site d j (tp_data_center p)"
  by (auto simp: exported_points_def Let_def intro: site_of_own split: sum.splits prod.splits)

lemma environment_isolated:
  "\<forall>ps p. environment_points e c d j = Inr ps \<and> p \<in> set ps \<longrightarrow> tp_organization p = rj_organization j \<and> own_site d j (tp_data_center p)"
  by (auto simp: environment_points_def own_site_def split: sum.splits prod.splits option.splits)

lemma notifications_isolated:
  "\<forall>ns n. notification_report e c d j = Inr ns \<and> n \<in> set ns \<longrightarrow> nt_organization n = rj_organization j"
  by (auto simp: notification_report_def site_notifications_def Let_def split: sum.splits prod.splits option.splits)

lemma audit_isolated:
  "\<forall>ls l. exported_audit e c d j = Inr ls \<and> l \<in> set ls \<longrightarrow> au_organization l = Some (rj_organization j)"
  by (auto simp: exported_audit_def Let_def split: sum.splits prod.splits)



subsection \<open>Quarterly windows\<close>

lemma month_length_plain: "mi mod 12 \<noteq> 1 \<Longrightarrow> month_length mi = (if mi mod 12 \<in> {3, 5, 8, 10} then 30 else 31)"
  by (simp add: month_length_def days_in_month_def)

lemma quarter_days:
  assumes "day_of_month n \<le> 28" and "month_of n mod 12 \<in> {2, 3, 4, 5, 6, 7, 8, 9, 10}"
  shows "n + 91 \<le> add_months n 3"
proof -
  let ?m = "month_of n"
  have three: "month_start (?m + 3) = month_start ?m + month_length ?m + month_length (?m + 1) + month_length (?m + 2)"
    using month_start_Suc [of ?m] month_start_Suc [of "?m + 1", unfolded add.assoc one_add_one]
      month_start_Suc [of "?m + 2", unfolded add.assoc] by simp
  define r where "r = ?m mod 12"
  have r: "r \<in> {2, 3, 4, 5, 6, 7, 8, 9, 10}" using assms(2) by (simp add: r_def)
  have l: "month_length ?m = (if r \<in> {3, 5, 8, 10} then 30 else 31)"
    "month_length (?m + 1) = (if (r + 1) mod 12 \<in> {3, 5, 8, 10} then 30 else 31)"
    "month_length (?m + 2) = (if (r + 2) mod 12 \<in> {3, 5, 8, 10} then 30 else 31)"
  proof -
    have m: "(?m + 1) mod 12 = (r + 1) mod 12" "(?m + 2) mod 12 = (r + 2) mod 12" by (simp_all add: r_def mod_add_left_eq)
    have ne: "r \<noteq> 1" "(r + 1) mod 12 \<noteq> 1" "(r + 2) mod 12 \<noteq> 1" using r by auto
    show "month_length ?m = (if r \<in> {3, 5, 8, 10} then 30 else 31)" using month_length_plain [of ?m] ne(1) by (simp add: r_def)
    show "month_length (?m + 1) = (if (r + 1) mod 12 \<in> {3, 5, 8, 10} then 30 else 31)"
      using month_length_plain [of "?m + 1"] ne(2) unfolding m by blast
    show "month_length (?m + 2) = (if (r + 2) mod 12 \<in> {3, 5, 8, 10} then 30 else 31)"
      using month_length_plain [of "?m + 2"] ne(3) unfolding m by blast
  qed
  have "91 \<le> month_length ?m + month_length (?m + 1) + month_length (?m + 2)" using r unfolding l by auto
  moreover have "28 \<le> month_length (?m + 3)" using month_length_bounds by blast
  moreover have "n = month_start ?m + day_of_month n - 1" by (simp add: day_of_month_def)
  ultimately show ?thesis using assms(1) three by (simp add: add_months_def min_def)
qed

text \<open>A window of a quarterly schedule that starts in March to November (on a day every month has) is longer than the ninety days that
  the reports with a required range allow when no template says otherwise, as scheduled jobs have none: each such delivery fails.\<close>

theorem quarterly_window_refused:
  assumes "get_parameter_value params [''date_from'', ''start_date''] = Some (PStr s)"
    and "get_parameter_value params [''date_to'', ''end_date''] = Some (PStr t)"
    and "parse_moment c s = Inr (Some a)" and "parse_moment c t = Inr (Some b)" and "shift_by_frequency ''QUARTERLY'' a 1 \<le> b"
    and "day_of_month (a div day_length) \<le> 28" and "month_of (a div day_length) mod 12 \<in> {2, 3, 4, 5, 6, 7, 8, 9, 10}"
  shows "report_range e c params [] required 90 = Inl (ValueError ''Date range cannot exceed 90 days.'')"
proof -
  have "shift_by_frequency ''QUARTERLY'' a 1 = add_months (a div day_length) 3 * day_length + a mod day_length"
    by (simp add: shift_by_frequency_def shift_months_def)
  moreover have "(a div day_length + 91) * day_length \<le> add_months (a div day_length) 3 * day_length"
    using quarter_days [OF assms(6,7)] day_length_pos(1) by (intro mult_right_mono) auto
  ultimately have long: "a + 91 * day_length \<le> b"
    using assms(5) div_mult_mod_eq [of a day_length] unfolding distrib_right by linarith
  then have "a \<le> b" "b - a > 90 * day_length" using day_length_pos(1) by simp_all
  moreover have "str_int 90 = ''90''" by code_simp
  ultimately show ?thesis
    using assms(1-4) by (simp add: report_range_def parse_report_date_range_def Let_def parse_optional_def parse_range_value_def
        validate_max_date_range_def max_range_days_def)
qed

lemma quarterly_window_refused_witness:
  "report_range (plain_env 0) (plain_ctx\<lparr>parse_moment := (\<lambda>s. Inr (Some (if s = ''a'' then 90 * day_length else 181 * day_length)))\<rparr>)
     [(''date_from'', PStr ''a''), (''date_to'', PStr ''b'')] [] True 90 = Inl (ValueError ''Date range cannot exceed 90 days.'')"
proof -
  have m: "month_of 90 = 23643"
    by (rule month_of_unique) (simp_all add: month_start_def days_before_year_def days_before_month_def leap_def epoch_day_def)
  have d: "day_of_month 90 = 1" by (simp add: day_of_month_def m month_start_def days_before_year_def days_before_month_def leap_def epoch_day_def)
  have q: "add_months 90 3 = 181"
    by (simp add: add_months_def m d month_length_def days_in_month_def month_start_def days_before_year_def days_before_month_def leap_def
        epoch_day_def)
  have z: "90 * day_length div day_length = 90" "90 * day_length mod day_length = 0" using day_length_pos(1) by simp_all
  show ?thesis
  proof (rule quarterly_window_refused [where s = "''a''" and t = "''b''" and a = "90 * day_length" and b = "181 * day_length"])
    show "shift_by_frequency ''QUARTERLY'' (90 * day_length) 1 \<le> 181 * day_length"
      by (simp add: shift_by_frequency_def shift_months_def z q)
  qed (simp_all add: given_def z m d)
qed

end
