(* ===== verification/Report_Delivery.thy ===== *)
theory Report_Delivery
  imports Report_Schedules Report_Jobs Sms
begin

text \<open>
  The delivery of a scheduled report (\<open>apps/reports/services/schedules.py\<close>, second half, \<open>tasks.py\<close> and the
  \<open>run_now\<close> view): a job is created for the window of the claim, built, and its file sent by e-mail and announced by SMS. The mail
  server and the formatting of times of day are arguments (\<open>delivery_ctx\<close>).
\<close>

record delivery_ctx =
  send_report :: "string list \<Rightarrow> string \<Rightarrow> string \<Rightarrow> string \<times> string \<Rightarrow> exn + unit"
  clock_12 :: "time \<Rightarrow> string"
  clock_24 :: "time \<Rightarrow> string"
  phones :: transports

subsection \<open>Who asks for the report\<close>

definition has_active_role :: "db \<Rightarrow> uuid \<Rightarrow> user \<Rightarrow> bool" where
  "has_active_role d organization u =
     list_ex (\<lambda>r. ra_user r = usr_id u \<and> ra_organization r = Some organization \<and> ra_is_active r) (accesses d)"

definition fallback_requested_by :: "db \<Rightarrow> report_schedule \<Rightarrow> user option" where
  "fallback_requested_by d s = (case rs_created_by s of
      Some k \<Rightarrow> tbl_get usr_id k (users d)
    | None \<Rightarrow> (case first_row (order_by usr_date_joined (filter (\<lambda>u. usr_is_active u \<and> has_active_role d (rs_organization s) u) (users d))) of
        Some u \<Rightarrow> Some u
      | None \<Rightarrow> first_row (order_by usr_date_joined (filter usr_is_active (users d)))))"

subsection \<open>Sending\<close>

definition report_type_label :: "report_schedule \<Rightarrow> string" where
  "report_type_label s = (case map_of REPORT_TYPE_LABELS (rs_report_type s) of Some l \<Rightarrow> l | None \<Rightarrow> rs_report_type s)"

definition display :: "(string \<times> string) list \<Rightarrow> string \<Rightarrow> string" where
  "display labels v = (case map_of labels v of Some l \<Rightarrow> l | None \<Rightarrow> v)"

definition param_text :: "env \<Rightarrow> report_job \<Rightarrow> string \<Rightarrow> string" where
  "param_text e j key = (case dict_get (dict_or_empty (rj_parameters j)) key of None \<Rightarrow> ''--'' | Some v \<Rightarrow> py_str e v)"

definition build_email_body :: "env \<Rightarrow> delivery_ctx \<Rightarrow> report_schedule \<Rightarrow> report_job \<Rightarrow> string" where
  "build_email_body e x s j =
     (let shown = (\<lambda>key. case dict_get (dict_or_empty (rj_parameters j)) key of
            None \<Rightarrow> None | Some v \<Rightarrow> if truthy v then Some (py_str e v) else None);
          a = shown ''date_from''; b = shown ''date_to'' in
      join [CHR 0x0A]
       ([''Scheduled report: '' @ rs_name s, ''Report type: '' @ report_type_label s,
         ''Frequency: '' @ display FREQUENCY_LABELS (rs_frequency s) @ '' at '' @ clock_12 x (rs_delivery_time s),
         ''Requested format: '' @ display FORMAT_LABELS (rs_output_format s)]
        @ (if a \<noteq> None \<or> b \<noteq> None then [''Window: '' @ str_or a ''--'' @ '' to '' @ str_or b ''--''] else [])
        @ [[], ''The generated report is attached to this email.'']))"

definition basename :: "string \<Rightarrow> string" where
  "basename p = rev (takeWhile (\<lambda>ch. ch \<noteq> CHR ''/'') (rev p))"

definition send_report_email :: "env \<Rightarrow> delivery_ctx \<Rightarrow> report_schedule \<Rightarrow> report_job \<Rightarrow> exn + unit" where
  "send_report_email e x s j = (case rj_file j of
      None \<Rightarrow> Inl (ValueError ''Generated report file is missing.'')
    | Some (name, body) \<Rightarrow>
       (let recipients = normalize_recipients e s in
        if recipients = [] then Inl (ValueError ''Report schedule does not have any recipients.'')
        else send_report x recipients (rs_name s @ '' - '' @ report_type_label s) (build_email_body e x s j) (basename name, body)))"

fun send_each_sms :: "transports \<Rightarrow> string \<Rightarrow> string list \<Rightarrow> exn + dict list" where
  "send_each_sms tr message [] = Inr []"
| "send_each_sms tr message (phone # rest) = (case send_sms_message tr phone message of
      Inl x \<Rightarrow> Inl x
    | Inr r \<Rightarrow> (case send_each_sms tr message rest of Inl x \<Rightarrow> Inl x | Inr rs \<Rightarrow> Inr (r # rs)))"

definition report_sms_text :: "env \<Rightarrow> report_schedule \<Rightarrow> report_job \<Rightarrow> string" where
  "report_sms_text e s j = ''Scheduled report ready: '' @ rs_name s @ ''. Type: '' @ report_type_label s
     @ ''. Window: '' @ param_text e j ''date_from'' @ '' to '' @ param_text e j ''date_to'' @ ''.''"

definition send_report_sms :: "env \<Rightarrow> delivery_ctx \<Rightarrow> report_schedule \<Rightarrow> report_job \<Rightarrow> exn + dict list" where
  "send_report_sms e x s j =
     (let recipients = list_or_empty (rs_sms_recipients s) in
      if \<not> rs_send_sms s then Inr []
      else if recipients = [] then Inl (ValueError ''SMS delivery is enabled but no SMS recipients were configured.'')
      else send_each_sms (phones x) (report_sms_text e s j) (map (py_str e) recipients))"

definition send_scheduled :: "env \<Rightarrow> delivery_ctx \<Rightarrow> report_schedule \<Rightarrow> report_job \<Rightarrow> exn + unit" where
  "send_scheduled e x s j =
     (case (if normalize_recipients e s \<noteq> [] then send_report_email e x s j else Inr ()) of
        Inl y \<Rightarrow> Inl y
      | Inr _ \<Rightarrow> (case send_report_sms e x s j of Inl y \<Rightarrow> Inl y | Inr _ \<Rightarrow> Inr ()))"

subsection \<open>The delivery\<close>

definition scheduled_parameters :: "env \<Rightarrow> delivery_ctx \<Rightarrow> report_schedule \<Rightarrow> time \<Rightarrow> time \<Rightarrow> py" where
  "scheduled_parameters e x s a b = PDict (dict_merge (dict_or_empty (rs_parameters s))
     [(''report_type'', PStr (rs_report_type s)), (''output_format'', PStr (rs_output_format s)), (''date_from'', PStr (isoformat e a)),
      (''date_to'', PStr (isoformat e b)), (''schedule_id'', PStr (str_nat (rs_id s))), (''schedule_name'', PStr (rs_name s)),
      (''delivery_time'', PStr (clock_24 x (rs_delivery_time s))), (''requested_format'', PStr (rs_output_format s)),
      (''attach_raw_data'', PBool (rs_attach_raw_data s))])"

definition scheduled_job :: "env \<Rightarrow> delivery_ctx \<Rightarrow> db \<Rightarrow> report_schedule \<Rightarrow> user \<Rightarrow> time \<Rightarrow> time \<Rightarrow> report_job" where
  "scheduled_job e x d s u a b =
     \<lparr>rj_id = fresh_key rj_id (report_jobs d), rj_created_at = now e, rj_organization = rs_organization s, rj_data_center = rs_data_center s,
      rj_template = None, rj_requested_by = Some (usr_id u), rj_status = JOB_PENDING, rj_parameters = scheduled_parameters e x s a b,
      rj_file = None, rj_started_at = None, rj_completed_at = None, rj_error_message = None\<rparr>"

definition copy_delivery :: "report_schedule \<Rightarrow> report_schedule \<Rightarrow> report_schedule" where
  "copy_delivery s row = row\<lparr>rs_last_job := rs_last_job s, rs_last_run_at := rs_last_run_at s, rs_next_run_at := rs_next_run_at s,
     rs_last_delivery_status := rs_last_delivery_status s, rs_last_error_message := rs_last_error_message s\<rparr>"

definition copy_sent :: "report_schedule \<Rightarrow> report_schedule \<Rightarrow> report_schedule" where
  "copy_sent s row = (copy_delivery s row)\<lparr>rs_last_sent_at := rs_last_sent_at s\<rparr>"

definition audit_schedule :: "env \<Rightarrow> web_request option \<Rightarrow> (string \<Rightarrow> bool) \<Rightarrow> string \<Rightarrow> report_schedule \<Rightarrow> user \<Rightarrow> string \<Rightarrow> db \<Rightarrow> db" where
  "audit_schedule e req inet action s u message d =
     snd (write_audit inet e req action (Some ''ReportSchedule'') (Some (rs_id s)) None None (Some message) (Some (rs_organization s)) (Some (usr_id u)) d)"

definition failed_delivery :: "string \<Rightarrow> report_schedule \<Rightarrow> report_schedule" where
  "failed_delivery message s = s\<lparr>rs_last_delivery_status := Some ''FAILED'', rs_last_error_message := Some message\<rparr>"

text \<open>What happens once the job was created and built; \<open>s\<close> is the object of the schedule, whose row is only written here.\<close>

definition after_generation ::
    "env \<Rightarrow> delivery_ctx \<Rightarrow> web_request option \<Rightarrow> (string \<Rightarrow> bool) \<Rightarrow> user \<Rightarrow> report_schedule \<Rightarrow> report_job \<Rightarrow> db \<Rightarrow> (exn + report_schedule) \<times> db" where
  "after_generation e x req inet u s j d =
     (if rj_status j \<noteq> JOB_COMPLETED \<or> rj_file j = None
      then (let s' = failed_delivery (str_or (rj_error_message j) ''Scheduled report generation failed.'') s in
        case save_schedule e copy_delivery s' d of
          (Inl y, d') \<Rightarrow> (Inl y, d')
        | (Inr s2, d') \<Rightarrow> (Inr s2, audit_schedule e req inet ''REPORT_GENERATION_FAILED'' s2 u (str_or (rs_last_error_message s2) []) d'))
      else (case send_scheduled e x s j of
        Inl y \<Rightarrow>
         (let s' = failed_delivery (error_text e y) s in
          case save_schedule e copy_delivery s' d of
            (Inl z, d') \<Rightarrow> (Inl z, d')
          | (Inr s2, d') \<Rightarrow> (Inl y, audit_schedule e req inet ''REPORT_GENERATION_FAILED'' s2 u (error_text e y) d'))
      | Inr _ \<Rightarrow>
         (let s' = s\<lparr>rs_last_sent_at := Some (now e), rs_last_delivery_status := Some ''SENT'', rs_last_error_message := Some []\<rparr> in
          case save_schedule e copy_sent s' d of
            (Inl y, d') \<Rightarrow> (Inl y, d')
          | (Inr s2, d') \<Rightarrow> (Inr s2, audit_schedule e req inet ''REPORT_GENERATED'' s2 u
              (''Scheduled report delivered for '' @ report_type_label s2) d'))))"

definition no_recipients :: "env \<Rightarrow> report_schedule \<Rightarrow> bool" where
  "no_recipients e s = (normalize_recipients e s = [] \<and> \<not> (rs_send_sms s \<and> list_or_empty (rs_sms_recipients s) \<noteq> []))"

definition no_recipients_text :: string where
  "no_recipients_text = ''Report schedule has no email or SMS recipients configured.''"

definition run_window :: "env \<Rightarrow> report_schedule \<Rightarrow> time option \<Rightarrow> time option \<Rightarrow> time \<times> time" where
  "run_window e s a b =
     (let stop = (case b of Some t \<Rightarrow> t | None \<Rightarrow> now e);
          start = (case a of Some t \<Rightarrow> t | None \<Rightarrow> fst (calculate_execution_window s stop)) in (start, stop))"

definition execute_report_schedule ::
    "env \<Rightarrow> env \<Rightarrow> report_ctx \<Rightarrow> delivery_ctx \<Rightarrow> web_request option \<Rightarrow> (string \<Rightarrow> bool) \<Rightarrow> (db \<Rightarrow> db) \<Rightarrow> uuid \<Rightarrow> time option \<Rightarrow> time option \<Rightarrow> db
      \<Rightarrow> (exn + report_schedule) \<times> db" where
  "execute_report_schedule e e2 c x req inet other k a b d = (case schedule_of d k of
      None \<Rightarrow> (Inl (ValueError (''Report schedule '' @ str_nat k @ '' does not exist.'')), d)
    | Some s \<Rightarrow>
        if \<not> rs_is_active s then (Inr s, d)
        else if no_recipients e s
        then (Inl (ValueError no_recipients_text),
              d\<lparr>report_schedules := tbl_update rs_id k (failed_delivery no_recipients_text) (report_schedules d)\<rparr>)
        else (case fallback_requested_by d s of
          None \<Rightarrow> (Inl (ValueError ''Unable to resolve a requesting user for report schedule execution.''), d)
        | Some u \<Rightarrow>
           (let (start, stop) = run_window e s a b;
                s1 = s\<lparr>rs_last_run_at := Some stop\<rparr>;
                s2 = s1\<lparr>rs_next_run_at := Some (calculate_next_run_at s1 stop)\<rparr> in
            case create_job (scheduled_job e x d s u start stop) d of
              (Inl y, d') \<Rightarrow> (Inl y, d')
            | (Inr j, d1) \<Rightarrow> (case generate_report_job req inet e e2 c other (rj_id j) d1 of
                (Inl y, d') \<Rightarrow> (Inl y, d')
              | (Inr None, d') \<Rightarrow> (Inl AttributeError, d')
              | (Inr (Some built), d2) \<Rightarrow> after_generation e2 x req inet u (s2\<lparr>rs_last_job := Some (rj_id built)\<rparr>) built d2))))"

text \<open>The task swallows what is raised; the \<open>run_now\<close> view shows it beside the row as it then is.\<close>

definition deliver_report_schedule_task ::
    "env \<Rightarrow> env \<Rightarrow> report_ctx \<Rightarrow> delivery_ctx \<Rightarrow> (db \<Rightarrow> db) \<Rightarrow> uuid \<Rightarrow> time option \<Rightarrow> time option \<Rightarrow> db
      \<Rightarrow> (string option \<times> string option) \<times> db" where
  "deliver_report_schedule_task e e2 c x other k a b d =
     (case execute_report_schedule e e2 c x None (\<lambda>_. True) other k a b d of
        (Inl y, d') \<Rightarrow> ((Some ''FAILED'', Some (error_text e2 y)), d')
      | (Inr s, d') \<Rightarrow> ((rs_last_delivery_status s, None), d'))"

definition run_now ::
    "env \<Rightarrow> env \<Rightarrow> report_ctx \<Rightarrow> delivery_ctx \<Rightarrow> web_request \<Rightarrow> (string \<Rightarrow> bool) \<Rightarrow> (db \<Rightarrow> db) \<Rightarrow> report_schedule \<Rightarrow> db
      \<Rightarrow> (report_schedule \<times> string option) \<times> db" where
  "run_now e e2 c x req inet other s d =
     (case execute_report_schedule e e2 c x (Some req) inet other (rs_id s) None None d of
        (Inl y, d') \<Rightarrow> (((case schedule_of d' (rs_id s) of Some r \<Rightarrow> r | None \<Rightarrow> s), Some (error_text e2 y)), d')
      | (Inr q, d') \<Rightarrow> (((case schedule_of d' (rs_id q) of Some r \<Rightarrow> r | None \<Rightarrow> q), None), d'))"

end
