(* ===== verification/Report_Delivery_Props.thy ===== *)
theory Report_Delivery_Props
  imports Report_Delivery Report_Schedule_Props Report_Job_Props Delivery_Props
begin

text \<open>What a scheduled delivery leaves in the row of its schedule.\<close>

lemma audit_schedule_rows [simp]: "schedule_of (audit_schedule e req inet action s u message d) k = schedule_of d k"
  by (simp add: audit_schedule_def write_audit_def schedule_of_def Let_def split: option.splits)

lemma copies_schedule_id: "rs_id (copy_delivery s row) = rs_id row" "rs_id (copy_sent s row) = rs_id row"
  by (simp_all add: copy_delivery_def copy_sent_def)

lemma save_schedule_Inr:
  assumes "save_schedule e copy s d = (Inr s2, d')" and "\<And>r row. rs_id (copy r row) = rs_id row"
  shows "\<exists>row s3 n. schedule_of d (rs_id s) = Some row \<and> s2 = clean_schedule e s3 \<and> (s3 = s \<or> s3 = s\<lparr>rs_next_run_at := n\<rparr>)
    \<and> (schedule_of d' (rs_id s) = Some (copy s2 row) \<or> schedule_of d' (rs_id s) = Some ((copy s2 row)\<lparr>rs_next_run_at := rs_next_run_at s2\<rparr>))"
proof -
  define s3 where "s3 = (if retimed (schedule_of d (rs_id s)) s then s\<lparr>rs_next_run_at := Some (calculate_next_run_at s (now e))\<rparr> else s)"
  define w where "w = (\<lambda>s2 row. if retimed (schedule_of d (rs_id s)) s then (copy s2 row)\<lparr>rs_next_run_at := rs_next_run_at s2\<rparr> else copy s2 row)"
  have run: "save_schedule e copy s d = (case full_clean_schedule e d s3 of Inl x \<Rightarrow> (Inl x, d)
      | Inr s2 \<Rightarrow> if schedule_of d (rs_id s) = None then (Inl DatabaseError, d)
        else (Inr s2, d\<lparr>report_schedules := tbl_update rs_id (rs_id s) (w s2) (report_schedules d)\<rparr>))"
    unfolding save_schedule_def Let_def s3_def w_def by (rule refl)
  obtain row where row: "schedule_of d (rs_id s) = Some row" and clean: "full_clean_schedule e d s3 = Inr s2"
    and d': "d' = d\<lparr>report_schedules := tbl_update rs_id (rs_id s) (w s2) (report_schedules d)\<rparr>"
    using assms(1) unfolding run by (auto split: sum.splits if_splits)
  have "rs_id (w r x) = rs_id x" for r x by (simp add: w_def assms(2))
  then have "schedule_of d' (rs_id s) = Some (w s2 row)"
    using schedule_tbl.get_upd [of "w s2" "rs_id s" "rs_id s" "report_schedules d"] row by (simp add: d' schedule_of_def)
  then show ?thesis using row full_clean_Inr [OF clean] by (auto simp: w_def s3_def)
qed

lemma cleaned_more [simp]:
  "rs_last_job (clean_schedule e s) = rs_last_job s" "rs_last_sent_at (clean_schedule e s) = rs_last_sent_at s"
  "rs_id (clean_schedule e s) = rs_id s"
  by (simp_all add: clean_schedule_def with_next_run_def with_recipients_def with_vocabulary_def Let_def)

text \<open>What a saved delivery shows, in the object and in the row.\<close>

definition shows_delivery :: "report_schedule \<Rightarrow> string \<Rightarrow> uuid option \<Rightarrow> time option \<Rightarrow> bool" where
  "shows_delivery s status job run = (rs_last_delivery_status s = Some status \<and> rs_last_job s = job \<and> rs_last_run_at s = run)"

lemma saved_delivery:
  assumes "save_schedule e copy s d = (Inr s2, d')" and "copy = copy_delivery \<or> copy = copy_sent"
    and "rs_last_delivery_status s = Some status"
  shows "shows_delivery s2 status (rs_last_job s) (rs_last_run_at s) \<and> rs_last_sent_at s2 = rs_last_sent_at s
    \<and> (\<exists>row. schedule_of d' (rs_id s) = Some row \<and> shows_delivery row status (rs_last_job s) (rs_last_run_at s))"
proof -
  have "rs_id (copy r row) = rs_id row" for r row using assms(2) copies_schedule_id by auto
  then obtain row s3 n where r: "s2 = clean_schedule e s3" "s3 = s \<or> s3 = s\<lparr>rs_next_run_at := n\<rparr>"
    "schedule_of d' (rs_id s) = Some (copy s2 row) \<or> schedule_of d' (rs_id s) = Some ((copy s2 row)\<lparr>rs_next_run_at := rs_next_run_at s2\<rparr>)"
    using save_schedule_Inr [OF assms(1)] by blast
  have s2: "shows_delivery s2 status (rs_last_job s) (rs_last_run_at s)" "rs_last_sent_at s2 = rs_last_sent_at s"
    using r(1,2) assms(3) by (auto simp: shows_delivery_def)
  moreover have "shows_delivery (copy s2 row) status (rs_last_job s) (rs_last_run_at s)"
    "shows_delivery ((copy s2 row)\<lparr>rs_next_run_at := rs_next_run_at s2\<rparr>) status (rs_last_job s) (rs_last_run_at s)"
    using s2 assms(2) by (auto simp: shows_delivery_def copy_delivery_def copy_sent_def)
  ultimately show ?thesis using r(3) by auto
qed

lemma after_generation_outcome:
  assumes "after_generation e x req inet u s j d = (Inr s', d')"
  defines "built \<equiv> rj_status j = JOB_COMPLETED \<and> rj_file j \<noteq> None"
  shows "(built \<longrightarrow> send_scheduled e x s j = Inr () \<and> rs_last_sent_at s' = Some (now e))
    \<and> shows_delivery s' (if built then ''SENT'' else ''FAILED'') (rs_last_job s) (rs_last_run_at s)
    \<and> (\<exists>row. schedule_of d' (rs_id s) = Some row \<and> shows_delivery row (if built then ''SENT'' else ''FAILED'') (rs_last_job s) (rs_last_run_at s))"
proof (cases built)
  case False
  define s1 where "s1 = failed_delivery (str_or (rj_error_message j) ''Scheduled report generation failed.'') s"
  obtain d1 where save: "save_schedule e copy_delivery s1 d = (Inr s', d1)"
    and d': "\<exists>a m. d' = audit_schedule e req inet a s' u m d1"
    using assms(1) False unfolding after_generation_def Let_def s1_def [symmetric] built_def
    by (auto split: if_splits prod.splits sum.splits)
  have f: "rs_last_delivery_status s1 = Some ''FAILED''" "rs_id s1 = rs_id s" "rs_last_job s1 = rs_last_job s" "rs_last_run_at s1 = rs_last_run_at s"
    by (simp_all add: s1_def failed_delivery_def)
  show ?thesis using saved_delivery [OF save _ f(1)] d' False by (auto simp: f)
next
  case True
  define s1 where "s1 = s\<lparr>rs_last_sent_at := Some (now e), rs_last_delivery_status := Some ''SENT'', rs_last_error_message := Some []\<rparr>"
  have sent: "send_scheduled e x s j = Inr ()"
    using assms(1) True unfolding after_generation_def Let_def built_def by (auto split: if_splits prod.splits sum.splits)
  obtain d1 where save: "save_schedule e copy_sent s1 d = (Inr s', d1)"
    and d': "\<exists>a m. d' = audit_schedule e req inet a s' u m d1"
    using assms(1) True sent unfolding after_generation_def Let_def s1_def [symmetric] built_def
    by (auto split: if_splits prod.splits sum.splits)
  have f: "rs_last_delivery_status s1 = Some ''SENT''" "rs_id s1 = rs_id s" "rs_last_job s1 = rs_last_job s" "rs_last_run_at s1 = rs_last_run_at s"
    "rs_last_sent_at s1 = Some (now e)"
    by (simp_all add: s1_def)
  show ?thesis using saved_delivery [OF save _ f(1)] d' True sent by (auto simp: f)
qed

lemma send_scheduled_cong:
  assumes "rs_name s = rs_name r" "rs_report_type s = rs_report_type r" "rs_frequency s = rs_frequency r"
    "rs_delivery_time s = rs_delivery_time r" "rs_output_format s = rs_output_format r" "rs_recipients s = rs_recipients r"
    "rs_send_sms s = rs_send_sms r" "rs_sms_recipients s = rs_sms_recipients r"
  shows "send_scheduled e x s j = send_scheduled e x r j"
  unfolding send_scheduled_def send_report_email_def send_report_sms_def report_sms_text_def build_email_body_def report_type_label_def
    normalize_recipients_def assms by (rule refl)


subsection \<open>A closed example\<close>

text \<open>The daily schedule of an organization without metrics, with a mail server that takes everything.\<close>

definition daily_report :: report_schedule where
  "daily_report = (daily_schedule (seconds 28800))\<lparr>rs_report_type := ''room_environment''\<rparr>"

definition delivery_example :: db where
  "delivery_example = (jobs_example [])\<lparr>report_schedules := [daily_report]\<rparr>"

definition open_mail :: delivery_ctx where
  "open_mail = \<lparr>send_report = (\<lambda>_ _ _ _. Inr ()), clock_12 = (\<lambda>_. ''08:00 AM''), clock_24 = (\<lambda>_. ''08:00:00''), phones = console_transports\<rparr>"

lemma daily_report_clean:
  assumes "rs_organization r = 1" "rs_data_center r = None" "rs_name r = ''Daily''" "rs_report_type r = ''room_environment''"
    "rs_frequency r = ''DAILY''" "rs_output_format r = ''CSV''" "rs_recipients r = PList [PStr ''a@b'']" "rs_send_sms r = False"
    "rs_created_by r = None" "rs_last_run_at r = Some l" "rs_next_run_at r = Some n" "l \<le> n" "rs_last_job r = Some k"
    and "tbl_get org_id 1 (organizations d) \<noteq> None" and "job_of d k \<noteq> None"
  shows "full_clean_schedule e d r = Inr (clean_schedule e r)"
proof -
  have m: "normalize_recipients e r = [''a@b'']"
    using daily_recipient [of e] by (simp add: normalize_recipients_def assms list_or_empty_def)
  have t: "normalize_report_type ''room_environment'' = Some ''room_environment''"
    by (rule supported_types_stay) (simp add: SUPPORTED_REPORT_TYPES_def REPORT_TYPE_LABELS_def)
  have "schedule_site_errors d r = Inr []" "vocabulary_errors r = []"
    by (simp_all add: schedule_site_errors_def vocabulary_errors_def assms daily_vocabulary t)
  moreover have "schedule_field_errors d r = []"
    using assms(14,15) by (simp add: schedule_field_errors_def assms(1-13) choice_errors_def job_of_def
        SUPPORTED_REPORT_TYPES_def REPORT_TYPE_LABELS_def FREQUENCY_LABELS_def FORMAT_LABELS_def)
  moreover have "recipient_errors e r = []"
    using m by (simp add: recipient_errors_def Let_def is_list_def assms valid_recipient_def)
  moreover have "rs_send_sms (clean_schedule e r) = False"
    by (simp add: clean_schedule_def with_next_run_def with_recipients_def with_vocabulary_def assms)
  then have "run_errors (clean_schedule e r) = []" using assms(12) by (simp add: run_errors_def assms(10,11) not_less)
  ultimately show ?thesis by (simp add: full_clean_schedule_def)
qed


end
