(* ===== verification/Telemetry_History.thy ===== *)
theory Telemetry_History
  imports Telemetry_Writer Access_Scope Report_Params
begin

text \<open>
  The history of a metric (\<open>apps/telemetry/views.py\<close>, \<open>serializers.py\<close>): a range of time is cut into hours or days and each
  bucket shows the average of its readings. A moment keeps the offset it was written with, because the code floors the ends of the
  range on their own clock and the readings on the clock of the settings. Parsing and printing of moments are library functions
  (\<open>history_ctx\<close>); an average is exact here.
\<close>

subsection \<open>Moments\<close>

record moment =
  wall :: int
  utc_offset :: int

definition instant :: "moment \<Rightarrow> time" where
  "instant m = wall m - utc_offset m"

text \<open>\<open>parse_datetime\<close> gives the wall clock with its offset, if it has one; \<open>parse_date\<close> gives a day.\<close>

record history_ctx =
  parse_datetime :: "string \<Rightarrow> exn + (int \<times> int option) option"
  parse_date :: "string \<Rightarrow> exn + int option"
  iso_moment :: "moment \<Rightarrow> string"
  repr_text :: "string \<Rightarrow> string"

definition parse_history_datetime :: "history_ctx \<Rightarrow> string \<Rightarrow> bool \<Rightarrow> exn + moment option" where
  "parse_history_datetime x raw end_of_day =
     (if raw = [] then Inr None
      else (case parse_datetime x raw of
        Inl y \<Rightarrow> Inl y
      | Inr (Some (w, off)) \<Rightarrow> Inr (Some \<lparr>wall = w, utc_offset = (case off of None \<Rightarrow> local_offset | Some k \<Rightarrow> k)\<rparr>)
      | Inr None \<Rightarrow> (case parse_date x raw of
          Inl y \<Rightarrow> Inl y
        | Inr None \<Rightarrow> Inl (ValidationError [(''non_field_errors'', [''Invalid datetime value: '' @ repr_text x raw])])
        | Inr (Some day) \<Rightarrow> Inr (Some \<lparr>wall = day * day_length + (if end_of_day then day_length - 1 else 0), utc_offset = local_offset\<rparr>))))"

subsection \<open>The query\<close>

record history_query =
  hq_device :: uuid
  hq_metric :: "string option"
  hq_metric_code :: "string option"
  hq_date_from :: "string option"
  hq_date_to :: "string option"
  hq_time_gte :: "string option"
  hq_time_lte :: "string option"

record history_range =
  hg_metric :: metric
  hg_start :: moment
  hg_end :: moment

definition history_metric :: "db \<Rightarrow> string \<Rightarrow> exn + metric" where
  "history_metric d v = (case metric_by_code d v of
      Some me \<Rightarrow> Inr me
    | None \<Rightarrow> (case parse_pk (PStr v) of
        Inl x \<Rightarrow> Inl x
      | Inr k \<Rightarrow> (case metric_of d k of
          Some me \<Rightarrow> Inr me
        | None \<Rightarrow> Inl (ValidationError [(''metric'', [''Unknown telemetry metric.''])]))))"

text \<open>Without a range the last 24 hours are taken, on the clock of UTC.\<close>

definition validate_history :: "env \<Rightarrow> history_ctx \<Rightarrow> db \<Rightarrow> history_query \<Rightarrow> exn + history_range" where
  "validate_history e x d q =
     (case history_metric d (strip (str_or (hq_metric_code q) (str_or (hq_metric q) ''ups_load_percent''))) of
        Inl y \<Rightarrow> Inl y
      | Inr me \<Rightarrow> (case parse_history_datetime x (str_or (hq_date_from q) (str_or (hq_time_gte q) [])) False of
          Inl y \<Rightarrow> Inl y
        | Inr a \<Rightarrow> (case parse_history_datetime x (str_or (hq_date_to q) (str_or (hq_time_lte q) [])) True of
            Inl y \<Rightarrow> Inl y
          | Inr b \<Rightarrow> (case (a, b) of
              (None, None) \<Rightarrow> Inr \<lparr>hg_metric = me, hg_start = \<lparr>wall = now e - day_length, utc_offset = 0\<rparr>, hg_end = \<lparr>wall = now e, utc_offset = 0\<rparr>\<rparr>
            | (Some s, Some t) \<Rightarrow>
                if instant s > instant t
                then Inl (ValidationError [(''non_field_errors'', [''date_from must be earlier than or equal to date_to.''])])
                else Inr \<lparr>hg_metric = me, hg_start = s, hg_end = t\<rparr>
            | _ \<Rightarrow> Inl (ValidationError [(''non_field_errors'', [''Both date_from and date_to are required when range is not provided.''])])))))"

subsection \<open>Buckets\<close>

datatype bucket = HOURLY | DAILY

fun bucket_delta :: "bucket \<Rightarrow> time" where
  "bucket_delta HOURLY = seconds 3600"
| "bucket_delta DAILY = day_length"

definition history_bucket_spec :: "moment \<Rightarrow> moment \<Rightarrow> bucket" where
  "history_bucket_spec a b = (if instant b - instant a \<le> day_length then HOURLY else DAILY)"

text \<open>\<open>value.replace(minute=0, second=0, microsecond=0)\<close>, with \<open>hour=0\<close> for days: on the value's own clock.\<close>

definition floor_bucket_datetime :: "bucket \<Rightarrow> moment \<Rightarrow> moment" where
  "floor_bucket_datetime bk m = m\<lparr>wall := wall m div bucket_delta bk * bucket_delta bk\<rparr>"

lemma bucket_delta_pos [simp]: "0 < bucket_delta bk" "bucket_delta bk \<noteq> 0" "\<not> bucket_delta bk \<le> 0"
  by (cases bk; simp add: seconds_def day_length_def)+

function build_bucket_sequence :: "bucket \<Rightarrow> time \<Rightarrow> time \<Rightarrow> time list" where
  "build_bucket_sequence bk current stop =
     (if current \<le> stop then current # build_bucket_sequence bk (current + bucket_delta bk) stop else [])"
  by pat_completeness auto

termination
proof (relation "measure (\<lambda>(bk, current, stop). nat (stop + 1 - current))")
  fix bk :: bucket and current stop :: time
  assume "current \<le> stop"
  moreover have "0 < bucket_delta bk" by simp
  ultimately show "((bk, current + bucket_delta bk, stop), bk, current, stop) \<in> measure (\<lambda>(bk, current, stop). nat (stop + 1 - current))"
    by simp
qed simp

declare build_bucket_sequence.simps [simp del]

text \<open>\<open>TruncHour\<close> and \<open>TruncDay\<close> in the zone of the settings.\<close>

definition trunc_bucket :: "bucket \<Rightarrow> time \<Rightarrow> time" where
  "trunc_bucket bk t = (t + local_offset) div bucket_delta bk * bucket_delta bk - local_offset"

definition numeric_value :: "telemetry_point \<Rightarrow> rat option" where
  "numeric_value p = (case value_float (tp_values p) of
      Some r \<Rightarrow> Some r
    | None \<Rightarrow> map_option rat_of_int (value_integer (tp_values p)))"

definition average :: "telemetry_point list \<Rightarrow> rat option" where
  "average ps = (let vs = List.map_filter numeric_value ps in
     if vs = [] then None else Some (sum_list vs / rat_of_nat (length vs)))"

text \<open>A bucket without readings has no entry in the map and shows nothing, as one without numeric readings does.\<close>

definition bucket_value :: "bucket \<Rightarrow> telemetry_point list \<Rightarrow> time \<Rightarrow> rat option" where
  "bucket_value bk ps t = average (filter (\<lambda>p. trunc_bucket bk (tp_time p) = t) ps)"

subsection \<open>The answer\<close>

definition point_fields :: "telemetry_point fields" where
  "point_fields l = (case l of
      L_ORGANIZATION \<Rightarrow> Some (\<lambda>p. Some (tp_organization p))
    | L_DATA_CENTER \<Rightarrow> Some (\<lambda>p. Some (tp_data_center p))
    | L_DEVICE \<Rightarrow> Some (\<lambda>p. Some (tp_device p))
    | _ \<Rightarrow> None)"

text \<open>\<open>keep\<close> is what the filter backends take from the other parameters of the request.\<close>

definition history_points :: "db \<Rightarrow> user \<Rightarrow> (telemetry_point \<Rightarrow> bool) \<Rightarrow> uuid \<Rightarrow> history_range \<Rightarrow> telemetry_point list" where
  "history_points d u keep dev v = order_by tp_time
     (filter (\<lambda>p. tp_device p = dev \<and> tp_metric p = me_id (hg_metric v) \<and> instant (hg_start v) \<le> tp_time p \<and> tp_time p \<le> instant (hg_end v))
       (filter keep (filter_queryset_for_user d (Some u) (Some L_DEVICE) point_fields (points d))))"

record history_row =
  hr_time :: time
  hr_metric_code :: string
  hr_quality :: string
  hr_source :: string
  hr_value :: "rat option"

definition history_rows :: "telemetry_point list \<Rightarrow> history_range \<Rightarrow> history_row list" where
  "history_rows ps v =
     (if ps = [] then []
      else (let bk = history_bucket_spec (hg_start v) (hg_end v) in
        map (\<lambda>t. \<lparr>hr_time = t, hr_metric_code = me_code (hg_metric v), hr_quality = ''BUCKETED'', hr_source = ''bucketed'',
               hr_value = bucket_value bk ps t\<rparr>)
          (build_bucket_sequence bk (instant (floor_bucket_datetime bk (hg_start v))) (instant (floor_bucket_datetime bk (hg_end v))))))"

record history_response =
  hs_device :: string
  hs_metric :: string
  hs_date_from :: string
  hs_date_to :: string
  hs_count :: nat
  hs_results :: "history_row list"

definition history :: "env \<Rightarrow> history_ctx \<Rightarrow> db \<Rightarrow> user \<Rightarrow> (telemetry_point \<Rightarrow> bool) \<Rightarrow> history_query \<Rightarrow> exn + history_response" where
  "history e x d u keep q = (case validate_history e x d q of
      Inl y \<Rightarrow> Inl y
    | Inr v \<Rightarrow>
       (let rs = history_rows (history_points d u keep (hq_device q) v) v in
        Inr \<lparr>hs_device = str_nat (hq_device q), hs_metric = me_code (hg_metric v), hs_date_from = iso_moment x (hg_start v),
             hs_date_to = iso_moment x (hg_end v), hs_count = length rs, hs_results = rs\<rparr>))"

text \<open>The counters of the latest readings.\<close>

record latest_counts =
  total_latest_points :: nat
  good_points :: nat
  bad_points :: nat
  stale_points :: nat

definition latest_fields :: "latest_telemetry fields" where
  "latest_fields l = (case l of
      L_ORGANIZATION \<Rightarrow> Some (\<lambda>r. Some (lt_organization r))
    | L_DATA_CENTER \<Rightarrow> Some (\<lambda>r. Some (lt_data_center r))
    | L_DEVICE \<Rightarrow> Some (\<lambda>r. Some (lt_device r))
    | _ \<Rightarrow> None)"

definition latest_summary :: "db \<Rightarrow> user \<Rightarrow> (latest_telemetry \<Rightarrow> bool) \<Rightarrow> latest_counts" where
  "latest_summary d u keep =
     (let qs = filter keep (filter_queryset_for_user d (Some u) (Some L_DEVICE) latest_fields (latest_rows d));
          of_quality = (\<lambda>q. length (filter (\<lambda>r. lt_quality r = q) qs)) in
      \<lparr>total_latest_points = length qs, good_points = of_quality GOOD, bad_points = of_quality BAD, stale_points = of_quality STALE\<rparr>)"

end
