(* ===== verification/Telemetry_History_Props.thy ===== *)
theory Telemetry_History_Props
  imports Telemetry_History
begin

text \<open>What the history of a metric shows: every reading of the range in exactly one bucket, or nothing at all when the range is
  written on another clock than that of the settings.\<close>

subsection \<open>The grid of buckets\<close>

definition on_grid :: "bucket \<Rightarrow> time \<Rightarrow> bool" where
  "on_grid bk t = ((t + local_offset) mod bucket_delta bk = 0)"

text \<open>The clock a moment is written on shows the bounds of the buckets where that of the settings does.\<close>

definition local_clock :: "bucket \<Rightarrow> moment \<Rightarrow> bool" where
  "local_clock bk m = ((utc_offset m - local_offset) mod bucket_delta bk = 0)"

definition covers :: "bucket \<Rightarrow> time \<Rightarrow> time \<Rightarrow> bool" where
  "covers bk t x = (t \<le> x \<and> x < t + bucket_delta bk)"

lemma floor_covers: "0 < k \<Longrightarrow> x div k * k \<le> x \<and> x < x div k * k + k" for x k :: int
  by (metis add.commute add_less_cancel_left div_mult_mod_eq le_add_same_cancel1 pos_mod_bound pos_mod_sign)

lemma trunc_covers: "covers bk (trunc_bucket bk t) t"
  using floor_covers [of "bucket_delta bk" "t + local_offset"] by (simp add: covers_def trunc_bucket_def)

lemma trunc_on_grid: "on_grid bk (trunc_bucket bk t)"
  by (simp add: on_grid_def trunc_bucket_def)

lemma trunc_mono: "s \<le> t \<Longrightarrow> trunc_bucket bk s \<le> trunc_bucket bk t"
  by (simp add: trunc_bucket_def zdiv_mono1 mult_right_mono)

lemma trunc_unique:
  assumes "on_grid bk s"
  shows "trunc_bucket bk t = s \<longleftrightarrow> covers bk s t"
proof
  assume "covers bk s t"
  then obtain r where r: "t + local_offset = (s + local_offset) + r" "0 \<le> r" "r < bucket_delta bk"
    by (auto simp: covers_def intro!: that [of "t - s"])
  obtain q where q: "s + local_offset = q * bucket_delta bk" using assms by (auto simp: on_grid_def elim!: dvdE simp: mod_eq_0_iff_dvd mult.commute)
  have "(t + local_offset) div bucket_delta bk = q" unfolding r(1) q using r(2,3) by simp
  then show "trunc_bucket bk t = s" using q by (simp add: trunc_bucket_def)
qed (use trunc_covers in auto)

lemma floor_is_trunc: "local_clock bk m \<Longrightarrow> instant (floor_bucket_datetime bk m) = trunc_bucket bk (instant m)"
proof -
  assume "local_clock bk m"
  then obtain q where q: "utc_offset m = q * bucket_delta bk + local_offset"
    by (auto simp: local_clock_def mod_eq_0_iff_dvd mult.commute elim!: dvdE) (metis add.commute diff_add_cancel)
  have "wall m div bucket_delta bk = (wall m - q * bucket_delta bk) div bucket_delta bk + q"
    using div_mult_self1 [of "bucket_delta bk" "wall m - q * bucket_delta bk" q] by simp
  then show ?thesis
    by (simp add: instant_def floor_bucket_datetime_def trunc_bucket_def q algebra_simps)
qed

lemma floor_off_grid: "\<not> local_clock bk m \<Longrightarrow> \<not> on_grid bk (instant (floor_bucket_datetime bk m))"
  by (simp add: local_clock_def on_grid_def instant_def floor_bucket_datetime_def mod_eq_0_iff_dvd)
    (smt (verit) dvd_diff_right_iff dvd_triv_right minus_diff_eq dvd_minus_iff)

lemma in_sequence:
  "t \<in> set (build_bucket_sequence bk a b) \<longleftrightarrow> a \<le> t \<and> t \<le> b \<and> (t - a) mod bucket_delta bk = 0"
proof (induction bk a b rule: build_bucket_sequence.induct)
  case (1 bk a b)
  have step: "(t - (a + bucket_delta bk)) mod bucket_delta bk = (t - a) mod bucket_delta bk" by (simp add: mod_diff_right_eq diff_diff_eq [symmetric])
  have next_one: "a + bucket_delta bk \<le> t" if "a < t" "(t - a) mod bucket_delta bk = 0"
    using that zdvd_imp_le [of "bucket_delta bk" "t - a"] by (simp add: mod_eq_0_iff_dvd)
  show ?case
  proof (cases "a \<le> b")
    case True
    then have "t \<in> set (build_bucket_sequence bk a b) \<longleftrightarrow> t = a \<or> t \<in> set (build_bucket_sequence bk (a + bucket_delta bk) b)"
      by (simp add: build_bucket_sequence.simps [of bk a b])
    also have "\<dots> \<longleftrightarrow> t = a \<or> (a + bucket_delta bk \<le> t \<and> t \<le> b \<and> (t - a) mod bucket_delta bk = 0)"
      using 1 [OF True] step by simp
    also have "\<dots> \<longleftrightarrow> a \<le> t \<and> t \<le> b \<and> (t - a) mod bucket_delta bk = 0"
      using True next_one by (cases "t = a") (auto intro: order_trans [of a "a + bucket_delta bk"] simp: less_imp_le)
    finally show ?thesis .
  next
    case False
    then show ?thesis by (simp add: build_bucket_sequence.simps [of bk a b])
  qed
qed

lemma sequence_increasing: "sorted_wrt (<) (build_bucket_sequence bk a b)"
proof (induction bk a b rule: build_bucket_sequence.induct)
  case (1 bk a b)
  then show ?case
    by (subst build_bucket_sequence.simps) (auto simp: in_sequence add_strict_increasing intro: less_le_trans [of _ "a + bucket_delta bk"])
qed

lemma sequence_on_grid: "t \<in> set (build_bucket_sequence bk a b) \<Longrightarrow> on_grid bk t \<longleftrightarrow> on_grid bk a"
  by (simp add: in_sequence on_grid_def mod_eq_0_iff_dvd)
    (metis add_diff_cancel_right dvd_diff dvd_diffD diff_add_cancel add.commute dvd_add_right_iff add_diff_eq)

subsection \<open>The rows\<close>

text \<open>C19. When the range is written on the clock of the settings (for hours: on any clock that differs from it by whole hours), the
  rows are increasing in time, each reading of the range lies in exactly one of them, and each shows the average of its readings.\<close>

theorem history_exact:
  assumes "local_clock (history_bucket_spec (hg_start v) (hg_end v)) (hg_start v)"
    and "local_clock (history_bucket_spec (hg_start v) (hg_end v)) (hg_end v)"
    and "ps = history_points d u keep dev v" and "rs = history_rows ps v" and "bk = history_bucket_spec (hg_start v) (hg_end v)"
  shows "sorted_wrt (<) (map hr_time rs) \<and> (\<forall>p \<in> set ps. \<exists>!r. r \<in> set rs \<and> covers bk (hr_time r) (tp_time p))
    \<and> (\<forall>r \<in> set rs. hr_value r = average (filter (\<lambda>p. covers bk (hr_time r) (tp_time p)) ps))"
proof (cases "ps = []")
  case True
  then show ?thesis by (simp add: assms(4) history_rows_def)
next
  case False
  let ?a = "trunc_bucket bk (instant (hg_start v))" and ?b = "trunc_bucket bk (instant (hg_end v))"
  define row where "row = (\<lambda>t. \<lparr>hr_time = t, hr_metric_code = me_code (hg_metric v), hr_quality = ''BUCKETED'', hr_source = ''bucketed'',
    hr_value = bucket_value bk ps t\<rparr>)"
  have rs: "rs = map row (build_bucket_sequence bk ?a ?b)"
    using False assms(1,2) by (simp add: assms(4,5) history_rows_def row_def Let_def floor_is_trunc)
  have row: "hr_time (row t) = t" "hr_value (row t) = bucket_value bk ps t" for t by (simp_all add: row_def)
  have grid: "on_grid bk t" if "t \<in> set (build_bucket_sequence bk ?a ?b)" for t
    using sequence_on_grid [OF that] trunc_on_grid by blast
  have range: "instant (hg_start v) \<le> tp_time p \<and> tp_time p \<le> instant (hg_end v)" if "p \<in> set ps" for p
    using that by (auto simp: assms(3) history_points_def)
  have "map hr_time rs = build_bucket_sequence bk ?a ?b" by (simp add: rs o_def row)
  then have sorted: "sorted_wrt (<) (map hr_time rs)" by (simp add: sequence_increasing)
  have one: "\<exists>!r. r \<in> set rs \<and> covers bk (hr_time r) (tp_time p)" if "p \<in> set ps" for p
  proof -
    let ?t = "trunc_bucket bk (tp_time p)"
    have "?a \<le> ?t" "?t \<le> ?b" using range [OF that] by (simp_all add: trunc_mono)
    then have t: "?t \<in> set (build_bucket_sequence bk ?a ?b)"
      using trunc_on_grid [of bk "tp_time p"] trunc_on_grid [of bk "instant (hg_start v)"]
      by (simp add: in_sequence on_grid_def mod_eq_0_iff_dvd) (metis add_diff_cancel_right dvd_diff)
    show ?thesis
    proof (rule ex1I [of _ "row ?t"])
      show "row ?t \<in> set rs \<and> covers bk (hr_time (row ?t)) (tp_time p)" using t by (simp add: rs row trunc_covers)
      fix r assume "r \<in> set rs \<and> covers bk (hr_time r) (tp_time p)"
      then obtain t where "t \<in> set (build_bucket_sequence bk ?a ?b)" "r = row t" "covers bk t (tp_time p)" by (auto simp: rs row)
      then show "r = row ?t" using grid trunc_unique [of bk t "tp_time p"] by simp
    qed
  qed
  have "hr_value r = average (filter (\<lambda>p. covers bk (hr_time r) (tp_time p)) ps)" if "r \<in> set rs" for r
    using that grid by (auto simp: rs row bucket_value_def trunc_unique)
  then show ?thesis using sorted one by blast
qed

text \<open>A reading of the first of two days.\<close>

definition history_user :: user where
  "history_user = blank_user\<lparr>usr_id := 1, usr_is_superuser := True\<rparr>"

definition history_example :: db where
  "history_example = empty_db\<lparr>points := [\<lparr>tp_time = 2 * day_length, tp_organization = 1, tp_data_center = 1, tp_device = 1, tp_metric = 1,
     tp_values = no_value\<lparr>value_float := Some 5\<rparr>, tp_raw_value_text = None, tp_quality = GOOD, tp_source = None, tp_ingest_id = None\<rparr>]\<rparr>"

text \<open>From midnight to midnight on a clock with the given offset.\<close>

definition two_days :: "int \<Rightarrow> history_range" where
  "two_days off = \<lparr>hg_metric = blank_metric\<lparr>me_id := 1\<rparr>, hg_start = \<lparr>wall = 2 * day_length, utc_offset = off\<rparr>,
     hg_end = \<lparr>wall = 4 * day_length, utc_offset = off\<rparr>\<rparr>"

lemma history_example_points:
  assumes "0 \<le> off" and "off \<le> 2 * day_length"
  shows "history_points history_example history_user (\<lambda>_. True) 1 (two_days off) = points history_example"
    "history_bucket_spec (hg_start (two_days off)) (hg_end (two_days off)) = DAILY"
proof -
  have "filter_queryset_for_user history_example (Some history_user) (Some L_DEVICE) point_fields (points history_example) = points history_example"
    by (simp add: filter_queryset_for_user_def filter_by_scope_def get_access_scope_def history_user_def blank_scope_def)
  then show "history_points history_example history_user (\<lambda>_. True) 1 (two_days off) = points history_example"
    using assms by (simp add: history_points_def history_example_def two_days_def instant_def empty_db_def day_length_def seconds_def)
  show "history_bucket_spec (hg_start (two_days off)) (hg_end (two_days off)) = DAILY"
    by (simp add: history_bucket_spec_def two_days_def instant_def day_length_def seconds_def)
qed

lemma history_exact_witness:
  "\<exists>r \<in> set (history_rows (points history_example) (two_days local_offset)). hr_value r = Some 5"
proof -
  let ?v = "two_days local_offset" and ?p = "hd (points history_example)"
  have lo: "0 \<le> local_offset" "local_offset \<le> 2 * day_length" by (simp_all add: local_offset_def day_length_def seconds_def)
  note ex = history_example_points [OF lo]
  have clock: "local_clock DAILY (hg_start ?v)" "local_clock DAILY (hg_end ?v)" by (simp_all add: local_clock_def two_days_def)
  have ps: "points history_example = [?p]" by (simp add: history_example_def)
  have "sorted_wrt (<) (map hr_time (history_rows (points history_example) ?v))
    \<and> (\<forall>p \<in> set (points history_example). \<exists>!r. r \<in> set (history_rows (points history_example) ?v) \<and> covers DAILY (hr_time r) (tp_time p))
    \<and> (\<forall>r \<in> set (history_rows (points history_example) ?v).
        hr_value r = average (filter (\<lambda>p. covers DAILY (hr_time r) (tp_time p)) (points history_example)))"
    by (rule history_exact [OF _ _ ex(1) [symmetric] refl ex(2) [symmetric]]) (simp_all only: ex(2) clock)
  then have one: "\<exists>r. r \<in> set (history_rows (points history_example) ?v) \<and> covers DAILY (hr_time r) (tp_time ?p)"
    and vals: "\<And>r. r \<in> set (history_rows (points history_example) ?v) \<Longrightarrow>
      hr_value r = average (filter (\<lambda>p. covers DAILY (hr_time r) (tp_time p)) (points history_example))"
    using ps by (metis list.set_intros(1), blast)
  obtain r where r: "r \<in> set (history_rows (points history_example) ?v)" "covers DAILY (hr_time r) (tp_time ?p)" using one by blast
  have "filter (\<lambda>p. covers DAILY (hr_time r) (tp_time p)) (points history_example) = [?p]" using r(2) by (subst (1) ps) simp
  then have "hr_value r = average [?p]" using vals [OF r(1)] by simp
  also have "\<dots> = Some 5" by (simp add: average_def numeric_value_def history_example_def map_filter_simps Let_def)
  finally show ?thesis using r(1) by blast
qed

text \<open>When the start of the range is written on a clock on which the buckets begin at other moments, for instance days in UTC, no
  key of the map is ever hit: every row is empty although there are readings.\<close>

theorem history_off_clock:
  assumes "\<not> local_clock (history_bucket_spec (hg_start v) (hg_end v)) (hg_start v)"
    and "r \<in> set (history_rows (history_points d u keep dev v) v)"
  shows "hr_value r = None"
proof -
  let ?bk = "history_bucket_spec (hg_start v) (hg_end v)" and ?ps = "history_points d u keep dev v"
  obtain t where t: "t \<in> set (build_bucket_sequence ?bk (instant (floor_bucket_datetime ?bk (hg_start v))) (instant (floor_bucket_datetime ?bk (hg_end v))))"
    "hr_value r = bucket_value ?bk ?ps t"
    using assms(2) by (auto simp: history_rows_def Let_def split: if_splits)
  then have "\<not> on_grid ?bk t" using sequence_on_grid floor_off_grid [OF assms(1)] by blast
  then have "filter (\<lambda>p. trunc_bucket ?bk (tp_time p) = t) ?ps = []" using trunc_on_grid [of ?bk] by (auto simp: filter_empty_conv)
  then show ?thesis using t(2) by (simp add: bucket_value_def average_def Let_def map_filter_simps)
qed

lemma history_off_clock_witness:
  "history_points history_example history_user (\<lambda>_. True) 1 (two_days 0) \<noteq> []
   \<and> (\<exists>r. r \<in> set (history_rows (points history_example) (two_days 0)) \<and> hr_value r = None)"
proof -
  have zero: "(0::int) \<le> 0" "0 \<le> 2 * day_length" by (simp_all add: day_length_def seconds_def)
  note ex = history_example_points [OF zero]
  have off: "\<not> local_clock DAILY (hg_start (two_days 0))" by (simp add: local_clock_def two_days_def local_offset_def day_length_def seconds_def)
  have "history_rows (points history_example) (two_days 0) \<noteq> []"
    by (simp add: history_rows_def Let_def ex(2))
      (simp add: history_example_def build_bucket_sequence.simps [of DAILY 172800000000] two_days_def instant_def floor_bucket_datetime_def day_length_def seconds_def)
  then obtain r where r: "r \<in> set (history_rows (points history_example) (two_days 0))" using last_in_set by blast
  have "hr_value r = None"
    by (rule history_off_clock [of "two_days 0" r history_example history_user "\<lambda>_. True" 1]) (simp_all only: ex off r not_False_eq_True)
  moreover have "points history_example \<noteq> []" by (simp add: history_example_def)
  ultimately show ?thesis using r by (auto simp only: ex(1))
qed

end
