(* ===== verification/Alert_Summary.thy ===== *)
theory Alert_Summary
  imports Alert_Engine Audit_Trail Calendar
begin

text \<open>
  The dashboard of the alerts (\<open>apps/alerts/services/summary.py\<close>) and the views over them (\<open>apps/alerts/views.py\<close>): counts over the
  alerts a user may see, and the requests that acknowledge or resolve one. A time zone is the pair of its conversions, and what
  \<open>ZoneInfo\<close> knows is an argument.
\<close>

subsection \<open>Time zones\<close>

record zone =
  to_wall :: "time \<Rightarrow> int"
  of_wall :: "int \<Rightarrow> time"

definition current_timezone :: zone where
  "current_timezone = \<lparr>to_wall = (\<lambda>t. t + local_offset), of_wall = (\<lambda>w. w - local_offset)\<rparr>"

definition coerce_timezone :: "zone option \<Rightarrow> zone" where
  "coerce_timezone z = (case z of None \<Rightarrow> current_timezone | Some x \<Rightarrow> x)"

definition today_in_timezone :: "env \<Rightarrow> zone option \<Rightarrow> int" where
  "today_in_timezone e z = to_wall (coerce_timezone z) (now e) div day_length"

definition day_bounds_in_timezone :: "env \<Rightarrow> zone option \<Rightarrow> time \<times> time" where
  "day_bounds_in_timezone e z =
     (let tz = coerce_timezone z; today = today_in_timezone e (Some tz) in
      (of_wall tz (today * day_length), of_wall tz (today * day_length + day_length)))"

text \<open>The names of the zones come in no particular order; here it is that of the table.\<close>

definition summary_timezone_for_queryset :: "(string \<Rightarrow> zone option) \<Rightarrow> db \<Rightarrow> alert_event list \<Rightarrow> zone option" where
  "summary_timezone_for_queryset zone_info d qs =
     (let names = take 2 (remdups (List.map_filter (\<lambda>a. map_option dc_timezone (data_center_of d (ae_data_center a))) qs)) in
      case filter (\<lambda>n. n \<noteq> []) names of
        [n] \<Rightarrow> zone_info n
      | _ \<Rightarrow> None)"

subsection \<open>Counting\<close>

text \<open>\<open>values(key).annotate(total=Count("id")).order_by(key)\<close>\<close>

definition group_counts :: "('a \<Rightarrow> 'k::linorder) \<Rightarrow> 'a list \<Rightarrow> ('k \<times> nat) list" where
  "group_counts key qs = map (\<lambda>k. (k, length (filter (\<lambda>a. key a = k) qs))) (sort (remdups (map key qs)))"

definition active_queryset :: "alert_event list \<Rightarrow> alert_event list" where
  "active_queryset qs = filter (\<lambda>a. ae_status a = OPEN \<or> ae_status a = ACKNOWLEDGED) qs"

definition severity_dict :: "alert_event list \<Rightarrow> (string \<times> nat) list" where
  "severity_dict qs = group_counts (\<lambda>a. severity_value (ae_severity a)) qs"

definition status_dict :: "alert_event list \<Rightarrow> (string \<times> nat) list" where
  "status_dict qs = group_counts (\<lambda>a. status_value (ae_status a)) qs"

record alert_summary =
  open_total :: nat
  critical_open :: nat
  warning_open :: nat
  acknowledged_total :: nat
  resolved_today :: nat
  unacknowledged_critical :: nat
  by_severity :: "(string \<times> nat) list"
  by_status :: "(string \<times> nat) list"

definition count_where :: "(alert_event \<Rightarrow> bool) \<Rightarrow> alert_event list \<Rightarrow> nat" where
  "count_where p qs = length (filter p qs)"

definition build_alert_summary :: "env \<Rightarrow> zone option \<Rightarrow> alert_event list \<Rightarrow> alert_summary" where
  "build_alert_summary e z qs =
     (let active = active_queryset qs; (day_start, day_end) = day_bounds_in_timezone e z in
      \<lparr>open_total = length active,
       critical_open = count_where (\<lambda>a. ae_severity a = CRITICAL) active,
       warning_open = count_where (\<lambda>a. ae_severity a = WARNING) active,
       acknowledged_total = count_where (\<lambda>a. ae_status a = ACKNOWLEDGED) qs,
       resolved_today = count_where (\<lambda>a. ae_status a = RESOLVED
         \<and> (case ae_resolved_at a of None \<Rightarrow> False | Some t \<Rightarrow> day_start \<le> t \<and> t < day_end)) qs,
       unacknowledged_critical = count_where (\<lambda>a. ae_status a = OPEN \<and> ae_severity a = CRITICAL) qs,
       by_severity = severity_dict active, by_status = status_dict qs\<rparr>)"

definition build_active_by_severity :: "alert_event list \<Rightarrow> (string \<times> nat) list" where
  "build_active_by_severity qs = group_counts (\<lambda>a. severity_value (ae_severity a)) (active_queryset qs)"

record top_device =
  td_device_id :: uuid
  td_device_name :: string
  td_device_code :: string
  td_alert_count :: nat
  td_critical_count :: nat

definition alert_device_row :: "db \<Rightarrow> alert_event \<Rightarrow> uuid \<times> string \<times> string" where
  "alert_device_row d a = (case device_of d (ae_device a) of
      None \<Rightarrow> (ae_device a, [], []) | Some x \<Rightarrow> (ae_device a, dev_name x, dev_code x))"

definition build_top_devices :: "db \<Rightarrow> nat \<Rightarrow> alert_event list \<Rightarrow> top_device list" where
  "build_top_devices d limit qs =
     (let active = active_queryset qs;
          rows = map (\<lambda>(k, name, code).
            (let own = filter (\<lambda>a. alert_device_row d a = (k, name, code)) active in
             \<lparr>td_device_id = k, td_device_name = name, td_device_code = code, td_alert_count = length own,
              td_critical_count = count_where (\<lambda>a. ae_severity a = CRITICAL) own\<rparr>)) (remdups (map (alert_device_row d) active))
      in take limit (order_by (\<lambda>r. (- int (td_alert_count r), - int (td_critical_count r), td_device_name r)) rows))"

definition build_recent_alerts :: "nat \<Rightarrow> alert_event list \<Rightarrow> alert_event list" where
  "build_recent_alerts limit qs = take limit (order_by (\<lambda>a. - ae_triggered_at a) qs)"

record dashboard =
  summary_of :: alert_summary
  by_data_center :: "(string \<times> nat) list"
  by_device_type :: "(string \<times> nat) list"

definition alert_site_name :: "db \<Rightarrow> alert_event \<Rightarrow> string" where
  "alert_site_name d a = (case data_center_of d (ae_data_center a) of None \<Rightarrow> [] | Some c \<Rightarrow> dc_name c)"

definition alert_type_name :: "db \<Rightarrow> alert_event \<Rightarrow> string" where
  "alert_type_name d a = (case Option.bind (device_of d (ae_device a)) (\<lambda>x. device_type_of d (dev_device_type x)) of
      None \<Rightarrow> [] | Some t \<Rightarrow> dt_name t)"

definition build_dashboard_payload :: "env \<Rightarrow> zone option \<Rightarrow> db \<Rightarrow> alert_event list \<Rightarrow> dashboard" where
  "build_dashboard_payload e z d qs =
     \<lparr>summary_of = build_alert_summary e z qs, by_data_center = group_counts (alert_site_name d) (active_queryset qs),
      by_device_type = group_counts (alert_type_name d) (active_queryset qs)\<rparr>"

subsection \<open>The views\<close>

definition alert_fields :: "alert_event fields" where
  "alert_fields l = (case l of
      L_ORGANIZATION \<Rightarrow> Some (\<lambda>a. Some (ae_organization a))
    | L_DATA_CENTER \<Rightarrow> Some (\<lambda>a. Some (ae_data_center a))
    | L_DEVICE \<Rightarrow> Some (\<lambda>a. Some (ae_device a))
    | _ \<Rightarrow> None)"

definition alert_queryset_for_user :: "db \<Rightarrow> user option \<Rightarrow> alert_event list" where
  "alert_queryset_for_user d u = filter_queryset_for_user d u None alert_fields (order_by (\<lambda>a. - ae_triggered_at a) (alert_events d))"

definition summary_view :: "env \<Rightarrow> (string \<Rightarrow> zone option) \<Rightarrow> db \<Rightarrow> user \<Rightarrow> dashboard" where
  "summary_view e zone_info d u =
     (let qs = alert_queryset_for_user d (Some u) in build_dashboard_payload e (summary_timezone_for_queryset zone_info d qs) d qs)"

definition active_by_severity_view :: "db \<Rightarrow> user \<Rightarrow> (string \<times> nat) list" where
  "active_by_severity_view d u = build_active_by_severity (alert_queryset_for_user d (Some u))"

definition top_devices_view :: "db \<Rightarrow> user \<Rightarrow> top_device list" where
  "top_devices_view d u = build_top_devices d 10 (alert_queryset_for_user d (Some u))"

definition recent_view :: "db \<Rightarrow> user \<Rightarrow> alert_event list" where
  "recent_view d u = build_recent_alerts 20 (alert_queryset_for_user d (Some u))"

text \<open>The comment of a request: trimmed, at most 2000 characters. \<open>None\<close> as the answer is 404.\<close>

definition valid_comment :: "string option \<Rightarrow> exn + string option" where
  "valid_comment c = (case c of
      None \<Rightarrow> Inr None
    | Some s \<Rightarrow> if length (strip s) > 2000
        then Inl (ValidationError [(''comment'', [''Ensure this field has no more than 2000 characters.''])])
        else Inr (Some (strip s)))"

definition audit_alert ::
    "env \<Rightarrow> (string \<Rightarrow> bool) \<Rightarrow> web_request \<Rightarrow> string \<Rightarrow> alert_event \<Rightarrow> string option \<Rightarrow> db \<Rightarrow> (exn + alert_event option) \<times> db" where
  "audit_alert e inet req action a comment d =
     (case write_audit inet e (Some req) action (Some ''AlertEvent'') (Some (ae_id a)) None None comment (Some (ae_organization a)) (wr_user req) d of
        (Inl x, d') \<Rightarrow> (Inl x, d')
      | (Inr _, d') \<Rightarrow> (Inr (Some a), d'))"

definition acknowledge_view ::
    "env \<Rightarrow> (string \<Rightarrow> bool) \<Rightarrow> web_request \<Rightarrow> user \<Rightarrow> uuid \<Rightarrow> string option \<Rightarrow> db \<Rightarrow> (exn + alert_event option) \<times> db" where
  "acknowledge_view e inet req u k comment d =
     (case find (\<lambda>a. ae_id a = k) (alert_queryset_for_user d (Some u)) of
        None \<Rightarrow> (Inr None, d)
      | Some a \<Rightarrow> (case valid_comment comment of
          Inl x \<Rightarrow> (Inl x, d)
        | Inr c \<Rightarrow> (let (a', d1) = acknowledge_alert e d a (usr_id u) c in audit_alert e inet req ''ALERT_ACKNOWLEDGED'' a' c d1)))"

definition resolve_view ::
    "env \<Rightarrow> (string \<Rightarrow> bool) \<Rightarrow> (string \<Rightarrow> bool) \<Rightarrow> web_request \<Rightarrow> user \<Rightarrow> uuid \<Rightarrow> string option \<Rightarrow> db \<Rightarrow> (exn + alert_event option) \<times> db" where
  "resolve_view e raced inet req u k comment d =
     (case find (\<lambda>a. ae_id a = k) (alert_queryset_for_user d (Some u)) of
        None \<Rightarrow> (Inr None, d)
      | Some a \<Rightarrow> (case valid_comment comment of
          Inl x \<Rightarrow> (Inl x, d)
        | Inr c \<Rightarrow> (case manually_resolve_alert e raced d a (usr_id u) c of
            (Inl x, d1) \<Rightarrow> (Inl x, d1)
          | (Inr a', d1) \<Rightarrow> audit_alert e inet req ''ALERT_RESOLVED'' a' c d1)))"

end
