(* ===== verification/Alert_Summary_Props.thy ===== *)
theory Alert_Summary_Props
  imports Alert_Summary Alert_Invariants
begin

text \<open>The figures of the dashboard agree with each other; what a request to acknowledge an alert does to the row and to the trail.\<close>

subsection \<open>The counts agree\<close>

lemma sum_groups: "(\<Sum>x \<leftarrow> group_counts key qs. snd x) = length qs"
proof -
  have "(\<Sum>x \<leftarrow> group_counts key qs. snd x) = (\<Sum>k \<leftarrow> sort (remdups (map key qs)). length (filter (\<lambda>a. key a = k) qs))"
    by (simp add: group_counts_def o_def)
  also have "\<dots> = (\<Sum>k \<in> set (map key qs). length (filter (\<lambda>a. key a = k) qs))"
    by (subst sum_list_distinct_conv_sum_set) simp_all
  also have "\<dots> = length qs"
  proof (induction qs)
    case (Cons a qs)
    have "(\<Sum>k \<in> insert (key a) (key ` set qs). length (filter (\<lambda>x. key x = k) (a # qs)))
        = (\<Sum>k \<in> insert (key a) (key ` set qs). (if k = key a then 1 else 0) + length (filter (\<lambda>x. key x = k) qs))"
      by (rule sum.cong) auto
    also have "\<dots> = 1 + (\<Sum>k \<in> insert (key a) (key ` set qs). length (filter (\<lambda>x. key x = k) qs))"
      by (simp add: sum.distrib)
    also have "(\<Sum>k \<in> insert (key a) (key ` set qs). length (filter (\<lambda>x. key x = k) qs)) = (\<Sum>k \<in> key ` set qs. length (filter (\<lambda>x. key x = k) qs))"
      by (rule sum.mono_neutral_right) (auto simp: filter_empty_conv)
    finally show ?case using Cons by simp
  qed simp
  finally show ?thesis .
qed

lemma group_lookup: "map_of (group_counts key qs) k = (if k \<in> key ` set qs then Some (length (filter (\<lambda>a. key a = k) qs)) else None)"
  by (simp add: group_counts_def map_of_map_restrict restrict_map_def)

definition counted :: "('k \<times> nat) list \<Rightarrow> 'k \<Rightarrow> nat" where
  "counted g k = (case map_of g k of None \<Rightarrow> 0 | Some n \<Rightarrow> n)"

lemma counted_groups [simp]: "counted (group_counts key qs) k = length (filter (\<lambda>a. key a = k) qs)"
  by (auto simp: counted_def group_lookup filter_empty_conv image_iff)

lemma status_value_inject [simp]: "status_value a = status_value b \<longleftrightarrow> a = b"
  by (cases a; cases b) auto

lemma severity_value_inject [simp]: "severity_value a = severity_value b \<longleftrightarrow> a = b"
  by (cases a; cases b) auto

lemma active_split: "length (active_queryset qs) = count_where (\<lambda>a. ae_status a = OPEN) qs + count_where (\<lambda>a. ae_status a = ACKNOWLEDGED) qs"
  by (induction qs) (auto simp: active_queryset_def count_where_def)

lemma critical_split: "count_where (\<lambda>a. ae_severity a = CRITICAL) (active_queryset qs)
    = count_where (\<lambda>a. ae_status a = OPEN \<and> ae_severity a = CRITICAL) qs + count_where (\<lambda>a. ae_status a = ACKNOWLEDGED \<and> ae_severity a = CRITICAL) qs"
  by (induction qs) (auto simp: active_queryset_def count_where_def)


subsection \<open>Requests\<close>

text \<open>Acknowledging an alert that is no longer open changes nothing, and the audit trail says all the same that the user has
  acknowledged it; an alert the user may not see is not found, and then nothing is written at all.\<close>

theorem acknowledge_audited_anyway:
  assumes "find (\<lambda>a. ae_id a = k) (alert_queryset_for_user d (Some u)) = r" and "client_ip req = []"
    and "valid_comment comment = Inr c"
  shows "(r = None \<longrightarrow> acknowledge_view e inet req u k comment d = (Inr None, d))
    \<and> (\<forall>a. r = Some a \<and> ae_status a \<noteq> OPEN \<longrightarrow> (\<exists>l. acknowledge_view e inet req u k comment d = (Inr (Some a), d\<lparr>audit_logs := audit_logs d @ [l]\<rparr>)
         \<and> au_action l = ''ALERT_ACKNOWLEDGED'' \<and> au_resource_id l = Some (str_nat k) \<and> au_message l = c))
    \<and> (\<forall>a. r = Some a \<and> ae_status a = OPEN \<longrightarrow> (\<exists>a' d'. acknowledge_view e inet req u k comment d = (Inr (Some a'), d')
         \<and> ae_status a' = ACKNOWLEDGED \<and> ae_acknowledged_by a' = Some (usr_id u) \<and> length (audit_logs d') = Suc (length (audit_logs d))
         \<and> alert_of d' k = map_option (\<lambda>row. row\<lparr>ae_status := ACKNOWLEDGED, ae_acknowledged_by := Some (usr_id u), ae_acknowledged_at := Some (now e),
              ae_acknowledge_comment := or_else c (ae_acknowledge_comment a)\<rparr>) (alert_of d k)))"
proof -
  have key: "ae_id a = k" if "r = Some a" for a using assms(1) that by (auto simp: find_Some_iff)
  have frames: "alert_of (create_alert_log x act os ns actor m snap md d') j = alert_of d' j" "alert_of (add_comment x v s d') j = alert_of d' j"
    "audit_logs (create_alert_log x act os ns actor m snap md d') = audit_logs d'" "audit_logs (add_comment x v s d') = audit_logs d'"
    "audit_logs (save_alert k f d') = audit_logs d'" "alert_of (d'\<lparr>audit_logs := ls\<rparr>) j = alert_of d' j"
    for x act os ns actor m snap md d' j v s f ls
    by (simp_all add: alert_of_def create_alert_log_def add_comment_def save_alert_def)
  have audit: "audit_alert e inet req act a m d' = (Inr (Some a), d'\<lparr>audit_logs := audit_logs d' @
      [audit_row e (Some req) act (Some ''AlertEvent'') (Some (ae_id a)) None None m (Some (ae_organization a)) (wr_user req)]\<rparr>)" for act a m d'
    using assms(2) by (simp add: audit_alert_def write_audit_def audit_row_def Let_def)
  show ?thesis
  proof (intro conjI allI impI)
    assume "r = None"
    then show "acknowledge_view e inet req u k comment d = (Inr None, d)" using assms(1) by (simp add: acknowledge_view_def)
  next
    fix a assume a: "r = Some a \<and> ae_status a \<noteq> OPEN"
    then show "\<exists>l. acknowledge_view e inet req u k comment d = (Inr (Some a), d\<lparr>audit_logs := audit_logs d @ [l]\<rparr>)
        \<and> au_action l = ''ALERT_ACKNOWLEDGED'' \<and> au_resource_id l = Some (str_nat k) \<and> au_message l = c"
      using assms(1,3) key by (auto simp: acknowledge_view_def acknowledge_alert_def audit audit_row_def Let_def)
  next
    fix a assume a: "r = Some a \<and> ae_status a = OPEN"
    then show "\<exists>a' d'. acknowledge_view e inet req u k comment d = (Inr (Some a'), d') \<and> ae_status a' = ACKNOWLEDGED
        \<and> ae_acknowledged_by a' = Some (usr_id u) \<and> length (audit_logs d') = Suc (length (audit_logs d))
        \<and> alert_of d' k = map_option (\<lambda>row. row\<lparr>ae_status := ACKNOWLEDGED, ae_acknowledged_by := Some (usr_id u), ae_acknowledged_at := Some (now e),
             ae_acknowledge_comment := or_else c (ae_acknowledge_comment a)\<rparr>) (alert_of d k)"
      using assms(1,3) key by (simp add: acknowledge_view_def acknowledge_alert_def audit Let_def frames alert_of_save)
  qed
qed

text \<open>An alert that was resolved before the request came.\<close>

definition settled_alert :: alert_event where
  "settled_alert = blank_event\<lparr>ae_id := 1, ae_status := RESOLVED\<rparr>"

definition settled_example :: db where
  "settled_example = empty_db\<lparr>alert_events := [settled_alert]\<rparr>"

lemma acknowledge_audited_anyway_witness:
  "\<exists>l. acknowledge_view (plain_env 9) (\<lambda>_. True) \<lparr>wr_user = Some 1, wr_forwarded_for = None, wr_remote_addr = None, wr_user_agent = None\<rparr>
      (blank_user\<lparr>usr_id := 1, usr_is_superuser := True\<rparr>) 1 None settled_example = (Inr (Some settled_alert), settled_example\<lparr>audit_logs := [l]\<rparr>)
    \<and> au_action l = ''ALERT_ACKNOWLEDGED''"
proof -
  let ?u = "blank_user\<lparr>usr_id := 1, usr_is_superuser := True\<rparr>"
  let ?r = "\<lparr>wr_user = Some 1, wr_forwarded_for = None, wr_remote_addr = None, wr_user_agent = None\<rparr> :: web_request"
  have "alert_queryset_for_user settled_example (Some ?u) = [settled_alert]"
    by (simp add: alert_queryset_for_user_def filter_queryset_for_user_def filter_by_scope_def get_access_scope_def blank_scope_def settled_example_def)
  then have found: "find (\<lambda>a. ae_id a = 1) (alert_queryset_for_user settled_example (Some ?u)) = Some settled_alert"
    by (simp add: settled_alert_def)
  have "client_ip ?r = []" "valid_comment None = Inr None" by (simp_all add: client_ip_def before_comma_def valid_comment_def)
  from acknowledge_audited_anyway [OF found this, of "plain_env 9" "\<lambda>_. True"] show ?thesis
    by (auto simp: settled_alert_def settled_example_def empty_db_def)
qed

end
