(* ===== verification/Report_Api.thy ===== *)
theory Report_Api
  imports Report_Jobs Report_Schedules Access_Scope
begin

text \<open>
  What the requests of the report API are checked for and do to the rows (\<open>apps/reports/serializers.py\<close>, and the template's
  \<open>clean\<close> in \<open>models.py\<close>). The attributes of a request are records of options: a field that was not sent is \<open>None\<close>. What
  the framework checks field by field before \<open>validate\<close> runs is left to it. A refusal is the \<open>ValidationError\<close> of the field.
\<close>

definition refuse :: "string \<Rightarrow> string \<Rightarrow> exn + 'a" where
  "refuse field message = Inl (ValidationError [(field, [message])])"

definition user_can_access_organization :: "db \<Rightarrow> user option \<Rightarrow> uuid \<Rightarrow> bool" where
  "user_can_access_organization d u k = (case u of
      None \<Rightarrow> False
    | Some x \<Rightarrow> usr_is_superuser x \<or> global_access (get_access_scope d u) \<or> k \<in> organization_ids (get_access_scope d u))"

definition user_can_access_data_center :: "db \<Rightarrow> user option \<Rightarrow> uuid \<Rightarrow> bool" where
  "user_can_access_data_center d u k = (case u of
      None \<Rightarrow> False
    | Some x \<Rightarrow> usr_is_superuser x \<or> global_access (get_access_scope d u) \<or> k \<in> data_center_ids (get_access_scope d u))"

subsection \<open>Times of day\<close>

text \<open>\<open>strptime\<close> for the formats of the code: numbers of one or two digits, a number out of its range fails the format.\<close>

definition clock_number :: "nat \<Rightarrow> nat \<Rightarrow> string \<Rightarrow> nat option" where
  "clock_number lo hi s =
     (if s \<noteq> [] \<and> length s \<le> 2 \<and> list_all is_digit s \<and> lo \<le> nat_of_digits s \<and> nat_of_digits s \<le> hi then Some (nat_of_digits s) else None)"

definition clock_time :: "nat \<Rightarrow> nat \<Rightarrow> nat \<Rightarrow> time" where
  "clock_time h m s = seconds (int h * 3600 + int m * 60 + int s)"

definition parse_clock :: "nat \<Rightarrow> nat \<Rightarrow> (nat \<Rightarrow> nat) \<Rightarrow> string \<Rightarrow> time option" where
  "parse_clock lo hi hour s = (case split_at CHR '':'' s of
      [h, m, sec] \<Rightarrow> (case (clock_number lo hi h, clock_number 0 59 m, clock_number 0 59 sec) of
        (Some a, Some b, Some c) \<Rightarrow> Some (clock_time (hour a) b c) | _ \<Rightarrow> None)
    | [h, m] \<Rightarrow> (case (clock_number lo hi h, clock_number 0 59 m) of
        (Some a, Some b) \<Rightarrow> Some (clock_time (hour a) b 0) | _ \<Rightarrow> None)
    | _ \<Rightarrow> None)"

definition half_day_hour :: "bool \<Rightarrow> nat \<Rightarrow> nat" where
  "half_day_hour pm h = (if pm then (if h = 12 then 12 else h + 12) else if h = 12 then 0 else h)"

definition parse_half_day :: "string \<Rightarrow> time option" where
  "parse_half_day s =
     (let n = length s - 2; mark = lower (drop n s); body = take n s; trimmed = rev (dropWhile is_space (rev body)) in
      if length s < 2 \<or> trimmed = body \<or> (mark \<noteq> ''am'' \<and> mark \<noteq> ''pm'') then None
      else parse_clock 1 12 (half_day_hour (mark = ''pm'')) trimmed)"

datatype delivery_value = TimeText string | TimeOfDay time

definition normalize_delivery_time :: "delivery_value option \<Rightarrow> time option" where
  "normalize_delivery_time v = (case v of
      None \<Rightarrow> None
    | Some (TimeOfDay t) \<Rightarrow> Some t
    | Some (TimeText s) \<Rightarrow>
       (let candidate = strip s in
        if candidate = [] then None
        else case parse_clock 0 23 id candidate of Some t \<Rightarrow> Some t | None \<Rightarrow> parse_half_day candidate))"

subsection \<open>Templates\<close>

definition template_report_type :: "report_template \<Rightarrow> py" where
  "template_report_type t = (case rt_config t of PDict kvs \<Rightarrow> (case dict_get kvs ''report_type'' of Some v \<Rightarrow> v | None \<Rightarrow> PNone) | _ \<Rightarrow> PNone)"

definition template_config_errors :: "py \<Rightarrow> error_lists" where
  "template_config_errors config = (case config of
      PDict kvs \<Rightarrow> (if (case dict_get kvs ''report_type'' of Some v \<Rightarrow> truthy v | None \<Rightarrow> False) then []
        else [(''config'', [''Config must include report_type.''])])
    | _ \<Rightarrow> [(''config'', [''Config must be a dictionary/object.''])])"

definition same_template :: "report_template \<Rightarrow> report_template \<Rightarrow> bool" where
  "same_template t r = (rt_organization r = rt_organization t \<and> rt_code r = rt_code t \<and> rt_id r \<noteq> rt_id t)"

definition text_errors :: "string \<Rightarrow> nat \<Rightarrow> string \<Rightarrow> error_lists" where
  "text_errors field limit v = (if v = [] then [(field, [''This field cannot be blank.''])]
     else if length v > limit then [(field, [''Ensure this value has at most '' @ str_nat limit @ '' characters.''])] else [])"

definition clean_template :: "db \<Rightarrow> report_template \<Rightarrow> error_lists" where
  "clean_template d t =
     (if rt_name t = [] then [(''name'', [''Name is required.''])] else [])
     @ (if rt_code t = [] then [(''code'', [''Code is required.''])] else [])
     @ template_config_errors (rt_config t)
     @ (if rt_is_active t \<and> rt_code t \<noteq> [] \<and> list_ex (\<lambda>r. same_template t r \<and> rt_is_active r) (report_templates d)
        then [(''__all__'', [''An active report template with the same organization and code already exists.''])] else [])"

definition full_clean_template :: "db \<Rightarrow> report_template \<Rightarrow> exn + unit" where
  "full_clean_template d t = raise_errors
     ((if tbl_get org_id (rt_organization t) (organizations d) = None then [(''organization'', [''organization instance does not exist.''])] else [])
      @ text_errors ''name'' 255 (rt_name t) @ text_errors ''code'' 100 (rt_code t) @ clean_template d t
      @ (if list_ex (same_template t) (report_templates d)
         then [(''__all__'', [''Report template with this Organization and Code already exists.''])] else []))"

definition save_template :: "report_template \<Rightarrow> db \<Rightarrow> (exn + report_template) \<times> db" where
  "save_template t d = (case full_clean_template d t of
      Inl x \<Rightarrow> (Inl x, d)
    | Inr _ \<Rightarrow> (Inr t, d\<lparr>report_templates := tbl_put rt_id t (report_templates d)\<rparr>))"

text \<open>\<open>validate\<close>: the organization and the config after the request, sent or kept.\<close>

definition validate_template :: "db \<Rightarrow> user option \<Rightarrow> uuid \<Rightarrow> py \<Rightarrow> exn + unit" where
  "validate_template d u organization config =
     (if \<not> user_can_access_organization d u organization then refuse ''organization'' ''You do not have access to this organization.''
      else raise_errors (template_config_errors config))"

subsection \<open>Jobs\<close>

record job_attrs =
  ja_organization :: "uuid option"
  ja_data_center :: "uuid option option"
  ja_template :: "uuid option option"
  ja_parameters :: "py option"

definition sent_ref :: "uuid option option \<Rightarrow> uuid option" where
  "sent_ref v = (case v of None \<Rightarrow> None | Some k \<Rightarrow> k)"

definition validate_job_create :: "db \<Rightarrow> user option \<Rightarrow> uuid \<Rightarrow> job_attrs \<Rightarrow> exn + unit" where
  "validate_job_create d u organization a =
     (let parameters = (case ja_parameters a of None \<Rightarrow> PDict [] | Some v \<Rightarrow> if truthy v then v else PDict []);
          template = Option.bind (sent_ref (ja_template a)) (\<lambda>k. tbl_get rt_id k (report_templates d));
          kvs = dict_or_empty parameters;
          own = (case dict_get kvs ''report_type'' of Some v \<Rightarrow> v | None \<Rightarrow> PNone);
          theirs = (case template of Some t \<Rightarrow> template_report_type t | None \<Rightarrow> PNone) in
      if \<not> is_dict parameters then refuse ''parameters'' ''Parameters must be a dictionary/object.''
      else if \<not> user_can_access_organization d u organization then refuse ''organization'' ''You do not have access to this organization.''
      else if (case sent_ref (ja_data_center a) of None \<Rightarrow> False | Some k \<Rightarrow> \<not> user_can_access_data_center d u k)
      then refuse ''data_center'' ''You do not have access to this data center.''
      else if (case template of None \<Rightarrow> False | Some t \<Rightarrow> rt_organization t \<noteq> organization)
      then refuse ''template'' ''Template must belong to the selected organization.''
      else if truthy theirs \<and> truthy own \<and> \<not> py_eq own theirs
      then refuse ''parameters'' ''Parameters report_type must match the selected template.''
      else if \<not> truthy theirs \<and> \<not> truthy own
      then refuse ''template'' ''A report_type must be provided through the template config or parameters.''
      else Inr ())"

definition new_job :: "env \<Rightarrow> db \<Rightarrow> user \<Rightarrow> uuid \<Rightarrow> job_attrs \<Rightarrow> report_job" where
  "new_job e d u organization a =
     \<lparr>rj_id = fresh_key rj_id (report_jobs d), rj_created_at = now e, rj_organization = organization,
      rj_data_center = sent_ref (ja_data_center a), rj_template = sent_ref (ja_template a), rj_requested_by = Some (usr_id u),
      rj_status = JOB_PENDING, rj_parameters = (case ja_parameters a of None \<Rightarrow> PDict [] | Some v \<Rightarrow> v), rj_file = None,
      rj_started_at = None, rj_completed_at = None, rj_error_message = None\<rparr>"

definition create_job_request :: "env \<Rightarrow> user \<Rightarrow> job_attrs \<Rightarrow> db \<Rightarrow> (exn + report_job) \<times> db" where
  "create_job_request e u a d = (case ja_organization a of
      None \<Rightarrow> (refuse ''organization'' ''This field is required.'', d)
    | Some organization \<Rightarrow> (case validate_job_create d (Some u) organization a of
        Inl x \<Rightarrow> (Inl x, d)
      | Inr _ \<Rightarrow> create_job (new_job e d u organization a) d))"

definition edit_job :: "job_attrs \<Rightarrow> report_job \<Rightarrow> report_job" where
  "edit_job a j = j\<lparr>rj_organization := (case ja_organization a of None \<Rightarrow> rj_organization j | Some k \<Rightarrow> k),
     rj_data_center := (case ja_data_center a of None \<Rightarrow> rj_data_center j | Some k \<Rightarrow> k),
     rj_template := (case ja_template a of None \<Rightarrow> rj_template j | Some k \<Rightarrow> k),
     rj_parameters := (case ja_parameters a of None \<Rightarrow> rj_parameters j | Some v \<Rightarrow> v)\<rparr>"

text \<open>Changing and saving again: the serializer of an update has no \<open>validate\<close> of its own.\<close>

definition update_job_request :: "report_job \<Rightarrow> job_attrs \<Rightarrow> db \<Rightarrow> (exn + report_job) \<times> db" where
  "update_job_request j a d =
     (let changed = (case ja_parameters a of None \<Rightarrow> False | Some v \<Rightarrow> \<not> py_eq v (rj_parameters j)) in
      if changed \<and> rj_status j = JOB_PROCESSING then (refuse ''parameters'' ''Processing report jobs cannot be edited.'', d)
      else (let j1 = (if changed then j\<lparr>rj_file := None\<rparr> else j);
                j2 = (if changed \<and> terminal_status (rj_status j1)
                      then j1\<lparr>rj_status := JOB_PENDING, rj_started_at := None, rj_completed_at := None, rj_error_message := Some []\<rparr> else j1)
            in save_job (\<lambda>x _. x) (edit_job a j2) d))"

subsection \<open>Schedules\<close>

record schedule_attrs =
  sa_organization :: "uuid option"
  sa_data_center :: "uuid option option"
  sa_name :: "string option"
  sa_report_type :: "string option"
  sa_frequency :: "string option"
  sa_output_format :: "string option"
  sa_delivery_time :: "delivery_value option"
  sa_parameters :: "py option"
  sa_recipients :: "py option"
  sa_send_sms :: "bool option"
  sa_sms_recipients :: "py option"
  sa_attach_raw_data :: "bool option"
  sa_is_active :: "bool option"

text \<open>\<open>attrs.get(field, getattr(instance, field, default))\<close>\<close>

definition sent_or :: "'a option \<Rightarrow> 'b option \<Rightarrow> ('b \<Rightarrow> 'a) \<Rightarrow> 'a \<Rightarrow> 'a" where
  "sent_or v s f missing = (case v of Some x \<Rightarrow> x | None \<Rightarrow> (case s of Some r \<Rightarrow> f r | None \<Rightarrow> missing))"

definition emails_of :: "env \<Rightarrow> py list \<Rightarrow> string list" where
  "emails_of e vs = first_of_each (filter (\<lambda>c. c \<noteq> []) (map (\<lambda>r. lower (strip (py_str e r))) vs))"

text \<open>The addresses of a request; the first bad one is named.\<close>

definition validate_recipients :: "env \<Rightarrow> py \<Rightarrow> bool \<Rightarrow> string list \<Rightarrow> exn + string list" where
  "validate_recipients e recipients send_sms phones = (case recipients of
      PList vs \<Rightarrow> (case find (\<lambda>c. \<not> valid_recipient c) (filter (\<lambda>c. c \<noteq> []) (map (\<lambda>r. lower (strip (py_str e r))) vs)) of
        Some c \<Rightarrow> refuse ''recipients'' (''Invalid recipient email: '' @ c)
      | None \<Rightarrow> if emails_of e vs = [] \<and> \<not> (send_sms \<and> phones \<noteq> []) then refuse ''recipients'' ''At least one recipient email is required.''
          else Inr (emails_of e vs))
    | _ \<Rightarrow> refuse ''recipients'' ''Recipients must be a list of email addresses.'')"

definition schedule_access_errors :: "db \<Rightarrow> user option \<Rightarrow> report_schedule option \<Rightarrow> schedule_attrs \<Rightarrow> exn + unit" where
  "schedule_access_errors d u s a =
     (if (case sent_or (map_option Some (sa_organization a)) s (\<lambda>r. Some (rs_organization r)) None of
            None \<Rightarrow> False | Some k \<Rightarrow> \<not> user_can_access_organization d u k)
      then refuse ''organization'' ''You do not have access to this organization.''
      else if (case sent_or (sa_data_center a) s rs_data_center None of None \<Rightarrow> False | Some k \<Rightarrow> \<not> user_can_access_data_center d u k)
      then refuse ''data_center'' ''You do not have access to this data center.''
      else Inr ())"

text \<open>A text that was not sent is the empty text, which no vocabulary has.\<close>

definition validate_schedule :: "env \<Rightarrow> db \<Rightarrow> user option \<Rightarrow> report_schedule option \<Rightarrow> schedule_attrs \<Rightarrow> exn + schedule_attrs" where
  "validate_schedule e d u s a = (case schedule_access_errors d u s a of
      Inl x \<Rightarrow> Inl x
    | Inr _ \<Rightarrow> (case normalize_report_type (sent_or (sa_report_type a) s rs_report_type []) of
        None \<Rightarrow> refuse ''report_type'' ''Unsupported report type.''
      | Some t \<Rightarrow> (case normalize_report_frequency (sent_or (sa_frequency a) s rs_frequency []) of
          None \<Rightarrow> refuse ''frequency'' ''Unsupported frequency.''
        | Some f \<Rightarrow> (case normalize_report_format (sent_or (sa_output_format a) s rs_output_format []) of
            None \<Rightarrow> refuse ''output_format'' ''Unsupported report format.''
          | Some fm \<Rightarrow> (case normalize_delivery_time (sent_or (map_option Some (sa_delivery_time a)) s (\<lambda>r. Some (TimeOfDay (rs_delivery_time r))) None) of
              None \<Rightarrow> refuse ''delivery_time'' ''Unsupported delivery time. Use HH:MM, HH:MM:SS, or a 12-hour time like 06:00 AM.''
            | Some t_of_day \<Rightarrow>
               (let parameters = sent_or (sa_parameters a) s rs_parameters (PDict []);
                    send_sms = sent_or (sa_send_sms a) s rs_send_sms False;
                    numbers = sent_or (sa_sms_recipients a) s rs_sms_recipients (PList []) in
                if \<not> is_dict parameters then refuse ''parameters'' ''Parameters must be a JSON object.''
                else if \<not> is_list numbers then refuse ''sms_recipients'' ''SMS recipients must be a list.''
                else (let phones = stripped_texts e (list_or_empty numbers) in
                  if send_sms \<and> phones = [] then refuse ''sms_recipients'' ''At least one SMS recipient is required when SMS is enabled.''
                  else (case validate_recipients e (sent_or (sa_recipients a) s rs_recipients (PList [])) send_sms phones of
                    Inl x \<Rightarrow> Inl x
                  | Inr emails \<Rightarrow> Inr (a\<lparr>sa_report_type := Some t, sa_frequency := Some f, sa_output_format := Some fm,
                      sa_delivery_time := Some (TimeOfDay t_of_day), sa_parameters := Some parameters, sa_send_sms := Some send_sms,
                      sa_sms_recipients := Some (PList (map PStr phones)), sa_recipients := Some (PList (map PStr emails))\<rparr>)))))))))"

definition edit_schedule :: "schedule_attrs \<Rightarrow> report_schedule \<Rightarrow> report_schedule" where
  "edit_schedule a s =
     s\<lparr>rs_organization := (case sa_organization a of None \<Rightarrow> rs_organization s | Some k \<Rightarrow> k),
       rs_data_center := (case sa_data_center a of None \<Rightarrow> rs_data_center s | Some k \<Rightarrow> k),
       rs_name := (case sa_name a of None \<Rightarrow> rs_name s | Some v \<Rightarrow> v),
       rs_report_type := (case sa_report_type a of None \<Rightarrow> rs_report_type s | Some v \<Rightarrow> v),
       rs_frequency := (case sa_frequency a of None \<Rightarrow> rs_frequency s | Some v \<Rightarrow> v),
       rs_output_format := (case sa_output_format a of None \<Rightarrow> rs_output_format s | Some v \<Rightarrow> v),
       rs_delivery_time := (case sa_delivery_time a of Some (TimeOfDay t) \<Rightarrow> t | _ \<Rightarrow> rs_delivery_time s),
       rs_parameters := (case sa_parameters a of None \<Rightarrow> rs_parameters s | Some v \<Rightarrow> v),
       rs_recipients := (case sa_recipients a of None \<Rightarrow> rs_recipients s | Some v \<Rightarrow> v),
       rs_send_sms := (case sa_send_sms a of None \<Rightarrow> rs_send_sms s | Some v \<Rightarrow> v),
       rs_sms_recipients := (case sa_sms_recipients a of None \<Rightarrow> rs_sms_recipients s | Some v \<Rightarrow> v),
       rs_attach_raw_data := (case sa_attach_raw_data a of None \<Rightarrow> rs_attach_raw_data s | Some v \<Rightarrow> v),
       rs_is_active := (case sa_is_active a of None \<Rightarrow> rs_is_active s | Some v \<Rightarrow> v)\<rparr>"

text \<open>A new object with the defaults of the model.\<close>

definition blank_schedule :: "env \<Rightarrow> db \<Rightarrow> user \<Rightarrow> uuid \<Rightarrow> report_schedule" where
  "blank_schedule e d u organization =
     \<lparr>rs_id = fresh_key rs_id (report_schedules d), rs_created_at = now e, rs_organization = organization, rs_data_center = None, rs_name = [],
      rs_report_type = [], rs_frequency = ''DAILY'', rs_delivery_time = clock_time 6 0 0, rs_output_format = ''PDF_CSV'', rs_parameters = PDict [],
      rs_recipients = PList [], rs_send_sms = False, rs_sms_recipients = PList [], rs_attach_raw_data = True, rs_is_active = True,
      rs_next_run_at = None, rs_last_run_at = None, rs_last_sent_at = None, rs_last_delivery_status = Some ''PENDING'',
      rs_last_error_message = None, rs_last_job = None, rs_created_by = Some (usr_id u)\<rparr>"

definition create_schedule_request :: "env \<Rightarrow> user \<Rightarrow> schedule_attrs \<Rightarrow> db \<Rightarrow> (exn + report_schedule) \<times> db" where
  "create_schedule_request e u a d = (case sa_organization a of
      None \<Rightarrow> (refuse ''organization'' ''This field is required.'', d)
    | Some organization \<Rightarrow> (case validate_schedule e d (Some u) None a of
        Inl x \<Rightarrow> (Inl x, d)
      | Inr a' \<Rightarrow> create_schedule e (edit_schedule a' (blank_schedule e d u organization)) d))"

text \<open>An update writes the whole object and names an author when there is none yet.\<close>

definition update_schedule_request :: "env \<Rightarrow> user \<Rightarrow> report_schedule \<Rightarrow> schedule_attrs \<Rightarrow> db \<Rightarrow> (exn + report_schedule) \<times> db" where
  "update_schedule_request e u s a d = (case validate_schedule e d (Some u) (Some s) a of
      Inl x \<Rightarrow> (Inl x, d)
    | Inr a' \<Rightarrow> save_schedule e (\<lambda>x _. x)
        (edit_schedule a' (s\<lparr>rs_created_by := (case rs_created_by s of None \<Rightarrow> Some (usr_id u) | Some k \<Rightarrow> Some k)\<rparr>)) d)"

definition recipient_count :: "env \<Rightarrow> report_schedule \<Rightarrow> nat" where
  "recipient_count e s =
     length (stripped_texts e (list_or_empty (rs_recipients s) @ (if rs_send_sms s then list_or_empty (rs_sms_recipients s) else [])))"

text \<open>\<open>duration_seconds\<close> of a job: up to now while it runs.\<close>

definition duration_seconds :: "env \<Rightarrow> report_job \<Rightarrow> int option" where
  "duration_seconds e j = (case rj_started_at j of
      None \<Rightarrow> None
    | Some s \<Rightarrow> Some (max 0 (((case rj_completed_at j of Some t \<Rightarrow> t | None \<Rightarrow> now e) - s) div 1000000)))"

end
