(* ===== verification/Report_Clock.thy ===== *)
theory Report_Clock
  imports Report_Api
begin

text \<open>Times of day: what the API shows of a delivery time, and the 12-hour form its error message offers, are read back.\<close>

definition two_digits :: "nat \<Rightarrow> string" where
  "two_digits n = [digit_char (n div 10), digit_char (n mod 10)]"

text \<open>\<open>str(time)\<close> for whole seconds and \<open>%I:%M %p\<close>, of the seconds and of the minutes of a day.\<close>

definition clock_text :: "nat \<Rightarrow> string" where
  "clock_text t = two_digits (t div 3600) @ '':'' @ two_digits (t mod 3600 div 60) @ '':'' @ two_digits (t mod 60)"

definition half_day_text :: "nat \<Rightarrow> string" where
  "half_day_text m =
     (let h = m div 60; twelve = (if h mod 12 = 0 then 12 else h mod 12) in
      two_digits twelve @ '':'' @ two_digits (m mod 60) @ (if 12 \<le> h then '' PM'' else '' AM''))"

lemma two_digits_number [simp]: "n < 100 \<Longrightarrow> nat_of_digits (two_digits n) = n"
  by (simp add: two_digits_def nat_of_digits_def of_digit_char)

lemma two_digits_clock: "n < 100 \<Longrightarrow> lo \<le> n \<Longrightarrow> n \<le> hi \<Longrightarrow> clock_number lo hi (two_digits n) = Some n"
  using two_digits_number [of n] by (simp add: clock_number_def two_digits_def digit_char_is_digit)

lemma digits_two: "n < 100 \<Longrightarrow> c \<in> set (two_digits n) \<Longrightarrow> is_digit c"
  by (auto simp: two_digits_def digit_char_is_digit)

lemma colon_two_digits [simp]: "n < 100 \<Longrightarrow> CHR '':'' \<notin> set (two_digits n)"
  using digits_two colon_not_digit by blast

lemma split_at_none: "c \<notin> set xs \<Longrightarrow> split_at c xs = [xs]"
  by (induction xs) auto

lemma split_at_next: "c \<notin> set xs \<Longrightarrow> split_at c (xs @ c # ys) = xs # split_at c ys"
  by (induction xs) auto

lemma is_digit_not_space: "is_digit c \<Longrightarrow> \<not> is_space c"
  by (auto simp: is_digit_def is_space_def Let_def)

lemma strip_ends: "s \<noteq> [] \<Longrightarrow> \<not> is_space (hd s) \<Longrightarrow> \<not> is_space (last s) \<Longrightarrow> strip s = s"
proof -
  assume s: "s \<noteq> []" "\<not> is_space (hd s)" "\<not> is_space (last s)"
  have "dropWhile is_space s = s" using s by (cases s) auto
  moreover have "dropWhile is_space (rev s) = rev s" using s by (cases s rule: rev_cases) auto
  ultimately show ?thesis by (simp add: strip_def)
qed

lemma clock_text_read: "t < 86400 \<Longrightarrow> parse_clock 0 23 id (clock_text t) = Some (seconds (int t))"
proof -
  assume t: "t < 86400"
  then have b: "t div 3600 < 24" "t mod 3600 div 60 < 60" "t mod 60 < 60" by (simp_all add: less_mult_imp_div_less)
  have parts: "split_at CHR '':'' (clock_text t) = [two_digits (t div 3600), two_digits (t mod 3600 div 60), two_digits (t mod 60)]"
    using b by (simp add: clock_text_def split_at_next split_at_none)
  have "int (t div 3600) * 3600 + int (t mod 3600 div 60) * 60 + int (t mod 60) = int t"
  proof -
    have sixty: "(60::nat) dvd 3600" by simp
    have "t div 3600 * 3600 + t mod 3600 div 60 * 60 + t mod 60 = t"
      using div_mult_mod_eq [of t 3600] div_mult_mod_eq [of "t mod 3600" 60] mod_mod_cancel [OF sixty, of t] by linarith
    from arg_cong [OF this, of int] show ?thesis by (simp only: of_nat_add of_nat_mult of_nat_numeral)
  qed
  then show ?thesis using b by (simp add: parse_clock_def parts two_digits_clock clock_time_def)
qed

lemma clock_text_strip: "t < 86400 \<Longrightarrow> strip (clock_text t) = clock_text t"
proof (rule strip_ends)
  assume "t < 86400"
  then have "t div 3600 < 100" "t mod 60 < 100" by (simp_all add: less_mult_imp_div_less less_trans [OF mod_less_divisor])
  then show "\<not> is_space (hd (clock_text t))" "\<not> is_space (last (clock_text t))"
    by (simp_all add: clock_text_def two_digits_def is_digit_not_space digit_char_is_digit)
qed (simp add: clock_text_def two_digits_def)

lemma half_day_hours: "m < 1440 \<Longrightarrow> half_day_hour (12 \<le> m div 60) (if m div 60 mod 12 = 0 then 12 else m div 60 mod 12) = m div 60"
proof -
  assume "m < 1440"
  then have h: "m div 60 < 24" by (simp add: less_mult_imp_div_less)
  have "half_day_hour (12 \<le> h) (if h mod 12 = 0 then 12 else h mod 12) = h" if "h < 24" for h :: nat
  proof (cases "12 \<le> h")
    case True
    then have "h mod 12 = h - 12" using that by (simp add: le_mod_geq)
    then show ?thesis using True that by (auto simp: half_day_hour_def)
  next
    case False
    then show ?thesis by (simp add: half_day_hour_def)
  qed
  then show ?thesis using h by blast
qed

lemma half_day_read:
  assumes "m < 1440"
  shows "normalize_delivery_time (Some (TimeText (half_day_text m))) = Some (seconds (60 * int m))"
proof -
  define h where "h = (if m div 60 mod 12 = 0 then 12 else m div 60 mod 12)"
  have mark: "lower '' PM'' = '' pm''" "lower '' AM'' = '' am''" "lower ''PM'' = ''pm''" "lower ''AM'' = ''am''" by code_simp+
  define mk where "mk = (if 12 \<le> m div 60 then ''PM'' else ''AM'')"
  have b: "1 \<le> h" "h \<le> 12" "m mod 60 < 60" by (auto simp: h_def Suc_le_eq less_imp_le)
  have shape: "half_day_text m = two_digits h @ CHR '':'' # two_digits (m mod 60) @ '' '' @ mk"
    by (simp add: half_day_text_def h_def mk_def Let_def)
  have ends: "strip (half_day_text m) = half_day_text m"
  proof (rule strip_ends)
    show "\<not> is_space (hd (half_day_text m))" using b by (simp add: shape two_digits_def is_digit_not_space digit_char_is_digit)
    show "\<not> is_space (last (half_day_text m))" by (simp add: shape mk_def is_space_def)
  qed (simp add: shape two_digits_def)
  have "parse_clock 0 23 id (half_day_text m) = None"
  proof -
    have "CHR '':'' \<notin> set (two_digits (m mod 60) @ '' '' @ mk)" using b by (simp add: mk_def)
    then have "split_at CHR '':'' (half_day_text m) = [two_digits h, two_digits (m mod 60) @ '' '' @ mk]"
      using b by (simp add: shape split_at_next split_at_none)
    moreover have "clock_number 0 59 (two_digits (m mod 60) @ '' '' @ mk) = None" by (simp add: clock_number_def two_digits_def)
    ultimately show ?thesis by (simp add: parse_clock_def split: option.split)
  qed
  moreover have "parse_half_day (half_day_text m) = Some (seconds (60 * int m))"
  proof -
    have len: "length (half_day_text m) - 2 = 6" by (simp add: shape two_digits_def mk_def)
    have body: "take 6 (half_day_text m) = two_digits h @ CHR '':'' # two_digits (m mod 60) @ '' ''"
      "drop 6 (half_day_text m) = mk" by (simp_all add: shape two_digits_def mk_def)
    have trimmed: "rev (dropWhile is_space (rev (two_digits h @ CHR '':'' # two_digits (m mod 60) @ '' ''))) = two_digits h @ CHR '':'' # two_digits (m mod 60)"
      using b by (simp add: two_digits_def is_space_def is_digit_not_space [unfolded is_space_def] digit_char_is_digit)
    have parts: "split_at CHR '':'' (two_digits h @ CHR '':'' # two_digits (m mod 60)) = [two_digits h, two_digits (m mod 60)]"
      using b by (simp add: split_at_next split_at_none)
    have clock: "parse_clock 1 12 (half_day_hour (12 \<le> m div 60)) (two_digits h @ CHR '':'' # two_digits (m mod 60))
        = Some (clock_time (m div 60) (m mod 60) 0)"
      using b half_day_hours [OF assms] by (simp add: parse_clock_def parts two_digits_clock) (simp add: h_def)
    have "int (m div 60) * 3600 + int (m mod 60) * 60 = 60 * int m"
      using arg_cong [OF div_mult_mod_eq [of m 60], of int] unfolding of_nat_add of_nat_mult of_nat_numeral by linarith
    moreover have "(lower mk = ''pm'') = (12 \<le> m div 60)" "lower mk = ''am'' \<or> lower mk = ''pm''" by (simp_all add: mk_def mark)
    ultimately show ?thesis
      unfolding parse_half_day_def Let_def len body trimmed using clock by (auto simp: shape two_digits_def clock_time_def)
  qed
  ultimately show ?thesis by (simp add: normalize_delivery_time_def ends Let_def) (simp add: shape two_digits_def)
qed

text \<open>A delivery time is read back from the text the API shows for it, and from its 12-hour form.\<close>

theorem delivery_time_roundtrip:
  "(t < 86400 \<longrightarrow> normalize_delivery_time (Some (TimeText (clock_text t))) = Some (seconds (int t)))
   \<and> (m < 1440 \<longrightarrow> normalize_delivery_time (Some (TimeText (half_day_text m))) = Some (seconds (60 * int m)))"
  using half_day_read [of m] clock_text_read [of t] clock_text_strip [of t]
  by (auto simp: normalize_delivery_time_def Let_def clock_text_def two_digits_def)

lemma delivery_time_roundtrip_witness:
  "normalize_delivery_time (Some (TimeText (clock_text 21600))) = Some (seconds 21600)
   \<and> normalize_delivery_time (Some (TimeText (half_day_text 360))) = Some (seconds 21600)"
  using delivery_time_roundtrip [of 21600 360] by simp

end
