(* ===== verification/Report_Api_Props.thy ===== *)
theory Report_Api_Props
  imports Report_Clock Report_Job_Props Report_Schedule_Props Report_Delivery
begin

text \<open>What reaches the rows through the report API: a schedule that passes the checks of the request passes those of the model
  and is stored as checked; a job is created only within the access of the user; editing a job takes its result back.\<close>

subsection \<open>Texts that are normal already\<close>

lemma lower_space [simp]: "is_space (lower_char c) = is_space c"
  by (auto simp: lower_char_def is_space_def Let_def)

lemma lower_lower [simp]: "lower (lower s) = lower s"
  by (induction s) (auto simp: lower_def lower_char_def Let_def)

lemma dropWhile_lower: "dropWhile is_space (lower s) = lower (dropWhile is_space s)"
  by (induction s) (auto simp: lower_def)

lemma strip_lower: "strip (lower s) = lower (strip s)"
proof -
  have "rev (lower s) = lower (rev s)" for s by (simp add: lower_def rev_map)
  then show ?thesis by (simp add: strip_def dropWhile_lower)
qed

lemma dropWhile_last: "dropWhile P s \<noteq> [] \<Longrightarrow> last (dropWhile P s) = last s"
  by (induction s) auto

lemma strip_strip [simp]: "strip (strip s) = strip s"
proof (cases "strip s = []")
  case False
  define a where "a = dropWhile is_space s"
  define b where "b = dropWhile is_space (rev a)"
  have s: "strip s = rev b" by (simp add: strip_def a_def b_def)
  have b: "b \<noteq> []" using False s by simp
  have a: "a \<noteq> []" using b by (auto simp: b_def)
  have "\<not> is_space (hd b)" using b unfolding b_def by (rule hd_dropWhile)
  moreover have "last b = hd a" using dropWhile_last [of is_space "rev a"] b a unfolding b_def by (simp add: last_rev)
  moreover have "\<not> is_space (hd a)" using a unfolding a_def by (rule hd_dropWhile)
  ultimately show ?thesis unfolding s using b by (intro strip_ends) (simp_all add: hd_rev last_rev)
next
  case True
  then show ?thesis by (simp add: True) (simp add: strip_def)
qed

lemma emails_of_normal: "emails_of e (map PStr (emails_of e vs)) = emails_of e vs"
proof -
  have fix_point: "lower (strip c) = c" "c \<noteq> []" if "c \<in> set (emails_of e vs)" for c
    using that by (auto simp: emails_of_def strip_lower)
  have "map (\<lambda>r. lower (strip (py_str e r))) (map PStr (emails_of e vs)) = emails_of e vs"
    unfolding map_map by (rule map_idI) (use fix_point in \<open>auto simp: py_str_def\<close>)
  moreover have "filter (\<lambda>c. c \<noteq> []) (emails_of e vs) = emails_of e vs" using fix_point by (simp add: filter_id_conv)
  moreover have "first_of_each (emails_of e vs) = emails_of e vs" by (rule first_of_each_distinct) (simp add: emails_of_def)
  ultimately show ?thesis unfolding emails_of_def [of e "map PStr (emails_of e vs)"] by simp
qed

lemma stripped_texts_normal: "stripped_texts e (map PStr (stripped_texts e vs)) = stripped_texts e vs"
proof -
  have fix_point: "strip c = c" "c \<noteq> []" if "c \<in> set (stripped_texts e vs)" for c using that by (auto simp: stripped_texts_def)
  have "map (\<lambda>v. strip (py_str e v)) (map PStr (stripped_texts e vs)) = stripped_texts e vs"
    unfolding map_map by (rule map_idI) (use fix_point in \<open>auto simp: py_str_def\<close>)
  moreover have "filter (\<lambda>c. c \<noteq> []) (stripped_texts e vs) = stripped_texts e vs" using fix_point by (simp add: filter_id_conv)
  moreover have "first_of_each (stripped_texts e vs) = stripped_texts e vs" by (rule first_of_each_distinct) (simp add: stripped_texts_def)
  ultimately show ?thesis unfolding stripped_texts_def [of e "map PStr (stripped_texts e vs)"] by simp
qed

lemma supported_nonempty: "[] \<notin> set SUPPORTED_REPORT_TYPES" "[] \<notin> set (map fst FREQUENCY_LABELS)" "[] \<notin> set (map fst FORMAT_LABELS)"
  by (simp_all add: SUPPORTED_REPORT_TYPES_def REPORT_TYPE_LABELS_def FREQUENCY_LABELS_def FORMAT_LABELS_def)

lemma frequencies_stay:
  assumes "normalize_report_frequency v = Some f"
  shows "f \<in> set (map fst FREQUENCY_LABELS) \<and> normalize_report_frequency f = Some f"
proof -
  have a: "list_all (\<lambda>kv. snd kv \<in> set (map fst FREQUENCY_LABELS)) FREQUENCY_ALIASES" by code_simp
  have n: "list_all (\<lambda>x. normalize_report_frequency x = Some x) (map fst FREQUENCY_LABELS)" by code_simp
  have al: "f \<in> set (map fst FREQUENCY_LABELS)" if "map_of FREQUENCY_ALIASES k = Some f" for k
    using map_of_SomeD [OF that] a unfolding list_all_iff by (metis snd_conv)
  have "f \<in> set (map fst FREQUENCY_LABELS)"
    using assms al by (auto simp: normalize_report_frequency_def Let_def simp del: set_map split: if_splits option.splits)
  then show ?thesis using n unfolding list_all_iff by blast
qed

lemma formats_stay:
  assumes "normalize_report_format v = Some f"
  shows "f \<in> set (map fst FORMAT_LABELS) \<and> normalize_report_format f = Some f"
proof -
  have a: "list_all (\<lambda>kv. snd kv \<in> set (map fst FORMAT_LABELS)) FORMAT_ALIASES" by code_simp
  have n: "list_all (\<lambda>x. normalize_report_format x = Some x) (map fst FORMAT_LABELS)" by code_simp
  have al: "f \<in> set (map fst FORMAT_LABELS)" if "map_of FORMAT_ALIASES k = Some f" for k
    using map_of_SomeD [OF that] a unfolding list_all_iff by (metis snd_conv)
  have "f \<in> set (map fst FORMAT_LABELS)"
    using assms al by (auto simp: normalize_report_format_def Let_def simp del: set_map split: if_splits option.splits)
  then show ?thesis using n unfolding list_all_iff by blast
qed

subsection \<open>Schedules\<close>

lemma refuse_not_Inr [simp]: "refuse f m \<noteq> Inr x" "Inr x \<noteq> refuse f m"
  by (simp_all add: refuse_def)

text \<open>What the checks of a request leave in its attributes.\<close>

definition attrs_checked :: "env \<Rightarrow> schedule_attrs \<Rightarrow> bool" where
  "attrs_checked e a = (\<exists>t f fm tod params texting tels vs emails.
     sa_report_type a = Some t \<and> t \<in> set SUPPORTED_REPORT_TYPES \<and> sa_frequency a = Some f \<and> normalize_report_frequency f = Some f
     \<and> sa_output_format a = Some fm \<and> normalize_report_format fm = Some fm \<and> sa_delivery_time a = Some (TimeOfDay tod)
     \<and> sa_parameters a = Some params \<and> is_dict params \<and> sa_send_sms a = Some texting
     \<and> sa_sms_recipients a = Some (PList (map PStr tels)) \<and> tels = stripped_texts e vs \<and> (texting \<longrightarrow> tels \<noteq> [])
     \<and> sa_recipients a = Some (PList (map PStr emails)) \<and> emails = emails_of e (map PStr emails) \<and> list_all valid_recipient emails
     \<and> (emails \<noteq> [] \<or> (texting \<and> tels \<noteq> [])))"

lemma recipients_checked:
  assumes "validate_recipients e r texting tels = Inr emails"
  shows "emails = emails_of e (map PStr emails) \<and> list_all valid_recipient emails \<and> (emails \<noteq> [] \<or> (texting \<and> tels \<noteq> []))"
proof -
  obtain vs where r: "r = PList vs" using assms by (cases r) (simp_all add: validate_recipients_def)
  have "emails = emails_of e vs" "find (\<lambda>c. \<not> valid_recipient c) (filter (\<lambda>c. c \<noteq> []) (map (\<lambda>r. lower (strip (py_str e r))) vs)) = None"
    "emails \<noteq> [] \<or> (texting \<and> tels \<noteq> [])"
    using assms by (auto simp: r validate_recipients_def split: option.splits if_splits)
  then show ?thesis using emails_of_normal [of e vs] by (auto simp: find_None_iff list_all_iff emails_of_def)
qed

lemma validated_checked:
  assumes "validate_schedule e d u s a = Inr a'"
  shows "attrs_checked e a' \<and> sa_organization a' = sa_organization a \<and> sa_data_center a' = sa_data_center a \<and> sa_name a' = sa_name a
    \<and> sa_attach_raw_data a' = sa_attach_raw_data a \<and> sa_is_active a' = sa_is_active a"
proof -
  define params where "params = sent_or (sa_parameters a) s rs_parameters (PDict [])"
  define texting where "texting = sent_or (sa_send_sms a) s rs_send_sms False"
  define numbers where "numbers = sent_or (sa_sms_recipients a) s rs_sms_recipients (PList [])"
  define tels where "tels = stripped_texts e (list_or_empty numbers)"
  note defs = validate_schedule_def Let_def params_def [symmetric] texting_def [symmetric] numbers_def [symmetric] tels_def [symmetric]
  have acc: "schedule_access_errors d u s a = Inr ()" using assms by (auto simp: validate_schedule_def split: sum.splits)
  obtain t where t: "normalize_report_type (sent_or (sa_report_type a) s rs_report_type []) = Some t"
    using assms acc by (cases "normalize_report_type (sent_or (sa_report_type a) s rs_report_type [])") (simp_all add: validate_schedule_def)
  obtain f where f: "normalize_report_frequency (sent_or (sa_frequency a) s rs_frequency []) = Some f"
    using assms acc t by (cases "normalize_report_frequency (sent_or (sa_frequency a) s rs_frequency [])") (simp_all add: validate_schedule_def)
  obtain fm where fm: "normalize_report_format (sent_or (sa_output_format a) s rs_output_format []) = Some fm"
    using assms acc t f by (cases "normalize_report_format (sent_or (sa_output_format a) s rs_output_format [])") (simp_all add: validate_schedule_def)
  let ?tod = "sent_or (map_option Some (sa_delivery_time a)) s (\<lambda>r. Some (TimeOfDay (rs_delivery_time r))) None"
  obtain tod where tod: "normalize_delivery_time ?tod = Some tod"
    using assms acc t f fm by (cases "normalize_delivery_time ?tod") (simp_all add: validate_schedule_def)
  note run = assms [unfolded defs acc t f fm tod sum.case option.case]
  have p: "is_dict params" "is_list numbers" "texting \<longrightarrow> tels \<noteq> []" using run by (auto simp: tels_def split: if_splits)
  obtain emails where r: "validate_recipients e (sent_or (sa_recipients a) s rs_recipients (PList [])) texting tels = Inr emails"
    and a': "a' = a\<lparr>sa_report_type := Some t, sa_frequency := Some f, sa_output_format := Some fm, sa_delivery_time := Some (TimeOfDay tod),
      sa_parameters := Some params, sa_send_sms := Some texting, sa_sms_recipients := Some (PList (map PStr tels)),
      sa_recipients := Some (PList (map PStr emails))\<rparr>"
    using run p by (auto simp: tels_def split: if_splits sum.splits)
  have "attrs_checked e a'"
    unfolding attrs_checked_def a'
    using normalized_type_supported [OF t] frequencies_stay [OF f] formats_stay [OF fm] p recipients_checked [OF r] tels_def
    by (rule_tac x = t in exI, rule_tac x = f in exI, rule_tac x = fm in exI, rule_tac x = tod in exI, rule_tac x = params in exI,
        rule_tac x = texting in exI, rule_tac x = tels in exI, rule_tac x = "list_or_empty numbers" in exI, rule_tac x = emails in exI) simp
  then show ?thesis by (simp add: a')
qed

text \<open>C33. A request for a new schedule that passes its checks is stored, with the vocabulary and the recipients in the normal form they
  were checked in and its first run computed; only a name that is blank or too long and a data center of another organization are
  left to the model to refuse.\<close>

theorem schedule_request_stored:
  assumes "validate_schedule e d (Some u) None a = Inr a'" and "sa_organization a = Some k" and "tbl_get org_id k (organizations d) \<noteq> None"
    and "sa_name a = Some name" and "name \<noteq> []" and "length name \<le> 255" and "tbl_get usr_id (usr_id u) (users d) \<noteq> None"
    and "case sent_ref (sa_data_center a) of None \<Rightarrow> True | Some c \<Rightarrow> (\<exists>r. data_center_of d c = Some r \<and> dc_organization r = k)"
  shows "\<exists>s. create_schedule_request e u a d = (Inr s, d\<lparr>report_schedules := tbl_insert s (report_schedules d)\<rparr>)
    \<and> s = (edit_schedule a' (blank_schedule e d u k))\<lparr>rs_next_run_at := Some (calculate_next_run_at (edit_schedule a' (blank_schedule e d u k)) (now e))\<rparr>
    \<and> rs_report_type s \<in> set SUPPORTED_REPORT_TYPES \<and> normalize_report_frequency (rs_frequency s) = Some (rs_frequency s)
    \<and> normalize_report_format (rs_output_format s) = Some (rs_output_format s)
    \<and> rs_recipients s = PList (map PStr (normalize_recipients e s)) \<and> list_all valid_recipient (normalize_recipients e s) \<and> \<not> no_recipients e s"
proof -
  define row where "row = edit_schedule a' (blank_schedule e d u k)"
  define s where "s = row\<lparr>rs_next_run_at := Some (calculate_next_run_at row (now e))\<rparr>"
  note same = validated_checked [OF assms(1)]
  then obtain t f fm tod params texting tels vs emails where c:
    "sa_report_type a' = Some t" "t \<in> set SUPPORTED_REPORT_TYPES" "sa_frequency a' = Some f" "normalize_report_frequency f = Some f"
    "sa_output_format a' = Some fm" "normalize_report_format fm = Some fm" "sa_delivery_time a' = Some (TimeOfDay tod)"
    "sa_parameters a' = Some params" "is_dict params" "sa_send_sms a' = Some texting"
    "sa_sms_recipients a' = Some (PList (map PStr tels))" "tels = stripped_texts e vs" "texting \<longrightarrow> tels \<noteq> []"
    "sa_recipients a' = Some (PList (map PStr emails))" "emails = emails_of e (map PStr emails)" "list_all valid_recipient emails"
    "emails \<noteq> [] \<or> (texting \<and> tels \<noteq> [])"
    unfolding attrs_checked_def by blast
  have s: "rs_organization s = k" "rs_data_center s = sent_ref (sa_data_center a)" "rs_name s = name" "rs_report_type s = t" "rs_frequency s = f"
    "rs_output_format s = fm" "rs_recipients s = PList (map PStr emails)" "rs_send_sms s = texting" "rs_sms_recipients s = PList (map PStr tels)"
    "rs_last_run_at s = None" "rs_last_job s = None" "rs_created_by s = Some (usr_id u)" "rs_next_run_at s \<noteq> None"
    using assms(2,4) same c by (auto simp: s_def row_def edit_schedule_def blank_schedule_def sent_ref_def split: option.split)
  have em: "normalize_recipients e s = emails" using c(15) by (simp add: normalize_recipients_def s(7) list_or_empty_def emails_of_def)
  have ph: "stripped_texts e (list_or_empty (rs_sms_recipients s)) = tels" by (simp add: s(9) list_or_empty_def c(12) stripped_texts_normal)
  have t: "normalize_report_type t = Some t" using c(2) by (rule supported_types_stay)
  have clean: "clean_schedule e s = s"
  proof -
    have "with_vocabulary s = s" using t c(4,6) s(4-6) by (simp add: with_vocabulary_def)
    moreover have "with_recipients e s = s" using em ph s(7,9) by (simp add: with_recipients_def is_list_def)
    ultimately show ?thesis using s(13) by (simp add: clean_schedule_def with_next_run_def)
  qed
  have ne: "t \<noteq> []" "f \<noteq> []" "fm \<noteq> []"
    using c(2) frequencies_stay [OF c(4)] formats_stay [OF c(6)] supported_nonempty by blast+
  have field: "schedule_field_errors d s = []"
    using assms(3,5-8) frequencies_stay [OF c(4)] formats_stay [OF c(6)] c(2) t
    by (auto simp: schedule_field_errors_def s(1-6,11,12) choice_errors_def ne split: option.split)
  have site: "schedule_site_errors d s = Inr []" using assms(8) by (auto simp: schedule_site_errors_def s(1,2) split: option.splits)
  have voc: "vocabulary_errors s = []" using t c(4,6) assms(5) by (simp add: vocabulary_errors_def s(3-6))
  have rec: "recipient_errors e s = []" using c(16,17) em ph by (auto simp: recipient_errors_def Let_def is_list_def s(7,8) list_all_iff)
  have runs: "run_errors s = []" using c(13) by (simp add: run_errors_def s(8-10))
  have "full_clean_schedule e d s = Inr s" by (simp add: full_clean_schedule_def site field voc rec runs clean)
  moreover have "rs_next_run_at row = None" by (simp add: row_def edit_schedule_def blank_schedule_def)
  ultimately have "create_schedule e row d = (Inr s, d\<lparr>report_schedules := tbl_insert s (report_schedules d)\<rparr>)"
    by (simp add: create_schedule_def s_def [symmetric])
  then have "create_schedule_request e u a d = (Inr s, d\<lparr>report_schedules := tbl_insert s (report_schedules d)\<rparr>)"
    by (simp add: create_schedule_request_def assms(1,2) row_def)
  moreover have "\<not> no_recipients e s" using c(13,17) em s(8,9) by (auto simp: no_recipients_def list_or_empty_def)
  ultimately show ?thesis using c(2,4,6,16) s(4-7) em unfolding row_def [symmetric] by (intro exI [of _ s]) (simp add: s_def)
qed

text \<open>A request in the words of a user.\<close>

definition a_request :: schedule_attrs where
  "a_request = \<lparr>sa_organization = Some 1, sa_data_center = None, sa_name = Some ''Daily'', sa_report_type = Some ''Alert Summary'',
     sa_frequency = Some ''daily'', sa_output_format = Some ''csv'', sa_delivery_time = Some (TimeText (half_day_text 360)), sa_parameters = None,
     sa_recipients = Some (PList [PStr '' A@B '']), sa_send_sms = None, sa_sms_recipients = None, sa_attach_raw_data = None, sa_is_active = None\<rparr>"

lemma a_request_checked:
  "validate_schedule e d (Some (blank_user\<lparr>usr_id := 1, usr_is_superuser := True\<rparr>)) None a_request =
     Inr (a_request\<lparr>sa_report_type := Some ''alert_summary'', sa_frequency := Some ''DAILY'', sa_output_format := Some ''CSV'',
       sa_delivery_time := Some (TimeOfDay (seconds 21600)), sa_parameters := Some (PDict []), sa_send_sms := Some False,
       sa_sms_recipients := Some (PList []), sa_recipients := Some (PList [PStr ''a@b''])\<rparr>)"
proof -
  have "normalize_report_type ''Alert Summary'' = Some ''alert_summary''"
  proof -
    have "normalize_key ''Alert Summary'' = ''alert_summary''" by code_simp
    then show ?thesis by (simp add: normalize_report_type_def REPORT_TYPE_ALIASES_eval)
  qed
  moreover have "normalize_report_frequency ''daily'' = Some ''DAILY''" "normalize_report_format ''csv'' = Some ''CSV''" by code_simp+
  moreover have "normalize_delivery_time (Some (TimeText (half_day_text 360))) = Some (seconds 21600)" using half_day_read [of 360] by simp
  moreover have "lower (strip '' A@B '') = ''a@b''" by code_simp
  moreover have "schedule_access_errors d (Some (blank_user\<lparr>usr_id := 1, usr_is_superuser := True\<rparr>)) None a_request = Inr ()"
    by (simp add: schedule_access_errors_def a_request_def sent_or_def user_can_access_organization_def)
  ultimately show ?thesis
    by (simp add: validate_schedule_def a_request_def sent_or_def Let_def is_dict_def is_list_def list_or_empty_def stripped_texts_def
        validate_recipients_def emails_of_def py_str_def valid_recipient_def)
qed

lemma schedule_request_stored_witness:
  "\<exists>s. create_schedule_request (plain_env 0) (blank_user\<lparr>usr_id := 1, usr_is_superuser := True\<rparr>) a_request (jobs_example [])
      = (Inr s, (jobs_example [])\<lparr>report_schedules := tbl_insert s []\<rparr>) \<and> rs_report_type s \<in> set SUPPORTED_REPORT_TYPES"
proof -
  have "report_schedules (jobs_example []) = []" by (simp add: jobs_example_def empty_db_def)
  moreover have "tbl_get org_id 1 (organizations (jobs_example [])) \<noteq> None" "sa_organization a_request = Some 1" "sa_name a_request = Some ''Daily''"
    "tbl_get usr_id (usr_id (blank_user\<lparr>usr_id := 1, usr_is_superuser := True\<rparr>)) (users (jobs_example [])) \<noteq> None"
    "sent_ref (sa_data_center a_request) = None" "''Daily'' \<noteq> []" "length ''Daily'' \<le> 255"
    by (simp_all add: jobs_example_def tbl_get_def a_request_def sent_ref_def)
  ultimately show ?thesis
    using schedule_request_stored [OF a_request_checked, of 1 "jobs_example []" "''Daily''" "plain_env 0"] by (simp only: option.case) metis
qed

subsection \<open>Jobs\<close>

text \<open>C34. A job that is created through the API belongs to an organization and, if it has one, a data center the user has access to;
  its template is of that organization, and it names the user who asked for it.\<close>

theorem job_request_within_access:
  assumes "create_job_request e u a d = (Inr j, d')"
  shows "ja_organization a = Some (rj_organization j) \<and> user_can_access_organization d (Some u) (rj_organization j)
    \<and> (\<forall>k. rj_data_center j = Some k \<longrightarrow> user_can_access_data_center d (Some u) k \<and> (\<exists>c. data_center_of d k = Some c \<and> dc_organization c = rj_organization j))
    \<and> (\<forall>k. rj_template j = Some k \<longrightarrow> (\<exists>t. tbl_get rt_id k (report_templates d) = Some t \<and> rt_organization t = rj_organization j))
    \<and> rj_requested_by j = Some (usr_id u) \<and> rj_status j = JOB_PENDING \<and> job_times_ok j
    \<and> d' = d\<lparr>report_jobs := tbl_insert j (report_jobs d)\<rparr>"
proof -
  obtain k where k: "ja_organization a = Some k" using assms by (auto simp: create_job_request_def split: option.splits)
  have v: "validate_job_create d (Some u) k a = Inr ()" and run: "create_job (new_job e d u k a) d = (Inr j, d')"
    using assms by (auto simp: create_job_request_def k split: sum.splits)
  have clean: "full_clean_job d True (new_job e d u k a) = Inr ()" and j: "j = new_job e d u k a" "d' = d\<lparr>report_jobs := tbl_insert j (report_jobs d)\<rparr>"
    using run by (auto simp: create_job_def split: sum.splits)
  have org: "user_can_access_organization d (Some u) k" and dc: "\<And>c. sent_ref (ja_data_center a) = Some c \<Longrightarrow> user_can_access_data_center d (Some u) c"
    using v by (auto simp: validate_job_create_def Let_def split: if_splits)
  have site: "job_site_errors d j = Inr []" and tmpl: "job_template_errors d j = Inr []" and times: "job_time_errors j = []"
    using clean by (auto simp: full_clean_job_def j(1) split: sum.splits)
  have f: "rj_organization j = k" "rj_data_center j = sent_ref (ja_data_center a)" "rj_requested_by j = Some (usr_id u)" "rj_status j = JOB_PENDING"
    by (simp_all add: j(1) new_job_def)
  have "\<exists>c. data_center_of d i = Some c \<and> dc_organization c = rj_organization j" if "rj_data_center j = Some i" for i
    using site that by (auto simp: job_site_errors_def split: option.splits if_splits)
  moreover have "\<exists>t. tbl_get rt_id i (report_templates d) = Some t \<and> rt_organization t = rj_organization j" if "rj_template j = Some i" for i
    using tmpl that by (auto simp: job_template_errors_def split: option.splits if_splits)
  ultimately show ?thesis using k org dc f times job_times_iff [of j] j(2) by auto
qed

lemma job_request_within_access_witness:
  "\<exists>j d'. create_job_request (plain_env 0) (blank_user\<lparr>usr_id := 1, usr_is_superuser := True\<rparr>)
      \<lparr>ja_organization = Some 1, ja_data_center = None, ja_template = None, ja_parameters = Some (PDict [(''report_type'', PStr ''room_environment'')])\<rparr>
      (jobs_example []) = (Inr j, d') \<and> rj_status j = JOB_PENDING \<and> rj_requested_by j = Some 1"
proof -
  let ?u = "blank_user\<lparr>usr_id := 1, usr_is_superuser := True\<rparr>" and ?d = "jobs_example []"
  let ?a = "\<lparr>ja_organization = Some 1, ja_data_center = None, ja_template = None,
    ja_parameters = Some (PDict [(''report_type'', PStr ''room_environment'')])\<rparr> :: job_attrs"
  have "validate_job_create ?d (Some ?u) 1 ?a = Inr ()"
    by (simp add: validate_job_create_def sent_ref_def user_can_access_organization_def is_dict_def dict_or_empty_def dict_get_def)
  moreover have "full_clean_job ?d True (new_job (plain_env 0) ?d ?u 1 ?a) = Inr ()"
    by (simp add: full_clean_job_def new_job_def sent_ref_def job_site_errors_def job_template_errors_def job_field_errors_def job_time_errors_def
        terminal_status_def raise_errors_def is_dict_def jobs_example_def tbl_get_def)
  ultimately obtain j d' where run: "create_job_request (plain_env 0) ?u ?a ?d = (Inr j, d')"
    by (simp add: create_job_request_def create_job_def)
  with job_request_within_access [OF this] show ?thesis by auto
qed

lemma tbl_get_replaced:
  assumes "key r = k" and "tbl_get key k rows \<noteq> None"
  shows "tbl_get key i (tbl_update key k (\<lambda>_. r) rows) = (if i = k then Some r else tbl_get key i rows)"
proof (cases "i = k")
  case True
  then show ?thesis using assms unfolding tbl_get_def tbl_update_def by (induction rows) auto
next
  case False
  then show ?thesis using assms(1) unfolding tbl_get_def tbl_update_def by (induction rows) auto
qed

text \<open>Editing the parameters of a job takes its report and its outcome back, so it waits to be built anew; while it is being built that
  is refused. Any other edit leaves its state alone. Nothing here asks whether the user may see the organization it is moved to.\<close>

theorem job_edit_outcome:
  assumes "job_of d (rj_id j) = Some j" and "job_refs_ok d (edit_job a j)" and "job_times_ok j"
    and "changed \<longleftrightarrow> (\<exists>v. ja_parameters a = Some v \<and> \<not> py_eq v (rj_parameters j))"
  shows "(changed \<and> rj_status j = JOB_PROCESSING \<longrightarrow> update_job_request j a d = (refuse ''parameters'' ''Processing report jobs cannot be edited.'', d))
    \<and> (\<not> (changed \<and> rj_status j = JOB_PROCESSING) \<longrightarrow> (\<exists>j' d'. update_job_request j a d = (Inr j', d') \<and> job_of d' (rj_id j) = Some j'
        \<and> (\<forall>i. i \<noteq> rj_id j \<longrightarrow> job_of d' i = job_of d i) \<and> job_times_ok j'
        \<and> rj_organization j' = rj_organization (edit_job a j) \<and> rj_parameters j' = rj_parameters (edit_job a j)
        \<and> (if changed then rj_status j' = JOB_PENDING \<and> rj_file j' = None \<and> rj_started_at j' = None \<and> rj_completed_at j' = None
            else j' = edit_job a j)))"
proof -
  have ch: "(case ja_parameters a of None \<Rightarrow> False | Some v \<Rightarrow> \<not> py_eq v (rj_parameters j)) = changed"
    using assms(4) by (auto split: option.splits)
  define j2 where "j2 = (if changed then (if terminal_status (rj_status j)
      then j\<lparr>rj_file := None, rj_status := JOB_PENDING, rj_started_at := None, rj_completed_at := None, rj_error_message := Some []\<rparr> else j\<lparr>rj_file := None\<rparr>) else j)"
  have run: "update_job_request j a d = save_job (\<lambda>x _. x) (edit_job a j2) d" if "\<not> (changed \<and> rj_status j = JOB_PROCESSING)"
    using that by (simp add: update_job_request_def ch Let_def j2_def)
  have times: "job_times_ok (edit_job a j2)" if "\<not> (changed \<and> rj_status j = JOB_PROCESSING)"
  proof -
    have "job_times_ok (edit_job a j2) = job_times_ok j2" by (rule job_times_cong) (simp_all add: edit_job_def)
    moreover have "job_times_ok j2" using assms(3) by (cases "rj_status j") (simp_all add: j2_def job_times_ok_def terminal_status_def)
    ultimately show ?thesis by simp
  qed
  have keep: "rj_organization j2 = rj_organization j" "rj_data_center j2 = rj_data_center j" "rj_template j2 = rj_template j"
    "rj_requested_by j2 = rj_requested_by j" "rj_parameters j2 = rj_parameters j" "rj_id j2 = rj_id j" by (simp_all add: j2_def)
  have refs: "job_refs_ok d (edit_job a j2)"
  proof -
    have "job_refs_ok d (edit_job a j2) = job_refs_ok d (edit_job a j)" by (rule job_refs_cong) (simp_all add: edit_job_def keep split: option.split)
    then show ?thesis using assms(2) by simp
  qed
  have id: "rj_id (edit_job a j2) = rj_id j" by (simp add: edit_job_def keep)
  have state: "if changed then rj_status (edit_job a j2) = JOB_PENDING \<and> rj_file (edit_job a j2) = None \<and> rj_started_at (edit_job a j2) = None
      \<and> rj_completed_at (edit_job a j2) = None else edit_job a j2 = edit_job a j" if "\<not> (changed \<and> rj_status j = JOB_PROCESSING)"
    using that assms(3) by (cases "rj_status j") (auto simp: edit_job_def j2_def terminal_status_def job_times_ok_def)
  have rest: "rj_organization (edit_job a j2) = rj_organization (edit_job a j)" "rj_parameters (edit_job a j2) = rj_parameters (edit_job a j)"
    by (simp_all add: edit_job_def keep split: option.split)
  show ?thesis
  proof (intro conjI impI)
    assume "changed \<and> rj_status j = JOB_PROCESSING"
    then show "update_job_request j a d = (refuse ''parameters'' ''Processing report jobs cannot be edited.'', d)"
      by (simp add: update_job_request_def ch Let_def)
  next
    assume n: "\<not> (changed \<and> rj_status j = JOB_PROCESSING)"
    let ?d = "d\<lparr>report_jobs := tbl_update rj_id (rj_id j) (\<lambda>_. edit_job a j2) (report_jobs d)\<rparr>"
    have "update_job_request j a d = (Inr (edit_job a j2), ?d)"
      using run [OF n] save_job_ok [OF refs times [OF n], of "\<lambda>x _. x"] assms(1) by (simp add: id)
    moreover have "job_of ?d i = (if i = rj_id j then Some (edit_job a j2) else job_of d i)" for i
      using assms(1) tbl_get_replaced [of rj_id "edit_job a j2" "rj_id j" "report_jobs d" i] id by (simp add: job_of_def)
    ultimately show "\<exists>j' d'. update_job_request j a d = (Inr j', d') \<and> job_of d' (rj_id j) = Some j'
        \<and> (\<forall>i. i \<noteq> rj_id j \<longrightarrow> job_of d' i = job_of d i) \<and> job_times_ok j'
        \<and> rj_organization j' = rj_organization (edit_job a j) \<and> rj_parameters j' = rj_parameters (edit_job a j)
        \<and> (if changed then rj_status j' = JOB_PENDING \<and> rj_file j' = None \<and> rj_started_at j' = None \<and> rj_completed_at j' = None
            else j' = edit_job a j)"
      using times [OF n] state [OF n] rest by (intro exI [of _ "edit_job a j2"] exI [of _ ?d]) simp
  qed
qed

lemma job_edit_outcome_witness:
  "\<exists>j' d'. update_job_request (a_job JOB_COMPLETED (Some 3) (Some 4))
      \<lparr>ja_organization = None, ja_data_center = None, ja_template = None, ja_parameters = Some (PDict [])\<rparr>
      (jobs_example [a_job JOB_COMPLETED (Some 3) (Some 4)]) = (Inr j', d') \<and> rj_status j' = JOB_PENDING \<and> rj_completed_at j' = None"
proof -
  let ?j = "a_job JOB_COMPLETED (Some 3) (Some 4)"
  let ?a = "\<lparr>ja_organization = None, ja_data_center = None, ja_template = None, ja_parameters = Some (PDict [])\<rparr> :: job_attrs"
  have id: "rj_id ?j = 1" by (simp add: a_job_def)
  have j: "job_of (jobs_example [?j]) (rj_id ?j) = Some ?j" unfolding id by (rule a_job_of)
  have refs: "job_refs_ok (jobs_example [?j]) (edit_job ?a ?j)"
    by (simp add: job_refs_ok_def job_site_errors_def job_template_errors_def job_field_errors_def edit_job_def a_job_def jobs_example_def
        tbl_get_def is_dict_def)
  have times: "job_times_ok ?j" by (simp add: a_job_def job_times_ok_def)
  have "\<exists>v. ja_parameters ?a = Some v \<and> \<not> py_eq v (rj_parameters ?j)" by (simp add: a_job_def py_eq_def)
  from job_edit_outcome [OF j refs times, of True] this show ?thesis by (auto simp: a_job_def)
qed

end
