(* ===== verification/Device_Setup.thy ===== *)
theory Device_Setup
  imports Polling Snmp_Client
begin

text \<open>
  The commands that set up the polling of a device (\<open>set_device_snmp.py\<close>, \<open>set_device_modbus.py\<close>). Each statement is committed
  on its own, so what was written before an error stays. The numbers of a command line are not negative here; the column checks
  are those of the database.
\<close>

datatype command_error = CommandError string | MultipleObjectsReturned | Raised exn

subsection \<open>Rows found by their columns\<close>

definition get_or_create :: "('r \<Rightarrow> bool) \<Rightarrow> 'r \<Rightarrow> 'r list \<Rightarrow> command_error + 'r \<times> 'r list" where
  "get_or_create q new rows = (case filter q rows of
      [] \<Rightarrow> Inr (new, tbl_insert new rows)
    | [r] \<Rightarrow> Inr (r, rows)
    | _ \<Rightarrow> Inl MultipleObjectsReturned)"

definition update_or_create :: "('r \<Rightarrow> uuid) \<Rightarrow> ('r \<Rightarrow> bool) \<Rightarrow> ('r \<Rightarrow> 'r) \<Rightarrow> 'r \<Rightarrow> 'r list \<Rightarrow> command_error + 'r list" where
  "update_or_create pk q upd new rows = (case filter q rows of
      [] \<Rightarrow> Inr (tbl_insert new rows)
    | [r] \<Rightarrow> Inr (tbl_update pk (pk r) upd rows)
    | _ \<Rightarrow> Inl MultipleObjectsReturned)"

text \<open>A positive integer column has 31 bits.\<close>

definition fits_integer :: "nat \<Rightarrow> bool" where
  "fits_integer n = (n \<le> 2147483647)"

definition fits_text :: "nat \<Rightarrow> string option \<Rightarrow> bool" where
  "fits_text limit s = (case s of None \<Rightarrow> True | Some v \<Rightarrow> length v \<le> limit)"

subsection \<open>The options\<close>

record endpoint_options =
  so_host :: string
  so_port :: nat
  so_interval :: nat
  so_timeout :: nat
  so_retries :: nat

record snmp_options = endpoint_options +
  so_version :: snmp_version
  so_community :: "string option"
  so_username :: "string option"
  so_auth_protocol :: "string option"
  so_auth_key :: "string option"
  so_priv_protocol :: "string option"
  so_priv_key :: "string option"

definition has_text :: "string option \<Rightarrow> bool" where
  "has_text s = (case s of None \<Rightarrow> False | Some v \<Rightarrow> v \<noteq> [])"

definition check_snmp_options :: "snmp_options \<Rightarrow> string option" where
  "check_snmp_options o' =
     (if so_version o' \<noteq> V3 \<and> \<not> has_text (so_community o') then Some ''--community is required for SNMP v1/v2c''
      else if so_version o' = V3 \<and> \<not> has_text (so_username o') then Some ''--username is required for SNMP v3''
      else None)"

subsection \<open>The four rows\<close>

definition same_endpoint :: "device \<Rightarrow> protocol_type \<Rightarrow> 'a endpoint_options_scheme \<Rightarrow> protocol_config \<Rightarrow> bool" where
  "same_endpoint dev protocol o' c = (pc_device c = dev_id dev \<and> pc_protocol c = protocol \<and> pc_host c = so_host o' \<and> pc_port c = Some (so_port o'))"

definition put_protocol_config ::
    "env \<Rightarrow> protocol_type \<Rightarrow> device \<Rightarrow> 'a endpoint_options_scheme \<Rightarrow> db \<Rightarrow> command_error + db" where
  "put_protocol_config e protocol dev o' d =
     (case update_or_create pc_id (same_endpoint dev protocol o')
          (\<lambda>c. c\<lparr>pc_timeout_seconds := so_timeout o', pc_retry_count := so_retries o', pc_is_primary := True, pc_is_enabled := True\<rparr>)
          \<lparr>pc_id = fresh_key pc_id (protocol_configs d), pc_created_at = now e, pc_device = dev_id dev, pc_protocol = protocol,
            pc_host = so_host o', pc_port = Some (so_port o'), pc_timeout_seconds = so_timeout o', pc_retry_count = so_retries o',
            pc_is_primary = True, pc_is_enabled = True\<rparr> (protocol_configs d) of
        Inl x \<Rightarrow> Inl x
      | Inr rows \<Rightarrow>
          if fits_text 255 (Some (so_host o')) \<and> list_all fits_integer [so_port o', so_timeout o', so_retries o']
          then Inr (d\<lparr>protocol_configs := rows\<rparr>) else Inl (Raised DataError))"

definition set_credential :: "env \<Rightarrow> fernet \<Rightarrow> snmp_options \<Rightarrow> credential \<Rightarrow> credential" where
  "set_credential e f o' c =
     c\<lparr>cr_updated_at := now e, cr_username := so_username o', cr_snmp_version := Some (so_version o'),
       cr_snmp_community := encrypt_secret f (so_community o'), cr_v3_auth_protocol := so_auth_protocol o',
       cr_v3_auth_key := encrypt_secret f (so_auth_key o'), cr_v3_priv_protocol := so_priv_protocol o',
       cr_v3_priv_key := encrypt_secret f (so_priv_key o'), cr_is_active := True\<rparr>"

definition put_credential :: "env \<Rightarrow> fernet \<Rightarrow> device \<Rightarrow> snmp_options \<Rightarrow> db \<Rightarrow> command_error + db" where
  "put_credential e f dev o' d =
     (case update_or_create cr_id (\<lambda>c. cr_device c = dev_id dev \<and> cr_protocol c = SNMP) (set_credential e f o')
          (set_credential e f o' \<lparr>cr_id = fresh_key cr_id (credentials d), cr_updated_at = now e, cr_device = dev_id dev, cr_protocol = SNMP,
            cr_username = None, cr_snmp_version = None, cr_snmp_community = None, cr_v3_auth_protocol = None, cr_v3_auth_key = None,
            cr_v3_priv_protocol = None, cr_v3_priv_key = None, cr_is_active = True\<rparr>) (credentials d) of
        Inl x \<Rightarrow> Inl x
      | Inr rows \<Rightarrow>
          if fits_text 255 (so_username o') \<and> fits_text 50 (so_auth_protocol o') \<and> fits_text 50 (so_priv_protocol o')
          then Inr (d\<lparr>credentials := rows\<rparr>) else Inl (Raised DataError))"

definition profile_name :: "string \<Rightarrow> 'a endpoint_options_scheme \<Rightarrow> string" where
  "profile_name prefix o' = prefix @ '' '' @ str_nat (so_interval o') @ ''s''"

definition ensure_profile ::
    "protocol_type \<Rightarrow> string \<Rightarrow> 'a endpoint_options_scheme \<Rightarrow> db \<Rightarrow> command_error + polling_profile \<times> db" where
  "ensure_profile protocol prefix o' d =
     (case get_or_create (\<lambda>p. pp_name p = profile_name prefix o' \<and> pp_protocol p = protocol)
         \<lparr>pp_id = fresh_key pp_id (polling_profiles d), pp_name = profile_name prefix o', pp_protocol = protocol, pp_priority = NORMAL,
           pp_interval_seconds = so_interval o', pp_timeout_seconds = so_timeout o', pp_retry_count = so_retries o',
           pp_stale_after_seconds = max (so_interval o' * 3) 180, pp_is_active = True\<rparr> (polling_profiles d) of
       Inl x \<Rightarrow> Inl x
     | Inr (p, rows) \<Rightarrow>
         if length rows \<noteq> length (polling_profiles d) \<and> \<not> fits_integer (max (so_interval o' * 3) 180) then Inl (Raised DataError)
         else Inr (p, d\<lparr>polling_profiles := rows\<rparr>))"

definition put_polling_config :: "env \<Rightarrow> device \<Rightarrow> polling_profile \<Rightarrow> db \<Rightarrow> command_error + db" where
  "put_polling_config e dev p d =
     (case update_or_create pg_id (\<lambda>c. pg_device c = dev_id dev)
         (\<lambda>c. c\<lparr>pg_polling_profile := pp_id p, pg_is_enabled := True, pg_next_poll_at := Some (now e)\<rparr>)
         \<lparr>pg_id = fresh_key pg_id (polling_configs d), pg_device = dev_id dev, pg_polling_profile = pp_id p, pg_is_enabled = True,
           pg_last_polled_at = None, pg_next_poll_at = Some (now e), pg_consecutive_failures = 0, pg_last_error_message = None\<rparr> (polling_configs d) of
       Inl x \<Rightarrow> Inl x
     | Inr rows \<Rightarrow> Inr (d\<lparr>polling_configs := rows\<rparr>))"

subsection \<open>The commands\<close>

definition schedule_device :: "env \<Rightarrow> protocol_type \<Rightarrow> string \<Rightarrow> device \<Rightarrow> 'a endpoint_options_scheme \<Rightarrow> db \<Rightarrow> (command_error + unit) \<times> db" where
  "schedule_device e protocol prefix dev o' d = (case ensure_profile protocol prefix o' d of
      Inl x \<Rightarrow> (Inl x, d)
    | Inr (p, d1) \<Rightarrow> (case put_polling_config e dev p d1 of
        Inl x \<Rightarrow> (Inl x, d1)
      | Inr d2 \<Rightarrow> (Inr (), d2)))"

definition set_device_snmp :: "env \<Rightarrow> fernet \<Rightarrow> uuid \<Rightarrow> snmp_options \<Rightarrow> db \<Rightarrow> (command_error + unit) \<times> db" where
  "set_device_snmp e f k o' d = (case device_of d k of
      None \<Rightarrow> (Inl (Raised DoesNotExist), d)
    | Some dev \<Rightarrow> (case check_snmp_options o' of
        Some m \<Rightarrow> (Inl (CommandError m), d)
      | None \<Rightarrow> (case put_protocol_config e SNMP dev o' d of
          Inl x \<Rightarrow> (Inl x, d)
        | Inr d1 \<Rightarrow> (case put_credential e f dev o' d1 of
            Inl x \<Rightarrow> (Inl x, d1)
          | Inr d2 \<Rightarrow> schedule_device e SNMP ''SNMP'' dev o' d2))))"

definition set_device_modbus :: "env \<Rightarrow> uuid \<Rightarrow> endpoint_options \<Rightarrow> db \<Rightarrow> (command_error + unit) \<times> db" where
  "set_device_modbus e k o' d = (case device_of d k of
      None \<Rightarrow> (Inl (Raised DoesNotExist), d)
    | Some dev \<Rightarrow> (case put_protocol_config e MODBUS_TCP dev o' d of
        Inl x \<Rightarrow> (Inl x, d)
      | Inr d1 \<Rightarrow> schedule_device e MODBUS_TCP ''Modbus TCP'' dev o' d1))"

end
