(* ===== verification/Device_Setup_Props.thy ===== *)
theory Device_Setup_Props
  imports Device_Setup Access_Scope
begin

text \<open>
  What the pollers read after a setup command. A device that had no other address is polled at the given one with the given
  secrets; a device that had one stays at its old address.
\<close>

subsection \<open>The first row of an order\<close>

lemma first_insort: "first_row (insort_key k x ys) = (case first_row ys of None \<Rightarrow> Some x | Some z \<Rightarrow> Some (if k x \<le> k z then x else z))"
  by (cases ys) auto

lemma first_order_by_snoc:
  "first_row (order_by k (xs @ [y])) = (case first_row (order_by k xs) of None \<Rightarrow> Some y | Some x \<Rightarrow> Some (if k x \<le> k y then x else y))"
proof (induction xs)
  case (Cons x xs)
  then show ?case
    by (cases "first_row (order_by k xs)") (auto simp: order_by_def first_insort)
qed (simp add: order_by_def)

lemma find_first: "find P xs = first_row (filter P xs)"
  by (induction xs) auto

subsection \<open>One row of its kind\<close>

lemma tbl_get_unique: "keys_unique pk rows \<Longrightarrow> r \<in> set rows \<Longrightarrow> tbl_get pk (pk r) rows = Some r"
proof (cases "tbl_get pk (pk r) rows")
  case None
  assume "r \<in> set rows"
  with None show ?thesis by (auto simp: tbl_get_None)
next
  case (Some x)
  assume k: "keys_unique pk rows" "r \<in> set rows"
  from Some have "x \<in> set rows" "pk x = pk r" by (auto dest: tbl_get_Some)
  then show ?thesis using Some key_eqD [OF k(1) _ k(2)] by blast
qed

lemma update_or_create_one:
  assumes "update_or_create pk q upd new rows = Inr rows'" and "keys_unique pk rows" and "q new" and "\<And>r. q r \<Longrightarrow> q (upd r)"
  obtains r where "filter q rows' = [r]" and "filter (\<lambda>x. \<not> q x) rows' = filter (\<lambda>x. \<not> q x) rows"
    and "filter q rows = [] \<and> r = new \<and> rows' = rows @ [new] \<or> (\<exists>r0. filter q rows = [r0] \<and> r = upd r0)"
proof (cases "filter q rows")
  case Nil
  then have "rows' = rows @ [new]" using assms(1) by (auto simp: update_or_create_def tbl_insert_def)
  then show ?thesis using that [of new] Nil assms(3) by simp
next
  case (Cons r0 rs)
  then have rs: "rs = []" and new: "rows' = tbl_update pk (pk r0) upd rows"
    using assms(1) by (auto simp: update_or_create_def split: list.splits)
  define g where "g = (\<lambda>r. if pk r = pk r0 then upd r else r)"
  have one: "filter q rows = [r0]" using Cons rs by simp
  have r0: "r0 \<in> set rows" "q r0" using arg_cong [OF one, of set] by auto
  have only: "pk r = pk r0 \<longleftrightarrow> r = r0" if "r \<in> set rows" for r
    using key_eqD [OF assms(2) that r0(1)] by blast
  have q: "q (g r) = q r" if "r \<in> set rows" for r
    using only [OF that] assms(4) r0(2) by (auto simp: g_def)
  have rows': "rows' = map g rows" unfolding new tbl_update_def g_def ..
  have "filter q rows' = map g (filter q rows)"
    unfolding rows' filter_map comp_def using q by (auto cong: filter_cong)
  then have 1: "filter q rows' = [upd r0]" unfolding one by (simp add: g_def)
  have "filter (\<lambda>x. \<not> q x) rows' = map g (filter (\<lambda>x. \<not> q x) rows)"
    unfolding rows' filter_map comp_def using q by (auto cong: filter_cong)
  also have "\<dots> = filter (\<lambda>x. \<not> q x) rows"
    using only r0(2) by (intro map_idI) (auto simp: g_def)
  finally show ?thesis using that [OF 1] one by blast
qed

lemma filter_within: "(\<And>x. x \<in> set xs \<Longrightarrow> P x \<Longrightarrow> q x) \<Longrightarrow> filter P xs = filter P (filter q xs)"
  by (induction xs) auto

subsection \<open>A device without another address\<close>

definition setup_keys :: "db \<Rightarrow> bool" where
  "setup_keys d = (keys_unique pc_id (protocol_configs d) \<and> keys_unique cr_id (credentials d)
     \<and> keys_unique pp_id (polling_profiles d) \<and> keys_unique pg_id (polling_configs d))"

lemma put_protocol_config_only:
  assumes "put_protocol_config e protocol dev o' d = Inr d'" and "keys_unique pc_id (protocol_configs d)"
    and "\<forall>c\<in>set (protocol_configs d). pc_device c = dev_id dev \<and> pc_protocol c = protocol \<and> pc_is_enabled c \<longrightarrow> same_endpoint dev protocol o' c"
  shows "\<exists>pc. d' = d\<lparr>protocol_configs := protocol_configs d'\<rparr> \<and> protocol_config_for d' dev protocol = Some pc \<and> pc_host pc = so_host o'
    \<and> pc_port pc = Some (so_port o') \<and> pc_timeout_seconds pc = so_timeout o' \<and> pc_retry_count pc = so_retries o'"
proof -
  let ?q = "same_endpoint dev protocol o'"
  let ?set = "\<lambda>c. c\<lparr>pc_timeout_seconds := so_timeout o', pc_retry_count := so_retries o', pc_is_primary := True, pc_is_enabled := True\<rparr>"
  from assms(1) obtain new rows where u: "update_or_create pc_id ?q ?set new (protocol_configs d) = Inr rows" and d': "d' = d\<lparr>protocol_configs := rows\<rparr>"
    and new: "?q new" "pc_is_enabled new" "pc_timeout_seconds new = so_timeout o'" "pc_retry_count new = so_retries o'"
    by (auto simp: put_protocol_config_def same_endpoint_def split: sum.splits if_splits)
  obtain r where r: "filter ?q rows = [r]" "filter (\<lambda>x. \<not> ?q x) rows = filter (\<lambda>x. \<not> ?q x) (protocol_configs d)"
    and r': "filter ?q (protocol_configs d) = [] \<and> r = new \<and> rows = protocol_configs d @ [new] \<or> (\<exists>r0. filter ?q (protocol_configs d) = [r0] \<and> r = ?set r0)"
    by (rule update_or_create_one [OF u assms(2) new(1)]) (simp add: same_endpoint_def, blast)
  have rq: "?q r" "r \<in> set rows" using arg_cong [OF r(1), of set] by auto
  have vals: "pc_is_enabled r" "pc_timeout_seconds r = so_timeout o'" "pc_retry_count r = so_retries o'" using r' new by auto
  let ?P = "\<lambda>c. pc_device c = dev_id dev \<and> pc_protocol c = protocol \<and> pc_is_enabled c"
  have "filter ?P rows = filter ?P (filter ?q rows)"
  proof (rule filter_within)
    fix c assume c: "c \<in> set rows" "?P c"
    show "?q c"
    proof (rule ccontr)
      assume n: "\<not> ?q c"
      then have "c \<in> set (protocol_configs d)" using c(1) arg_cong [OF r(2), of set] by auto
      then show False using assms(3) c(2) n by blast
    qed
  qed
  also have "\<dots> = [r]" using rq(1) vals(1) unfolding r(1) by (simp add: same_endpoint_def)
  finally show ?thesis using rq(1) vals unfolding d' protocol_config_for_def by (simp add: same_endpoint_def)
qed

lemma put_credential_active:
  assumes "put_credential e f dev o' d = Inr d'" and "keys_unique cr_id (credentials d)"
  shows "\<exists>cr. d' = d\<lparr>credentials := credentials d'\<rparr> \<and> active_credential d' dev = Some cr \<and> cr_snmp_version cr = Some (so_version o')
    \<and> cr_snmp_community cr = encrypt_secret f (so_community o') \<and> cr_username cr = so_username o'"
proof -
  let ?q = "\<lambda>c. cr_device c = dev_id dev \<and> cr_protocol c = SNMP"
  from assms(1) obtain new rows where u: "update_or_create cr_id ?q (set_credential e f o') (set_credential e f o' new) (credentials d) = Inr rows"
    and d': "d' = d\<lparr>credentials := rows\<rparr>" and "?q new"
    by (auto simp: put_credential_def split: sum.splits if_splits)
  then have new: "?q (set_credential e f o' new)" by (simp add: set_credential_def)
  obtain r where r: "filter ?q rows = [r]"
    and r': "r = set_credential e f o' new \<or> (\<exists>r0. r = set_credential e f o' r0)"
    by (rule update_or_create_one [OF u assms(2) new]) (simp add: set_credential_def, blast)
  have "filter (\<lambda>c. cr_device c = dev_id dev \<and> cr_protocol c = SNMP \<and> cr_is_active c) rows = [r]"
  proof -
    have "filter (\<lambda>c. cr_device c = dev_id dev \<and> cr_protocol c = SNMP \<and> cr_is_active c) rows = filter cr_is_active (filter ?q rows)"
      by (simp add: conj_ac)
    then show ?thesis using r' unfolding r by (auto simp: set_credential_def)
  qed
  then show ?thesis using r' unfolding d' active_credential_def by (auto simp: set_credential_def)
qed

lemma schedule_device_due:
  assumes "schedule_device e protocol prefix dev o' d = (Inr (), d')" and "keys_unique pp_id (polling_profiles d)" and "keys_unique pg_id (polling_configs d)"
  shows "\<exists>c p. d' = d\<lparr>polling_profiles := polling_profiles d', polling_configs := polling_configs d'\<rparr>
    \<and> c \<in> set (polling_configs d') \<and> polling_config_of d' (dev_id dev) = Some (c, p) \<and> pp_name p = profile_name prefix o' \<and> pp_protocol p = protocol
    \<and> pg_is_enabled c \<and> pg_next_poll_at c = Some (now e)"
proof -
  from assms(1) obtain p d1 where 1: "ensure_profile protocol prefix o' d = Inr (p, d1)" and 2: "put_polling_config e dev p d1 = Inr d'"
    by (auto simp: schedule_device_def split: sum.splits prod.splits)
  from 1 obtain profiles where d1: "d1 = d\<lparr>polling_profiles := profiles\<rparr>" and p: "tbl_get pp_id (pp_id p) profiles = Some p"
    and pn: "pp_name p = profile_name prefix o'" "pp_protocol p = protocol"
  proof -
    let ?q = "\<lambda>p. pp_name p = profile_name prefix o' \<and> pp_protocol p = protocol"
    from 1 obtain new profiles where g: "get_or_create ?q new (polling_profiles d) = Inr (p, profiles)" and d1: "d1 = d\<lparr>polling_profiles := profiles\<rparr>"
      and new: "?q new" "pp_id new = fresh_key pp_id (polling_profiles d)"
      by (auto simp: ensure_profile_def split: sum.splits prod.splits if_splits)
    show ?thesis
    proof (cases "filter ?q (polling_profiles d)")
      case Nil
      then have "p = new" "profiles = tbl_insert new (polling_profiles d)" using g by (auto simp: get_or_create_def)
      then show ?thesis using that [OF d1] new fresh_key_notin [of pp_id "polling_profiles d"] by (simp add: tbl_get_insert_fresh)
    next
      case (Cons r rs)
      then have "rs = []" and pr: "p = r" "profiles = polling_profiles d" using g by (auto simp: get_or_create_def split: list.splits)
      then have "r \<in> set (polling_profiles d)" "?q r" using Cons by (auto dest!: arg_cong [of _ _ set])
      then show ?thesis using that [OF d1] pr assms(2) by (simp add: tbl_get_unique)
    qed
  qed
  let ?q = "\<lambda>c. pg_device c = dev_id dev"
  from 2 obtain new rows where u: "update_or_create pg_id ?q (\<lambda>c. c\<lparr>pg_polling_profile := pp_id p, pg_is_enabled := True, pg_next_poll_at := Some (now e)\<rparr>)
      new (polling_configs d) = Inr rows" and d': "d' = d1\<lparr>polling_configs := rows\<rparr>" and new: "?q new"
      "pg_polling_profile new = pp_id p" "pg_is_enabled new" "pg_next_poll_at new = Some (now e)"
    by (auto simp: put_polling_config_def d1 split: sum.splits)
  obtain r where r: "filter ?q rows = [r]"
    and r': "r = new \<or> (\<exists>r0. r = r0\<lparr>pg_polling_profile := pp_id p, pg_is_enabled := True, pg_next_poll_at := Some (now e)\<rparr>)"
    by (rule update_or_create_one [OF u assms(3) new(1)]) (simp, blast)
  have v: "pg_polling_profile r = pp_id p" "pg_is_enabled r" "pg_next_poll_at r = Some (now e)" using r' new by auto
  have "r \<in> set rows" using arg_cong [OF r, of set] by auto
  then show ?thesis using v p pn r unfolding d' d1 polling_config_of_def find_first by (simp add: profile_of_def)
qed

lemma decrypt_encrypted:
  assumes "\<And>s. fe_decrypt f (fe_encrypt f s) = Some s" and "case v of None \<Rightarrow> True | Some s \<Rightarrow> \<not> startswith s PREFIX"
  shows "decrypt_secret f (encrypt_secret f v) = v"
  using assms by (auto simp: encrypt_secret_def decrypt_secret_def startswith_append PREFIX_def split: option.splits)


subsection \<open>A device with an old address\<close>

lemma put_protocol_config_keeps:
  assumes "put_protocol_config e protocol dev o' d = Inr d'" and "protocol_config_for d dev protocol = Some c"
    and "pc_is_primary c" and "pc_created_at c \<le> now e" and "\<forall>x\<in>set (protocol_configs d). \<not> same_endpoint dev protocol o' x"
  shows "d' = d\<lparr>protocol_configs := protocol_configs d'\<rparr> \<and> protocol_config_for d' dev protocol = Some c"
proof -
  have "filter (same_endpoint dev protocol o') (protocol_configs d) = []" using assms(5) by (simp add: filter_empty_conv)
  with assms(1) obtain new where d': "d' = d\<lparr>protocol_configs := protocol_configs d @ [new]\<rparr>"
    and new: "pc_created_at new = now e" "pc_is_primary new" "pc_is_enabled new" "pc_device new = dev_id dev" "pc_protocol new = protocol"
    by (auto simp: put_protocol_config_def update_or_create_def tbl_insert_def split: if_splits)
  show ?thesis using assms(2-4) new unfolding d' protocol_config_for_def by (auto simp: first_order_by_snoc)
qed

text \<open>If the device has an enabled primary address and the given one is new, the command succeeds, but every later poll goes to the old
  address, with the new credential: the rows are primary both and the older one is read.\<close>

theorem snmp_setup_keeps_old_address:
  assumes "set_device_snmp e f k o' d = (Inr (), d')" and "device_of d k = Some dev" and "setup_keys d"
    and "protocol_config_for d dev SNMP = Some c" and "pc_is_primary c" and "pc_created_at c \<le> now e"
    and "\<forall>x\<in>set (protocol_configs d). \<not> same_endpoint dev SNMP o' x"
  shows "(\<exists>x\<in>set (protocol_configs d'). same_endpoint dev SNMP o' x \<and> pc_is_primary x \<and> pc_is_enabled x)
    \<and> \<not> same_endpoint dev SNMP o' c
    \<and> (\<forall>pc cr ms. get_device_snmp_runtime d' dev = Inr (pc, cr, ms) \<longrightarrow> pc = c \<and> cr_snmp_version cr = Some (so_version o'))"
proof -
  from assms(1,2) obtain d1 d2 where 1: "put_protocol_config e SNMP dev o' d = Inr d1"
    and 2: "put_credential e f dev o' d1 = Inr d2" and 3: "schedule_device e SNMP ''SNMP'' dev o' d2 = (Inr (), d')"
    by (auto simp: set_device_snmp_def split: option.splits sum.splits)
  have k: "keys_unique cr_id (credentials d)" "keys_unique pp_id (polling_profiles d)" "keys_unique pg_id (polling_configs d)"
    using assms(3) by (simp_all add: setup_keys_def)
  have d1: "d1 = d\<lparr>protocol_configs := protocol_configs d1\<rparr>" and pc: "protocol_config_for d1 dev SNMP = Some c"
    using put_protocol_config_keeps [OF 1 assms(4-7)] by blast+
  have c1: "credentials d1 = credentials d" "polling_profiles d1 = polling_profiles d" "polling_configs d1 = polling_configs d"
    by (subst d1, simp)+
  have "filter (same_endpoint dev SNMP o') (protocol_configs d) = []" using assms(7) by (simp add: filter_empty_conv)
  with 1 have new: "\<exists>x\<in>set (protocol_configs d1). same_endpoint dev SNMP o' x \<and> pc_is_primary x \<and> pc_is_enabled x"
    by (auto simp: put_protocol_config_def update_or_create_def same_endpoint_def split: if_splits)
  obtain cr where d2: "d2 = d1\<lparr>credentials := credentials d2\<rparr>" and cr: "active_credential d2 dev = Some cr" "cr_snmp_version cr = Some (so_version o')"
    using put_credential_active [OF 2 k(1) [folded c1(1)]] by blast
  have c2: "protocol_configs d2 = protocol_configs d1" "polling_profiles d2 = polling_profiles d" "polling_configs d2 = polling_configs d"
    by (subst d2, simp add: c1)+
  have d': "d' = d2\<lparr>polling_profiles := polling_profiles d', polling_configs := polling_configs d'\<rparr>"
    using schedule_device_due [OF 3 k(2) [folded c2(2)] k(3) [folded c2(3)]] by blast
  have c3: "protocol_configs d' = protocol_configs d1" "credentials d' = credentials d2"
    by (subst d', simp add: c2)+
  have "protocol_config_for d' dev SNMP = Some c" "active_credential d' dev = Some cr"
    using pc cr(1) c3 by (simp_all add: protocol_config_for_def active_credential_def)
  moreover have "\<not> same_endpoint dev SNMP o' c"
    using assms(4,7) by (auto simp: protocol_config_for_def dest!: first_row_Some_in)
  ultimately show ?thesis using new cr(2) c3(1) by (auto simp: get_device_snmp_runtime_def Let_def split: if_splits)
qed

text \<open>A device that moves from 10.0.0.1 to 10.0.0.2.\<close>

definition moved_options :: snmp_options where
  "moved_options = \<lparr>so_host = ''10.0.0.2'', so_port = 161, so_interval = 60, so_timeout = 5, so_retries = 2, so_version = V2C,
     so_community = Some ''public'', so_username = None, so_auth_protocol = Some ''SHA256'', so_auth_key = None,
     so_priv_protocol = Some ''AES128'', so_priv_key = None\<rparr>"

definition setup_db :: "protocol_config list \<Rightarrow> db" where
  "setup_db cs = empty_db\<lparr>devices := [blank_device\<lparr>dev_id := 10, dev_is_active := True\<rparr>], protocol_configs := cs\<rparr>"

definition old_config :: protocol_config where
  "old_config = \<lparr>pc_id = 1, pc_created_at = 3, pc_device = 10, pc_protocol = SNMP, pc_host = ''10.0.0.1'', pc_port = Some 161,
     pc_timeout_seconds = 5, pc_retry_count = 2, pc_is_primary = True, pc_is_enabled = True\<rparr>"

lemma toy_fernet_inverts: "fe_decrypt toy_fernet (fe_encrypt toy_fernet s) = Some s"
  by (simp add: toy_fernet_def)

lemma setup_example:
  assumes "cs = [] \<or> cs = [old_config]"
  shows "fst (set_device_snmp (plain_env 5) toy_fernet 10 moved_options (setup_db cs)) = Inr ()"
    and "device_of (setup_db cs) 10 = Some (blank_device\<lparr>dev_id := 10, dev_is_active := True\<rparr>)" and "setup_keys (setup_db cs)"
proof -
  show dev: "device_of (setup_db cs) 10 = Some (blank_device\<lparr>dev_id := 10, dev_is_active := True\<rparr>)"
    by (simp add: device_of_def tbl_get_def setup_db_def)
  show "fst (set_device_snmp (plain_env 5) toy_fernet 10 moved_options (setup_db cs)) = Inr ()"
    using assms unfolding set_device_snmp_def dev
    by (auto simp: setup_db_def old_config_def moved_options_def check_snmp_options_def has_text_def put_protocol_config_def
        update_or_create_def same_endpoint_def blank_device_def fits_text_def fits_integer_def put_credential_def schedule_device_def
        ensure_profile_def get_or_create_def put_polling_config_def empty_db_def)
  show "setup_keys (setup_db cs)" using assms by (auto simp: setup_keys_def setup_db_def keys_unique_def empty_db_def)
qed


lemma snmp_setup_keeps_old_address_witness:
  "\<exists>d'. set_device_snmp (plain_env 5) toy_fernet 10 moved_options (setup_db [old_config]) = (Inr (), d')
     \<and> (\<forall>pc cr ms. get_device_snmp_runtime d' (blank_device\<lparr>dev_id := 10, dev_is_active := True\<rparr>) = Inr (pc, cr, ms) \<longrightarrow> pc_host pc = ''10.0.0.1'')"
proof -
  obtain d' where r: "set_device_snmp (plain_env 5) toy_fernet 10 moved_options (setup_db [old_config]) = (Inr (), d')"
    using setup_example(1) [of "[old_config]"] by (metis prod.collapse)
  have old: "protocol_config_for (setup_db [old_config]) (blank_device\<lparr>dev_id := 10, dev_is_active := True\<rparr>) SNMP = Some old_config"
    by (simp add: protocol_config_for_def setup_db_def old_config_def blank_device_def)
  from snmp_setup_keeps_old_address [OF r setup_example(2,3) old] r show ?thesis
    by (auto simp: setup_db_def moved_options_def old_config_def same_endpoint_def plain_env_def)
qed

end
