(* ===== verification/Notification_Commands.thy ===== *)
theory Notification_Commands
  imports Delivery Report_Params Device_Setup
begin

text \<open>
  The commands an operator runs on the notifications (\<open>apps/notifications/management/commands\<close>): requeue what hangs in delivery,
  queue what waits or failed, and send two test messages. What a command prints is its list of notifications and its counts.
\<close>

record command_output =
  co_listed :: "notification list"
  co_matched :: nat
  co_queued :: nat

definition requeue_stale_command ::
    "env \<Rightarrow> int \<Rightarrow> nat \<Rightarrow> notification_channel list \<Rightarrow> bool \<Rightarrow> db \<Rightarrow> command_output \<times> db" where
  "requeue_stale_command e older limit chs dry_run d =
     (let (matched, requeued, d') = requeue_stale_delivering_notifications e d older limit chs dry_run in
      (\<lparr>co_listed = (if dry_run then matched else requeued), co_matched = length matched, co_queued = length requeued\<rparr>, d'))"

text \<open>The keys of a comma-separated list; one that is no key makes the query raise.\<close>

fun parse_keys :: "string list \<Rightarrow> exn + uuid list" where
  "parse_keys [] = Inr []"
| "parse_keys (s # ss) = (case parse_pk (PStr s) of
     Inl x \<Rightarrow> Inl x
   | Inr k \<Rightarrow> (case parse_keys ss of Inl x \<Rightarrow> Inl x | Inr ks \<Rightarrow> Inr (k # ks)))"

definition id_values :: "string \<Rightarrow> string list" where
  "id_values s = filter (\<lambda>v. v \<noteq> []) (map strip (split_at CHR '','' s))"

definition retry_queryset :: "env \<Rightarrow> db \<Rightarrow> int \<Rightarrow> notification_channel list \<Rightarrow> uuid list \<Rightarrow> bool \<Rightarrow> notification list" where
  "retry_queryset e d older chs ids include_failed =
     filter (\<lambda>n. (nt_status n = PENDING \<or> include_failed \<and> nt_status n = FAILED) \<and> nt_created_at n \<le> now e - minutes older
        \<and> channel_filter chs n \<and> (ids = [] \<or> nt_id n \<in> set ids)) (notifications d)"

definition retry_pending_command ::
    "env \<Rightarrow> notification_channel list \<Rightarrow> int \<Rightarrow> nat \<Rightarrow> bool \<Rightarrow> string \<Rightarrow> bool \<Rightarrow> db \<Rightarrow> (exn + command_output) \<times> db" where
  "retry_pending_command e chs older limit dry_run ids include_failed d = (case parse_keys (id_values ids) of
      Inl x \<Rightarrow> (Inl x, d)
    | Inr ks \<Rightarrow>
       (let qs = order_by (\<lambda>n. (nt_created_at n, nt_id n)) (retry_queryset e d older chs ks include_failed);
            to_process = take limit qs
        in if dry_run then (Inr \<lparr>co_listed = to_process, co_matched = length qs, co_queued = 0\<rparr>, d)
           else (let (queued, d') = queue_pending_notifications e d limit (Some older) chs ks include_failed
             in (Inr \<lparr>co_listed = to_process, co_matched = length qs, co_queued = length queued\<rparr>, d'))))"

text \<open>The test command writes the given address and number into the row of an active user, before it looks for the organization. Waiting
  for the result only reads.\<close>

definition test_user :: "db \<Rightarrow> string \<Rightarrow> user option" where
  "test_user d username =
     (case (if username = [] then None else first_row (filter (\<lambda>u. usr_username u = username \<and> usr_is_active u) (users d))) of
        Some u \<Rightarrow> Some u
      | None \<Rightarrow> first_row (order_by usr_date_joined (filter usr_is_active (users d))))"

definition test_organization :: "db \<Rightarrow> string \<Rightarrow> command_error + organization" where
  "test_organization d code =
     (if code \<noteq> []
      then (case first_row (filter (\<lambda>x. org_code x = code \<and> org_status x = ''ACTIVE'') (organizations d)) of
          None \<Rightarrow> Inl (CommandError (''Organization not found for code='' @ code)) | Some x \<Rightarrow> Inr x)
      else (case first_row (order_by org_created_at (filter (\<lambda>x. org_status x = ''ACTIVE'') (organizations d))) of
          None \<Rightarrow> Inl (CommandError ''No active organization found'') | Some x \<Rightarrow> Inr x))"

definition test_notification :: "env \<Rightarrow> organization \<Rightarrow> user \<Rightarrow> notification_channel \<Rightarrow> string \<Rightarrow> db \<Rightarrow> notification \<times> db" where
  "test_notification e org u ch word d =
     (let n = \<lparr>nt_id = fresh_key nt_id (notifications d), nt_created_at = now e, nt_updated_at = now e, nt_organization = org_id org,
                nt_recipient = Some (usr_id u), nt_channel = ch, nt_dedupe_key = None, nt_subject = Some (''DCIM Test '' @ word @ '' Notification''),
                nt_message = ''This is a test '' @ (if ch = EMAIL then ''email'' else word) @ '' notification from DCIM.'', nt_status = PENDING,
                nt_sent_at = None, nt_read_at = None, nt_error_message = None,
                nt_metadata = [(''test'', PBool True), (''channel'', PStr (channel_value ch)), (''created_at'', PStr (isoformat e (now e))),
                  (''created_by'', PStr ''test_notification_delivery'')]\<rparr>
      in (n, d\<lparr>notifications := tbl_insert n (notifications d)\<rparr>))"

definition send_test :: "env \<Rightarrow> organization \<Rightarrow> user \<Rightarrow> db \<Rightarrow> notification list \<times> db" where
  "send_test e org u d =
     (let (a, d1) = test_notification e org u EMAIL ''Email'' d; (b, d2) = test_notification e org u SMS ''SMS'' d1 in
      ([a, b], d2\<lparr>outbox := outbox d2 @ [SendNotification (nt_id a), SendNotification (nt_id b)]\<rparr>))"

definition test_delivery_command ::
    "env \<Rightarrow> string \<Rightarrow> string \<Rightarrow> string \<Rightarrow> string \<Rightarrow> db \<Rightarrow> (command_error + notification list) \<times> db" where
  "test_delivery_command e username email phone code d = (case test_user d (strip username) of
      None \<Rightarrow> (Inl (CommandError ''No active user found''), d)
    | Some u \<Rightarrow>
       (let u' = u\<lparr>usr_email := (if strip email = [] then usr_email u else strip email), usr_phone := Some (strip phone)\<rparr>;
            d1 = d\<lparr>users := tbl_update usr_id (usr_id u) (\<lambda>_. u') (users d)\<rparr> in
        case test_organization d1 (strip code) of
          Inl x \<Rightarrow> (Inl x, d1)
        | Inr org \<Rightarrow> (let (ns, d2) = send_test e org u' d1 in (Inr ns, d2))))"

end
