(* ===== verification/Notification_Command_Props.thy ===== *)
theory Notification_Command_Props
  imports Notification_Commands Access_Scope
begin

text \<open>A dry run of a command changes nothing and names exactly what the same command does without it.\<close>

lemma queued_tasks:
  "list_all (\<lambda>n. nt_status n \<notin> claimed_statuses) ns \<Longrightarrow>
   foldl queue_notification_delivery d ns = d\<lparr>outbox := outbox d @ map (\<lambda>n. SendNotification (nt_id n)) ns\<rparr>"
  by (induction ns arbitrary: d) (auto simp: queue_notification_delivery_def)

lemma retry_queryset_unclaimed: "n \<in> set (retry_queryset e d older chs ids f) \<Longrightarrow> nt_status n \<notin> claimed_statuses"
  by (auto simp: retry_queryset_def claimed_statuses_def)

text \<open>A run of the retry command queues exactly what its dry run lists, with the same number of matches, and changes nothing but the queue:
  a failed notification keeps its status until a worker takes it.\<close>

theorem retry_dry_run_predicts:
  assumes "retry_pending_command e chs older limit True ids include_failed d = (Inr out, d')"
  shows "d' = d \<and> co_queued out = 0
    \<and> (\<forall>n\<in>set (co_listed out). nt_status n = PENDING \<or> include_failed \<and> nt_status n = FAILED)
    \<and> retry_pending_command e chs older limit False ids include_failed d =
        (Inr (out\<lparr>co_queued := length (co_listed out)\<rparr>), d\<lparr>outbox := outbox d @ map (\<lambda>n. SendNotification (nt_id n)) (co_listed out)\<rparr>)"
proof -
  from assms obtain ks where ks: "parse_keys (id_values ids) = Inr ks"
    by (auto simp: retry_pending_command_def split: sum.splits)
  let ?qs = "order_by (\<lambda>n. (nt_created_at n, nt_id n)) (retry_queryset e d older chs ks include_failed)"
  have out: "out = \<lparr>co_listed = take limit ?qs, co_matched = length ?qs, co_queued = 0\<rparr>" and d': "d' = d"
    using assms by (auto simp: retry_pending_command_def ks Let_def)
  have same: "notification_requeue_queryset e d limit (Some older) chs ks include_failed = take limit ?qs"
    by (simp add: notification_requeue_queryset_def retry_queryset_def)
  have rows: "set (take limit ?qs) \<subseteq> set (retry_queryset e d older chs ks include_failed)"
    using set_take_subset [of limit ?qs] by simp
  have un: "list_all (\<lambda>n. nt_status n \<notin> claimed_statuses) (take limit ?qs)"
    using rows retry_queryset_unclaimed by (fastforce simp: list_all_iff)
  have st: "\<forall>n\<in>set (take limit ?qs). nt_status n = PENDING \<or> include_failed \<and> nt_status n = FAILED"
    using rows by (fastforce simp: retry_queryset_def)
  have "retry_pending_command e chs older limit False ids include_failed d =
      (Inr (out\<lparr>co_queued := length (co_listed out)\<rparr>), d\<lparr>outbox := outbox d @ map (\<lambda>n. SendNotification (nt_id n)) (co_listed out)\<rparr>)"
    by (simp add: retry_pending_command_def ks queue_pending_notifications_def same queued_tasks [OF un] Let_def out)
  then show ?thesis using st d' out by simp
qed

lemma length_filter_members:
  assumes "distinct xs" and "distinct ms" and "set ms \<subseteq> set xs"
  shows "length (filter (\<lambda>n. n \<in> set ms) xs) = length ms"
proof -
  have "set (filter (\<lambda>n. n \<in> set ms) xs) = set ms" using assms(3) by auto
  then show ?thesis using assms(1,2) by (metis distinct_card distinct_filter)
qed

theorem requeue_dry_run_predicts:
  assumes "requeue_stale_command e older limit chs True d = (out, d')" and "keys_unique nt_id (notifications d)"
  shows "d' = d \<and> co_queued out = 0
    \<and> (\<exists>out' d''. requeue_stale_command e older limit chs False d = (out', d'') \<and> co_queued out' = co_matched out
        \<and> set (map nt_id (co_listed out')) = set (map nt_id (co_listed out))
        \<and> d'' = d\<lparr>notifications := map (\<lambda>n. if n \<in> set (co_listed out)
            then n\<lparr>nt_status := PENDING, nt_error_message := Some ''Requeued after stale DELIVERING timeout'', nt_updated_at := now e\<rparr> else n)
          (notifications d)\<rparr>)"
proof -
  let ?ms = "take limit (order_by (\<lambda>n. (nt_updated_at n, nt_id n)) (stale_delivering_queryset e d older chs))"
  let ?requeued = "\<lambda>n. n\<lparr>nt_status := PENDING, nt_error_message := Some ''Requeued after stale DELIVERING timeout'', nt_updated_at := now e\<rparr>"
  have out: "out = \<lparr>co_listed = ?ms, co_matched = length ?ms, co_queued = 0\<rparr>" and d': "d' = d"
    using assms(1) by (auto simp: requeue_stale_command_def requeue_stale_delivering_notifications_def Let_def)
  have ms: "set ?ms \<subseteq> set (stale_delivering_queryset e d older chs)"
    using set_take_subset [of limit "order_by (\<lambda>n. (nt_updated_at n, nt_id n)) (stale_delivering_queryset e d older chs)"] by simp
  have in_d: "n \<in> set (notifications d)" "nt_status n = DELIVERING" "\<not> nt_updated_at n > now e - minutes older" if "n \<in> set ?ms" for n
    using ms that by (auto simp: stale_delivering_queryset_def)
  have still: "still_stale e older (map nt_id ?ms) n \<longleftrightarrow> n \<in> set ?ms" if n: "n \<in> set (notifications d)" for n
  proof
    assume "still_stale e older (map nt_id ?ms) n"
    then obtain m where m: "m \<in> set ?ms" "nt_id m = nt_id n" by (auto simp: still_stale_def)
    then show "n \<in> set ?ms" using key_eqD [OF assms(2) in_d(1) [OF m(1)] n m(2)] by simp
  qed (auto simp: still_stale_def in_d(2,3))
  have "filter (still_stale e older (map nt_id ?ms)) (notifications d) = filter (\<lambda>n. n \<in> set ?ms) (notifications d)"
    using still by (auto intro: filter_cong)
  moreover have "map (\<lambda>n. if still_stale e older (map nt_id ?ms) n then ?requeued n else n) (notifications d)
      = map (\<lambda>n. if n \<in> set ?ms then ?requeued n else n) (notifications d)"
    using still by auto
  ultimately have r: "requeue_matched e older (map nt_id ?ms) d =
      (map ?requeued (filter (\<lambda>n. n \<in> set ?ms) (notifications d)), d\<lparr>notifications := map (\<lambda>n. if n \<in> set ?ms then ?requeued n else n) (notifications d)\<rparr>)"
    by (simp add: requeue_matched_def)
  have "distinct ?ms" using assms(2)
    by (auto intro!: distinct_take simp: stale_delivering_queryset_def keys_unique_def distinct_map)
  moreover have "distinct (notifications d)" using assms(2) by (simp add: keys_unique_def distinct_map)
  ultimately have "length (filter (\<lambda>n. n \<in> set ?ms) (notifications d)) = length ?ms"
    using in_d(1) by (intro length_filter_members) auto
  moreover have "set (map nt_id (map ?requeued (filter (\<lambda>n. n \<in> set ?ms) (notifications d)))) = set (map nt_id ?ms)"
    using in_d(1) by (force simp: image_image)
  ultimately show ?thesis unfolding requeue_stale_command_def requeue_stale_delivering_notifications_def
    by (simp add: out d' r Let_def image_image)
qed

text \<open>A failed and a hanging notification.\<close>

definition waiting_notes :: db where
  "waiting_notes = empty_db\<lparr>notifications := [blank_notification\<lparr>nt_id := 1, nt_status := FAILED\<rparr>, blank_notification\<lparr>nt_id := 2, nt_status := DELIVERING\<rparr>]\<rparr>"

lemma retry_dry_run_predicts_witness:
  "\<exists>out. fst (retry_pending_command (plain_env 400000000) [] 5 10 True [] True waiting_notes) = Inr out \<and> map nt_id (co_listed out) = [1]
     \<and> outbox (snd (retry_pending_command (plain_env 400000000) [] 5 10 False [] True waiting_notes)) = [SendNotification 1]"
proof -
  have ids: "parse_keys (id_values []) = Inr []" by (simp add: id_values_def strip_def)
  have rows: "retry_queryset (plain_env 400000000) waiting_notes 5 [] [] True = [blank_notification\<lparr>nt_id := 1, nt_status := FAILED\<rparr>]"
    by (simp add: retry_queryset_def waiting_notes_def blank_notification_def channel_filter_def plain_env_def minutes_def seconds_def)
  have r: "retry_pending_command (plain_env 400000000) [] 5 10 True [] True waiting_notes =
      (Inr \<lparr>co_listed = [blank_notification\<lparr>nt_id := 1, nt_status := FAILED\<rparr>], co_matched = 1, co_queued = 0\<rparr>, waiting_notes)"
    by (simp add: retry_pending_command_def ids rows)
  show ?thesis using retry_dry_run_predicts [OF r] r by (simp add: waiting_notes_def empty_db_def)
qed

lemma requeue_dry_run_predicts_witness:
  "map nt_id (co_listed (fst (requeue_stale_command (plain_env 400000000) 5 10 [] True waiting_notes))) = [2]
     \<and> map nt_status (notifications (snd (requeue_stale_command (plain_env 400000000) 5 10 [] False waiting_notes))) = [FAILED, PENDING]"
proof -
  have rows: "stale_delivering_queryset (plain_env 400000000) waiting_notes 5 [] = [blank_notification\<lparr>nt_id := 2, nt_status := DELIVERING\<rparr>]"
    by (simp add: stale_delivering_queryset_def waiting_notes_def blank_notification_def channel_filter_def plain_env_def minutes_def seconds_def)
  have r: "requeue_stale_command (plain_env 400000000) 5 10 [] True waiting_notes =
      (\<lparr>co_listed = [blank_notification\<lparr>nt_id := 2, nt_status := DELIVERING\<rparr>], co_matched = 1, co_queued = 0\<rparr>, waiting_notes)"
    by (simp add: requeue_stale_command_def requeue_stale_delivering_notifications_def rows)
  have k: "keys_unique nt_id (notifications waiting_notes)" by (simp add: waiting_notes_def keys_unique_def)
  show ?thesis using requeue_dry_run_predicts [OF r k] r by (auto simp: waiting_notes_def blank_notification_def)
qed

subsection \<open>The test command\<close>

lemma tbl_get_rewritten: "k \<in> pk ` set rows \<Longrightarrow> pk x = k \<Longrightarrow> tbl_get pk k (tbl_update pk k (\<lambda>_. x) rows) = Some x"
  by (induction rows) (auto simp: tbl_get_def tbl_update_def)

lemma test_user_stored: "test_user d name = Some u \<Longrightarrow> u \<in> set (users d)"
  by (auto simp: test_user_def split: if_splits option.splits dest!: first_row_Some_in)

text \<open>Testing the delivery changes the contact of the user it picks, by default the oldest active one, and keeps it changed when no
  organization is found; otherwise exactly two notifications to that user are stored and queued.\<close>

theorem test_command_overwrites_contact:
  assumes "test_user d (strip username) = Some u" and "test_delivery_command e username email phone code d = (res, d')"
  shows "(\<exists>u'. tbl_get usr_id (usr_id u) (users d') = Some u' \<and> usr_phone u' = Some (strip phone) \<and> (strip email \<noteq> [] \<longrightarrow> usr_email u' = strip email))
    \<and> (case res of
         Inl _ \<Rightarrow> notifications d' = notifications d \<and> outbox d' = outbox d
       | Inr ns \<Rightarrow> map nt_channel ns = [EMAIL, SMS] \<and> notifications d' = notifications d @ ns
           \<and> outbox d' = outbox d @ map (\<lambda>n. SendNotification (nt_id n)) ns \<and> (\<forall>n\<in>set ns. nt_recipient n = Some (usr_id u) \<and> nt_status n = PENDING))"
proof -
  let ?u = "u\<lparr>usr_email := (if strip email = [] then usr_email u else strip email), usr_phone := Some (strip phone)\<rparr>"
  let ?d = "d\<lparr>users := tbl_update usr_id (usr_id u) (\<lambda>_. ?u) (users d)\<rparr>"
  have run: "test_delivery_command e username email phone code d =
      (case test_organization ?d (strip code) of Inl x \<Rightarrow> (Inl x, ?d) | Inr org \<Rightarrow> (let (ns, d2) = send_test e org ?u ?d in (Inr ns, d2)))"
    using assms(1) by (simp add: test_delivery_command_def Let_def)
  have "users d' = users ?d"
    using assms(2) unfolding run by (auto simp: send_test_def test_notification_def Let_def split: sum.splits)
  moreover have "tbl_get usr_id (usr_id u) (users ?d) = Some ?u"
    using test_user_stored [OF assms(1)] by (simp add: tbl_get_rewritten)
  ultimately have "\<exists>u'. tbl_get usr_id (usr_id u) (users d') = Some u' \<and> usr_phone u' = Some (strip phone) \<and> (strip email \<noteq> [] \<longrightarrow> usr_email u' = strip email)"
    by simp
  moreover have "case res of
         Inl _ \<Rightarrow> notifications d' = notifications d \<and> outbox d' = outbox d
       | Inr ns \<Rightarrow> map nt_channel ns = [EMAIL, SMS] \<and> notifications d' = notifications d @ ns
           \<and> outbox d' = outbox d @ map (\<lambda>n. SendNotification (nt_id n)) ns \<and> (\<forall>n\<in>set ns. nt_recipient n = Some (usr_id u) \<and> nt_status n = PENDING)"
    using assms(2) unfolding run by (auto simp: send_test_def test_notification_def Let_def tbl_insert_def split: sum.splits)
  ultimately show ?thesis by blast
qed

lemma test_command_overwrites_contact_witness:
  "\<exists>u'. tbl_get usr_id 9 (users (snd (test_delivery_command (plain_env 5) [] ''test@example.com'' ''01700000000'' []
      (empty_db\<lparr>users := [blank_user\<lparr>usr_id := 9, usr_email := ''op@bank'', usr_is_active := True\<rparr>]\<rparr>)))) = Some u' \<and> usr_email u' = ''test@example.com''"
proof -
  let ?u = "blank_user\<lparr>usr_id := 9, usr_email := ''op@bank'', usr_is_active := True\<rparr>"
  have u: "test_user (empty_db\<lparr>users := [?u]\<rparr>) (strip []) = Some ?u" by (simp add: test_user_def strip_def)
  have m: "strip ''test@example.com'' = ''test@example.com''" by code_simp
  show ?thesis
    using test_command_overwrites_contact [OF u surjective_pairing, of "plain_env 5" "''test@example.com''" "''01700000000''" "[]"] m by auto
qed

end
