(* ===== verification/Audited_Views.thy ===== *)
theory Audited_Views
  imports Audit_Trail Report_Api Alert_Rules
begin

text \<open>
  The write requests of the views (\<open>apps/common/viewsets.py\<close>): the permission, the row among those the user may see, the change, and
  the audit entry. What a serializer checks and saves is an argument; it is given for alert rules and report templates. How a
  serializer renders a row is an argument too. No transaction spans a request.
\<close>

datatype 'r outcome = Forbidden | NotFound | Failed exn | Done 'r

text \<open>\<open>shown\<close> is \<open>serializer.data\<close>, \<open>columns\<close> the texts of the columns before an update.\<close>

record 'r audited_model =
  am_type :: string
  am_module :: string
  am_key :: "'r \<Rightarrow> uuid"
  am_organization :: "'r \<Rightarrow> uuid option"
  am_shown :: "'r \<Rightarrow> py"
  am_columns :: "'r \<Rightarrow> py"

subsection \<open>The hooks of the views\<close>

definition audit_write ::
    "env \<Rightarrow> (string \<Rightarrow> bool) \<Rightarrow> web_request \<Rightarrow> 'r audited_model \<Rightarrow> string \<Rightarrow> py option \<Rightarrow> py option \<Rightarrow> 'r \<Rightarrow> db \<Rightarrow> (exn + unit) \<times> db" where
  "audit_write e inet req m action old_value new_value r d =
     (case write_audit inet e (Some req) action (Some (am_type m)) (Some (am_key m r)) old_value new_value None (am_organization m r) None d of
        (Inl x, d') \<Rightarrow> (Inl x, d')
      | (Inr _, d') \<Rightarrow> (Inr (), d'))"

definition perform_create ::
    "env \<Rightarrow> (string \<Rightarrow> bool) \<Rightarrow> web_request \<Rightarrow> 'r audited_model \<Rightarrow> (db \<Rightarrow> (exn + 'r) \<times> db) \<Rightarrow> db \<Rightarrow> 'r outcome \<times> db" where
  "perform_create e inet req m save d = (case save d of
      (Inl x, d1) \<Rightarrow> (Failed x, d1)
    | (Inr r, d1) \<Rightarrow> (case audit_write e inet req m ''CREATE'' None (Some (am_shown m r)) r d1 of
        (Inl x, d2) \<Rightarrow> (Failed x, d2)
      | (Inr _, d2) \<Rightarrow> (Done r, d2)))"

definition perform_update ::
    "env \<Rightarrow> (string \<Rightarrow> bool) \<Rightarrow> web_request \<Rightarrow> 'r audited_model \<Rightarrow> 'r \<Rightarrow> (db \<Rightarrow> (exn + 'r) \<times> db) \<Rightarrow> db \<Rightarrow> 'r outcome \<times> db" where
  "perform_update e inet req m old save d = (case save d of
      (Inl x, d1) \<Rightarrow> (Failed x, d1)
    | (Inr r, d1) \<Rightarrow> (case audit_write e inet req m ''UPDATE'' (Some (am_columns m old)) (Some (am_shown m r)) r d1 of
        (Inl x, d2) \<Rightarrow> (Failed x, d2)
      | (Inr _, d2) \<Rightarrow> (Done r, d2)))"

definition perform_destroy ::
    "env \<Rightarrow> (string \<Rightarrow> bool) \<Rightarrow> web_request \<Rightarrow> 'r audited_model \<Rightarrow> 'r \<Rightarrow> (db \<Rightarrow> db) \<Rightarrow> db \<Rightarrow> 'r outcome \<times> db" where
  "perform_destroy e inet req m r delete d = (case audit_write e inet req m ''DELETE'' None None r d of
      (Inl x, d1) \<Rightarrow> (Failed x, d1)
    | (Inr _, d1) \<Rightarrow> (Done r, delete d1))"

subsection \<open>A request\<close>

definition write_permission :: "user \<Rightarrow> string \<Rightarrow> string \<Rightarrow> view_request" where
  "write_permission u act pmod = \<lparr>req_user = Some u, req_safe_method = False, view_action = Some act, view_permission_module = Some pmod\<rparr>"

definition create_view ::
    "env \<Rightarrow> (string \<Rightarrow> bool) \<Rightarrow> web_request \<Rightarrow> user \<Rightarrow> 'r audited_model \<Rightarrow> (db \<Rightarrow> (exn + 'r) \<times> db) \<Rightarrow> db \<Rightarrow> 'r outcome \<times> db" where
  "create_view e inet req u m save d =
     (if \<not> has_permission d (write_permission u ''create'' (am_module m)) then (Forbidden, d)
      else perform_create e inet req m save d)"

definition update_view ::
    "env \<Rightarrow> (string \<Rightarrow> bool) \<Rightarrow> web_request \<Rightarrow> user \<Rightarrow> 'r audited_model \<Rightarrow> 'r list \<Rightarrow> uuid \<Rightarrow> ('r \<Rightarrow> db \<Rightarrow> (exn + 'r) \<times> db) \<Rightarrow> db \<Rightarrow> 'r outcome \<times> db" where
  "update_view e inet req u m queryset k save d =
     (if \<not> has_permission d (write_permission u ''update'' (am_module m)) then (Forbidden, d)
      else case find (\<lambda>r. am_key m r = k) queryset of
        None \<Rightarrow> (NotFound, d)
      | Some r \<Rightarrow> perform_update e inet req m r (save r) d)"

definition destroy_view ::
    "env \<Rightarrow> (string \<Rightarrow> bool) \<Rightarrow> web_request \<Rightarrow> user \<Rightarrow> 'r audited_model \<Rightarrow> 'r list \<Rightarrow> uuid \<Rightarrow> ('r \<Rightarrow> db \<Rightarrow> db) \<Rightarrow> db \<Rightarrow> 'r outcome \<times> db" where
  "destroy_view e inet req u m queryset k delete d =
     (if \<not> has_permission d (write_permission u ''destroy'' (am_module m)) then (Forbidden, d)
      else case find (\<lambda>r. am_key m r = k) queryset of
        None \<Rightarrow> (NotFound, d)
      | Some r \<Rightarrow> perform_destroy e inet req m r (delete r) d)"

subsection \<open>Alert rules\<close>

text \<open>The serializer of the rules checks nothing of its own: the organization is the one that was sent.\<close>

definition rule_model :: "(alert_rule \<Rightarrow> py) \<Rightarrow> (alert_rule \<Rightarrow> py) \<Rightarrow> alert_rule audited_model" where
  "rule_model shown columns = \<lparr>am_type = ''AlertRule'', am_module = ''alert'', am_key = ar_id,
     am_organization = (\<lambda>r. Some (ar_organization r)), am_shown = shown, am_columns = columns\<rparr>"

definition rule_fields :: "alert_rule fields" where
  "rule_fields l = (case l of
      L_ORGANIZATION \<Rightarrow> Some (\<lambda>r. Some (ar_organization r))
    | L_DATA_CENTER \<Rightarrow> Some ar_data_center
    | L_DEVICE \<Rightarrow> Some ar_device
    | _ \<Rightarrow> None)"

definition rule_queryset :: "db \<Rightarrow> user \<Rightarrow> alert_rule list" where
  "rule_queryset d u = filter_queryset_for_user d (Some u) None rule_fields (alert_rules d)"

definition store_rule :: "env \<Rightarrow> alert_rule \<Rightarrow> db \<Rightarrow> (exn + alert_rule) \<times> db" where
  "store_rule e r d = (case save_rule e d r of Inl x \<Rightarrow> (Inl x, d) | Inr d' \<Rightarrow> (Inr r, d'))"

definition create_rule_view ::
    "env \<Rightarrow> (string \<Rightarrow> bool) \<Rightarrow> web_request \<Rightarrow> user \<Rightarrow> (alert_rule \<Rightarrow> py) \<Rightarrow> (alert_rule \<Rightarrow> py) \<Rightarrow> alert_rule \<Rightarrow> db \<Rightarrow> alert_rule outcome \<times> db" where
  "create_rule_view e inet req u shown columns r d =
     create_view e inet req u (rule_model shown columns) (store_rule e (r\<lparr>ar_id := fresh_key ar_id (alert_rules d), ar_created_at := now e\<rparr>)) d"

definition destroy_rule_view ::
    "env \<Rightarrow> (string \<Rightarrow> bool) \<Rightarrow> web_request \<Rightarrow> user \<Rightarrow> (alert_rule \<Rightarrow> py) \<Rightarrow> (alert_rule \<Rightarrow> py) \<Rightarrow> uuid \<Rightarrow> db \<Rightarrow> alert_rule outcome \<times> db" where
  "destroy_rule_view e inet req u shown columns k d =
     destroy_view e inet req u (rule_model shown columns) (rule_queryset d u) k (\<lambda>r d. delete_rule e d r) d"

subsection \<open>Report templates\<close>

definition template_model :: "(report_template \<Rightarrow> py) \<Rightarrow> (report_template \<Rightarrow> py) \<Rightarrow> report_template audited_model" where
  "template_model shown columns = \<lparr>am_type = ''ReportTemplate'', am_module = ''report'', am_key = rt_id,
     am_organization = (\<lambda>t. Some (rt_organization t)), am_shown = shown, am_columns = columns\<rparr>"

definition store_template :: "user \<Rightarrow> report_template \<Rightarrow> db \<Rightarrow> (exn + report_template) \<times> db" where
  "store_template u t d = (case validate_template d (Some u) (rt_organization t) (rt_config t) of
      Inl x \<Rightarrow> (Inl x, d)
    | Inr _ \<Rightarrow> save_template t d)"

definition create_template_view ::
    "env \<Rightarrow> (string \<Rightarrow> bool) \<Rightarrow> web_request \<Rightarrow> user \<Rightarrow> (report_template \<Rightarrow> py) \<Rightarrow> (report_template \<Rightarrow> py) \<Rightarrow> report_template \<Rightarrow> db
      \<Rightarrow> report_template outcome \<times> db" where
  "create_template_view e inet req u shown columns t d =
     create_view e inet req u (template_model shown columns) (store_template u (t\<lparr>rt_id := fresh_key rt_id (report_templates d)\<rparr>)) d"

end
