(* ===== verification/Audited_View_Props.thy ===== *)
theory Audited_View_Props
  imports Audited_Views
begin

text \<open>
  What a write request leaves behind: the row and exactly one audit entry, or, when the client sends an address that is none, a row
  without an entry. Which organization a request may write to depends on the serializer only.
\<close>

subsection \<open>The scope of a user reads the sites and access rows only\<close>

lemma access_scope_frame:
  assumes "data_centers d' = data_centers d" "rooms d' = rooms d" "racks d' = racks d" "devices d' = devices d" "roles d' = roles d" "accesses d' = accesses d"
  shows "get_access_scope d' u = get_access_scope d u"
proof -
  have of: "data_center_of d' = data_center_of d" "room_of d' = room_of d" "rack_of d' = rack_of d" "device_of d' = device_of d" "role_of d' = role_of d"
    by (intro ext; simp add: data_center_of_def room_of_def rack_of_def device_of_def role_of_def assms)+
  have 1: "add_data_center_key d' = add_data_center_key d" unfolding add_data_center_key_def of ..
  have 2: "add_room d' = add_room d" unfolding add_room_def 1 ..
  have 3: "add_room_key d' = add_room_key d" unfolding add_room_key_def of 2 ..
  have 4: "add_rack d' = add_rack d" unfolding add_rack_def 1 3 ..
  have 5: "add_rack_key d' = add_rack_key d" unfolding add_rack_key_def of 4 ..
  have 6: "add_device d' = add_device d" unfolding add_device_def 1 3 5 ..
  have 7: "add_devices d' = add_devices d" "add_rooms d' = add_rooms d" "add_racks d' = add_racks d"
    unfolding add_devices_def add_rooms_def add_racks_def 2 4 6 by (rule refl)+
  have 8: "add_data_center_tree d' = add_data_center_tree d" unfolding add_data_center_tree_def 7 assms ..
  have 9: "expand_row_scope d' = expand_row_scope d"
    unfolding expand_row_scope_def row_is_global_def expand_organization_def expand_data_center_def expand_room_def expand_rack_def
      expand_device_def of assms 1 3 5 6 7 8 ..
  have 10: "expand_rows d' s rs = expand_rows d s rs" for s rs
    by (induction rs arbitrary: s) (simp_all add: 9 Let_def)
  show ?thesis unfolding get_access_scope_def get_user_resource_access_rows_def assms 10 ..
qed

subsection \<open>Saving and auditing\<close>

definition address_ok :: "(string \<Rightarrow> bool) \<Rightarrow> web_request \<Rightarrow> bool" where
  "address_ok inet req = (client_ip req = [] \<or> inet (client_ip req))"

definition entry :: "env \<Rightarrow> web_request \<Rightarrow> 'r audited_model \<Rightarrow> string \<Rightarrow> py option \<Rightarrow> py option \<Rightarrow> 'r \<Rightarrow> audit_log" where
  "entry e req m action old_value new_value r =
     audit_row e (Some req) action (Some (am_type m)) (Some (am_key m r)) old_value new_value None (am_organization m r) None"

lemma audit_write_cases:
  "audit_write e inet req m action a b r d =
     (if address_ok inet req then (Inr (), d\<lparr>audit_logs := audit_logs d @ [entry e req m action a b r]\<rparr>) else (Inl DataError, d))"
  by (simp add: audit_write_def write_audit_def address_ok_def entry_def audit_row_def Let_def)

text \<open>What a serializer's \<open>save\<close> promises the views.\<close>

locale audited_save =
  fixes save :: "db \<Rightarrow> (exn + 'r) \<times> db"
  assumes refused: "save d = (Inl x, d') \<Longrightarrow> d' = d"
    and keeps_audit: "save d = (Inr r, d') \<Longrightarrow> audit_logs d' = audit_logs d"
begin

lemma create_outcome:
  "perform_create e inet req m save d = (out, d') \<Longrightarrow>
     (\<exists>x. save d = (Inl x, d) \<and> out = Failed x \<and> d' = d)
   \<or> (\<exists>r d1. save d = (Inr r, d1) \<and> address_ok inet req \<and> out = Done r
        \<and> d' = d1\<lparr>audit_logs := audit_logs d @ [entry e req m ''CREATE'' None (Some (am_shown m r)) r]\<rparr>)
   \<or> (\<exists>r d1. save d = (Inr r, d1) \<and> \<not> address_ok inet req \<and> out = Failed DataError \<and> d' = d1 \<and> audit_logs d1 = audit_logs d)"
  by (auto simp: perform_create_def audit_write_cases refused keeps_audit split: prod.splits sum.splits if_splits)

end

lemma save_rule_cases: "save_rule e d r = Inr d' \<Longrightarrow> d' = after_commit e (put_rule r d)"
  by (auto simp: save_rule_def split: sum.splits)

interpretation rule_writes: audited_save "store_rule e r"
  by unfold_locales (auto simp: store_rule_def put_rule_def after_commit_def dest: save_rule_cases split: sum.splits)

interpretation template_writes: audited_save "store_template u t"
  by unfold_locales (auto simp: store_template_def save_template_def split: sum.splits)

lemma stored_rule: "store_rule e r d = (Inr r', d1) \<Longrightarrow> r' = r \<and> r \<in> set (alert_rules d1)"
  by (auto simp: store_rule_def put_rule_def frame_simps tbl_put_has dest!: save_rule_cases split: sum.splits)

lemma rule_tables:
  assumes "store_rule e r d = (Inr r', d1)"
  shows "d1 = d\<lparr>alert_rules := alert_rules d1, shared_cache := shared_cache d1\<rparr>"
  using assms by (auto simp: store_rule_def put_rule_def after_commit_def dest!: save_rule_cases split: sum.splits)


text \<open>A client whose forwarded address is none: the rule is stored without an audit entry although the request fails, while a deletion
  does nothing.\<close>

theorem bad_address_unaudited:
  assumes "\<not> address_ok inet req" and "has_permission d (write_permission u ''create'' ''alert'')"
    and "store_rule e (r\<lparr>ar_id := fresh_key ar_id (alert_rules d), ar_created_at := now e\<rparr>) d = (Inr r', d1)"
  shows "create_rule_view e inet req u shown columns r d = (Failed DataError, d1) \<and> r' \<in> set (alert_rules d1) \<and> r' \<notin> set (alert_rules d)
    \<and> audit_logs d1 = audit_logs d \<and> snd (destroy_rule_view e inet req u shown columns k d) = d"
proof -
  have new: "r' \<in> set (alert_rules d1)" "ar_id r' = fresh_key ar_id (alert_rules d)" using stored_rule [OF assms(3)] by auto
  then have "r' \<notin> set (alert_rules d)" using fresh_key_notin [of ar_id "alert_rules d"] by force
  moreover have "create_rule_view e inet req u shown columns r d = (Failed DataError, d1)"
    using assms by (simp add: create_rule_view_def create_view_def perform_create_def audit_write_cases rule_model_def)
  moreover have "snd (destroy_rule_view e inet req u shown columns k d) = d"
    using assms(1) by (simp add: destroy_rule_view_def destroy_view_def perform_destroy_def audit_write_cases split: option.split)
  ultimately show ?thesis using new rule_writes.keeps_audit [OF assms(3)] by simp
qed

lemma rule_unseen:
  assumes "\<not> user_can_access_organization d (Some u) (ar_organization r)" and "ar_data_center r = None" and "ar_device r = None"
  shows "r \<notin> set (rule_queryset d u)"
  using assms by (auto simp: rule_queryset_def filter_queryset_for_user_def filter_by_scope_def user_can_access_organization_def
      level_matches_def in_ids_def rule_fields_def all_levels_def split: if_splits)

text \<open>C35. Permissions are not tied to an organization: a user who may create alert rules somewhere creates one for any organization, and then
  cannot see it. A report template can only be created for an organization of the user.\<close>

theorem rules_created_anywhere:
  assumes "address_ok inet req" and "has_permission d (write_permission u ''create'' ''alert'')"
    and "\<not> user_can_access_organization d (Some u) (ar_organization r)" and "ar_data_center r = None" and "ar_device r = None"
    and "clean_rule d (r\<lparr>ar_id := fresh_key ar_id (alert_rules d), ar_created_at := now e\<rparr>) = Inr ()"
  shows "(\<exists>r' d'. create_rule_view e inet req u shown columns r d = (Done r', d') \<and> r' \<in> set (alert_rules d')
      \<and> ar_organization r' = ar_organization r \<and> r' \<notin> set (rule_queryset d' u))
    \<and> (\<forall>t t' d'. create_template_view e inet req u tshown tcolumns t d = (Done t', d')
        \<longrightarrow> user_can_access_organization d (Some u) (rt_organization t'))"
proof (intro conjI allI impI)
  let ?r = "r\<lparr>ar_id := fresh_key ar_id (alert_rules d), ar_created_at := now e\<rparr>"
  obtain d1 where s: "store_rule e ?r d = (Inr ?r, d1)" using assms(6) by (auto simp: store_rule_def save_rule_def)
  let ?d = "d1\<lparr>audit_logs := audit_logs d1 @ [entry e req (rule_model shown columns) ''CREATE'' None (Some (shown ?r)) ?r]\<rparr>"
  have v: "create_rule_view e inet req u shown columns r d = (Done ?r, ?d)"
    using assms(1,2) s by (simp add: create_rule_view_def create_view_def perform_create_def audit_write_cases rule_model_def)
  have d1: "data_centers ?d = data_centers d" "rooms ?d = rooms d" "racks ?d = racks d" "devices ?d = devices d" "roles ?d = roles d"
    "accesses ?d = accesses d"
    by (subst rule_tables [OF s], simp)+
  have "get_access_scope ?d (Some u) = get_access_scope d (Some u)"
    by (rule access_scope_frame [OF d1])
  then have "\<not> user_can_access_organization ?d (Some u) (ar_organization ?r)"
    using assms(3) by (simp add: user_can_access_organization_def)
  then have "?r \<notin> set (rule_queryset ?d u)" using assms(4,5) by (intro rule_unseen) simp_all
  moreover have "?r \<in> set (alert_rules ?d)" using stored_rule [OF s] by simp
  ultimately show "\<exists>r' d'. create_rule_view e inet req u shown columns r d = (Done r', d') \<and> r' \<in> set (alert_rules d')
      \<and> ar_organization r' = ar_organization r \<and> r' \<notin> set (rule_queryset d' u)"
    using v by (intro exI [of _ ?r] exI [of _ ?d]) simp
next
  fix t t' d' assume "create_template_view e inet req u tshown tcolumns t d = (Done t', d')"
  then show "user_can_access_organization d (Some u) (rt_organization t')"
    by (auto simp: create_template_view_def create_view_def store_template_def save_template_def validate_template_def refuse_def
        split: if_splits sum.splits dest!: template_writes.create_outcome)
qed

subsection \<open>A user of one bank\<close>

definition bank_user :: user where
  "bank_user = blank_user\<lparr>usr_id := 9\<rparr>"

definition bank_db :: db where
  "bank_db = empty_db\<lparr>roles := [\<lparr>ro_id = 3, ro_name = [], ro_code = [], ro_scope = SCOPE_ORGANIZATION\<rparr>],
     permissions := [\<lparr>pm_id = 4, pm_module = ''alert'', pm_code = ''alert.create''\<rparr>], role_permissions := [\<lparr>rp_id = 5, rp_role = 3, rp_permission = 4\<rparr>],
     accesses := [\<lparr>ra_id = 6, ra_user = 9, ra_organization = Some 1, ra_data_center = None, ra_room = None, ra_rack = None, ra_device = None,
       ra_role = 3, ra_assigned_by = None, ra_is_active = True\<rparr>]\<rparr>"

definition foreign_rule :: alert_rule where
  "foreign_rule = temp_rule\<lparr>ar_organization := 2, ar_data_center := None, ar_device := None\<rparr>"

definition bank_request :: "string \<Rightarrow> web_request" where
  "bank_request ip = \<lparr>wr_user = Some 9, wr_forwarded_for = Some ip, wr_remote_addr = None, wr_user_agent = None\<rparr>"

lemma bank_permission: "has_permission bank_db (write_permission bank_user ''create'' ''alert'')"
  by (simp add: has_permission_def write_permission_def permission_verb_def ACTION_PERMISSION_MAP_def user_has_permission_def
      get_effective_permission_codes_def get_user_resource_access_rows_def role_code_list_def bank_db_def bank_user_def blank_user_def)

lemma bank_scope: "\<not> user_can_access_organization bank_db (Some bank_user) 2"
  by (simp add: user_can_access_organization_def get_access_scope_def get_user_resource_access_rows_def expand_row_scope_def
      row_is_global_def role_of_def tbl_get_def expand_organization_def add_organization_def add_devices_def blank_scope_def
      bank_db_def bank_user_def blank_user_def empty_db_def)

lemma foreign_rule_clean: "clean_rule bank_db (foreign_rule\<lparr>ar_id := fresh_key ar_id (alert_rules bank_db), ar_created_at := 5\<rparr>) = Inr ()"
  by (simp add: clean_rule_def threshold_errors_def set_threshold_fields_def threshold_fields_def follow_def raise_errors_def
      duplicate_rules_def foreign_rule_def temp_rule_def blank_rule_def no_value_def bank_db_def empty_db_def)

lemma foreign_rule_scope: "ar_organization foreign_rule = 2" "ar_data_center foreign_rule = None" "ar_device foreign_rule = None"
  by (simp_all add: foreign_rule_def)

lemma rules_created_anywhere_witness:
  "\<exists>r' d'. create_rule_view (plain_env 5) (\<lambda>s. s = ''10.0.0.1'') (bank_request ''10.0.0.1'') bank_user (\<lambda>_. PDict []) (\<lambda>_. PDict []) foreign_rule bank_db
     = (Done r', d') \<and> r' \<in> set (alert_rules d') \<and> r' \<notin> set (rule_queryset d' bank_user)"
proof -
  have a: "address_ok (\<lambda>s. s = ''10.0.0.1'') (bank_request ''10.0.0.1'')"
    by (simp add: address_ok_def client_ip_def bank_request_def before_comma_def)
  have n: "now (plain_env 5) = 5" by (simp add: plain_env_def)
  have c: "clean_rule bank_db (foreign_rule\<lparr>ar_id := fresh_key ar_id (alert_rules bank_db), ar_created_at := now (plain_env 5)\<rparr>) = Inr ()"
    unfolding n by (rule foreign_rule_clean)
  show ?thesis
    using rules_created_anywhere [OF a bank_permission bank_scope [folded foreign_rule_scope(1)] foreign_rule_scope(2,3)
        c, of "\<lambda>_. PDict []" "\<lambda>_. PDict []"] by blast
qed

lemma bad_address_unaudited_witness:
  "\<exists>d1. fst (create_rule_view (plain_env 5) (\<lambda>s. s = ''10.0.0.1'') (bank_request ''nobody'') bank_user (\<lambda>_. PDict []) (\<lambda>_. PDict []) foreign_rule bank_db)
       = Failed DataError
     \<and> snd (create_rule_view (plain_env 5) (\<lambda>s. s = ''10.0.0.1'') (bank_request ''nobody'') bank_user (\<lambda>_. PDict []) (\<lambda>_. PDict []) foreign_rule bank_db) = d1
     \<and> alert_rules d1 \<noteq> [] \<and> audit_logs d1 = []"
proof -
  have a: "\<not> address_ok (\<lambda>s. s = ''10.0.0.1'') (bank_request ''nobody'')"
    by (simp add: address_ok_def client_ip_def bank_request_def before_comma_def)
  have n: "now (plain_env 5) = 5" by (simp add: plain_env_def)
  have l: "audit_logs bank_db = []" by (simp add: bank_db_def empty_db_def)
  obtain r' d1 where s: "store_rule (plain_env 5) (foreign_rule\<lparr>ar_id := fresh_key ar_id (alert_rules bank_db), ar_created_at := now (plain_env 5)\<rparr>) bank_db = (Inr r', d1)"
    using foreign_rule_clean unfolding n by (auto simp: store_rule_def save_rule_def)
  show ?thesis using bad_address_unaudited [OF a bank_permission s] l by auto
qed


end
