(* ===== verification/Seed_Commands.thy ===== *)
theory Seed_Commands
  imports Device_Setup Report_Api Pac_Alarms
begin

text \<open>
  The commands that fill an organization with its standard rows: the report templates (\<open>seed_report_templates.py\<close> with
  \<open>apps/reports/seed_data.py\<close>) and the rules of the PAC alarms (\<open>seed_pac_alert_rules.py\<close>, \<open>seed_alert_rules.py\<close>). No
  transaction spans a run: rows written before an error stay. Descriptions and times of change are left out.
\<close>

subsection \<open>The organization of a run\<close>

definition active_organization :: "organization \<Rightarrow> bool" where
  "active_organization x = (org_status x = ''ACTIVE'')"

definition quoted :: "string \<Rightarrow> string" where
  "quoted v = CHR 0x27 # v @ [CHR 0x27]"

definition single_organization :: "db \<Rightarrow> string \<Rightarrow> command_error + organization" where
  "single_organization d hint = (case order_by org_created_at (filter active_organization (organizations d)) of
      [x] \<Rightarrow> Inr x
    | [] \<Rightarrow> Inl (CommandError ''No active organization was found. Provide --organization-code.'')
    | _ \<Rightarrow> Inl (CommandError (''Multiple active organizations exist. Provide --organization-code'' @ hint)))"

definition named_organization :: "db \<Rightarrow> (organization \<Rightarrow> string) \<Rightarrow> string \<Rightarrow> string \<Rightarrow> command_error + organization" where
  "named_organization d column label v = (case first_row (order_by org_id (filter (\<lambda>x. column x = v \<and> active_organization x) (organizations d))) of
      Some x \<Rightarrow> Inr x
    | None \<Rightarrow> Inl (CommandError (''Active organization with '' @ label @ '' '' @ quoted v @ '' was not found.'')))"

definition template_organization :: "db \<Rightarrow> string option \<Rightarrow> string option \<Rightarrow> command_error + organization" where
  "template_organization d code name =
     (if has_text code then named_organization d org_code ''code'' (str_or code [])
      else if has_text name then named_organization d org_name ''name'' (str_or name [])
      else single_organization d '' to seed report templates.'')"

definition rule_organization :: "db \<Rightarrow> string option \<Rightarrow> command_error + organization" where
  "rule_organization d code =
     (if has_text code then named_organization d org_code ''code'' (str_or code []) else single_organization d ''.'')"

subsection \<open>The report templates\<close>

record template_seed =
  se_name :: string
  se_code :: string
  se_config :: py

definition texts :: "string list \<Rightarrow> py" where
  "texts ss = PList (map PStr ss)"

definition seed_config :: "string \<Rightarrow> string list \<Rightarrow> string list \<Rightarrow> string list \<Rightarrow> (string \<times> py) list \<Rightarrow> py" where
  "seed_config t required_filters optional_filters default_columns limit =
     PDict ([(''report_type'', PStr t), (''output_format'', PStr ''csv''), (''allowed_output_formats'', texts [''csv'']),
       (''required_filters'', texts required_filters), (''optional_filters'', texts optional_filters),
       (''default_columns'', texts default_columns)] @ limit)"

definition max_days :: "int \<Rightarrow> (string \<times> py) list" where
  "max_days n = [(''max_date_range_days'', PInt n)]"

definition REPORT_TEMPLATE_SEEDS :: "template_seed list" where
  "REPORT_TEMPLATE_SEEDS =
    [\<lparr>se_name = ''Alert Summary'', se_code = ''ALERT_SUMMARY'', se_config = seed_config ''alert_summary'' []
        [''date_from'', ''date_to'', ''data_center_id'', ''device_id'', ''device_model_id'', ''device_type_id'', ''room_id'', ''rack_id'',
         ''metric_codes'', ''severity'', ''status'']
        [''section'', ''label'', ''value''] (max_days 90)\<rparr>,
     \<lparr>se_name = ''Notification Delivery'', se_code = ''NOTIFICATION_DELIVERY'', se_config = seed_config ''notification_delivery'' []
        [''date_from'', ''date_to'', ''recipient_id'', ''channel'', ''status'', ''alert_id'', ''device_id'']
        [''section'', ''label'', ''value''] (max_days 90)\<rparr>,
     \<lparr>se_name = ''Device Inventory'', se_code = ''DEVICE_INVENTORY'', se_config = seed_config ''device_inventory'' []
        [''data_center_id'', ''room_id'', ''rack_id'', ''device_id'', ''device_model_id'', ''device_type_id'', ''status'', ''is_active'']
        [''organization'', ''data_center'', ''room'', ''rack'', ''device'', ''code'', ''hostname'', ''ip_address'', ''device_type'',
         ''device_model'', ''vendor'', ''status'', ''is_active'', ''last_seen''] []\<rparr>,
     \<lparr>se_name = ''Alert Export'', se_code = ''ALERT_EXPORT'', se_config = seed_config ''alert_export'' [''date_from'', ''date_to'']
        [''device_id'', ''device_model_id'', ''device_type_id'', ''data_center_id'', ''room_id'', ''rack_id'', ''metric_codes'',
         ''severity'', ''status'', ''source'']
        [''triggered_at'', ''resolved_at'', ''organization'', ''data_center'', ''room'', ''rack'', ''device'', ''device_model'', ''metric'',
         ''severity'', ''status'', ''message'', ''occurrence_count'', ''acknowledged_by'', ''resolved_by''] (max_days 90)\<rparr>,
     \<lparr>se_name = ''Audit Export'', se_code = ''AUDIT_EXPORT'', se_config = seed_config ''audit_export'' [''date_from'', ''date_to'']
        [''actor_id'', ''actions'', ''resource_type'', ''resource_id'', ''ip_address'']
        [''created_at'', ''actor'', ''action'', ''resource_type'', ''resource_id'', ''organization'', ''message'', ''ip_address'',
         ''user_agent''] (max_days 90)\<rparr>,
     \<lparr>se_name = ''Telemetry Export'', se_code = ''TELEMETRY_EXPORT'',
        se_config = seed_config ''telemetry_export'' [''date_from'', ''date_to'', ''metric_codes'']
        [''device_id'', ''device_model_id'', ''device_type_id'', ''data_center_id'', ''room_id'', ''rack_id'']
        [''timestamp'', ''organization'', ''data_center'', ''room'', ''rack'', ''device'', ''device_model'', ''device_type'',
         ''metric_code'', ''metric_name'', ''value'', ''unit'', ''quality''] (max_days 31)\<rparr>]"

text \<open>\<open>update_or_create\<close> through the \<open>save\<close> of the model, which validates; the flag says whether the row is new.\<close>

definition seed_template :: "organization \<Rightarrow> template_seed \<Rightarrow> db \<Rightarrow> (command_error + bool) \<times> db" where
  "seed_template org s d = (case filter (\<lambda>t. rt_organization t = org_id org \<and> rt_code t = se_code s) (report_templates d) of
      [] \<Rightarrow> (case save_template \<lparr>rt_id = fresh_key rt_id (report_templates d), rt_organization = org_id org, rt_name = se_name s,
               rt_code = se_code s, rt_config = se_config s, rt_is_active = True\<rparr> d of
          (Inl x, d') \<Rightarrow> (Inl (Raised x), d')
        | (Inr _, d') \<Rightarrow> (Inr True, d'))
    | [t] \<Rightarrow> (case save_template (t\<lparr>rt_name := se_name s, rt_config := se_config s, rt_is_active := True\<rparr>) d of
          (Inl x, d') \<Rightarrow> (Inl (Raised x), d')
        | (Inr _, d') \<Rightarrow> (Inr False, d'))
    | _ \<Rightarrow> (Inl MultipleObjectsReturned, d))"

fun seed_templates :: "organization \<Rightarrow> template_seed list \<Rightarrow> db \<Rightarrow> (command_error + nat \<times> nat) \<times> db" where
  "seed_templates org [] d = (Inr (0, 0), d)"
| "seed_templates org (s # ss) d = (case seed_template org s d of
     (Inl x, d') \<Rightarrow> (Inl x, d')
   | (Inr created, d') \<Rightarrow> (case seed_templates org ss d' of
       (Inl x, d'') \<Rightarrow> (Inl x, d'')
     | (Inr (c, u), d'') \<Rightarrow> (Inr (if created then (c + 1, u) else (c, u + 1)), d'')))"

definition seed_report_templates :: "string option \<Rightarrow> string option \<Rightarrow> db \<Rightarrow> (command_error + nat \<times> nat) \<times> db" where
  "seed_report_templates code name d = (case template_organization d code name of
      Inl x \<Rightarrow> (Inl x, d)
    | Inr org \<Rightarrow> seed_templates org REPORT_TEMPLATE_SEEDS d)"

subsection \<open>The rules of the PAC alarms\<close>

definition PAC_RULES :: "(string \<times> string \<times> alert_severity) list" where
  "PAC_RULES =
    [(''pac_general_alarm'', ''PAC General Alarm'', CRITICAL),
     (''pac_room_high_temperature_alarm'', ''PAC Room High Temperature Alarm'', CRITICAL),
     (''pac_room_low_temperature_alarm'', ''PAC Room Low Temperature Alarm'', WARNING),
     (''pac_room_high_humidity_alarm'', ''PAC Room High Humidity Alarm'', WARNING),
     (''pac_room_low_humidity_alarm'', ''PAC Room Low Humidity Alarm'', WARNING),
     (''pac_airflow_alarm'', ''PAC Airflow Alarm'', CRITICAL),
     (''pac_water_leak_alarm'', ''PAC Water Leak Alarm'', CRITICAL),
     (''pac_filter_alarm'', ''PAC Filter Alarm'', WARNING),
     (''pac_phase_sequence_alarm'', ''PAC Phase Sequence Alarm'', CRITICAL),
     (''pac_smoke_fire_alarm'', ''PAC Smoke Fire Alarm'', CRITICAL),
     (''pac_lan_alarm'', ''PAC LAN Alarm'', CRITICAL),
     (''pac_emergency_power_alarm'', ''PAC Emergency Power Alarm'', CRITICAL)]"

definition active_metric :: "db \<Rightarrow> string \<Rightarrow> metric option" where
  "active_metric d code = first_row (order_by me_id (filter (\<lambda>m. me_code m = code \<and> me_is_active m) (metrics d)))"

definition one :: value_cols where
  "one = no_value\<lparr>value_integer := Some 1\<rparr>"

definition pac_rule_q :: "uuid \<Rightarrow> uuid option \<Rightarrow> uuid \<Rightarrow> alert_rule \<Rightarrow> bool" where
  "pac_rule_q org type me r = (ar_organization r = org \<and> ar_data_center r = None \<and> ar_device_type r = type \<and> ar_device r = None
     \<and> ar_metric r = me)"

definition set_pac_rule :: "string \<Rightarrow> alert_severity \<Rightarrow> alert_rule \<Rightarrow> alert_rule" where
  "set_pac_rule name sev r = r\<lparr>ar_name := name, ar_operator := EQ, ar_threshold := one, ar_severity := sev, ar_duration_seconds := 0,
     ar_is_active := True, ar_message_template := Some (name @ '' is active'')\<rparr>"

definition new_pac_rule :: "env \<Rightarrow> db \<Rightarrow> uuid \<Rightarrow> uuid option \<Rightarrow> uuid \<Rightarrow> string \<Rightarrow> alert_severity \<Rightarrow> alert_rule" where
  "new_pac_rule e d org type me name sev =
     \<lparr>ar_id = fresh_key ar_id (alert_rules d), ar_created_at = now e, ar_organization = org, ar_data_center = None, ar_device_type = type,
       ar_device = None, ar_metric = me, ar_name = name, ar_operator = EQ, ar_threshold = one, ar_severity = sev,
       ar_duration_seconds = 0, ar_is_active = True, ar_message_template = Some (name @ '' is active'')\<rparr>"

definition save_seeded :: "env \<Rightarrow> bool \<Rightarrow> alert_rule \<Rightarrow> db \<Rightarrow> (command_error + bool) \<times> db" where
  "save_seeded e created r d = (case save_rule e d r of Inl x \<Rightarrow> (Inl (Raised x), d) | Inr d' \<Rightarrow> (Inr created, d'))"

text \<open>The oldest rule with the same condition, whatever its name and state, is made the standard one.\<close>

definition seed_pac_rule :: "env \<Rightarrow> organization \<Rightarrow> device_type \<Rightarrow> metric \<Rightarrow> string \<Rightarrow> alert_severity \<Rightarrow> db \<Rightarrow> (command_error + bool) \<times> db" where
  "seed_pac_rule e org type me name sev d =
     (case first_row (order_by ar_created_at (filter (\<lambda>r. pac_rule_q (org_id org) (Some (dt_id type)) (me_id me) r
              \<and> ar_operator r = EQ \<and> ar_threshold r = one) (alert_rules d))) of
        Some r \<Rightarrow> save_seeded e False (set_pac_rule name sev r) d
      | None \<Rightarrow> save_seeded e True (new_pac_rule e d (org_id org) (Some (dt_id type)) (me_id me) name sev) d)"

record seed_counts =
  sc_created :: nat
  sc_updated :: nat
  sc_missing :: "string list"

fun seed_pac_rules :: "env \<Rightarrow> organization \<Rightarrow> device_type \<Rightarrow> (string \<times> string \<times> alert_severity) list \<Rightarrow> db \<Rightarrow> (command_error + seed_counts) \<times> db" where
  "seed_pac_rules e org type [] d = (Inr \<lparr>sc_created = 0, sc_updated = 0, sc_missing = []\<rparr>, d)"
| "seed_pac_rules e org type ((code, name, sev) # rs) d = (case active_metric d code of
     None \<Rightarrow> (case seed_pac_rules e org type rs d of
         (Inl x, d') \<Rightarrow> (Inl x, d')
       | (Inr n, d') \<Rightarrow> (Inr (n\<lparr>sc_missing := code # sc_missing n\<rparr>), d'))
   | Some me \<Rightarrow> (case seed_pac_rule e org type me name sev d of
         (Inl x, d') \<Rightarrow> (Inl x, d')
       | (Inr created, d') \<Rightarrow> (case seed_pac_rules e org type rs d' of
           (Inl x, d'') \<Rightarrow> (Inl x, d'')
         | (Inr n, d'') \<Rightarrow> (Inr (if created then n\<lparr>sc_created := sc_created n + 1\<rparr> else n\<lparr>sc_updated := sc_updated n + 1\<rparr>), d''))))"

definition pac_type :: "db \<Rightarrow> device_type option" where
  "pac_type d = first_row (order_by dt_id (filter (\<lambda>t. upper (dt_code t) = ''PAC'') (device_types d)))"

text \<open>The rules of the metrics that exist are written before the missing ones are an error.\<close>

definition seed_pac_alert_rules :: "env \<Rightarrow> string option \<Rightarrow> db \<Rightarrow> (command_error + seed_counts) \<times> db" where
  "seed_pac_alert_rules e code d = (case rule_organization d code of
      Inl x \<Rightarrow> (Inl x, d)
    | Inr org \<Rightarrow> (case pac_type d of
        None \<Rightarrow> (Inl (CommandError (''Device type '' @ quoted ''PAC'' @ '' was not found.'')), d)
      | Some type \<Rightarrow> (case seed_pac_rules e org type PAC_RULES d of
          (Inl x, d') \<Rightarrow> (Inl x, d')
        | (Inr n, d') \<Rightarrow>
            if sc_missing n = [] then (Inr n, d')
            else (Inl (CommandError (''Required PAC alarm metrics are missing or inactive: '' @ join '', '' (sc_missing n))), d'))))"

text \<open>The other command finds the rule by its name, in every organization; without the device type its rules hold for every device.\<close>

definition seed_named_rule :: "env \<Rightarrow> uuid option \<Rightarrow> metric \<Rightarrow> string \<Rightarrow> alert_severity \<Rightarrow> organization \<Rightarrow> db \<Rightarrow> (command_error + bool) \<times> db" where
  "seed_named_rule e type me name sev org d =
     (case filter (\<lambda>r. pac_rule_q (org_id org) type (me_id me) r \<and> ar_name r = name) (alert_rules d) of
        [] \<Rightarrow> save_seeded e True (new_pac_rule e d (org_id org) type (me_id me) name sev) d
      | [r] \<Rightarrow> save_seeded e False (set_pac_rule name sev r) d
      | _ \<Rightarrow> (Inl MultipleObjectsReturned, d))"

fun seed_for_organizations ::
    "env \<Rightarrow> uuid option \<Rightarrow> metric \<Rightarrow> string \<Rightarrow> alert_severity \<Rightarrow> organization list \<Rightarrow> db \<Rightarrow> (command_error + nat \<times> nat) \<times> db" where
  "seed_for_organizations e type me name sev [] d = (Inr (0, 0), d)"
| "seed_for_organizations e type me name sev (org # os) d = (case seed_named_rule e type me name sev org d of
     (Inl x, d') \<Rightarrow> (Inl x, d')
   | (Inr created, d') \<Rightarrow> (case seed_for_organizations e type me name sev os d' of
       (Inl x, d'') \<Rightarrow> (Inl x, d'')
     | (Inr (c, u), d'') \<Rightarrow> (Inr (if created then (c + 1, u) else (c, u + 1)), d'')))"

fun seed_named_rules ::
    "env \<Rightarrow> organization list \<Rightarrow> uuid option \<Rightarrow> (string \<times> string \<times> alert_severity) list \<Rightarrow> db \<Rightarrow> (command_error + seed_counts) \<times> db" where
  "seed_named_rules e os type [] d = (Inr \<lparr>sc_created = 0, sc_updated = 0, sc_missing = []\<rparr>, d)"
| "seed_named_rules e os type ((code, name, sev) # rs) d = (case active_metric d code of
     None \<Rightarrow> (case seed_named_rules e os type rs d of
         (Inl x, d') \<Rightarrow> (Inl x, d')
       | (Inr n, d') \<Rightarrow> (Inr (n\<lparr>sc_missing := code # sc_missing n\<rparr>), d'))
   | Some me \<Rightarrow> (case seed_for_organizations e type me name sev os d of
         (Inl x, d') \<Rightarrow> (Inl x, d')
       | (Inr (c, u), d') \<Rightarrow> (case seed_named_rules e os type rs d' of
           (Inl x, d'') \<Rightarrow> (Inl x, d'')
         | (Inr n, d'') \<Rightarrow> (Inr (n\<lparr>sc_created := sc_created n + c, sc_updated := sc_updated n + u\<rparr>), d''))))"

definition seed_alert_rules :: "env \<Rightarrow> db \<Rightarrow> (command_error + seed_counts) \<times> db" where
  "seed_alert_rules e d =
     seed_named_rules e (organizations d) (map_option dt_id (first_row (order_by dt_id (filter (\<lambda>t. dt_code t = ''PAC'') (device_types d))))) PAC_RULES d"

end
