(* ===== verification/Seed_Command_Props.thy ===== *)
theory Seed_Command_Props
  imports Seed_Commands Device_Setup_Props
begin

text \<open>
  Running a seed command twice is running it once, and what it writes is what the other parts read: a seeded template is one the report
  generator can build, a seeded PAC rule watches a metric that the trap handler confirms.
\<close>

subsection \<open>Templates\<close>

definition templates_ok :: "report_template list \<Rightarrow> bool" where
  "templates_ok = table_ok rt_id (\<lambda>_. True) same_template"

interpretation template_check: validated_table rt_id "\<lambda>_. True" same_template
  by unfold_locales (auto simp: same_template_def)

definition seed_valid :: "template_seed \<Rightarrow> bool" where
  "seed_valid s = (text_errors ''name'' 255 (se_name s) = [] \<and> text_errors ''code'' 100 (se_code s) = [] \<and> template_config_errors (se_config s) = [])"

definition is_seeded :: "organization \<Rightarrow> template_seed \<Rightarrow> report_template \<Rightarrow> bool" where
  "is_seeded org s t = (rt_organization t = org_id org \<and> rt_code t = se_code s \<and> rt_name t = se_name s \<and> rt_config t = se_config s \<and> rt_is_active t)"

lemma seeds_valid: "list_all seed_valid REPORT_TEMPLATE_SEEDS" "distinct (map se_code REPORT_TEMPLATE_SEEDS)" "length REPORT_TEMPLATE_SEEDS = 6"
  by (simp_all add: REPORT_TEMPLATE_SEEDS_def seed_valid_def text_errors_def template_config_errors_def seed_config_def dict_get_def)

lemma save_seeded_template:
  assumes "org \<in> set (organizations d)" and "seed_valid s" and "is_seeded org s t"
    and "\<forall>x\<in>set (report_templates d). \<not> same_template t x"
  shows "save_template t d = (Inr t, d\<lparr>report_templates := tbl_put rt_id t (report_templates d)\<rparr>)"
proof -
  have org: "tbl_get org_id (rt_organization t) (organizations d) \<noteq> None"
    using assms(1,3) by (auto simp: tbl_get_None is_seeded_def)
  have dup: "\<not> list_ex (\<lambda>r. same_template t r \<and> rt_is_active r) (report_templates d)" "\<not> list_ex (same_template t) (report_templates d)"
    using assms(4) by (auto simp: list_ex_iff)
  have "clean_template d t = []"
    using assms(2,3) dup by (auto simp: clean_template_def seed_valid_def is_seeded_def text_errors_def split: if_splits)
  then have "full_clean_template d t = Inr ()"
    using assms(2,3) org dup by (simp add: full_clean_template_def seed_valid_def is_seeded_def)
  then show ?thesis by (simp add: save_template_def)
qed

lemma seed_template_ok:
  assumes "org \<in> set (organizations d)" and "seed_valid s" and "templates_ok (report_templates d)"
  obtains b ts t where "seed_template org s d = (Inr b, d\<lparr>report_templates := ts\<rparr>)" and "templates_ok ts" and "t \<in> set ts" and "is_seeded org s t"
    and "\<And>x. x \<in> set (report_templates d) \<Longrightarrow> rt_code x \<noteq> se_code s \<Longrightarrow> x \<in> set ts"
    and "\<And>x. x \<in> set (report_templates d) \<Longrightarrow> is_seeded org s x \<Longrightarrow> \<not> b \<and> ts = report_templates d"
proof -
  let ?q = "\<lambda>t. rt_organization t = org_id org \<and> rt_code t = se_code s"
  note result = that
  have keys: "keys_unique rt_id (report_templates d)"
    and apart: "\<And>x y. x \<in> set (report_templates d) \<Longrightarrow> y \<in> set (report_templates d) \<Longrightarrow> \<not> same_template x y"
    using assms(3) unfolding templates_ok_def table_ok_def by (blast, metis same_template_def)
  have one: "x = y" if "x \<in> set (report_templates d)" "y \<in> set (report_templates d)" "?q x" "?q y" for x y
    using apart [OF that(1,2)] that(3,4) key_eqD [OF keys that(1,2)] by (auto simp: same_template_def)
  have put: ?thesis if t: "seed_template org s d = (Inr b, d\<lparr>report_templates := tbl_put rt_id t (report_templates d)\<rparr>)" "is_seeded org s t"
      "\<forall>x\<in>set (report_templates d). \<not> same_template t x" "\<And>x. x \<in> set (report_templates d) \<Longrightarrow> rt_code x \<noteq> se_code s \<Longrightarrow> rt_id x \<noteq> rt_id t"
      "\<And>x. x \<in> set (report_templates d) \<Longrightarrow> is_seeded org s x \<Longrightarrow> \<not> b \<and> x = t" for b t
  proof (rule result [OF t(1) _ tbl_put_has t(2)])
    show "templates_ok (tbl_put rt_id t (report_templates d))"
      using assms(3) t(3) unfolding templates_ok_def by (intro template_check.put_ok) auto
    fix x assume x: "x \<in> set (report_templates d)"
    { assume "rt_code x \<noteq> se_code s"
      then have "rt_id x \<noteq> rt_id t" using t(4) x by blast
      then show "x \<in> set (tbl_put rt_id t (report_templates d))" using x by (auto simp: tbl_put_def tbl_update_def image_iff) }
    { assume "is_seeded org s x"
      then have "\<not> b" "x = t" using t(5) x by blast+
      moreover have "tbl_put rt_id t (report_templates d) = report_templates d"
        using x \<open>x = t\<close> keys by (auto simp: tbl_put_def tbl_get_None tbl_update_def intro!: map_idI dest: key_eqD)
      ultimately show "\<not> b \<and> tbl_put rt_id t (report_templates d) = report_templates d" by simp }
  qed
  show ?thesis
  proof (cases "filter ?q (report_templates d)")
    case Nil
    let ?t = "\<lparr>rt_id = fresh_key rt_id (report_templates d), rt_organization = org_id org, rt_name = se_name s, rt_code = se_code s,
      rt_config = se_config s, rt_is_active = True\<rparr>"
    have none: "\<not> ?q x" if "x \<in> set (report_templates d)" for x using Nil that by (auto simp: filter_empty_conv)
    have s: "is_seeded org s ?t" by (simp add: is_seeded_def)
    have n: "\<forall>x\<in>set (report_templates d). \<not> same_template ?t x" using none by (auto simp: same_template_def)
    show ?thesis
    proof (rule put [OF _ s n])
      show "seed_template org s d = (Inr True, d\<lparr>report_templates := tbl_put rt_id ?t (report_templates d)\<rparr>)"
        by (simp add: seed_template_def Nil save_seeded_template [OF assms(1,2) s n])
    qed (use none fresh_key_notin [of rt_id "report_templates d"] in \<open>auto simp: is_seeded_def image_iff\<close>)
  next
    case (Cons r rs)
    have r: "r \<in> set (report_templates d)" "?q r" using arg_cong [OF Cons, of set] by auto
    have "distinct (filter ?q (report_templates d))" using keys by (simp add: keys_unique_def distinct_map)
    moreover have "set (filter ?q (report_templates d)) \<subseteq> {r}" using one r by auto
    ultimately have rs: "filter ?q (report_templates d) = [r]"
      using Cons by (metis distinct.simps(2) insert_subset list.set_intros(1) list.simps(15) neq_Nil_conv singletonD subset_insert subset_singletonD)
    let ?t = "r\<lparr>rt_name := se_name s, rt_config := se_config s, rt_is_active := True\<rparr>"
    have s: "is_seeded org s ?t" using r(2) by (simp add: is_seeded_def)
    have n: "\<forall>x\<in>set (report_templates d). \<not> same_template ?t x" using one r by (auto simp: same_template_def)
    show ?thesis
    proof (rule put [OF _ s n])
      show "seed_template org s d = (Inr False, d\<lparr>report_templates := tbl_put rt_id ?t (report_templates d)\<rparr>)"
        by (simp add: seed_template_def rs save_seeded_template [OF assms(1,2) s n])
      fix x assume x: "x \<in> set (report_templates d)"
      show "rt_id x \<noteq> rt_id ?t" if "rt_code x \<noteq> se_code s" using key_eqD [OF keys x r(1)] that r(2) by auto
      show "\<not> False \<and> x = ?t" if "is_seeded org s x" using one [OF x r(1)] that r(2) by (auto simp: is_seeded_def)
    qed
  qed
qed

lemma seed_templates_ok:
  assumes "org \<in> set (organizations d)" and "list_all seed_valid ss" and "distinct (map se_code ss)" and "templates_ok (report_templates d)"
  shows "\<exists>c u ts. seed_templates org ss d = (Inr (c, u), d\<lparr>report_templates := ts\<rparr>) \<and> c + u = length ss \<and> templates_ok ts
    \<and> (\<forall>s\<in>set ss. \<exists>t\<in>set ts. is_seeded org s t)
    \<and> (\<forall>x\<in>set (report_templates d). rt_code x \<notin> se_code ` set ss \<longrightarrow> x \<in> set ts)
    \<and> ((\<forall>s\<in>set ss. \<exists>t\<in>set (report_templates d). is_seeded org s t) \<longrightarrow> c = 0 \<and> ts = report_templates d)"
  using assms
proof (induction ss arbitrary: d)
  case Nil
  then show ?case by (intro exI [of _ "0 :: nat"] exI [of _ "report_templates d"]) simp
next
  case (Cons s ss)
  obtain b ts1 t where 1: "seed_template org s d = (Inr b, d\<lparr>report_templates := ts1\<rparr>)" "templates_ok ts1" "t \<in> set ts1" "is_seeded org s t"
    and keep: "\<And>x. x \<in> set (report_templates d) \<Longrightarrow> rt_code x \<noteq> se_code s \<Longrightarrow> x \<in> set ts1"
    and again: "\<And>x. x \<in> set (report_templates d) \<Longrightarrow> is_seeded org s x \<Longrightarrow> \<not> b \<and> ts1 = report_templates d"
    by (rule seed_template_ok [of org d s]) (use Cons.prems in auto)
  let ?d = "d\<lparr>report_templates := ts1\<rparr>"
  obtain c u ts where 2: "seed_templates org ss ?d = (Inr (c, u), ?d\<lparr>report_templates := ts\<rparr>)" "c + u = length ss" "templates_ok ts"
    and all: "\<forall>s\<in>set ss. \<exists>t\<in>set ts. is_seeded org s t"
    and keep2: "\<forall>x\<in>set ts1. rt_code x \<notin> se_code ` set ss \<longrightarrow> x \<in> set ts"
    and again2: "(\<forall>s\<in>set ss. \<exists>t\<in>set ts1. is_seeded org s t) \<longrightarrow> c = 0 \<and> ts = ts1"
  proof -
    have p: "org \<in> set (organizations ?d)" "list_all seed_valid ss" "distinct (map se_code ss)" "templates_ok (report_templates ?d)"
      using Cons.prems 1(2) by simp_all
    from Cons.IH [OF p] show ?thesis by (elim exE conjE) (rule that, assumption+, simp_all)
  qed
  have "rt_code t \<notin> se_code ` set ss" using 1(4) Cons.prems(3) by (simp add: is_seeded_def)
  then have t: "t \<in> set ts" using keep2 1(3) by blast
  have run: "seed_templates org (s # ss) d = (Inr (if b then (c + 1, u) else (c, u + 1)), d\<lparr>report_templates := ts\<rparr>)"
    using 1(1) 2(1) by simp
  have id: "\<not> b \<and> c = 0 \<and> ts = report_templates d" if "\<forall>s\<in>set (s # ss). \<exists>t\<in>set (report_templates d). is_seeded org s t"
    using that again again2 by auto
  show ?case
    by (rule exI [of _ "if b then c + 1 else c"], rule exI [of _ "if b then u else u + 1"], rule exI [of _ ts])
      (use run 2(2,3) t 1(4) all keep keep2 id in \<open>auto split: if_splits\<close>)
qed

lemma template_organization_in: "template_organization d code name = Inr org \<Longrightarrow> org \<in> set (organizations d)"
  by (auto simp: template_organization_def named_organization_def single_organization_def split: if_splits option.splits list.splits
      dest!: first_row_Some_in arg_cong [of "order_by _ _" _ set])

lemma seed_type_names:
  "lower ''ALERT_SUMMARY'' = ''alert_summary''" "lower ''NOTIFICATION_DELIVERY'' = ''notification_delivery''"
  "lower ''DEVICE_INVENTORY'' = ''device_inventory''" "lower ''ALERT_EXPORT'' = ''alert_export''"
  "lower ''AUDIT_EXPORT'' = ''audit_export''" "lower ''TELEMETRY_EXPORT'' = ''telemetry_export''"
  by code_simp+

lemma seed_types_known:
  "list_all (\<lambda>t. strip t = t \<and> t \<in> set SUPPORTED_REPORT_TYPES)
     [''alert_summary'', ''notification_delivery'', ''device_inventory'', ''alert_export'', ''audit_export'', ''telemetry_export'']"
  by code_simp

lemma seeds_build:
  assumes "s \<in> set REPORT_TEMPLATE_SEEDS" and "template_of d j = Some t" and "rt_config t = se_config s"
  shows "resolve_report_type e d j = Inr (lower (se_code s))" and "resolve_output_format e d j = Inr ''CSV''"
proof -
  have "list_all (\<lambda>s. (case se_config s of PDict kvs \<Rightarrow> dict_get kvs ''report_type'' = Some (PStr (lower (se_code s)))
        \<and> dict_get kvs ''output_format'' = Some (PStr ''csv'') \<and> dict_get kvs ''allowed_output_formats'' = Some (PList [PStr ''csv'']) | _ \<Rightarrow> False)
      \<and> strip (lower (se_code s)) = lower (se_code s) \<and> lower (se_code s) \<in> set SUPPORTED_REPORT_TYPES \<and> se_code s \<noteq> []) REPORT_TEMPLATE_SEEDS"
    using seed_types_known by (simp add: REPORT_TEMPLATE_SEEDS_def seed_config_def dict_get_def texts_def seed_type_names)
  then have "(case se_config s of PDict kvs \<Rightarrow> dict_get kvs ''report_type'' = Some (PStr (lower (se_code s)))
        \<and> dict_get kvs ''output_format'' = Some (PStr ''csv'') \<and> dict_get kvs ''allowed_output_formats'' = Some (PList [PStr ''csv'']) | _ \<Rightarrow> False)
      \<and> strip (lower (se_code s)) = lower (se_code s) \<and> lower (se_code s) \<in> set SUPPORTED_REPORT_TYPES \<and> se_code s \<noteq> []"
    using assms(1) unfolding list_all_iff by (rule bspec)
  then obtain kvs where k: "se_config s = PDict kvs" "dict_get kvs ''report_type'' = Some (PStr (lower (se_code s)))"
    "dict_get kvs ''output_format'' = Some (PStr ''csv'')" "dict_get kvs ''allowed_output_formats'' = Some (PList [PStr ''csv''])"
    and v: "strip (lower (se_code s)) = lower (se_code s)" "lower (se_code s) \<in> set SUPPORTED_REPORT_TYPES" "lower (se_code s) \<noteq> []"
    by (cases "se_config s") (simp_all add: lower_def)
  show "resolve_report_type e d j = Inr (lower (se_code s))"
    using assms(2,3) k(1,2) v by (simp add: resolve_report_type_def job_report_type_def is_dict_def dict_or_empty_def py_str_def)
  have f: "normalize_report_format ''csv'' = Some ''CSV''" "normalize_key ''csv'' = ''csv''" "strip ''csv'' = ''csv''" by code_simp+
  show "resolve_output_format e d j = Inr ''CSV''"
    using assms(2,3) k by (simp add: resolve_output_format_def get_report_config_def dict_or_empty_def text_or_empty_def f normalize_list_def stripped_texts_def py_str_def)
qed

text \<open>C26. Seeding the templates of an organization that is found never fails: all six are there and active, templates of other codes stay, and a job
  of any of them is built as a CSV report of its type. A second run changes nothing.\<close>

theorem seeded_templates_run:
  assumes "template_organization d code name = Inr org" and "templates_ok (report_templates d)"
  shows "\<exists>c u d'. seed_report_templates code name d = (Inr (c, u), d') \<and> c + u = 6
    \<and> (\<forall>s\<in>set REPORT_TEMPLATE_SEEDS. \<exists>t\<in>set (report_templates d'). is_seeded org s t
         \<and> (\<forall>e j. rj_template j = Some (rt_id t) \<longrightarrow>
              resolve_report_type e d' j = Inr (lower (se_code s)) \<and> resolve_output_format e d' j = Inr ''CSV''))
    \<and> (\<forall>x\<in>set (report_templates d). rt_code x \<notin> se_code ` set REPORT_TEMPLATE_SEEDS \<longrightarrow> x \<in> set (report_templates d'))
    \<and> seed_report_templates code name d' = (Inr (0, 6), d')"
proof -
  note org = template_organization_in [OF assms(1)]
  obtain c u ts where r: "seed_templates org REPORT_TEMPLATE_SEEDS d = (Inr (c, u), d\<lparr>report_templates := ts\<rparr>)" "c + u = 6" "templates_ok ts"
    and all: "\<forall>s\<in>set REPORT_TEMPLATE_SEEDS. \<exists>t\<in>set ts. is_seeded org s t"
    and keep: "\<forall>x\<in>set (report_templates d). rt_code x \<notin> se_code ` set REPORT_TEMPLATE_SEEDS \<longrightarrow> x \<in> set ts"
    using seed_templates_ok [OF org seeds_valid(1,2) assms(2)] seeds_valid(3) by auto
  let ?d = "d\<lparr>report_templates := ts\<rparr>"
  have o': "organizations ?d = organizations d" by simp
  have same: "template_organization ?d code name = Inr org"
    using assms(1) unfolding template_organization_def named_organization_def single_organization_def o' .
  have again: "seed_templates org REPORT_TEMPLATE_SEEDS ?d = (Inr (0, 6), ?d)"
    using seed_templates_ok [of org ?d, OF _ seeds_valid(1,2)] org r(3) all seeds_valid(3) by auto
  have build: "resolve_report_type e ?d j = Inr (lower (se_code s)) \<and> resolve_output_format e ?d j = Inr ''CSV''"
    if "s \<in> set REPORT_TEMPLATE_SEEDS" "t \<in> set ts" "is_seeded org s t" "rj_template j = Some (rt_id t)" for s t e j
  proof -
    have "keys_unique rt_id ts" using r(3) by (simp add: templates_ok_def table_ok_def)
    then have "template_of ?d j = Some t" using that(2,4) by (simp add: template_of_def tbl_get_unique)
    then show ?thesis using seeds_build [OF that(1)] that(3) by (simp add: is_seeded_def)
  qed
  have "\<forall>s\<in>set REPORT_TEMPLATE_SEEDS. \<exists>t\<in>set (report_templates ?d). is_seeded org s t
      \<and> (\<forall>e j. rj_template j = Some (rt_id t) \<longrightarrow> resolve_report_type e ?d j = Inr (lower (se_code s)) \<and> resolve_output_format e ?d j = Inr ''CSV'')"
    using all build by fastforce
  then show ?thesis using r(1,2) keep again assms(1) same by (auto simp: seed_report_templates_def)
qed

definition seed_db :: db where
  "seed_db = empty_db\<lparr>organizations := [\<lparr>org_id = 1, org_created_at = 0, org_name = ''Bank'', org_code = ''BANK'', org_status = ''ACTIVE''\<rparr>]\<rparr>"

theorem seeded_templates_run_witness:
  "\<exists>c u d'. seed_report_templates None None seed_db = (Inr (c, u), d') \<and> c + u = 6 \<and> seed_report_templates None None d' = (Inr (0, 6), d')"
proof -
  have "template_organization seed_db None None = Inr \<lparr>org_id = 1, org_created_at = 0, org_name = ''Bank'', org_code = ''BANK'', org_status = ''ACTIVE''\<rparr>"
    by (simp add: template_organization_def has_text_def single_organization_def seed_db_def active_organization_def)
  moreover have "templates_ok (report_templates seed_db)" by (simp add: templates_ok_def table_ok_def keys_unique_def seed_db_def empty_db_def)
  ultimately show ?thesis using seeded_templates_run [of seed_db None None] by blast
qed

end
