(* ===== verification/Seed_Rule_Props.thy ===== *)
theory Seed_Rule_Props
  imports Seed_Commands Device_Setup_Props
begin

text \<open>
  The seeded rules of the PAC alarms: one active rule per alarm, of a metric that the trap handler confirms, and the case in which the
  command cannot be run.
\<close>

definition standard_rule :: "uuid \<Rightarrow> uuid option \<Rightarrow> uuid \<Rightarrow> string \<Rightarrow> alert_severity \<Rightarrow> alert_rule \<Rightarrow> bool" where
  "standard_rule org type me name sev r = (pac_rule_q org type me r \<and> ar_operator r = EQ \<and> ar_threshold r = one \<and> ar_is_active r
     \<and> ar_name r = name \<and> ar_severity r = sev \<and> ar_duration_seconds r = 0)"

lemma in_tbl_put_other: "pk x \<noteq> pk r \<Longrightarrow> x \<in> set (tbl_put pk r rows) \<longleftrightarrow> x \<in> set rows"
  by (auto simp: tbl_put_def tbl_update_def image_iff)

lemma saved_rule:
  assumes "save_rule e d r = Inr d'" and "rules_ok (alert_rules d)"
  shows "alert_rules d' = tbl_put ar_id r (alert_rules d)" and "metrics d' = metrics d" and "rules_ok (alert_rules d')"
proof -
  from assms(1) obtain u where c: "clean_rule d r = Inr u" and d': "d' = after_commit e (put_rule r d)"
    by (auto simp: save_rule_def split: sum.splits)
  show 1: "alert_rules d' = tbl_put ar_id r (alert_rules d)" and "metrics d' = metrics d"
    by (simp_all add: d' put_rule_def after_commit_def)
  show "rules_ok (alert_rules d')"
    unfolding 1 rules_ok_def using assms(2) clean_rule_ok [OF c] by (intro rule_check.put_ok) (auto simp: rules_ok_def)
qed

lemma seed_pac_rule_ok:
  assumes "seed_pac_rule e org type me name sev d = (Inr b, d')" and "rules_ok (alert_rules d)"
  shows "rules_ok (alert_rules d')" and "metrics d' = metrics d"
    and "\<exists>r\<in>set (alert_rules d'). standard_rule (org_id org) (Some (dt_id type)) (me_id me) name sev r"
    and "ar_metric x \<noteq> me_id me \<Longrightarrow> x \<in> set (alert_rules d') \<longleftrightarrow> x \<in> set (alert_rules d)"
proof -
  have keys: "keys_unique ar_id (alert_rules d)" using assms(2) by (simp add: rules_ok_def table_ok_def)
  obtain r where s: "save_rule e d r = Inr d'" and r: "standard_rule (org_id org) (Some (dt_id type)) (me_id me) name sev r"
    and own: "\<forall>x\<in>set (alert_rules d). ar_id x = ar_id r \<longrightarrow> ar_metric x = me_id me"
  proof (cases "first_row (order_by ar_created_at (filter (\<lambda>r. pac_rule_q (org_id org) (Some (dt_id type)) (me_id me) r
              \<and> ar_operator r = EQ \<and> ar_threshold r = one) (alert_rules d)))")
    case None
    let ?r = "new_pac_rule e d (org_id org) (Some (dt_id type)) (me_id me) name sev"
    show ?thesis
    proof (rule that [of ?r])
      show "save_rule e d ?r = Inr d'" using assms(1) None by (auto simp: seed_pac_rule_def save_seeded_def split: sum.splits)
      show "standard_rule (org_id org) (Some (dt_id type)) (me_id me) name sev ?r"
        by (simp add: new_pac_rule_def standard_rule_def pac_rule_q_def)
      show "\<forall>x\<in>set (alert_rules d). ar_id x = ar_id ?r \<longrightarrow> ar_metric x = me_id me"
        using fresh_key_notin [of ar_id "alert_rules d"] by (auto simp: new_pac_rule_def image_iff)
    qed
  next
    case (Some r0)
    then have r0: "r0 \<in> set (alert_rules d)" "pac_rule_q (org_id org) (Some (dt_id type)) (me_id me) r0"
      by (auto dest!: first_row_Some_in)
    show ?thesis
    proof (rule that [of "set_pac_rule name sev r0"])
      show "save_rule e d (set_pac_rule name sev r0) = Inr d'"
        using assms(1) Some by (auto simp: seed_pac_rule_def save_seeded_def split: sum.splits)
      show "standard_rule (org_id org) (Some (dt_id type)) (me_id me) name sev (set_pac_rule name sev r0)"
        using r0(2) by (simp add: set_pac_rule_def standard_rule_def pac_rule_q_def)
      show "\<forall>x\<in>set (alert_rules d). ar_id x = ar_id (set_pac_rule name sev r0) \<longrightarrow> ar_metric x = me_id me"
        using key_eqD [OF keys _ r0(1)] r0(2) by (auto simp: set_pac_rule_def pac_rule_q_def)
    qed
  qed
  note d' = saved_rule [OF s assms(2)]
  show "rules_ok (alert_rules d')" "metrics d' = metrics d" using d' by auto
  show "\<exists>r\<in>set (alert_rules d'). standard_rule (org_id org) (Some (dt_id type)) (me_id me) name sev r"
    using r d'(1) by (auto intro!: bexI [of _ r] simp: tbl_put_has)
  assume x: "ar_metric x \<noteq> me_id me"
  then have "x \<noteq> r" using r by (auto simp: standard_rule_def pac_rule_q_def)
  then show "x \<in> set (alert_rules d') \<longleftrightarrow> x \<in> set (alert_rules d)"
    using own x in_tbl_put_other [of ar_id x r "alert_rules d"] unfolding d'(1) by (auto dest: in_tbl_put)
qed

lemma active_metric_code: "active_metric d code = Some me \<Longrightarrow> me \<in> set (metrics d) \<and> me_code me = code"
  by (auto simp: active_metric_def dest!: first_row_Some_in)

lemma seed_pac_rules_ok:
  assumes "seed_pac_rules e org type rs d = (Inr n, d')" and "rules_ok (alert_rules d)" and "distinct (map fst rs)"
    and "keys_unique me_id (metrics d)" and "sc_missing n = []"
  shows "sc_created n + sc_updated n = length rs \<and> rules_ok (alert_rules d') \<and> metrics d' = metrics d
    \<and> (\<forall>(code, name, sev)\<in>set rs. \<exists>me r. active_metric d code = Some me \<and> r \<in> set (alert_rules d')
         \<and> standard_rule (org_id org) (Some (dt_id type)) (me_id me) name sev r)
    \<and> (\<forall>x. (\<forall>me\<in>set (metrics d). me_code me \<in> fst ` set rs \<longrightarrow> ar_metric x \<noteq> me_id me) \<longrightarrow> (x \<in> set (alert_rules d') \<longleftrightarrow> x \<in> set (alert_rules d)))"
  using assms
proof (induction rs arbitrary: d n)
  case Nil
  then show ?case by auto
next
  case (Cons q rs)
  obtain code name sev where q: "q = (code, name, sev)" by (cases q)
  obtain me b d1 n1 where me: "active_metric d code = Some me" and 1: "seed_pac_rule e org type me name sev d = (Inr b, d1)"
    and 2: "seed_pac_rules e org type rs d1 = (Inr n1, d')" and n: "sc_missing n1 = []" "sc_created n + sc_updated n = Suc (sc_created n1 + sc_updated n1)"
    using Cons.prems(1,5) unfolding q by (auto split: option.splits prod.splits sum.splits if_splits)
  note first = seed_pac_rule_ok [OF 1 Cons.prems(2)]
  have am: "active_metric d1 = active_metric d" by (intro ext) (simp add: active_metric_def first(2))
  have "distinct (map fst rs)" "keys_unique me_id (metrics d1)" using Cons.prems(3,4) first(2) by auto
  note IH = Cons.IH [OF 2 first(1) this n(1)]
  note mc = active_metric_code [OF me]
  obtain r where r: "r \<in> set (alert_rules d1)" "standard_rule (org_id org) (Some (dt_id type)) (me_id me) name sev r" using first(3) by blast
  have "ar_metric r \<noteq> me_id m" if "m \<in> set (metrics d1)" "me_code m \<in> fst ` set rs" for m
  proof
    assume "ar_metric r = me_id m"
    then have "me_id m = me_id me" using r(2) by (simp add: standard_rule_def pac_rule_q_def)
    then have "m = me" using key_eqD [OF Cons.prems(4)] that(1) mc first(2) by auto
    then show False using that(2) mc Cons.prems(3) q by auto
  qed
  then have "r \<in> set (alert_rules d')" using IH r(1) by blast
  then have "\<exists>me r. active_metric d code = Some me \<and> r \<in> set (alert_rules d') \<and> standard_rule (org_id org) (Some (dt_id type)) (me_id me) name sev r"
    using me r(2) by blast
  moreover have "x \<in> set (alert_rules d') \<longleftrightarrow> x \<in> set (alert_rules d)"
    if x: "\<forall>m\<in>set (metrics d). me_code m \<in> fst ` set (q # rs) \<longrightarrow> ar_metric x \<noteq> me_id m" for x
  proof -
    have "ar_metric x \<noteq> me_id me" using x mc q by auto
    then show ?thesis using first(2) first(4) [of x] IH x by auto
  qed
  ultimately show ?case using IH n(2) first(2) am q by auto
qed

lemma pac_codes_normalized:
  "normalize_code (Some ''pac_general_alarm'') = ''GENERAL_ALARM''"
  "normalize_code (Some ''pac_room_high_temperature_alarm'') = ''ROOM_HIGH_TEMPERATURE_ALARM''"
  "normalize_code (Some ''pac_room_low_temperature_alarm'') = ''ROOM_LOW_TEMPERATURE_ALARM''"
  "normalize_code (Some ''pac_room_high_humidity_alarm'') = ''ROOM_HIGH_HUMIDITY_ALARM''"
  "normalize_code (Some ''pac_room_low_humidity_alarm'') = ''ROOM_LOW_HUMIDITY_ALARM''"
  "normalize_code (Some ''pac_airflow_alarm'') = ''AIRFLOW_ALARM''"
  "normalize_code (Some ''pac_water_leak_alarm'') = ''WATER_LEAK_ALARM''"
  "normalize_code (Some ''pac_filter_alarm'') = ''FILTER_ALARM''"
  "normalize_code (Some ''pac_phase_sequence_alarm'') = ''PHASE_SEQUENCE_ALARM''"
  "normalize_code (Some ''pac_smoke_fire_alarm'') = ''SMOKE_FIRE_ALARM''"
  "normalize_code (Some ''pac_lan_alarm'') = ''LAN_ALARM''"
  "normalize_code (Some ''pac_emergency_power_alarm'') = ''EMERGENCY_POWER_ALARM''"
  by code_simp+

lemma pac_rule_codes:
  "distinct (map fst PAC_RULES)" "length PAC_RULES = 12"
  "(\<lambda>q. normalize_code (Some (fst q))) ` set PAC_RULES = PAC_ALARM_METRIC_CODES"
proof -
  show "distinct (map fst PAC_RULES)" "length PAC_RULES = 12" by (simp_all add: PAC_RULES_def)
  have *: "{a, b, c, d, e, f, g, h, i, j, k, l} = {a, b, c, d, e, h, g, f, i, j, k, l}" for a b c d e f g h i j k l :: string by blast
  show "(\<lambda>q. normalize_code (Some (fst q))) ` set PAC_RULES = PAC_ALARM_METRIC_CODES"
    unfolding PAC_RULES_def PAC_ALARM_METRIC_CODES_def list.set image_insert image_empty fst_conv pac_codes_normalized by (rule *)
qed

lemma rule_good_one: "ar_threshold r = one \<Longrightarrow> rule_good r"
  by (simp add: rule_good_def one_def no_value_def set_columns_def)

text \<open>Where the metrics are there and no rule is, a first run writes all of them.\<close>

lemma save_first_rule:
  assumes "\<forall>x\<in>set (alert_rules d). ar_metric x \<noteq> me"
  shows "save_rule e d (new_pac_rule e d org type me name sev) = Inr (after_commit e (put_rule (new_pac_rule e d org type me name sev) d))"
proof -
  let ?r = "new_pac_rule e d org type me name sev"
  have "duplicate_rules d ?r = []"
    using assms by (auto simp: duplicate_rules_def same_rule_target_def new_pac_rule_def filter_empty_conv)
  moreover have "threshold_errors ?r [] = []" unfolding threshold_errors_Nil by (rule rule_good_one) (simp add: new_pac_rule_def)
  moreover have "ar_device ?r = None" "ar_data_center ?r = None" by (simp_all add: new_pac_rule_def)
  ultimately show ?thesis by (simp add: save_rule_def clean_rule_def follow_def raise_errors_def)
qed

lemma seed_pac_rules_run:
  assumes "\<forall>code\<in>fst ` set rs. \<exists>me. active_metric d code = Some me \<and> (\<forall>x\<in>set (alert_rules d). ar_metric x \<noteq> me_id me)"
    and "distinct (map fst rs)" and "keys_unique me_id (metrics d)"
  shows "\<exists>n d'. seed_pac_rules e org type rs d = (Inr n, d') \<and> sc_missing n = []"
  using assms
proof (induction rs arbitrary: d)
  case Nil
  then show ?case by simp
next
  case (Cons q rs)
  obtain code name sev where q: "q = (code, name, sev)" by (cases q)
  obtain me where me: "active_metric d code = Some me" and none: "\<forall>x\<in>set (alert_rules d). ar_metric x \<noteq> me_id me"
    using Cons.prems(1) q by auto
  let ?r = "new_pac_rule e d (org_id org) (Some (dt_id type)) (me_id me) name sev"
  let ?d = "after_commit e (put_rule ?r d)"
  have "filter (\<lambda>r. pac_rule_q (org_id org) (Some (dt_id type)) (me_id me) r \<and> ar_operator r = EQ \<and> ar_threshold r = one) (alert_rules d) = []"
    using none by (auto simp: filter_empty_conv pac_rule_q_def)
  then have first: "seed_pac_rule e org type me name sev d = (Inr True, ?d)"
    by (simp add: seed_pac_rule_def save_seeded_def order_by_def save_first_rule [OF none])
  have rows: "alert_rules ?d = tbl_put ar_id ?r (alert_rules d)" "metrics ?d = metrics d" by (simp_all add: put_rule_def after_commit_def)
  then have am: "active_metric ?d = active_metric d" by (intro ext) (simp add: active_metric_def)
  have "\<exists>m. active_metric ?d c = Some m \<and> (\<forall>x\<in>set (alert_rules ?d). ar_metric x \<noteq> me_id m)" if c: "c \<in> fst ` set rs" for c
  proof -
    obtain m where m: "active_metric d c = Some m" "\<forall>x\<in>set (alert_rules d). ar_metric x \<noteq> me_id m" using Cons.prems(1) c by auto
    have "m \<noteq> me" using active_metric_code [OF m(1)] active_metric_code [OF me] c Cons.prems(2) q by auto
    then have "me_id m \<noteq> me_id me" using key_eqD [OF Cons.prems(3)] active_metric_code [OF m(1)] active_metric_code [OF me] by blast
    then have "ar_metric ?r \<noteq> me_id m" by (simp add: new_pac_rule_def)
    then show ?thesis using m unfolding am rows by (auto dest: in_tbl_put)
  qed
  then obtain n d' where "seed_pac_rules e org type rs ?d = (Inr n, d')" "sc_missing n = []"
    using Cons.IH [of ?d] Cons.prems(2,3) rows(2) by auto
  then show ?case unfolding q by (simp add: me first)
qed

text \<open>C27. After a run that reports no error, every alarm that the trap handler confirms has exactly one active rule for the PAC devices of the
  organization, with the standard severity and no waiting time.\<close>

theorem pac_rules_seeded:
  assumes "seed_pac_alert_rules e code d = (Inr n, d')" and "rules_ok (alert_rules d)" and "keys_unique me_id (metrics d)"
  shows "\<exists>org type. rule_organization d code = Inr org \<and> pac_type d = Some type \<and> sc_created n + sc_updated n = 12
    \<and> (\<forall>c\<in>PAC_ALARM_METRIC_CODES. \<exists>me r. me \<in> set (metrics d) \<and> me_is_active me \<and> normalize_code (Some (me_code me)) = c
         \<and> {x \<in> set (alert_rules d'). pac_rule_q (org_id org) (Some (dt_id type)) (me_id me) x \<and> ar_operator x = EQ \<and> ar_threshold x = one
              \<and> ar_is_active x} = {r}
         \<and> (me_code me, ar_name r, ar_severity r) \<in> set PAC_RULES \<and> ar_duration_seconds r = 0)"
proof -
  from assms(1) obtain org type where o': "rule_organization d code = Inr org" "pac_type d = Some type"
    and run: "seed_pac_rules e org type PAC_RULES d = (Inr n, d')" and m: "sc_missing n = []"
    by (auto simp: seed_pac_alert_rules_def split: sum.splits option.splits prod.splits if_splits)
  note all = seed_pac_rules_ok [OF run assms(2) pac_rule_codes(1) assms(3) m]
  then have keys: "keys_unique ar_id (alert_rules d')"
    and apart: "\<forall>x\<in>set (alert_rules d'). \<forall>y\<in>set (alert_rules d'). ar_id x \<noteq> ar_id y \<longrightarrow> \<not> rules_alike x y"
    by (simp_all add: rules_ok_def table_ok_def)
  have seeded: "\<forall>(code, name, sev)\<in>set PAC_RULES. \<exists>me r. active_metric d code = Some me \<and> r \<in> set (alert_rules d')
      \<and> standard_rule (org_id org) (Some (dt_id type)) (me_id me) name sev r"
    and counts: "sc_created n + sc_updated n = 12" using all pac_rule_codes(2) by simp_all
  have "\<exists>me r. me \<in> set (metrics d) \<and> me_is_active me \<and> normalize_code (Some (me_code me)) = c
         \<and> {x \<in> set (alert_rules d'). pac_rule_q (org_id org) (Some (dt_id type)) (me_id me) x \<and> ar_operator x = EQ \<and> ar_threshold x = one
              \<and> ar_is_active x} = {r}
         \<and> (me_code me, ar_name r, ar_severity r) \<in> set PAC_RULES \<and> ar_duration_seconds r = 0" if c: "c \<in> PAC_ALARM_METRIC_CODES" for c
  proof -
    obtain mc name sev where q: "(mc, name, sev) \<in> set PAC_RULES" "normalize_code (Some mc) = c"
      using c unfolding pac_rule_codes(3) [symmetric] by auto
    then obtain me r where me: "active_metric d mc = Some me" and r: "r \<in> set (alert_rules d')"
      and s: "standard_rule (org_id org) (Some (dt_id type)) (me_id me) name sev r" using seeded by blast
    have only: "x = r" if "x \<in> set (alert_rules d')" "pac_rule_q (org_id org) (Some (dt_id type)) (me_id me) x" "ar_operator x = EQ"
      "ar_threshold x = one" "ar_is_active x" for x
    proof -
      have "rules_alike x r" using that s by (simp add: rules_alike_def same_rule_target_def standard_rule_def pac_rule_q_def)
      then have "ar_id x = ar_id r" using apart that(1) r by blast
      then show ?thesis by (rule key_eqD [OF keys that(1) r])
    qed
    let ?rules = "{x \<in> set (alert_rules d'). pac_rule_q (org_id org) (Some (dt_id type)) (me_id me) x \<and> ar_operator x = EQ \<and> ar_threshold x = one
        \<and> ar_is_active x}"
    have "?rules = {r}"
    proof (rule equalityI)
      show "?rules \<subseteq> {r}"
      proof
        fix x assume "x \<in> ?rules"
        then have "x = r" by (intro only) simp_all
        then show "x \<in> {r}" by simp
      qed
      show "{r} \<subseteq> ?rules" using r s by (simp add: standard_rule_def)
    qed
    moreover have "(me_code me, ar_name r, ar_severity r) \<in> set PAC_RULES" "ar_duration_seconds r = 0"
      using q s active_metric_code [OF me] by (simp_all add: standard_rule_def)
    moreover have "me \<in> set (metrics d)" "me_is_active me" "normalize_code (Some (me_code me)) = c"
      using me q(2) by (auto simp: active_metric_def dest!: first_row_Some_in)
    ultimately show ?thesis by blast
  qed
  then show ?thesis using o' counts by blast
qed

definition pac_organization :: organization where
  "pac_organization = \<lparr>org_id = 1, org_created_at = 0, org_name = ''Bank'', org_code = ''BANK'', org_status = ''ACTIVE''\<rparr>"

definition pac_metrics :: "metric list" where
  "pac_metrics = map (\<lambda>(i, code, _). blank_metric\<lparr>me_id := i, me_code := code\<rparr>) (enumerate 1 PAC_RULES)"

definition pac_site :: db where
  "pac_site = empty_db\<lparr>organizations := [pac_organization], metrics := pac_metrics,
     device_types := [\<lparr>dt_id = 7, dt_name = ''Cooling'', dt_code = ''pac''\<rparr>]\<rparr>"

lemma pac_metric_keys: "keys_unique me_id pac_metrics"
proof -
  have "map me_id pac_metrics = map fst (enumerate 1 PAC_RULES)" by (simp add: pac_metrics_def comp_def case_prod_beta)
  then show ?thesis by (simp add: keys_unique_def)
qed

lemma pac_metric_there:
  assumes "code \<in> fst ` set PAC_RULES"
  shows "\<exists>me. active_metric pac_site code = Some me"
proof -
  have "map me_code pac_metrics = map (fst \<circ> snd) (enumerate 1 PAC_RULES)"
    by (simp add: pac_metrics_def comp_def case_prod_beta)
  also have "\<dots> = map fst PAC_RULES" by (simp add: map_map [symmetric] del: map_map)
  finally have "code \<in> me_code ` set pac_metrics" using assms by (metis set_map)
  moreover have "me_is_active m" if "m \<in> set pac_metrics" for m using that by (auto simp: pac_metrics_def blank_metric_def)
  ultimately have "filter (\<lambda>m. me_code m = code \<and> me_is_active m) (metrics pac_site) \<noteq> []"
    by (auto simp: pac_site_def filter_empty_conv)
  then show ?thesis unfolding active_metric_def by (metis first_order_by_None not_None_eq)
qed

theorem pac_rules_seeded_witness:
  "\<exists>n d' org type. seed_pac_alert_rules (plain_env 5) None pac_site = (Inr n, d') \<and> rule_organization pac_site None = Inr org \<and> pac_type pac_site = Some type
     \<and> sc_created n + sc_updated n = 12"
proof -
  have keys: "keys_unique me_id (metrics pac_site)" using pac_metric_keys by (simp add: pac_site_def)
  have none: "alert_rules pac_site = []" by (simp add: pac_site_def empty_db_def)
  have org: "rule_organization pac_site None = Inr pac_organization"
    by (simp add: rule_organization_def has_text_def single_organization_def pac_site_def pac_organization_def active_organization_def)
  have "upper ''pac'' = ''PAC''" by code_simp
  then have type: "pac_type pac_site = Some \<lparr>dt_id = 7, dt_name = ''Cooling'', dt_code = ''pac''\<rparr>" by (simp add: pac_type_def pac_site_def)
  have "\<forall>code\<in>fst ` set PAC_RULES. \<exists>me. active_metric pac_site code = Some me \<and> (\<forall>x\<in>set (alert_rules pac_site). ar_metric x \<noteq> me_id me)"
    using pac_metric_there by (simp add: none)
  then obtain n d' where "seed_pac_rules (plain_env 5) pac_organization \<lparr>dt_id = 7, dt_name = ''Cooling'', dt_code = ''pac''\<rparr> PAC_RULES pac_site = (Inr n, d')"
    "sc_missing n = []" using seed_pac_rules_run [OF _ pac_rule_codes(1) keys] by blast
  then have run: "seed_pac_alert_rules (plain_env 5) None pac_site = (Inr n, d')" by (simp add: seed_pac_alert_rules_def org type)
  have "rules_ok (alert_rules pac_site)" by (simp add: none rules_ok_def table_ok_def keys_unique_def)
  from pac_rules_seeded [OF run this keys] run show ?thesis by blast
qed

text \<open>The oldest rule of the condition is chosen even when it is switched off: if another one is active, switching the old one on is refused
  as a duplicate and the command ends there.\<close>

theorem old_rule_blocks_seed:
  assumes "first_row (order_by ar_created_at (filter (\<lambda>r. pac_rule_q (org_id org) (Some (dt_id type)) (me_id me) r \<and> ar_operator r = EQ
      \<and> ar_threshold r = one) (alert_rules d))) = Some r"
    and "x \<in> set (alert_rules d)" and "ar_id x \<noteq> ar_id r" and "ar_is_active x" and "pac_rule_q (org_id org) (Some (dt_id type)) (me_id me) x"
    and "ar_operator x = EQ" and "ar_threshold x = one"
  shows "\<exists>es. seed_pac_rule e org type me name sev d = (Inl (Raised (ValidationError es)), d)"
proof -
  let ?r = "set_pac_rule name sev r"
  have q: "pac_rule_q (org_id org) (Some (dt_id type)) (me_id me) r" using assms(1) by (auto dest!: first_row_Some_in)
  have g: "rule_good ?r" by (rule rule_good_one) (simp add: set_pac_rule_def)
  have "x \<in> set (duplicate_rules d ?r)"
  proof -
    have "same_threshold (hd (set_threshold_fields ?r)) ?r x"
      unfolding same_threshold_eq [OF g] by (simp add: assms(7) set_pac_rule_def)
    moreover have "same_rule_target ?r x" using assms(4-6) q by (simp add: same_rule_target_def set_pac_rule_def pac_rule_q_def)
    moreover have "ar_id x \<noteq> ar_id ?r" using assms(3) by (simp add: set_pac_rule_def)
    ultimately show ?thesis using assms(2) by (simp add: duplicate_rules_def)
  qed
  then have "duplicate_rules d ?r \<noteq> []" by auto
  moreover have "threshold_errors ?r [] = []" using g by (simp add: threshold_errors_Nil)
  moreover have "ar_device ?r = None" "ar_data_center ?r = None" "ar_is_active ?r" using q by (simp_all add: set_pac_rule_def pac_rule_q_def)
  ultimately have "\<exists>es. clean_rule d ?r = Inl (ValidationError es)"
    by (simp add: clean_rule_def follow_def raise_errors_def)
  then show ?thesis using assms(1) by (auto simp: seed_pac_rule_def save_seeded_def save_rule_def)
qed

definition old_rule :: alert_rule where
  "old_rule = blank_rule\<lparr>ar_id := 1, ar_organization := 1, ar_device_type := Some 7, ar_metric := 3, ar_operator := EQ, ar_threshold := one,
     ar_is_active := False\<rparr>"

theorem old_rule_blocks_seed_witness:
  "\<exists>es. seed_pac_rule (plain_env 5) pac_organization \<lparr>dt_id = 7, dt_name = [], dt_code = ''PAC''\<rparr> (blank_metric\<lparr>me_id := 3\<rparr>) ''Smoke'' CRITICAL
      (empty_db\<lparr>alert_rules := [old_rule, old_rule\<lparr>ar_id := 2, ar_created_at := 5, ar_is_active := True\<rparr>]\<rparr>) =
    (Inl (Raised (ValidationError es)),
      empty_db\<lparr>alert_rules := [old_rule, old_rule\<lparr>ar_id := 2, ar_created_at := 5, ar_is_active := True\<rparr>]\<rparr>)"
  by (rule old_rule_blocks_seed [of _ _ _ _ old_rule "old_rule\<lparr>ar_id := 2, ar_created_at := 5, ar_is_active := True\<rparr>"])
    (simp_all add: old_rule_def pac_rule_q_def pac_organization_def blank_rule_def blank_metric_def order_by_def)

end
