(* ===== verification/Oid_Tables.thy ===== *)
theory Oid_Tables
  imports Dcim_Models
begin

text \<open>
  The tables of the seed scripts (\<open>scripts/\<close>): the metrics and SNMP identifiers of the supported devices, and the traps of the rack
  PDU and the UPS. Texts are as the scripts have them, a Decimal is the rational it denotes; descriptions are left out, the model keeps
  no column for them. A table longer than a page is cut in parts, in its order.
\<close>

record metric_seed =
  ms_code :: string
  ms_name :: string
  ms_category :: string
  ms_data_type :: string
  ms_unit :: string

record oid_seed = metric_seed +
  sd_oid :: string
  sd_mapping_type :: string
  sd_scale_factor :: rat
  sd_offset_value :: rat

record trap_seed =
  tq_trap_oid :: string
  tq_event_code :: string
  tq_event_name :: string
  tq_severity :: string
  tq_message_template :: string
  tq_create_alert :: bool

definition metric_seed_row :: "string \<Rightarrow> string \<Rightarrow> string \<Rightarrow> string \<Rightarrow> string \<Rightarrow> metric_seed" where
  "metric_seed_row code name category data_type unit =
     \<lparr>ms_code = code, ms_name = name, ms_category = category, ms_data_type = data_type, ms_unit = unit\<rparr>"

definition oid_seed_row ::
    "string \<Rightarrow> string \<Rightarrow> string \<Rightarrow> string \<Rightarrow> string \<Rightarrow> string \<Rightarrow> string \<Rightarrow> rat \<Rightarrow> rat \<Rightarrow> oid_seed" where
  "oid_seed_row code name category data_type unit oid mapping_type scale_factor offset_value =
     \<lparr>ms_code = code, ms_name = name, ms_category = category, ms_data_type = data_type, ms_unit = unit,
       sd_oid = oid, sd_mapping_type = mapping_type, sd_scale_factor = scale_factor, sd_offset_value = offset_value\<rparr>"

definition trap_seed_row :: "string \<Rightarrow> string \<Rightarrow> string \<Rightarrow> string \<Rightarrow> string \<Rightarrow> bool \<Rightarrow> trap_seed" where
  "trap_seed_row trap_oid event_code event_name severity message create_alert =
     \<lparr>tq_trap_oid = trap_oid, tq_event_code = event_code, tq_event_name = event_name, tq_severity = severity,
       tq_message_template = message, tq_create_alert = create_alert\<rparr>"

subsection \<open>APC AP7724 transfer switch\<close>

definition ats_rows_1 :: "oid_seed list" where
  "ats_rows_1 =
    [oid_seed_row ''ats_hardware_revision'' ''ATS Hardware Revision'' ''Inventory'' ''text'' ''''
       ''1.3.6.1.4.1.318.1.1.8.1.1.0'' ''string'' 1 0,
     oid_seed_row ''ats_firmware_revision'' ''ATS Firmware Revision'' ''Inventory'' ''text'' ''''
       ''1.3.6.1.4.1.318.1.1.8.1.2.0'' ''string'' 1 0,
     oid_seed_row ''ats_firmware_date'' ''ATS Firmware Date'' ''Inventory'' ''text'' ''''
       ''1.3.6.1.4.1.318.1.1.8.1.3.0'' ''string'' 1 0,
     oid_seed_row ''ats_manufacture_date'' ''ATS Manufacture Date'' ''Inventory'' ''text'' ''''
       ''1.3.6.1.4.1.318.1.1.8.1.4.0'' ''string'' 1 0,
     oid_seed_row ''ats_model_number'' ''ATS Model Number'' ''Inventory'' ''text'' ''''
       ''1.3.6.1.4.1.318.1.1.8.1.5.0'' ''string'' 1 0,
     oid_seed_row ''ats_serial_number'' ''ATS Serial Number'' ''Inventory'' ''text'' ''''
       ''1.3.6.1.4.1.318.1.1.8.1.6.0'' ''string'' 1 0,
     oid_seed_row ''ats_nominal_line_voltage'' ''ATS Nominal Line Voltage'' ''Power'' ''integer'' ''V''
       ''1.3.6.1.4.1.318.1.1.8.1.7.0'' ''integer'' 1 0,
     oid_seed_row ''ats_nominal_line_frequency'' ''ATS Nominal Line Frequency'' ''Power'' ''integer'' ''Hz''
       ''1.3.6.1.4.1.318.1.1.8.1.8.0'' ''integer'' 1 0,
     oid_seed_row ''ats_device_rating'' ''ATS Device Rating'' ''Power'' ''integer'' ''A''
       ''1.3.6.1.4.1.318.1.1.8.1.9.0'' ''integer'' 1 0,
     oid_seed_row ''ats_product_name'' ''ATS Product Name'' ''Inventory'' ''text'' ''''
       ''1.3.6.1.4.1.318.1.1.8.4.1.0'' ''string'' 1 0,
     oid_seed_row ''ats_preferred_source'' ''ATS Preferred Source'' ''Configuration'' ''integer'' ''''
       ''1.3.6.1.4.1.318.1.1.8.4.2.0'' ''integer'' 1 0,
     oid_seed_row ''ats_voltage_sensitivity'' ''ATS Voltage Sensitivity'' ''Configuration'' ''integer'' ''''
       ''1.3.6.1.4.1.318.1.1.8.4.4.0'' ''integer'' 1 0,
     oid_seed_row ''ats_transfer_voltage_range'' ''ATS Transfer Voltage Range'' ''Configuration'' ''integer'' ''''
       ''1.3.6.1.4.1.318.1.1.8.4.5.0'' ''integer'' 1 0,
     oid_seed_row ''ats_current_limit'' ''ATS Current Limit'' ''Threshold'' ''integer'' ''A''
       ''1.3.6.1.4.1.318.1.1.8.4.6.0'' ''integer'' 1 0]"

definition ats_rows_2 :: "oid_seed list" where
  "ats_rows_2 =
    [oid_seed_row ''ats_total_near_overload_threshold'' ''ATS Total Near Overload Threshold'' ''Threshold'' ''integer'' ''A''
       ''1.3.6.1.4.1.318.1.1.8.4.14.1.4.1'' ''integer'' 1 0,
     oid_seed_row ''ats_bank1_near_overload_threshold'' ''ATS Bank 1 Near Overload Threshold'' ''Threshold'' ''integer'' ''A''
       ''1.3.6.1.4.1.318.1.1.8.4.14.1.4.2'' ''integer'' 1 0,
     oid_seed_row ''ats_bank2_near_overload_threshold'' ''ATS Bank 2 Near Overload Threshold'' ''Threshold'' ''integer'' ''A''
       ''1.3.6.1.4.1.318.1.1.8.4.14.1.4.3'' ''integer'' 1 0,
     oid_seed_row ''ats_total_overload_threshold'' ''ATS Total Overload Threshold'' ''Threshold'' ''integer'' ''A''
       ''1.3.6.1.4.1.318.1.1.8.4.14.1.5.1'' ''integer'' 1 0,
     oid_seed_row ''ats_bank1_overload_threshold'' ''ATS Bank 1 Overload Threshold'' ''Threshold'' ''integer'' ''A''
       ''1.3.6.1.4.1.318.1.1.8.4.14.1.5.2'' ''integer'' 1 0,
     oid_seed_row ''ats_bank2_overload_threshold'' ''ATS Bank 2 Overload Threshold'' ''Threshold'' ''integer'' ''A''
       ''1.3.6.1.4.1.318.1.1.8.4.14.1.5.3'' ''integer'' 1 0,
     oid_seed_row ''ats_communication_status'' ''ATS Communication Status'' ''Status'' ''integer'' ''''
       ''1.3.6.1.4.1.318.1.1.8.5.1.1.0'' ''integer'' 1 0,
     oid_seed_row ''ats_selected_source'' ''ATS Selected Source'' ''Status'' ''integer'' ''''
       ''1.3.6.1.4.1.318.1.1.8.5.1.2.0'' ''integer'' 1 0,
     oid_seed_row ''ats_redundancy_state'' ''ATS Redundancy State'' ''Status'' ''integer'' ''''
       ''1.3.6.1.4.1.318.1.1.8.5.1.3.0'' ''integer'' 1 0,
     oid_seed_row ''ats_over_current_state'' ''ATS Over Current State'' ''Alarm'' ''integer'' ''''
       ''1.3.6.1.4.1.318.1.1.8.5.1.4.0'' ''integer'' 1 0,
     oid_seed_row ''ats_5v_power_supply_status'' ''ATS 5V Power Supply Status'' ''Hardware'' ''integer'' ''''
       ''1.3.6.1.4.1.318.1.1.8.5.1.5.0'' ''integer'' 1 0,
     oid_seed_row ''ats_24v_power_supply_status'' ''ATS 24V Power Supply Status'' ''Hardware'' ''integer'' ''''
       ''1.3.6.1.4.1.318.1.1.8.5.1.6.0'' ''integer'' 1 0,
     oid_seed_row ''ats_24v_source_b_power_supply_status'' ''ATS 24V Source B Power Supply Status'' ''Hardware'' ''integer'' ''''
       ''1.3.6.1.4.1.318.1.1.8.5.1.7.0'' ''integer'' 1 0,
     oid_seed_row ''ats_plus_12v_power_supply_status'' ''ATS Plus 12V Power Supply Status'' ''Hardware'' ''integer'' ''''
       ''1.3.6.1.4.1.318.1.1.8.5.1.8.0'' ''integer'' 1 0]"

definition ats_rows_3 :: "oid_seed list" where
  "ats_rows_3 =
    [oid_seed_row ''ats_minus_12v_power_supply_status'' ''ATS Minus 12V Power Supply Status'' ''Hardware'' ''integer'' ''''
       ''1.3.6.1.4.1.318.1.1.8.5.1.9.0'' ''integer'' 1 0,
     oid_seed_row ''ats_switch_status'' ''ATS Switch Status'' ''Hardware'' ''integer'' ''''
       ''1.3.6.1.4.1.318.1.1.8.5.1.10.0'' ''integer'' 1 0,
     oid_seed_row ''ats_front_panel_status'' ''ATS Front Panel Status'' ''Hardware'' ''integer'' ''''
       ''1.3.6.1.4.1.318.1.1.8.5.1.11.0'' ''integer'' 1 0,
     oid_seed_row ''ats_source_a_status'' ''ATS Source A Status'' ''Status'' ''integer'' ''''
       ''1.3.6.1.4.1.318.1.1.8.5.1.12.0'' ''integer'' 1 0,
     oid_seed_row ''ats_source_b_status'' ''ATS Source B Status'' ''Status'' ''integer'' ''''
       ''1.3.6.1.4.1.318.1.1.8.5.1.13.0'' ''integer'' 1 0,
     oid_seed_row ''ats_phase_sync_status'' ''ATS Phase Sync Status'' ''Status'' ''integer'' ''''
       ''1.3.6.1.4.1.318.1.1.8.5.1.14.0'' ''integer'' 1 0,
     oid_seed_row ''ats_output_voltage_status'' ''ATS Output Voltage Status'' ''Status'' ''integer'' ''''
       ''1.3.6.1.4.1.318.1.1.8.5.1.15.0'' ''integer'' 1 0,
     oid_seed_row ''ats_hardware_status'' ''ATS Hardware Status'' ''Hardware'' ''integer'' ''''
       ''1.3.6.1.4.1.318.1.1.8.5.1.16.0'' ''integer'' 1 0,
     oid_seed_row ''ats_source_a_frequency'' ''ATS Source A Frequency'' ''Power'' ''integer'' ''Hz''
       ''1.3.6.1.4.1.318.1.1.8.5.3.2.1.4.1'' ''integer'' 1 0,
     oid_seed_row ''ats_source_b_frequency'' ''ATS Source B Frequency'' ''Power'' ''integer'' ''Hz''
       ''1.3.6.1.4.1.318.1.1.8.5.3.2.1.4.2'' ''integer'' 1 0,
     oid_seed_row ''ats_source_a_type'' ''ATS Source A Type'' ''Configuration'' ''integer'' ''''
       ''1.3.6.1.4.1.318.1.1.8.5.3.2.1.5.1'' ''integer'' 1 0,
     oid_seed_row ''ats_source_b_type'' ''ATS Source B Type'' ''Configuration'' ''integer'' ''''
       ''1.3.6.1.4.1.318.1.1.8.5.3.2.1.5.2'' ''integer'' 1 0,
     oid_seed_row ''ats_source_a_name'' ''ATS Source A Name'' ''Configuration'' ''text'' ''''
       ''1.3.6.1.4.1.318.1.1.8.5.3.2.1.6.1'' ''string'' 1 0,
     oid_seed_row ''ats_source_b_name'' ''ATS Source B Name'' ''Configuration'' ''text'' ''''
       ''1.3.6.1.4.1.318.1.1.8.5.3.2.1.6.2'' ''string'' 1 0]"

definition ats_rows_4 :: "oid_seed list" where
  "ats_rows_4 =
    [oid_seed_row ''ats_source_a_voltage'' ''ATS Source A Voltage'' ''Power'' ''integer'' ''V''
       ''1.3.6.1.4.1.318.1.1.8.5.3.3.1.3.1.1.1'' ''integer'' 1 0,
     oid_seed_row ''ats_source_b_voltage'' ''ATS Source B Voltage'' ''Power'' ''integer'' ''V''
       ''1.3.6.1.4.1.318.1.1.8.5.3.3.1.3.2.1.1'' ''integer'' 1 0,
     oid_seed_row ''ats_output_voltage_orientation'' ''ATS Output Voltage Orientation'' ''Power'' ''integer'' ''''
       ''1.3.6.1.4.1.318.1.1.8.5.4.2.1.3.1'' ''integer'' 1 0,
     oid_seed_row ''ats_output_frequency'' ''ATS Output Frequency'' ''Power'' ''integer'' ''Hz''
       ''1.3.6.1.4.1.318.1.1.8.5.4.2.1.4.1'' ''integer'' 1 0,
     oid_seed_row ''ats_output_bank_total_type'' ''ATS Output Bank Total Type'' ''Configuration'' ''integer'' ''''
       ''1.3.6.1.4.1.318.1.1.8.5.4.5.1.3.1'' ''integer'' 1 0,
     oid_seed_row ''ats_output_bank1_type'' ''ATS Output Bank 1 Type'' ''Configuration'' ''integer'' ''''
       ''1.3.6.1.4.1.318.1.1.8.5.4.5.1.3.2'' ''integer'' 1 0,
     oid_seed_row ''ats_output_bank2_type'' ''ATS Output Bank 2 Type'' ''Configuration'' ''integer'' ''''
       ''1.3.6.1.4.1.318.1.1.8.5.4.5.1.3.3'' ''integer'' 1 0,
     oid_seed_row ''ats_total_output_current'' ''ATS Total Output Current'' ''Power'' ''float'' ''A''
       ''1.3.6.1.4.1.318.1.1.8.5.4.5.1.4.1'' ''gauge32'' 1 0,
     oid_seed_row ''ats_bank1_output_current'' ''ATS Bank 1 Output Current'' ''Power'' ''float'' ''A''
       ''1.3.6.1.4.1.318.1.1.8.5.4.5.1.4.2'' ''gauge32'' 1 0,
     oid_seed_row ''ats_bank2_output_current'' ''ATS Bank 2 Output Current'' ''Power'' ''float'' ''A''
       ''1.3.6.1.4.1.318.1.1.8.5.4.5.1.4.3'' ''gauge32'' 1 0,
     oid_seed_row ''ats_total_output_bank_state'' ''ATS Total Output Bank State'' ''Status'' ''integer'' ''''
       ''1.3.6.1.4.1.318.1.1.8.5.4.5.1.5.1'' ''integer'' 1 0,
     oid_seed_row ''ats_bank1_output_bank_state'' ''ATS Bank 1 Output Bank State'' ''Status'' ''integer'' ''''
       ''1.3.6.1.4.1.318.1.1.8.5.4.5.1.5.2'' ''integer'' 1 0,
     oid_seed_row ''ats_bank2_output_bank_state'' ''ATS Bank 2 Output Bank State'' ''Status'' ''integer'' ''''
       ''1.3.6.1.4.1.318.1.1.8.5.4.5.1.5.3'' ''integer'' 1 0,
     oid_seed_row ''ats_total_output_voltage'' ''ATS Total Output Voltage'' ''Power'' ''integer'' ''V''
       ''1.3.6.1.4.1.318.1.1.8.5.4.5.1.6.1'' ''integer'' 1 0]"

definition ats_rows_5 :: "oid_seed list" where
  "ats_rows_5 =
    [oid_seed_row ''ats_bank1_output_voltage'' ''ATS Bank 1 Output Voltage'' ''Power'' ''integer'' ''V''
       ''1.3.6.1.4.1.318.1.1.8.5.4.5.1.6.2'' ''integer'' 1 0,
     oid_seed_row ''ats_bank2_output_voltage'' ''ATS Bank 2 Output Voltage'' ''Power'' ''integer'' ''V''
       ''1.3.6.1.4.1.318.1.1.8.5.4.5.1.6.3'' ''integer'' 1 0,
     oid_seed_row ''ats_total_load_percent'' ''ATS Total Load Percent'' ''Power'' ''float'' ''%''
       ''1.3.6.1.4.1.318.1.1.8.5.4.5.1.12.1'' ''integer'' 1 0,
     oid_seed_row ''ats_bank1_load_percent'' ''ATS Bank 1 Load Percent'' ''Power'' ''float'' ''%''
       ''1.3.6.1.4.1.318.1.1.8.5.4.5.1.12.2'' ''integer'' 1 0,
     oid_seed_row ''ats_bank2_load_percent'' ''ATS Bank 2 Load Percent'' ''Power'' ''float'' ''%''
       ''1.3.6.1.4.1.318.1.1.8.5.4.5.1.12.3'' ''integer'' 1 0,
     oid_seed_row ''ats_trap_receiver_count'' ''ATS Trap Receiver Count'' ''Network'' ''integer'' ''''
       ''1.3.6.1.4.1.318.2.1.1.0'' ''integer'' 1 0,
     oid_seed_row ''ats_trap_receiver_1_address'' ''ATS Trap Receiver 1 Address'' ''Network'' ''text'' ''''
       ''1.3.6.1.4.1.318.2.1.2.1.2.1'' ''ipaddress'' 1 0,
     oid_seed_row ''ats_trap_receiver_2_address'' ''ATS Trap Receiver 2 Address'' ''Network'' ''text'' ''''
       ''1.3.6.1.4.1.318.2.1.2.1.2.2'' ''ipaddress'' 1 0,
     oid_seed_row ''ats_trap_receiver_3_address'' ''ATS Trap Receiver 3 Address'' ''Network'' ''text'' ''''
       ''1.3.6.1.4.1.318.2.1.2.1.2.3'' ''ipaddress'' 1 0,
     oid_seed_row ''ats_trap_receiver_4_address'' ''ATS Trap Receiver 4 Address'' ''Network'' ''text'' ''''
       ''1.3.6.1.4.1.318.2.1.2.1.2.4'' ''ipaddress'' 1 0]"

definition ats_rows :: "oid_seed list" where
  "ats_rows = ats_rows_1 @ ats_rows_2 @ ats_rows_3 @ ats_rows_4 @ ats_rows_5"

subsection \<open>APC Symmetra UPS\<close>

definition UPS_IMPORTANT_OIDS_1 :: "oid_seed list" where
  "UPS_IMPORTANT_OIDS_1 =
    [oid_seed_row ''ups_output_status'' ''UPS Output Status'' ''Status'' ''Integer'' ''''
       ''1.3.6.1.4.1.318.1.1.1.4.1.1.0'' ''integer'' 1 0,
     oid_seed_row ''ups_comm_status'' ''UPS Communication Status'' ''Status'' ''Integer'' ''''
       ''1.3.6.1.4.1.318.1.1.1.8.1.0'' ''integer'' 1 0,
     oid_seed_row ''ups_battery_status'' ''UPS Battery Status'' ''Battery'' ''Integer'' ''''
       ''1.3.6.1.4.1.318.1.1.1.2.1.1.0'' ''integer'' 1 0,
     oid_seed_row ''ups_battery_capacity_percent'' ''UPS Battery Capacity Percent'' ''Battery'' ''Float'' ''%''
       ''1.3.6.1.4.1.318.1.1.1.2.3.1.0'' ''integer'' (1 / 10) 0,
     oid_seed_row ''ups_battery_runtime_remaining'' ''UPS Battery Runtime Remaining'' ''Battery'' ''Integer'' ''timeticks''
       ''1.3.6.1.4.1.318.1.1.1.2.2.3.0'' ''integer'' 1 0,
     oid_seed_row ''ups_battery_temperature_celsius'' ''UPS Battery Temperature'' ''Battery'' ''Float'' ''C''
       ''1.3.6.1.4.1.318.1.1.1.2.3.2.0'' ''integer'' (1 / 10) 0,
     oid_seed_row ''ups_bad_battery_pack_count'' ''UPS Bad Battery Pack Count'' ''Battery'' ''Integer'' ''count''
       ''1.3.6.1.4.1.318.1.1.1.2.2.6.0'' ''integer'' 1 0,
     oid_seed_row ''ups_input_voltage'' ''UPS Input Voltage'' ''Power'' ''Float'' ''V''
       ''1.3.6.1.4.1.318.1.1.1.3.3.1.0'' ''integer'' (1 / 10) 0,
     oid_seed_row ''ups_input_frequency'' ''UPS Input Frequency'' ''Power'' ''Float'' ''Hz''
       ''1.3.6.1.4.1.318.1.1.1.3.3.4.0'' ''integer'' (1 / 10) 0,
     oid_seed_row ''ups_input_line_fail_cause'' ''UPS Input Line Fail Cause'' ''Alarm'' ''Integer'' ''''
       ''1.3.6.1.4.1.318.1.1.1.3.2.5.0'' ''integer'' 1 0,
     oid_seed_row ''ups_output_voltage'' ''UPS Output Voltage'' ''Power'' ''Float'' ''V''
       ''1.3.6.1.4.1.318.1.1.1.4.3.1.0'' ''integer'' (1 / 10) 0,
     oid_seed_row ''ups_output_frequency'' ''UPS Output Frequency'' ''Power'' ''Float'' ''Hz''
       ''1.3.6.1.4.1.318.1.1.1.4.3.2.0'' ''integer'' (1 / 10) 0,
     oid_seed_row ''ups_load_percent'' ''UPS Load Percent'' ''Power'' ''Float'' ''%''
       ''1.3.6.1.4.1.318.1.1.1.4.3.3.0'' ''integer'' (1 / 10) 0]"

definition UPS_IMPORTANT_OIDS_2 :: "oid_seed list" where
  "UPS_IMPORTANT_OIDS_2 =
    [oid_seed_row ''ups_output_current'' ''UPS Output Current'' ''Power'' ''Float'' ''A''
       ''1.3.6.1.4.1.318.1.1.1.4.3.4.0'' ''integer'' (1 / 10) 0,
     oid_seed_row ''ups_output_redundancy'' ''UPS Output Redundancy'' ''Power'' ''Integer'' ''''
       ''1.3.6.1.4.1.318.1.1.1.4.2.5.0'' ''integer'' 1 0,
     oid_seed_row ''ups_output_kva_capacity'' ''UPS Output kVA Capacity'' ''Power'' ''Integer'' ''kVA''
       ''1.3.6.1.4.1.318.1.1.1.4.2.6.0'' ''integer'' 1 0,
     oid_seed_row ''ups_abnormal_conditions'' ''UPS Abnormal Conditions'' ''Alarm'' ''Text'' ''''
       ''1.3.6.1.4.1.318.1.1.1.11.2.1.0'' ''string'' 1 0,
     oid_seed_row ''ups_output_l1_voltage'' ''UPS Output L1 Voltage'' ''Power'' ''Float'' ''V''
       ''1.3.6.1.4.1.318.1.1.1.9.3.3.1.3.1.1.1'' ''integer'' 1 0,
     oid_seed_row ''ups_output_l2_voltage'' ''UPS Output L2 Voltage'' ''Power'' ''Float'' ''V''
       ''1.3.6.1.4.1.318.1.1.1.9.3.3.1.3.1.1.2'' ''integer'' 1 0,
     oid_seed_row ''ups_output_l3_voltage'' ''UPS Output L3 Voltage'' ''Power'' ''Float'' ''V''
       ''1.3.6.1.4.1.318.1.1.1.9.3.3.1.3.1.1.3'' ''integer'' 1 0,
     oid_seed_row ''ups_output_l1_current'' ''UPS Output L1 Current'' ''Power'' ''Float'' ''A''
       ''1.3.6.1.4.1.318.1.1.1.9.3.3.1.4.1.1.1'' ''integer'' (1 / 10) 0,
     oid_seed_row ''ups_output_l2_current'' ''UPS Output L2 Current'' ''Power'' ''Float'' ''A''
       ''1.3.6.1.4.1.318.1.1.1.9.3.3.1.4.1.1.2'' ''integer'' (1 / 10) 0,
     oid_seed_row ''ups_output_l3_current'' ''UPS Output L3 Current'' ''Power'' ''Float'' ''A''
       ''1.3.6.1.4.1.318.1.1.1.9.3.3.1.4.1.1.3'' ''integer'' (1 / 10) 0,
     oid_seed_row ''ups_output_l1_percent_load'' ''UPS Output L1 Percent Load'' ''Power'' ''Float'' ''%''
       ''1.3.6.1.4.1.318.1.1.1.9.3.3.1.10.1.1.1'' ''integer'' 1 0,
     oid_seed_row ''ups_output_l2_percent_load'' ''UPS Output L2 Percent Load'' ''Power'' ''Float'' ''%''
       ''1.3.6.1.4.1.318.1.1.1.9.3.3.1.10.1.1.2'' ''integer'' 1 0,
     oid_seed_row ''ups_output_l3_percent_load'' ''UPS Output L3 Percent Load'' ''Power'' ''Float'' ''%''
       ''1.3.6.1.4.1.318.1.1.1.9.3.3.1.10.1.1.3'' ''integer'' 1 0]"

definition UPS_IMPORTANT_OIDS_3 :: "oid_seed list" where
  "UPS_IMPORTANT_OIDS_3 =
    [oid_seed_row ''ups_input_l1_voltage'' ''UPS Input L1 Voltage'' ''Power'' ''Float'' ''V''
       ''1.3.6.1.4.1.318.1.1.1.9.2.3.1.3.1.1.1'' ''integer'' 1 0,
     oid_seed_row ''ups_input_l2_voltage'' ''UPS Input L2 Voltage'' ''Power'' ''Float'' ''V''
       ''1.3.6.1.4.1.318.1.1.1.9.2.3.1.3.1.1.2'' ''integer'' 1 0,
     oid_seed_row ''ups_input_l3_voltage'' ''UPS Input L3 Voltage'' ''Power'' ''Float'' ''V''
       ''1.3.6.1.4.1.318.1.1.1.9.2.3.1.3.1.1.3'' ''integer'' 1 0,
     oid_seed_row ''ups_input_l1_current'' ''UPS Input L1 Current'' ''Power'' ''Float'' ''A''
       ''1.3.6.1.4.1.318.1.1.1.9.2.3.1.6.1.1.1'' ''integer'' (1 / 10) 0,
     oid_seed_row ''ups_input_l2_current'' ''UPS Input L2 Current'' ''Power'' ''Float'' ''A''
       ''1.3.6.1.4.1.318.1.1.1.9.2.3.1.6.1.1.2'' ''integer'' (1 / 10) 0,
     oid_seed_row ''ups_input_l3_current'' ''UPS Input L3 Current'' ''Power'' ''Float'' ''A''
       ''1.3.6.1.4.1.318.1.1.1.9.2.3.1.6.1.1.3'' ''integer'' (1 / 10) 0]"

definition UPS_IMPORTANT_OIDS :: "oid_seed list" where
  "UPS_IMPORTANT_OIDS = UPS_IMPORTANT_OIDS_1 @ UPS_IMPORTANT_OIDS_2 @ UPS_IMPORTANT_OIDS_3"

subsection \<open>Uniflair PAC\<close>

definition PAC_OID_ITEMS_1 :: "oid_seed list" where
  "PAC_OID_ITEMS_1 =
    [oid_seed_row ''pac_room_temperature'' ''PAC Room Temperature'' ''Cooling'' ''Float'' ''C''
       ''1.3.6.1.4.1.9839.2.1.2.1.0'' ''float'' (1 / 10) 0,
     oid_seed_row ''pac_room_humidity'' ''PAC Room Humidity'' ''Cooling'' ''Float'' ''%''
       ''1.3.6.1.4.1.9839.2.1.2.6.0'' ''float'' (1 / 10) 0,
     oid_seed_row ''pac_running_status'' ''PAC Running Status'' ''Cooling'' ''Integer'' ''''
       ''1.3.6.1.4.1.9839.2.1.1.1.0'' ''integer'' 1 0,
     oid_seed_row ''pac_dehumidification_status'' ''PAC Dehumidification Status'' ''Cooling'' ''Integer'' ''''
       ''1.3.6.1.4.1.9839.2.1.1.10.0'' ''integer'' 1 0,
     oid_seed_row ''pac_fan_speed'' ''PAC Fan Speed'' ''Cooling'' ''Float'' ''%''
       ''1.3.6.1.4.1.9839.2.1.2.18.0'' ''float'' (1 / 10) 0,
     oid_seed_row ''pac_cooling_setpoint'' ''PAC Cooling Setpoint'' ''Cooling'' ''Float'' ''C''
       ''1.3.6.1.4.1.9839.2.1.2.20.0'' ''float'' (1 / 10) 0,
     oid_seed_row ''pac_compressor_1_status'' ''PAC Compressor 1 Status'' ''Cooling'' ''Integer'' ''''
       ''1.3.6.1.4.1.9839.2.1.1.2.0'' ''integer'' 1 0,
     oid_seed_row ''pac_compressor_2_status'' ''PAC Compressor 2 Status'' ''Cooling'' ''Integer'' ''''
       ''1.3.6.1.4.1.9839.2.1.1.3.0'' ''integer'' 1 0,
     oid_seed_row ''pac_compressor_3_status'' ''PAC Compressor 3 Status'' ''Cooling'' ''Integer'' ''''
       ''1.3.6.1.4.1.9839.2.1.1.4.0'' ''integer'' 1 0,
     oid_seed_row ''pac_compressor_4_status'' ''PAC Compressor 4 Status'' ''Cooling'' ''Integer'' ''''
       ''1.3.6.1.4.1.9839.2.1.1.5.0'' ''integer'' 1 0,
     oid_seed_row ''pac_general_alarm'' ''PAC General Alarm'' ''Alarm'' ''Integer'' ''''
       ''1.3.6.1.4.1.9839.2.1.1.66.0'' ''integer'' 1 0]"

definition PAC_OID_ITEMS_2 :: "oid_seed list" where
  "PAC_OID_ITEMS_2 =
    [oid_seed_row ''pac_room_high_temperature_alarm'' ''PAC Room High Temperature Alarm'' ''Alarm'' ''Integer'' ''''
       ''1.3.6.1.4.1.9839.2.1.1.21.0'' ''integer'' 1 0,
     oid_seed_row ''pac_room_low_temperature_alarm'' ''PAC Room Low Temperature Alarm'' ''Alarm'' ''Integer'' ''''
       ''1.3.6.1.4.1.9839.2.1.1.22.0'' ''integer'' 1 0,
     oid_seed_row ''pac_room_high_humidity_alarm'' ''PAC Room High Humidity Alarm'' ''Alarm'' ''Integer'' ''''
       ''1.3.6.1.4.1.9839.2.1.1.23.0'' ''integer'' 1 0,
     oid_seed_row ''pac_room_low_humidity_alarm'' ''PAC Room Low Humidity Alarm'' ''Alarm'' ''Integer'' ''''
       ''1.3.6.1.4.1.9839.2.1.1.24.0'' ''integer'' 1 0,
     oid_seed_row ''pac_airflow_alarm'' ''PAC Airflow Alarm'' ''Alarm'' ''Integer'' ''''
       ''1.3.6.1.4.1.9839.2.1.1.28.0'' ''integer'' 1 0,
     oid_seed_row ''pac_water_leak_alarm'' ''PAC Water Leak Alarm'' ''Alarm'' ''Integer'' ''''
       ''1.3.6.1.4.1.9839.2.1.1.27.0'' ''integer'' 1 0,
     oid_seed_row ''pac_filter_alarm'' ''PAC Filter Alarm'' ''Alarm'' ''Integer'' ''''
       ''1.3.6.1.4.1.9839.2.1.1.26.0'' ''integer'' 1 0,
     oid_seed_row ''pac_smoke_fire_alarm'' ''PAC Smoke Fire Alarm'' ''Alarm'' ''Integer'' ''''
       ''1.3.6.1.4.1.9839.2.1.1.37.0'' ''integer'' 1 0,
     oid_seed_row ''pac_emergency_power_alarm'' ''PAC Emergency Power Alarm'' ''Alarm'' ''Integer'' ''''
       ''1.3.6.1.4.1.9839.2.1.1.12.0'' ''integer'' 1 0,
     oid_seed_row ''pac_phase_sequence_alarm'' ''PAC Phase Sequence Alarm'' ''Alarm'' ''Integer'' ''''
       ''1.3.6.1.4.1.9839.2.1.1.36.0'' ''integer'' 1 0,
     oid_seed_row ''pac_lan_alarm'' ''PAC LAN Alarm'' ''Alarm'' ''Integer'' ''''
       ''1.3.6.1.4.1.9839.2.1.1.38.0'' ''integer'' 1 0,
     oid_seed_row ''pac_unit_work_hours'' ''PAC Unit Work Hours'' ''Cooling'' ''Integer'' ''h''
       ''1.3.6.1.4.1.9839.2.1.3.2.0'' ''integer'' 1 0]"

definition PAC_OID_ITEMS_3 :: "oid_seed list" where
  "PAC_OID_ITEMS_3 =
    [oid_seed_row ''pac_filter_work_hours'' ''PAC Filter Work Hours'' ''Cooling'' ''Integer'' ''h''
       ''1.3.6.1.4.1.9839.2.1.3.1.0'' ''integer'' 1 0]"

definition PAC_OID_ITEMS :: "oid_seed list" where
  "PAC_OID_ITEMS = PAC_OID_ITEMS_1 @ PAC_OID_ITEMS_2 @ PAC_OID_ITEMS_3"

subsection \<open>APC AP8853 rack PDU\<close>

definition PDU_METRICS :: "oid_seed list" where
  "PDU_METRICS =
    [oid_seed_row ''pdu_device_name'' ''PDU Device Name'' ''Inventory'' ''string'' ''''
       ''1.3.6.1.4.1.318.1.1.26.2.1.3.1'' ''string'' 1 0,
     oid_seed_row ''pdu_location'' ''PDU Location'' ''Inventory'' ''string'' ''''
       ''1.3.6.1.4.1.318.1.1.26.2.1.4.1'' ''string'' 1 0,
     oid_seed_row ''pdu_hardware_revision'' ''PDU Hardware Revision'' ''Inventory'' ''string'' ''''
       ''1.3.6.1.4.1.318.1.1.26.2.1.5.1'' ''string'' 1 0,
     oid_seed_row ''pdu_firmware_version'' ''PDU Firmware Version'' ''Inventory'' ''string'' ''''
       ''1.3.6.1.4.1.318.1.1.26.2.1.6.1'' ''string'' 1 0,
     oid_seed_row ''pdu_manufacture_date'' ''PDU Manufacture Date'' ''Inventory'' ''string'' ''''
       ''1.3.6.1.4.1.318.1.1.26.2.1.7.1'' ''string'' 1 0,
     oid_seed_row ''pdu_model_number'' ''PDU Model Number'' ''Inventory'' ''string'' ''''
       ''1.3.6.1.4.1.318.1.1.26.2.1.8.1'' ''string'' 1 0,
     oid_seed_row ''pdu_serial_number'' ''PDU Serial Number'' ''Inventory'' ''string'' ''''
       ''1.3.6.1.4.1.318.1.1.26.2.1.9.1'' ''string'' 1 0,
     oid_seed_row ''pdu_contact'' ''PDU Contact'' ''Inventory'' ''string'' ''''
       ''1.3.6.1.4.1.318.1.1.26.2.1.10.1'' ''string'' 1 0,
     oid_seed_row ''pdu_total_outlets'' ''PDU Total Outlets'' ''Power'' ''integer'' ''count''
       ''1.3.6.1.4.1.318.1.1.26.4.2.1.4.1'' ''integer'' 1 0,
     oid_seed_row ''pdu_switched_outlet_count'' ''PDU Switched Outlet Count'' ''Power'' ''integer'' ''count''
       ''1.3.6.1.4.1.318.1.1.26.4.2.1.5.1'' ''integer'' 1 0,
     oid_seed_row ''pdu_metered_outlet_count'' ''PDU Metered Outlet Count'' ''Power'' ''integer'' ''count''
       ''1.3.6.1.4.1.318.1.1.26.4.2.1.6.1'' ''integer'' 1 0,
     oid_seed_row ''pdu_phase_count'' ''PDU Phase Count'' ''Power'' ''integer'' ''count''
       ''1.3.6.1.4.1.318.1.1.26.4.2.1.7.1'' ''integer'' 1 0,
     oid_seed_row ''pdu_bank_count'' ''PDU Metered Bank Count'' ''Power'' ''integer'' ''count''
       ''1.3.6.1.4.1.318.1.1.26.4.2.1.8.1'' ''integer'' 1 0,
     oid_seed_row ''pdu_max_current_rating'' ''PDU Max Current Rating'' ''Power'' ''float'' ''A''
       ''1.3.6.1.4.1.318.1.1.26.4.2.1.9.1'' ''integer'' 1 0,
     oid_seed_row ''pdu_max_phase_current_rating'' ''PDU Max Phase Current Rating'' ''Power'' ''float'' ''A''
       ''1.3.6.1.4.1.318.1.1.26.4.2.1.12.1'' ''integer'' 1 0,
     oid_seed_row ''pdu_device_load_state'' ''PDU Device Load State'' ''Power'' ''integer'' ''state''
       ''1.3.6.1.4.1.318.1.1.26.4.3.1.4.1'' ''integer'' 1 0,
     oid_seed_row ''pdu_active_power_kw'' ''PDU Active Power'' ''Power'' ''float'' ''kW''
       ''1.3.6.1.4.1.318.1.1.26.4.3.1.5.1'' ''integer'' (1 / 100) 0,
     oid_seed_row ''pdu_peak_power_kw'' ''PDU Peak Power'' ''Power'' ''float'' ''kW''
       ''1.3.6.1.4.1.318.1.1.26.4.3.1.6.1'' ''integer'' (1 / 100) 0,
     oid_seed_row ''pdu_peak_power_timestamp'' ''PDU Peak Power Timestamp'' ''Power'' ''string'' ''''
       ''1.3.6.1.4.1.318.1.1.26.4.3.1.7.1'' ''string'' 1 0,
     oid_seed_row ''pdu_total_energy'' ''PDU Total Energy'' ''Energy'' ''float'' ''kWh''
       ''1.3.6.1.4.1.318.1.1.26.4.3.1.9.1'' ''integer'' 1 0,
     oid_seed_row ''pdu_energy_start_time'' ''PDU Energy Start Time'' ''Energy'' ''string'' ''''
       ''1.3.6.1.4.1.318.1.1.26.4.3.1.10.1'' ''string'' 1 0,
     oid_seed_row ''pdu_command_pending'' ''PDU Command Pending'' ''Status'' ''integer'' ''state''
       ''1.3.6.1.4.1.318.1.1.26.4.3.1.11.1'' ''integer'' 1 0,
     oid_seed_row ''pdu_power_supply_alarm'' ''PDU Power Supply Alarm'' ''Status'' ''integer'' ''state''
       ''1.3.6.1.4.1.318.1.1.26.4.3.1.12.1'' ''integer'' 1 0,
     oid_seed_row ''pdu_power_supply_1_status'' ''PDU Power Supply 1 Status'' ''Status'' ''integer'' ''state''
       ''1.3.6.1.4.1.318.1.1.26.4.3.1.13.1'' ''integer'' 1 0,
     oid_seed_row ''pdu_power_supply_2_status'' ''PDU Power Supply 2 Status'' ''Status'' ''integer'' ''state''
       ''1.3.6.1.4.1.318.1.1.26.4.3.1.14.1'' ''integer'' 1 0,
     oid_seed_row ''pdu_apparent_power_kva'' ''PDU Apparent Power'' ''Power'' ''float'' ''kVA''
       ''1.3.6.1.4.1.318.1.1.26.4.3.1.16.1'' ''integer'' (1 / 100) 0,
     oid_seed_row ''pdu_power_factor'' ''PDU Power Factor'' ''Power'' ''float'' ''ratio''
       ''1.3.6.1.4.1.318.1.1.26.4.3.1.17.1'' ''integer'' (1 / 100) 0,
     oid_seed_row ''pdu_phase_table_size'' ''PDU Phase Table Size'' ''Power'' ''integer'' ''count''
       ''1.3.6.1.4.1.318.1.1.26.5.0'' ''integer'' 1 0,
     oid_seed_row ''pdu_phase_low_threshold'' ''PDU Phase Low Load Threshold'' ''Power'' ''float'' ''A''
       ''1.3.6.1.4.1.318.1.1.26.6.1.1.5.1'' ''integer'' 1 0,
     oid_seed_row ''pdu_phase_near_overload_threshold'' ''PDU Phase Near Overload Threshold'' ''Power'' ''float'' ''A''
       ''1.3.6.1.4.1.318.1.1.26.6.1.1.6.1'' ''integer'' 1 0,
     oid_seed_row ''pdu_phase_overload_threshold'' ''PDU Phase Overload Threshold'' ''Power'' ''float'' ''A''
       ''1.3.6.1.4.1.318.1.1.26.6.1.1.7.1'' ''integer'' 1 0,
     oid_seed_row ''pdu_phase_load_state'' ''PDU Phase Load State'' ''Power'' ''integer'' ''state''
       ''1.3.6.1.4.1.318.1.1.26.6.3.1.4.1'' ''integer'' 1 0,
     oid_seed_row ''pdu_phase_current'' ''PDU Phase Current'' ''Power'' ''float'' ''A''
       ''1.3.6.1.4.1.318.1.1.26.6.3.1.5.1'' ''integer'' (1 / 10) 0,
     oid_seed_row ''pdu_phase_voltage'' ''PDU Phase Voltage'' ''Power'' ''float'' ''V''
       ''1.3.6.1.4.1.318.1.1.26.6.3.1.6.1'' ''integer'' 1 0,
     oid_seed_row ''pdu_phase_active_power_kw'' ''PDU Phase Active Power'' ''Power'' ''float'' ''kW''
       ''1.3.6.1.4.1.318.1.1.26.6.3.1.7.1'' ''integer'' (1 / 100) 0,
     oid_seed_row ''pdu_phase_apparent_power_kva'' ''PDU Phase Apparent Power'' ''Power'' ''float'' ''kVA''
       ''1.3.6.1.4.1.318.1.1.26.6.3.1.8.1'' ''integer'' (1 / 100) 0,
     oid_seed_row ''pdu_phase_power_factor'' ''PDU Phase Power Factor'' ''Power'' ''float'' ''ratio''
       ''1.3.6.1.4.1.318.1.1.26.6.3.1.9.1'' ''integer'' (1 / 100) 0,
     oid_seed_row ''pdu_phase_peak_current'' ''PDU Phase Peak Current'' ''Power'' ''float'' ''A''
       ''1.3.6.1.4.1.318.1.1.26.6.3.1.10.1'' ''integer'' (1 / 10) 0,
     oid_seed_row ''pdu_bank_table_size'' ''PDU Bank Table Size'' ''Power'' ''integer'' ''count''
       ''1.3.6.1.4.1.318.1.1.26.7.0'' ''integer'' 1 0,
     oid_seed_row ''pdu_bank1_low_threshold'' ''PDU Bank 1 Low Load Threshold'' ''Power'' ''float'' ''A''
       ''1.3.6.1.4.1.318.1.1.26.8.1.1.5.1'' ''integer'' 1 0,
     oid_seed_row ''pdu_bank2_low_threshold'' ''PDU Bank 2 Low Load Threshold'' ''Power'' ''float'' ''A''
       ''1.3.6.1.4.1.318.1.1.26.8.1.1.5.2'' ''integer'' 1 0,
     oid_seed_row ''pdu_bank1_near_overload_threshold'' ''PDU Bank 1 Near Overload Threshold'' ''Power'' ''float'' ''A''
       ''1.3.6.1.4.1.318.1.1.26.8.1.1.6.1'' ''integer'' 1 0,
     oid_seed_row ''pdu_bank2_near_overload_threshold'' ''PDU Bank 2 Near Overload Threshold'' ''Power'' ''float'' ''A''
       ''1.3.6.1.4.1.318.1.1.26.8.1.1.6.2'' ''integer'' 1 0,
     oid_seed_row ''pdu_bank1_overload_threshold'' ''PDU Bank 1 Overload Threshold'' ''Power'' ''float'' ''A''
       ''1.3.6.1.4.1.318.1.1.26.8.1.1.7.1'' ''integer'' 1 0,
     oid_seed_row ''pdu_bank2_overload_threshold'' ''PDU Bank 2 Overload Threshold'' ''Power'' ''float'' ''A''
       ''1.3.6.1.4.1.318.1.1.26.8.1.1.7.2'' ''integer'' 1 0,
     oid_seed_row ''pdu_bank1_load_state'' ''PDU Bank 1 Load State'' ''Power'' ''integer'' ''state''
       ''1.3.6.1.4.1.318.1.1.26.8.3.1.4.1'' ''integer'' 1 0,
     oid_seed_row ''pdu_bank2_load_state'' ''PDU Bank 2 Load State'' ''Power'' ''integer'' ''state''
       ''1.3.6.1.4.1.318.1.1.26.8.3.1.4.2'' ''integer'' 1 0,
     oid_seed_row ''pdu_bank1_current'' ''PDU Bank 1 Current'' ''Power'' ''float'' ''A''
       ''1.3.6.1.4.1.318.1.1.26.8.3.1.5.1'' ''integer'' (1 / 10) 0,
     oid_seed_row ''pdu_bank2_current'' ''PDU Bank 2 Current'' ''Power'' ''float'' ''A''
       ''1.3.6.1.4.1.318.1.1.26.8.3.1.5.2'' ''integer'' (1 / 10) 0,
     oid_seed_row ''pdu_bank1_peak_current'' ''PDU Bank 1 Peak Current'' ''Power'' ''float'' ''A''
       ''1.3.6.1.4.1.318.1.1.26.8.3.1.6.1'' ''integer'' (1 / 10) 0,
     oid_seed_row ''pdu_bank2_peak_current'' ''PDU Bank 2 Peak Current'' ''Power'' ''float'' ''A''
       ''1.3.6.1.4.1.318.1.1.26.8.3.1.6.2'' ''integer'' (1 / 10) 0,
     oid_seed_row ''pdu_outlet_switched_table_size'' ''PDU Outlet Switched Table Size'' ''Power'' ''integer'' ''count''
       ''1.3.6.1.4.1.318.1.1.26.9.1.0'' ''integer'' 1 0,
     oid_seed_row ''pdu_outlet_metered_table_size'' ''PDU Outlet Metered Table Size'' ''Power'' ''integer'' ''count''
       ''1.3.6.1.4.1.318.1.1.26.9.3.0'' ''integer'' 1 0,
     oid_seed_row ''pdu_group_total_power_kw'' ''PDU Group Total Power'' ''Power'' ''float'' ''kW''
       ''1.3.6.1.4.1.318.1.1.26.11.2.0'' ''integer'' (1 / 100) 0,
     oid_seed_row ''pdu_group_total_energy'' ''PDU Group Total Energy'' ''Energy'' ''float'' ''kWh''
       ''1.3.6.1.4.1.318.1.1.26.11.3.0'' ''integer'' 1 0,
     oid_seed_row ''device_uptime'' ''Device Uptime'' ''Status'' ''float'' ''seconds''
       ''1.3.6.1.2.1.1.3.0'' ''timeticks'' (1 / 100) 0,
     oid_seed_row ''device_interface_oper_status'' ''Device Interface Operational Status'' ''Network'' ''integer'' ''state''
       ''1.3.6.1.2.1.2.2.1.8.2'' ''integer'' 1 0,
     oid_seed_row ''device_interface_speed'' ''Device Interface Speed'' ''Network'' ''float'' ''bps''
       ''1.3.6.1.2.1.2.2.1.5.2'' ''gauge'' 1 0,
     oid_seed_row ''snmp_bad_community_uses'' ''SNMP Bad Community Uses'' ''Security'' ''integer'' ''count''
       ''1.3.6.1.2.1.11.6.0'' ''counter'' 1 0]"

subsection \<open>APC NetBotz 450\<close>

definition NETBOTZ_METRICS_1 :: "metric_seed list" where
  "NETBOTZ_METRICS_1 =
    [metric_seed_row ''netbotz_temperature'' ''NetBotz Temperature'' ''Environment'' ''float'' ([CHR 0xB0] @ ''C''),
     metric_seed_row ''netbotz_humidity'' ''NetBotz Humidity'' ''Environment'' ''float'' ''%RH'',
     metric_seed_row ''netbotz_dew_point'' ''NetBotz Dew Point'' ''Environment'' ''float'' ([CHR 0xB0] @ ''C''),
     metric_seed_row ''netbotz_water_leak'' ''NetBotz Water Leak'' ''Safety'' ''string'' '''',
     metric_seed_row ''netbotz_beacon'' ''NetBotz Beacon'' ''Safety'' ''string'' '''',
     metric_seed_row ''netbotz_power_room_smoke'' ''NetBotz Power Room Smoke'' ''Safety'' ''string'' '''',
     metric_seed_row ''netbotz_network_room_smoke'' ''NetBotz Network Room Smoke'' ''Safety'' ''string'' '''',
     metric_seed_row ''netbotz_ethernet_link'' ''NetBotz Ethernet Link'' ''Network'' ''string'' '''',
     metric_seed_row ''netbotz_alink_bus_power'' ''NetBotz A-Link Bus Power'' ''Power'' ''string'' '''',
     metric_seed_row ''netbotz_alink_sensor_count'' ''NetBotz A-Link Sensor Count'' ''Connectivity'' ''integer'' '''',
     metric_seed_row ''netbotz_main_enclosure'' ''NetBotz Main Enclosure'' ''Device'' ''string'' '''',
     metric_seed_row ''netbotz_sensor_pod'' ''NetBotz Sensor Pod'' ''Device'' ''string'' '''',
     metric_seed_row ''netbotz_4_20ma_port_71'' ''NetBotz 4-20mA Port 71'' ''Connectivity'' ''string'' '''',
     metric_seed_row ''netbotz_4_20ma_port_72'' ''NetBotz 4-20mA Port 72'' ''Connectivity'' ''string'' '''',
     metric_seed_row ''netbotz_4_20ma_port_73'' ''NetBotz 4-20mA Port 73'' ''Connectivity'' ''string'' '''',
     metric_seed_row ''netbotz_4_20ma_port_74'' ''NetBotz 4-20mA Port 74'' ''Connectivity'' ''string'' '''',
     metric_seed_row ''netbotz_usb_port_a'' ''NetBotz USB Port A'' ''Connectivity'' ''string'' '''',
     metric_seed_row ''netbotz_usb_port_b'' ''NetBotz USB Port B'' ''Connectivity'' ''string'' '''']"

definition NETBOTZ_METRICS_2 :: "metric_seed list" where
  "NETBOTZ_METRICS_2 =
    [metric_seed_row ''netbotz_usb_port_c'' ''NetBotz USB Port C'' ''Connectivity'' ''string'' '''',
     metric_seed_row ''netbotz_usb_port_d'' ''NetBotz USB Port D'' ''Connectivity'' ''string'' '''',
     metric_seed_row ''netbotz_rs485_port'' ''NetBotz RS-485 Port'' ''Connectivity'' ''string'' '''',
     metric_seed_row ''netbotz_relay_output_1'' ''NetBotz Relay Output 1'' ''Connectivity'' ''string'' '''',
     metric_seed_row ''netbotz_relay_output_2'' ''NetBotz Relay Output 2'' ''Connectivity'' ''string'' '''',
     metric_seed_row ''netbotz_system_description'' ''NetBotz System Description'' ''Device'' ''string'' '''',
     metric_seed_row ''netbotz_system_object_id'' ''NetBotz System Object ID'' ''Device'' ''string'' '''',
     metric_seed_row ''netbotz_device_uptime'' ''NetBotz Device Uptime'' ''Device'' ''timeticks'' ''ticks'',
     metric_seed_row ''netbotz_system_name'' ''NetBotz System Name'' ''Device'' ''string'' '''',
     metric_seed_row ''netbotz_interface_status'' ''NetBotz Interface Status'' ''Network'' ''integer'' '''',
     metric_seed_row ''netbotz_interface_speed'' ''NetBotz Interface Speed'' ''Network'' ''integer'' ''Mbps'',
     metric_seed_row ''netbotz_mac_address'' ''NetBotz MAC Address'' ''Network'' ''string'' '''',
     metric_seed_row ''netbotz_snmp_in_packets'' ''NetBotz SNMP In Packets'' ''SNMP'' ''integer'' ''packets'',
     metric_seed_row ''netbotz_snmp_out_packets'' ''NetBotz SNMP Out Packets'' ''SNMP'' ''integer'' ''packets'',
     metric_seed_row ''netbotz_snmp_bad_versions'' ''NetBotz SNMP Bad Versions'' ''SNMP'' ''integer'' ''count'',
     metric_seed_row ''netbotz_snmp_bad_community_names'' ''NetBotz SNMP Bad Community Names'' ''SNMP'' ''integer'' ''count'',
     metric_seed_row ''netbotz_snmp_bad_community_uses'' ''NetBotz SNMP Bad Community Uses'' ''SNMP'' ''integer'' ''count'',
     metric_seed_row ''netbotz_snmp_asn_parse_errors'' ''NetBotz SNMP ASN Parse Errors'' ''SNMP'' ''integer'' ''count'']"

definition NETBOTZ_METRICS_3 :: "metric_seed list" where
  "NETBOTZ_METRICS_3 =
    [metric_seed_row ''netbotz_snmp_no_such_names'' ''NetBotz SNMP No Such Names'' ''SNMP'' ''integer'' ''count'',
     metric_seed_row ''netbotz_snmp_bad_values'' ''NetBotz SNMP Bad Values'' ''SNMP'' ''integer'' ''count'',
     metric_seed_row ''netbotz_snmp_general_errors'' ''NetBotz SNMP General Errors'' ''SNMP'' ''integer'' ''count'',
     metric_seed_row ''netbotz_snmp_silent_drops'' ''NetBotz SNMP Silent Drops'' ''SNMP'' ''integer'' ''count'',
     metric_seed_row ''netbotz_snmp_proxy_drops'' ''NetBotz SNMP Proxy Drops'' ''SNMP'' ''integer'' ''count'']"

definition NETBOTZ_METRICS :: "metric_seed list" where
  "NETBOTZ_METRICS = NETBOTZ_METRICS_1 @ NETBOTZ_METRICS_2 @ NETBOTZ_METRICS_3"

definition OID_MAPPINGS :: "(string \<times> string \<times> string \<times> rat \<times> rat) list" where
  "OID_MAPPINGS =
    [(''netbotz_temperature'', ''1.3.6.1.4.1.5528.100.4.1.10.1.7.1619732064'', ''string'', 1, 0),
     (''netbotz_humidity'', ''1.3.6.1.4.1.5528.100.4.1.10.1.7.1974269701'', ''string'', 1, 0),
     (''netbotz_dew_point'', ''1.3.6.1.4.1.5528.100.4.1.10.1.7.2231143474'', ''string'', 1, 0),
     (''netbotz_water_leak'', ''1.3.6.1.4.1.5528.100.4.2.10.1.7.399845582'', ''string'', 1, 0),
     (''netbotz_beacon'', ''1.3.6.1.4.1.5528.100.4.2.10.1.7.1117668031'', ''string'', 1, 0),
     (''netbotz_power_room_smoke'', ''1.3.6.1.4.1.5528.100.4.2.10.1.7.1649493300'', ''string'', 1, 0),
     (''netbotz_network_room_smoke'', ''1.3.6.1.4.1.5528.100.4.2.10.1.7.4201958908'', ''string'', 1, 0),
     (''netbotz_ethernet_link'', ''1.3.6.1.4.1.5528.100.4.2.10.1.7.3502248167'', ''string'', 1, 0),
     (''netbotz_alink_bus_power'', ''1.3.6.1.4.1.5528.100.4.2.10.1.7.3823829717'', ''string'', 1, 0),
     (''netbotz_alink_sensor_count'', ''1.3.6.1.4.1.5528.100.2.2.1.1.2.2138452156'', ''integer'', 1, 0),
     (''netbotz_main_enclosure'', ''1.3.6.1.4.1.5528.100.2.1.1.4.2138452156'', ''string'', 1, 0),
     (''netbotz_sensor_pod'', ''1.3.6.1.4.1.5528.100.2.1.1.4.3830159408'', ''string'', 1, 0),
     (''netbotz_4_20ma_port_71'', ''1.3.6.1.4.1.5528.100.3.1.1.5.515365348'', ''string'', 1, 0),
     (''netbotz_4_20ma_port_72'', ''1.3.6.1.4.1.5528.100.3.1.1.5.1815442662'', ''string'', 1, 0),
     (''netbotz_4_20ma_port_73'', ''1.3.6.1.4.1.5528.100.3.1.1.5.1097539410'', ''string'', 1, 0),
     (''netbotz_4_20ma_port_74'', ''1.3.6.1.4.1.5528.100.3.1.1.5.2275027887'', ''string'', 1, 0),
     (''netbotz_usb_port_a'', ''1.3.6.1.4.1.5528.100.3.10.1.3.16952931'', ''string'', 1, 0),
     (''netbotz_usb_port_b'', ''1.3.6.1.4.1.5528.100.3.10.1.3.3984426841'', ''string'', 1, 0),
     (''netbotz_usb_port_c'', ''1.3.6.1.4.1.5528.100.3.10.1.3.391043835'', ''string'', 1, 0),
     (''netbotz_usb_port_d'', ''1.3.6.1.4.1.5528.100.3.10.1.3.1173338172'', ''string'', 1, 0),
     (''netbotz_rs485_port'', ''1.3.6.1.4.1.5528.100.3.10.1.3.1616024485'', ''string'', 1, 0),
     (''netbotz_relay_output_1'', ''1.3.6.1.4.1.5528.100.3.10.1.3.1984299590'', ''string'', 1, 0),
     (''netbotz_relay_output_2'', ''1.3.6.1.4.1.5528.100.3.10.1.3.2282202569'', ''string'', 1, 0),
     (''netbotz_system_description'', ''1.3.6.1.2.1.1.1.0'', ''string'', 1, 0),
     (''netbotz_system_object_id'', ''1.3.6.1.2.1.1.2.0'', ''string'', 1, 0),
     (''netbotz_device_uptime'', ''1.3.6.1.2.1.1.3.0'', ''timeticks'', 1, 0),
     (''netbotz_system_name'', ''1.3.6.1.2.1.1.5.0'', ''string'', 1, 0),
     (''netbotz_interface_status'', ''1.3.6.1.2.1.2.2.1.8.3'', ''integer'', 1, 0),
     (''netbotz_interface_speed'', ''1.3.6.1.2.1.31.1.1.1.15.3'', ''integer'', 1, 0),
     (''netbotz_mac_address'', ''1.3.6.1.2.1.2.2.1.6.3'', ''string'', 1, 0),
     (''netbotz_snmp_in_packets'', ''1.3.6.1.2.1.11.1.0'', ''integer'', 1, 0),
     (''netbotz_snmp_out_packets'', ''1.3.6.1.2.1.11.2.0'', ''integer'', 1, 0),
     (''netbotz_snmp_bad_versions'', ''1.3.6.1.2.1.11.3.0'', ''integer'', 1, 0),
     (''netbotz_snmp_bad_community_names'', ''1.3.6.1.2.1.11.4.0'', ''integer'', 1, 0),
     (''netbotz_snmp_bad_community_uses'', ''1.3.6.1.2.1.11.5.0'', ''integer'', 1, 0),
     (''netbotz_snmp_asn_parse_errors'', ''1.3.6.1.2.1.11.6.0'', ''integer'', 1, 0),
     (''netbotz_snmp_no_such_names'', ''1.3.6.1.2.1.11.9.0'', ''integer'', 1, 0),
     (''netbotz_snmp_bad_values'', ''1.3.6.1.2.1.11.10.0'', ''integer'', 1, 0),
     (''netbotz_snmp_general_errors'', ''1.3.6.1.2.1.11.12.0'', ''integer'', 1, 0),
     (''netbotz_snmp_silent_drops'', ''1.3.6.1.2.1.11.31.0'', ''integer'', 1, 0),
     (''netbotz_snmp_proxy_drops'', ''1.3.6.1.2.1.11.32.0'', ''integer'', 1, 0)]"

subsection \<open>Traps\<close>

definition PDU_TRAPS_1 :: "trap_seed list" where
  "PDU_TRAPS_1 =
    [trap_seed_row ''1.3.6.1.4.1.318.0.266'' ''pdu_communication_established'' ''PDU Communication Established'' ''Info''
       ''Rack PDU communication has been established.'' False,
     trap_seed_row ''1.3.6.1.4.1.318.0.267'' ''pdu_communication_lost'' ''PDU Communication Lost'' ''Critical''
       ''Rack PDU communication has been lost.'' True,
     trap_seed_row ''1.3.6.1.4.1.318.0.270'' ''pdu_device_config_change'' ''PDU Device Configuration Changed'' ''Info''
       ''Rack PDU device configuration has changed.'' False,
     trap_seed_row ''1.3.6.1.4.1.318.0.282'' ''pdu_phase_config_change'' ''PDU Phase Configuration Changed'' ''Info''
       ''Rack PDU phase configuration has changed.'' False,
     trap_seed_row ''1.3.6.1.4.1.318.0.283'' ''pdu_cancel_pending_command'' ''PDU Pending Command Cancelled'' ''Info''
       ''Rack PDU pending command has been cancelled.'' False,
     trap_seed_row ''1.3.6.1.4.1.318.0.272'' ''pdu_low_load'' ''PDU Low Load'' ''Warning''
       ''Rack PDU low load condition has been detected.'' True,
     trap_seed_row ''1.3.6.1.4.1.318.0.273'' ''pdu_low_load_cleared'' ''PDU Low Load Cleared'' ''Recovery''
       ''Rack PDU low load condition has been cleared.'' False,
     trap_seed_row ''1.3.6.1.4.1.318.0.274'' ''pdu_near_overload'' ''PDU Near Overload'' ''Warning''
       ''Rack PDU near overload condition has been detected.'' True,
     trap_seed_row ''1.3.6.1.4.1.318.0.275'' ''pdu_near_overload_cleared'' ''PDU Near Overload Cleared'' ''Recovery''
       ''Rack PDU near overload condition has been cleared.'' False,
     trap_seed_row ''1.3.6.1.4.1.318.0.276'' ''pdu_overload'' ''PDU Overload'' ''Critical''
       ''Rack PDU overload condition has been detected.'' True,
     trap_seed_row ''1.3.6.1.4.1.318.0.277'' ''pdu_overload_cleared'' ''PDU Overload Cleared'' ''Recovery''
       ''Rack PDU overload condition has been cleared.'' False,
     trap_seed_row ''1.3.6.1.4.1.318.0.278'' ''pdu_power_supply_1_fail'' ''PDU Power Supply 1 Failed'' ''Critical''
       ''Rack PDU power supply 1 failure has been detected.'' True,
     trap_seed_row ''1.3.6.1.4.1.318.0.279'' ''pdu_power_supply_1_ok'' ''PDU Power Supply 1 Restored'' ''Recovery''
       ''Rack PDU power supply 1 has been restored.'' False,
     trap_seed_row ''1.3.6.1.4.1.318.0.280'' ''pdu_power_supply_2_fail'' ''PDU Power Supply 2 Failed'' ''Critical''
       ''Rack PDU power supply 2 failure has been detected.'' True,
     trap_seed_row ''1.3.6.1.4.1.318.0.281'' ''pdu_power_supply_2_ok'' ''PDU Power Supply 2 Restored'' ''Recovery''
       ''Rack PDU power supply 2 has been restored.'' False,
     trap_seed_row ''1.3.6.1.4.1.318.0.750'' ''rpdu_critical_condition'' ''Rack PDU Critical Condition'' ''Critical''
       ''Rack PDU critical condition has been detected.'' True,
     trap_seed_row ''1.3.6.1.4.1.318.0.751'' ''rpdu_critical_condition_cleared'' ''Rack PDU Critical Condition Cleared'' ''Recovery''
       ''Rack PDU critical condition has been cleared.'' False]"

definition PDU_TRAPS_2 :: "trap_seed list" where
  "PDU_TRAPS_2 =
    [trap_seed_row ''1.3.6.1.4.1.318.0.752'' ''rpdu_warning_condition'' ''Rack PDU Warning Condition'' ''Warning''
       ''Rack PDU warning condition has been detected.'' True,
     trap_seed_row ''1.3.6.1.4.1.318.0.753'' ''rpdu_warning_condition_cleared'' ''Rack PDU Warning Condition Cleared'' ''Recovery''
       ''Rack PDU warning condition has been cleared.'' False,
     trap_seed_row ''1.3.6.1.4.1.318.0.754'' ''rpdu_informational_condition'' ''Rack PDU Informational Condition'' ''Info''
       ''Rack PDU informational condition has been detected.'' False,
     trap_seed_row ''1.3.6.1.4.1.318.0.755'' ''rpdu_informational_condition_cleared'' ''Rack PDU Informational Condition Cleared'' ''Info''
       ''Rack PDU informational condition has been cleared.'' False,
     trap_seed_row ''1.3.6.1.4.1.318.0.636'' ''apc_test_trap'' ''APC Test Trap'' ''Info''
       ''APC test trap received from Rack PDU.'' False,
     trap_seed_row ''1.3.6.1.6.3.1.1.5.5'' ''snmp_authentication_failure'' ''SNMP Authentication Failure'' ''Warning''
       ''SNMP authentication failure detected. Invalid SNMP community or unauthorized SNMP access attempt.'' True]"

definition PDU_TRAPS :: "trap_seed list" where
  "PDU_TRAPS = PDU_TRAPS_1 @ PDU_TRAPS_2"

definition TOP_10_UPS_TRAPS :: "trap_seed list" where
  "TOP_10_UPS_TRAPS =
    [trap_seed_row ''1.3.6.1.4.1.318.0.1'' ''ups_communication_lost'' ''UPS Communication Lost'' ''CRITICAL''
       ''Communication with the UPS has been lost.'' True,
     trap_seed_row ''1.3.6.1.4.1.318.0.2'' ''ups_overload'' ''UPS Overload'' ''CRITICAL''
       ''UPS load is greater than rated capacity.'' True,
     trap_seed_row ''1.3.6.1.4.1.318.0.3'' ''ups_diagnostics_failed'' ''UPS Diagnostics Failed'' ''CRITICAL''
       ''UPS internal diagnostic self-test failed.'' True,
     trap_seed_row ''1.3.6.1.4.1.318.0.4'' ''ups_discharged'' ''UPS Batteries Discharged'' ''CRITICAL''
       ''UPS batteries are discharged.'' True,
     trap_seed_row ''1.3.6.1.4.1.318.0.5'' ''ups_on_battery'' ''UPS On Battery'' ''CRITICAL''
       ''UPS has switched to battery backup power.'' True,
     trap_seed_row ''1.3.6.1.4.1.318.0.7'' ''ups_low_battery'' ''UPS Low Battery'' ''CRITICAL''
       ''UPS battery is low and backup time is almost finished.'' True,
     trap_seed_row ''1.3.6.1.4.1.318.0.17'' ''ups_battery_needs_replacement'' ''UPS Battery Needs Replacement'' ''CRITICAL''
       ''UPS battery requires replacement.'' True,
     trap_seed_row ''1.3.6.1.4.1.318.0.20'' ''ups_hardware_failure_bypass'' ''UPS Hardware Failure Bypass'' ''CRITICAL''
       ''UPS is on bypass due to internal hardware failure.'' True,
     trap_seed_row ''1.3.6.1.4.1.318.0.53'' ''ups_battery_over_temperature'' ''UPS Battery Over Temperature'' ''CRITICAL''
       ''UPS battery temperature is above safe threshold.'' True,
     trap_seed_row ''1.3.6.1.4.1.318.0.77'' ''ups_abnormal_condition'' ''UPS Abnormal Condition'' ''CRITICAL''
       ''UPS abnormal condition has been detected.'' True]"

end
