(* ===== verification/Oid_Scripts.thy ===== *)
theory Oid_Scripts
  imports Oid_Tables Device_Setup
begin

text \<open>
  The seed scripts of the supported devices (\<open>scripts/\<close>): what they write into the tables of vendors, models, metrics, SNMP
  identifiers and traps. A choice column is a text here: the database does not check it, and some scripts store other texts. A script
  runs in one transaction, so an error leaves the tables as they were.
\<close>

subsection \<open>The tables\<close>

record vendor =
  vn_id :: uuid
  vn_name :: string
  vn_code :: string

record device_model =
  md_id :: uuid
  md_vendor :: uuid
  md_device_type :: uuid
  md_name :: string
  md_model_number :: string

record stored_metric =
  cm_id :: uuid
  cm_code :: string
  cm_name :: string
  cm_category :: string
  cm_data_type :: string
  cm_unit :: string
  cm_is_active :: bool

record stored_oid =
  cx_id :: uuid
  cx_device_type :: uuid
  cx_vendor :: "uuid option"
  cx_device_model :: "uuid option"
  cx_metric :: uuid
  cx_oid :: string
  cx_data_type :: string
  cx_scale_factor :: rat
  cx_offset_value :: rat
  cx_is_active :: bool

record stored_trap =
  ct_id :: uuid
  ct_device_type :: uuid
  ct_vendor :: "uuid option"
  ct_device_model :: "uuid option"
  ct_trap_oid :: string
  ct_event_code :: string
  ct_event_name :: string
  ct_severity :: string
  ct_message_template :: "string option"
  ct_create_alert :: bool
  ct_is_active :: bool

record catalogue =
  cg_vendors :: "vendor list"
  cg_types :: "device_type list"
  cg_models :: "device_model list"
  cg_metrics :: "stored_metric list"
  cg_oids :: "stored_oid list"
  cg_traps :: "stored_trap list"

text \<open>A mapping as the poller reads it.\<close>

definition poller_mapping :: "stored_oid \<Rightarrow> oid_mapping" where
  "poller_mapping x = \<lparr>om_id = cx_id x, om_device_type = cx_device_type x, om_device_model = cx_device_model x, om_metric = cx_metric x,
     om_oid = cx_oid x, om_data_type = cx_data_type x, om_scale_factor = cx_scale_factor x, om_offset_value = cx_offset_value x,
     om_is_active = cx_is_active x\<rparr>"

text \<open>\<open>update_or_create\<close> with the row it returns and whether it is new.\<close>

definition upsert :: "('r \<Rightarrow> uuid) \<Rightarrow> ('r \<Rightarrow> bool) \<Rightarrow> ('r \<Rightarrow> 'r) \<Rightarrow> 'r \<Rightarrow> 'r list \<Rightarrow> command_error + ('r \<times> bool) \<times> 'r list" where
  "upsert pk q upd new rows = (case filter q rows of
      [] \<Rightarrow> Inr ((new, True), tbl_insert new rows)
    | [r] \<Rightarrow> Inr ((upd r, False), tbl_update pk (pk r) upd rows)
    | _ \<Rightarrow> Inl MultipleObjectsReturned)"

definition get_one :: "('r \<Rightarrow> bool) \<Rightarrow> 'r list \<Rightarrow> command_error + 'r" where
  "get_one q rows = (case filter q rows of
      [] \<Rightarrow> Inl (Raised DoesNotExist)
    | [r] \<Rightarrow> Inr r
    | _ \<Rightarrow> Inl MultipleObjectsReturned)"

subsection \<open>Choices\<close>

type_synonym choices = "(string \<times> string) list"

definition METRIC_DATA_TYPES :: choices where
  "METRIC_DATA_TYPES = [(''FLOAT'', ''Float''), (''INTEGER'', ''Integer''), (''BOOLEAN'', ''Boolean''), (''TEXT'', ''Text'')]"

definition METRIC_CATEGORIES :: choices where
  "METRIC_CATEGORIES = [(''POWER'', ''Power''), (''ENERGY'', ''Energy''), (''COOLING'', ''Cooling''), (''ENVIRONMENT'', ''Environment''),
     (''STATUS'', ''Status''), (''ALARM'', ''Alarm''), (''NETWORK'', ''Network''), (''OTHER'', ''Other'')]"

definition TRAP_SEVERITIES :: choices where
  "TRAP_SEVERITIES = [(''INFO'', ''Info''), (''WARNING'', ''Warning''), (''CRITICAL'', ''Critical'')]"

definition find_choice :: "(string \<Rightarrow> string) \<Rightarrow> choices \<Rightarrow> string \<Rightarrow> string option" where
  "find_choice normal cs v = map_option fst (find (\<lambda>(c, label). normal c = normal v \<or> normal label = normal v) cs)"

definition get_choice_value :: "choices \<Rightarrow> string \<Rightarrow> string" where
  "get_choice_value cs wanted = (if cs = [] then wanted else case find_choice (\<lambda>s. lower (strip s)) cs wanted of None \<Rightarrow> wanted | Some c \<Rightarrow> c)"

definition invalid_choice :: "string \<Rightarrow> choices \<Rightarrow> string \<Rightarrow> command_error" where
  "invalid_choice field cs v = Raised (ValueError (''Invalid choice '' @ CHR 0x27 # v @ CHR 0x27 # '' for '' @ field @ ''. Valid choices: ''
     @ join '', '' (map (\<lambda>(c, label). c @ '' ('' @ label @ '')'') cs)))"

definition normalize_choice :: "string \<Rightarrow> choices \<Rightarrow> string \<Rightarrow> command_error + string" where
  "normalize_choice field cs v =
     (if cs = [] then Inr v else case find_choice (\<lambda>s. lower (strip s)) cs v of None \<Rightarrow> Inl (invalid_choice field cs v) | Some c \<Rightarrow> Inr c)"

subsection \<open>One row of a table\<close>

text \<open>The device type, vendor and model that a script writes for.\<close>

record target =
  tg_type :: uuid
  tg_vendor :: uuid
  tg_model :: uuid

definition set_metric :: "string \<times> string \<Rightarrow> 'a metric_seed_scheme \<Rightarrow> stored_metric \<Rightarrow> stored_metric" where
  "set_metric cols s m = m\<lparr>cm_code := ms_code s, cm_name := ms_name s, cm_category := fst cols, cm_data_type := snd cols,
     cm_unit := ms_unit s, cm_is_active := True\<rparr>"

definition put_metric :: "string \<times> string \<Rightarrow> 'a metric_seed_scheme \<Rightarrow> stored_metric list \<Rightarrow> command_error + (stored_metric \<times> bool) \<times> stored_metric list" where
  "put_metric cols s rows = upsert cm_id (\<lambda>m. cm_code m = ms_code s) (set_metric cols s)
     (set_metric cols s \<lparr>cm_id = fresh_key cm_id rows, cm_code = [], cm_name = [], cm_category = [], cm_data_type = [], cm_unit = [],
        cm_is_active = True\<rparr>) rows"

definition set_oid :: "target \<Rightarrow> uuid \<Rightarrow> oid_seed \<Rightarrow> stored_oid \<Rightarrow> stored_oid" where
  "set_oid t k s x = x\<lparr>cx_device_type := tg_type t, cx_vendor := Some (tg_vendor t), cx_device_model := Some (tg_model t), cx_metric := k,
     cx_oid := sd_oid s, cx_data_type := sd_mapping_type s, cx_scale_factor := sd_scale_factor s, cx_offset_value := sd_offset_value s,
     cx_is_active := True\<rparr>"

text \<open>What a mapping is looked up by: with its identifier, without it, or by model and metric alone.\<close>

datatype oid_lookup = By_Oid | By_Metric | By_Model

definition same_oid :: "oid_lookup \<Rightarrow> target \<Rightarrow> uuid \<Rightarrow> string \<Rightarrow> stored_oid \<Rightarrow> bool" where
  "same_oid l t k oid x = (cx_device_model x = Some (tg_model t) \<and> cx_metric x = k
     \<and> (l = By_Model \<or> cx_device_type x = tg_type t \<and> cx_vendor x = Some (tg_vendor t)) \<and> (l = By_Oid \<longrightarrow> cx_oid x = oid))"

definition put_oid :: "oid_lookup \<Rightarrow> target \<Rightarrow> uuid \<Rightarrow> oid_seed \<Rightarrow> stored_oid list \<Rightarrow> command_error + (stored_oid \<times> bool) \<times> stored_oid list" where
  "put_oid l t k s rows = upsert cx_id (same_oid l t k (sd_oid s)) (set_oid t k s)
     (set_oid t k s \<lparr>cx_id = fresh_key cx_id rows, cx_device_type = 0, cx_vendor = None, cx_device_model = None, cx_metric = 0, cx_oid = [],
        cx_data_type = [], cx_scale_factor = 1, cx_offset_value = 0, cx_is_active = True\<rparr>) rows"

subsection \<open>A script\<close>

record oid_counts =
  metrics_created :: nat
  metrics_updated :: nat
  mappings_created :: nat
  mappings_updated :: nat

definition count_row :: "bool \<Rightarrow> bool \<Rightarrow> oid_counts \<Rightarrow> oid_counts" where
  "count_row m x n = \<lparr>metrics_created = metrics_created n + of_bool m, metrics_updated = metrics_updated n + of_bool (\<not> m),
     mappings_created = mappings_created n + of_bool x, mappings_updated = mappings_updated n + of_bool (\<not> x)\<rparr>"

definition no_counts :: oid_counts where
  "no_counts = \<lparr>metrics_created = 0, metrics_updated = 0, mappings_created = 0, mappings_updated = 0\<rparr>"

text \<open>A script is known by the rows it finds or makes first, its table, the category and type it stores for a row, and its lookup.\<close>

record oid_script =
  os_target :: "catalogue \<Rightarrow> (command_error + target) \<times> catalogue"
  os_rows :: "oid_seed list"
  os_columns :: "oid_seed \<Rightarrow> command_error + string \<times> string"
  os_lookup :: oid_lookup

definition seed_oid_row :: "oid_script \<Rightarrow> target \<Rightarrow> oid_seed \<Rightarrow> catalogue \<Rightarrow> command_error + (bool \<times> bool) \<times> catalogue" where
  "seed_oid_row s t r c = (case os_columns s r of Inl x \<Rightarrow> Inl x | Inr cols \<Rightarrow>
     (case put_metric cols r (cg_metrics c) of Inl x \<Rightarrow> Inl x | Inr ((m, new_metric), ms) \<Rightarrow>
     (case put_oid (os_lookup s) t (cm_id m) r (cg_oids c) of Inl x \<Rightarrow> Inl x | Inr ((_, new_oid), xs) \<Rightarrow>
       Inr ((new_metric, new_oid), c\<lparr>cg_metrics := ms, cg_oids := xs\<rparr>))))"

fun seed_oid_rows :: "oid_script \<Rightarrow> target \<Rightarrow> oid_seed list \<Rightarrow> catalogue \<Rightarrow> command_error + oid_counts \<times> catalogue" where
  "seed_oid_rows s t [] c = Inr (no_counts, c)"
| "seed_oid_rows s t (r # rs) c = (case seed_oid_row s t r c of Inl x \<Rightarrow> Inl x | Inr ((m, x), c1) \<Rightarrow>
     (case seed_oid_rows s t rs c1 of Inl y \<Rightarrow> Inl y | Inr (n, c2) \<Rightarrow> Inr (count_row m x n, c2)))"

definition run_oid_script :: "oid_script \<Rightarrow> catalogue \<Rightarrow> (command_error + oid_counts) \<times> catalogue" where
  "run_oid_script s c = (case os_target s c of
      (Inl x, _) \<Rightarrow> (Inl x, c)
    | (Inr t, c1) \<Rightarrow> (case seed_oid_rows s t (os_rows s) c1 of Inl x \<Rightarrow> (Inl x, c) | Inr (n, c2) \<Rightarrow> (Inr n, c2)))"

end
