(* ===== verification/Oid_Seeds.thy ===== *)
theory Oid_Seeds
  imports Oid_Scripts
begin

text \<open>
  The five scripts that seed metrics and SNMP identifiers (\<open>scripts/seed_*_oids.py\<close>, \<open>seed_apc_ap8853_pdu_metrics.py\<close>), with the way
  each finds the device type, vendor and model it writes for.
\<close>

subsection \<open>Finding the target\<close>

definition SCHNEIDER_APC :: string where
  "SCHNEIDER_APC = ''Schneider Electric / APC''"

definition target_of :: "device_type \<Rightarrow> vendor \<Rightarrow> device_model \<Rightarrow> target" where
  "target_of t v m = \<lparr>tg_type = dt_id t, tg_vendor = vn_id v, tg_model = md_id m\<rparr>"

text \<open>The transfer switch and NetBotz scripts use \<open>objects.get\<close>: by the model number, or by the model name.\<close>

definition get_target :: "string \<Rightarrow> (device_model \<Rightarrow> string) \<Rightarrow> string \<Rightarrow> catalogue \<Rightarrow> (command_error + target) \<times> catalogue" where
  "get_target type_name column v c = (case get_one (\<lambda>x. vn_name x = SCHNEIDER_APC) (cg_vendors c) of Inl x \<Rightarrow> (Inl x, c) | Inr vn \<Rightarrow>
     (case get_one (\<lambda>x. dt_name x = type_name) (cg_types c) of Inl x \<Rightarrow> (Inl x, c) | Inr dt \<Rightarrow>
     (case get_one (\<lambda>x. md_vendor x = vn_id vn \<and> md_device_type x = dt_id dt \<and> column x = v) (cg_models c) of
        Inl x \<Rightarrow> (Inl x, c)
      | Inr md \<Rightarrow> (Inr (target_of dt vn md), c))))"

text \<open>The others search the columns in turn, without regard to case; the first row is that of the lowest key.\<close>

definition by_columns :: "('r \<Rightarrow> uuid) \<Rightarrow> ('r \<Rightarrow> string) list \<Rightarrow> string \<Rightarrow> 'r list \<Rightarrow> 'r option" where
  "by_columns pk columns v rows = first_row (List.map_filter (\<lambda>col. first_row (order_by pk (filter (\<lambda>r. upper (col r) = upper v) rows))) columns)"

definition available :: "nat \<Rightarrow> ('r \<Rightarrow> string) list \<Rightarrow> 'r list \<Rightarrow> py" where
  "available n columns rows =
     PList (map PStr (case first_row (filter (\<lambda>vs. vs \<noteq> []) (map (\<lambda>col. take n (sort (map col rows))) columns)) of None \<Rightarrow> [] | Some vs \<Rightarrow> vs))"

definition get_required_object ::
    "env \<Rightarrow> string \<Rightarrow> ('r \<Rightarrow> uuid) \<Rightarrow> ('r \<Rightarrow> string) list \<Rightarrow> string \<Rightarrow> 'r list \<Rightarrow> command_error + 'r" where
  "get_required_object e model pk columns v rows = (case by_columns pk columns v rows of
      Some r \<Rightarrow> Inr r
    | None \<Rightarrow> Inl (Raised (ValueError (model @ '' not found: '' @ v @ ''. Please check spelling in admin. Available examples: ''
        @ py_str e (available 20 columns rows)))))"

text \<open>The PAC and trap scripts also take a row whose text is the value, contains it or is part of it, in the order of the table.\<close>

definition similar_row :: "('r \<Rightarrow> string) \<Rightarrow> string \<Rightarrow> 'r list \<Rightarrow> 'r option" where
  "similar_row shown v rows = (let text = (\<lambda>r. lower (strip (shown r))); w = lower (strip v) in
     case find (\<lambda>r. text r = w) rows of
       Some r \<Rightarrow> Some r
     | None \<Rightarrow> find (\<lambda>r. contains (text r) w \<or> contains w (text r)) rows)"

definition get_similar_object ::
    "env \<Rightarrow> string \<Rightarrow> string \<Rightarrow> ('r \<Rightarrow> uuid) \<Rightarrow> ('r \<Rightarrow> string) list \<Rightarrow> ('r \<Rightarrow> string) \<Rightarrow> string \<Rightarrow> 'r list \<Rightarrow> command_error + 'r" where
  "get_similar_object e model advice pk columns shown v rows = (case by_columns pk columns v rows of
      Some r \<Rightarrow> Inr r
    | None \<Rightarrow> (case similar_row shown v rows of
        Some r \<Rightarrow> Inr r
      | None \<Rightarrow> Inl (Raised (ValueError (model @ '' not found: '' @ v @ advice @ py_str e (available 30 columns rows))))))"

definition model_text :: "catalogue \<Rightarrow> device_model \<Rightarrow> string" where
  "model_text c m = (case tbl_get vn_id (md_vendor m) (cg_vendors c) of None \<Rightarrow> [] | Some v \<Rightarrow> vn_name v) @ '' '' @ md_model_number m"

definition required_target :: "env \<Rightarrow> string \<Rightarrow> string \<Rightarrow> string \<Rightarrow> catalogue \<Rightarrow> (command_error + target) \<times> catalogue" where
  "required_target e type_name vendor_name model c =
     (case get_required_object e ''DeviceType'' dt_id [dt_name, dt_code] type_name (cg_types c) of Inl x \<Rightarrow> (Inl x, c) | Inr dt \<Rightarrow>
     (case get_required_object e ''Vendor'' vn_id [vn_name, vn_code] vendor_name (cg_vendors c) of Inl x \<Rightarrow> (Inl x, c) | Inr vn \<Rightarrow>
     (case get_required_object e ''DeviceModel'' md_id [md_name, md_model_number] model (cg_models c) of
        Inl x \<Rightarrow> (Inl x, c)
      | Inr md \<Rightarrow> (Inr (target_of dt vn md), c))))"

definition similar_target :: "env \<Rightarrow> string \<Rightarrow> string \<Rightarrow> string \<Rightarrow> string \<Rightarrow> catalogue \<Rightarrow> (command_error + target) \<times> catalogue" where
  "similar_target e advice type_name vendor_name model c =
     (case get_similar_object e ''DeviceType'' advice dt_id [dt_name, dt_code] dt_name type_name (cg_types c) of Inl x \<Rightarrow> (Inl x, c) | Inr dt \<Rightarrow>
     (case get_similar_object e ''Vendor'' advice vn_id [vn_name, vn_code] vn_name vendor_name (cg_vendors c) of Inl x \<Rightarrow> (Inl x, c) | Inr vn \<Rightarrow>
     (case get_similar_object e ''DeviceModel'' advice md_id [md_name, md_model_number] (model_text c) model (cg_models c) of
        Inl x \<Rightarrow> (Inl x, c)
      | Inr md \<Rightarrow> (Inr (target_of dt vn md), c))))"

text \<open>The rack PDU script makes what is missing and rewrites what it finds; a vendor has one model of a number.\<close>

definition by_code_or_name :: "('r \<Rightarrow> uuid) \<Rightarrow> ('r \<Rightarrow> string) \<Rightarrow> string \<Rightarrow> ('r \<Rightarrow> string) \<Rightarrow> string \<Rightarrow> 'r list \<Rightarrow> 'r option" where
  "by_code_or_name pk code v name w rows = (case first_row (order_by pk (filter (\<lambda>r. code r = v) rows)) of
      Some r \<Rightarrow> Some r
    | None \<Rightarrow> first_row (order_by pk (filter (\<lambda>r. name r = w) rows)))"

definition get_or_create_vendor :: "catalogue \<Rightarrow> vendor \<times> catalogue" where
  "get_or_create_vendor c = (case by_code_or_name vn_id vn_code ''SCHNEIDER_APC'' vn_name SCHNEIDER_APC (cg_vendors c) of
      None \<Rightarrow> (let v = \<lparr>vn_id = fresh_key vn_id (cg_vendors c), vn_name = SCHNEIDER_APC, vn_code = ''SCHNEIDER_APC''\<rparr> in
        (v, c\<lparr>cg_vendors := tbl_put vn_id v (cg_vendors c)\<rparr>))
    | Some v0 \<Rightarrow> (let v = v0\<lparr>vn_name := SCHNEIDER_APC, vn_code := ''SCHNEIDER_APC''\<rparr> in
        (v, c\<lparr>cg_vendors := tbl_put vn_id v (cg_vendors c)\<rparr>)))"

definition get_or_create_device_type :: "catalogue \<Rightarrow> device_type \<times> catalogue" where
  "get_or_create_device_type c = (case by_code_or_name dt_id dt_code ''RACK_PDU'' dt_name ''Rack PDU'' (cg_types c) of
      None \<Rightarrow> (let t = \<lparr>dt_id = fresh_key dt_id (cg_types c), dt_name = ''Rack PDU'', dt_code = ''RACK_PDU''\<rparr> in
        (t, c\<lparr>cg_types := tbl_put dt_id t (cg_types c)\<rparr>))
    | Some t0 \<Rightarrow> (let t = t0\<lparr>dt_name := ''Rack PDU'', dt_code := ''RACK_PDU''\<rparr> in
        (t, c\<lparr>cg_types := tbl_put dt_id t (cg_types c)\<rparr>)))"

definition set_pdu_model :: "vendor \<Rightarrow> device_type \<Rightarrow> device_model \<Rightarrow> device_model" where
  "set_pdu_model v t m = m\<lparr>md_vendor := vn_id v, md_device_type := dt_id t, md_name := ''APC AP8853 Metered Rack PDU'', md_model_number := ''AP8853''\<rparr>"

definition get_or_create_device_model :: "vendor \<Rightarrow> device_type \<Rightarrow> catalogue \<Rightarrow> command_error + device_model \<times> catalogue" where
  "get_or_create_device_model v t c =
     (let m = set_pdu_model v t (case by_code_or_name md_id md_model_number ''AP8853'' md_name ''APC AP8853 Metered Rack PDU'' (cg_models c) of
            Some m0 \<Rightarrow> m0
          | None \<Rightarrow> \<lparr>md_id = fresh_key md_id (cg_models c), md_vendor = vn_id v, md_device_type = dt_id t, md_name = [], md_model_number = []\<rparr>)
      in if list_ex (\<lambda>x. md_vendor x = vn_id v \<and> md_model_number x = ''AP8853'' \<and> md_id x \<noteq> md_id m) (cg_models c)
         then Inl (Raised IntegrityError)
         else Inr (m, c\<lparr>cg_models := tbl_put md_id m (cg_models c)\<rparr>))"

definition pdu_target :: "catalogue \<Rightarrow> (command_error + target) \<times> catalogue" where
  "pdu_target c = (let (v, c1) = get_or_create_vendor c; (t, c2) = get_or_create_device_type c1 in
     case get_or_create_device_model v t c2 of Inl x \<Rightarrow> (Inl x, c) | Inr (m, c3) \<Rightarrow> (Inr (target_of t v m), c3))"

subsection \<open>The scripts\<close>

definition ats_script :: oid_script where
  "ats_script = \<lparr>os_target = get_target ''ATS'' md_model_number ''AP7724'', os_rows = ats_rows,
     os_columns = (\<lambda>r. Inr (ms_category r, get_choice_value METRIC_DATA_TYPES (ms_data_type r))), os_lookup = By_Oid\<rparr>"

definition create_or_update_metric_columns :: "oid_seed \<Rightarrow> command_error + string \<times> string" where
  "create_or_update_metric_columns r = (case normalize_choice ''MetricDefinition.data_type'' METRIC_DATA_TYPES (ms_data_type r) of
      Inl x \<Rightarrow> Inl x
    | Inr ty \<Rightarrow> Inr (case normalize_choice ''MetricDefinition.category'' METRIC_CATEGORIES (ms_category r) of
        Inl _ \<Rightarrow> ms_category r | Inr cat \<Rightarrow> cat, ty))"

definition symmetra_script :: "env \<Rightarrow> oid_script" where
  "symmetra_script e = \<lparr>os_target = required_target e ''UPS'' SCHNEIDER_APC ''InfraStruXure Symmetra 160k'', os_rows = UPS_IMPORTANT_OIDS,
     os_columns = create_or_update_metric_columns, os_lookup = By_Oid\<rparr>"

definition pac_script :: "env \<Rightarrow> oid_script" where
  "pac_script e = \<lparr>os_target = similar_target e ''. Please check spelling in admin. Available examples: '' ''PAC'' ''Schneider Electric / Uniflair''
       ''Uniflair AM LE UG40 DX'', os_rows = PAC_OID_ITEMS,
     os_columns = create_or_update_metric_columns, os_lookup = By_Metric\<rparr>"

definition pdu_script :: oid_script where
  "pdu_script = \<lparr>os_target = pdu_target, os_rows = PDU_METRICS, os_columns = (\<lambda>r. Inr (ms_category r, ms_data_type r)), os_lookup = By_Model\<rparr>"

subsection \<open>NetBotz\<close>

text \<open>This script writes all metrics before all mappings.\<close>

fun seed_metrics :: "metric_seed list \<Rightarrow> stored_metric list \<Rightarrow> command_error + (string \<times> stored_metric \<times> bool) list \<times> stored_metric list" where
  "seed_metrics [] ms = Inr ([], ms)"
| "seed_metrics (s # ss) ms = (case put_metric (ms_category s, ms_data_type s) s ms of Inl x \<Rightarrow> Inl x | Inr ((m, new), ms1) \<Rightarrow>
     (case seed_metrics ss ms1 of Inl x \<Rightarrow> Inl x | Inr (known, ms2) \<Rightarrow> Inr ((ms_code s, m, new) # known, ms2)))"

type_synonym oid_tuple = "string \<times> string \<times> string \<times> rat \<times> rat"

definition tuple_seed :: "oid_tuple \<Rightarrow> oid_seed" where
  "tuple_seed q = (case q of (code, oid, mapping_type, scale_factor, offset_value) \<Rightarrow> oid_seed_row code [] [] [] [] oid mapping_type scale_factor offset_value)"

fun seed_mappings :: "target \<Rightarrow> (string \<times> stored_metric \<times> bool) list \<Rightarrow> oid_tuple list \<Rightarrow> stored_oid list \<Rightarrow> command_error + bool list \<times> stored_oid list" where
  "seed_mappings t known [] xs = Inr ([], xs)"
| "seed_mappings t known (q # qs) xs = (case map_of known (fst q) of None \<Rightarrow> Inl (Raised KeyError) | Some (m, _) \<Rightarrow>
     (case put_oid By_Oid t (cm_id m) (tuple_seed q) xs of Inl x \<Rightarrow> Inl x | Inr ((_, new), xs1) \<Rightarrow>
     (case seed_mappings t known qs xs1 of Inl x \<Rightarrow> Inl x | Inr (ns, xs2) \<Rightarrow> Inr (new # ns, xs2))))"

definition count_true :: "bool list \<Rightarrow> nat" where
  "count_true bs = length (filter (\<lambda>b. b) bs)"

definition seed_netbotz :: "catalogue \<Rightarrow> (command_error + oid_counts) \<times> catalogue" where
  "seed_netbotz c = (case get_target ''NetBotz'' md_name ''APC NetBotz 450'' c of
      (Inl x, _) \<Rightarrow> (Inl x, c)
    | (Inr t, _) \<Rightarrow> (case seed_metrics NETBOTZ_METRICS (cg_metrics c) of Inl x \<Rightarrow> (Inl x, c) | Inr (known, ms) \<Rightarrow>
        (case seed_mappings t known OID_MAPPINGS (cg_oids c) of Inl x \<Rightarrow> (Inl x, c) | Inr (ns, xs) \<Rightarrow>
          (let new = map (\<lambda>(_, _, b). b) known in
           (Inr \<lparr>metrics_created = count_true new, metrics_updated = count_true (map Not new),
              mappings_created = count_true ns, mappings_updated = count_true (map Not ns)\<rparr>,
            c\<lparr>cg_metrics := ms, cg_oids := xs\<rparr>)))))"

text \<open>The same script a row at a time.\<close>

definition netbotz_rows :: "oid_seed list" where
  "netbotz_rows = map2 (\<lambda>s (_, oid, mapping_type, scale_factor, offset_value).
     oid_seed_row (ms_code s) (ms_name s) (ms_category s) (ms_data_type s) (ms_unit s) oid mapping_type scale_factor offset_value)
     NETBOTZ_METRICS OID_MAPPINGS"

definition netbotz_script :: oid_script where
  "netbotz_script = \<lparr>os_target = get_target ''NetBotz'' md_name ''APC NetBotz 450'', os_rows = netbotz_rows,
     os_columns = (\<lambda>r. Inr (ms_category r, ms_data_type r)), os_lookup = By_Oid\<rparr>"

definition oid_scripts :: "env \<Rightarrow> oid_script list" where
  "oid_scripts e = [ats_script, symmetra_script e, pac_script e, pdu_script, netbotz_script]"

end
