(* ===== verification/Oid_Reading_Props.thy ===== *)
theory Oid_Reading_Props
  imports Oid_Seeds Normalization_Props
begin

text \<open>
  What the poller stores for the identifiers of the seed scripts, when a device answers a whole number.
\<close>

subsection \<open>Labels\<close>

definition label_of :: "string \<Rightarrow> string" where
  "label_of s = upper (strip s)"

lemma label_of_eq: "normalize_type_label e (PStr s) = label_of s"
  by (simp add: normalize_type_label_def label_of_def py_str_def strip_def)

lemma seed_labels:
  "label_of ''integer'' = ''INTEGER''" "label_of ''INTEGER'' = ''INTEGER''" "label_of ''float'' = ''FLOAT''" "label_of ''FLOAT'' = ''FLOAT''"
  "label_of ''text'' = ''TEXT''" "label_of ''TEXT'' = ''TEXT''" "label_of ''string'' = ''STRING''" "label_of ''timeticks'' = ''TIMETICKS''"
  "label_of ''gauge32'' = ''GAUGE32''" "label_of ''gauge'' = ''GAUGE''" "label_of ''counter'' = ''COUNTER''" "label_of ''ipaddress'' = ''IPADDRESS''"
  by code_simp+

lemmas type_sets = INTEGER_MAPPING_TYPES_def NUMERIC_MAPPING_TYPES_def BOOL_MAPPING_TYPES_def TEXT_MAPPING_TYPES_def

text \<open>How a type of metric and a type of mapping treat a whole number.\<close>

definition scaling_types :: "string \<Rightarrow> string \<Rightarrow> rat \<Rightarrow> rat \<Rightarrow> bool" where
  "scaling_types ty mapping k q = (let t = label_of ty; m = label_of mapping in q = 0
     \<and> (t = ''FLOAT'' \<and> (m = ''FLOAT'' \<and> k = 1 / 10
           \<or> m \<in> INTEGER_MAPPING_TYPES \<and> k \<in> {1, 1 / 10, 1 / 100}
           \<or> m \<notin> NUMERIC_MAPPING_TYPES \<union> BOOL_MAPPING_TYPES \<and> k = 1)
        \<or> t = ''INTEGER'' \<and> m \<in> INTEGER_MAPPING_TYPES \<and> k = 1
        \<or> t \<notin> {''FLOAT'', ''INTEGER'', ''BOOLEAN''} \<and> m \<notin> NUMERIC_MAPPING_TYPES \<union> BOOL_MAPPING_TYPES))"

definition scales :: "string \<Rightarrow> oid_seed \<Rightarrow> bool" where
  "scales ty r = scaling_types ty (sd_mapping_type r) (sd_scale_factor r) (sd_offset_value r)"

lemma scaling_facts [simp]:
  "scaling_types ''TEXT'' ''string'' (1) 0"
  "scaling_types ''TEXT'' ''ipaddress'' (1) 0"
  "scaling_types ''INTEGER'' ''integer'' (1) 0"
  "scaling_types ''FLOAT'' ''integer'' (1) 0"
  "scaling_types ''FLOAT'' ''gauge32'' (1) 0"
  "scaling_types ''FLOAT'' ''integer'' (1 / 10) 0"
  "scaling_types ''FLOAT'' ''float'' (1 / 10) 0"
  "scaling_types ''string'' ''string'' (1) 0"
  "scaling_types ''integer'' ''integer'' (1) 0"
  "scaling_types ''float'' ''string'' (1) 0"
  "scaling_types ''timeticks'' ''timeticks'' (1) 0"
  "scaling_types ''float'' ''integer'' (1) 0"
  "scaling_types ''float'' ''integer'' (1 / 100) 0"
  "scaling_types ''float'' ''integer'' (1 / 10) 0"
  "scaling_types ''float'' ''gauge'' (1) 0"
  "scaling_types ''integer'' ''counter'' (1) 0"
  by (simp_all add: scaling_types_def seed_labels type_sets)

lemma choice_types:
  "get_choice_value METRIC_DATA_TYPES ''text'' = ''TEXT''" "get_choice_value METRIC_DATA_TYPES ''integer'' = ''INTEGER''"
  "get_choice_value METRIC_DATA_TYPES ''float'' = ''FLOAT''"
  "normalize_choice f METRIC_DATA_TYPES ''Integer'' = Inr ''INTEGER''" "normalize_choice f METRIC_DATA_TYPES ''Float'' = Inr ''FLOAT''"
  "normalize_choice f METRIC_DATA_TYPES ''Text'' = Inr ''TEXT''"
proof -
  have l: "lower (strip ''FLOAT'') = ''float''" "lower (strip ''Float'') = ''float''" "lower (strip ''INTEGER'') = ''integer''"
    "lower (strip ''Integer'') = ''integer''" "lower (strip ''BOOLEAN'') = ''boolean''" "lower (strip ''Boolean'') = ''boolean''"
    "lower (strip ''TEXT'') = ''text''" "lower (strip ''Text'') = ''text''"
    "lower (strip ''float'') = ''float''" "lower (strip ''integer'') = ''integer''" "lower (strip ''text'') = ''text''"
    by code_simp+
  show "get_choice_value METRIC_DATA_TYPES ''text'' = ''TEXT''" "get_choice_value METRIC_DATA_TYPES ''integer'' = ''INTEGER''"
    "get_choice_value METRIC_DATA_TYPES ''float'' = ''FLOAT''"
    "normalize_choice f METRIC_DATA_TYPES ''Integer'' = Inr ''INTEGER''" "normalize_choice f METRIC_DATA_TYPES ''Float'' = Inr ''FLOAT''"
    "normalize_choice f METRIC_DATA_TYPES ''Text'' = Inr ''TEXT''"
    by (simp_all add: get_choice_value_def normalize_choice_def find_choice_def METRIC_DATA_TYPES_def l)
qed

subsection \<open>The tables\<close>

lemma seed_row_simps [simp]:
  "ms_code (oid_seed_row a b c ty u o' m s q) = a" "ms_category (oid_seed_row a b c ty u o' m s q) = c"
  "ms_data_type (oid_seed_row a b c ty u o' m s q) = ty" "sd_oid (oid_seed_row a b c ty u o' m s q) = o'"
  "scales sty (oid_seed_row a b c ty u o' m s q) = scaling_types sty m s q"
  by (simp_all add: scales_def oid_seed_row_def)

lemma create_or_update_type:
  "normalize_choice ''MetricDefinition.data_type'' METRIC_DATA_TYPES (ms_data_type r) = Inr ty \<Longrightarrow>
     \<exists>cat. create_or_update_metric_columns r = Inr (cat, ty)"
  by (auto simp: create_or_update_metric_columns_def)

definition typed_row :: "oid_script \<Rightarrow> oid_seed \<Rightarrow> bool" where
  "typed_row s r = (\<exists>cat ty. os_columns s r = Inr (cat, ty) \<and> scales ty r)"

lemma ats_typed: "list_all (typed_row ats_script) ats_rows"
proof -
  have "list_all (\<lambda>r. scales (get_choice_value METRIC_DATA_TYPES (ms_data_type r)) r) ats_rows"
    by (simp add: ats_rows_def ats_rows_1_def ats_rows_2_def ats_rows_3_def ats_rows_4_def ats_rows_5_def choice_types)
  then show ?thesis by (simp add: list_all_iff typed_row_def ats_script_def)
qed

lemma typed_by_normalize:
  assumes "os_columns s = create_or_update_metric_columns"
    and "list_all (\<lambda>r. case normalize_choice ''MetricDefinition.data_type'' METRIC_DATA_TYPES (ms_data_type r) of Inl _ \<Rightarrow> False | Inr ty \<Rightarrow> scales ty r) rs"
  shows "list_all (typed_row s) rs"
  using assms(2) unfolding list_all_iff typed_row_def assms(1)
  by (fastforce split: sum.splits dest: create_or_update_type)

lemma symmetra_typed: "list_all (typed_row (symmetra_script e)) UPS_IMPORTANT_OIDS"
  by (rule typed_by_normalize) (simp_all add: symmetra_script_def UPS_IMPORTANT_OIDS_def UPS_IMPORTANT_OIDS_1_def UPS_IMPORTANT_OIDS_2_def UPS_IMPORTANT_OIDS_3_def choice_types)

lemma pac_typed: "list_all (typed_row (pac_script e)) PAC_OID_ITEMS"
  by (rule typed_by_normalize) (simp_all add: pac_script_def PAC_OID_ITEMS_def PAC_OID_ITEMS_1_def PAC_OID_ITEMS_2_def PAC_OID_ITEMS_3_def choice_types)

lemma pdu_typed:
  "list_all (\<lambda>r. if ms_code r = ''device_uptime''
     then ms_data_type r = ''float'' \<and> sd_mapping_type r = ''timeticks'' \<and> sd_scale_factor r = 1 / 100 \<and> sd_offset_value r = 0
     else typed_row pdu_script r) PDU_METRICS"
proof -
  have "list_all (\<lambda>r. if ms_code r = ''device_uptime''
     then ms_data_type r = ''float'' \<and> sd_mapping_type r = ''timeticks'' \<and> sd_scale_factor r = 1 / 100 \<and> sd_offset_value r = 0
     else scales (ms_data_type r) r) PDU_METRICS"
    by (simp add: PDU_METRICS_def) (simp add: oid_seed_row_def)
  then show ?thesis by (simp add: list_all_iff typed_row_def pdu_script_def)
qed

lemmas netbotz_table = NETBOTZ_METRICS_def NETBOTZ_METRICS_1_def NETBOTZ_METRICS_2_def NETBOTZ_METRICS_3_def OID_MAPPINGS_def

lemma netbotz_typed: "list_all (typed_row netbotz_script) netbotz_rows"
proof -
  have "list_all (\<lambda>r. scales (ms_data_type r) r) netbotz_rows"
    by (simp add: netbotz_rows_def netbotz_table metric_seed_row_def)
  then show ?thesis by (simp add: list_all_iff typed_row_def netbotz_script_def)
qed

lemma no_other_uptime:
  "list_all (\<lambda>r. ms_code r \<noteq> ''device_uptime'') (ats_rows @ UPS_IMPORTANT_OIDS @ PAC_OID_ITEMS @ netbotz_rows)"
  by (simp add: ats_rows_def ats_rows_1_def ats_rows_2_def ats_rows_3_def ats_rows_4_def ats_rows_5_def UPS_IMPORTANT_OIDS_def UPS_IMPORTANT_OIDS_1_def UPS_IMPORTANT_OIDS_2_def UPS_IMPORTANT_OIDS_3_def PAC_OID_ITEMS_def PAC_OID_ITEMS_1_def PAC_OID_ITEMS_2_def PAC_OID_ITEMS_3_def netbotz_rows_def netbotz_table metric_seed_row_def)

subsection \<open>One reading\<close>

definition stored_reading :: "env \<Rightarrow> stored_metric \<Rightarrow> stored_oid \<Rightarrow> raw \<Rightarrow> exn + value_cols" where
  "stored_reading e m x v = (case apply_scale e v (poller_mapping x) of
      Inl y \<Rightarrow> Inl y | Inr p \<Rightarrow> Inr (store_value_by_metric_type e (PStr (cm_data_type m)) p))"

definition whole_number :: "env \<Rightarrow> int \<Rightarrow> bool" where
  "whole_number e n = (\<bar>n\<bar> < 10 ^ 26 \<and> (\<forall>k\<in>{1, 1 / 10, 1 / 100}. round_decimal e (of_int n * k) = of_int n * k)
     \<and> reads_back e (PFloat (round_float e (of_int n))) (of_int n))"

definition scaled_value :: "env \<Rightarrow> string \<Rightarrow> rat \<Rightarrow> int \<Rightarrow> value_cols" where
  "scaled_value e ty k n =
     (if label_of ty = ''FLOAT'' then no_value\<lparr>value_float := Some (round_float e (of_int n * k))\<rparr>
      else if label_of ty = ''INTEGER'' then no_value\<lparr>value_integer := Some n\<rparr>
      else no_value\<lparr>value_text := Some (str_int n)\<rparr>)"

lemma store_by_label:
  "store_value_by_metric_type e (PStr ty) v = (let t = label_of ty in
     if v = PNone then no_value
     else if t = ''FLOAT'' then (case float_of e v of Inl _ \<Rightarrow> text_column e v | Inr r \<Rightarrow> no_value\<lparr>value_float := Some r\<rparr>)
     else if t = ''INTEGER'' then (case integer_column e v of Inl _ \<Rightarrow> text_column e v | Inr i \<Rightarrow> no_value\<lparr>value_integer := Some i\<rparr>)
     else if t = ''BOOLEAN'' then no_value\<lparr>value_boolean := Some (coerce_bool e v)\<rparr>
     else text_column e v)"
  by (simp add: store_value_by_metric_type_def label_of_eq Let_def)

lemma parse_by_label:
  "parse_snmp_raw_value e v (PStr ty) = (let t = label_of ty; text = raw_text e v in
      if t = [] \<or> t \<in> TEXT_MAPPING_TYPES then PStr text
      else if t \<in> BOOL_MAPPING_TYPES then PBool (coerce_bool e (PStr text))
      else if t \<in> NUMERIC_MAPPING_TYPES then
        (case to_decimal e (PStr text) of
           Inl _ \<Rightarrow> PStr text
         | Inr n \<Rightarrow> if t \<in> INTEGER_MAPPING_TYPES then int_or_float e n else PFloat (round_float e n))
      else PStr text)"
  by (simp add: parse_snmp_raw_value_def label_of_eq Let_def)

lemma float_of_int_or_float: "float_of e (int_or_float e r) = Inr (round_float e r)"
  by (auto simp: int_or_float_def float_of_def py_float_def is_integral_def)

lemma pretty_digits [simp]: "raw_text e (Pretty s) = s"
  by (simp add: raw_text_def)

text \<open>The three ways of a whole number: as an integer, as a double, as its text.\<close>

lemma scaled_number:
  assumes "whole_number e n" and "k \<in> {1, 1 / 10, 1 / 100}"
  shows "scaled e (of_int n) k 0 = of_int n * k"
proof -
  have "round_decimal e (of_int n * k) = of_int n * k" using assms unfolding whole_number_def by blast
  then show ?thesis unfolding scaled_def by (simp only: add_0_right)
qed

lemma reading_integer:
  assumes "label_of (om_data_type m) \<in> INTEGER_MAPPING_TYPES" and "om_offset_value m = 0" and "om_scale_factor m \<in> {1, 1 / 10, 1 / 100}"
    and "whole_number e n"
  shows "apply_scale e (Pretty (str_int n)) m = Inr (int_or_float e (of_int n * om_scale_factor m))"
proof -
  have "parse_snmp_raw_value e (Pretty (str_int n)) (PStr (om_data_type m)) = PInt n"
    unfolding parse_by_label using integer_labels [OF assms(1)] assms(1) by (simp add: Let_def decimal_of_str_def)
  then show ?thesis
    by (simp add: apply_scale_def apply_scale_offset_def scale_number_def assms(2) scaled_number [OF assms(4,3)])
qed

lemma reading_double:
  assumes "label_of (om_data_type m) = ''FLOAT''" and "om_offset_value m = 0" and "om_scale_factor m = 1 / 10" and "whole_number e n"
  shows "apply_scale e (Pretty (str_int n)) m = Inr (int_or_float e (of_int n * (1 / 10)))"
proof -
  have "parse_snmp_raw_value e (Pretty (str_int n)) (PStr (om_data_type m)) = PFloat (round_float e (of_int n))"
    unfolding parse_by_label assms(1) by (simp add: Let_def decimal_of_str_def type_sets)
  moreover have "to_decimal e (PFloat (round_float e (of_int n))) = Inr (of_int n)"
    using assms(4) by (simp add: to_decimal_def whole_number_def reads_back_def)
  moreover have "scaled e (of_int n) (1 / 10) 0 = of_int n * (1 / 10)" by (rule scaled_number [OF assms(4)]) simp
  ultimately show ?thesis by (simp only: apply_scale_def apply_scale_offset_def scale_number_def assms(2,3) to_decimal_simps py.case sum.case)
qed

lemma reading_text:
  assumes "label_of (om_data_type m) \<notin> NUMERIC_MAPPING_TYPES \<union> BOOL_MAPPING_TYPES"
  shows "apply_scale e (Pretty (str_int n)) m = Inr (PStr (str_int n))"
proof -
  have "parse_snmp_raw_value e (Pretty (str_int n)) (PStr (om_data_type m)) = PStr (str_int n)"
    unfolding parse_by_label using assms by (simp add: Let_def)
  then show ?thesis by (simp add: apply_scale_def apply_scale_offset_def)
qed

lemma text_number:
  "float_of e (PStr (str_int n)) = Inr (round_float e (of_int n))"
  by (simp add: float_of_def py_float_def)

lemma reading_of_scales:
  assumes "scales ty r" and "whole_number e n" and "cm_data_type m = ty"
    and "cx_data_type x = sd_mapping_type r" "cx_scale_factor x = sd_scale_factor r" "cx_offset_value x = sd_offset_value r"
  shows "stored_reading e m x (Pretty (str_int n)) = Inr (scaled_value e ty (sd_scale_factor r) n)"
proof -
  let ?m = "poller_mapping x"
  have f: "om_data_type ?m = sd_mapping_type r" "om_scale_factor ?m = sd_scale_factor r" "om_offset_value ?m = 0"
    using assms(1,4-6) by (auto simp: poller_mapping_def scales_def scaling_types_def Let_def)
  have n: "\<bar>n\<bar> < 10 ^ 28" using assms(2) by (simp add: whole_number_def)
  from assms(1) consider
      (double) "label_of ty = ''FLOAT''" "label_of (sd_mapping_type r) = ''FLOAT''" "sd_scale_factor r = 1 / 10"
    | (float) "label_of ty = ''FLOAT''" "label_of (sd_mapping_type r) \<in> INTEGER_MAPPING_TYPES" "sd_scale_factor r \<in> {1, 1 / 10, 1 / 100}"
    | (float_text) "label_of ty = ''FLOAT''" "label_of (sd_mapping_type r) \<notin> NUMERIC_MAPPING_TYPES \<union> BOOL_MAPPING_TYPES" "sd_scale_factor r = 1"
    | (integer) "label_of ty = ''INTEGER''" "label_of (sd_mapping_type r) \<in> INTEGER_MAPPING_TYPES" "sd_scale_factor r = 1"
    | (as_text) "label_of ty \<notin> {''FLOAT'', ''INTEGER'', ''BOOLEAN''}" "label_of (sd_mapping_type r) \<notin> NUMERIC_MAPPING_TYPES \<union> BOOL_MAPPING_TYPES"
    unfolding scales_def scaling_types_def Let_def by blast
  then show ?thesis
  proof cases
    case double
    have a: "apply_scale e (Pretty (str_int n)) ?m = Inr (int_or_float e (of_int n * (1 / 10)))"
      by (rule reading_double) (simp_all only: f double assms(2))
    have "int_or_float e (of_int n * (1 / 10)) \<noteq> PNone" by (simp add: int_or_float_def)
    then show ?thesis
      by (simp add: stored_reading_def a store_by_label scaled_value_def assms(3) double Let_def float_of_int_or_float)
  next
    case float
    have a: "apply_scale e (Pretty (str_int n)) ?m = Inr (int_or_float e (of_int n * sd_scale_factor r))"
      using reading_integer [of ?m e n] float(2,3) assms(2) by (simp only: f)
    have "int_or_float e (of_int n * sd_scale_factor r) \<noteq> PNone" by (simp add: int_or_float_def)
    then show ?thesis
      by (simp add: stored_reading_def a store_by_label scaled_value_def assms(3) float(1) Let_def float_of_int_or_float)
  next
    case float_text
    have a: "apply_scale e (Pretty (str_int n)) ?m = Inr (PStr (str_int n))" using float_text(2) unfolding f(1) [symmetric] by (rule reading_text)
    show ?thesis
      by (simp add: stored_reading_def a store_by_label scaled_value_def assms(3) float_text(1,3) Let_def text_number)
  next
    case integer
    have a: "apply_scale e (Pretty (str_int n)) ?m = Inr (PInt n)"
      using reading_integer [of ?m e n] integer(2,3) assms(2) by (simp add: f)
    show ?thesis using n
      by (simp add: stored_reading_def a store_by_label scaled_value_def assms(3) integer(1) Let_def integer_column_def quantize_half_up_def)
  next
    case as_text
    have a: "apply_scale e (Pretty (str_int n)) ?m = Inr (PStr (str_int n))" using as_text(2) unfolding f(1) [symmetric] by (rule reading_text)
    show ?thesis using as_text(1)
      by (simp add: stored_reading_def a store_by_label scaled_value_def assms(3) Let_def text_column_def py_str_def)
  qed
qed

subsection \<open>The seeded readings\<close>

lemma typed_reading:
  assumes "typed_row s r" and "whole_number e n"
  shows "\<exists>cat ty. os_columns s r = Inr (cat, ty)
    \<and> stored_reading e (set_metric (cat, ty) r m) (set_oid t k r x) (Pretty (str_int n)) = Inr (scaled_value e ty (sd_scale_factor r) n)"
proof -
  obtain cat ty where c: "os_columns s r = Inr (cat, ty)" "scales ty r" using assms(1) by (auto simp: typed_row_def)
  then show ?thesis
    using reading_of_scales [OF c(2) assms(2), of "set_metric (cat, ty) r m" "set_oid t k r x"] by (auto simp: set_metric_def set_oid_def)
qed

lemma unscaled_reading:
  assumes "ms_data_type r = ''float''" and "sd_mapping_type r = ''timeticks''"
  shows "stored_reading e (set_metric (cat, ''float'') r m) (set_oid t k r x) (Pretty (str_int n)) = Inr (scaled_value e ''float'' 1 n)"
proof -
  have f: "om_data_type (poller_mapping (set_oid t k r x)) = ''timeticks''" by (simp add: poller_mapping_def set_oid_def assms)
  have "label_of ''timeticks'' \<notin> NUMERIC_MAPPING_TYPES \<union> BOOL_MAPPING_TYPES" by (simp add: seed_labels type_sets)
  then have a: "apply_scale e (Pretty (str_int n)) (poller_mapping (set_oid t k r x)) = Inr (PStr (str_int n))"
    unfolding f [symmetric] by (rule reading_text)
  have d: "cm_data_type (set_metric (cat, ''float'') r m) = ''float''" by (simp add: set_metric_def)
  show ?thesis by (simp add: stored_reading_def a store_by_label d scaled_value_def seed_labels Let_def text_number)
qed

text \<open>C29. For every identifier of the five scripts, a device that answers a whole number is stored by the type of the metric, scaled as the
  table says. One row is the exception: the uptime of the rack PDU is declared as \<open>timeticks\<close>, which the poller takes for a text, so its
  hundredths are stored as seconds.\<close>

theorem seeded_readings:
  assumes "s \<in> set (oid_scripts e')" and "r \<in> set (os_rows s)" and "whole_number e n"
  shows "\<exists>cat ty. os_columns s r = Inr (cat, ty)
    \<and> stored_reading e (set_metric (cat, ty) r m) (set_oid t k r x) (Pretty (str_int n)) =
        Inr (scaled_value e ty (if ms_code r = ''device_uptime'' then 1 else sd_scale_factor r) n)
    \<and> (ms_code r = ''device_uptime'' \<longrightarrow> sd_scale_factor r = 1 / 100)"
proof -
  have other: ?thesis if "typed_row s r" "ms_code r \<noteq> ''device_uptime''"
    using typed_reading [OF that(1) assms(3)] that(2) by simp
  note typed = ats_typed symmetra_typed pac_typed pdu_typed netbotz_typed no_other_uptime
  have rows: "os_rows ats_script = ats_rows" "os_rows (symmetra_script e') = UPS_IMPORTANT_OIDS" "os_rows (pac_script e') = PAC_OID_ITEMS"
    "os_rows pdu_script = PDU_METRICS" "os_rows netbotz_script = netbotz_rows"
    by (simp_all add: ats_script_def symmetra_script_def pac_script_def pdu_script_def netbotz_script_def)
  show ?thesis
  proof (cases "s = pdu_script")
    case True
    show ?thesis
    proof (cases "ms_code r = ''device_uptime''")
      case up: True
      then have t: "ms_data_type r = ''float''" "sd_mapping_type r = ''timeticks''" "sd_scale_factor r = 1 / 100"
        using pdu_typed assms(2) unfolding True rows list_all_iff by auto
      have "os_columns s r = Inr (ms_category r, ''float'')" by (simp add: True pdu_script_def t)
      then show ?thesis using unscaled_reading [OF t(1,2)] t(3) up by simp
    next
      case False
      then have "typed_row s r" using pdu_typed assms(2) unfolding True rows list_all_iff by auto
      then show ?thesis using other False by blast
    qed
  next
    case False
    then have "s \<in> {ats_script, symmetra_script e', pac_script e', netbotz_script}" using assms(1) by (auto simp: oid_scripts_def)
    then have "typed_row s r \<and> ms_code r \<noteq> ''device_uptime''"
      using typed assms(2) rows unfolding list_all_iff list_all_append by fastforce
    then show ?thesis using other by blast
  qed
qed

definition exact_env :: env where
  "exact_env = (plain_env 5)\<lparr>fmt_py := (\<lambda>_. str_int 421700)\<rparr>"

lemma seeded_readings_witness:
  "\<exists>r cat. r \<in> set PDU_METRICS \<and> ms_code r = ''device_uptime''
     \<and> (\<forall>m t k x. stored_reading exact_env (set_metric (cat, ''float'') r m) (set_oid t k r x) (Pretty (str_int 421700))
         = Inr (no_value\<lparr>value_float := Some 421700\<rparr>)) \<and> sd_scale_factor r = 1 / 100"
proof -
  have n: "whole_number exact_env 421700"
    by (simp add: whole_number_def exact_env_def plain_env_def reads_back_def decimal_of_str_def py_str_def)
  have "list_ex (\<lambda>r. ms_code r = ''device_uptime'') PDU_METRICS" by (simp add: PDU_METRICS_def)
  then obtain r where r: "r \<in> set PDU_METRICS" "ms_code r = ''device_uptime''" by (auto simp: list_ex_iff)
  have s: "pdu_script \<in> set (oid_scripts exact_env)" "r \<in> set (os_rows pdu_script)" using r by (simp_all add: oid_scripts_def pdu_script_def)
  have t: "ms_data_type r = ''float''" using pdu_typed r unfolding list_all_iff by auto
  have c: "os_columns pdu_script r = Inr (ms_category r, ''float'')" by (simp add: pdu_script_def t)
  have v: "scaled_value exact_env ''float'' 1 421700 = no_value\<lparr>value_float := Some 421700\<rparr>"
    by (simp add: scaled_value_def seed_labels exact_env_def plain_env_def)
  have "stored_reading exact_env (set_metric (ms_category r, ''float'') r m) (set_oid t k r x) (Pretty (str_int 421700))
      = Inr (no_value\<lparr>value_float := Some 421700\<rparr>) \<and> sd_scale_factor r = 1 / 100" for m t k x
    using seeded_readings [OF s n, of m t k x] c r(2) v by auto
  then show ?thesis using r by blast
qed

text \<open>Two tables give the same counter two identifiers: what the rack PDU calls the use of unknown communities is the counter of
  parse errors of the other table.\<close>

lemma community_counter_mistaken:
  "list_ex (\<lambda>r. ms_code r = ''snmp_bad_community_uses'' \<and> sd_oid r = ''1.3.6.1.2.1.11.6.0'') PDU_METRICS"
  "list_ex (\<lambda>r. ms_code r = ''netbotz_snmp_asn_parse_errors'' \<and> sd_oid r = ''1.3.6.1.2.1.11.6.0'') netbotz_rows"
  "list_ex (\<lambda>r. ms_code r = ''netbotz_snmp_bad_community_uses'' \<and> sd_oid r = ''1.3.6.1.2.1.11.5.0'') netbotz_rows"
  by (simp_all add: PDU_METRICS_def netbotz_rows_def netbotz_table metric_seed_row_def)

end
