(* ===== verification/Oid_Seed_Props.thy ===== *)
theory Oid_Seed_Props
  imports Oid_Reading_Props Device_Setup_Props
begin

text \<open>
  What a run of an identifier script leaves in the tables: each row of its table exactly once, everything else as it was; a second run
  changes nothing. The argument is the same for the five scripts and is made once, for a script that finds its target again.
\<close>

subsection \<open>One row of a kind\<close>

lemma upsert_rows: "upsert pk q upd new rows = Inr ((r, b), rows') \<Longrightarrow> update_or_create pk q upd new rows = Inr rows'"
  by (auto simp: upsert_def update_or_create_def split: list.splits)

lemma upsert_row: "upsert pk q upd new rows = Inr ((r, b), rows') \<Longrightarrow> (b \<longleftrightarrow> filter q rows = []) \<and> (r = new \<or> (\<exists>r0. r = upd r0))"
  by (auto simp: upsert_def split: list.splits)

lemma upsert_one:
  assumes "upsert pk q upd new rows = Inr ((r, b), rows')" and "keys_unique pk rows" and "q new" and "\<And>r. q r \<Longrightarrow> q (upd r)"
  shows "filter q rows' = [r]" and "filter (\<lambda>x. \<not> q x) rows' = filter (\<lambda>x. \<not> q x) rows"
proof -
  from update_or_create_one [OF upsert_rows [OF assms(1)] assms(2-4)] obtain r1
    where 1: "filter q rows' = [r1]" "filter (\<lambda>x. \<not> q x) rows' = filter (\<lambda>x. \<not> q x) rows"
      "filter q rows = [] \<and> r1 = new \<and> rows' = rows @ [new] \<or> (\<exists>r0. filter q rows = [r0] \<and> r1 = upd r0)" by blast
  then have "r1 = r" using assms(1) by (auto simp: upsert_def)
  then show "filter q rows' = [r]" "filter (\<lambda>x. \<not> q x) rows' = filter (\<lambda>x. \<not> q x) rows" using 1 by simp_all
qed

lemma upsert_keys:
  assumes "upsert pk q upd new rows = Inr ((r, b), rows')" and "keys_unique pk rows" and "pk new \<notin> pk ` set rows" and "\<And>r. pk (upd r) = pk r"
  shows "keys_unique pk rows'"
  using assms by (auto simp: upsert_def keys_unique_insert keys_unique_update split: list.splits)

lemma upsert_total:
  assumes "keys_unique pk rows" and "\<And>x y. x \<in> set rows \<Longrightarrow> y \<in> set rows \<Longrightarrow> q x \<Longrightarrow> q y \<Longrightarrow> x = y"
  obtains r b rows' where "upsert pk q upd new rows = Inr ((r, b), rows')"
proof (cases "filter q rows")
  case Nil
  then show ?thesis using that by (simp add: upsert_def)
next
  case (Cons x xs)
  have "distinct (filter q rows)" using assms(1) by (simp add: keys_unique_def distinct_map)
  moreover have "y = x" if "y \<in> set xs" for y
    using assms(2) [of y x] arg_cong [OF Cons, of set] that by auto
  ultimately have "xs = []" using Cons by (metis distinct.simps(2) list.set_intros(1) neq_Nil_conv)
  then show ?thesis using that [of "upd x" False] Cons by (simp add: upsert_def)
qed

lemma upsert_again:
  assumes "filter q rows = [r]" and "upd r = r" and "keys_unique pk rows"
  shows "upsert pk q upd new rows = Inr ((r, False), rows)"
proof -
  have r: "r \<in> set rows" using arg_cong [OF assms(1), of set] by auto
  have "tbl_update pk (pk r) upd rows = rows"
    unfolding tbl_update_def using assms(2) key_eqD [OF assms(3) _ r] by (intro map_idI) auto
  then show ?thesis using assms(1,2) by (simp add: upsert_def)
qed

lemma filter_others:
  assumes "filter (\<lambda>x. \<not> q x) rows' = filter (\<lambda>x. \<not> q x) rows" and "\<And>x. P x \<Longrightarrow> \<not> q x"
  shows "filter P rows' = filter P rows"
proof -
  have "filter P xs = filter P (filter (\<lambda>x. \<not> q x) xs)" for xs using assms(2) by (intro filter_within) blast
  then show ?thesis using assms(1) by metis
qed

lemma in_filter_one: "filter q xs = [r] \<Longrightarrow> x \<in> set xs \<Longrightarrow> q x \<Longrightarrow> x = r"
proof -
  assume f: "filter q xs = [r]" and x: "x \<in> set xs" "q x"
  from x have "x \<in> set (filter q xs)" by simp
  then show ?thesis unfolding f by simp
qed

subsection \<open>One row of a script\<close>

definition metrics_ok :: "stored_metric list \<Rightarrow> bool" where
  "metrics_ok ms = (keys_unique cm_id ms \<and> (\<forall>x\<in>set ms. \<forall>y\<in>set ms. cm_code x = cm_code y \<longrightarrow> x = y))"

definition oids_ok :: "oid_lookup \<Rightarrow> target \<Rightarrow> stored_oid list \<Rightarrow> bool" where
  "oids_ok l t xs = (keys_unique cx_id xs
     \<and> (\<forall>k oid. \<forall>x\<in>set xs. \<forall>y\<in>set xs. same_oid l t k oid x \<and> same_oid l t k oid y \<longrightarrow> x = y))"

lemma set_metric_simps [simp]:
  "cm_id (set_metric cols s m) = cm_id m" "cm_code (set_metric cols s m) = ms_code s" "set_metric cols s (set_metric cols s m) = set_metric cols s m"
  by (simp_all add: set_metric_def)

lemma set_oid_simps [simp]:
  "cx_id (set_oid t k s x) = cx_id x" "same_oid l t k (sd_oid s) (set_oid t k s x)" "set_oid t k s (set_oid t k s x) = set_oid t k s x"
  by (simp_all add: set_oid_def same_oid_def)

lemma same_oid_link: "same_oid l t k oid x \<Longrightarrow> same_oid l t k' oid' x \<Longrightarrow> same_oid l t k' oid' y \<Longrightarrow> same_oid l t k oid y"
  by (auto simp: same_oid_def)

lemma put_metric_ok:
  assumes "metrics_ok ms"
  obtains m b ms' where "put_metric cols s ms = Inr ((m, b), ms')" and "metrics_ok ms'" and "filter (\<lambda>m. cm_code m = ms_code s) ms' = [m]"
    and "set_metric cols s m = m" and "filter (\<lambda>m. cm_code m \<noteq> ms_code s) ms' = filter (\<lambda>m. cm_code m \<noteq> ms_code s) ms"
proof -
  have keys: "keys_unique cm_id ms" and codes: "\<And>x y. x \<in> set ms \<Longrightarrow> y \<in> set ms \<Longrightarrow> cm_code x = cm_code y \<Longrightarrow> x = y"
    using assms by (auto simp: metrics_ok_def)
  obtain m b ms' where p: "put_metric cols s ms = Inr ((m, b), ms')"
    unfolding put_metric_def by (rule upsert_total [OF keys, where q = "\<lambda>m. cm_code m = ms_code s"]) (use codes in auto)
  note u = p [unfolded put_metric_def]
  have one: "filter (\<lambda>m. cm_code m = ms_code s) ms' = [m]" "filter (\<lambda>m. cm_code m \<noteq> ms_code s) ms' = filter (\<lambda>m. cm_code m \<noteq> ms_code s) ms"
    using upsert_one [OF u keys] by simp_all
  have "keys_unique cm_id ms'" by (rule upsert_keys [OF u keys]) (simp_all add: fresh_key_notin)
  moreover have "x = y" if "x \<in> set ms'" "y \<in> set ms'" "cm_code x = cm_code y" for x y
  proof (cases "cm_code x = ms_code s")
    case True
    then show ?thesis using in_filter_one [OF one(1)] that by metis
  next
    case False
    then have "x \<in> set (filter (\<lambda>m. cm_code m \<noteq> ms_code s) ms)" "y \<in> set (filter (\<lambda>m. cm_code m \<noteq> ms_code s) ms)"
      using that unfolding one(2) [symmetric] by simp_all
    then show ?thesis using codes that(3) by simp
  qed
  ultimately have "metrics_ok ms'" by (simp add: metrics_ok_def)
  moreover have "set_metric cols s m = m" using upsert_row [OF u] by auto
  ultimately show ?thesis using that p one by blast
qed

lemma put_oid_ok:
  assumes "oids_ok l t xs"
  obtains x b xs' where "put_oid l t k s xs = Inr ((x, b), xs')" and "oids_ok l t xs'" and "filter (same_oid l t k (sd_oid s)) xs' = [x]"
    and "set_oid t k s x = x" and "filter (\<lambda>x. \<not> same_oid l t k (sd_oid s) x) xs' = filter (\<lambda>x. \<not> same_oid l t k (sd_oid s) x) xs"
proof -
  let ?q = "same_oid l t k (sd_oid s)"
  have keys: "keys_unique cx_id xs"
    and one: "\<And>x y k oid. x \<in> set xs \<Longrightarrow> y \<in> set xs \<Longrightarrow> same_oid l t k oid x \<Longrightarrow> same_oid l t k oid y \<Longrightarrow> x = y"
    using assms by (auto simp: oids_ok_def)
  obtain x b xs' where p: "put_oid l t k s xs = Inr ((x, b), xs')"
    unfolding put_oid_def by (rule upsert_total [OF keys, where q = ?q]) (use one in auto)
  note u = p [unfolded put_oid_def]
  have f: "filter ?q xs' = [x]" "filter (\<lambda>x. \<not> ?q x) xs' = filter (\<lambda>x. \<not> ?q x) xs"
    using upsert_one [OF u keys] by simp_all
  have "keys_unique cx_id xs'" by (rule upsert_keys [OF u keys]) (simp_all add: fresh_key_notin)
  moreover have "y = z" if "y \<in> set xs'" "z \<in> set xs'" "same_oid l t k' oid y" "same_oid l t k' oid z" for y z k' oid
  proof (cases "?q y")
    case True
    then have "?q z" using same_oid_link that(3,4) by blast
    then show ?thesis using True in_filter_one [OF f(1)] that(1,2) by metis
  next
    case False
    then have "\<not> ?q z" using same_oid_link that(3,4) by blast
    then have "y \<in> set (filter (\<lambda>x. \<not> ?q x) xs)" "z \<in> set (filter (\<lambda>x. \<not> ?q x) xs)"
      using False that(1,2) unfolding f(2) [symmetric] by simp_all
    then show ?thesis using one that(3,4) by simp
  qed
  ultimately have "oids_ok l t xs'" by (auto simp: oids_ok_def)
  moreover have "set_oid t k s x = x" using upsert_row [OF u] by auto
  ultimately show ?thesis using that p f by blast
qed

text \<open>A row is seeded when its metric and its mapping are there once, with the columns of the row.\<close>

definition row_seeded :: "oid_script \<Rightarrow> target \<Rightarrow> catalogue \<Rightarrow> oid_seed \<Rightarrow> bool" where
  "row_seeded s t c r = (\<exists>cols m x. os_columns s r = Inr cols \<and> filter (\<lambda>m. cm_code m = ms_code r) (cg_metrics c) = [m] \<and> set_metric cols r m = m
     \<and> filter (same_oid (os_lookup s) t (cm_id m) (sd_oid r)) (cg_oids c) = [x] \<and> set_oid t (cm_id m) r x = x)"

lemma row_seeded_columns:
  assumes "row_seeded s t c r"
  shows "\<exists>cat ty m x. os_columns s r = Inr (cat, ty) \<and> filter (\<lambda>m. cm_code m = ms_code r) (cg_metrics c) = [m]
    \<and> cm_name m = ms_name r \<and> cm_category m = cat \<and> cm_data_type m = ty \<and> cm_unit m = ms_unit r \<and> cm_is_active m
    \<and> filter (same_oid (os_lookup s) t (cm_id m) (sd_oid r)) (cg_oids c) = [x] \<and> cx_oid x = sd_oid r \<and> cx_data_type x = sd_mapping_type r
    \<and> cx_scale_factor x = sd_scale_factor r \<and> cx_offset_value x = sd_offset_value r \<and> cx_is_active x"
proof -
  obtain cols m x where h: "os_columns s r = Inr cols" "filter (\<lambda>m. cm_code m = ms_code r) (cg_metrics c) = [m]" "set_metric cols r m = m"
    "filter (same_oid (os_lookup s) t (cm_id m) (sd_oid r)) (cg_oids c) = [x]" "set_oid t (cm_id m) r x = x"
    using assms unfolding row_seeded_def by blast
  have "cm_name m = ms_name r" "cm_category m = fst cols" "cm_data_type m = snd cols" "cm_unit m = ms_unit r" "cm_is_active m"
    using arg_cong [OF h(3), of cm_name] arg_cong [OF h(3), of cm_category] arg_cong [OF h(3), of cm_data_type] arg_cong [OF h(3), of cm_unit]
      arg_cong [OF h(3), of cm_is_active] by (simp_all add: set_metric_def)
  moreover have "cx_oid x = sd_oid r" "cx_data_type x = sd_mapping_type r" "cx_scale_factor x = sd_scale_factor r" "cx_offset_value x = sd_offset_value r"
      "cx_is_active x"
    using arg_cong [OF h(5), of cx_oid] arg_cong [OF h(5), of cx_data_type] arg_cong [OF h(5), of cx_scale_factor] arg_cong [OF h(5), of cx_offset_value]
      arg_cong [OF h(5), of cx_is_active] by (simp_all add: set_oid_def)
  ultimately show ?thesis using h(1,2,4) by (intro exI [of _ "fst cols"] exI [of _ "snd cols"] exI [of _ m] exI [of _ x]) simp
qed

lemma seed_oid_row_ok:
  assumes "os_columns s r = Inr cols" and "metrics_ok (cg_metrics c)" and "oids_ok (os_lookup s) t (cg_oids c)"
  obtains a b m ms xs where "seed_oid_row s t r c = Inr ((a, b), c\<lparr>cg_metrics := ms, cg_oids := xs\<rparr>)" and "metrics_ok ms" and "oids_ok (os_lookup s) t xs"
    and "row_seeded s t (c\<lparr>cg_metrics := ms, cg_oids := xs\<rparr>) r" and "m \<in> set ms" and "cm_code m = ms_code r"
    and "\<forall>P. (\<forall>m. P m \<longrightarrow> cm_code m \<noteq> ms_code r) \<longrightarrow> filter P ms = filter P (cg_metrics c)"
    and "\<forall>P. (\<forall>x. P x \<longrightarrow> cx_device_model x \<noteq> Some (tg_model t) \<or> cx_metric x \<noteq> cm_id m) \<longrightarrow> filter P xs = filter P (cg_oids c)"
proof -
  obtain m a ms where m: "put_metric cols r (cg_metrics c) = Inr ((m, a), ms)" "metrics_ok ms" "filter (\<lambda>m. cm_code m = ms_code r) ms = [m]"
    "set_metric cols r m = m" "filter (\<lambda>m. cm_code m \<noteq> ms_code r) ms = filter (\<lambda>m. cm_code m \<noteq> ms_code r) (cg_metrics c)"
    by (rule put_metric_ok [OF assms(2)])
  obtain x b xs where x: "put_oid (os_lookup s) t (cm_id m) r (cg_oids c) = Inr ((x, b), xs)" "oids_ok (os_lookup s) t xs"
    "filter (same_oid (os_lookup s) t (cm_id m) (sd_oid r)) xs = [x]" "set_oid t (cm_id m) r x = x"
    "filter (\<lambda>x. \<not> same_oid (os_lookup s) t (cm_id m) (sd_oid r) x) xs = filter (\<lambda>x. \<not> same_oid (os_lookup s) t (cm_id m) (sd_oid r) x) (cg_oids c)"
    by (rule put_oid_ok [OF assms(3)])
  have mm: "m \<in> set ms" "cm_code m = ms_code r" using arg_cong [OF m(3), of set] by auto
  show ?thesis
  proof (rule that [OF _ m(2) x(2) _ mm])
    show "seed_oid_row s t r c = Inr ((a, b), c\<lparr>cg_metrics := ms, cg_oids := xs\<rparr>)" by (simp add: seed_oid_row_def assms(1) m(1) x(1))
    show "row_seeded s t (c\<lparr>cg_metrics := ms, cg_oids := xs\<rparr>) r" using assms(1) m(3,4) x(3,4) by (simp add: row_seeded_def)
    have "filter P ms = filter P (cg_metrics c)" if "\<forall>m. P m \<longrightarrow> cm_code m \<noteq> ms_code r" for P
      by (rule filter_others [where q = "\<lambda>m. cm_code m = ms_code r"]) (use m(5) that in auto)
    then show "\<forall>P. (\<forall>m. P m \<longrightarrow> cm_code m \<noteq> ms_code r) \<longrightarrow> filter P ms = filter P (cg_metrics c)" by blast
    have "filter P xs = filter P (cg_oids c)" if "\<forall>x. P x \<longrightarrow> cx_device_model x \<noteq> Some (tg_model t) \<or> cx_metric x \<noteq> cm_id m" for P
      by (rule filter_others [OF x(5)]) (use that in \<open>auto simp: same_oid_def\<close>)
    then show "\<forall>P. (\<forall>x. P x \<longrightarrow> cx_device_model x \<noteq> Some (tg_model t) \<or> cx_metric x \<noteq> cm_id m) \<longrightarrow> filter P xs = filter P (cg_oids c)" by blast
  qed
qed

subsection \<open>All rows of a script\<close>

lemma row_seeded_kept:
  assumes "row_seeded s t c r" and "filter (\<lambda>m. cm_code m = ms_code r) ms = filter (\<lambda>m. cm_code m = ms_code r) (cg_metrics c)"
    and "\<And>m oid. m \<in> set (cg_metrics c) \<Longrightarrow> cm_code m = ms_code r \<Longrightarrow>
      filter (same_oid (os_lookup s) t (cm_id m) oid) xs = filter (same_oid (os_lookup s) t (cm_id m) oid) (cg_oids c)"
  shows "row_seeded s t (c\<lparr>cg_metrics := ms, cg_oids := xs\<rparr>) r"
proof -
  from assms(1) obtain cols m x where r: "os_columns s r = Inr cols" "filter (\<lambda>m. cm_code m = ms_code r) (cg_metrics c) = [m]" "set_metric cols r m = m"
    "filter (same_oid (os_lookup s) t (cm_id m) (sd_oid r)) (cg_oids c) = [x]" "set_oid t (cm_id m) r x = x"
    unfolding row_seeded_def by blast
  have m: "m \<in> set (cg_metrics c)" "cm_code m = ms_code r" using arg_cong [OF r(2), of set] by auto
  show ?thesis unfolding row_seeded_def using r assms(2) assms(3) [OF m] by auto
qed

lemma seed_oid_rows_ok:
  assumes "\<forall>r\<in>set rs. \<exists>cols. os_columns s r = Inr cols" and "distinct (map ms_code rs)"
    and "metrics_ok (cg_metrics c)" and "oids_ok (os_lookup s) t (cg_oids c)"
  shows "\<exists>n ms xs. seed_oid_rows s t rs c = Inr (n, c\<lparr>cg_metrics := ms, cg_oids := xs\<rparr>) \<and> metrics_ok ms \<and> oids_ok (os_lookup s) t xs
    \<and> metrics_created n + metrics_updated n = length rs \<and> mappings_created n + mappings_updated n = length rs
    \<and> (\<forall>r\<in>set rs. row_seeded s t (c\<lparr>cg_metrics := ms, cg_oids := xs\<rparr>) r)
    \<and> (\<forall>P. (\<forall>m. P m \<longrightarrow> cm_code m \<notin> ms_code ` set rs) \<longrightarrow> filter P ms = filter P (cg_metrics c))
    \<and> (\<forall>P. (\<forall>x. P x \<longrightarrow> cx_device_model x \<noteq> Some (tg_model t) \<or> (\<forall>m\<in>set ms. cm_code m \<in> ms_code ` set rs \<longrightarrow> cx_metric x \<noteq> cm_id m))
        \<longrightarrow> filter P xs = filter P (cg_oids c))"
  using assms
proof (induction rs arbitrary: c)
  case Nil
  then show ?case
    by (intro exI [of _ no_counts] exI [of _ "cg_metrics c"] exI [of _ "cg_oids c"]) (simp add: no_counts_def)
next
  case (Cons r rs)
  obtain cols where cols: "os_columns s r = Inr cols" using Cons.prems(1) by auto
  obtain a b m ms1 xs1 where 1: "seed_oid_row s t r c = Inr ((a, b), c\<lparr>cg_metrics := ms1, cg_oids := xs1\<rparr>)" "metrics_ok ms1"
      "oids_ok (os_lookup s) t xs1" "row_seeded s t (c\<lparr>cg_metrics := ms1, cg_oids := xs1\<rparr>) r" and m: "m \<in> set ms1" "cm_code m = ms_code r"
    and keep_m: "\<forall>P. (\<forall>m. P m \<longrightarrow> cm_code m \<noteq> ms_code r) \<longrightarrow> filter P ms1 = filter P (cg_metrics c)"
    and keep_x: "\<forall>P. (\<forall>x. P x \<longrightarrow> cx_device_model x \<noteq> Some (tg_model t) \<or> cx_metric x \<noteq> cm_id m) \<longrightarrow> filter P xs1 = filter P (cg_oids c)"
    by (rule seed_oid_row_ok [OF cols Cons.prems(3,4)]) (rule that, assumption+)
  let ?c1 = "c\<lparr>cg_metrics := ms1, cg_oids := xs1\<rparr>"
  have p: "\<forall>r\<in>set rs. \<exists>cols. os_columns s r = Inr cols" "distinct (map ms_code rs)" "metrics_ok (cg_metrics ?c1)"
    "oids_ok (os_lookup s) t (cg_oids ?c1)" using Cons.prems(1,2) 1(2,3) by simp_all
  have new: "ms_code r \<notin> ms_code ` set rs" using Cons.prems(2) by auto
  obtain n ms xs where 2: "seed_oid_rows s t rs ?c1 = Inr (n, ?c1\<lparr>cg_metrics := ms, cg_oids := xs\<rparr>)" "metrics_ok ms"
      "oids_ok (os_lookup s) t xs" "metrics_created n + metrics_updated n = length rs" "mappings_created n + mappings_updated n = length rs"
      "\<forall>r\<in>set rs. row_seeded s t (?c1\<lparr>cg_metrics := ms, cg_oids := xs\<rparr>) r"
    and keep_m2: "\<forall>P. (\<forall>m. P m \<longrightarrow> cm_code m \<notin> ms_code ` set rs) \<longrightarrow> filter P ms = filter P ms1"
    and keep_x2: "\<forall>P. (\<forall>x. P x \<longrightarrow> cx_device_model x \<noteq> Some (tg_model t) \<or> (\<forall>m\<in>set ms. cm_code m \<in> ms_code ` set rs \<longrightarrow> cx_metric x \<noteq> cm_id m))
        \<longrightarrow> filter P xs = filter P xs1"
  proof -
    from Cons.IH [OF p] show ?thesis by (elim exE conjE) (rule that, assumption+, simp_all)
  qed
  let ?c = "c\<lparr>cg_metrics := ms, cg_oids := xs\<rparr>"
  have same: "?c1\<lparr>cg_metrics := ms, cg_oids := xs\<rparr> = ?c" by simp
  have codes_m: "filter (\<lambda>m. cm_code m = ms_code r) ms = filter (\<lambda>m. cm_code m = ms_code r) ms1"
    using new by (intro keep_m2 [rule_format]) auto
  have m_in: "m \<in> set ms"
    using m arg_cong [OF codes_m, of set] by auto
  have apart: "cm_id m' \<noteq> cm_id m''" if "m' \<in> set ms" "cm_code m' \<in> ms_code ` set rs" "m'' \<in> set ms" "cm_code m'' = ms_code r" for m' m''
  proof
    assume k: "cm_id m' = cm_id m''"
    have "keys_unique cm_id ms" using 2(2) by (simp add: metrics_ok_def)
    then have "m' = m''" by (rule key_eqD [OF _ that(1,3) k])
    then show False using that(2,4) new by simp
  qed
  have "row_seeded s t (?c1\<lparr>cg_metrics := ms, cg_oids := xs\<rparr>) r"
  proof (rule row_seeded_kept [OF 1(4)])
    show "filter (\<lambda>m. cm_code m = ms_code r) ms = filter (\<lambda>m. cm_code m = ms_code r) (cg_metrics ?c1)" using codes_m by simp
    fix m' oid assume "m' \<in> set (cg_metrics ?c1)" "cm_code m' = ms_code r"
    then have m': "m' \<in> set ms" "cm_code m' = ms_code r" using arg_cong [OF codes_m, of set] by auto
    have "cx_metric x \<noteq> cm_id m''" if "same_oid (os_lookup s) t (cm_id m') oid x" "m'' \<in> set ms" "cm_code m'' \<in> ms_code ` set rs" for x m''
      using that(1) apart [OF that(2,3) m'] by (simp add: same_oid_def)
    then have "filter (same_oid (os_lookup s) t (cm_id m') oid) xs = filter (same_oid (os_lookup s) t (cm_id m') oid) xs1"
      by (intro keep_x2 [THEN spec, THEN mp]) blast
    then show "filter (same_oid (os_lookup s) t (cm_id m') oid) xs = filter (same_oid (os_lookup s) t (cm_id m') oid) (cg_oids ?c1)" by simp
  qed
  then have seeded: "\<forall>r\<in>set (r # rs). row_seeded s t ?c r" using 2(6) unfolding same by simp
  have keep_ms: "filter P ms = filter P (cg_metrics c)" if "\<forall>m. P m \<longrightarrow> cm_code m \<notin> ms_code ` set (r # rs)" for P
    using keep_m2 [THEN spec, of P] keep_m [THEN spec, of P] that by auto
  have keep_xs: "filter P xs = filter P (cg_oids c)"
    if P: "\<forall>x. P x \<longrightarrow> cx_device_model x \<noteq> Some (tg_model t) \<or> (\<forall>m\<in>set ms. cm_code m \<in> ms_code ` set (r # rs) \<longrightarrow> cx_metric x \<noteq> cm_id m)" for P
  proof -
    have "filter P xs = filter P xs1" using P by (intro keep_x2 [rule_format]) auto
    also have "\<dots> = filter P (cg_oids c)" using P m_in m(2) by (intro keep_x [rule_format]) auto
    finally show ?thesis .
  qed
  have "seed_oid_rows s t (r # rs) c = Inr (count_row a b n, ?c)" using 1(1) 2(1) same by simp
  moreover have "metrics_created (count_row a b n) + metrics_updated (count_row a b n) = length (r # rs)"
    "mappings_created (count_row a b n) + mappings_updated (count_row a b n) = length (r # rs)"
    using 2(4,5) by (cases a; cases b; simp add: count_row_def)+
  ultimately show ?case using 2(2,3) seeded keep_ms keep_xs by blast
qed

lemma seed_oid_rows_again:
  assumes "\<forall>r\<in>set rs. row_seeded s t c r" and "metrics_ok (cg_metrics c)" and "oids_ok (os_lookup s) t (cg_oids c)"
  shows "seed_oid_rows s t rs c =
    Inr (\<lparr>metrics_created = 0, metrics_updated = length rs, mappings_created = 0, mappings_updated = length rs\<rparr>, c)"
  using assms(1)
proof (induction rs)
  case Nil
  show ?case by (simp add: no_counts_def)
next
  case (Cons r rs)
  from Cons.prems obtain cols m x where r: "os_columns s r = Inr cols" "filter (\<lambda>m. cm_code m = ms_code r) (cg_metrics c) = [m]"
    "set_metric cols r m = m" "filter (same_oid (os_lookup s) t (cm_id m) (sd_oid r)) (cg_oids c) = [x]" "set_oid t (cm_id m) r x = x"
    unfolding row_seeded_def by auto
  have "put_metric cols r (cg_metrics c) = Inr ((m, False), cg_metrics c)"
    unfolding put_metric_def using assms(2) r(2,3) by (intro upsert_again) (auto simp: metrics_ok_def)
  moreover have "put_oid (os_lookup s) t (cm_id m) r (cg_oids c) = Inr ((x, False), cg_oids c)"
    unfolding put_oid_def using assms(3) r(4,5) by (intro upsert_again) (auto simp: oids_ok_def)
  ultimately have "seed_oid_row s t r c = Inr ((False, False), c)" by (simp add: seed_oid_row_def r(1))
  then show ?case using Cons by (simp add: count_row_def)
qed

subsection \<open>A script\<close>

definition targets_unique :: "catalogue \<Rightarrow> bool" where
  "targets_unique c = (keys_unique vn_id (cg_vendors c) \<and> keys_unique dt_id (cg_types c) \<and> keys_unique md_id (cg_models c))"

locale oid_seeding =
  fixes s :: oid_script
  assumes columns: "\<forall>r\<in>set (os_rows s). \<exists>cols. os_columns s r = Inr cols"
    and codes: "distinct (map ms_code (os_rows s))"
    and target_tables: "os_target s c = (Inr t, c1) \<Longrightarrow> cg_metrics c1 = cg_metrics c \<and> cg_oids c1 = cg_oids c"
    and target_again: "os_target s c = (Inr t, c1) \<Longrightarrow> targets_unique c \<Longrightarrow>
      os_target s (c1\<lparr>cg_metrics := ms, cg_oids := xs\<rparr>) = (Inr t, c1\<lparr>cg_metrics := ms, cg_oids := xs\<rparr>)"
begin

lemma run_exact:
  assumes "os_target s c = (Inr t, c1)" and "targets_unique c" and "metrics_ok (cg_metrics c)" and "oids_ok (os_lookup s) t (cg_oids c)"
  shows "\<exists>n c'. run_oid_script s c = (Inr n, c')
    \<and> metrics_created n + metrics_updated n = length (os_rows s) \<and> mappings_created n + mappings_updated n = length (os_rows s)
    \<and> (\<forall>r\<in>set (os_rows s). row_seeded s t c' r)
    \<and> filter (\<lambda>m. cm_code m \<notin> ms_code ` set (os_rows s)) (cg_metrics c') = filter (\<lambda>m. cm_code m \<notin> ms_code ` set (os_rows s)) (cg_metrics c)
    \<and> filter (\<lambda>x. cx_device_model x \<noteq> Some (tg_model t)) (cg_oids c') = filter (\<lambda>x. cx_device_model x \<noteq> Some (tg_model t)) (cg_oids c)
    \<and> run_oid_script s c' =
        (Inr \<lparr>metrics_created = 0, metrics_updated = length (os_rows s), mappings_created = 0, mappings_updated = length (os_rows s)\<rparr>, c')"
proof -
  have same: "cg_metrics c1 = cg_metrics c" "cg_oids c1 = cg_oids c" using target_tables [OF assms(1)] by simp_all
  have p: "metrics_ok (cg_metrics c1)" "oids_ok (os_lookup s) t (cg_oids c1)" using assms(3,4) same by simp_all
  obtain n ms xs where r: "seed_oid_rows s t (os_rows s) c1 = Inr (n, c1\<lparr>cg_metrics := ms, cg_oids := xs\<rparr>)" "metrics_ok ms"
      "oids_ok (os_lookup s) t xs" "metrics_created n + metrics_updated n = length (os_rows s)"
      "mappings_created n + mappings_updated n = length (os_rows s)" "\<forall>r\<in>set (os_rows s). row_seeded s t (c1\<lparr>cg_metrics := ms, cg_oids := xs\<rparr>) r"
    and keep_m: "\<forall>P. (\<forall>m. P m \<longrightarrow> cm_code m \<notin> ms_code ` set (os_rows s)) \<longrightarrow> filter P ms = filter P (cg_metrics c1)"
    and keep_x: "\<forall>P. (\<forall>x. P x \<longrightarrow> cx_device_model x \<noteq> Some (tg_model t) \<or> (\<forall>m\<in>set ms. cm_code m \<in> ms_code ` set (os_rows s) \<longrightarrow> cx_metric x \<noteq> cm_id m))
        \<longrightarrow> filter P xs = filter P (cg_oids c1)"
  proof -
    from seed_oid_rows_ok [OF columns codes p] show ?thesis by (elim exE conjE) (rule that, assumption+)
  qed
  let ?c = "c1\<lparr>cg_metrics := ms, cg_oids := xs\<rparr>"
  have run: "run_oid_script s c = (Inr n, ?c)" by (simp add: run_oid_script_def assms(1) r(1))
  have "os_target s ?c = (Inr t, ?c)" by (rule target_again [OF assms(1,2)])
  moreover have "seed_oid_rows s t (os_rows s) ?c = Inr (\<lparr>metrics_created = 0, metrics_updated = length (os_rows s), mappings_created = 0,
      mappings_updated = length (os_rows s)\<rparr>, ?c)" using r(2,3,6) by (intro seed_oid_rows_again) simp_all
  ultimately have again: "run_oid_script s ?c = (Inr \<lparr>metrics_created = 0, metrics_updated = length (os_rows s), mappings_created = 0,
      mappings_updated = length (os_rows s)\<rparr>, ?c)" by (simp add: run_oid_script_def)
  have m: "filter (\<lambda>m. cm_code m \<notin> ms_code ` set (os_rows s)) ms = filter (\<lambda>m. cm_code m \<notin> ms_code ` set (os_rows s)) (cg_metrics c)"
    unfolding same [symmetric] by (rule keep_m [THEN spec, THEN mp]) blast
  have x: "filter (\<lambda>x. cx_device_model x \<noteq> Some (tg_model t)) xs = filter (\<lambda>x. cx_device_model x \<noteq> Some (tg_model t)) (cg_oids c)"
    unfolding same [symmetric] by (rule keep_x [THEN spec, THEN mp]) blast
  show ?thesis using run r(4-6) m x again by (intro exI [of _ n] exI [of _ ?c]) simp
qed

end

subsection \<open>The targets are found again\<close>

lemma get_target_again:
  assumes "get_target ty col v c = (Inr t, c1)"
  shows "c1 = c" and "get_target ty col v (c1\<lparr>cg_metrics := ms, cg_oids := xs\<rparr>) = (Inr t, c1\<lparr>cg_metrics := ms, cg_oids := xs\<rparr>)"
  using assms by (auto simp: get_target_def split: sum.splits)

lemma required_target_again:
  assumes "required_target e ty vn md c = (Inr t, c1)"
  shows "c1 = c" and "required_target e ty vn md (c1\<lparr>cg_metrics := ms, cg_oids := xs\<rparr>) = (Inr t, c1\<lparr>cg_metrics := ms, cg_oids := xs\<rparr>)"
  using assms by (auto simp: required_target_def split: sum.splits)

lemma model_text_frame: "model_text (c\<lparr>cg_metrics := ms, cg_oids := xs\<rparr>) = model_text c"
  by (intro ext) (simp add: model_text_def)

lemma similar_target_again:
  assumes "similar_target e a ty vn md c = (Inr t, c1)"
  shows "c1 = c" and "similar_target e a ty vn md (c1\<lparr>cg_metrics := ms, cg_oids := xs\<rparr>) = (Inr t, c1\<lparr>cg_metrics := ms, cg_oids := xs\<rparr>)"
  using assms by (auto simp: similar_target_def model_text_frame split: sum.splits)

text \<open>The row that is found or made, with its columns set, is the one that is found the next time.\<close>

lemma found_again:
  assumes "keys_unique pk rows" and "code r = v" and "by_code_or_name pk code v name w rows = None \<and> pk r \<notin> pk ` set rows
      \<or> (\<exists>r0. by_code_or_name pk code v name w rows = Some r0 \<and> pk r = pk r0)"
  shows "by_code_or_name pk code v name w (tbl_put pk r rows) = Some r"
proof -
  let ?rows = "tbl_put pk r rows"
  have keys: "keys_unique pk ?rows" using assms(1) by (rule keys_unique_put)
  have in_rows: "r \<in> set (filter (\<lambda>r. code r = v) ?rows)" using assms(2) by (simp add: tbl_put_has)
  have le: "pk r \<le> pk y" if y: "y \<in> set ?rows" "code y = v" for y
  proof (cases "y = r")
    case False
    then have y': "y \<in> set rows" using in_tbl_put [OF y(1)] by blast
    then have "filter (\<lambda>r. code r = v) rows \<noteq> []" using y(2) by (auto simp: filter_empty_conv)
    then have "first_row (order_by pk (filter (\<lambda>r. code r = v) rows)) \<noteq> None" unfolding first_order_by_None .
    then obtain r0 where r0: "first_row (order_by pk (filter (\<lambda>r. code r = v) rows)) = Some r0" by blast
    then have "pk r = pk r0" using assms(3) by (auto simp: by_code_or_name_def)
    moreover have "pk r0 \<le> pk y" using first_order_by_min [OF r0] y' y(2) by auto
    ultimately show ?thesis by simp
  qed simp
  obtain z where z: "first_row (order_by pk (filter (\<lambda>r. code r = v) ?rows)) = Some z"
    using in_rows by (metis empty_iff empty_set first_order_by_None not_None_eq)
  then have zr: "z \<in> set ?rows" "code z = v" by (auto dest!: first_row_Some_in)
  have "pk z \<le> pk r" using first_order_by_min [OF z] in_rows by auto
  then have "pk z = pk r" using le [OF zr] by simp
  then have "z = r" using key_eqD [OF keys zr(1)] in_rows by auto
  then show ?thesis using z by (simp add: by_code_or_name_def)
qed

lemma tbl_put_same: "keys_unique pk rows \<Longrightarrow> r \<in> set rows \<Longrightarrow> tbl_put pk r rows = rows"
  by (auto simp: tbl_put_def tbl_get_None tbl_update_def intro!: map_idI dest: key_eqD)

lemma vendor_made:
  assumes "get_or_create_vendor c = (v, c1)" and "keys_unique vn_id (cg_vendors c)"
  shows "c1 = c\<lparr>cg_vendors := tbl_put vn_id v (cg_vendors c)\<rparr>"
    and "cg_vendors x = tbl_put vn_id v (cg_vendors c) \<Longrightarrow> get_or_create_vendor x = (v, x)"
proof -
  have v: "vn_name v = SCHNEIDER_APC" "vn_code v = ''SCHNEIDER_APC''" and c1: "c1 = c\<lparr>cg_vendors := tbl_put vn_id v (cg_vendors c)\<rparr>"
    and found: "by_code_or_name vn_id vn_code ''SCHNEIDER_APC'' vn_name SCHNEIDER_APC (cg_vendors c) = None \<and> vn_id v \<notin> vn_id ` set (cg_vendors c)
      \<or> (\<exists>r0. by_code_or_name vn_id vn_code ''SCHNEIDER_APC'' vn_name SCHNEIDER_APC (cg_vendors c) = Some r0 \<and> vn_id v = vn_id r0)"
    using assms(1) by (auto simp: get_or_create_vendor_def Let_def dest: fresh_key_gt [where pk = vn_id] split: option.splits)
  show "c1 = c\<lparr>cg_vendors := tbl_put vn_id v (cg_vendors c)\<rparr>" by (rule c1)
  assume x: "cg_vendors x = tbl_put vn_id v (cg_vendors c)"
  have "tbl_put vn_id v (cg_vendors x) = cg_vendors x"
    unfolding x by (intro tbl_put_same keys_unique_put assms(2) tbl_put_has)
  moreover have "by_code_or_name vn_id vn_code ''SCHNEIDER_APC'' vn_name SCHNEIDER_APC (cg_vendors x) = Some v"
    unfolding x by (rule found_again [OF assms(2) v(2) found])
  moreover have "v\<lparr>vn_name := SCHNEIDER_APC, vn_code := ''SCHNEIDER_APC''\<rparr> = v" using v by (cases v) simp
  ultimately show "get_or_create_vendor x = (v, x)" by (simp add: get_or_create_vendor_def Let_def)
qed

lemma type_made:
  assumes "get_or_create_device_type c = (v, c1)" and "keys_unique dt_id (cg_types c)"
  shows "c1 = c\<lparr>cg_types := tbl_put dt_id v (cg_types c)\<rparr>"
    and "cg_types x = tbl_put dt_id v (cg_types c) \<Longrightarrow> get_or_create_device_type x = (v, x)"
proof -
  have v: "dt_name v = ''Rack PDU''" "dt_code v = ''RACK_PDU''" and c1: "c1 = c\<lparr>cg_types := tbl_put dt_id v (cg_types c)\<rparr>"
    and found: "by_code_or_name dt_id dt_code ''RACK_PDU'' dt_name ''Rack PDU'' (cg_types c) = None \<and> dt_id v \<notin> dt_id ` set (cg_types c)
      \<or> (\<exists>r0. by_code_or_name dt_id dt_code ''RACK_PDU'' dt_name ''Rack PDU'' (cg_types c) = Some r0 \<and> dt_id v = dt_id r0)"
    using assms(1) by (auto simp: get_or_create_device_type_def Let_def dest: fresh_key_gt [where pk = dt_id] split: option.splits)
  show "c1 = c\<lparr>cg_types := tbl_put dt_id v (cg_types c)\<rparr>" by (rule c1)
  assume x: "cg_types x = tbl_put dt_id v (cg_types c)"
  have "tbl_put dt_id v (cg_types x) = cg_types x"
    unfolding x by (intro tbl_put_same keys_unique_put assms(2) tbl_put_has)
  moreover have "by_code_or_name dt_id dt_code ''RACK_PDU'' dt_name ''Rack PDU'' (cg_types x) = Some v"
    unfolding x by (rule found_again [OF assms(2) v(2) found])
  moreover have "v\<lparr>dt_name := ''Rack PDU'', dt_code := ''RACK_PDU''\<rparr> = v" using v by (cases v) simp
  ultimately show "get_or_create_device_type x = (v, x)" by (simp add: get_or_create_device_type_def Let_def)
qed

lemma model_made:
  assumes "get_or_create_device_model v t c = Inr (m, c1)" and "keys_unique md_id (cg_models c)"
  shows "c1 = c\<lparr>cg_models := tbl_put md_id m (cg_models c)\<rparr>"
    and "cg_models x = tbl_put md_id m (cg_models c) \<Longrightarrow> get_or_create_device_model v t x = Inr (m, x)"
proof -
  let ?find = "by_code_or_name md_id md_model_number ''AP8853'' md_name ''APC AP8853 Metered Rack PDU''"
  have m: "set_pdu_model v t m = m" "md_model_number m = ''AP8853''" and c1: "c1 = c\<lparr>cg_models := tbl_put md_id m (cg_models c)\<rparr>"
    and found: "?find (cg_models c) = None \<and> md_id m \<notin> md_id ` set (cg_models c) \<or> (\<exists>r0. ?find (cg_models c) = Some r0 \<and> md_id m = md_id r0)"
    and others: "\<not> list_ex (\<lambda>x. md_vendor x = vn_id v \<and> md_model_number x = ''AP8853'' \<and> md_id x \<noteq> md_id m) (cg_models c)"
    using assms(1) by (auto simp: get_or_create_device_model_def set_pdu_model_def Let_def dest: fresh_key_gt [where pk = md_id] split: option.splits if_splits)
  show "c1 = c\<lparr>cg_models := tbl_put md_id m (cg_models c)\<rparr>" by (rule c1)
  assume x: "cg_models x = tbl_put md_id m (cg_models c)"
  have "tbl_put md_id m (cg_models x) = cg_models x"
    unfolding x by (intro tbl_put_same keys_unique_put assms(2) tbl_put_has)
  moreover have "?find (cg_models x) = Some m"
    unfolding x by (rule found_again [OF assms(2) m(2) found])
  moreover have "\<not> list_ex (\<lambda>x. md_vendor x = vn_id v \<and> md_model_number x = ''AP8853'' \<and> md_id x \<noteq> md_id m) (cg_models x)"
    using others unfolding x by (auto simp: list_ex_iff dest: in_tbl_put)
  ultimately show "get_or_create_device_model v t x = Inr (m, x)" using m(1) by (simp add: get_or_create_device_model_def)
qed

lemma pdu_target_again:
  assumes "pdu_target c = (Inr t, c1)" and "targets_unique c"
  shows "cg_metrics c1 = cg_metrics c \<and> cg_oids c1 = cg_oids c"
    and "pdu_target (c1\<lparr>cg_metrics := ms, cg_oids := xs\<rparr>) = (Inr t, c1\<lparr>cg_metrics := ms, cg_oids := xs\<rparr>)"
proof -
  obtain v a where a: "get_or_create_vendor c = (v, a)" by force
  obtain ty b where b: "get_or_create_device_type a = (ty, b)" by force
  obtain m where m: "get_or_create_device_model v ty b = Inr (m, c1)" and t: "t = target_of ty v m"
    using assms(1) by (auto simp: pdu_target_def a b split: sum.splits prod.splits)
  have keys: "keys_unique vn_id (cg_vendors c)" "keys_unique dt_id (cg_types c)" "keys_unique md_id (cg_models c)"
    using assms(2) by (simp_all add: targets_unique_def)
  note v1 = vendor_made [OF a keys(1)]
  have k2: "keys_unique dt_id (cg_types a)" using keys(2) by (simp add: v1(1))
  note v2 = type_made [OF b k2]
  have k3: "keys_unique md_id (cg_models b)" using keys(3) by (simp add: v2(1) v1(1))
  note v3 = model_made [OF m k3]
  show "cg_metrics c1 = cg_metrics c \<and> cg_oids c1 = cg_oids c" by (simp add: v3(1) v2(1) v1(1))
  let ?x = "c1\<lparr>cg_metrics := ms, cg_oids := xs\<rparr>"
  have "get_or_create_vendor ?x = (v, ?x)" by (rule v1(2)) (simp add: v3(1) v2(1) v1(1))
  moreover have "get_or_create_device_type ?x = (ty, ?x)" by (rule v2(2)) (simp add: v3(1) v2(1) v1(1))
  moreover have "get_or_create_device_model v ty ?x = Inr (m, ?x)" by (rule v3(2)) (simp add: v3(1) v2(1) v1(1))
  ultimately show "pdu_target ?x = (Inr t, ?x)" by (simp add: pdu_target_def t)
qed

subsection \<open>The five scripts\<close>

lemmas ats_table = ats_rows_def ats_rows_1_def ats_rows_2_def ats_rows_3_def ats_rows_4_def ats_rows_5_def
lemmas ups_table = UPS_IMPORTANT_OIDS_def UPS_IMPORTANT_OIDS_1_def UPS_IMPORTANT_OIDS_2_def UPS_IMPORTANT_OIDS_3_def
lemmas pac_table = PAC_OID_ITEMS_def PAC_OID_ITEMS_1_def PAC_OID_ITEMS_2_def PAC_OID_ITEMS_3_def

lemma table_codes:
  "distinct (map ms_code ats_rows)" "distinct (map ms_code UPS_IMPORTANT_OIDS)" "distinct (map ms_code PAC_OID_ITEMS)"
  "distinct (map ms_code PDU_METRICS)" "distinct (map ms_code netbotz_rows)"
proof -
  show "distinct (map ms_code ats_rows)" by (simp add: ats_table)
  show "distinct (map ms_code UPS_IMPORTANT_OIDS)" by (simp add: ups_table)
  show "distinct (map ms_code PAC_OID_ITEMS)" by (simp add: pac_table)
  show "distinct (map ms_code PDU_METRICS)" by (simp add: PDU_METRICS_def)
  show "distinct (map ms_code netbotz_rows)" by (simp add: netbotz_rows_def netbotz_table metric_seed_row_def)
qed

lemma typed_columns: "list_all (typed_row s) rs \<Longrightarrow> \<forall>r\<in>set rs. \<exists>cols. os_columns s r = Inr cols"
  by (auto simp: list_all_iff typed_row_def)

lemma script_simps [simp]:
  "os_target ats_script = get_target ''ATS'' md_model_number ''AP7724''" "os_rows ats_script = ats_rows"
  "os_target (symmetra_script e) = required_target e ''UPS'' SCHNEIDER_APC ''InfraStruXure Symmetra 160k''"
  "os_rows (symmetra_script e) = UPS_IMPORTANT_OIDS" "os_rows (pac_script e) = PAC_OID_ITEMS"
  "os_target (pac_script e) = similar_target e ''. Please check spelling in admin. Available examples: '' ''PAC'' ''Schneider Electric / Uniflair''
     ''Uniflair AM LE UG40 DX''"
  "os_target pdu_script = pdu_target" "os_rows pdu_script = PDU_METRICS"
  "os_target netbotz_script = get_target ''NetBotz'' md_name ''APC NetBotz 450''" "os_rows netbotz_script = netbotz_rows"
  by (simp_all add: ats_script_def symmetra_script_def pac_script_def pdu_script_def netbotz_script_def)

interpretation ats_seeding: oid_seeding ats_script
  by unfold_locales (unfold script_simps,
    (rule typed_columns [OF ats_typed] table_codes(1) | erule get_target_again(2) | drule get_target_again(1), simp)+)

interpretation symmetra_seeding: oid_seeding "symmetra_script e" for e
  by unfold_locales (unfold script_simps,
    (rule typed_columns [OF symmetra_typed] table_codes(2) | erule required_target_again(2) | drule required_target_again(1), simp)+)

interpretation pac_seeding: oid_seeding "pac_script e" for e
  by unfold_locales (unfold script_simps,
    (rule typed_columns [OF pac_typed] table_codes(3) | erule similar_target_again(2) | drule similar_target_again(1), simp)+)

interpretation netbotz_seeding: oid_seeding netbotz_script
  by unfold_locales (unfold script_simps,
    (rule typed_columns [OF netbotz_typed] table_codes(5) | erule get_target_again(2) | drule get_target_again(1), simp)+)

lemma pdu_columns: "\<forall>r\<in>set PDU_METRICS. \<exists>cols. os_columns pdu_script r = Inr cols"
  by (simp add: pdu_script_def)

lemma pdu_target_frame: "pdu_target c = (Inr t, c1) \<Longrightarrow> cg_metrics c1 = cg_metrics c \<and> cg_oids c1 = cg_oids c"
  by (auto simp: pdu_target_def get_or_create_vendor_def get_or_create_device_type_def get_or_create_device_model_def Let_def
      split: option.splits prod.splits sum.splits if_splits)

interpretation pdu_seeding: oid_seeding pdu_script
  by unfold_locales (unfold script_simps, (rule pdu_columns table_codes(4) | erule (1) pdu_target_again(2) | erule pdu_target_frame)+)


definition empty_catalogue :: catalogue where
  "empty_catalogue = \<lparr>cg_vendors = [], cg_types = [], cg_models = [], cg_metrics = [], cg_oids = [], cg_traps = []\<rparr>"


end
