(* ===== verification/Netbotz_Props.thy ===== *)
theory Netbotz_Props
  imports Oid_Seed_Props
begin

text \<open>
  The NetBotz script writes all metrics and then all mappings. That is the same as writing each row's metric and mapping together, as
  the other scripts do.
\<close>

definition joined :: "metric_seed \<Rightarrow> oid_tuple \<Rightarrow> oid_seed" where
  "joined s q = (case q of (_, oid, mapping_type, scale_factor, offset_value) \<Rightarrow>
     oid_seed_row (ms_code s) (ms_name s) (ms_category s) (ms_data_type s) (ms_unit s) oid mapping_type scale_factor offset_value)"

lemma joined_columns:
  "ms_code (joined s q) = ms_code s" "set_metric cols (joined s q) = set_metric cols s"
  "sd_oid (joined s q) = sd_oid (tuple_seed q)" "set_oid t k (joined s q) = set_oid t k (tuple_seed q)"
  by (cases q, auto simp: fun_eq_iff set_metric_def set_oid_def joined_def tuple_seed_def oid_seed_row_def)+

lemma put_metric_joined: "put_metric cols (joined s q) ms = put_metric cols s ms"
  by (simp only: put_metric_def joined_columns)

lemma put_oid_joined: "put_oid l t k (joined s q) xs = put_oid l t k (tuple_seed q) xs"
  by (simp only: put_oid_def joined_columns)

lemma upsert_error: "upsert pk q upd new rows = Inl x \<Longrightarrow> x = MultipleObjectsReturned"
  by (auto simp: upsert_def split: list.splits)

lemma seed_metrics_error: "seed_metrics ss ms = Inl x \<Longrightarrow> x = MultipleObjectsReturned"
  by (induction ss arbitrary: ms) (auto simp: put_metric_def dest: upsert_error split: sum.splits prod.splits)

lemma seed_metrics_codes: "seed_metrics ss ms = Inr (known, ms') \<Longrightarrow> map fst known = map ms_code ss"
  by (induction ss arbitrary: ms known) (auto split: sum.splits prod.splits)

lemma seed_mappings_error:
  "seed_mappings t known qs xs = Inl x \<Longrightarrow> fst ` set qs \<subseteq> fst ` set known \<Longrightarrow> x = MultipleObjectsReturned"
proof (induction qs arbitrary: xs)
  case (Cons q qs)
  then obtain m b where "map_of known (fst q) = Some (m, b)" by (metis image_subset_iff list.set_intros(1) map_of_eq_None_iff not_Some_eq surj_pair)
  then show ?case using Cons by (auto simp: put_oid_def dest: upsert_error split: sum.splits prod.splits)
qed simp

lemma seed_mappings_later: "code \<notin> fst ` set qs \<Longrightarrow> seed_mappings t ((code, v) # known) qs xs = seed_mappings t known qs xs"
  by (induction qs arbitrary: xs) (auto split: option.splits sum.splits)

text \<open>A row at a time, with the mapping's metric at hand.\<close>

definition both_counts :: "(string \<times> stored_metric \<times> bool) list \<Rightarrow> bool list \<Rightarrow> oid_counts" where
  "both_counts known ns = (let new = map (\<lambda>(_, _, b). b) known in
     \<lparr>metrics_created = count_true new, metrics_updated = count_true (map Not new),
       mappings_created = count_true ns, mappings_updated = count_true (map Not ns)\<rparr>)"

lemma both_counts_Cons: "both_counts ((code, m, a) # known) (b # ns) = count_row a b (both_counts known ns)"
  by (simp add: both_counts_def count_row_def count_true_def)

lemma seed_rows_loops:
  assumes "length ss = length qs" and "map fst qs = map ms_code ss" and "distinct (map ms_code ss)"
  shows "seed_oid_rows netbotz_script t (map2 joined ss qs) c =
    (case seed_metrics ss (cg_metrics c) of Inl x \<Rightarrow> Inl x | Inr (known, ms) \<Rightarrow>
      (case seed_mappings t known qs (cg_oids c) of Inl x \<Rightarrow> Inl x | Inr (ns, xs) \<Rightarrow>
        Inr (both_counts known ns, c\<lparr>cg_metrics := ms, cg_oids := xs\<rparr>)))"
  using assms
proof (induction ss qs arbitrary: c rule: list_induct2)
  case Nil
  show ?case by (simp add: no_counts_def both_counts_def count_true_def)
next
  case (Cons s ss q qs)
  have codes: "fst q = ms_code s" "map fst qs = map ms_code ss" "distinct (map ms_code ss)" "ms_code s \<notin> fst ` set qs"
  proof -
    show "fst q = ms_code s" "map fst qs = map ms_code ss" "distinct (map ms_code ss)" using Cons.prems by simp_all
    then have "fst ` set qs = ms_code ` set ss" by (metis list.set_map)
    then show "ms_code s \<notin> fst ` set qs" using Cons.prems(2) by simp
  qed
  have row: "os_columns netbotz_script (joined s q) = Inr (ms_category s, ms_data_type s)"
    by (cases q) (simp add: netbotz_script_def joined_def oid_seed_row_def)
  show ?case
  proof (cases "put_metric (ms_category s, ms_data_type s) s (cg_metrics c)")
    case (Inl x)
    then show ?thesis by (simp add: seed_oid_row_def row put_metric_joined)
  next
    case (Inr p)
    then obtain m a ms1 where m: "put_metric (ms_category s, ms_data_type s) s (cg_metrics c) = Inr ((m, a), ms1)" by (cases p) auto
    show ?thesis
    proof (cases "put_oid By_Oid t (cm_id m) (tuple_seed q) (cg_oids c)")
      case x: (Inl x)
      have e: "x = MultipleObjectsReturned" using x by (auto simp: put_oid_def dest: upsert_error)
      have l: "os_lookup netbotz_script = By_Oid" by (simp add: netbotz_script_def)
      show ?thesis
        by (cases "seed_metrics ss ms1")
          (auto simp: seed_oid_row_def row put_metric_joined put_oid_joined m x l codes(1) e dest: seed_metrics_error split: sum.splits)
    next
      case y: (Inr y)
      then obtain x b xs1 where x: "put_oid By_Oid t (cm_id m) (tuple_seed q) (cg_oids c) = Inr ((x, b), xs1)" by (cases y) auto
      have l: "os_lookup netbotz_script = By_Oid" by (simp add: netbotz_script_def)
      let ?c = "c\<lparr>cg_metrics := ms1, cg_oids := xs1\<rparr>"
      have r: "seed_oid_row netbotz_script t (joined s q) c = Inr ((a, b), ?c)"
        by (simp add: seed_oid_row_def row put_metric_joined put_oid_joined m x l)
      note IH = Cons.IH [OF codes(2,3), of ?c]
      show ?thesis
        by (simp add: r IH m x codes(1) seed_mappings_later [OF codes(4)] both_counts_Cons split: sum.splits prod.splits)
    qed
  qed
qed

text \<open>C36. The NetBotz script is the script that writes a row at a time.\<close>

theorem netbotz_two_loops: "seed_netbotz c = run_oid_script netbotz_script c"
proof -
  have rows: "os_rows netbotz_script = map2 joined NETBOTZ_METRICS OID_MAPPINGS"
    by (simp add: netbotz_rows_def joined_def [abs_def])
  have len: "length NETBOTZ_METRICS = length OID_MAPPINGS" by (simp add: netbotz_table)
  have codes: "map fst OID_MAPPINGS = map ms_code NETBOTZ_METRICS" by (simp add: netbotz_table metric_seed_row_def)
  have "map ms_code netbotz_rows = map ms_code NETBOTZ_METRICS"
    by (simp add: netbotz_rows_def netbotz_table metric_seed_row_def)
  then have d: "distinct (map ms_code NETBOTZ_METRICS)" using table_codes(5) by simp
  show ?thesis
    unfolding seed_netbotz_def run_oid_script_def rows
    by (auto simp: seed_rows_loops [OF len codes d] both_counts_def Let_def split: sum.splits prod.splits dest: get_target_again)
qed

end
