(* ===== verification/Trap_Seeds.thy ===== *)
theory Trap_Seeds
  imports Oid_Seeds
begin

text \<open>
  The scripts and the command that register traps (\<open>scripts/seed_apc_ap_8853_pdu_trap_mappings.py\<close>, \<open>scripts/seed_top10_ups_trap_oids.py\<close>,
  \<open>seed_pac_trap_mappings.py\<close>). What they print is left out.
\<close>

subsection \<open>One trap\<close>

definition set_trap :: "target \<Rightarrow> string \<Rightarrow> trap_seed \<Rightarrow> stored_trap \<Rightarrow> stored_trap" where
  "set_trap t severity s x = x\<lparr>ct_device_type := tg_type t, ct_vendor := Some (tg_vendor t), ct_device_model := Some (tg_model t),
     ct_trap_oid := tq_trap_oid s, ct_event_code := tq_event_code s, ct_event_name := tq_event_name s, ct_severity := severity,
     ct_message_template := Some (tq_message_template s), ct_create_alert := tq_create_alert s, ct_is_active := True\<rparr>"

text \<open>The scripts look a trap up by its identifier, the command by its event.\<close>

definition same_trap :: "(stored_trap \<Rightarrow> string) \<Rightarrow> target \<Rightarrow> string \<Rightarrow> stored_trap \<Rightarrow> bool" where
  "same_trap column t v x = (ct_device_type x = tg_type t \<and> ct_vendor x = Some (tg_vendor t) \<and> ct_device_model x = Some (tg_model t) \<and> column x = v)"

definition put_trap :: "(stored_trap \<Rightarrow> bool) \<Rightarrow> target \<Rightarrow> string \<Rightarrow> trap_seed \<Rightarrow> stored_trap list \<Rightarrow> command_error + (stored_trap \<times> bool) \<times> stored_trap list" where
  "put_trap q t severity s rows = upsert ct_id q (set_trap t severity s)
     (set_trap t severity s \<lparr>ct_id = fresh_key ct_id rows, ct_device_type = 0, ct_vendor = None, ct_device_model = None, ct_trap_oid = [],
        ct_event_code = [], ct_event_name = [], ct_severity = ''INFO'', ct_message_template = None, ct_create_alert = True, ct_is_active = True\<rparr>) rows"

fun seed_traps :: "(string \<Rightarrow> string) \<Rightarrow> target \<Rightarrow> trap_seed list \<Rightarrow> stored_trap list \<Rightarrow> command_error + (nat \<times> nat) \<times> stored_trap list" where
  "seed_traps severity t [] rows = Inr ((0, 0), rows)"
| "seed_traps severity t (s # ss) rows =
     (case put_trap (same_trap ct_trap_oid t (tq_trap_oid s)) t (severity (tq_severity s)) s rows of Inl x \<Rightarrow> Inl x | Inr ((_, new), rows1) \<Rightarrow>
     (case seed_traps severity t ss rows1 of Inl x \<Rightarrow> Inl x | Inr ((created, updated), rows2) \<Rightarrow>
       Inr (if new then (created + 1, updated) else (created, updated + 1), rows2)))"

subsection \<open>The UPS script\<close>

definition seed_ups_traps :: "env \<Rightarrow> catalogue \<Rightarrow> (command_error + nat \<times> nat) \<times> catalogue" where
  "seed_ups_traps e c =
     (case similar_target e ''. Available examples: '' ''UPS'' SCHNEIDER_APC ''InfraStruXure Symmetra 160k'' c of
        (Inl x, _) \<Rightarrow> (Inl x, c)
      | (Inr t, _) \<Rightarrow> (case seed_traps id t TOP_10_UPS_TRAPS (cg_traps c) of Inl x \<Rightarrow> (Inl x, c) | Inr (n, rows) \<Rightarrow> (Inr n, c\<lparr>cg_traps := rows\<rparr>)))"

subsection \<open>The rack PDU script\<close>

text \<open>It makes what it does not find; these rows stay when the traps are refused, the transaction starts after them. A vendor whose code is
  taken is refused by the database.\<close>

definition replace_all :: "char \<Rightarrow> string \<Rightarrow> string \<Rightarrow> string" where
  "replace_all a r s = concat (map (\<lambda>c. if c = a then r else [c]) s)"

definition possible_codes :: "string \<Rightarrow> string list" where
  "possible_codes name = [name,
     replace_all CHR ''-'' ''_'' (replace_all CHR ''/'' ''_'' (replace_all CHR '' '' ''_'' (upper name))),
     replace_all CHR ''-'' ''_'' (replace_all CHR ''/'' [] (replace_all CHR '' '' ''_'' (upper name)))]"

definition find_by_name_or_code :: "('r \<Rightarrow> uuid) \<Rightarrow> ('r \<Rightarrow> string) \<Rightarrow> ('r \<Rightarrow> string) \<Rightarrow> string \<Rightarrow> 'r list \<Rightarrow> 'r option" where
  "find_by_name_or_code pk name code v rows = (case first_row (order_by pk (filter (\<lambda>r. name r = v) rows)) of
      Some r \<Rightarrow> Some r
    | None \<Rightarrow> first_row (order_by pk (filter (\<lambda>r. code r \<in> set (possible_codes v)) rows)))"

definition find_vendor :: "catalogue \<Rightarrow> command_error + vendor \<times> catalogue" where
  "find_vendor c = (case find_by_name_or_code vn_id vn_name vn_code SCHNEIDER_APC (cg_vendors c) of
      Some v \<Rightarrow> Inr (v, c)
    | None \<Rightarrow> if list_ex (\<lambda>v. vn_code v = ''SCHNEIDER_APC'') (cg_vendors c) then Inl (Raised IntegrityError)
        else (let v = \<lparr>vn_id = fresh_key vn_id (cg_vendors c), vn_name = SCHNEIDER_APC, vn_code = ''SCHNEIDER_APC''\<rparr> in
          Inr (v, c\<lparr>cg_vendors := tbl_insert v (cg_vendors c)\<rparr>)))"

definition find_device_type :: "catalogue \<Rightarrow> command_error + device_type \<times> catalogue" where
  "find_device_type c = (case find_by_name_or_code dt_id dt_name dt_code ''Rack PDU'' (cg_types c) of
      Some t \<Rightarrow> Inr (t, c)
    | None \<Rightarrow> if list_ex (\<lambda>t. dt_code t = ''RACK_PDU'') (cg_types c) then Inl (Raised IntegrityError)
        else (let t = \<lparr>dt_id = fresh_key dt_id (cg_types c), dt_name = ''Rack PDU'', dt_code = ''RACK_PDU''\<rparr> in
          Inr (t, c\<lparr>cg_types := tbl_insert t (cg_types c)\<rparr>)))"

definition DEVICE_MODEL_KEYWORDS :: "string list" where
  "DEVICE_MODEL_KEYWORDS = [''AP8853'', ''Schneider Electric / APC AP8853'', ''APC AP8853 Metered Rack PDU'']"

definition find_device_model :: "vendor \<Rightarrow> device_type \<Rightarrow> catalogue \<Rightarrow> device_model \<times> catalogue" where
  "find_device_model v t c = (case first_row (order_by md_id (filter (\<lambda>m. md_model_number m = ''AP8853'') (cg_models c))) of
      Some m \<Rightarrow> (m, c)
    | None \<Rightarrow> (case first_row (List.map_filter (\<lambda>k. first_row (order_by md_id (filter (\<lambda>m. icontains (md_name m) k) (cg_models c)))) DEVICE_MODEL_KEYWORDS) of
        Some m \<Rightarrow> (m, c)
      | None \<Rightarrow> (let m = \<lparr>md_id = fresh_key md_id (cg_models c), md_vendor = vn_id v, md_device_type = dt_id t,
            md_name = ''APC AP8853 Metered Rack PDU'', md_model_number = ''AP8853''\<rparr> in
          (m, c\<lparr>cg_models := tbl_insert m (cg_models c)\<rparr>))))"

definition pdu_trap_target :: "catalogue \<Rightarrow> (command_error + target) \<times> catalogue" where
  "pdu_trap_target c = (case find_vendor c of Inl x \<Rightarrow> (Inl x, c) | Inr (v, c1) \<Rightarrow>
     (case find_device_type c1 of Inl x \<Rightarrow> (Inl x, c1) | Inr (t, c2) \<Rightarrow>
     (case find_device_model v t c2 of (m, c3) \<Rightarrow> (Inr (target_of t v m), c3))))"

text \<open>A severity that is no choice is kept as it is.\<close>

definition normalize_choice_value :: "choices \<Rightarrow> string \<Rightarrow> string" where
  "normalize_choice_value cs v =
     (case find_choice (\<lambda>s. filter (\<lambda>c. c \<noteq> CHR '' '' \<and> c \<noteq> CHR ''_'') (lower s)) cs v of None \<Rightarrow> v | Some c \<Rightarrow> c)"

definition seed_pdu_traps :: "catalogue \<Rightarrow> (command_error + nat \<times> nat) \<times> catalogue" where
  "seed_pdu_traps c = (case pdu_trap_target c of
      (Inl x, c1) \<Rightarrow> (Inl x, c1)
    | (Inr t, c1) \<Rightarrow> (case seed_traps (normalize_choice_value TRAP_SEVERITIES) t PDU_TRAPS (cg_traps c1) of
        Inl x \<Rightarrow> (Inl x, c1)
      | Inr (n, rows) \<Rightarrow> (Inr n, c1\<lparr>cg_traps := rows\<rparr>)))"

subsection \<open>The PAC command\<close>

text \<open>The two traps are written one after the other, without a transaction.\<close>

definition normalize_oid :: "string \<Rightarrow> command_error + string" where
  "normalize_oid v = (let w = dropWhile (\<lambda>c. c = CHR ''.'') (strip v) in if w = [] then Inl (CommandError ''Trap OID cannot be empty.'') else Inr w)"

definition pac_trap_seeds :: "string \<Rightarrow> string \<Rightarrow> trap_seed list" where
  "pac_trap_seeds fired restored =
     [trap_seed_row fired ''PAC_ALARM_FIRED'' ''PAC alarm fired'' ''CRITICAL''
        ''PAC alarm fired; confirmation polling will identify active alarm metrics.'' False,
      trap_seed_row restored ''PAC_ALARM_RESTORED'' ''PAC alarm restored'' ''INFO''
        ''PAC alarm restored; confirmation polling will resolve cleared alarm metrics.'' False]"

fun put_pac_traps :: "target \<Rightarrow> trap_seed list \<Rightarrow> stored_trap list \<Rightarrow> (command_error + unit) \<times> stored_trap list" where
  "put_pac_traps t [] rows = (Inr (), rows)"
| "put_pac_traps t (s # ss) rows = (case put_trap (same_trap ct_event_code t (tq_event_code s)) t (tq_severity s) s rows of
     Inl x \<Rightarrow> (Inl x, rows) | Inr (_, rows1) \<Rightarrow> put_pac_traps t ss rows1)"

definition by_iexact :: "('r \<Rightarrow> uuid) \<Rightarrow> ('r \<Rightarrow> string) \<Rightarrow> string \<Rightarrow> 'r list \<Rightarrow> 'r option" where
  "by_iexact pk column v rows = first_row (order_by pk (filter (\<lambda>r. upper (column r) = upper v) rows))"

definition quote_name :: "string \<Rightarrow> string" where
  "quote_name v = CHR 0x27 # v @ [CHR 0x27]"

definition seed_pac_trap_mappings :: "string \<Rightarrow> string \<Rightarrow> string \<Rightarrow> string \<Rightarrow> catalogue \<Rightarrow> (command_error + unit) \<times> catalogue" where
  "seed_pac_trap_mappings fired restored vendor_name model_name c =
     (case normalize_oid fired of Inl x \<Rightarrow> (Inl x, c) | Inr f \<Rightarrow>
     (case normalize_oid restored of Inl x \<Rightarrow> (Inl x, c) | Inr r \<Rightarrow>
      if f = r then (Inl (CommandError ''Fired and restored trap OIDs must be different.''), c)
      else (case by_iexact dt_id dt_code ''PAC'' (cg_types c) of
        None \<Rightarrow> (Inl (CommandError (''Device type '' @ quote_name ''PAC'' @ '' was not found.'')), c)
      | Some t \<Rightarrow> (case by_iexact vn_id vn_name vendor_name (cg_vendors c) of
        None \<Rightarrow> (Inl (CommandError (''Vendor '' @ quote_name vendor_name @ '' was not found.'')), c)
      | Some v \<Rightarrow> (case by_iexact md_id md_name model_name (cg_models c) of
        None \<Rightarrow> (Inl (CommandError (''Device model '' @ quote_name model_name @ '' was not found.'')), c)
      | Some m \<Rightarrow> (let (res, rows) = put_pac_traps (target_of t v m) (pac_trap_seeds f r) (cg_traps c) in (res, c\<lparr>cg_traps := rows\<rparr>)))))))"

end
