(* ===== verification/Trap_Seed_Props.thy ===== *)
theory Trap_Seed_Props
  imports Trap_Seeds Oid_Seed_Props
begin

text \<open>What the trap scripts leave in the table of traps.\<close>

definition traps_ok :: "(stored_trap \<Rightarrow> string) \<Rightarrow> target \<Rightarrow> stored_trap list \<Rightarrow> bool" where
  "traps_ok column t xs = (keys_unique ct_id xs
     \<and> (\<forall>v. \<forall>x\<in>set xs. \<forall>y\<in>set xs. same_trap column t v x \<and> same_trap column t v y \<longrightarrow> x = y))"

lemma set_trap_simps [simp]:
  "ct_id (set_trap t sev s x) = ct_id x" "set_trap t sev s (set_trap t sev s x) = set_trap t sev s x"
  "same_trap ct_trap_oid t v (set_trap t sev s x) \<longleftrightarrow> tq_trap_oid s = v" "same_trap ct_event_code t v (set_trap t sev s x) \<longleftrightarrow> tq_event_code s = v"
  by (auto simp: set_trap_def same_trap_def)

lemma same_trap_link: "same_trap col t v x \<Longrightarrow> same_trap col t w x \<Longrightarrow> same_trap col t w y \<Longrightarrow> same_trap col t v y"
  by (auto simp: same_trap_def)

lemma put_trap_ok:
  assumes "traps_ok col t xs" and "\<And>x. same_trap col t v (set_trap t sev s x)"
  obtains x b xs' where "put_trap (same_trap col t v) t sev s xs = Inr ((x, b), xs')" and "traps_ok col t xs'" and "filter (same_trap col t v) xs' = [x]"
    and "set_trap t sev s x = x" and "filter (\<lambda>x. \<not> same_trap col t v x) xs' = filter (\<lambda>x. \<not> same_trap col t v x) xs"
proof -
  let ?q = "same_trap col t v"
  have keys: "keys_unique ct_id xs"
    and one: "\<And>x y w. x \<in> set xs \<Longrightarrow> y \<in> set xs \<Longrightarrow> same_trap col t w x \<Longrightarrow> same_trap col t w y \<Longrightarrow> x = y"
    using assms(1) by (auto simp: traps_ok_def)
  obtain x b xs' where p: "put_trap ?q t sev s xs = Inr ((x, b), xs')"
    unfolding put_trap_def by (rule upsert_total [OF keys, where q = ?q]) (use one in auto)
  note u = p [unfolded put_trap_def]
  have f: "filter ?q xs' = [x]" "filter (\<lambda>x. \<not> ?q x) xs' = filter (\<lambda>x. \<not> ?q x) xs"
    using upsert_one [OF u keys assms(2) assms(2)] by simp_all
  have "keys_unique ct_id xs'" by (rule upsert_keys [OF u keys]) (simp_all add: fresh_key_notin)
  moreover have "y = z" if "y \<in> set xs'" "z \<in> set xs'" "same_trap col t w y" "same_trap col t w z" for y z w
  proof (cases "?q y")
    case True
    then have "?q z" using same_trap_link that(3,4) by blast
    then show ?thesis using True in_filter_one [OF f(1)] that(1,2) by metis
  next
    case False
    then have "\<not> ?q z" using same_trap_link that(3,4) by blast
    then have "y \<in> set (filter (\<lambda>x. \<not> ?q x) xs)" "z \<in> set (filter (\<lambda>x. \<not> ?q x) xs)"
      using False that(1,2) unfolding f(2) [symmetric] by simp_all
    then show ?thesis using one that(3,4) by simp
  qed
  ultimately have "traps_ok col t xs'" by (auto simp: traps_ok_def)
  moreover have "set_trap t sev s x = x" using upsert_row [OF u] by auto
  ultimately show ?thesis using that p f by blast
qed

lemma seed_traps_ok:
  assumes "traps_ok ct_trap_oid t xs" and "distinct (map tq_trap_oid ss)"
  shows "\<exists>created updated xs'. seed_traps sev t ss xs = Inr ((created, updated), xs') \<and> created + updated = length ss
    \<and> (\<forall>s\<in>set ss. \<exists>x. filter (same_trap ct_trap_oid t (tq_trap_oid s)) xs' = [x] \<and> set_trap t (sev (tq_severity s)) s x = x)
    \<and> (\<forall>P. (\<forall>x. P x \<longrightarrow> (\<forall>s\<in>set ss. \<not> same_trap ct_trap_oid t (tq_trap_oid s) x)) \<longrightarrow> filter P xs' = filter P xs)"
  using assms
proof (induction ss arbitrary: xs)
  case Nil
  then show ?case by simp
next
  case (Cons s ss)
  let ?q = "\<lambda>s. same_trap ct_trap_oid t (tq_trap_oid s)"
  obtain x b xs1 where 1: "put_trap (?q s) t (sev (tq_severity s)) s xs = Inr ((x, b), xs1)" "traps_ok ct_trap_oid t xs1" "filter (?q s) xs1 = [x]"
    "set_trap t (sev (tq_severity s)) s x = x" "filter (\<lambda>x. \<not> ?q s x) xs1 = filter (\<lambda>x. \<not> ?q s x) xs"
    by (rule put_trap_ok [OF Cons.prems(1), of "tq_trap_oid s" "sev (tq_severity s)" s]) simp_all
  have d: "distinct (map tq_trap_oid ss)" "tq_trap_oid s \<notin> tq_trap_oid ` set ss" using Cons.prems(2) by simp_all
  obtain c u xs2 where 2: "seed_traps sev t ss xs1 = Inr ((c, u), xs2)" "c + u = length ss"
      "\<forall>s\<in>set ss. \<exists>x. filter (?q s) xs2 = [x] \<and> set_trap t (sev (tq_severity s)) s x = x"
    and keep: "\<forall>P. (\<forall>x. P x \<longrightarrow> (\<forall>s\<in>set ss. \<not> ?q s x)) \<longrightarrow> filter P xs2 = filter P xs1"
    using Cons.IH [OF 1(2) d(1)] by blast
  have "filter (?q s) xs2 = filter (?q s) xs1"
    by (rule keep [THEN spec, THEN mp]) (use d(2) in \<open>auto simp: same_trap_def\<close>)
  then have s: "filter (?q s) xs2 = [x]" using 1(3) by simp
  have run: "seed_traps sev t (s # ss) xs = Inr (if b then (c + 1, u) else (c, u + 1), xs2)" using 1(1) 2(1) by simp
  have others: "filter P xs2 = filter P xs" if P: "\<forall>x. P x \<longrightarrow> (\<forall>s\<in>set (s # ss). \<not> ?q s x)" for P
  proof -
    have "filter P xs2 = filter P xs1" using P by (intro keep [THEN spec, THEN mp]) auto
    also have "\<dots> = filter P xs" by (rule filter_others [OF 1(5)]) (use P in auto)
    finally show ?thesis .
  qed
  have all: "\<forall>r\<in>set (s # ss). \<exists>x. filter (?q r) xs2 = [x] \<and> set_trap t (sev (tq_severity r)) r x = x" using s 1(4) 2(3) by auto
  show ?case
    by (rule exI [of _ "if b then c + 1 else c"], rule exI [of _ "if b then u else u + 1"], rule exI [of _ xs2], intro conjI)
      (use run 2(2) all others in auto)
qed

subsection \<open>Severities\<close>

lemma stored_severities:
  "normalize_choice_value TRAP_SEVERITIES ''Info'' = ''INFO''" "normalize_choice_value TRAP_SEVERITIES ''Warning'' = ''WARNING''"
  "normalize_choice_value TRAP_SEVERITIES ''Critical'' = ''CRITICAL''" "normalize_choice_value TRAP_SEVERITIES ''Recovery'' = ''Recovery''"
  by code_simp+

lemma severity_choices: "fst ` set TRAP_SEVERITIES = {''INFO'', ''WARNING'', ''CRITICAL''}"
  by (simp add: TRAP_SEVERITIES_def)

lemma stored_severity_cases:
  assumes "v \<in> {''Info'', ''Warning'', ''Critical'', ''Recovery''}"
  shows "normalize_choice_value TRAP_SEVERITIES v \<in> {''WARNING'', ''CRITICAL''} \<longleftrightarrow> v \<in> {''Warning'', ''Critical''}"
    and "normalize_choice_value TRAP_SEVERITIES v \<in> fst ` set TRAP_SEVERITIES \<longleftrightarrow> v \<noteq> ''Recovery''"
  using assms by (elim insertE emptyE; simp only: stored_severities severity_choices; simp)+

lemma pdu_trap_table:
  "distinct (map tq_trap_oid PDU_TRAPS)" "length PDU_TRAPS = 23" "length (filter (\<lambda>s. tq_severity s = ''Recovery'') PDU_TRAPS) = 7"
  "list_all (\<lambda>s. tq_severity s \<in> {''Info'', ''Warning'', ''Critical'', ''Recovery''} \<and> (tq_create_alert s \<longleftrightarrow> tq_severity s \<in> {''Warning'', ''Critical''})) PDU_TRAPS"
proof -
  note d = PDU_TRAPS_def PDU_TRAPS_1_def PDU_TRAPS_2_def trap_seed_row_def
  show "distinct (map tq_trap_oid PDU_TRAPS)" "length PDU_TRAPS = 23" "length (filter (\<lambda>s. tq_severity s = ''Recovery'') PDU_TRAPS) = 7"
    "list_all (\<lambda>s. tq_severity s \<in> {''Info'', ''Warning'', ''Critical'', ''Recovery''} \<and> (tq_create_alert s \<longleftrightarrow> tq_severity s \<in> {''Warning'', ''Critical''})) PDU_TRAPS"
    by (simp_all add: d)
qed

text \<open>C37. The script of the rack PDU stores each of its traps once, and only a warning or a critical one makes an alert. Seven of them are stored
  with a severity that is none of the choices.\<close>

theorem pdu_traps_seeded:
  assumes "pdu_trap_target c = (Inr t, c1)" and "traps_ok ct_trap_oid t (cg_traps c1)"
  shows "\<exists>created updated c'. seed_pdu_traps c = (Inr (created, updated), c') \<and> created + updated = 23
    \<and> (\<forall>s\<in>set PDU_TRAPS. \<exists>x. filter (same_trap ct_trap_oid t (tq_trap_oid s)) (cg_traps c') = [x] \<and> ct_event_code x = tq_event_code s
         \<and> ct_is_active x \<and> (ct_create_alert x \<longleftrightarrow> ct_severity x \<in> {''WARNING'', ''CRITICAL''})
         \<and> (ct_severity x \<in> fst ` set TRAP_SEVERITIES \<longleftrightarrow> tq_severity s \<noteq> ''Recovery''))
    \<and> filter (\<lambda>x. ct_device_model x \<noteq> Some (tg_model t)) (cg_traps c') = filter (\<lambda>x. ct_device_model x \<noteq> Some (tg_model t)) (cg_traps c1)"
proof -
  let ?sev = "normalize_choice_value TRAP_SEVERITIES"
  obtain cr u xs where r: "seed_traps ?sev t PDU_TRAPS (cg_traps c1) = Inr ((cr, u), xs)" "cr + u = length PDU_TRAPS"
    and all: "\<forall>s\<in>set PDU_TRAPS. \<exists>x. filter (same_trap ct_trap_oid t (tq_trap_oid s)) xs = [x] \<and> set_trap t (?sev (tq_severity s)) s x = x"
    and keep: "\<forall>P. (\<forall>x. P x \<longrightarrow> (\<forall>s\<in>set PDU_TRAPS. \<not> same_trap ct_trap_oid t (tq_trap_oid s) x)) \<longrightarrow> filter P xs = filter P (cg_traps c1)"
    using seed_traps_ok [OF assms(2) pdu_trap_table(1)] by blast
  let ?c = "c1\<lparr>cg_traps := xs\<rparr>"
  have run: "seed_pdu_traps c = (Inr (cr, u), ?c)" by (simp add: seed_pdu_traps_def assms(1) r(1))
  have row: "\<exists>x. filter (same_trap ct_trap_oid t (tq_trap_oid s)) (cg_traps ?c) = [x] \<and> ct_event_code x = tq_event_code s
         \<and> ct_is_active x \<and> (ct_create_alert x \<longleftrightarrow> ct_severity x \<in> {''WARNING'', ''CRITICAL''})
         \<and> (ct_severity x \<in> fst ` set TRAP_SEVERITIES \<longleftrightarrow> tq_severity s \<noteq> ''Recovery'')" if s: "s \<in> set PDU_TRAPS" for s
  proof -
    obtain x where x: "filter (same_trap ct_trap_oid t (tq_trap_oid s)) xs = [x]" "set_trap t (?sev (tq_severity s)) s x = x" using all s by blast
    have f: "ct_event_code x = tq_event_code s" "ct_is_active x" "ct_create_alert x = tq_create_alert s" "ct_severity x = ?sev (tq_severity s)"
      using arg_cong [OF x(2), of ct_event_code] arg_cong [OF x(2), of ct_is_active] arg_cong [OF x(2), of ct_create_alert] arg_cong [OF x(2), of ct_severity]
      by (simp_all add: set_trap_def)
    have v: "tq_severity s \<in> {''Info'', ''Warning'', ''Critical'', ''Recovery''}" and "tq_create_alert s \<longleftrightarrow> tq_severity s \<in> {''Warning'', ''Critical''}"
      using pdu_trap_table(4) s unfolding list_all_iff by blast+
    then have "ct_create_alert x \<longleftrightarrow> ct_severity x \<in> {''WARNING'', ''CRITICAL''}"
      "ct_severity x \<in> fst ` set TRAP_SEVERITIES \<longleftrightarrow> tq_severity s \<noteq> ''Recovery''"
      by (simp_all only: f stored_severity_cases [OF v])
    then show ?thesis using x(1) f(1,2) by (intro exI [of _ x]) simp
  qed
  have "filter (\<lambda>x. ct_device_model x \<noteq> Some (tg_model t)) xs = filter (\<lambda>x. ct_device_model x \<noteq> Some (tg_model t)) (cg_traps c1)"
    by (rule keep [THEN spec, THEN mp]) (auto simp: same_trap_def)
  then have "filter (\<lambda>x. ct_device_model x \<noteq> Some (tg_model t)) (cg_traps ?c) = filter (\<lambda>x. ct_device_model x \<noteq> Some (tg_model t)) (cg_traps c1)"
    by simp
  moreover have "cr + u = 23" using r(2) pdu_trap_table(2) by simp
  ultimately show ?thesis using run row by blast
qed

lemma pdu_traps_seeded_witness:
  "\<exists>created updated c'. seed_pdu_traps empty_catalogue = (Inr (created, updated), c') \<and> created + updated = 23"
proof -
  obtain t c1 where t: "pdu_trap_target empty_catalogue = (Inr t, c1)" and rows: "cg_traps c1 = []"
    by (simp add: empty_catalogue_def pdu_trap_target_def find_vendor_def find_device_type_def find_device_model_def find_by_name_or_code_def
        order_by_def map_filter_def DEVICE_MODEL_KEYWORDS_def Let_def)
  have "traps_ok ct_trap_oid t (cg_traps c1)" by (simp add: rows traps_ok_def keys_unique_def)
  from pdu_traps_seeded [OF t this] show ?thesis by blast
qed

end
