(* ===== verification/Seed_Access.thy ===== *)
theory Seed_Access
  imports Oid_Scripts Access_Rows
begin

text \<open>
  The access data of the baseline command (\<open>apps/common/management/commands/seed_dcim.py\<close>): the administrator, the permissions, the roles
  with their permissions, and the administrator's access. The command has no transaction, so what was written before an error stays; the
  demonstration sites, devices and metrics it also writes are other tables. A password, a description and the status of a role are no
  columns here.
\<close>

subsection \<open>Permissions and roles\<close>

definition PERMISSIONS :: "string list" where
  "PERMISSIONS =
    [''organization.view'', ''organization.create'', ''organization.update'', ''organization.delete'', ''datacenter.view'',
     ''datacenter.create'', ''datacenter.update'', ''datacenter.delete'', ''room.view'', ''room.create'', ''room.update'',
     ''room.delete'', ''rack.view'', ''rack.create'', ''rack.update'', ''rack.delete'', ''device.view'', ''device.create'',
     ''device.update'', ''device.delete'', ''device.credential.manage'', ''telemetry.view'', ''telemetry.create'',
     ''telemetry.export'', ''alert.view'', ''alert.create'', ''alert.update'', ''alert.delete'', ''alert.acknowledge'',
     ''alert.resolve'', ''report.view'', ''report.create'', ''report.update'', ''report.delete'', ''report.generate'',
     ''report.download'', ''user.view'', ''user.create'', ''user.update'', ''user.delete'', ''user.assign_role'', ''dashboard.view'',
     ''dashboard.create'', ''dashboard.update'', ''dashboard.delete'', ''maintenance.view'', ''maintenance.create'',
     ''maintenance.update'', ''maintenance.delete'', ''notification.view'', ''notification.create'', ''notification.update'',
     ''notification.delete'', ''trap.view'', ''access.view'', ''access.manage'', ''audit.view'']"

definition BANK_ADMIN_CODES :: "string list" where
  "BANK_ADMIN_CODES =
    [''organization.view'', ''organization.create'', ''organization.update'', ''organization.delete'', ''datacenter.view'',
     ''datacenter.create'', ''datacenter.update'', ''datacenter.delete'', ''room.view'', ''room.create'', ''room.update'',
     ''room.delete'', ''rack.view'', ''rack.create'', ''rack.update'', ''rack.delete'', ''device.view'', ''device.create'',
     ''device.update'', ''device.delete'', ''device.credential.manage'', ''telemetry.view'', ''telemetry.export'', ''alert.view'',
     ''alert.acknowledge'', ''alert.resolve'', ''trap.view'', ''notification.view'', ''report.view'', ''report.create'',
     ''report.update'', ''report.delete'', ''report.generate'', ''report.download'', ''maintenance.view'', ''maintenance.create'',
     ''maintenance.update'', ''maintenance.delete'', ''audit.view'', ''user.view'', ''user.create'', ''user.update'', ''user.delete'',
     ''user.assign_role'', ''access.view'', ''access.manage'', ''dashboard.view'', ''dashboard.create'', ''dashboard.update'',
     ''dashboard.delete'']"

definition DATA_CENTER_ADMIN_CODES :: "string list" where
  "DATA_CENTER_ADMIN_CODES =
    [''datacenter.view'', ''room.view'', ''room.create'', ''room.update'', ''rack.view'', ''rack.create'', ''rack.update'',
     ''device.view'', ''device.create'', ''device.update'', ''telemetry.view'', ''telemetry.export'', ''alert.view'',
     ''alert.acknowledge'', ''alert.resolve'', ''trap.view'', ''notification.view'', ''report.view'', ''report.generate'',
     ''report.download'', ''maintenance.view'', ''maintenance.create'', ''maintenance.update'', ''audit.view'']"

definition ROOM_ADMIN_CODES :: "string list" where
  "ROOM_ADMIN_CODES =
    [''room.view'', ''rack.view'', ''rack.create'', ''rack.update'', ''device.view'', ''device.create'', ''device.update'',
     ''telemetry.view'', ''alert.view'', ''alert.acknowledge'', ''alert.resolve'', ''trap.view'', ''notification.view'',
     ''report.view'', ''maintenance.view'', ''maintenance.create'', ''maintenance.update'']"

definition RACK_ADMIN_CODES :: "string list" where
  "RACK_ADMIN_CODES =
    [''rack.view'', ''device.view'', ''device.update'', ''telemetry.view'', ''alert.view'', ''alert.acknowledge'', ''trap.view'',
     ''notification.view'', ''maintenance.view'', ''maintenance.create'', ''maintenance.update'']"

definition DEVICE_ADMIN_CODES :: "string list" where
  "DEVICE_ADMIN_CODES =
    [''device.view'', ''device.update'', ''telemetry.view'', ''alert.view'', ''alert.acknowledge'', ''trap.view'',
     ''notification.view'', ''maintenance.view'', ''maintenance.create'', ''maintenance.update'']"

definition SEED_ROLES :: "(string \<times> string \<times> role_scope) list" where
  "SEED_ROLES = [(''SUPER_ADMIN'', ''Super Admin'', SCOPE_GLOBAL), (''BANK_ADMIN'', ''Bank Admin'', SCOPE_ORGANIZATION),
     (''DATA_CENTER_ADMIN'', ''Data Center Admin'', SCOPE_DATA_CENTER), (''ROOM_ADMIN'', ''Room Admin'', SCOPE_ROOM),
     (''RACK_ADMIN'', ''Rack Admin'', SCOPE_RACK), (''DEVICE_ADMIN'', ''Device Admin'', SCOPE_DEVICE), (''VIEWER'', ''Viewer'', SCOPE_DATA_CENTER)]"

text \<open>A role gets the permissions whose code is selected, of all that the table holds.\<close>

definition ends_with :: "string \<Rightarrow> string \<Rightarrow> bool" where
  "ends_with suffix s = (length suffix \<le> length s \<and> drop (length s - length suffix) s = suffix)"

definition SEED_ROLE_PERMISSIONS :: "(string \<times> (string \<Rightarrow> bool)) list" where
  "SEED_ROLE_PERMISSIONS = [(''SUPER_ADMIN'', \<lambda>_. True), (''BANK_ADMIN'', \<lambda>c. c \<in> set BANK_ADMIN_CODES),
     (''DATA_CENTER_ADMIN'', \<lambda>c. c \<in> set DATA_CENTER_ADMIN_CODES), (''ROOM_ADMIN'', \<lambda>c. c \<in> set ROOM_ADMIN_CODES),
     (''RACK_ADMIN'', \<lambda>c. c \<in> set RACK_ADMIN_CODES), (''DEVICE_ADMIN'', \<lambda>c. c \<in> set DEVICE_ADMIN_CODES), (''VIEWER'', ends_with ''.view'')]"

subsection \<open>Writing them\<close>

text \<open>A loop over rows, each of which is written before the next.\<close>

fun each :: "('x \<Rightarrow> 's \<Rightarrow> command_error + 's) \<Rightarrow> 'x list \<Rightarrow> 's \<Rightarrow> (command_error + unit) \<times> 's" where
  "each f [] s = (Inr (), s)"
| "each f (x # xs) s = (case f x s of Inl y \<Rightarrow> (Inl y, s) | Inr s' \<Rightarrow> each f xs s')"

definition module_of :: "string \<Rightarrow> string" where
  "module_of code = takeWhile (\<lambda>c. c \<noteq> CHR ''.'') code"

definition new_permission :: "string \<Rightarrow> permission list \<Rightarrow> permission" where
  "new_permission code rows = \<lparr>pm_id = fresh_key pm_id rows, pm_module = module_of code, pm_code = code\<rparr>"

definition ensure_permission :: "string \<Rightarrow> permission list \<Rightarrow> command_error + permission list" where
  "ensure_permission code rows = map_sum id snd (get_or_create (\<lambda>p. pm_code p = code) (new_permission code rows) rows)"

definition refresh_permission :: "string \<Rightarrow> permission list \<Rightarrow> command_error + permission list" where
  "refresh_permission code rows =
     update_or_create pm_id (\<lambda>p. pm_code p = code) (\<lambda>p. p\<lparr>pm_module := module_of code\<rparr>) (new_permission code rows) rows"

definition put_role :: "string \<times> string \<times> role_scope \<Rightarrow> role list \<Rightarrow> command_error + role list" where
  "put_role q rows = (case q of (code, name, sc) \<Rightarrow>
     update_or_create ro_id (\<lambda>r. ro_code r = code) (\<lambda>r. r\<lparr>ro_name := name, ro_scope := sc\<rparr>)
       \<lparr>ro_id = fresh_key ro_id rows, ro_name = name, ro_code = code, ro_scope = sc\<rparr> rows)"

definition grant :: "uuid \<Rightarrow> uuid \<Rightarrow> role_permission list \<Rightarrow> command_error + role_permission list" where
  "grant k p rows = update_or_create rp_id (\<lambda>x. rp_role x = k \<and> rp_permission x = p) id
     \<lparr>rp_id = fresh_key rp_id rows, rp_role = k, rp_permission = p\<rparr> rows"

text \<open>The pairs of a role and a permission in the order of the loops; the roles are those just written.\<close>

definition role_keys :: "string \<Rightarrow> role list \<Rightarrow> uuid list" where
  "role_keys code rows = map ro_id (filter (\<lambda>r. ro_code r = code) rows)"

definition seed_grants :: "role list \<Rightarrow> permission list \<Rightarrow> (uuid \<times> uuid) list" where
  "seed_grants rs ps = concat (map (\<lambda>(code, sel). concat (map (\<lambda>k. map (\<lambda>p. (k, pm_id p)) (filter (\<lambda>p. sel (pm_code p)) ps)) (role_keys code rs)))
     SEED_ROLE_PERMISSIONS)"

definition ensure_admin :: "env \<Rightarrow> db \<Rightarrow> command_error + user \<times> db" where
  "ensure_admin e d = (case get_or_create (\<lambda>u. usr_username u = ''admin'')
       \<lparr>usr_id = fresh_key usr_id (users d), usr_username = ''admin'', usr_email = ''admin@example.com'', usr_phone = None, usr_is_active = True,
          usr_is_staff = True, usr_is_superuser = True, usr_date_joined = now e\<rparr> (users d) of
      Inl x \<Rightarrow> Inl x
    | Inr (u, rows) \<Rightarrow> Inr (u, d\<lparr>users := rows\<rparr>))"

definition global_row :: "uuid \<Rightarrow> uuid \<Rightarrow> resource_access \<Rightarrow> bool" where
  "global_row u k r = (ra_user r = u \<and> ra_organization r = None \<and> ra_data_center r = None \<and> ra_room r = None \<and> ra_rack r = None
     \<and> ra_device r = None \<and> ra_role r = k)"

definition grant_admin :: "uuid \<Rightarrow> uuid \<Rightarrow> db \<Rightarrow> command_error + db" where
  "grant_admin u k d = (let saved = (\<lambda>r. map_sum Raised id (save_access d r)) in
     case filter (global_row u k) (accesses d) of
       [] \<Rightarrow> saved \<lparr>ra_id = fresh_key ra_id (accesses d), ra_user = u, ra_organization = None, ra_data_center = None, ra_room = None,
           ra_rack = None, ra_device = None, ra_role = k, ra_assigned_by = Some u, ra_is_active = True\<rparr>
     | [r] \<Rightarrow> saved (r\<lparr>ra_assigned_by := Some u, ra_is_active := True\<rparr>)
     | _ \<Rightarrow> Inl MultipleObjectsReturned)"

text \<open>The statements of the command that write these tables, in their order.\<close>

definition seed_role_tables :: "db \<Rightarrow> (command_error + unit) \<times> db" where
  "seed_role_tables d =
     (case each ensure_permission PERMISSIONS (permissions d) of (Inl x, ps) \<Rightarrow> (Inl x, d\<lparr>permissions := ps\<rparr>) | (Inr _, ps) \<Rightarrow>
     (case each put_role SEED_ROLES (roles d) of (Inl x, rs) \<Rightarrow> (Inl x, d\<lparr>permissions := ps, roles := rs\<rparr>) | (Inr _, rs) \<Rightarrow>
     (case each refresh_permission PERMISSIONS ps of
        (Inl x, ps1) \<Rightarrow> (Inl x, d\<lparr>permissions := ps1, roles := rs\<rparr>)
      | (Inr _, ps1) \<Rightarrow> (case each (\<lambda>(k, p). grant k p) (seed_grants rs ps1) (role_permissions d) of
          (res, gs) \<Rightarrow> (res, d\<lparr>permissions := ps1, roles := rs, role_permissions := gs\<rparr>)))))"

definition seed_access :: "env \<Rightarrow> db \<Rightarrow> (command_error + unit) \<times> db" where
  "seed_access e d = (case ensure_admin e d of Inl x \<Rightarrow> (Inl x, d) | Inr (u, d1) \<Rightarrow>
     (case seed_role_tables d1 of (Inl x, d2) \<Rightarrow> (Inl x, d2) | (Inr _, d2) \<Rightarrow>
     (case role_keys ''SUPER_ADMIN'' (roles d2) of [] \<Rightarrow> (Inl (Raised KeyError), d2) | k # _ \<Rightarrow>
       (case grant_admin (usr_id u) k d2 of Inl x \<Rightarrow> (Inl x, d2) | Inr d3 \<Rightarrow> (Inr (), d3)))))"

end
