(* ===== verification/Seed_Access_Props.thy ===== *)
theory Seed_Access_Props
  imports Seed_Access Device_Setup_Props
begin

text \<open>
  What the baseline command grants: the permissions of each role after a run, and which views its roles can then open.
\<close>

subsection \<open>Tables with a column of their own\<close>

definition keyed :: "('r \<Rightarrow> uuid) \<Rightarrow> ('r \<Rightarrow> 'k) \<Rightarrow> 'r list \<Rightarrow> bool" where
  "keyed pk g rows \<longleftrightarrow> distinct (map pk rows) \<and> distinct (map g rows)"

definition key_pairs :: "('r \<Rightarrow> uuid) \<Rightarrow> ('r \<Rightarrow> 'k) \<Rightarrow> 'r list \<Rightarrow> (uuid \<times> 'k) set" where
  "key_pairs pk g rows = (\<lambda>r. (pk r, g r)) ` set rows"

text \<open>A step that puts the value \<open>v\<close> into the column and keeps the rows that are there.\<close>

definition puts :: "('r \<Rightarrow> uuid) \<Rightarrow> ('r \<Rightarrow> 'k) \<Rightarrow> 'k set \<Rightarrow> 'r list \<Rightarrow> 'r list \<Rightarrow> bool" where
  "puts pk g vs rows rows' \<longleftrightarrow> keyed pk g rows' \<and> g ` set rows' = vs \<union> g ` set rows \<and> key_pairs pk g rows \<subseteq> key_pairs pk g rows'"

lemma filter_column:
  assumes "distinct (map g rows)"
  shows "filter (\<lambda>r. g r = v) rows = [] \<and> v \<notin> g ` set rows \<or> (\<exists>r\<in>set rows. filter (\<lambda>r. g r = v) rows = [r] \<and> g r = v)"
proof (cases "filter (\<lambda>r. g r = v) rows")
  case Nil
  then show ?thesis by (auto simp: filter_empty_conv)
next
  case (Cons r rs)
  have in_r: "r \<in> set rows" "g r = v" using arg_cong [OF Cons, of set] by auto
  have "distinct (filter (\<lambda>r. g r = v) rows)" using assms by (simp add: distinct_map)
  moreover have "s = r" if "s \<in> set rs" for s
    using arg_cong [OF Cons, of set] that assms in_r by (auto simp: distinct_map dest: inj_onD)
  ultimately have "rs = []" using Cons by (metis distinct.simps(2) list.set_intros(1) neq_Nil_conv)
  then show ?thesis using Cons in_r by simp
qed

lemma keyed_insert:
  assumes "keyed pk g rows" and "pk new \<notin> pk ` set rows" and "g new = v" and "v \<notin> g ` set rows"
  shows "puts pk g {v} rows (tbl_insert new rows)"
  using assms by (auto simp: puts_def keyed_def key_pairs_def tbl_insert_def)

lemma keyed_update:
  assumes "keyed pk g rows" and "\<And>r. pk (upd r) = pk r" and "\<And>r. g (upd r) = g r" and "r \<in> set rows" and "g r = v"
  shows "puts pk g {v} rows (tbl_update pk (pk r) upd rows)"
proof -
  let ?rows = "tbl_update pk (pk r) upd rows"
  have m: "map pk ?rows = map pk rows" "map g ?rows = map g rows" "map (\<lambda>r. (pk r, g r)) ?rows = map (\<lambda>r. (pk r, g r)) rows"
    using assms(2,3) by (simp_all add: tbl_update_def)
  have "key_pairs pk g ?rows = key_pairs pk g rows" "g ` set ?rows = g ` set rows"
    using arg_cong [OF m(3), of set] arg_cong [OF m(2), of set] by (simp_all add: key_pairs_def)
  then show ?thesis using assms(1,4,5) m by (auto simp: puts_def keyed_def)
qed

lemma update_or_create_keyed:
  assumes "keyed pk g rows" and "pk new \<notin> pk ` set rows" and "g new = v" and "\<And>r. pk (upd r) = pk r" and "\<And>r. g (upd r) = g r"
  shows "\<exists>rows'. update_or_create pk (\<lambda>r. g r = v) upd new rows = Inr rows' \<and> puts pk g {v} rows rows'"
  using filter_column [of g rows v] keyed_insert [OF assms(1-3)] keyed_update [OF assms(1,4,5)] assms(1)
  by (auto simp: update_or_create_def keyed_def)

lemma get_or_create_keyed:
  assumes "keyed pk g rows" and "pk new \<notin> pk ` set rows" and "g new = v"
  shows "\<exists>r rows'. get_or_create (\<lambda>r. g r = v) new rows = Inr (r, rows') \<and> puts pk g {v} rows rows' \<and> r \<in> set rows' \<and> g r = v"
proof (cases "v \<in> g ` set rows")
  case True
  then obtain r where "r \<in> set rows" "filter (\<lambda>r. g r = v) rows = [r]" "g r = v"
    using filter_column [of g rows v] assms(1) by (auto simp: keyed_def)
  then show ?thesis using assms(1) by (auto simp: get_or_create_def puts_def)
next
  case False
  then have "filter (\<lambda>r. g r = v) rows = []" by (auto simp: filter_empty_conv)
  then show ?thesis using keyed_insert [OF assms False] assms(3) by (simp add: get_or_create_def tbl_insert_def)
qed

lemma each_puts:
  assumes "\<And>x s. x \<in> set xs \<Longrightarrow> keyed pk g s \<Longrightarrow> \<exists>s'. f x s = Inr s' \<and> puts pk g {v x} s s'" and "keyed pk g s"
  shows "\<exists>s'. each f xs s = (Inr (), s') \<and> puts pk g (v ` set xs) s s'"
  using assms
proof (induction xs arbitrary: s)
  case Nil
  then show ?case by (simp add: puts_def)
next
  case (Cons x xs)
  obtain s1 where 1: "f x s = Inr s1" "puts pk g {v x} s s1" using Cons.prems(1) [of x s] Cons.prems(2) by auto
  have "\<exists>s'. each f xs s1 = (Inr (), s') \<and> puts pk g (v ` set xs) s1 s'"
    by (rule Cons.IH) (use Cons.prems(1) 1(2) in \<open>auto simp: puts_def\<close>)
  then show ?case using 1 by (auto simp: puts_def)
qed

lemma puts_pair:
  assumes "puts pk g vs rows rows'" and "r \<in> set rows"
  obtains r' where "r' \<in> set rows'" and "pk r' = pk r" and "g r' = g r"
proof -
  have "(pk r, g r) \<in> key_pairs pk g rows" using assms(2) by (simp add: key_pairs_def)
  then have "(pk r, g r) \<in> key_pairs pk g rows'" using assms(1) by (auto simp: puts_def)
  then obtain r' where "r' \<in> set rows'" "(pk r, g r) = (pk r', g r')" unfolding key_pairs_def by (elim imageE)
  then show ?thesis using that by simp
qed

lemma puts_keyed: "puts pk g vs rows rows' \<Longrightarrow> keyed pk g rows'"
  by (simp add: puts_def)

lemma keyed_same: "keyed pk g rows \<Longrightarrow> r \<in> set rows \<Longrightarrow> s \<in> set rows \<Longrightarrow> pk r = pk s \<Longrightarrow> r = s"
  by (auto simp: keyed_def distinct_map dest: inj_onD)


subsection \<open>The command's loops\<close>

definition access_tables_ok :: "db \<Rightarrow> bool" where
  "access_tables_ok d \<longleftrightarrow> keyed pm_id pm_code (permissions d) \<and> keyed ro_id ro_code (roles d)
     \<and> keyed rp_id (\<lambda>x. (rp_role x, rp_permission x)) (role_permissions d) \<and> keyed usr_id usr_username (users d) \<and> keys_unique ra_id (accesses d)
     \<and> (\<forall>x\<in>set (role_permissions d). rp_permission x \<in> pm_id ` set (permissions d))
     \<and> (\<forall>u k. length (filter (global_row u k) (accesses d)) \<le> 1)"

lemma permissions_put:
  assumes "keyed pm_id pm_code s"
  shows "\<exists>s'. ensure_permission c s = Inr s' \<and> puts pm_id pm_code {c} s s'" and "\<exists>s'. refresh_permission c s = Inr s' \<and> puts pm_id pm_code {c} s s'"
proof -
  have new: "pm_id (new_permission c s) \<notin> pm_id ` set s" "pm_code (new_permission c s) = c" by (simp_all add: new_permission_def fresh_key_notin)
  show "\<exists>s'. ensure_permission c s = Inr s' \<and> puts pm_id pm_code {c} s s'"
    using get_or_create_keyed [OF assms new] by (auto simp: ensure_permission_def)
  show "\<exists>s'. refresh_permission c s = Inr s' \<and> puts pm_id pm_code {c} s s'"
    unfolding refresh_permission_def by (rule update_or_create_keyed [OF assms new]) simp_all
qed

lemma put_role_puts:
  assumes "keyed ro_id ro_code s"
  shows "\<exists>s'. put_role q s = Inr s' \<and> puts ro_id ro_code {fst q} s s'"
  unfolding put_role_def by (cases q) (use update_or_create_keyed [OF assms] in \<open>simp add: fresh_key_notin\<close>)

lemma grant_puts:
  assumes "keyed rp_id (\<lambda>x. (rp_role x, rp_permission x)) s"
  shows "\<exists>s'. (case q of (k, p) \<Rightarrow> grant k p) s = Inr s' \<and> puts rp_id (\<lambda>x. (rp_role x, rp_permission x)) {q} s s'"
  using update_or_create_keyed [OF assms, where upd = id and v = q and new = "\<lparr>rp_id = fresh_key rp_id s, rp_role = fst q, rp_permission = snd q\<rparr>"]
  by (cases q) (simp add: grant_def fresh_key_notin)

text \<open>A seeded role has the scope of its seed.\<close>

lemma put_role_scope:
  assumes "put_role q s = Inr s'" and "keyed ro_id ro_code s" and "r \<in> set s'"
  shows "ro_code r = fst q \<and> ro_scope r = snd (snd q) \<or> r \<in> set s \<and> ro_code r \<noteq> fst q"
proof -
  obtain c n sc where q: "q = (c, n, sc)" by (cases q)
  have same_id: "x = y" if "ro_id x = ro_id y" "x \<in> set s" "y \<in> set s" for x y using keyed_same [OF assms(2)] that by metis
  have same_code: "x = y" if "ro_code x = ro_code y" "x \<in> set s" "y \<in> set s" for x y
    using that assms(2) by (auto simp: keyed_def distinct_map dest: inj_onD)
  have "filter (\<lambda>r. ro_code r = c) s = [] \<and> c \<notin> ro_code ` set s \<or> (\<exists>r\<in>set s. filter (\<lambda>r. ro_code r = c) s = [r] \<and> ro_code r = c)"
    using assms(2) unfolding keyed_def by (intro filter_column) simp
  then show ?thesis
  proof (elim disjE conjE bexE)
    assume "filter (\<lambda>r. ro_code r = c) s = []" "c \<notin> ro_code ` set s"
    let ?new = "\<lparr>ro_id = fresh_key ro_id s, ro_name = n, ro_code = c, ro_scope = sc\<rparr>"
    have "s' = s @ [?new]" using assms(1) \<open>filter _ s = []\<close> by (simp add: q put_role_def update_or_create_def tbl_insert_def)
    then have "r = ?new \<or> r \<in> set s" using assms(3) by simp
    then show ?thesis using q \<open>c \<notin> _\<close> by (elim disjE) auto
  next
    fix x assume x: "x \<in> set s" "filter (\<lambda>r. ro_code r = c) s = [x]" "ro_code x = c"
    then have "s' = map (\<lambda>r. if ro_id r = ro_id x then r\<lparr>ro_name := n, ro_scope := sc\<rparr> else r) s"
      using assms(1) by (simp add: q put_role_def update_or_create_def tbl_update_def)
    then obtain y where y: "y \<in> set s" "r = (if ro_id y = ro_id x then y\<lparr>ro_name := n, ro_scope := sc\<rparr> else y)" using assms(3) by auto
    show ?thesis
    proof (cases "ro_id y = ro_id x")
      case True
      then show ?thesis using same_id [OF True y(1) x(1)] y(2) x(3) q by simp
    next
      case False
      then show ?thesis using same_code [OF _ y(1) x(1)] y x(3) q by auto
    qed
  qed
qed

lemma each_put_role_scope:
  assumes "each put_role qs s = (Inr (), s')" and "keyed ro_id ro_code s" and "distinct (map fst qs)" and "r \<in> set s'"
  shows "(\<exists>q\<in>set qs. ro_code r = fst q \<and> ro_scope r = snd (snd q)) \<or> r \<in> set s \<and> ro_code r \<notin> fst ` set qs"
  using assms
proof (induction qs arbitrary: s)
  case Nil
  then show ?case by simp
next
  case (Cons q qs)
  obtain s1 where 1: "put_role q s = Inr s1" "puts ro_id ro_code {fst q} s s1" using put_role_puts [OF Cons.prems(2)] by blast
  have "(\<exists>q\<in>set qs. ro_code r = fst q \<and> ro_scope r = snd (snd q)) \<or> r \<in> set s1 \<and> ro_code r \<notin> fst ` set qs"
    by (rule Cons.IH) (use Cons.prems 1 in \<open>auto simp: puts_def\<close>)
  then show ?case using put_role_scope [OF 1(1) Cons.prems(2)] by auto
qed

subsection \<open>The role tables\<close>

lemma role_codes_eq:
  "set (role_code_list d k) = {pm_code p |p. p \<in> set (permissions d) \<and> (k, pm_id p) \<in> (\<lambda>x. (rp_role x, rp_permission x)) ` set (role_permissions d)}"
  by (auto simp: role_code_list_iff image_iff; metis)

lemma seed_grants_iff:
  "(k, x) \<in> set (seed_grants rs ps) \<longleftrightarrow> (\<exists>q\<in>set SEED_ROLE_PERMISSIONS. k \<in> set (role_keys (fst q) rs) \<and> (\<exists>p\<in>set ps. x = pm_id p \<and> snd q (pm_code p)))"
  unfolding seed_grants_def by (auto simp: case_prod_unfold)

lemma role_keys_one: "keyed ro_id ro_code rs \<Longrightarrow> r \<in> set rs \<Longrightarrow> k = ro_id r \<Longrightarrow> k \<in> set (role_keys c rs) \<longleftrightarrow> c = ro_code r"
  by (auto simp: role_keys_def dest: keyed_same)

lemma puts_trans: "puts pk g vs a b \<Longrightarrow> puts pk g ws b c \<Longrightarrow> puts pk g (vs \<union> ws) a c"
  by (auto simp: puts_def)

lemma seed_role_tables_run:
  assumes "access_tables_ok d"
  obtains ps rs gs where "seed_role_tables d = (Inr (), d\<lparr>permissions := ps, roles := rs, role_permissions := gs\<rparr>)"
    and "puts pm_id pm_code (set PERMISSIONS) (permissions d) ps" and "puts ro_id ro_code (fst ` set SEED_ROLES) (roles d) rs"
    and "puts rp_id (\<lambda>x. (rp_role x, rp_permission x)) (set (seed_grants rs ps)) (role_permissions d) gs"
    and "\<forall>r\<in>set rs. \<forall>q\<in>set SEED_ROLES. ro_code r = fst q \<longrightarrow> ro_scope r = snd (snd q)"
proof -
  have ok: "keyed pm_id pm_code (permissions d)" "keyed ro_id ro_code (roles d)" "keyed rp_id (\<lambda>x. (rp_role x, rp_permission x)) (role_permissions d)"
    using assms by (simp_all add: access_tables_ok_def)
  obtain ps0 where p0: "each ensure_permission PERMISSIONS (permissions d) = (Inr (), ps0)" "puts pm_id pm_code (set PERMISSIONS) (permissions d) ps0"
    using each_puts [where f = ensure_permission and v = "\<lambda>x. x" and xs = PERMISSIONS, OF permissions_put(1) ok(1)] by auto
  obtain ps where ps: "each refresh_permission PERMISSIONS ps0 = (Inr (), ps)" "puts pm_id pm_code (set PERMISSIONS) ps0 ps"
    using each_puts [where f = refresh_permission and v = "\<lambda>x. x" and xs = PERMISSIONS, OF permissions_put(2) puts_keyed [OF p0(2)]] by auto
  obtain rs where rs: "each put_role SEED_ROLES (roles d) = (Inr (), rs)" "puts ro_id ro_code (fst ` set SEED_ROLES) (roles d) rs"
    using each_puts [where f = put_role and v = fst and xs = SEED_ROLES, OF put_role_puts ok(2)] by auto
  obtain gs where gs: "each (\<lambda>(k, p). grant k p) (seed_grants rs ps) (role_permissions d) = (Inr (), gs)"
      "puts rp_id (\<lambda>x. (rp_role x, rp_permission x)) (set (seed_grants rs ps)) (role_permissions d) gs"
    using each_puts [where f = "\<lambda>(k, p). grant k p" and v = "\<lambda>x. x" and xs = "seed_grants rs ps", OF grant_puts ok(3)] by auto
  have d: "distinct (map fst SEED_ROLES)" by (simp add: SEED_ROLES_def)
  have scopes: "ro_scope r = snd (snd q)" if "r \<in> set rs" "q \<in> set SEED_ROLES" "ro_code r = fst q" for r q
    using each_put_role_scope [OF rs(1) ok(2) d that(1)] that(2,3) d by (auto simp: distinct_map dest: inj_onD)
  have "seed_role_tables d = (Inr (), d\<lparr>permissions := ps, roles := rs, role_permissions := gs\<rparr>)"
    by (simp add: seed_role_tables_def p0(1) ps(1) rs(1) gs(1))
  then show ?thesis using that puts_trans [OF p0(2) ps(2)] rs(2) gs(2) scopes by (simp add: Un_absorb)
qed

text \<open>The codes of a role afterwards: those its rule selects, and those it had.\<close>

lemma granted_codes:
  assumes p: "puts pm_id pm_code vs (permissions d) ps" and rs: "keyed ro_id ro_code rs" "r \<in> set rs"
    and g: "puts rp_id (\<lambda>x. (rp_role x, rp_permission x)) (set (seed_grants rs ps)) (role_permissions d) gs"
    and sel: "map_of SEED_ROLE_PERMISSIONS (ro_code r) = Some sel" and fk: "\<forall>x\<in>set (role_permissions d). rp_permission x \<in> pm_id ` set (permissions d)"
    and d': "permissions d' = ps" "role_permissions d' = gs"
  shows "set (role_code_list d' (ro_id r)) = {c \<in> pm_code ` set ps. sel c} \<union> set (role_code_list d (ro_id r))"
proof -
  let ?q = "\<lambda>x. (rp_role x, rp_permission x)"
  have same: "p = p'" if "p \<in> set ps" "p' \<in> set ps" "pm_id p = pm_id p'" for p p' using keyed_same [OF puts_keyed [OF p]] that by metis
  have dist: "distinct (map fst SEED_ROLE_PERMISSIONS)" by (simp add: SEED_ROLE_PERMISSIONS_def)
  have new: "(ro_id r, pm_id p) \<in> set (seed_grants rs ps) \<longleftrightarrow> sel (pm_code p)" if "p \<in> set ps" for p
  proof -
    have "(ro_id r, pm_id p) \<in> set (seed_grants rs ps) \<longleftrightarrow> (\<exists>q\<in>set SEED_ROLE_PERMISSIONS. fst q = ro_code r \<and> snd q (pm_code p))"
      unfolding seed_grants_iff using role_keys_one [OF rs(1,2) refl] same that by metis
    also have "\<dots> \<longleftrightarrow> sel (pm_code p)" using sel dist by (metis fst_conv map_of_SomeD map_of_is_SomeI option.inject prod.collapse snd_conv)
    finally show ?thesis .
  qed
  have old: "pm_code p \<in> set (role_code_list d (ro_id r))" if x: "p \<in> set ps" "x \<in> set (role_permissions d)" "(ro_id r, pm_id p) = ?q x" for p x
  proof -
    obtain p0 where p0: "p0 \<in> set (permissions d)" "pm_id p0 = pm_id p" using fk x(2,3) by force
    obtain p1 where "p1 \<in> set ps" "pm_id p1 = pm_id p0" "pm_code p1 = pm_code p0" by (rule puts_pair [OF p p0(1)])
    then have "pm_code p0 = pm_code p" using same x(1) p0(2) by metis
    moreover have "(ro_id r, pm_id p0) \<in> ?q ` set (role_permissions d)" using x(2,3) p0(2) by auto
    ultimately show ?thesis unfolding role_codes_eq using p0(1) by (intro CollectI exI [of _ p0]) simp
  qed
  have kept: "\<exists>p'\<in>set ps. pm_code p' = pm_code p \<and> pm_id p' = pm_id p" if "p \<in> set (permissions d)" for p
    by (rule puts_pair [OF p that]) blast
  have eq: "?q ` set gs = set (seed_grants rs ps) \<union> ?q ` set (role_permissions d)" using g by (simp add: puts_def)
  show ?thesis
  proof (intro equalityI subsetI)
    fix c assume "c \<in> set (role_code_list d' (ro_id r))"
    then obtain p where h: "c = pm_code p" "p \<in> set ps" "(ro_id r, pm_id p) \<in> ?q ` set gs" unfolding role_codes_eq d' by blast
    then show "c \<in> {c \<in> pm_code ` set ps. sel c} \<union> set (role_code_list d (ro_id r))" unfolding eq using new old by blast
  next
    fix c assume "c \<in> {c \<in> pm_code ` set ps. sel c} \<union> set (role_code_list d (ro_id r))"
    then have "\<exists>p\<in>set ps. c = pm_code p \<and> (ro_id r, pm_id p) \<in> ?q ` set gs"
    proof
      assume "c \<in> {c \<in> pm_code ` set ps. sel c}"
      then show ?thesis unfolding eq using new by blast
    next
      assume "c \<in> set (role_code_list d (ro_id r))"
      then obtain p0 where p0: "c = pm_code p0" "p0 \<in> set (permissions d)" "(ro_id r, pm_id p0) \<in> ?q ` set (role_permissions d)"
        unfolding role_codes_eq by blast
      obtain p1 where "p1 \<in> set ps" "pm_code p1 = pm_code p0" "pm_id p1 = pm_id p0" using kept [OF p0(2)] by blast
      then show ?thesis unfolding eq using p0(1,3) by (intro bexI [of _ p1]) simp_all
    qed
    then show "c \<in> set (role_code_list d' (ro_id r))" unfolding role_codes_eq d' by blast
  qed
qed

lemma save_global:
  assumes "map_option ro_scope (role_of d (ra_role r)) = Some SCOPE_GLOBAL" and "global_row u k r"
  obtains rows where "save_access d r = Inr (d\<lparr>accesses := rows\<rparr>)"
proof -
  have none: "ra_organization r = None" "ra_data_center r = None" "ra_room r = None" "ra_rack r = None" "ra_device r = None"
    using assms(2) by (simp_all add: global_row_def)
  have "clean_access d r = Inr r"
    by (simp add: clean_access_def scope_errors_def hierarchy_errors_def final_errors_def none assms(1) del: map_option_eq_Some)
  then have "\<exists>rows. save_access d r = Inr (d\<lparr>accesses := rows\<rparr>)" by (simp add: save_access_def uq_user_resource_access_def none) blast
  then show ?thesis using that by blast
qed

lemma grant_admin_ok:
  assumes "role_of d k = Some ro" and "ro_scope ro = SCOPE_GLOBAL" and "length (filter (global_row u k) (accesses d)) \<le> 1"
  obtains rows where "grant_admin u k d = Inr (d\<lparr>accesses := rows\<rparr>)"
proof -
  have save: "\<exists>rows. map_sum Raised id (save_access d r) = Inr (d\<lparr>accesses := rows\<rparr>)" if "global_row u k r" for r
    by (rule save_global [OF _ that]) (use that assms(1,2) in \<open>auto simp: global_row_def\<close>)
  have "\<exists>rows. grant_admin u k d = Inr (d\<lparr>accesses := rows\<rparr>)"
  proof (cases "filter (global_row u k) (accesses d)")
    case Nil
    then show ?thesis unfolding grant_admin_def Let_def by (simp only: list.case) (rule save, simp add: global_row_def)
  next
    case (Cons r rs)
    have "global_row u k r" using arg_cong [OF Cons, of set] by auto
    moreover have "rs = []" using assms(3) Cons by simp
    ultimately show ?thesis unfolding grant_admin_def Let_def using Cons by (simp only: list.case) (rule save, simp add: global_row_def)
  qed
  then show ?thesis using that by blast
qed

lemma access_tables_users: "access_tables_ok d \<Longrightarrow> keyed usr_id usr_username us \<Longrightarrow> access_tables_ok (d\<lparr>users := us\<rparr>)"
  by (simp add: access_tables_ok_def)

lemma seed_access_run:
  assumes "access_tables_ok d"
  obtains d' where "seed_access e d = (Inr (), d')"
    and "puts pm_id pm_code (set PERMISSIONS) (permissions d) (permissions d')" and "puts ro_id ro_code (fst ` set SEED_ROLES) (roles d) (roles d')"
    and "puts rp_id (\<lambda>x. (rp_role x, rp_permission x)) (set (seed_grants (roles d') (permissions d'))) (role_permissions d) (role_permissions d')"
    and "\<forall>r\<in>set (roles d'). \<forall>q\<in>set SEED_ROLES. ro_code r = fst q \<longrightarrow> ro_scope r = snd (snd q)"
proof -
  let ?new = "\<lparr>usr_id = fresh_key usr_id (users d), usr_username = ''admin'', usr_email = ''admin@example.com'', usr_phone = None,
    usr_is_active = True, usr_is_staff = True, usr_is_superuser = True, usr_date_joined = now e\<rparr>"
  have "\<exists>u us. get_or_create (\<lambda>u. usr_username u = ''admin'') ?new (users d) = Inr (u, us) \<and> puts usr_id usr_username {''admin''} (users d) us
      \<and> u \<in> set us \<and> usr_username u = ''admin''"
    by (rule get_or_create_keyed) (use assms in \<open>simp_all add: access_tables_ok_def fresh_key_notin\<close>)
  then obtain u us where u: "get_or_create (\<lambda>u. usr_username u = ''admin'') ?new (users d) = Inr (u, us)" "puts usr_id usr_username {''admin''} (users d) us"
    by blast
  let ?d1 = "d\<lparr>users := us\<rparr>"
  have admin: "ensure_admin e d = Inr (u, ?d1)" by (simp add: ensure_admin_def u(1))
  have ok1: "access_tables_ok ?d1" by (rule access_tables_users [OF assms puts_keyed [OF u(2)]])
  obtain ps rs gs where t: "seed_role_tables ?d1 = (Inr (), ?d1\<lparr>permissions := ps, roles := rs, role_permissions := gs\<rparr>)"
    "puts pm_id pm_code (set PERMISSIONS) (permissions ?d1) ps" "puts ro_id ro_code (fst ` set SEED_ROLES) (roles ?d1) rs"
    "puts rp_id (\<lambda>x. (rp_role x, rp_permission x)) (set (seed_grants rs ps)) (role_permissions ?d1) gs"
    and scopes: "\<forall>r\<in>set rs. \<forall>q\<in>set SEED_ROLES. ro_code r = fst q \<longrightarrow> ro_scope r = snd (snd q)"
    by (rule seed_role_tables_run [OF ok1])
  let ?d2 = "?d1\<lparr>permissions := ps, roles := rs, role_permissions := gs\<rparr>"
  have rs: "keyed ro_id ro_code rs" "''SUPER_ADMIN'' \<in> ro_code ` set rs" using t(3) by (auto simp: puts_def SEED_ROLES_def)
  then obtain r where r: "r \<in> set rs" "filter (\<lambda>r. ro_code r = ''SUPER_ADMIN'') rs = [r]" "ro_code r = ''SUPER_ADMIN''"
    using filter_column [of ro_code rs "''SUPER_ADMIN''"] by (auto simp: keyed_def)
  have "ro_scope r = SCOPE_GLOBAL" using bspec [OF bspec [OF scopes r(1)], of "(''SUPER_ADMIN'', ''Super Admin'', SCOPE_GLOBAL)"] r(3) by (simp add: SEED_ROLES_def)
  moreover have "role_of ?d2 (ro_id r) = Some r"
    using tbl_get_unique [of ro_id rs r] rs(1) r(1) by (simp add: role_of_def keyed_def keys_unique_def)
  moreover have "length (filter (global_row (usr_id u) (ro_id r)) (accesses ?d2)) \<le> 1" using assms by (simp add: access_tables_ok_def)
  ultimately obtain rows where rows: "grant_admin (usr_id u) (ro_id r) ?d2 = Inr (?d2\<lparr>accesses := rows\<rparr>)" using grant_admin_ok by metis
  have run: "seed_access e d = (Inr (), ?d2\<lparr>accesses := rows\<rparr>)"
    by (simp add: seed_access_def admin t(1) role_keys_def r(2) rows)
  show ?thesis by (rule that [OF run]) (use t(2-4) scopes in simp_all)
qed

lemma seed_roles_selected: "q \<in> set SEED_ROLES \<Longrightarrow> \<exists>sel. map_of SEED_ROLE_PERMISSIONS (fst q) = Some sel"
  by (auto simp: SEED_ROLES_def SEED_ROLE_PERMISSIONS_def)


lemma empty_tables_ok: "access_tables_ok empty_db"
  by (simp add: access_tables_ok_def keyed_def keys_unique_def empty_db_def)


subsection \<open>Which views the roles open\<close>

lemma verb_known: "permission_verb q pmod \<in> {''view'', ''create'', ''update'', ''delete'', ''generate'', ''download'', ''acknowledge'', ''resolve''} \<or> pmod = ''access''"
proof -
  have "v \<in> {''view'', ''create'', ''update'', ''delete'', ''generate'', ''download'', ''acknowledge'', ''resolve''}"
    if "dict_get ACTION_PERMISSION_MAP act = Some v" for act v
    using that by (auto simp: ACTION_PERMISSION_MAP_def split: if_splits)
  then show ?thesis by (auto simp: permission_verb_def Let_def split: option.splits)
qed

text \<open>No permission of the list is one the views of traps or of credentials ask for, and none that the roles of a room, a rack or a device get
  is one the views of sites ask for.\<close>

lemma codes_not_asked:
  "''traps'' @ ''.'' @ v \<notin> set PERMISSIONS" "v \<noteq> ''manage'' \<Longrightarrow> ''device.credential'' @ ''.'' @ v \<notin> set PERMISSIONS"
  "''datacenter'' @ ''.'' @ v \<notin> set ROOM_ADMIN_CODES" "''datacenter'' @ ''.'' @ v \<notin> set RACK_ADMIN_CODES" "''datacenter'' @ ''.'' @ v \<notin> set DEVICE_ADMIN_CODES"
  by (simp_all add: PERMISSIONS_def ROOM_ADMIN_CODES_def RACK_ADMIN_CODES_def DEVICE_ADMIN_CODES_def)

lemma site_roles_selected:
  "map_of SEED_ROLE_PERMISSIONS c = Some sel \<Longrightarrow> c \<in> {''ROOM_ADMIN'', ''RACK_ADMIN'', ''DEVICE_ADMIN''} \<Longrightarrow> \<not> sel (''datacenter'' @ ''.'' @ v)"
  using codes_not_asked(3-5) by (auto simp: SEED_ROLE_PERMISSIONS_def)

definition opened_by :: "db \<Rightarrow> user \<Rightarrow> string \<Rightarrow> bool" where
  "opened_by d u code = (code \<in> set PERMISSIONS \<and> (\<exists>x\<in>set (get_user_resource_access_rows d (Some u)). \<exists>r\<in>set (roles d).
     ro_id r = ra_role x \<and> (case map_of SEED_ROLE_PERMISSIONS (ro_code r) of None \<Rightarrow> False | Some sel \<Rightarrow> sel code)))"

lemma opened_by_iff:
  "opened_by d u code \<longleftrightarrow> code \<in> set PERMISSIONS \<and> (\<exists>x\<in>set (get_user_resource_access_rows d (Some u)). \<exists>r\<in>set (roles d).
     ro_id r = ra_role x \<and> (\<exists>sel. map_of SEED_ROLE_PERMISSIONS (ro_code r) = Some sel \<and> sel code))"
proof -
  have "(case x of None \<Rightarrow> False | Some sel \<Rightarrow> sel code) \<longleftrightarrow> (\<exists>sel. x = Some sel \<and> sel code)" for x :: "(string \<Rightarrow> bool) option"
    by (cases x) simp_all
  then show ?thesis by (simp only: opened_by_def)
qed

lemma seeded_codes:
  assumes "puts pm_id pm_code (set PERMISSIONS) (permissions d) (permissions d')" and "puts ro_id ro_code vs (roles d) (roles d')"
    and "puts rp_id (\<lambda>x. (rp_role x, rp_permission x)) (set (seed_grants (roles d') (permissions d'))) [] (role_permissions d')"
    and "pm_code ` set (permissions d) \<subseteq> set PERMISSIONS"
  shows "c \<in> set (role_code_list d' k) \<longleftrightarrow>
    c \<in> set PERMISSIONS \<and> (\<exists>r\<in>set (roles d'). ro_id r = k \<and> (\<exists>sel. map_of SEED_ROLE_PERMISSIONS (ro_code r) = Some sel \<and> sel c))"
proof -
  have codes: "pm_code ` set (permissions d') = set PERMISSIONS" using assms(1,4) by (auto simp: puts_def)
  have same: "p = p'" if "p \<in> set (permissions d')" "p' \<in> set (permissions d')" "pm_id p = pm_id p'" for p p'
    using keyed_same [OF puts_keyed [OF assms(1)]] that by metis
  have dist: "distinct (map fst SEED_ROLE_PERMISSIONS)" by (simp add: SEED_ROLE_PERMISSIONS_def)
  have "c \<in> set (role_code_list d' k) \<longleftrightarrow> (\<exists>p\<in>set (permissions d'). c = pm_code p \<and> (k, pm_id p) \<in> set (seed_grants (roles d') (permissions d')))"
    unfolding role_codes_eq using assms(3) by (auto simp: puts_def)
  also have "\<dots> \<longleftrightarrow> (\<exists>p\<in>set (permissions d'). c = pm_code p \<and> (\<exists>q\<in>set SEED_ROLE_PERMISSIONS. k \<in> set (role_keys (fst q) (roles d')) \<and> snd q c))"
    unfolding seed_grants_iff using same by metis
  also have "\<dots> \<longleftrightarrow> c \<in> set PERMISSIONS \<and> (\<exists>q\<in>set SEED_ROLE_PERMISSIONS. k \<in> set (role_keys (fst q) (roles d')) \<and> snd q c)"
    unfolding codes [symmetric] by blast
  also have "\<dots> \<longleftrightarrow> c \<in> set PERMISSIONS \<and> (\<exists>r\<in>set (roles d'). ro_id r = k \<and> (\<exists>sel. (ro_code r, sel) \<in> set SEED_ROLE_PERMISSIONS \<and> sel c))"
    by (auto simp: role_keys_def Bex_def)
  finally show ?thesis using dist by (simp add: map_of_eq_Some_iff)
qed


text \<open>A device administrator after a run: devices are listed, racks and traps are refused.\<close>

definition device_admin_db :: db where
  "device_admin_db = empty_db
     \<lparr>roles := [\<lparr>ro_id = 5, ro_name = ''Device Admin'', ro_code = ''DEVICE_ADMIN'', ro_scope = SCOPE_DEVICE\<rparr>],
      accesses := [blank_access\<lparr>ra_id := 50, ra_user := 9, ra_device := Some 40, ra_role := 5\<rparr>]\<rparr>"

definition listing :: "string \<Rightarrow> view_request" where
  "listing pmod = \<lparr>req_user = Some user_nine, req_safe_method = True, view_action = Some ''list'', view_permission_module = Some pmod\<rparr>"


end
