(* ===== verification/Spec2Isabelle.thy ===== *)
theory Spec2Isabelle
  imports Access_Rows Alert_Engine_Props Escalation Delivery_Workers Telemetry_Props Snmp_Poll_Props Modbus_Poll_Props Pac_Props Report_Rows_Props Report_Delivery_Props Telemetry_History_Props Alert_Summary_Props Report_Api_Props Device_Setup_Props Notification_Command_Props Audited_View_Props Seed_Command_Props Seed_Rule_Props Netbotz_Props Trap_Seed_Props Seed_Access_Props
begin

text \<open>
  \<^bold>\<open>The program.\<close> The Dhaka Bank DCIM backend is a Django service that monitors data centers. Devices
  are polled over SNMP and Modbus (\<open>collectors/\<close>) or report through the REST API; a reading becomes a
  row of the telemetry history and the latest row of its device and metric (\<open>apps/telemetry\<close>). Each new
  latest row is evaluated against the alert rules of its organization (\<open>apps/alerts/services/engine.py\<close>);
  an alert opens, is updated, suppressed or resolved, and notifications are created for the users whose
  access rows cover the device (\<open>apps/alerts/services/notifications.py\<close>, \<open>apps/common/access.py\<close>). A
  periodic check escalates alerts nobody acknowledged (\<open>escalation.py\<close>), and workers deliver
  notifications by e-mail, SMS and webhook (\<open>apps/notifications/services\<close>).

  \<^bold>\<open>Shape of the model.\<close> The database is one record of tables (\<open>db\<close>); a Django model is a record with
  the model's columns, an enumeration a datatype, a foreign key the key of the row it names. A function
  that writes takes the database and returns it updated; an exception is \<open>Inl\<close> of an \<open>exn\<close>, and the
  database beside it is what was written before the raise. \<open>transaction.atomic\<close> is \<open>atomic\<close>, which takes
  the writes back. What a handler reads from outside (one reading of the clock per call, the text of
  floats and of datetimes, the availability of the cache, the rounding of doubles and of the Decimal
  context) is the record \<open>env\<close>. Times are integers in microseconds, floats and Decimals the rationals
  they denote; NaN and the infinities are left out. The cache is a map with expiry times; the mail
  server, the HTTP client, the XML parser and the lost insert races are arguments of the functions that
  use them. All recursion is structural or over a finite list, so no definition needs fuel.

  \<^bold>\<open>Theories.\<close>
  \<^item> \<open>Dcim_Prelude\<close>: keys, times, exceptions, Python strings, ordered querysets, tables; the locales
    \<open>keyed_table\<close> (rows found and updated by key), \<open>validated_table\<close> (saves that validate) and
    \<open>upsert_table\<close> (\<open>update_or_create\<close>). \<open>Py_Value\<close>: dynamic values, dicts, number literals.
    \<open>Dcim_Models\<close>: the tables, \<open>atomic\<close>, and the interpretations of \<open>keyed_table\<close>.
  \<^item> \<open>Access_Scope\<close> (\<open>apps/common/access.py\<close>, \<open>permissions.py\<close>): what a user reaches and may do: the
    devices reached are exactly those an active access row covers; the scope is closed upwards.
    \<open>Access_Rows\<close> (\<open>apps/access_control/models.py\<close>): validation and back-filling of access rows.
  \<^item> \<open>Alert_Rules\<close> (\<open>apps/alerts/models.py\<close>): validated saves keep rules, policies and windows well-formed
    and free of duplicates. \<open>Rule_Match\<close> (\<open>engine.py\<close>, \<open>cache.py\<close>): the cached selection of rules refines
    the direct query, and every write of a rule keeps the cache coherent.
  \<^item> \<open>Alert_Engine\<close>, \<open>Alert_Evaluate\<close> (\<open>engine.py\<close>, \<open>evaluator.py\<close>): the operations on alerts and the
    evaluation of rows. \<open>Alert_Invariants\<close>: one active alert per rule, device and metric, and the
    history that only grows, for every operation; the locale \<open>notifier\<close> says what the engine relies on
    in the notifications. \<open>Alert_Engine_Props\<close>: evaluation as a whole, and the engine's behaviours.
  \<^item> \<open>Alert_Notify\<close>, \<open>Alert_Notify_Props\<close> (\<open>notifications.py\<close>): recipients, deduplication, escalation
    recipients. \<open>Escalation\<close> (\<open>escalation.py\<close>): an alert is escalated once per policy.
  \<^item> \<open>Sms\<close>, \<open>Delivery\<close>, \<open>Delivery_Props\<close>, \<open>Delivery_Workers\<close> (\<open>apps/notifications\<close>): the channels, the
    task on every branch, and concurrent workers as a step relation with the exclusion invariant.
  \<^item> \<open>Normalization\<close>, \<open>Normalization_Props\<close> (\<open>collectors/common/snmp_normalization.py\<close>,
    \<open>value_converter.py\<close>): from a raw reading to a value column and a quality, on both collectors.
  \<^item> \<open>Telemetry_Writer\<close>, \<open>Telemetry_Props\<close> (\<open>telemetry_writer.py\<close>, \<open>apps/telemetry/services\<close>): batches
    are stored whole or not at all; one latest row per device and metric, the last one written.
  \<^item> \<open>Polling\<close>, \<open>Polling_Props\<close> (\<open>collectors/scheduler/tasks.py\<close> and the runtimes of the collectors): which
    devices a scheduler run queues, and the mappings a poll loads. \<open>Locks\<close> (\<open>collectors/common/locks.py\<close>):
    lock holders as a step relation, with mutual exclusion while the locks live.
  \<^item> \<open>Snmp_Client\<close>, \<open>Engine_Frame\<close>, \<open>Snmp_Poll\<close>, \<open>Snmp_Poll_Props\<close> (\<open>collectors/snmp_collector\<close>): the client, what
    evaluation leaves alone, and a poll of a device; it fails exactly when no OID succeeds or a reading is refused.
  \<^item> \<open>Modbus_Registers\<close>, \<open>Modbus_Poll\<close>, \<open>Modbus_Poll_Props\<close> (\<open>collectors/modbus_collector\<close>): decoding of registers
    on words, a poll with its two locks, what it stores and counts.
  \<^item> \<open>Trap_Receiver\<close>, \<open>Trap_Props\<close>, \<open>Pac_Alarms\<close>, \<open>Pac_Props\<close> (\<open>collectors/snmp_trap_receiver\<close>): the datagram
    callback, the processing of a trap, and the confirmation of PAC alarms by reading their OIDs.
  \<^item> \<open>Audit_Trail\<close> (\<open>apps/common/audit.py\<close>): redaction of audited values and the entry that is written.
  \<^item> \<open>Calendar\<close>: days and months of the proleptic Gregorian calendar. \<open>Report_Keys\<close> (\<open>apps/reports/constants.py\<close>):
    the report vocabulary. \<open>Report_Schedules\<close>, \<open>Report_Schedule_Props\<close> (\<open>apps/reports/models.py\<close>,
    \<open>services/schedules.py\<close>): next runs, windows, validation and the claim of the due schedules.
    \<open>Report_Params\<close>, \<open>Report_Rows\<close>, \<open>Report_Export\<close> (\<open>services/generator.py\<close>): parameters, date ranges, scopes,
    the rows of the reports and their CSV text, which a reader gives back. \<open>Report_Rows_Props\<close>: what the rows may show.
  \<^item> \<open>Report_Jobs\<close>, \<open>Report_Job_Props\<close> (\<open>services/generator.py\<close>, \<open>views.py\<close>): the life of a job, as the steps of its
    generation and the requests of users; what other transactions do meanwhile is an argument. \<open>Report_Delivery\<close>,
    \<open>Report_Delivery_Props\<close> (\<open>services/schedules.py\<close>): building and sending a scheduled report.
  \<^item> \<open>Report_Api\<close>, \<open>Report_Clock\<close>, \<open>Report_Api_Props\<close> (\<open>apps/reports/serializers.py\<close>): what the requests for templates,
    jobs and schedules are checked for and store; times of day are read back in both notations.
  \<^item> \<open>Telemetry_History\<close>, \<open>Telemetry_History_Props\<close> (\<open>apps/telemetry/views.py\<close>, \<open>serializers.py\<close>): the history of a metric in
    hours or days. \<open>Alert_Summary\<close>, \<open>Alert_Summary_Props\<close> (\<open>apps/alerts/services/summary.py\<close>, \<open>apps/alerts/views.py\<close>): the
    dashboard, and the requests that acknowledge or resolve an alert.
  \<^item> \<open>Audited_Views\<close>, \<open>Audited_View_Props\<close> (\<open>apps/common/viewsets.py\<close>): the write requests of the views with their
    permission, their row and their audit entry, for alert rules and report templates.
  \<^item> \<open>Device_Setup\<close>, \<open>Device_Setup_Props\<close> (\<open>set_device_snmp.py\<close>, \<open>set_device_modbus.py\<close>): what a device needs to be polled,
    and that the poller then reads what was given. \<open>Notification_Commands\<close>, \<open>Notification_Command_Props\<close>
    (\<open>apps/notifications/management/commands\<close>): the operator's commands on notifications.
  \<^item> \<open>Seed_Commands\<close>, \<open>Seed_Command_Props\<close>, \<open>Seed_Rule_Props\<close> (\<open>seed_report_templates.py\<close>, \<open>seed_pac_alert_rules.py\<close>,
    \<open>seed_alert_rules.py\<close>): the standard templates and rules, which the generator and the trap handler can use.
  \<^item> \<open>Oid_Tables\<close>, \<open>Oid_Scripts\<close>, \<open>Oid_Seeds\<close> (\<open>scripts/seed_*_oids.py\<close>, \<open>seed_apc_ap8853_pdu_metrics.py\<close>): the tables of metrics and
    SNMP identifiers of the supported devices and the scripts that write them. \<open>Oid_Seed_Props\<close>: one run leaves each row once, the next
    changes nothing, for every script through one locale. \<open>Oid_Reading_Props\<close>: what the poller makes of the identifiers.
    \<open>Netbotz_Props\<close>: the script with two loops is that with one. \<open>Trap_Seeds\<close>, \<open>Trap_Seed_Props\<close>: the same for traps.
  \<^item> \<open>Seed_Access\<close>, \<open>Seed_Access_Props\<close> (\<open>seed_dcim.py\<close>): the roles and permissions of the baseline command, and the views
    that they open under the permission class.

  \<^bold>\<open>Not modelled.\<close> the fields of the serializers that are only shown; the demonstration sites and devices of \<open>seed_dcim.py\<close>,
  migrations, routing and admin registration, which are constant data or glue. Of Django the model keeps what the code relies
  on: the per-field checks of \<open>full_clean\<close> are written out for report schedules only.
\<close>

end
